(* ===== verification/Prelude.thy ===== *)
theory Prelude
  imports Complex_Main
begin

text \<open>
  Shared ground of the development: the exceptions and results every component uses, the
  number conventions, the generic transition-system locale, and the lemmas on lists, sums
  and numbers that several components need.

  Numbers. Python's \<open>int\<close> is \<open>int\<close>. Python's \<open>float\<close> and \<open>Decimal\<close>
  and Postgres' \<open>numeric\<close> are \<open>rat\<close>: the model computes with exact
  rationals, so rounding of binary or decimal floating point is outside it. Clock readings
  and fresh identifiers (\<open>time.monotonic()\<close>, \<open>uuid4()\<close>) are arguments.
\<close>

type_synonym ms = rat

datatype exn =
    ValueError string
  | RuntimeError string
  | TypeError string
  | KeyError string
  | TimeoutError
  | QueueClosed string
  | WebSocketDisconnect
  | ConnectionLost string
  | ProviderError string
  | NormalizationError string string
  | AttributeError string
  | InvalidOperation string
  | PostgresError string
  | OSError string
  | ActivityError string
  | AssertionFailed
  | ZeroDivisionError
  | CancelledError

type_synonym 'a res = "exn + 'a"

text \<open>Sequencing of fallible steps: the first exception ends the sequence.\<close>

definition bindE :: "('e + 'a) \<Rightarrow> ('a \<Rightarrow> 'e + 'b) \<Rightarrow> 'e + 'b" where
  "bindE m f = (case m of Inl e \<Rightarrow> Inl e | Inr x \<Rightarrow> f x)"

lemma bindE_simps [simp]:
  "bindE (Inl e) f = Inl e"
  "bindE (Inr x) f = f x"
  by (simp_all add: bindE_def)

lemma bindE_cong [fundef_cong]:
  "m = m' \<Longrightarrow> (\<And>x. m' = Inr x \<Longrightarrow> f x = g x) \<Longrightarrow> bindE m f = bindE m' g"
  by (simp add: bindE_def split: sum.split)

lemma bindE_eq_Inr: "bindE m f = Inr y \<longleftrightarrow> (\<exists>x. m = Inr x \<and> f x = Inr y)"
  by (simp add: bindE_def split: sum.split)

lemma bindE_eq_Inl: "bindE m f = Inl e \<longleftrightarrow> m = Inl e \<or> (\<exists>x. m = Inr x \<and> f x = Inl e)"
  by (simp add: bindE_def split: sum.split)

lemma bindE_Inr_right [simp]: "bindE m Inr = m"
  by (simp add: bindE_def split: sum.split)

lemma bindE_assoc: "bindE (bindE m f) g = bindE m (\<lambda>x. bindE (f x) g)"
  by (simp add: bindE_def split: sum.split)

text \<open>A fallible loop over a list: \<open>for x in xs: s = f(s, x)\<close>, ended by the first exception.\<close>

fun foldE :: "('s \<Rightarrow> 'a \<Rightarrow> 'e + 's) \<Rightarrow> 's \<Rightarrow> 'a list \<Rightarrow> 'e + 's" where
  "foldE f s [] = Inr s"
| "foldE f s (x # xs) = bindE (f s x) (\<lambda>s'. foldE f s' xs)"

lemma foldE_append: "foldE f s (xs @ ys) = bindE (foldE f s xs) (\<lambda>s'. foldE f s' ys)"
  by (induction xs arbitrary: s) (auto simp: bindE_assoc)

lemma foldE_invariant:
  assumes "foldE f s xs = Inr s'" and "I s"
    and "\<And>s x s'. x \<in> set xs \<Longrightarrow> I s \<Longrightarrow> f s x = Inr s' \<Longrightarrow> I s'"
  shows "I s'"
  using assms
proof (induction xs arbitrary: s)
  case Nil
  then show ?case by simp
next
  case (Cons x xs)
  from Cons.prems(1) obtain s1 where s1: "f s x = Inr s1" and rest: "foldE f s1 xs = Inr s'"
    by (auto simp: bindE_eq_Inr)
  have "I s1" using Cons.prems(2,3) s1 by auto
  then show ?case using Cons.IH [OF rest] Cons.prems(3) by auto
qed

subsection \<open>Transition systems and their invariants\<close>

text \<open>
  Every stateful component is a set of start states and a step relation. A state is
  \<open>reachable\<close> when a finite run leads to it. The locale names the contract every
  invariant proof has to meet; each component interprets it on its own step relation.
\<close>

inductive reachable :: "('s \<Rightarrow> bool) \<Rightarrow> ('s \<Rightarrow> 's \<Rightarrow> bool) \<Rightarrow> 's \<Rightarrow> bool"
  for I :: "'s \<Rightarrow> bool" and R :: "'s \<Rightarrow> 's \<Rightarrow> bool" where
  reachable_init: "I s \<Longrightarrow> reachable I R s"
| reachable_step: "reachable I R s \<Longrightarrow> R s t \<Longrightarrow> reachable I R t"

locale invariant_system =
  fixes start :: "'s \<Rightarrow> bool"
    and step :: "'s \<Rightarrow> 's \<Rightarrow> bool"
    and inv :: "'s \<Rightarrow> bool"
  assumes start_inv: "start s \<Longrightarrow> inv s"
    and step_inv: "inv s \<Longrightarrow> step s t \<Longrightarrow> inv t"
begin

lemma reachable_inv: "reachable start step s \<Longrightarrow> inv s"
  by (induction rule: reachable.induct) (auto intro: start_inv step_inv)

lemma run_inv: "step\<^sup>*\<^sup>* s t \<Longrightarrow> inv s \<Longrightarrow> inv t"
  by (induction rule: rtranclp_induct) (auto intro: step_inv)

end

lemma reachable_run: "R\<^sup>*\<^sup>* s t \<Longrightarrow> reachable I R s \<Longrightarrow> reachable I R t"
  by (induction rule: rtranclp_induct) (auto intro: reachable_step)

subsection \<open>Lists, sums and numbers\<close>

lemma sum_list_map_nonneg: "(\<And>x. x \<in> set xs \<Longrightarrow> 0 \<le> (f x :: rat)) \<Longrightarrow> 0 \<le> sum_list (map f xs)"
  by (induction xs) auto

lemma sum_list_filter_split:
  "sum_list (map f (filter P xs)) + sum_list (map f (filter (\<lambda>x. \<not> P x) xs)) = (sum_list (map f xs) :: rat)"
  by (induction xs) (auto simp: algebra_simps)

lemma map_of_filter_key: "map_of (filter (\<lambda>(k', v). k' \<noteq> k) xs) k = None"
  by (induction xs) auto

text \<open>Python's \<open>round\<close> to an integer: ties go to the even neighbour.\<close>

definition round_half_even :: "rat \<Rightarrow> int" where
  "round_half_even x =
     (let f = \<lfloor>x\<rfloor>; r = x - of_int f
      in if r < 1/2 then f else if r > 1/2 then f + 1 else if even f then f else f + 1)"

lemma round_half_even_error: "\<bar>of_int (round_half_even x) - x\<bar> \<le> 1/2"
proof -
  have "of_int \<lfloor>x\<rfloor> \<le> x" "x < of_int \<lfloor>x\<rfloor> + 1" by linarith+
  then show ?thesis
    by (simp add: round_half_even_def Let_def abs_le_iff)
qed

lemma round_half_even_of_int [simp]: "round_half_even (of_int n) = n"
  by (simp add: round_half_even_def)

text \<open>\<open>Decimal.quantize(Decimal("1"), rounding=ROUND_HALF_UP)\<close>: ties go away from zero.\<close>

definition round_half_up :: "rat \<Rightarrow> int" where
  "round_half_up x = (if 0 \<le> x then \<lfloor>x + 1/2\<rfloor> else - \<lfloor>- x + 1/2\<rfloor>)"

lemma round_half_up_error: "\<bar>of_int (round_half_up x) - x\<bar> \<le> 1/2"
proof (cases "0 \<le> x")
  case True
  have "of_int \<lfloor>x + 1/2\<rfloor> \<le> x + 1/2" "x + 1/2 < of_int \<lfloor>x + 1/2\<rfloor> + 1" by linarith+
  moreover have "round_half_up x = \<lfloor>x + 1/2\<rfloor>" using True by (simp add: round_half_up_def)
  ultimately show ?thesis by linarith
next
  case False
  have "of_int \<lfloor>- x + 1/2\<rfloor> \<le> - x + 1/2" "- x + 1/2 < of_int \<lfloor>- x + 1/2\<rfloor> + 1" by linarith+
  moreover have "round_half_up x = - \<lfloor>- x + 1/2\<rfloor>" using False by (simp add: round_half_up_def)
  ultimately show ?thesis by linarith
qed

lemma round_half_up_of_int [simp]: "round_half_up (of_int n) = n"
  unfolding round_half_up_def by (simp add: floor_eq_iff)

lemma round_half_up_mono: "x \<le> y \<Longrightarrow> round_half_up x \<le> round_half_up y"
proof -
  assume le: "x \<le> y"
  show ?thesis
  proof (cases "0 \<le> x")
    case True
    with le show ?thesis by (simp add: round_half_up_def floor_mono)
  next
    case False
    then have neg: "round_half_up x \<le> 0" by (simp add: round_half_up_def)
    show ?thesis
    proof (cases "0 \<le> y")
      case True
      then have "0 \<le> round_half_up y" by (simp add: round_half_up_def)
      with neg show ?thesis by linarith
    next
      case False
      with \<open>\<not> 0 \<le> x\<close> le have "\<lfloor>- y + 1/2\<rfloor> \<le> \<lfloor>- x + 1/2\<rfloor>" by (intro floor_mono) simp
      with False \<open>\<not> 0 \<le> x\<close> show ?thesis by (simp add: round_half_up_def)
    qed
  qed
qed

subsection \<open>Searching and running\<close>

lemma find_by_key: "distinct (map f xs) \<Longrightarrow> x \<in> set xs \<Longrightarrow> List.find (\<lambda>y. f y = f x) xs = Some x"
  by (induction xs) auto

lemma ran_exists: "(case m of (Inr r, w) \<Rightarrow> P r w | (Inl e, w) \<Rightarrow> False) \<Longrightarrow> \<exists>r w. m = (Inr r, w) \<and> P r w"
  by (auto split: prod.splits sum.splits)

text \<open>What a validator promises of the values it lets through.\<close>

definition promises :: "('a \<Rightarrow> bool) \<Rightarrow> 'a res \<Rightarrow> bool" where
  "promises Q r \<longleftrightarrow> (\<forall>v. r = Inr v \<longrightarrow> Q v)"

lemma promises_Inr: "promises Q (Inr v) \<longleftrightarrow> Q v"
  by (simp add: promises_def)

lemma promisesD: "promises Q r \<Longrightarrow> r = Inr v \<Longrightarrow> Q v"
  by (simp add: promises_def)

lemma promises_bind: "(\<And>v. promises Q (f v)) \<Longrightarrow> promises Q (bindE r f)"
  by (auto simp: promises_def bindE_eq_Inr)

lemma promises_then: "promises P r \<Longrightarrow> (\<And>v. P v \<Longrightarrow> promises Q (f v)) \<Longrightarrow> promises Q (bindE r f)"
  by (auto simp: promises_def bindE_eq_Inr)

end
