(* ===== verification/Py_Str.thy ===== *)
theory Py_Str
  imports Prelude "HOL-Library.Sublist"
begin

text \<open>
  The part of Python's \<open>str\<close> the program uses: lower-casing, stripping, splitting on
  white space, joining, substring and prefix tests, replacement of characters, and the
  decimal printing of integers that the idempotency keys rely on.

  A \<open>str\<close> is a \<open>string\<close>: its characters are the code points below 256. On these,
  \<open>str.lower\<close> moves \<open>A-Z\<close> and the accented capitals (192-222 except 215) by 32, and
  the characters \<open>str.split()\<close> and \<open>str.strip()\<close> treat as white space are 9-13,
  28-32, 133 and 160.
\<close>

definition code :: "char \<Rightarrow> nat" where
  "code c = of_char c"

definition char_lower :: "char \<Rightarrow> char" where
  "char_lower c = (let n = code c in
     if 65 \<le> n \<and> n \<le> 90 \<or> 192 \<le> n \<and> n \<le> 222 \<and> n \<noteq> 215 then char_of (n + 32) else c)"

definition str_lower :: "string \<Rightarrow> string" where
  "str_lower s = map char_lower s"

definition is_space :: "char \<Rightarrow> bool" where
  "is_space c = (let n = code c in 9 \<le> n \<and> n \<le> 13 \<or> 28 \<le> n \<and> n \<le> 32 \<or> n = 133 \<or> n = 160)"

definition strip_with :: "(char \<Rightarrow> bool) \<Rightarrow> string \<Rightarrow> string" where
  "strip_with p s = rev (dropWhile p (rev (dropWhile p s)))"

definition str_strip :: "string \<Rightarrow> string" where
  "str_strip s = strip_with is_space s"

definition str_strip_chars :: "string \<Rightarrow> string \<Rightarrow> string" where
  "str_strip_chars s cs = strip_with (\<lambda>c. c \<in> set cs) s"

definition rstrip_with :: "(char \<Rightarrow> bool) \<Rightarrow> string \<Rightarrow> string" where
  "rstrip_with p s = rev (dropWhile p (rev s))"

text \<open>\<open>s.split()\<close>: maximal runs of characters that are not white space.\<close>

fun split_aux :: "string \<Rightarrow> string \<Rightarrow> string list" where
  "split_aux acc [] = (if acc = [] then [] else [rev acc])"
| "split_aux acc (c # cs) =
     (if is_space c then (if acc = [] then split_aux [] cs else rev acc # split_aux [] cs)
      else split_aux (c # acc) cs)"

definition str_split :: "string \<Rightarrow> string list" where
  "str_split s = split_aux [] s"

fun str_join :: "string \<Rightarrow> string list \<Rightarrow> string" where
  "str_join sep [] = []"
| "str_join sep [x] = x"
| "str_join sep (x # y # ys) = x @ sep @ str_join sep (y # ys)"

definition startswith :: "string \<Rightarrow> string \<Rightarrow> bool" where
  "startswith s p = (take (length p) s = p)"

definition endswith :: "string \<Rightarrow> string \<Rightarrow> bool" where
  "endswith s p = startswith (rev s) (rev p)"

text \<open>\<open>sub in s\<close>\<close>

fun str_contains :: "string \<Rightarrow> string \<Rightarrow> bool" where
  "str_contains sub [] = (sub = [])"
| "str_contains sub (c # cs) = (startswith (c # cs) sub \<or> str_contains sub cs)"

definition removeprefix :: "string \<Rightarrow> string \<Rightarrow> string" where
  "removeprefix s p = (if startswith s p then drop (length p) s else s)"

text \<open>\<open>s.split(sep, 1)\<close> of a one-character separator: the text before and after its first occurrence.\<close>

definition partition_at :: "char \<Rightarrow> string \<Rightarrow> string \<times> string option" where
  "partition_at c s =
     (takeWhile (\<lambda>x. x \<noteq> c) s,
      case dropWhile (\<lambda>x. x \<noteq> c) s of [] \<Rightarrow> None | _ # r \<Rightarrow> Some r)"

text \<open>\<open>s.split(sep)\<close> of a one-character separator: empty parts are kept.\<close>

fun split_on :: "char \<Rightarrow> string \<Rightarrow> string list" where
  "split_on c [] = [[]]"
| "split_on c (x # xs) =
     (if x = c then [] # split_on c xs
      else (case split_on c xs of [] \<Rightarrow> [[x]] | p # ps \<Rightarrow> (x # p) # ps))"

text \<open>\<open>str(n)\<close> of an integer.\<close>

definition digit_char :: "nat \<Rightarrow> char" where
  "digit_char d = char_of (48 + d)"

fun nat_str :: "nat \<Rightarrow> string" where
  "nat_str n = (if n < 10 then [digit_char n] else nat_str (n div 10) @ [digit_char (n mod 10)])"

declare nat_str.simps [simp del]

definition int_str :: "int \<Rightarrow> string" where
  "int_str i = (if i < 0 then CHR ''-'' # nat_str (nat (- i)) else nat_str (nat i))"

definition str_nat :: "string \<Rightarrow> nat" where
  "str_nat s = foldl (\<lambda>a c. a * 10 + (code c - 48)) 0 s"

subsection \<open>Laws of the string operations\<close>

lemma startswith_prefix: "startswith s p = prefix p s"
  by (auto simp: startswith_def prefix_def intro: append_take_drop_id [symmetric])
     (metis append_take_drop_id)

lemma str_contains_sublist: "str_contains sub s = sublist sub s"
  by (induction sub s rule: str_contains.induct)
     (auto simp: startswith_prefix sublist_Cons_right)

lemma str_contains_self_append [simp]: "str_contains sub (xs @ sub @ ys)"
  by (simp add: str_contains_sublist)

lemma strip_with_id:
  assumes "s = [] \<or> (\<not> p (hd s) \<and> \<not> p (last s))"
  shows "strip_with p s = s"
  using assms
proof (elim disjE)
  assume "s = []"
  then show ?thesis by (simp add: strip_with_def)
next
  assume ends: "\<not> p (hd s) \<and> \<not> p (last s)"
  show ?thesis
  proof (cases "s = []")
    case False
    then have "dropWhile p s = s" using ends by (cases s) auto
    moreover have "dropWhile p (rev s) = rev s"
      using ends False by (cases "rev s") (auto simp: last_conv_nth hd_rev [symmetric])
    ultimately show ?thesis by (simp add: strip_with_def)
  qed (simp add: strip_with_def)
qed

lemma strip_with_last: "strip_with p s \<noteq> [] \<Longrightarrow> \<not> p (last (strip_with p s))"
  unfolding strip_with_def by (metis hd_dropWhile last_rev rev_is_Nil_conv)

lemma strip_with_hd: "strip_with p s \<noteq> [] \<Longrightarrow> \<not> p (hd (strip_with p s))"
proof -
  assume ne: "strip_with p s \<noteq> []"
  have pre: "prefix (rev (dropWhile p (rev t))) t" for t :: string
    by (metis rev_rev_ident suffix_dropWhile suffix_to_prefix)
  obtain zs where "dropWhile p s = strip_with p s @ zs"
    using pre [of "dropWhile p s"] unfolding strip_with_def prefix_def by blast
  with ne have "hd (dropWhile p s) = hd (strip_with p s)" "dropWhile p s \<noteq> []" by auto
  then show ?thesis using hd_dropWhile [of p s] by simp
qed

lemma strip_with_idem [simp]: "strip_with p (strip_with p s) = strip_with p s"
  by (rule strip_with_id) (use strip_with_hd strip_with_last in blast)

lemma str_strip_idem [simp]: "str_strip (str_strip s) = str_strip s"
  by (simp add: str_strip_def)

lemma split_aux_nonempty: "w \<in> set (split_aux acc s) \<Longrightarrow> w \<noteq> []"
  by (induction acc s rule: split_aux.induct) (auto split: if_splits)

lemma split_aux_no_space:
  "(\<And>c. c \<in> set acc \<Longrightarrow> \<not> is_space c) \<Longrightarrow> w \<in> set (split_aux acc s) \<Longrightarrow> c \<in> set w \<Longrightarrow> \<not> is_space c"
proof (induction acc s rule: split_aux.induct)
  case (2 acc c cs)
  then show ?case by (auto split: if_splits)
qed (auto split: if_splits)

lemma str_split_words: "w \<in> set (str_split s) \<Longrightarrow> w \<noteq> [] \<and> (\<forall>c \<in> set w. \<not> is_space c)"
  unfolding str_split_def using split_aux_nonempty split_aux_no_space [of "[]"] by auto

lemma code_digit: "d < 10 \<Longrightarrow> code (digit_char d) = 48 + d"
  by (simp add: code_def digit_char_def of_char_of)

lemma nat_str_digits: "c \<in> set (nat_str n) \<Longrightarrow> 48 \<le> code c \<and> code c \<le> 57"
proof (induction n rule: nat_str.induct)
  case (1 n)
  then show ?case
    by (subst (asm) (2) nat_str.simps) (auto simp: code_digit split: if_splits)
qed

lemma str_nat_append [simp]: "str_nat (s @ [c]) = str_nat s * 10 + (code c - 48)"
  by (simp add: str_nat_def)

lemma str_nat_nat_str [simp]: "str_nat (nat_str n) = n"
proof (induction n rule: nat_str.induct)
  case (1 n)
  show ?case
  proof (cases "n < 10")
    case True
    then show ?thesis by (subst nat_str.simps) (simp add: str_nat_def code_digit)
  next
    case False
    then show ?thesis using 1 by (subst nat_str.simps) (simp add: code_digit)
  qed
qed

lemma nat_str_inj: "nat_str m = nat_str n \<Longrightarrow> m = n"
  by (metis str_nat_nat_str)

lemma nat_str_not_Nil [simp]: "nat_str n \<noteq> []"
  by (subst nat_str.simps) simp

lemma code_colon [simp]: "code CHR '':'' = 58"
  by (simp add: code_def)

lemma code_minus [simp]: "code CHR ''-'' = 45"
  by (simp add: code_def)

lemma nat_str_no_minus: "CHR ''-'' \<notin> set (nat_str n)"
  using nat_str_digits [of "CHR ''-''" n] by auto

lemma int_str_no_colon: "CHR '':'' \<notin> set (int_str i)"
  using nat_str_digits [of "CHR '':''"] by (auto simp: int_str_def)

lemma int_str_inj: "int_str i = int_str j \<Longrightarrow> i = j"
proof -
  assume eq: "int_str i = int_str j"
  have ne: "nat_str a \<noteq> CHR ''-'' # t" for a t using nat_str_no_minus [of a] by auto
  show "i = j"
    using eq ne ne [symmetric] unfolding int_str_def
    by (auto split: if_splits dest!: nat_str_inj)
qed

lemma int_str_eq_iff [simp]: "int_str i = int_str j \<longleftrightarrow> i = j"
  using int_str_inj by blast

text \<open>Two strings joined by a separator determine their tails when the tails do not contain it.\<close>

lemma sep_head_inj: "a @ c # b = a' @ c # b' \<Longrightarrow> c \<notin> set a \<Longrightarrow> c \<notin> set a' \<Longrightarrow> a = a' \<and> b = b'"
proof (induction a arbitrary: a')
  case Nil
  then show ?case by (cases a') auto
next
  case (Cons x a)
  then show ?case by (cases a') auto
qed

lemma append_sep_tail_inj:
  assumes "xs @ c # ys = xs' @ c # ys'" "c \<notin> set ys" "c \<notin> set ys'"
  shows "xs = xs' \<and> ys = ys'"
proof -
  have "rev ys @ c # rev xs = rev ys' @ c # rev xs'"
    using arg_cong [OF assms(1), of rev] by simp
  from sep_head_inj [OF this] show ?thesis using assms(2,3) by simp
qed

end
