(* ===== verification/Config.thy ===== *)
theory Config
  imports Py_Str
begin

text \<open>
  The settings of the program (\<open>apps/api/config.py\<close>, class \<open>Settings\<close>) that its
  components read, grouped in records in the order the class lists them, with the defaults, the
  field constraints pydantic checks and \<open>validate_watermarks\<close>. Connection strings, ports,
  model names and log levels are only handed to libraries and are left out.
\<close>

record billing_settings =
  cb_platform_rate_per_minute_usd :: rat
  cb_pricing_version :: string
  cb_required_usage_types :: string
  cb_usage_wait_seconds :: int
  cb_usage_settle_seconds :: int
  cb_missing_usage_policy :: string
  cb_kafka_consumer_batch_size :: int
  cb_kafka_consumer_batch_timeout_ms :: int

record clickhouse_settings =
  ch_enabled :: bool
  ch_host :: string
  ch_writer_user :: string
  ch_writer_password :: string
  ch_batch_max_rows :: int
  ch_batch_flush_seconds :: rat
  ch_max_retry_seconds :: int
  ch_retention_days :: int

record action_settings =
  ca_durable_action_default_timeout_seconds :: int
  ca_webhook_max_attempts :: int
  ca_webhook_backoff_seconds :: int

record flow_settings =
  cf_backpressure_high_watermark :: int
  cf_backpressure_low_watermark :: int
  cf_max_items :: int
  cf_speech_chars_per_second :: rat
  cf_text_low :: rat
  cf_text_high :: rat
  cf_text_hard :: rat
  cf_audio_low :: rat
  cf_audio_high :: rat
  cf_audio_hard :: rat
  cf_hard_limit_policy :: string
  cf_tts_output_sample_rate :: int
  cf_turn_timeout_seconds :: rat

record vad_settings =
  cv_provider :: string
  cv_energy_threshold :: rat
  cv_sample_rate :: int
  cv_frame_ms :: int
  cv_webrtc_mode :: int
  cv_min_speech_ms :: int
  cv_end_silence_ms :: int
  cv_speech_pad_ms :: int
  cv_min_turn_audio_ms :: int
  cv_min_speech_frame_ratio :: rat
  cv_min_transcribed_turn_audio_ms :: int
  cv_adaptive_noise_floor :: bool
  cv_noise_multiplier :: rat
  cv_noise_update_alpha :: rat
  cv_websocket_max_audio_bytes :: int

record barge_settings =
  cg_confirmation_ms :: int
  cg_min_speech_frames :: int
  cg_min_speech_ratio :: rat
  cg_candidate_retention_ms :: int
  cg_backchannel_policy :: string
  cg_interruption_sensitivity :: string
  cg_backend_echo_grace_ms :: int
  cg_backend_confirmation_ms :: int
  cg_backend_min_speech_ratio :: rat
  cg_recent_response_grace_ms :: int

record failure_settings =
  cx_injection_enabled :: bool
  cx_tts_delay_ms :: int
  cx_llm_delay_ms :: int
  cx_stt_delay_ms :: int
  cx_provider_failure :: bool
  cx_postgres_failure :: bool
  cx_stage_timeout :: bool

record settings =
  st_openai_api_key :: "string option"
  st_stt_provider :: string
  st_llm_provider :: string
  st_tts_provider :: string
  st_session_ttl_hours :: int
  st_billing :: billing_settings
  st_clickhouse :: clickhouse_settings
  st_actions :: action_settings
  st_flow :: flow_settings
  st_vad :: vad_settings
  st_barge :: barge_settings
  st_failure :: failure_settings

subsection \<open>Defaults\<close>

definition default_billing :: billing_settings where
  "default_billing =
     \<lparr> cb_platform_rate_per_minute_usd = 5/100,
       cb_pricing_version = ''openai-2026-06-15+voicemesh-lab-v1'',
       cb_required_usage_types = ''stt_audio_seconds,llm_input_tokens,llm_output_tokens,tts_characters,tts_audio_seconds'',
       cb_usage_wait_seconds = 20, cb_usage_settle_seconds = 3,
       cb_missing_usage_policy = ''FINALIZED_WITH_WARNINGS'',
       cb_kafka_consumer_batch_size = 100, cb_kafka_consumer_batch_timeout_ms = 500 \<rparr>"

definition default_clickhouse :: clickhouse_settings where
  "default_clickhouse =
     \<lparr> ch_enabled = False, ch_host = [], ch_writer_user = [], ch_writer_password = [],
       ch_batch_max_rows = 500, ch_batch_flush_seconds = 1, ch_max_retry_seconds = 30, ch_retention_days = 30 \<rparr>"

definition default_actions :: action_settings where
  "default_actions =
     \<lparr> ca_durable_action_default_timeout_seconds = 3600, ca_webhook_max_attempts = 5, ca_webhook_backoff_seconds = 2 \<rparr>"

definition default_flow :: flow_settings where
  "default_flow =
     \<lparr> cf_backpressure_high_watermark = 10, cf_backpressure_low_watermark = 3, cf_max_items = 128,
       cf_speech_chars_per_second = 14, cf_text_low = 300, cf_text_high = 1200, cf_text_hard = 2500,
       cf_audio_low = 300, cf_audio_high = 1200, cf_audio_hard = 2500,
       cf_hard_limit_policy = ''cancel_response'', cf_tts_output_sample_rate = 24000,
       cf_turn_timeout_seconds = 30 \<rparr>"

definition default_vad :: vad_settings where
  "default_vad =
     \<lparr> cv_provider = ''webrtc'', cv_energy_threshold = 18/1000, cv_sample_rate = 16000, cv_frame_ms = 20,
       cv_webrtc_mode = 2, cv_min_speech_ms = 200, cv_end_silence_ms = 700, cv_speech_pad_ms = 150,
       cv_min_turn_audio_ms = 300, cv_min_speech_frame_ratio = 6/10, cv_min_transcribed_turn_audio_ms = 700,
       cv_adaptive_noise_floor = True, cv_noise_multiplier = 3, cv_noise_update_alpha = 5/100,
       cv_websocket_max_audio_bytes = 25 * 1024 * 1024 \<rparr>"

definition default_barge :: barge_settings where
  "default_barge =
     \<lparr> cg_confirmation_ms = 200, cg_min_speech_frames = 3, cg_min_speech_ratio = 6/10,
       cg_candidate_retention_ms = 1200, cg_backchannel_policy = ''medium'',
       cg_interruption_sensitivity = ''medium'', cg_backend_echo_grace_ms = 600,
       cg_backend_confirmation_ms = 350, cg_backend_min_speech_ratio = 75/100,
       cg_recent_response_grace_ms = 6000 \<rparr>"

definition default_failure :: failure_settings where
  "default_failure =
     \<lparr> cx_injection_enabled = False, cx_tts_delay_ms = 0, cx_llm_delay_ms = 0, cx_stt_delay_ms = 0,
       cx_provider_failure = False, cx_postgres_failure = False, cx_stage_timeout = False \<rparr>"

definition default_settings :: settings where
  "default_settings =
     \<lparr> st_openai_api_key = None, st_stt_provider = ''openai'', st_llm_provider = ''openai'',
       st_tts_provider = ''openai'', st_session_ttl_hours = 168, st_billing = default_billing,
       st_clickhouse = default_clickhouse, st_actions = default_actions, st_flow = default_flow,
       st_vad = default_vad, st_barge = default_barge, st_failure = default_failure \<rparr>"

subsection \<open>Validation\<close>

text \<open>The \<open>Field\<close> constraints.\<close>

definition settings_fields_ok :: "settings \<Rightarrow> bool" where
  "settings_fields_ok s =
     (let b = st_billing s; c = st_clickhouse s; a = st_actions s; f = st_flow s; v = st_vad s; g = st_barge s
      in 1 \<le> st_session_ttl_hours s
       \<and> 0 \<le> cb_platform_rate_per_minute_usd b \<and> 1 \<le> cb_usage_wait_seconds b \<and> 0 \<le> cb_usage_settle_seconds b
       \<and> 1 \<le> cb_kafka_consumer_batch_size b \<and> 1 \<le> cb_kafka_consumer_batch_timeout_ms b
       \<and> 1 \<le> ch_batch_max_rows c \<and> 0 < ch_batch_flush_seconds c \<and> 1 \<le> ch_max_retry_seconds c
       \<and> 1 \<le> ch_retention_days c
       \<and> 1 \<le> ca_durable_action_default_timeout_seconds a \<and> 1 \<le> ca_webhook_max_attempts a
       \<and> 0 \<le> ca_webhook_backoff_seconds a
       \<and> 2 \<le> cf_backpressure_high_watermark f \<and> 0 \<le> cf_backpressure_low_watermark f \<and> 4 \<le> cf_max_items f
       \<and> 0 < cf_speech_chars_per_second f
       \<and> 0 \<le> cf_text_low f \<and> 0 < cf_text_high f \<and> 0 < cf_text_hard f
       \<and> 0 \<le> cf_audio_low f \<and> 0 < cf_audio_high f \<and> 0 < cf_audio_hard f
       \<and> 8000 \<le> cf_tts_output_sample_rate f \<and> 0 < cf_turn_timeout_seconds f
       \<and> 0 < cv_energy_threshold v \<and> 8000 \<le> cv_sample_rate v \<and> 10 \<le> cv_frame_ms v
       \<and> 0 \<le> cv_webrtc_mode v \<and> cv_webrtc_mode v \<le> 3 \<and> 0 \<le> cv_min_speech_ms v
       \<and> 100 \<le> cv_end_silence_ms v \<and> 0 \<le> cv_speech_pad_ms v \<and> 0 \<le> cv_min_turn_audio_ms v
       \<and> 0 \<le> cv_min_speech_frame_ratio v \<and> cv_min_speech_frame_ratio v \<le> 1
       \<and> 0 \<le> cv_min_transcribed_turn_audio_ms v \<and> 1 < cv_noise_multiplier v
       \<and> 0 < cv_noise_update_alpha v \<and> cv_noise_update_alpha v \<le> 1
       \<and> 0 \<le> cg_confirmation_ms g \<and> 1 \<le> cg_min_speech_frames g
       \<and> 0 \<le> cg_min_speech_ratio g \<and> cg_min_speech_ratio g \<le> 1 \<and> 100 \<le> cg_candidate_retention_ms g
       \<and> 0 \<le> cg_backend_echo_grace_ms g \<and> 0 \<le> cg_backend_confirmation_ms g
       \<and> 0 \<le> cg_backend_min_speech_ratio g \<and> cg_backend_min_speech_ratio g \<le> 1
       \<and> 0 \<le> cg_recent_response_grace_ms g)"

definition clickhouse_missing :: "clickhouse_settings \<Rightarrow> string list" where
  "clickhouse_missing c =
     map fst (filter (\<lambda>(k, v). v = [])
       [(''CLICKHOUSE_HOST'', ch_host c), (''CLICKHOUSE_WRITER_USER'', ch_writer_user c),
        (''CLICKHOUSE_WRITER_PASSWORD'', ch_writer_password c)])"

definition validate_watermarks :: "settings \<Rightarrow> settings res" where
  "validate_watermarks s =
     (let f = st_flow s; v = st_vad s; g = st_barge s; c = st_clickhouse s in
      if cf_backpressure_low_watermark f \<ge> cf_backpressure_high_watermark f
        then Inl (ValueError ''BACKPRESSURE_LOW_WATERMARK must be below the high watermark'')
      else if cf_text_low f \<ge> cf_text_high f
        then Inl (ValueError ''LLM_TO_TTS low watermark must be below high watermark'')
      else if cf_text_high f > cf_text_hard f
        then Inl (ValueError ''LLM_TO_TTS high watermark must be below hard limit'')
      else if cf_audio_low f \<ge> cf_audio_high f
        then Inl (ValueError ''TTS_TO_TRANSPORT low watermark must be below high watermark'')
      else if cf_audio_high f > cf_audio_hard f
        then Inl (ValueError ''TTS_TO_TRANSPORT high watermark must be below hard limit'')
      else if cf_hard_limit_policy f \<notin> {''cancel_response'', ''drop_oldest'', ''fail_turn''}
        then Inl (ValueError ''BACKPRESSURE_HARD_LIMIT_POLICY is not supported'')
      else if cv_provider v \<notin> {''webrtc'', ''energy'', ''silero''}
        then Inl (ValueError ''VAD_PROVIDER must be one of: webrtc, energy, silero'')
      else if cv_frame_ms v \<notin> {10, 20, 30} then Inl (ValueError ''VAD_FRAME_MS must be 10, 20, or 30'')
      else if cv_sample_rate v \<notin> {8000, 16000, 32000, 48000}
        then Inl (ValueError ''VAD_SAMPLE_RATE must be one of 8000, 16000, 32000, or 48000'')
      else if cg_backchannel_policy g \<notin> {''low'', ''medium'', ''high''}
        then Inl (ValueError ''BARGE_IN_BACKCHANNEL_POLICY must be low, medium, or high'')
      else if cg_interruption_sensitivity g \<notin> {''low'', ''medium'', ''high''}
        then Inl (ValueError ''BARGE_IN_INTERRUPTION_SENSITIVITY must be low, medium, or high'')
      else if ch_enabled c \<and> clickhouse_missing c \<noteq> []
        then Inl (ValueError (''ClickHouse analytics is enabled but required settings are missing: ''
               @ str_join '', '' (clickhouse_missing c)))
      else Inr s)"

text \<open>\<open>Settings(...)\<close>: the field checks come first, the model validator after them.\<close>

definition settings_load :: "settings \<Rightarrow> settings res" where
  "settings_load s = (if settings_fields_ok s then validate_watermarks s else Inl (ValueError ''Settings''))"

definition validate_provider_credentials :: "settings \<Rightarrow> unit res" where
  "validate_provider_credentials s =
     (if ''openai'' \<in> {st_stt_provider s, st_llm_provider s, st_tts_provider s}
         \<and> (st_openai_api_key s = None \<or> st_openai_api_key s = Some [])
      then Inl (RuntimeError ''OPENAI_API_KEY is required when any selected provider is 'openai'. Set it in .env; VoiceMesh never silently falls back to a fake provider.'')
      else Inr ())"

subsection \<open>Laws\<close>

lemma validate_watermarks_id: "validate_watermarks s = Inr s' \<Longrightarrow> s' = s"
  unfolding validate_watermarks_def Let_def by (simp split: if_split_asm)

lemma settings_load_Inr:
  "settings_load s = Inr s' \<longleftrightarrow> s' = s \<and> settings_fields_ok s \<and> validate_watermarks s = Inr s"
  using validate_watermarks_id by (auto simp: settings_load_def)

lemma validate_watermarks_Inr:
  assumes "validate_watermarks s = Inr s'"
  shows "cf_text_low (st_flow s) < cf_text_high (st_flow s)" "cf_text_high (st_flow s) \<le> cf_text_hard (st_flow s)"
    "cf_audio_low (st_flow s) < cf_audio_high (st_flow s)" "cf_audio_high (st_flow s) \<le> cf_audio_hard (st_flow s)"
    "cv_provider (st_vad s) \<in> {''webrtc'', ''energy'', ''silero''}"
    "cv_frame_ms (st_vad s) \<in> {10, 20, 30}" "cv_sample_rate (st_vad s) \<in> {8000, 16000, 32000, 48000}"
    "ch_enabled (st_clickhouse s) \<Longrightarrow> clickhouse_missing (st_clickhouse s) = []"
  using assms unfolding validate_watermarks_def Let_def by (simp_all split: if_split_asm)

lemma default_settings_load: "settings_load default_settings = Inr default_settings"
  by (simp add: settings_load_def settings_fields_ok_def validate_watermarks_def default_settings_def
      default_billing_def default_clickhouse_def default_actions_def default_flow_def default_vad_def default_barge_def)

end
