(* ===== verification/Effects.thy ===== *)
theory Effects
  imports Prelude
begin

text \<open>
  Coroutines as state transformers that may raise. An action takes the state and returns a
  result and the state it leaves; an exception keeps the changes made before it, as in
  Python. The locale \<open>effect_order\<close> is the contract of a relation between the state before
  and after an action that is kept by every way of composing actions; a component interprets
  it on its own relation and then only proves its primitive updates.
\<close>

type_synonym ('s, 'a) act = "'s \<Rightarrow> 'a res \<times> 's"

definition act_ret :: "'a \<Rightarrow> ('s, 'a) act" where
  "act_ret x s = (Inr x, s)"

definition act_raise :: "exn \<Rightarrow> ('s, 'a) act" where
  "act_raise e s = (Inl e, s)"

text \<open>The value of a fallible pure computation.\<close>

definition act_lift :: "'a res \<Rightarrow> ('s, 'a) act" where
  "act_lift r s = (r, s)"

definition act_bind :: "('s, 'a) act \<Rightarrow> ('a \<Rightarrow> ('s, 'b) act) \<Rightarrow> ('s, 'b) act" where
  "act_bind m f s = (case m s of (Inl e, t) \<Rightarrow> (Inl e, t) | (Inr x, t) \<Rightarrow> f x t)"

text \<open>Change the state; read the state and go on with an action that depends on it.\<close>

definition upd :: "('s \<Rightarrow> 's) \<Rightarrow> ('s, unit) act" where
  "upd f s = (Inr (), f s)"

definition ask :: "('s \<Rightarrow> ('s, 'a) act) \<Rightarrow> ('s, 'a) act" where
  "ask f s = f s s"

text \<open>A step that returns a value and a new state, without raising.\<close>

definition act_step :: "('s \<Rightarrow> 'a \<times> 's) \<Rightarrow> ('s, 'a) act" where
  "act_step f s = (case f s of (x, t) \<Rightarrow> (Inr x, t))"

definition act_when :: "bool \<Rightarrow> ('s, unit) act \<Rightarrow> ('s, unit) act" where
  "act_when b m = (if b then m else act_ret ())"

text \<open>The statements of a block, in order.\<close>

fun doall :: "('s, unit) act list \<Rightarrow> ('s, unit) act" where
  "doall [] = act_ret ()"
| "doall (m # ms) = act_bind m (\<lambda>_. doall ms)"

text \<open>\<open>for x in xs: f(x)\<close>\<close>

fun act_for :: "'a list \<Rightarrow> ('a \<Rightarrow> ('s, unit) act) \<Rightarrow> ('s, unit) act" where
  "act_for [] f = act_ret ()"
| "act_for (x # xs) f = act_bind (f x) (\<lambda>_. act_for xs f)"

text \<open>\<open>try: m except e: h(e)\<close>, \<open>with suppress(Exception): m\<close>, \<open>try: m finally: fin\<close>.\<close>

definition act_try :: "('s, 'a) act \<Rightarrow> (exn \<Rightarrow> ('s, 'a) act) \<Rightarrow> ('s, 'a) act" where
  "act_try m h s = (case m s of (Inl e, t) \<Rightarrow> h e t | (Inr x, t) \<Rightarrow> (Inr x, t))"

definition act_suppress :: "('s, unit) act \<Rightarrow> ('s, unit) act" where
  "act_suppress m = act_try m (\<lambda>_. act_ret ())"

definition act_finally :: "('s, 'a) act \<Rightarrow> ('s, unit) act \<Rightarrow> ('s, 'a) act" where
  "act_finally m fin s =
     (case m s of (r, t) \<Rightarrow> (case fin t of (Inl e, t') \<Rightarrow> (Inl e, t') | (Inr _, t') \<Rightarrow> (r, t')))"

lemmas act_defs = act_ret_def act_raise_def act_lift_def act_bind_def upd_def ask_def act_step_def act_when_def
  act_try_def act_suppress_def act_finally_def

lemma act_bind_cong_at:
  "m s = m' s \<Longrightarrow> (\<And>x t. m' s = (Inr x, t) \<Longrightarrow> k x t = k' x t) \<Longrightarrow> act_bind m k s = act_bind m' k' s"
  by (auto simp: act_bind_def split: prod.split sum.split)

lemma act_bind_ret [simp]: "act_bind m act_ret s = m s"
  by (auto simp: act_bind_def act_ret_def split: prod.split sum.split)

text \<open>A run that ended well, read backwards.\<close>

lemma act_bind_ok: "act_bind m f s = (Inr r, t) \<longleftrightarrow> (\<exists>v u. m s = (Inr v, u) \<and> f v u = (Inr r, t))"
  by (auto simp: act_bind_def split: prod.split sum.split)

lemma act_lift_ok: "act_lift a s = (Inr r, t) \<longleftrightarrow> a = Inr r \<and> t = s"
  by (auto simp: act_lift_def)

lemma act_ret_ok: "act_ret a s = (Inr r, t) \<longleftrightarrow> a = r \<and> t = s"
  by (auto simp: act_ret_def)

subsection \<open>Relations kept by actions\<close>

definition keeps :: "('s \<Rightarrow> 's \<Rightarrow> bool) \<Rightarrow> ('s, 'a) act \<Rightarrow> bool" where
  "keeps R m \<longleftrightarrow> (\<forall>s. R s (snd (m s)))"

lemma keepsI: "(\<And>s. R s (snd (m s))) \<Longrightarrow> keeps R m"
  by (simp add: keeps_def)

lemma keepsD: "keeps R m \<Longrightarrow> m s = (r, t) \<Longrightarrow> R s t"
  by (metis keeps_def snd_conv)

named_theorems keeps_intro

locale effect_order =
  fixes R :: "'s \<Rightarrow> 's \<Rightarrow> bool"
  assumes order_refl: "R s s"
    and order_trans: "R s t \<Longrightarrow> R t u \<Longrightarrow> R s u"
begin

lemma keeps_ret: "keeps R (act_ret x)"
  by (simp add: keeps_def act_ret_def order_refl)

lemma keeps_raise: "keeps R (act_raise e)"
  by (simp add: keeps_def act_raise_def order_refl)

lemma keeps_lift: "keeps R (act_lift r)"
  by (simp add: keeps_def act_lift_def order_refl)

lemma keeps_upd: "(\<And>s. R s (f s)) \<Longrightarrow> keeps R (upd f)"
  by (simp add: keeps_def upd_def)

lemma keeps_step: "(\<And>s. R s (snd (f s))) \<Longrightarrow> keeps R (act_step f)"
  by (simp add: keeps_def act_step_def case_prod_beta)

lemma keeps_ask: "(\<And>s. keeps R (f s)) \<Longrightarrow> keeps R (ask f)"
  by (simp add: keeps_def ask_def)

lemma keeps_bind: "keeps R m \<Longrightarrow> (\<And>x. keeps R (f x)) \<Longrightarrow> keeps R (act_bind m f)"
  unfolding keeps_def act_bind_def
  by (auto split: prod.split sum.split) (metis order_trans snd_conv)+

lemma bind_at: "R s (snd (m s)) \<Longrightarrow> (\<And>x. keeps R (f x)) \<Longrightarrow> R s (snd (act_bind m f s))"
  unfolding keeps_def act_bind_def
  by (auto split: prod.split sum.split) (metis order_trans snd_conv)+

lemma keeps_when: "keeps R m \<Longrightarrow> keeps R (act_when b m)"
  by (simp add: act_when_def keeps_ret)

lemma keeps_try: "keeps R m \<Longrightarrow> (\<And>e. keeps R (h e)) \<Longrightarrow> keeps R (act_try m h)"
  unfolding keeps_def act_try_def
  by (auto split: prod.split sum.split) (metis order_trans snd_conv)+

lemma keeps_suppress: "keeps R m \<Longrightarrow> keeps R (act_suppress m)"
  by (simp add: act_suppress_def keeps_try keeps_ret)

lemma keeps_finally: "keeps R m \<Longrightarrow> keeps R fin \<Longrightarrow> keeps R (act_finally m fin)"
  unfolding keeps_def act_finally_def
  by (auto split: prod.split sum.split) (metis order_trans snd_conv)+

lemma keeps_doall_Nil: "keeps R (doall [])"
  by (simp add: keeps_ret)

lemma keeps_doall_Cons: "keeps R m \<Longrightarrow> keeps R (doall ms) \<Longrightarrow> keeps R (doall (m # ms))"
  by (simp add: keeps_bind)

lemma keeps_for: "(\<And>x. x \<in> set xs \<Longrightarrow> keeps R (f x)) \<Longrightarrow> keeps R (act_for xs f)"
  by (induction xs) (simp_all add: keeps_ret keeps_bind)

lemma keeps_if: "keeps R m \<Longrightarrow> keeps R n \<Longrightarrow> keeps R (if b then m else n)"
  by simp

lemma keeps_option: "keeps R m \<Longrightarrow> (\<And>x. keeps R (f x)) \<Longrightarrow> keeps R (case y of None \<Rightarrow> m | Some x \<Rightarrow> f x)"
  by (simp split: option.split)

lemma keeps_prod: "(\<And>x y. keeps R (f x y)) \<Longrightarrow> keeps R (case p of (x, y) \<Rightarrow> f x y)"
  by (simp split: prod.split)

lemma keeps_sum: "(\<And>x. keeps R (f x)) \<Longrightarrow> (\<And>y. keeps R (g y)) \<Longrightarrow> keeps R (case p of Inl x \<Rightarrow> f x | Inr y \<Rightarrow> g y)"
  by (simp split: sum.split)

lemmas keeps_rules = keeps_ret keeps_raise keeps_lift keeps_ask keeps_bind keeps_when keeps_try keeps_suppress
  keeps_finally keeps_doall_Nil keeps_doall_Cons keeps_for keeps_if keeps_option keeps_prod keeps_sum

end

text \<open>An invariant is such a relation: \<open>I s \<longrightarrow> I t\<close>. So is the conjunction of two.\<close>

interpretation inv_order: effect_order "\<lambda>s t. I s \<longrightarrow> I t" for I :: "'s \<Rightarrow> bool"
  by unfold_locales auto

lemma keeps_conj: "keeps R m \<Longrightarrow> keeps Q m \<Longrightarrow> keeps (\<lambda>s t. R s t \<and> Q s t) m"
  by (simp add: keeps_def)

subsection \<open>Exceptions, results and costs\<close>

text \<open>
  Three more judgements on actions, each with a rule per way of composing them: which exceptions
  an action can raise, what holds when it returns, and how much a measure of the state can grow.
\<close>

definition raises :: "(exn \<Rightarrow> bool) \<Rightarrow> ('s, 'a) act \<Rightarrow> bool" where
  "raises E m \<longleftrightarrow> (\<forall>s e t. m s = (Inl e, t) \<longrightarrow> E e)"

definition achieves :: "('s \<Rightarrow> bool) \<Rightarrow> ('s, 'a) act \<Rightarrow> bool" where
  "achieves Q m \<longleftrightarrow> (\<forall>s x t. m s = (Inr x, t) \<longrightarrow> Q t)"

definition grows :: "('s \<Rightarrow> nat) \<Rightarrow> nat \<Rightarrow> ('s, 'a) act \<Rightarrow> bool" where
  "grows f n m \<longleftrightarrow> (\<forall>s. f (snd (m s)) \<le> f s + n)"

lemma raisesI: "(\<And>s e t. m s = (Inl e, t) \<Longrightarrow> E e) \<Longrightarrow> raises E m"
  by (simp add: raises_def)

lemma raisesD: "raises E m \<Longrightarrow> m s = (Inl e, t) \<Longrightarrow> E e"
  by (auto simp: raises_def)

lemma raises_rules:
  "raises E (act_ret x)" "raises E (upd f)" "raises E (act_step g)"
  "E e \<Longrightarrow> raises E (act_raise e)"
  "(\<And>e. r = Inl e \<Longrightarrow> E e) \<Longrightarrow> raises E (act_lift r)"
  by (auto simp: raises_def act_ret_def upd_def act_step_def act_raise_def act_lift_def split: prod.splits)

lemma raises_bind: "raises E m \<Longrightarrow> (\<And>x. raises E (f x)) \<Longrightarrow> raises E (act_bind m f)"
  unfolding raises_def act_bind_def by (auto split: prod.splits sum.splits)

lemma raises_ask: "(\<And>s. raises E (f s)) \<Longrightarrow> raises E (ask f)"
  by (simp add: raises_def ask_def)

lemma raises_try: "(\<And>e. raises E (h e)) \<Longrightarrow> raises E (act_try m h)"
  by (auto simp: raises_def act_try_def split: prod.splits sum.splits)

lemma achievesI: "(\<And>s x t. m s = (Inr x, t) \<Longrightarrow> Q t) \<Longrightarrow> achieves Q m"
  by (simp add: achieves_def)

lemma achievesD: "achieves Q m \<Longrightarrow> m s = (Inr x, t) \<Longrightarrow> Q t"
  by (auto simp: achieves_def)

lemma achieves_raise: "achieves Q (act_raise e)"
  by (simp add: achieves_def act_raise_def)

lemma achieves_bind: "(\<And>x. achieves Q (f x)) \<Longrightarrow> achieves Q (act_bind m f)"
  unfolding achieves_def act_bind_def by (auto split: prod.splits sum.splits)

lemma achieves_bind_ret: "achieves Q m \<Longrightarrow> achieves Q (act_bind m (\<lambda>x. act_ret (f x)))"
  unfolding achieves_def act_bind_def act_ret_def by (auto split: prod.splits sum.splits)

lemma achieves_ask: "(\<And>s. achieves Q (f s)) \<Longrightarrow> achieves Q (ask f)"
  by (simp add: achieves_def ask_def)

lemma achieves_try: "achieves Q m \<Longrightarrow> (\<And>e. achieves Q (h e)) \<Longrightarrow> achieves Q (act_try m h)"
  unfolding achieves_def act_try_def by (auto split: prod.splits sum.splits)

lemma growsI: "(\<And>s. f (snd (m s)) \<le> f s + n) \<Longrightarrow> grows f n m"
  by (simp add: grows_def)

lemma grows_weaken: "grows f n m \<Longrightarrow> n \<le> k \<Longrightarrow> grows f k m"
  by (auto simp: grows_def intro: order_trans)

lemma grows_still: "grows f n (act_ret x)" "grows f n (act_raise e)" "grows f n (act_lift r)"
  by (simp_all add: grows_def act_ret_def act_raise_def act_lift_def)

lemma grows_bind: "grows f a m \<Longrightarrow> (\<And>x. grows f b (g x)) \<Longrightarrow> grows f (a + b) (act_bind m g)"
  unfolding grows_def act_bind_def
  by (auto split: prod.splits sum.splits) (metis add.assoc add_le_mono1 le_trans snd_conv trans_le_add1)+

lemma grows_bind0: "grows f 0 m \<Longrightarrow> (\<And>x. grows f b (g x)) \<Longrightarrow> grows f b (act_bind m g)"
  using grows_bind [of f 0 m b g] by simp

lemma grows_ask: "(\<And>s. grows f n (g s)) \<Longrightarrow> grows f n (ask g)"
  by (simp add: grows_def ask_def)

lemma grows_try: "grows f a m \<Longrightarrow> (\<And>e. grows f b (h e)) \<Longrightarrow> grows f (a + b) (act_try m h)"
  unfolding grows_def act_try_def
  by (auto split: prod.splits sum.splits) (metis add.assoc add_le_mono1 le_trans snd_conv trans_le_add1)+

end
