(* ===== verification/Flow_Queue.thy ===== *)
theory Flow_Queue
  imports Py_Str
begin

text \<open>
  The bounded, weighted queue between pipeline stages
  (\<open>apps/api/pipeline/backpressure.py\<close>, class \<open>FlowControlledQueue\<close>).

  A queue is the record \<open>fq\<close> with the attributes of the Python object; the condition
  variable is not state of its own: a coroutine that waits on it is an operation whose guard
  is false. \<open>put\<close> therefore has two atomic parts, the wait for the cork
  (\<open>fq_uncork_ready\<close>) and the append under the lock (\<open>fq_put_locked\<close>), and other
  coroutines may run between them. \<open>fq_step\<close> is the interleaving of all operations at
  this granularity. The Prometheus counters and gauges are not modelled.
\<close>

datatype depth_unit = ITEMS | SPEAK_AHEAD_MS | AUDIO_MS | BYTES

fun depth_unit_value :: "depth_unit \<Rightarrow> string" where
  "depth_unit_value ITEMS = ''items''"
| "depth_unit_value SPEAK_AHEAD_MS = ''speak_ahead_ms''"
| "depth_unit_value AUDIO_MS = ''audio_ms''"
| "depth_unit_value BYTES = ''bytes''"

record bp_transition =
  bt_call_id :: string
  bt_stage :: string
  bt_corked :: bool
  bt_reason_code :: string
  bt_depth :: rat
  bt_depth_unit :: string
  bt_hard_limited :: bool
  bt_item_count :: nat

definition bt_transition :: "bp_transition \<Rightarrow> string" where
  "bt_transition t =
     (if bt_hard_limited t then ''hard_limit''
      else if bt_corked t then ''corked'' else ''uncorked'')"

definition bt_reason :: "bp_transition \<Rightarrow> string" where
  "bt_reason t =
     (let pre = bt_stage t @ '' depth '' @ int_str (round_half_even (bt_depth t)) @ '' '' @ bt_depth_unit t
      in if bt_reason_code t = ''queue_high_watermark'' then pre @ '' reached high watermark''
         else if bt_reason_code t = ''queue_low_watermark'' then pre @ '' drained to low watermark''
         else if bt_reason_code t = ''queue_hard_limit'' then pre @ '' reached hard limit''
         else bt_reason_code t)"

record 'a fq =
  fq_call_id :: string
  fq_stage :: string
  fq_depth_unit :: string
  fq_low :: rat
  fq_high :: rat
  fq_hard :: rat
  fq_weight_fn :: "'a \<Rightarrow> rat"
  fq_max_items :: nat
  fq_corked :: bool
  fq_hard_limited :: bool
  fq_depth :: rat
  fq_corked_at :: "rat option"
  fq_items :: "('a \<times> rat) list"
  fq_closed :: bool
  fq_cancelled :: bool

definition fq_new ::
  "string \<Rightarrow> string \<Rightarrow> depth_unit \<Rightarrow> rat \<Rightarrow> rat \<Rightarrow> rat \<Rightarrow> ('a \<Rightarrow> rat) option \<Rightarrow> nat \<Rightarrow> 'a fq res" where
  "fq_new call stage unit low high hard weight max_items =
     (if low \<ge> high then Inl (ValueError ''low_watermark must be lower than high_watermark'')
      else if high > hard
        then Inl (ValueError ''high_watermark must be lower than or equal to hard_limit'')
      else Inr \<lparr> fq_call_id = call, fq_stage = stage, fq_depth_unit = depth_unit_value unit,
                 fq_low = low, fq_high = high, fq_hard = hard,
                 fq_weight_fn = (case weight of Some f \<Rightarrow> f | None \<Rightarrow> (\<lambda>_. 1)),
                 fq_max_items = max_items,
                 fq_corked = False, fq_hard_limited = False, fq_depth = 0, fq_corked_at = None,
                 fq_items = [], fq_closed = False, fq_cancelled = False \<rparr>)"

definition fq_transition :: "'a fq \<Rightarrow> bool \<Rightarrow> string \<Rightarrow> bool \<Rightarrow> bp_transition" where
  "fq_transition q corked reason hard =
     \<lparr> bt_call_id = fq_call_id q, bt_stage = fq_stage q, bt_corked = corked,
       bt_reason_code = reason, bt_depth = fq_depth q, bt_depth_unit = fq_depth_unit q,
       bt_hard_limited = hard, bt_item_count = length (fq_items q) \<rparr>"

text \<open>
  \<open>_observe_locked\<close>. The expression \<open>self._corked_at or time.monotonic()\<close> replaces a
  reading of zero as well as \<open>None\<close>.
\<close>

definition fq_observe :: "rat \<Rightarrow> 'a fq \<Rightarrow> 'a fq \<times> bp_transition option" where
  "fq_observe now q =
     (if fq_depth q \<ge> fq_hard q \<and> \<not> fq_hard_limited q then
        (q\<lparr> fq_hard_limited := True, fq_corked := True,
            fq_corked_at := (case fq_corked_at q of None \<Rightarrow> Some now
                             | Some t \<Rightarrow> if t = 0 then Some now else Some t) \<rparr>,
         Some (fq_transition q True ''queue_hard_limit'' True))
      else if \<not> fq_corked q \<and> fq_depth q \<ge> fq_high q then
        (q\<lparr> fq_corked := True, fq_corked_at := Some now \<rparr>,
         Some (fq_transition q True ''queue_high_watermark'' False))
      else if fq_corked q \<and> fq_depth q \<le> fq_low q then
        (q\<lparr> fq_corked := False, fq_hard_limited := False, fq_corked_at := None \<rparr>,
         Some (fq_transition q False ''queue_low_watermark'' False))
      else (q, None))"

text \<open>The guard of \<open>wait_until_uncorked\<close>: the loop ends exactly in these states.\<close>

definition fq_uncork_ready :: "'a fq \<Rightarrow> bool" where
  "fq_uncork_ready q = (\<not> fq_corked q \<or> fq_closed q \<or> fq_cancelled q)"

text \<open>
  The locked part of \<open>put\<close>. \<open>None\<close>: the coroutine keeps waiting for room.
  \<open>Some\<close>: it returns, having dropped the item when the queue is closed or cancelled.
\<close>

definition fq_put_locked :: "rat \<Rightarrow> 'a \<Rightarrow> 'a fq \<Rightarrow> ('a fq \<times> bp_transition option) option" where
  "fq_put_locked now x q =
     (if \<not> fq_closed q \<and> \<not> fq_cancelled q \<and> length (fq_items q) \<ge> fq_max_items q then None
      else if fq_closed q \<or> fq_cancelled q then Some (q, None)
      else (let w = max 0 (fq_weight_fn q x)
            in Some (fq_observe now (q\<lparr> fq_items := fq_items q @ [(x, w)], fq_depth := fq_depth q + w \<rparr>))))"

text \<open>
  \<open>get\<close>. \<open>None\<close>: the coroutine waits. A closed empty queue raises \<open>QueueClosed\<close>.
\<close>

definition fq_get :: "rat \<Rightarrow> 'a fq \<Rightarrow> ('a \<times> 'a fq \<times> bp_transition option) res option" where
  "fq_get now q =
     (case fq_items q of
        [] \<Rightarrow> (if \<not> fq_closed q \<and> \<not> fq_cancelled q then None
               else Some (Inl (QueueClosed (fq_stage q @ '' queue is closed''))))
      | (x, w) # rest \<Rightarrow>
          (let (q', t) = fq_observe now (q\<lparr> fq_items := rest, fq_depth := max 0 (fq_depth q - w) \<rparr>)
           in Some (Inr (x, q', t))))"

definition fq_close :: "'a fq \<Rightarrow> 'a fq" where
  "fq_close q = q\<lparr> fq_closed := True \<rparr>"

definition fq_cancel :: "'a fq \<Rightarrow> 'a fq" where
  "fq_cancel q =
     q\<lparr> fq_cancelled := True, fq_closed := True, fq_items := [], fq_depth := 0,
        fq_corked := False, fq_hard_limited := False, fq_corked_at := None \<rparr>"

text \<open>The loop of \<open>flush\<close>: removed items, kept items and the depth of the kept ones.\<close>

fun fq_flush_loop ::
  "('a \<Rightarrow> bool) \<Rightarrow> ('a \<times> rat) list \<Rightarrow> 'a list \<times> ('a \<times> rat) list \<times> rat \<Rightarrow> 'a list \<times> ('a \<times> rat) list \<times> rat" where
  "fq_flush_loop p [] acc = acc"
| "fq_flush_loop p ((x, w) # rest) (removed, kept, d) =
     fq_flush_loop p rest
       (if p x then (removed @ [x], kept, d) else (removed, kept @ [(x, w)], d + w))"

definition fq_flush :: "rat \<Rightarrow> ('a \<Rightarrow> bool) \<Rightarrow> 'a fq \<Rightarrow> 'a list \<times> 'a fq \<times> bp_transition option" where
  "fq_flush now p q =
     (let (removed, kept, d) = fq_flush_loop p (fq_items q) ([], [], 0);
          (q', t) = fq_observe now (q\<lparr> fq_items := kept, fq_depth := d \<rparr>)
      in (removed, q', t))"

definition fq_contents :: "'a fq \<Rightarrow> 'a list" where
  "fq_contents q = map fst (fq_items q)"

subsection \<open>Interleaved execution\<close>

text \<open>
  One atomic operation on the queue. \<open>fq_exec\<close> returns the items the queue accepted, the
  items it delivered to a consumer, the new state and the published transition. A blocked
  \<open>put\<close> or \<open>get\<close> and a \<open>get\<close> that raises leave everything as it is.
\<close>

datatype 'a fq_op =
    OpPut rat 'a
  | OpGet rat
  | OpFlush rat "'a \<Rightarrow> bool"
  | OpClose
  | OpCancel

fun fq_exec :: "'a fq_op \<Rightarrow> 'a fq \<Rightarrow> 'a list \<times> 'a list \<times> 'a fq \<times> bp_transition option" where
  "fq_exec (OpPut now x) q =
     (case fq_put_locked now x q of
        None \<Rightarrow> ([], [], q, None)
      | Some (q', t) \<Rightarrow> (if fq_closed q \<or> fq_cancelled q then [] else [x], [], q', t))"
| "fq_exec (OpGet now) q =
     (case fq_get now q of
        Some (Inr (x, q', t)) \<Rightarrow> ([], [x], q', t)
      | _ \<Rightarrow> ([], [], q, None))"
| "fq_exec (OpFlush now p) q = (let (r, q', t) = fq_flush now p q in ([], [], q', t))"
| "fq_exec OpClose q = ([], [], fq_close q, None)"
| "fq_exec OpCancel q = ([], [], fq_cancel q, None)"

inductive fq_step :: "'a fq \<Rightarrow> 'a fq \<Rightarrow> bool" where
  fq_step_op: "fq_exec op q = (acc, del, q', t) \<Longrightarrow> fq_step q q'"

inductive_cases fq_stepE: "fq_step q q'"

text \<open>A schedule: the operations in the order the event loop runs them.\<close>

fun fifo_run :: "('op \<Rightarrow> 'q \<Rightarrow> 'a list \<times> 'a list \<times> 'q \<times> 'o) \<Rightarrow> 'op list \<Rightarrow> 'q \<Rightarrow> 'a list \<times> 'a list \<times> 'q" where
  "fifo_run exec [] q = ([], [], q)"
| "fifo_run exec (op # ops) q =
     (let (a, d, q1, _) = exec op q; (as, ds, q2) = fifo_run exec ops q1
      in (a @ as, d @ ds, q2))"

text \<open>
  What a consumer relies on: items leave in the order they came in, none is invented or
  duplicated, and operations outside \<open>lossy\<close> lose none.
\<close>

locale fifo_queue =
  fixes contents :: "'q \<Rightarrow> 'a list"
    and exec :: "'op \<Rightarrow> 'q \<Rightarrow> 'a list \<times> 'a list \<times> 'q \<times> 'o"
  assumes exec_order: "exec op q = (a, d, q', t) \<Longrightarrow> subseq (d @ contents q') (contents q @ a)"
begin

lemma run_order: "fifo_run exec ops q = (as, ds, q') \<Longrightarrow> subseq (ds @ contents q') (contents q @ as)"
proof (induction ops arbitrary: q as ds)
  case Nil
  then show ?case by simp
next
  case (Cons op ops)
  obtain a d q1 t where e: "exec op q = (a, d, q1, t)" by (metis prod_cases4)
  obtain as' ds' q2 where r: "fifo_run exec ops q1 = (as', ds', q2)" by (metis prod_cases3)
  have out: "as = a @ as'" "ds = d @ ds'" "q' = q2" using Cons.prems e r by simp_all
  have "subseq (ds' @ contents q2) (contents q1 @ as')" using Cons.IH r out by simp
  then have "subseq (d @ ds' @ contents q2) (d @ contents q1 @ as')"
    by (induction d) simp_all
  moreover have "subseq ((d @ contents q1) @ as') ((contents q @ a) @ as')"
    by (rule list_emb_append_mono [OF exec_order [OF e] subseq_order.order_refl])
  ultimately show ?case using out subseq_order.order_trans by fastforce
qed

end

locale lossless_fifo = fifo_queue contents exec
  for contents :: "'q \<Rightarrow> 'a list"
    and exec :: "'op \<Rightarrow> 'q \<Rightarrow> 'a list \<times> 'a list \<times> 'q \<times> 'o" +
  fixes lossy :: "'op \<Rightarrow> bool"
  assumes exec_lossless: "\<not> lossy op \<Longrightarrow> exec op q = (a, d, q', t) \<Longrightarrow> d @ contents q' = contents q @ a"
begin

lemma run_lossless:
  "list_all (\<lambda>op. \<not> lossy op) ops \<Longrightarrow> fifo_run exec ops q = (as, ds, q') \<Longrightarrow> ds @ contents q' = contents q @ as"
proof (induction ops arbitrary: q as ds)
  case Nil
  then show ?case by simp
next
  case (Cons op ops)
  obtain a d q1 t where e: "exec op q = (a, d, q1, t)" by (metis prod_cases4)
  obtain as' ds' q2 where r: "fifo_run exec ops q1 = (as', ds', q2)" by (metis prod_cases3)
  have out: "as = a @ as'" "ds = d @ ds'" "q' = q2" using Cons.prems e r by simp_all
  have "ds' @ contents q2 = contents q1 @ as'" using Cons.IH r out Cons.prems by simp
  moreover have "d @ contents q1 = contents q @ a" using exec_lossless [of op q a d q1 t] e Cons.prems by simp
  ultimately show ?case using out by (metis append.assoc)
qed

end

subsection \<open>The invariant\<close>

definition fq_inv :: "'a fq \<Rightarrow> bool" where
  "fq_inv q \<longleftrightarrow>
     0 \<le> fq_low q \<and> fq_low q < fq_high q \<and> fq_high q \<le> fq_hard q
   \<and> fq_depth q = sum_list (map snd (fq_items q))
   \<and> list_all (\<lambda>(x, w). 0 \<le> w) (fq_items q)
   \<and> length (fq_items q) \<le> fq_max_items q
   \<and> (fq_hard_limited q \<longrightarrow> fq_corked q)
   \<and> (fq_corked q \<longrightarrow> fq_low q < fq_depth q)
   \<and> (\<not> fq_corked q \<longrightarrow> fq_depth q < fq_high q)
   \<and> (\<not> fq_hard_limited q \<longrightarrow> fq_depth q < fq_hard q)
   \<and> (fq_cancelled q \<longrightarrow> fq_closed q \<and> fq_items q = [])
   \<and> (fq_corked q \<longleftrightarrow> fq_corked_at q \<noteq> None)"

text \<open>What holds between the update of the items and \<open>_observe_locked\<close>.\<close>

definition fq_pre :: "'a fq \<Rightarrow> bool" where
  "fq_pre q \<longleftrightarrow>
     0 \<le> fq_low q \<and> fq_low q < fq_high q \<and> fq_high q \<le> fq_hard q
   \<and> fq_depth q = sum_list (map snd (fq_items q))
   \<and> list_all (\<lambda>(x, w). 0 \<le> w) (fq_items q)
   \<and> length (fq_items q) \<le> fq_max_items q
   \<and> (fq_hard_limited q \<longrightarrow> fq_corked q)
   \<and> (fq_cancelled q \<longrightarrow> fq_closed q \<and> fq_items q = [])
   \<and> (fq_corked q \<longleftrightarrow> fq_corked_at q \<noteq> None)"

lemma fq_observe_frame [simp]:
  "fq_items (fst (fq_observe now q)) = fq_items q"
  "fq_closed (fst (fq_observe now q)) = fq_closed q"
  "fq_cancelled (fst (fq_observe now q)) = fq_cancelled q"
  "fq_depth (fst (fq_observe now q)) = fq_depth q"
  "fq_stage (fst (fq_observe now q)) = fq_stage q"
  "fq_call_id (fst (fq_observe now q)) = fq_call_id q"
  "fq_weight_fn (fst (fq_observe now q)) = fq_weight_fn q"
  "fq_max_items (fst (fq_observe now q)) = fq_max_items q"
  "fq_low (fst (fq_observe now q)) = fq_low q"
  "fq_high (fst (fq_observe now q)) = fq_high q"
  "fq_hard (fst (fq_observe now q)) = fq_hard q"
  by (simp_all add: fq_observe_def)

lemma fq_observe_inv: "fq_pre q \<Longrightarrow> fq_inv (fst (fq_observe now q))"
  unfolding fq_pre_def fq_inv_def by (auto simp: fq_observe_def split: option.splits)

lemma fq_inv_pre: "fq_inv q \<Longrightarrow> fq_pre q"
  unfolding fq_pre_def fq_inv_def by blast

lemma weights_sum_nonneg: "list_all (\<lambda>(x, w). (0 :: rat) \<le> w) xs \<Longrightarrow> 0 \<le> sum_list (map snd xs)"
  by (induction xs) auto

lemma fq_put_inv:
  assumes "fq_inv q" and "fq_put_locked now x q = Some (q', t)"
  shows "fq_inv q'"
proof (cases "fq_closed q \<or> fq_cancelled q")
  case True
  then show ?thesis using assms by (auto simp: fq_put_locked_def)
next
  case False
  let ?q = "q\<lparr> fq_items := fq_items q @ [(x, max 0 (fq_weight_fn q x))], fq_depth := fq_depth q + max 0 (fq_weight_fn q x) \<rparr>"
  have room: "length (fq_items q) < fq_max_items q" and obs: "fq_observe now ?q = (q', t)"
    using assms(2) False by (auto simp: fq_put_locked_def Let_def split: if_splits)
  have "fq_pre ?q" using assms(1) room False by (auto simp: fq_pre_def fq_inv_def)
  from fq_observe_inv [OF this, of now] show ?thesis by (simp add: obs)
qed

lemma fq_get_inv:
  assumes "fq_inv q" and "fq_get now q = Some (Inr (x, q', t))"
  shows "fq_inv q'"
proof -
  obtain w rest where items: "fq_items q = (x, w) # rest"
    and obs: "fq_observe now (q\<lparr> fq_items := rest, fq_depth := max 0 (fq_depth q - w) \<rparr>) = (q', t)"
    using assms(2) by (auto simp: fq_get_def Let_def split: list.splits if_splits prod.splits)
  have "fq_pre (q\<lparr> fq_items := rest, fq_depth := max 0 (fq_depth q - w) \<rparr>)"
    using assms(1) items weights_sum_nonneg [of rest] by (auto simp: fq_pre_def fq_inv_def)
  from fq_observe_inv [OF this, of now] show ?thesis by (simp add: obs)
qed

lemma fq_flush_loop_eq:
  "fq_flush_loop p xs (r, k, d) =
     (r @ filter p (map fst xs), k @ filter (\<lambda>(x, w). \<not> p x) xs,
      d + sum_list (map snd (filter (\<lambda>(x, w). \<not> p x) xs)))"
  by (induction p xs "(r, k, d)" arbitrary: r k d rule: fq_flush_loop.induct) auto

lemma fq_flush_inv:
  assumes "fq_inv q" and "fq_flush now p q = (r, q', t)"
  shows "fq_inv q'"
proof -
  let ?k = "filter (\<lambda>(x, w). \<not> p x) (fq_items q)"
  have obs: "fq_observe now (q\<lparr> fq_items := ?k, fq_depth := sum_list (map snd ?k) \<rparr>) = (q', t)"
    using assms(2) by (simp add: fq_flush_def fq_flush_loop_eq split: prod.splits)
  have "length ?k \<le> fq_max_items q"
    using assms(1) length_filter_le [of _ "fq_items q"] unfolding fq_inv_def by (meson le_trans)
  then have "fq_pre (q\<lparr> fq_items := ?k, fq_depth := sum_list (map snd ?k) \<rparr>)"
    using assms(1) by (auto simp: fq_pre_def fq_inv_def list_all_iff)
  from fq_observe_inv [OF this, of now] show ?thesis by (simp add: obs)
qed

lemma fq_close_inv: "fq_inv q \<Longrightarrow> fq_inv (fq_close q)"
  unfolding fq_inv_def fq_close_def by (cases q; simp only: fq.simps; blast)

lemma fq_cancel_inv: "fq_inv q \<Longrightarrow> fq_inv (fq_cancel q)"
  by (auto simp: fq_inv_def fq_cancel_def)

lemma fq_exec_inv: "fq_inv q \<Longrightarrow> fq_exec op q = (a, d, q', t) \<Longrightarrow> fq_inv q'"
  by (cases op)
     (auto simp: fq_close_inv fq_cancel_inv split: option.splits sum.splits prod.splits
           intro: fq_put_inv fq_get_inv fq_flush_inv)

lemma fq_new_inv: "fq_new c s u lo hi ha wt n = Inr q \<Longrightarrow> 0 \<le> lo \<Longrightarrow> fq_inv q"
  by (auto simp: fq_new_def fq_inv_def split: if_splits)

definition fq_start :: "'a fq \<Rightarrow> bool" where
  "fq_start q \<longleftrightarrow> (\<exists>c s u lo hi ha wt n. 0 \<le> lo \<and> fq_new c s u lo hi ha wt n = Inr q)"

interpretation fq_sys: invariant_system fq_start fq_step fq_inv
  by unfold_locales (auto simp: fq_start_def elim!: fq_stepE intro: fq_new_inv fq_exec_inv)

subsection \<open>Order of delivery\<close>

lemma fq_observe_items: "fq_observe now q = (q', t) \<Longrightarrow> fq_items q' = fq_items q"
  by (metis fst_conv fq_observe_frame(1))

lemma fq_put_contents:
  "fq_put_locked now x q = Some (q', t) \<Longrightarrow>
   fq_contents q' = fq_contents q @ (if fq_closed q \<or> fq_cancelled q then [] else [x])"
  by (auto simp: fq_put_locked_def fq_contents_def Let_def split: if_splits dest!: fq_observe_items)

lemma fq_get_contents: "fq_get now q = Some (Inr (x, q', t)) \<Longrightarrow> fq_contents q = x # fq_contents q'"
  by (auto simp: fq_get_def fq_contents_def Let_def split: if_splits list.splits prod.splits
      dest!: fq_observe_items)

lemma filter_fst: "map fst (filter (\<lambda>(x, w). P x) xs) = filter P (map fst xs)"
  by (induction xs) auto

lemma fq_flush_contents:
  "fq_flush now p q = (r, q', t) \<Longrightarrow>
   r = filter p (fq_contents q) \<and> fq_contents q' = filter (\<lambda>x. \<not> p x) (fq_contents q)"
  by (auto simp: fq_flush_def fq_flush_loop_eq fq_contents_def filter_fst split: prod.splits
      dest!: fq_observe_items)

fun fq_lossy :: "'a fq_op \<Rightarrow> bool" where
  "fq_lossy (OpFlush now p) = True"
| "fq_lossy OpCancel = True"
| "fq_lossy _ = False"

lemma fq_close_contents [simp]: "fq_contents (fq_close q) = fq_contents q"
  by (simp add: fq_contents_def fq_close_def)

lemma fq_exec_keeps:
  "\<not> fq_lossy op \<Longrightarrow> fq_exec op q = (a, d, q', t) \<Longrightarrow> d @ fq_contents q' = fq_contents q @ a"
  by (cases op)
     (auto split: option.splits sum.splits prod.splits if_splits dest: fq_put_contents fq_get_contents)

lemma fq_exec_order:
  "fq_exec op q = (a, d, q', t) \<Longrightarrow> subseq (d @ fq_contents q') (fq_contents q @ a)"
proof (cases op)
  case (OpFlush now p)
  assume "fq_exec op q = (a, d, q', t)"
  with OpFlush obtain r where "fq_flush now p q = (r, q', t)" "a = []" "d = []"
    by (auto split: prod.splits)
  then show ?thesis using fq_flush_contents [of now p q r q' t] by simp
next
  case OpCancel
  assume "fq_exec op q = (a, d, q', t)"
  with OpCancel show ?thesis by (auto simp: fq_cancel_def fq_contents_def)
qed (metis fq_exec_keeps fq_lossy.simps subseq_order.order_refl)+

interpretation fq_fifo: lossless_fifo fq_contents fq_exec fq_lossy
  by unfold_locales (auto intro: fq_exec_order fq_exec_keeps)

subsection \<open>Draining, and what the transitions tell an observer\<close>

lemma fq_inv_empty_uncorked: "fq_inv q \<Longrightarrow> fq_items q = [] \<Longrightarrow> \<not> fq_corked q"
  unfolding fq_inv_def by auto

lemma fq_get_nonempty:
  assumes "fq_items q = (x, w) # rest"
  shows "\<exists>q' t. fq_get now q = Some (Inr (x, q', t)) \<and> fq_items q' = rest"
proof -
  obtain q' t where o: "fq_observe now (q\<lparr> fq_items := rest, fq_depth := max 0 (fq_depth q - w) \<rparr>) = (q', t)"
    by (metis surj_pair)
  then show ?thesis using assms fq_observe_items [OF o] by (simp add: fq_get_def)
qed

lemma fq_drain_run:
  "fq_inv q \<Longrightarrow> \<exists>q'. fifo_run fq_exec (replicate (length (fq_items q)) (OpGet now)) q = ([], fq_contents q, q')
      \<and> fq_items q' = [] \<and> fq_inv q'"
proof (induction "fq_items q" arbitrary: q)
  case Nil
  then show ?case by (simp add: fq_contents_def)
next
  case (Cons xw rest)
  obtain x w where xw: "xw = (x, w)" by (cases xw)
  obtain q1 t where g: "fq_get now q = Some (Inr (x, q1, t))" and r: "fq_items q1 = rest"
    using fq_get_nonempty [of q x w rest now] Cons.hyps(2) xw by auto
  have "fq_inv q1" by (rule fq_get_inv [OF Cons.prems g])
  from Cons.hyps(1) [OF r [symmetric] this] r obtain q' where
    "fifo_run fq_exec (replicate (length rest) (OpGet now)) q1 = ([], fq_contents q1, q')"
    "fq_items q' = []" "fq_inv q'" by auto
  then show ?case using g Cons.hyps(2) [symmetric] fq_get_contents [OF g] by simp
qed

text \<open>The three flow-control phases an observer distinguishes.\<close>

datatype fq_phase = Flowing | Corked | HardLimited

definition fq_phase_of :: "'a fq \<Rightarrow> fq_phase" where
  "fq_phase_of q = (if fq_hard_limited q then HardLimited else if fq_corked q then Corked else Flowing)"

definition bt_phase :: "bp_transition \<Rightarrow> fq_phase" where
  "bt_phase t = (if bt_hard_limited t then HardLimited else if bt_corked t then Corked else Flowing)"

text \<open>A published transition describes the new phase; no transition means no change of phase.\<close>

definition fq_tracks :: "'a fq \<Rightarrow> 'a fq \<Rightarrow> bp_transition option \<Rightarrow> bool" where
  "fq_tracks q q' t \<longleftrightarrow>
     (case t of None \<Rightarrow> fq_phase_of q' = fq_phase_of q
      | Some tr \<Rightarrow> bt_phase tr = fq_phase_of q' \<and> fq_phase_of q' \<noteq> fq_phase_of q
          \<and> bt_depth tr = fq_depth q' \<and> bt_item_count tr = length (fq_items q')
          \<and> bt_corked tr = fq_corked q' \<and> bt_hard_limited tr = fq_hard_limited q')"

lemma fq_observe_tracks:
  assumes "fq_hard_limited q \<longrightarrow> fq_corked q" and "fq_observe now q = (q', t)"
  shows "fq_tracks q q' t"
  using assms unfolding fq_observe_def fq_tracks_def
  by (auto simp: fq_phase_of_def bt_phase_def fq_transition_def split: if_splits)

lemma fq_tracks_upd: "fq_tracks (q\<lparr> fq_items := xs, fq_depth := d \<rparr>) q' t = fq_tracks q q' t"
  unfolding fq_tracks_def fq_phase_of_def by simp

lemma fq_exec_observes:
  assumes "fq_exec op q = (a, d, q', t)" and "op \<noteq> OpCancel"
  shows "t = None \<and> (q' = q \<or> q' = fq_close q)
       \<or> (\<exists>now xs w. fq_observe now (q\<lparr> fq_items := xs, fq_depth := w \<rparr>) = (q', t))"
proof (cases op)
  case (OpPut now x)
  then show ?thesis using assms(1)
    by (auto simp: fq_put_locked_def Let_def split: if_splits option.splits)
next
  case (OpGet now)
  then show ?thesis using assms(1)
    by (auto simp: fq_get_def Let_def split: if_splits option.splits list.splits prod.splits)
next
  case (OpFlush now p)
  then show ?thesis using assms(1) by (auto simp: fq_flush_def Let_def split: prod.splits)
qed (use assms in auto)

lemma fq_exec_tracks:
  assumes inv: "fq_inv q" and run: "fq_exec op q = (a, d, q', t)" and nc: "op \<noteq> OpCancel"
  shows "fq_tracks q q' t"
  using fq_exec_observes [OF run nc]
proof (elim disjE conjE exE)
  assume "t = None" "q' = q"
  then show ?thesis by (simp add: fq_tracks_def)
next
  assume "t = None" "q' = fq_close q"
  then show ?thesis by (simp add: fq_tracks_def fq_close_def fq_phase_of_def)
next
  fix now xs w
  assume o: "fq_observe now (q\<lparr> fq_items := xs, fq_depth := w \<rparr>) = (q', t)"
  have "fq_hard_limited q \<longrightarrow> fq_corked q" using inv unfolding fq_inv_def by blast
  then show ?thesis using fq_observe_tracks [OF _ o] by (simp add: fq_tracks_upd)
qed

subsection \<open>Properties\<close>

text \<open>A queue of four items with watermarks 1, 3 and 5 and unit weights, used as a concrete input.\<close>

definition fq_demo :: "nat fq" where
  "fq_demo = projr (fq_new ''call-1'' ''llm_to_tts'' SPEAK_AHEAD_MS 1 3 5 None 4)"

lemma fq_demo_new: "fq_new ''call-1'' ''llm_to_tts'' SPEAK_AHEAD_MS 1 3 5 None 4 = Inr fq_demo"
  by (simp add: fq_demo_def fq_new_def)

lemma fq_demo_reachable: "reachable fq_start fq_step fq_demo"
  using fq_demo_new unfolding fq_start_def by (intro reachable_init exI conjI) auto

lemma fq_reachable_inv: "reachable fq_start fq_step q \<Longrightarrow> fq_inv q"
  by (rule fq_sys.reachable_inv)

text \<open>C3: Whatever puts, gets, flushes, closes and cancels the coroutines of a call interleave on a
queue the constructor accepted with a non-negative low watermark: the depth is exactly the sum of the
queued weights, at most \<open>max_items\<close> items are queued, a hard-limited queue is corked, a corked
queue is above its low watermark, an uncorked one below its high watermark, and a cancelled queue is
empty.\<close>

theorem fq_reachable_safe:
  assumes "reachable fq_start fq_step q"
  shows "fq_depth q = sum_list (map snd (fq_items q)) \<and> 0 \<le> fq_depth q
       \<and> length (fq_items q) \<le> fq_max_items q
       \<and> (fq_hard_limited q \<longrightarrow> fq_corked q)
       \<and> (if fq_corked q then fq_low q < fq_depth q else fq_depth q < fq_high q)
       \<and> (fq_cancelled q \<longrightarrow> fq_items q = [])"
  using fq_reachable_inv [OF assms] weights_sum_nonneg [of "fq_items q"] unfolding fq_inv_def by auto

lemma fq_reachable_safe_witness:
  "fq_depth fq_demo = sum_list (map snd (fq_items fq_demo))"
  using fq_reachable_safe [OF fq_demo_reachable] by simp

text \<open>The cork cannot deadlock a call. From every reachable state, as many \<open>get\<close>s as there are
queued items all succeed, deliver the queued items in order and leave the queue empty and uncorked, so
every producer waiting in \<open>wait_until_uncorked\<close> may continue.\<close>

theorem fq_drain_uncorks:
  assumes "reachable fq_start fq_step q"
  shows "\<exists>q'. fifo_run fq_exec (replicate (length (fq_items q)) (OpGet now)) q = ([], fq_contents q, q')
          \<and> fq_items q' = [] \<and> \<not> fq_corked q' \<and> fq_uncork_ready q'"
  using fq_drain_run [OF fq_reachable_inv [OF assms], of now] fq_inv_empty_uncorked
  unfolding fq_uncork_ready_def by blast

lemma fq_drain_uncorks_witness:
  "\<exists>q'. fifo_run fq_exec (replicate (length (fq_items fq_demo)) (OpGet 7)) fq_demo = ([], fq_contents fq_demo, q')
     \<and> fq_items q' = [] \<and> \<not> fq_corked q' \<and> fq_uncork_ready q'"
  by (rule fq_drain_uncorks [OF fq_demo_reachable])

text \<open>C25: Under every schedule of operations, what consumers received followed by what is still queued
is a subsequence of what was queued followed by what was accepted: nothing is reordered, duplicated or
invented. It is the whole sequence when the schedule has no \<open>flush\<close> and no \<open>cancel\<close>.\<close>

theorem fq_delivery_order:
  assumes "fifo_run fq_exec ops q = (accepted, delivered, q')"
  shows "subseq (delivered @ fq_contents q') (fq_contents q @ accepted)
       \<and> (list_all (\<lambda>op. \<not> fq_lossy op) ops \<longrightarrow> delivered @ fq_contents q' = fq_contents q @ accepted)"
  using fq_fifo.run_order [OF assms] fq_fifo.run_lossless [OF _ assms] by blast

lemma fq_delivery_order_witness:
  "\<exists>q'. fifo_run fq_exec [OpPut 1 (10 :: nat), OpPut 2 20, OpGet 3] fq_demo = ([10, 20], [10], q')
      \<and> [10] @ fq_contents q' = fq_contents fq_demo @ [10, 20]"
proof -
  obtain q' where r: "fifo_run fq_exec [OpPut 1 (10 :: nat), OpPut 2 20, OpGet 3] fq_demo = ([10, 20], [10], q')"
    by (simp add: fq_demo_def fq_new_def fq_put_locked_def fq_get_def fq_observe_def)
  from fq_delivery_order [OF r] r show ?thesis by auto
qed

text \<open>The published transitions let an observer track the queue: an operation other than
\<open>cancel\<close> publishes a transition exactly when the flow-control phase changes, and the transition
carries the new phase, depth and item count.\<close>

theorem fq_transitions_mirror:
  assumes "fq_inv q" and "fq_exec op q = (a, d, q', t)" and "op \<noteq> OpCancel"
  shows "(t = None \<longleftrightarrow> fq_phase_of q' = fq_phase_of q)
       \<and> (\<forall>tr. t = Some tr \<longrightarrow> bt_phase tr = fq_phase_of q' \<and> bt_depth tr = fq_depth q'
             \<and> bt_item_count tr = length (fq_items q'))"
  using fq_exec_tracks [OF assms] unfolding fq_tracks_def by (cases t) auto

lemma fq_transitions_mirror_witness:
  "\<exists>q' t. fq_exec (OpPut 1 (10 :: nat)) fq_demo = ([10], [], q', t)
      \<and> (t = None \<longleftrightarrow> fq_phase_of q' = fq_phase_of fq_demo)"
proof -
  obtain q' t where r: "fq_exec (OpPut 1 (10 :: nat)) fq_demo = ([10], [], q', t)"
    by (simp add: fq_demo_def fq_new_def fq_put_locked_def fq_observe_def)
  from fq_transitions_mirror [OF fq_reachable_inv [OF fq_demo_reachable] r] r show ?thesis by auto
qed

end
