(* ===== verification/Audio.thy ===== *)
theory Audio
  imports Prelude "HOL-Library.Word"
begin

text \<open>
  PCM16 helpers (\<open>apps/api/pipeline/audio.py\<close>) on little-endian signed 16-bit samples.
  \<open>bytes\<close> is a list of \<open>8 word\<close>; a sample is a \<open>16 word\<close> read with \<open>sint\<close>.
\<close>

type_synonym bytes = "8 word list"

definition pcm16_sample_count :: "bytes \<Rightarrow> nat res" where
  "pcm16_sample_count b =
     (if length b mod 2 \<noteq> 0 then Inl (ValueError ''PCM16 audio must contain complete 16-bit samples'')
      else Inr (length b div 2))"

definition pcm16_duration_ms :: "bytes \<Rightarrow> int \<Rightarrow> rat res" where
  "pcm16_duration_ms b rate =
     (if rate \<le> 0 then Inl (ValueError ''sample_rate must be positive'')
      else bindE (pcm16_sample_count b) (\<lambda>n. Inr (of_nat n / of_int rate * 1000)))"

text \<open>\<open>array("h").frombytes\<close> and \<open>tobytes\<close> on a little-endian machine.\<close>

definition sample_of :: "8 word \<Rightarrow> 8 word \<Rightarrow> 16 word" where
  "sample_of lo hi = word_cat hi lo"

definition bytes_of :: "16 word \<Rightarrow> bytes" where
  "bytes_of s = [ucast s, ucast (drop_bit 8 s)]"

fun samples_of :: "bytes \<Rightarrow> 16 word list" where
  "samples_of (lo # hi # rest) = sample_of lo hi # samples_of rest"
| "samples_of _ = []"

definition bytes_of_samples :: "16 word list \<Rightarrow> bytes" where
  "bytes_of_samples ss = concat (map bytes_of ss)"

definition clamp16 :: "int \<Rightarrow> int" where
  "clamp16 v = max (- 32768) (min 32767 v)"

text \<open>One output sample of the linear interpolation.\<close>

definition resample_at :: "16 word list \<Rightarrow> rat \<Rightarrow> nat \<Rightarrow> int" where
  "resample_at ss scale i =
     (let pos = min (of_nat i * scale) (of_nat (length ss) - 1);
          left = nat \<lfloor>pos\<rfloor>;
          right = min (left + 1) (length ss - 1);
          fraction = pos - of_nat left
      in round_half_even (of_int (sint (ss ! left))
           + of_int (sint (ss ! right) - sint (ss ! left)) * fraction))"

definition resample_length :: "nat \<Rightarrow> int \<Rightarrow> int \<Rightarrow> nat" where
  "resample_length n src tgt = nat (max 1 (round_half_even (of_int (int n * tgt) / of_int src)))"

definition resample_pcm16_mono :: "bytes \<Rightarrow> int \<Rightarrow> int \<Rightarrow> bytes res" where
  "resample_pcm16_mono b src tgt =
     (if src \<le> 0 then Inl (ValueError ''source_rate must be positive'')
      else if length b mod 2 \<noteq> 0 then Inl (ValueError ''PCM16 audio must contain complete 16-bit samples'')
      else if src = tgt then Inr b
      else (let ss = samples_of b in
        if length ss < 2 then Inr b
        else (let scale = of_int src / of_int tgt in
          Inr (bytes_of_samples
            (map (\<lambda>i. word_of_int (clamp16 (resample_at ss scale i))) [0 ..< resample_length (length ss) src tgt])))))"

text \<open>The slices of the list comprehension, front to back.\<close>

function chunk_bytes :: "nat \<Rightarrow> bytes \<Rightarrow> bytes list" where
  "chunk_bytes n b = (if n = 0 \<or> length b < n then [] else take n b # chunk_bytes n (drop n b))"
  by auto
termination by (relation "measure (\<lambda>(n, b). length b)") auto

declare chunk_bytes.simps [simp del]

definition split_pcm16_frames :: "bytes \<Rightarrow> int \<Rightarrow> int \<Rightarrow> bytes list res" where
  "split_pcm16_frames b rate frame_ms =
     (if frame_ms \<notin> {10, 20, 30} then Inl (ValueError ''frame_ms must be one of 10, 20, or 30'')
      else (let samples = rate * frame_ms div 1000; n = samples * 2 in
        if samples \<le> 0 \<or> int (length b) < n then Inr []
        else (let complete = int (length b) - int (length b) mod n
              in Inr (chunk_bytes (nat n) (take (nat complete) b)))))"

subsection \<open>Laws\<close>

lemma samples_of_length: "length (samples_of b) = length b div 2"
  by (induction b rule: samples_of.induct) auto

lemma bytes_of_length [simp]: "length (bytes_of s) = 2"
  by (simp add: bytes_of_def)

lemma bytes_of_samples_length: "length (bytes_of_samples ss) = 2 * length ss"
  by (induction ss) (simp_all add: bytes_of_samples_def)

lemma sample_of_bytes: "sample_of (ucast s) (ucast (drop_bit 8 s)) = (s :: 16 word)"
  unfolding sample_of_def
  by (rule bit_word_eqI) (auto simp: bit_word_cat_iff bit_ucast_iff bit_drop_bit_eq)

lemma samples_of_bytes_of_samples: "samples_of (bytes_of_samples ss) = ss"
  by (induction ss) (simp_all add: bytes_of_samples_def bytes_of_def sample_of_bytes)

lemma bytes_of_sample_of: "bytes_of (sample_of lo hi) = [lo, hi]"
  unfolding bytes_of_def sample_of_def
  by (simp add: bit_eq_iff bit_word_cat_iff bit_ucast_iff bit_drop_bit_eq)

lemma bytes_of_samples_of: "length b mod 2 = 0 \<Longrightarrow> bytes_of_samples (samples_of b) = b"
  by (induction b rule: samples_of.induct) (auto simp: bytes_of_samples_def bytes_of_sample_of)

lemma sint16_range: "- 32768 \<le> sint (s :: 16 word) \<and> sint s \<le> 32767"
  using sint_range_size [of s] by (simp add: word_size)

lemma convex_range:
  assumes "lo \<le> a" "a \<le> hi" "lo \<le> b" "b \<le> hi" "0 \<le> t" "t \<le> (1 :: rat)"
  shows "lo \<le> a + (b - a) * t \<and> a + (b - a) * t \<le> hi"
proof -
  have split: "a + (b - a) * t = a * (1 - t) + b * t" by (simp add: algebra_simps)
  have "lo * (1 - t) + lo * t \<le> a * (1 - t) + b * t"
    using assms by (intro add_mono mult_right_mono) auto
  moreover have "a * (1 - t) + b * t \<le> hi * (1 - t) + hi * t"
    using assms by (intro add_mono mult_right_mono) auto
  ultimately show ?thesis using split by (simp add: algebra_simps)
qed

lemma round_half_even_mono: "x \<le> y \<Longrightarrow> round_half_even x \<le> round_half_even y"
proof -
  assume le: "x \<le> y"
  have fl: "\<lfloor>x\<rfloor> \<le> \<lfloor>y\<rfloor>" using le by (rule floor_mono)
  show ?thesis
  proof (cases "\<lfloor>x\<rfloor> = \<lfloor>y\<rfloor>")
    case True
    then show ?thesis using le by (auto simp: round_half_even_def Let_def)
  next
    case False
    with fl have "\<lfloor>x\<rfloor> + 1 \<le> \<lfloor>y\<rfloor>" by simp
    then show ?thesis by (auto simp: round_half_even_def Let_def)
  qed
qed

text \<open>The interpolated value never leaves the 16-bit range, so the clamp only guards.\<close>

lemma resample_at_range:
  assumes "2 \<le> length ss" "0 \<le> scale"
  shows "- 32768 \<le> resample_at ss scale i \<and> resample_at ss scale i \<le> 32767"
proof -
  define pos where "pos = min (of_nat i * scale) (of_nat (length ss) - 1)"
  define left where "left = nat \<lfloor>pos\<rfloor>"
  define right where "right = min (left + 1) (length ss - 1)"
  have pos0: "0 \<le> pos" using assms by (auto simp: pos_def)
  then have fl: "of_nat left = (of_int \<lfloor>pos\<rfloor> :: rat)" by (simp add: left_def)
  have fr: "0 \<le> pos - of_nat left" "pos - of_nat left \<le> 1" unfolding fl by linarith+
  define a b where "a = sint (ss ! left)" and "b = sint (ss ! right)"
  let ?a = "of_int a :: rat" and ?b = "of_int b :: rat"
  have "- 32768 \<le> ?a + (?b - ?a) * (pos - of_nat left) \<and> ?a + (?b - ?a) * (pos - of_nat left) \<le> 32767"
    using sint16_range [of "ss ! left", folded a_def] sint16_range [of "ss ! right", folded b_def] fr
    by (intro convex_range) (simp_all flip: of_int_le_iff)
  moreover have "round_half_even (- 32768) = - 32768" "round_half_even 32767 = 32767"
    using round_half_even_of_int [of "- 32768"] round_half_even_of_int [of 32767] by simp_all
  ultimately show ?thesis
    unfolding resample_at_def Let_def pos_def [symmetric] left_def [symmetric] right_def [symmetric]
      a_def [symmetric] b_def [symmetric] of_int_diff
    using round_half_even_mono [of "- 32768"] round_half_even_mono [of _ 32767] by fastforce
qed

lemma chunk_bytes_length: "f \<in> set (chunk_bytes n b) \<Longrightarrow> length f = n"
proof (induction n b rule: chunk_bytes.induct)
  case (1 n b)
  then show ?case by (subst (asm) (2) chunk_bytes.simps) (auto split: if_splits)
qed

lemma chunk_bytes_concat: "n \<noteq> 0 \<Longrightarrow> concat (chunk_bytes n b) = take (length b div n * n) b"
proof (induction n b rule: chunk_bytes.induct)
  case (1 n b)
  show ?case
  proof (cases "length b < n")
    case True
    then show ?thesis by (simp add: chunk_bytes.simps)
  next
    case False
    then have q: "length b div n = Suc ((length b - n) div n)"
      using 1(2) by (simp add: le_div_geq)
    have "take (n + (length b - n) div n * n) b = take n b @ take ((length b - n) div n * n) (drop n b)"
      by (simp add: take_add)
    then show ?thesis using 1 False by (subst chunk_bytes.simps) (simp add: q)
  qed
qed

end
