(* ===== verification/Vad.thy ===== *)
theory Vad
  imports Audio
begin

text \<open>
  Voice activity detection (\<open>apps/api/pipeline/stages/vad.py\<close>): the energy and WebRTC
  providers and the turn detector that smooths their per-frame verdicts into turns.

  \<open>math.sqrt\<close> and the WebRTC classifier are arguments (\<open>msqrt\<close>, \<open>is_speech\<close>).
\<close>

record vad_result =
  vr_speech :: bool
  vr_probability :: "rat option"
  vr_energy :: rat
  vr_noise_floor :: "rat option"
  vr_sample_rate :: int
  vr_frame_duration_ms :: rat
  vr_provider :: string
  vr_reason :: string

definition pcm_energy :: "(rat \<Rightarrow> rat) \<Rightarrow> bytes \<Rightarrow> rat" where
  "pcm_energy msqrt b =
     (if length b < 2 \<or> length b mod 2 \<noteq> 0 then 0
      else (let ss = samples_of b in
        if ss = [] then 0
        else msqrt (of_int (sum_list (map (\<lambda>s. sint s * sint s) ss)) / of_nat (length ss)) / 32768))"

subsection \<open>Energy provider\<close>

record energy_vad =
  ev_threshold :: rat
  ev_adaptive :: bool
  ev_multiplier :: rat
  ev_alpha :: rat
  ev_floor :: "rat option"

definition ev_new :: "rat \<Rightarrow> bool \<Rightarrow> rat \<Rightarrow> rat \<Rightarrow> energy_vad" where
  "ev_new th ad mult al =
     \<lparr> ev_threshold = th, ev_adaptive = ad, ev_multiplier = mult, ev_alpha = al, ev_floor = None \<rparr>"

definition ev_effective_threshold :: "energy_vad \<Rightarrow> rat" where
  "ev_effective_threshold v =
     (if ev_adaptive v
      then (case ev_floor v of None \<Rightarrow> ev_threshold v | Some f \<Rightarrow> max (ev_threshold v) (f * ev_multiplier v))
      else ev_threshold v)"

text \<open>The noise floor is updated before the frame length is checked, so a malformed frame moves it too.\<close>

definition ev_detect :: "(rat \<Rightarrow> rat) \<Rightarrow> bytes \<Rightarrow> int \<Rightarrow> energy_vad \<Rightarrow> vad_result res \<times> energy_vad" where
  "ev_detect msqrt b rate v =
     (let energy = pcm_energy msqrt b;
          speech = (energy \<ge> ev_effective_threshold v);
          v' = (if ev_adaptive v \<and> \<not> speech
                then v\<lparr> ev_floor := Some (case ev_floor v of None \<Rightarrow> energy
                          | Some f \<Rightarrow> (1 - ev_alpha v) * f + ev_alpha v * energy) \<rparr>
                else v)
      in (bindE (pcm16_duration_ms b rate) (\<lambda>d.
            Inr \<lparr> vr_speech = speech, vr_probability = None, vr_energy = energy,
                  vr_noise_floor = ev_floor v', vr_sample_rate = rate, vr_frame_duration_ms = d,
                  vr_provider = ''energy'', vr_reason = ''energy_threshold'' \<rparr>), v'))"

subsection \<open>WebRTC and Silero providers\<close>

record webrtc_vad =
  wv_mode :: int
  wv_sample_rate :: int
  wv_frame_ms :: int

text \<open>The argument tells whether the \<open>webrtcvad\<close> module can be imported.\<close>

definition wv_new :: "bool \<Rightarrow> int \<Rightarrow> int \<Rightarrow> int \<Rightarrow> webrtc_vad res" where
  "wv_new installed mode rate frame_ms =
     (if mode \<notin> {0, 1, 2, 3} then Inl (ValueError ''WEBRTC_VAD_MODE must be 0, 1, 2, or 3'')
      else if rate \<notin> {8000, 16000, 32000, 48000}
        then Inl (ValueError ''VAD_SAMPLE_RATE must be one of 8000, 16000, 32000, or 48000'')
      else if frame_ms \<notin> {10, 20, 30} then Inl (ValueError ''VAD_FRAME_MS must be 10, 20, or 30'')
      else if \<not> installed then Inl (RuntimeError ''VAD_PROVIDER=webrtc requires the 'webrtcvad-wheels' package. Install project dependencies or set VAD_PROVIDER=energy.'')
      else Inr \<lparr> wv_mode = mode, wv_sample_rate = rate, wv_frame_ms = frame_ms \<rparr>)"

definition wv_detect ::
  "(rat \<Rightarrow> rat) \<Rightarrow> (bytes \<Rightarrow> int \<Rightarrow> bool) \<Rightarrow> bytes \<Rightarrow> int \<Rightarrow> webrtc_vad \<Rightarrow> vad_result res" where
  "wv_detect msqrt is_speech b rate v =
     bindE (pcm16_duration_ms b rate) (\<lambda>d.
     bindE (if rate \<noteq> wv_sample_rate v then resample_pcm16_mono b rate (wv_sample_rate v) else Inr b) (\<lambda>pcm.
     bindE (split_pcm16_frames pcm (wv_sample_rate v) (wv_frame_ms v)) (\<lambda>frames.
       (let energy = pcm_energy msqrt b in
        if frames = [] then
          Inr \<lparr> vr_speech = False, vr_probability = Some 0, vr_energy = energy, vr_noise_floor = None,
                vr_sample_rate = wv_sample_rate v, vr_frame_duration_ms = d,
                vr_provider = ''webrtc'', vr_reason = ''no_complete_webrtc_frame'' \<rparr>
        else
          (let speech_frames = length (filter (\<lambda>f. is_speech f (wv_sample_rate v)) frames);
               ratio = (of_nat speech_frames / of_nat (length frames) :: rat)
           in Inr \<lparr> vr_speech = (ratio \<ge> 1/2), vr_probability = Some ratio, vr_energy = energy,
                    vr_noise_floor = None, vr_sample_rate = wv_sample_rate v, vr_frame_duration_ms = d,
                    vr_provider = ''webrtc'', vr_reason = ''webrtc_majority'' \<rparr>)))))"

definition silero_detect :: "bytes \<Rightarrow> int \<Rightarrow> vad_result res" where
  "silero_detect b rate = Inl (RuntimeError ''Silero VAD is an optional future provider and is not bundled in this pass. Use VAD_PROVIDER=webrtc or VAD_PROVIDER=energy.'')"

subsection \<open>The turn detector\<close>

datatype vad_state = QUIET | STARTING | SPEAKING | STOPPING

record turn_update =
  tu_previous :: vad_state
  tu_state :: vad_state
  tu_started :: bool
  tu_ended :: bool
  tu_collect_audio :: bool
  tu_state_changed :: bool
  tu_speech_ms :: rat
  tu_total_ms :: rat
  tu_ratio :: rat

record turn_detector =
  td_min_speech_ms :: rat
  td_end_silence_ms :: rat
  td_speech_pad_ms :: rat
  td_state :: vad_state
  td_speech_ms :: rat
  td_silence_ms :: rat
  td_turn_speech_ms :: rat
  td_turn_total_ms :: rat
  td_turn_speech_frames :: nat
  td_turn_total_frames :: nat

definition td_new :: "rat \<Rightarrow> rat \<Rightarrow> rat \<Rightarrow> turn_detector" where
  "td_new mn en pad =
     \<lparr> td_min_speech_ms = mn, td_end_silence_ms = en, td_speech_pad_ms = pad, td_state = QUIET,
       td_speech_ms = 0, td_silence_ms = 0, td_turn_speech_ms = 0, td_turn_total_ms = 0,
       td_turn_speech_frames = 0, td_turn_total_frames = 0 \<rparr>"

definition td_reset_turn_stats :: "turn_detector \<Rightarrow> turn_detector" where
  "td_reset_turn_stats d =
     d\<lparr> td_turn_speech_ms := 0, td_turn_total_ms := 0, td_turn_speech_frames := 0, td_turn_total_frames := 0 \<rparr>"

definition td_ratio :: "turn_detector \<Rightarrow> rat" where
  "td_ratio d = (if td_turn_total_frames d = 0 then 0
                 else of_nat (td_turn_speech_frames d) / of_nat (td_turn_total_frames d))"

text \<open>The state change of \<open>update\<close> on a speech frame, with the \<open>started\<close> flag.\<close>

definition td_on_speech :: "rat \<Rightarrow> turn_detector \<Rightarrow> turn_detector \<times> bool" where
  "td_on_speech dur d0 =
     (let d1 = d0\<lparr> td_speech_ms := td_speech_ms d0 + dur, td_silence_ms := 0 \<rparr>;
          d2 = (if td_state d1 = QUIET then td_reset_turn_stats (d1\<lparr> td_state := STARTING \<rparr>)
                else if td_state d1 = STOPPING then d1\<lparr> td_state := SPEAKING \<rparr>
                else d1)
      in if td_state d2 = STARTING \<and> td_speech_ms d2 \<ge> td_min_speech_ms d2
         then (d2\<lparr> td_state := SPEAKING \<rparr>, True) else (d2, False))"

text \<open>The state change on a silent frame, with the \<open>ended\<close> flag.\<close>

definition td_on_silence :: "rat \<Rightarrow> turn_detector \<Rightarrow> turn_detector \<times> bool" where
  "td_on_silence dur d0 =
     (let d1 = d0\<lparr> td_speech_ms := 0 \<rparr> in
      (case td_state d1 of
         QUIET \<Rightarrow> (d1, False)
       | STARTING \<Rightarrow> (td_reset_turn_stats (d1\<lparr> td_state := QUIET \<rparr>), False)
       | SPEAKING \<Rightarrow> (d1\<lparr> td_state := STOPPING, td_silence_ms := dur \<rparr>, False)
       | STOPPING \<Rightarrow>
           (let d2 = d1\<lparr> td_silence_ms := td_silence_ms d1 + dur \<rparr>
            in if td_silence_ms d2 \<ge> td_end_silence_ms d2
               then (d2\<lparr> td_state := QUIET, td_silence_ms := 0 \<rparr>, True) else (d2, False))))"

definition td_update :: "vad_result \<Rightarrow> turn_detector \<Rightarrow> turn_detector \<times> turn_update" where
  "td_update r d =
     (let dur = vr_frame_duration_ms r;
          (d1, started, ended) =
            (if vr_speech r then (let (x, s) = td_on_speech dur d in (x, s, False))
             else (let (x, e) = td_on_silence dur d in (x, False, e)));
          collect = (td_state d1 \<in> {STARTING, SPEAKING, STOPPING});
          d2 = (if collect \<or> ended
                then d1\<lparr> td_turn_total_ms := td_turn_total_ms d1 + dur,
                         td_turn_total_frames := td_turn_total_frames d1 + 1,
                         td_turn_speech_ms := (if vr_speech r then td_turn_speech_ms d1 + dur else td_turn_speech_ms d1),
                         td_turn_speech_frames := (if vr_speech r then td_turn_speech_frames d1 + 1 else td_turn_speech_frames d1) \<rparr>
                else d1)
      in (d2, \<lparr> tu_previous = td_state d, tu_state = td_state d2, tu_started = started, tu_ended = ended,
                tu_collect_audio = collect, tu_state_changed = (td_state d \<noteq> td_state d2),
                tu_speech_ms = td_turn_speech_ms d2, tu_total_ms = td_turn_total_ms d2,
                tu_ratio = td_ratio d2 \<rparr>))"

text \<open>A stream of frames, and the updates it produces.\<close>

fun td_run :: "turn_detector \<Rightarrow> vad_result list \<Rightarrow> turn_detector \<times> turn_update list" where
  "td_run d [] = (d, [])"
| "td_run d (r # rs) = (let (d1, u) = td_update r d; (d2, us) = td_run d1 rs in (d2, u # us))"

subsection \<open>What the detector remembers of the stream\<close>

text \<open>The duration of the longest final stretch of frames with the given verdict.\<close>

definition trail :: "bool \<Rightarrow> vad_result list \<Rightarrow> rat" where
  "trail b rs = sum_list (map vr_frame_duration_ms (takeWhile (\<lambda>r. vr_speech r = b) (rev rs)))"

lemma trail_snoc [simp]:
  "trail b (rs @ [r]) = (if vr_speech r = b then trail b rs + vr_frame_duration_ms r else 0)"
  by (simp add: trail_def)

lemma trail_Nil [simp]: "trail b [] = 0"
  by (simp add: trail_def)

definition td_inv :: "vad_result list \<Rightarrow> turn_detector \<Rightarrow> bool" where
  "td_inv rs d \<longleftrightarrow>
     td_speech_ms d = trail True rs
   \<and> (td_state d = STOPPING \<longrightarrow> td_silence_ms d = trail False rs)
   \<and> (td_state d \<in> {STARTING, SPEAKING} \<longrightarrow> trail False rs = 0)
   \<and> td_turn_speech_frames d \<le> td_turn_total_frames d"

lemmas td_step_defs = td_update_def td_on_speech_def td_on_silence_def td_reset_turn_stats_def Let_def

lemma td_update_inv:
  assumes "td_inv rs d" and "td_update r d = (d', u)"
  shows "td_inv (rs @ [r]) d'"
proof (cases "vr_speech r")
  case True
  with assms show ?thesis
    by (cases "td_state d") (auto simp: td_inv_def td_step_defs split: if_splits)
next
  case False
  with assms show ?thesis
    by (cases "td_state d") (auto simp: td_inv_def td_step_defs split: if_splits)
qed

lemma td_run_append:
  "td_run d (xs @ ys) = (let (d1, us) = td_run d xs; (d2, vs) = td_run d1 ys in (d2, us @ vs))"
  by (induction xs arbitrary: d) (auto simp: Let_def split: prod.splits)

lemma td_run_inv: "td_run (td_new mn en pad) rs = (d, us) \<Longrightarrow> td_inv rs d"
proof (induction rs arbitrary: d us rule: rev_induct)
  case Nil
  then show ?case by (auto simp: td_inv_def td_new_def)
next
  case (snoc r rs)
  obtain d1 us1 where r1: "td_run (td_new mn en pad) rs = (d1, us1)" by (metis surj_pair)
  obtain d2 u where r2: "td_update r d1 = (d2, u)" by (metis surj_pair)
  have "d = d2" using snoc.prems r1 r2 by (simp add: td_run_append)
  then show ?case using td_update_inv [OF snoc.IH [OF r1] r2] by simp
qed

lemma td_update_frame:
  assumes "td_update r d = (d', u)"
  shows "td_min_speech_ms d' = td_min_speech_ms d \<and> td_end_silence_ms d' = td_end_silence_ms d"
  using assms by (cases "td_state d") (auto simp: td_step_defs split: if_splits)

lemma td_run_frame:
  "td_run d rs = (d', us) \<Longrightarrow> td_min_speech_ms d' = td_min_speech_ms d \<and> td_end_silence_ms d' = td_end_silence_ms d"
proof (induction rs arbitrary: d d' us)
  case (Cons r rs)
  obtain d1 u where u: "td_update r d = (d1, u)" by (metis surj_pair)
  obtain d2 us2 where r: "td_run d1 rs = (d2, us2)" by (metis surj_pair)
  show ?case using Cons.prems Cons.IH [OF r] td_update_frame [OF u] u r by simp
qed simp

text \<open>Whether the detector is inside a turn it has announced.\<close>

definition td_open :: "turn_detector \<Rightarrow> bool" where
  "td_open d \<longleftrightarrow> td_state d = SPEAKING \<or> td_state d = STOPPING"

lemma td_update_flags:
  assumes "td_update r d = (d', u)"
  shows "tu_started u = (\<not> td_open d \<and> td_open d')" "tu_ended u = (td_open d \<and> \<not> td_open d')"
  using assms by (cases "td_state d"; auto simp: td_step_defs td_open_def split: if_splits)+

fun turn_marks_ok :: "bool \<Rightarrow> turn_update list \<Rightarrow> bool" where
  "turn_marks_ok inturn [] = True"
| "turn_marks_ok inturn (u # us) =
     (\<not> (tu_started u \<and> inturn) \<and> \<not> (tu_ended u \<and> \<not> inturn) \<and> \<not> (tu_started u \<and> tu_ended u)
      \<and> turn_marks_ok (if tu_started u then True else if tu_ended u then False else inturn) us)"

lemma td_run_marks: "td_run d rs = (d', us) \<Longrightarrow> turn_marks_ok (td_open d) us"
proof (induction rs arbitrary: d d' us)
  case Nil
  then show ?case by simp
next
  case (Cons r rs)
  obtain d1 u where u: "td_update r d = (d1, u)" by (metis surj_pair)
  obtain d2 us2 where r: "td_run d1 rs = (d2, us2)" by (metis surj_pair)
  have us: "us = u # us2" using Cons.prems u r by simp
  have "(if tu_started u then True else if tu_ended u then False else td_open d) = td_open d1"
    using td_update_flags [OF u] by auto
  then show ?case using Cons.IH [OF r] td_update_flags [OF u] us by auto
qed

lemma td_ratio_bounds: "td_inv rs d \<Longrightarrow> 0 \<le> td_ratio d \<and> td_ratio d \<le> 1"
  by (auto simp: td_inv_def td_ratio_def divide_le_eq)

lemma td_update_started:
  assumes "td_inv rs d" "td_update r d = (d', u)" "tu_started u"
  shows "vr_speech r \<and> td_min_speech_ms d \<le> trail True (rs @ [r])"
  using assms by (cases "td_state d") (auto simp: td_inv_def td_step_defs split: if_splits)

lemma td_update_ended:
  assumes "td_inv rs d" "td_update r d = (d', u)" "tu_ended u"
  shows "\<not> vr_speech r \<and> td_end_silence_ms d \<le> trail False (rs @ [r])"
  using assms by (cases "td_state d") (auto simp: td_inv_def td_step_defs split: if_splits)

lemma td_update_not_ended:
  assumes "td_inv rs d" "td_update r d = (d', u)" "td_open d" "\<not> tu_ended u" "td_state d = STOPPING" "\<not> vr_speech r"
  shows "trail False (rs @ [r]) < td_end_silence_ms d"
  using assms by (auto simp: td_inv_def td_step_defs split: if_splits)

lemma td_update_ratio: "td_update r d = (d', u) \<Longrightarrow> tu_ratio u = td_ratio d'"
  by (auto simp: td_update_def Let_def td_ratio_def split: prod.splits if_splits)

subsection \<open>Properties\<close>

text \<open>C17: The turn detector announces the start of a turn only after at least \<open>min_speech_ms\<close> of
uninterrupted speech ending in the current frame, and its end only after at least
\<open>end_silence_ms\<close> of uninterrupted silence ending in the current frame, whatever frames came before.\<close>

theorem td_debounce:
  assumes "td_run (td_new mn en pad) rs = (d, us)" and "td_update r d = (d', u)"
  shows "(tu_started u \<longrightarrow> vr_speech r \<and> mn \<le> trail True (rs @ [r]))
       \<and> (tu_ended u \<longrightarrow> \<not> vr_speech r \<and> en \<le> trail False (rs @ [r]))
       \<and> 0 \<le> tu_ratio u \<and> tu_ratio u \<le> 1"
proof -
  have inv: "td_inv rs d" by (rule td_run_inv [OF assms(1)])
  have cfg: "td_min_speech_ms d = mn" "td_end_silence_ms d = en"
    using td_run_frame [OF assms(1)] by (simp_all add: td_new_def)
  show ?thesis
    using td_update_started [OF inv assms(2)] td_update_ended [OF inv assms(2)] cfg
      td_ratio_bounds [OF td_update_inv [OF inv assms(2)]] td_update_ratio [OF assms(2)]
    by (simp del: trail_snoc)
qed

definition vr_demo :: "bool \<Rightarrow> rat \<Rightarrow> vad_result" where
  "vr_demo b ms = \<lparr> vr_speech = b, vr_probability = None, vr_energy = 0, vr_noise_floor = None,
                    vr_sample_rate = 16000, vr_frame_duration_ms = ms, vr_provider = ''energy'',
                    vr_reason = ''energy_threshold'' \<rparr>"

lemma td_debounce_witness:
  "\<exists>d us d' u. td_run (td_new 200 700 150) [vr_demo True 120] = (d, us)
     \<and> td_update (vr_demo True 120) d = (d', u) \<and> tu_started u
     \<and> 200 \<le> trail True ([vr_demo True 120] @ [vr_demo True 120])"
proof -
  obtain d us where r: "td_run (td_new 200 700 150) [vr_demo True 120] = (d, us)" by (metis surj_pair)
  obtain d' u where u: "td_update (vr_demo True 120) d = (d', u)" by (metis surj_pair)
  have "tu_started u" using r u by (auto simp: td_new_def vr_demo_def td_step_defs)
  then show ?thesis using td_debounce [OF r u] r u by blast
qed

text \<open>Over any stream of frames the announcements alternate: a turn starts only when none is open,
ends only when one is open, and no frame does both.\<close>

theorem td_marks_alternate:
  "turn_marks_ok False (snd (td_run (td_new mn en pad) rs))"
  using td_run_marks [of "td_new mn en pad" rs] by (cases "td_run (td_new mn en pad) rs") (simp add: td_open_def td_new_def)

end
