(* ===== verification/Py_Value.thy ===== *)
theory Py_Value
  imports Py_Str
begin

text \<open>
  The dynamically typed values that travel in event payloads, HTTP bodies and JSON columns,
  with the operations the program applies to them: truth value, \<open>or\<close>, \<open>dict.get\<close>,
  item assignment, \<open>{**a, **b}\<close>, \<open>str()\<close>, \<open>int()\<close> and \<open>float()\<close>. A
  \<open>dict\<close> is an association list in insertion order.
\<close>

datatype pyv =
    PNone
  | PBool bool
  | PInt int
  | PFloat rat
  | PStr string
  | PList "pyv list"
  | PDict "(string \<times> pyv) list"

type_synonym dict = "(string \<times> pyv) list"

fun truthy :: "pyv \<Rightarrow> bool" where
  "truthy PNone = False"
| "truthy (PBool b) = b"
| "truthy (PInt i) = (i \<noteq> 0)"
| "truthy (PFloat x) = (x \<noteq> 0)"
| "truthy (PStr s) = (s \<noteq> [])"
| "truthy (PList xs) = (xs \<noteq> [])"
| "truthy (PDict d) = (d \<noteq> [])"

definition py_or :: "pyv \<Rightarrow> pyv \<Rightarrow> pyv" where
  "py_or a b = (if truthy a then a else b)"

definition dict_get :: "dict \<Rightarrow> string \<Rightarrow> pyv" where
  "dict_get d k = (case map_of d k of None \<Rightarrow> PNone | Some v \<Rightarrow> v)"

definition dict_get_or :: "dict \<Rightarrow> string \<Rightarrow> pyv \<Rightarrow> pyv" where
  "dict_get_or d k v0 = (case map_of d k of None \<Rightarrow> v0 | Some v \<Rightarrow> v)"

fun dict_set :: "(string \<times> 'v) list \<Rightarrow> string \<Rightarrow> 'v \<Rightarrow> (string \<times> 'v) list" where
  "dict_set [] k v = [(k, v)]"
| "dict_set ((k', v') # d) k v = (if k' = k then (k, v) # d else (k', v') # dict_set d k v)"

definition dict_merge :: "dict \<Rightarrow> dict \<Rightarrow> dict" where
  "dict_merge a b = foldl (\<lambda>d (k, v). dict_set d k v) a b"

definition dict_pop :: "(string \<times> 'v) list \<Rightarrow> string \<Rightarrow> (string \<times> 'v) list" where
  "dict_pop d k = filter (\<lambda>(k', v). k' \<noteq> k) d"

text \<open>An optional string as a Python value and back.\<close>

definition opt_str :: "string option \<Rightarrow> pyv" where
  "opt_str s = (case s of None \<Rightarrow> PNone | Some x \<Rightarrow> PStr x)"

fun is_str :: "pyv \<Rightarrow> bool" where
  "is_str (PStr s) = True"
| "is_str _ = False"

text \<open>
  \<open>str(v)\<close>. The text Python prints for floats and containers is an argument: the
  program never parses it back.
\<close>

fun py_str :: "(pyv \<Rightarrow> string) \<Rightarrow> pyv \<Rightarrow> string" where
  "py_str rep PNone = ''None''"
| "py_str rep (PBool b) = (if b then ''True'' else ''False'')"
| "py_str rep (PInt i) = int_str i"
| "py_str rep (PStr s) = s"
| "py_str rep v = rep v"

text \<open>\<open>int(v)\<close>: floats truncate towards zero. The parser of numeric strings is an argument.\<close>

definition rat_trunc :: "rat \<Rightarrow> int" where
  "rat_trunc x = (if 0 \<le> x then \<lfloor>x\<rfloor> else - \<lfloor>- x\<rfloor>)"

fun py_int :: "(string \<Rightarrow> int option) \<Rightarrow> pyv \<Rightarrow> int res" where
  "py_int parse (PBool b) = Inr (if b then 1 else 0)"
| "py_int parse (PInt i) = Inr i"
| "py_int parse (PFloat x) = Inr (rat_trunc x)"
| "py_int parse (PStr s) =
     (case parse s of Some i \<Rightarrow> Inr i | None \<Rightarrow> Inl (ValueError ''invalid literal for int()''))"
| "py_int parse _ = Inl (TypeError ''int() argument must be a string or a number'')"

fun py_float :: "(string \<Rightarrow> rat option) \<Rightarrow> pyv \<Rightarrow> rat res" where
  "py_float parse (PBool b) = Inr (if b then 1 else 0)"
| "py_float parse (PInt i) = Inr (of_int i)"
| "py_float parse (PFloat x) = Inr x"
| "py_float parse (PStr s) =
     (case parse s of Some x \<Rightarrow> Inr x | None \<Rightarrow> Inl (ValueError ''could not convert string to float''))"
| "py_float parse _ = Inl (TypeError ''float() argument must be a string or a number'')"

lemma map_of_dict_set [simp]: "map_of (dict_set d k v) = (map_of d)(k \<mapsto> v)"
  by (induction d k v rule: dict_set.induct) auto

lemma dict_get_set [simp]: "dict_get (dict_set d k v) k' = (if k' = k then v else dict_get d k')"
  by (simp add: dict_get_def)

lemma map_of_dict_merge: "map_of (dict_merge a b) = (\<lambda>k. case map_of (rev b) k of None \<Rightarrow> map_of a k | v \<Rightarrow> v)"
proof (induction b arbitrary: a)
  case Nil
  then show ?case by (simp add: dict_merge_def)
next
  case (Cons kv b)
  obtain k v where kv: "kv = (k, v)" by (cases kv)
  have "dict_merge a (kv # b) = dict_merge (dict_set a k v) b" by (simp add: dict_merge_def kv)
  then show ?case using Cons [of "dict_set a k v"]
    by (auto simp: kv fun_eq_iff map_add_def split: option.split)
qed

lemma map_of_dict_pop [simp]: "map_of (dict_pop d k) = (map_of d)(k := None)"
  by (induction d) (auto simp: dict_pop_def)

end
