(* ===== verification/Barge_In.thy ===== *)
theory Barge_In
  imports Py_Value
begin

text \<open>
  The per-call interruption state (\<open>apps/api/pipeline/barge_in.py\<close>): class
  \<open>BargeInCoordinator\<close> as the record \<open>bi\<close> with one definition per method, and the
  classifier of interrupting utterances. \<open>time.monotonic()\<close> is the argument \<open>now\<close>,
  in seconds.
\<close>

datatype bi_state =
    IDLE | ASSISTANT_PLAYING | CANDIDATE | CONFIRMED | REJECTED | CANCELLING | CANCELLED | RESOLVING

fun bi_state_value :: "bi_state \<Rightarrow> string" where
  "bi_state_value IDLE = ''IDLE''"
| "bi_state_value ASSISTANT_PLAYING = ''ASSISTANT_PLAYING''"
| "bi_state_value CANDIDATE = ''CANDIDATE''"
| "bi_state_value CONFIRMED = ''CONFIRMED''"
| "bi_state_value REJECTED = ''REJECTED''"
| "bi_state_value CANCELLING = ''CANCELLING''"
| "bi_state_value CANCELLED = ''CANCELLED''"
| "bi_state_value RESOLVING = ''RESOLVING''"

datatype semantic =
    CORRECTION | CANCELLATION_REQUEST | ADDITIVE_CONTEXT | BACKCHANNEL
  | CLARIFICATION_OR_REPEAT | NOISE_OR_ECHO | UNKNOWN_INTERRUPTION

fun semantic_value :: "semantic \<Rightarrow> string" where
  "semantic_value CORRECTION = ''CORRECTION''"
| "semantic_value CANCELLATION_REQUEST = ''CANCELLATION_REQUEST''"
| "semantic_value ADDITIVE_CONTEXT = ''ADDITIVE_CONTEXT''"
| "semantic_value BACKCHANNEL = ''BACKCHANNEL''"
| "semantic_value CLARIFICATION_OR_REPEAT = ''CLARIFICATION_OR_REPEAT''"
| "semantic_value NOISE_OR_ECHO = ''NOISE_OR_ECHO''"
| "semantic_value UNKNOWN_INTERRUPTION = ''UNKNOWN_INTERRUPTION''"

record cursor =
  cu_turn_id :: string
  cu_response_id :: string
  cu_last_sequence :: int
  cu_played_ms :: rat
  cu_updated_at :: rat

record candidate =
  ca_id :: string
  ca_call_id :: string
  ca_turn_id :: string
  ca_response_id :: string
  ca_detected_at_ms :: rat
  ca_last_sequence :: int
  ca_played_ms :: rat
  ca_source :: string

record bi_transition =
  tr_state :: bi_state
  tr_reason :: string
  tr_barge_in_id :: "string option"
  tr_turn_id :: "string option"
  tr_response_id :: "string option"
  tr_duplicate :: bool

record bi =
  bi_call_id :: string
  bi_retention_ms :: rat
  bi_state :: bi_state
  bi_active_turn :: "string option"
  bi_active_response :: "string option"
  bi_candidate :: "candidate option"
  bi_processed :: "string set"
  bi_cursor :: "cursor option"
  bi_interrupted :: "(string \<times> cursor) list"
  bi_last_semantic :: "semantic option"

definition bi_new :: "string \<Rightarrow> rat \<Rightarrow> bi" where
  "bi_new call ret =
     \<lparr> bi_call_id = call, bi_retention_ms = ret, bi_state = IDLE, bi_active_turn = None,
       bi_active_response = None, bi_candidate = None, bi_processed = {}, bi_cursor = None,
       bi_interrupted = [], bi_last_semantic = None \<rparr>"

definition bi_assistant_playing :: "string \<Rightarrow> string \<Rightarrow> bi \<Rightarrow> bi" where
  "bi_assistant_playing turn resp b =
     (let b1 = b\<lparr> bi_active_turn := Some turn, bi_active_response := Some resp \<rparr>
      in if bi_state b1 \<notin> {CANDIDATE, CONFIRMED} then b1\<lparr> bi_state := ASSISTANT_PLAYING \<rparr> else b1)"

definition bi_assistant_finished :: "string \<Rightarrow> bi \<Rightarrow> bi_transition option \<times> bi" where
  "bi_assistant_finished resp b =
     (if Some resp \<noteq> bi_active_response b then (None, b)
      else if (case bi_candidate b of Some c \<Rightarrow> ca_response_id c = resp | None \<Rightarrow> False) then (None, b)
      else (let b1 = b\<lparr> bi_active_turn := None, bi_active_response := None, bi_cursor := None \<rparr>;
                b2 = (if bi_state b1 = ASSISTANT_PLAYING then b1\<lparr> bi_state := IDLE \<rparr> else b1)
            in (Some \<lparr> tr_state = bi_state b2, tr_reason = ''playback_completed'', tr_barge_in_id = None,
                       tr_turn_id = None, tr_response_id = Some resp, tr_duplicate = False \<rparr>, b2)))"

definition bi_playback_progress :: "rat \<Rightarrow> string \<Rightarrow> string \<Rightarrow> int \<Rightarrow> rat \<Rightarrow> bi \<Rightarrow> cursor \<times> bi" where
  "bi_playback_progress now turn resp sq played b =
     (let c = \<lparr> cu_turn_id = turn, cu_response_id = resp, cu_last_sequence = max 0 sq,
               cu_played_ms = max 0 played, cu_updated_at = now \<rparr>
      in (c, if Some resp = bi_active_response b then b\<lparr> bi_cursor := Some c \<rparr> else b))"

definition bi_mk_transition :: "bi_state \<Rightarrow> string \<Rightarrow> candidate \<Rightarrow> bool \<Rightarrow> bi_transition" where
  "bi_mk_transition st reason c dup =
     \<lparr> tr_state = st, tr_reason = reason, tr_barge_in_id = Some (ca_id c),
       tr_turn_id = Some (ca_turn_id c), tr_response_id = Some (ca_response_id c), tr_duplicate = dup \<rparr>"

text \<open>Method \<open>candidate\<close>.\<close>

definition bi_on_candidate :: "candidate \<Rightarrow> bi \<Rightarrow> bi_transition \<times> bi" where
  "bi_on_candidate c b =
     (if ca_id c \<in> bi_processed b
      then (bi_mk_transition (bi_state b) ''duplicate_candidate'' c True, b)
      else if Some (ca_response_id c) \<noteq> bi_active_response b
      then (bi_mk_transition (bi_state b) ''stale_response'' c False,
            b\<lparr> bi_processed := insert (ca_id c) (bi_processed b) \<rparr>)
      else (bi_mk_transition CANDIDATE ''candidate_detected'' c False,
            b\<lparr> bi_candidate := Some c, bi_state := CANDIDATE \<rparr>))"

definition bi_backend :: "rat \<Rightarrow> string \<Rightarrow> string \<Rightarrow> string \<Rightarrow> candidate" where
  "bi_backend now call turn resp =
     \<lparr> ca_id = ''backend-'' @ resp, ca_call_id = call, ca_turn_id = turn, ca_response_id = resp,
       ca_detected_at_ms = now * 1000, ca_last_sequence = 0, ca_played_ms = 0, ca_source = ''backend_vad'' \<rparr>"

definition bi_backend_candidate :: "rat \<Rightarrow> string \<Rightarrow> string \<Rightarrow> bi \<Rightarrow> bi_transition \<times> bi" where
  "bi_backend_candidate now turn resp b = bi_on_candidate (bi_backend now (bi_call_id b) turn resp) b"

definition bi_reject :: "string \<Rightarrow> bi \<Rightarrow> bi_transition option \<times> bi" where
  "bi_reject reason b =
     (case bi_candidate b of
        None \<Rightarrow> (None, b)
      | Some c \<Rightarrow>
          (Some (bi_mk_transition REJECTED reason c False),
           b\<lparr> bi_processed := insert (ca_id c) (bi_processed b), bi_candidate := None, bi_state := REJECTED \<rparr>))"

definition bi_reject_expired :: "rat \<Rightarrow> bi \<Rightarrow> bi_transition option \<times> bi" where
  "bi_reject_expired now b =
     (case bi_candidate b of
        None \<Rightarrow> (None, b)
      | Some c \<Rightarrow>
          (if now * 1000 - ca_detected_at_ms c < bi_retention_ms b then (None, b)
           else bi_reject ''candidate_timeout'' b))"

text \<open>
  Method \<open>confirm\<close>. Empty identifiers are falsy, so a candidate is synthesised only when both
  the active turn and the active response are non-empty.
\<close>

definition str_falsy :: "string option \<Rightarrow> bool" where
  "str_falsy s \<longleftrightarrow> s = None \<or> s = Some []"

definition bi_confirm_target :: "rat \<Rightarrow> bi \<Rightarrow> candidate option" where
  "bi_confirm_target now b =
     (case bi_candidate b of
        Some c \<Rightarrow> Some c
      | None \<Rightarrow> (if str_falsy (bi_active_turn b) \<or> str_falsy (bi_active_response b) then None
                 else Some (bi_backend now (bi_call_id b) (the (bi_active_turn b)) (the (bi_active_response b)))))"

definition bi_confirm :: "rat \<Rightarrow> string \<Rightarrow> bi \<Rightarrow> bi_transition option \<times> bi" where
  "bi_confirm now reason b =
     (case bi_confirm_target now b of
        None \<Rightarrow> (None, b)
      | Some c \<Rightarrow>
          (if Some (ca_response_id c) \<noteq> bi_active_response b then bi_reject ''stale_response'' b
           else (Some (bi_mk_transition CONFIRMED reason c False),
                 b\<lparr> bi_candidate := Some c, bi_state := CONFIRMED \<rparr>)))"

definition bi_begin_cancelling :: "string \<Rightarrow> bi \<Rightarrow> bi_transition option \<times> bi" where
  "bi_begin_cancelling resp b =
     (if Some resp \<noteq> bi_active_response b then (None, b)
      else (Some \<lparr> tr_state = CANCELLING, tr_reason = ''cancel_started'',
                   tr_barge_in_id = map_option ca_id (bi_candidate b),
                   tr_turn_id = bi_active_turn b, tr_response_id = Some resp, tr_duplicate = False \<rparr>,
            b\<lparr> bi_state := CANCELLING \<rparr>))"

text \<open>Method \<open>cancelled\<close>.\<close>

definition bi_on_cancelled :: "rat \<Rightarrow> string \<Rightarrow> bi \<Rightarrow> bi_transition option \<times> bi" where
  "bi_on_cancelled now resp b =
     (if Some resp \<noteq> bi_active_response b then (None, b)
      else (let c = (case bi_cursor b of
                       Some c \<Rightarrow> c
                     | None \<Rightarrow> \<lparr> cu_turn_id = (if str_falsy (bi_active_turn b) then ''unknown'' else the (bi_active_turn b)),
                                cu_response_id = resp, cu_last_sequence = 0, cu_played_ms = 0, cu_updated_at = now \<rparr>)
            in (Some \<lparr> tr_state = CANCELLED, tr_reason = ''cancelled'', tr_barge_in_id = None,
                       tr_turn_id = Some (cu_turn_id c), tr_response_id = Some resp, tr_duplicate = False \<rparr>,
                b\<lparr> bi_interrupted := dict_set (bi_interrupted b) resp c,
                   bi_processed := (case bi_candidate b of Some k \<Rightarrow> insert (ca_id k) (bi_processed b)
                                    | None \<Rightarrow> bi_processed b),
                   bi_candidate := None, bi_state := CANCELLED \<rparr>)))"

definition bi_resolving :: "bi \<Rightarrow> bi" where
  "bi_resolving b = (if bi_state b \<in> {CONFIRMED, CANCELLED} then b\<lparr> bi_state := RESOLVING \<rparr> else b)"

definition bi_resolved :: "semantic \<Rightarrow> bi \<Rightarrow> bi" where
  "bi_resolved s b =
     b\<lparr> bi_last_semantic := Some s, bi_state := IDLE, bi_active_turn := None,
        bi_active_response := None, bi_cursor := None \<rparr>"

definition bi_snapshot :: "bi \<Rightarrow> dict" where
  "bi_snapshot b =
     [(''state'', PStr (bi_state_value (bi_state b))),
      (''active_turn_id'', opt_str (bi_active_turn b)),
      (''active_response_id'', opt_str (bi_active_response b)),
      (''candidate_id'', opt_str (map_option ca_id (bi_candidate b))),
      (''last_semantic'', opt_str (map_option semantic_value (bi_last_semantic b))),
      (''playback'', (case bi_cursor b of
          Some c \<Rightarrow> PDict [(''last_played_sequence'', PInt (cu_last_sequence c)),
                          (''played_audio_ms'', PFloat (cu_played_ms c))]
        | None \<Rightarrow> PNone))]"

subsection \<open>Classification of an interruption\<close>

definition ci_strip_chars :: string where
  "ci_strip_chars = [CHR '' '', CHR 0x09, CHR 0x0A, CHR 0x0D, CHR ''.'', CHR '','', CHR ''!'', CHR ''?'']"

definition ci_clean :: "string \<Rightarrow> string" where
  "ci_clean t = str_join '' '' (str_split (str_strip_chars (str_lower t) ci_strip_chars))"

definition ci_backchannels :: "string list" where
  "ci_backchannels = [''yeah'', ''yep'', ''right'', ''okay'', ''ok'', ''mm-hmm'', ''mhm'', ''uh huh'']"

definition ci_cancellation :: "string list" where
  "ci_cancellation = [''cancel'', ''never mind'', ''nevermind'', ''don't submit'', ''do not submit'', ''stop that'']"

definition ci_correction :: "string list" where
  "ci_correction = [''strike that'', ''scratch that'', ''actually'', ''i meant'', ''no i mean'', ''no, i mean'',
                    ''use'', ''instead'']"

definition ci_additive :: "string list" where
  "ci_additive = [''also'', ''and one more'', ''one more thing'', ''by the way'', ''plus'']"

definition ci_clarification :: "string list" where
  "ci_clarification = [''what did you say'', ''repeat'', ''say that again'', ''can you repeat'']"

definition has_marker :: "string \<Rightarrow> string list \<Rightarrow> bool" where
  "has_marker s ms = list_ex (\<lambda>m. str_contains m s) ms"

definition classify_interruption :: "string \<Rightarrow> semantic" where
  "classify_interruption transcript =
     (let cleaned = ci_clean transcript in
      if cleaned = [] then NOISE_OR_ECHO
      else if cleaned \<in> set ci_backchannels \<or> (length (str_split cleaned) \<le> 2 \<and> cleaned \<in> set ci_backchannels)
        then BACKCHANNEL
      else if has_marker cleaned ci_cancellation then CANCELLATION_REQUEST
      else if has_marker cleaned ci_correction then CORRECTION
      else if startswith cleaned ''and '' \<or> has_marker cleaned ci_additive then ADDITIVE_CONTEXT
      else if has_marker cleaned ci_clarification then CLARIFICATION_OR_REPEAT
      else UNKNOWN_INTERRUPTION)"

subsection \<open>Steps and invariant\<close>

text \<open>One call of any method, with any arguments.\<close>

inductive bi_step :: "bi \<Rightarrow> bi \<Rightarrow> bool" where
  bis_playing: "bi_step b (bi_assistant_playing turn resp b)"
| bis_finished: "bi_step b (snd (bi_assistant_finished resp b))"
| bis_progress: "bi_step b (snd (bi_playback_progress now turn resp sq played b))"
| bis_candidate: "bi_step b (snd (bi_on_candidate c b))"
| bis_reject: "bi_step b (snd (bi_reject reason b))"
| bis_expired: "bi_step b (snd (bi_reject_expired now b))"
| bis_confirm: "bi_step b (snd (bi_confirm now reason b))"
| bis_cancelling: "bi_step b (snd (bi_begin_cancelling resp b))"
| bis_cancelled: "bi_step b (snd (bi_on_cancelled now resp b))"
| bis_resolving: "bi_step b (bi_resolving b)"
| bis_resolved: "bi_step b (bi_resolved sem b)"

inductive_cases bi_stepE: "bi_step b b'"

lemmas bi_defs = bi_assistant_playing_def bi_assistant_finished_def bi_playback_progress_def
  bi_on_candidate_def bi_reject_def bi_reject_expired_def bi_confirm_def bi_confirm_target_def
  bi_begin_cancelling_def bi_on_cancelled_def bi_resolving_def bi_resolved_def bi_mk_transition_def
  bi_backend_def Let_def

definition bi_start :: "bi \<Rightarrow> bool" where
  "bi_start b \<longleftrightarrow> (\<exists>call ret. b = bi_new call ret)"

definition bi_inv :: "bi \<Rightarrow> bool" where
  "bi_inv b \<longleftrightarrow>
     (bi_state b \<in> {CANDIDATE, CONFIRMED} \<longrightarrow> bi_candidate b \<noteq> None)
   \<and> (bi_active_turn b = None \<longleftrightarrow> bi_active_response b = None)
   \<and> (bi_active_response b = None \<longrightarrow> bi_cursor b = None)
   \<and> (case bi_cursor b of None \<Rightarrow> True | Some c \<Rightarrow> 0 \<le> cu_last_sequence c \<and> 0 \<le> cu_played_ms c)
   \<and> list_all (\<lambda>(r, c). 0 \<le> cu_last_sequence c \<and> 0 \<le> cu_played_ms c) (bi_interrupted b)"

lemma list_all_dict_set:
  "list_all (\<lambda>(k, x). P x) d \<Longrightarrow> P v \<Longrightarrow> list_all (\<lambda>(k, x). P x) (dict_set d k v)"
  by (induction d k v rule: dict_set.induct) auto

lemma bi_step_inv: "bi_step b b' \<Longrightarrow> bi_inv b \<Longrightarrow> bi_inv b'"
  by (erule bi_stepE)
     (auto simp: bi_defs bi_inv_def str_falsy_def intro!: list_all_dict_set split: option.splits if_splits)

lemma bi_start_inv: "bi_start b \<Longrightarrow> bi_inv b"
  by (auto simp: bi_start_def bi_new_def bi_inv_def)

interpretation bi_sys: invariant_system bi_start bi_step bi_inv
  by unfold_locales (blast intro: bi_start_inv bi_step_inv)+

lemma bi_step_processed: "bi_step b b' \<Longrightarrow> bi_processed b \<subseteq> bi_processed b'"
  by (erule bi_stepE) (auto simp: bi_defs split: option.splits if_splits)

lemma bi_run_processed: "bi_step\<^sup>*\<^sup>* b b' \<Longrightarrow> bi_processed b \<subseteq> bi_processed b'"
  by (induction rule: rtranclp_induct) (auto dest: bi_step_processed)

lemma bi_confirm_cases:
  assumes "bi_confirm now reason b = (Some tr, b')"
  shows "(tr_state tr = CONFIRMED \<and> bi_state b' = CONFIRMED \<and> tr_response_id tr = bi_active_response b
            \<and> bi_active_response b' = bi_active_response b \<and> bi_candidate b' \<noteq> None)
       \<or> (tr_state tr = REJECTED \<and> bi_state b' = REJECTED \<and> tr_reason tr = ''stale_response''
            \<and> bi_candidate b' = None \<and> the (tr_barge_in_id tr) \<in> bi_processed b')"
  using assms by (auto simp: bi_defs str_falsy_def split: option.splits if_splits)

subsection \<open>Laws of the classifier\<close>

lemma char_lower_idem [simp]: "char_lower (char_lower c) = char_lower c"
proof -
  have lt: "code c < 256" by (simp add: code_def)
  have cc: "n < 256 \<Longrightarrow> code (char_of n) = n" for n :: nat by (simp add: code_def of_char_of)
  show ?thesis using lt by (auto simp: char_lower_def Let_def cc)
qed

lemma str_lower_idem [simp]: "str_lower (str_lower s) = str_lower s"
  by (simp add: str_lower_def)

lemma strip_with_pad:
  assumes "list_all p pre" "list_all p post"
  shows "strip_with p (pre @ s @ post) = strip_with p s"
proof -
  have drop: "dropWhile p (xs @ ys) = dropWhile p ys" if "list_all p xs" for xs ys
    using that by (induction xs) auto
  have post': "list_all p (rev post)" using assms(2) by (simp add: list_all_iff)
  show ?thesis
  proof (cases "dropWhile p s = []")
    case True
    then have "list_all p s" by (simp add: dropWhile_eq_Nil_conv list_all_iff)
    then have "dropWhile p (pre @ s @ post) = []"
      using assms by (auto simp: dropWhile_eq_Nil_conv list_all_iff)
    with True show ?thesis unfolding strip_with_def by (simp only: rev.simps dropWhile.simps)
  next
    case False
    then have "dropWhile p (s @ post) = dropWhile p s @ post"
      using dropWhile_append1 by (metis dropWhile_eq_Nil_conv)
    then show ?thesis using drop [OF assms(1)] drop [OF post'] by (simp add: strip_with_def)
  qed
qed

lemma str_lower_append [simp]: "str_lower (a @ b) = str_lower a @ str_lower b"
  by (simp add: str_lower_def)

lemma ci_strip_lower: "c \<in> set ci_strip_chars \<Longrightarrow> char_lower c = c"
  by (auto simp: ci_strip_chars_def char_lower_def code_def)

lemma ci_clean_pad:
  assumes "set pre \<subseteq> set ci_strip_chars" "set post \<subseteq> set ci_strip_chars"
  shows "ci_clean (pre @ t @ post) = ci_clean t"
proof -
  have low: "str_lower xs = xs" if "set xs \<subseteq> set ci_strip_chars" for xs
    using that ci_strip_lower by (induction xs) (auto simp: str_lower_def)
  have "strip_with (\<lambda>c. c \<in> set ci_strip_chars) (pre @ str_lower t @ post)
      = strip_with (\<lambda>c. c \<in> set ci_strip_chars) (str_lower t)"
    using assms by (intro strip_with_pad) (auto simp: list_all_iff)
  then show ?thesis using low [OF assms(1)] low [OF assms(2)] by (simp add: ci_clean_def str_strip_chars_def)
qed

lemma ci_clean_lower [simp]: "ci_clean (str_lower t) = ci_clean t"
  by (simp add: ci_clean_def)

subsection \<open>Properties\<close>

definition ca_demo :: "string \<Rightarrow> string \<Rightarrow> candidate" where
  "ca_demo k resp = \<lparr> ca_id = k, ca_call_id = ''call-1'', ca_turn_id = ''turn-1'', ca_response_id = resp,
                     ca_detected_at_ms = 1000, ca_last_sequence = 3, ca_played_ms = 240, ca_source = ''browser'' \<rparr>"

text \<open>C36: In every state a sequence of method calls can reach, \<open>CANDIDATE\<close> and \<open>CONFIRMED\<close>
come with a candidate, the active turn and the active response are set and cleared together, there is no
playback cursor without an active response, and no recorded cursor has a negative position.\<close>

theorem bi_reachable_safe:
  assumes "reachable bi_start bi_step b"
  shows "(bi_state b \<in> {CANDIDATE, CONFIRMED} \<longrightarrow> bi_candidate b \<noteq> None)
       \<and> (bi_active_turn b = None \<longleftrightarrow> bi_active_response b = None)
       \<and> (bi_cursor b \<noteq> None \<longrightarrow> bi_active_response b \<noteq> None)
       \<and> (\<forall>r c. (r, c) \<in> set (bi_interrupted b) \<longrightarrow> 0 \<le> cu_last_sequence c \<and> 0 \<le> cu_played_ms c)"
  using bi_sys.reachable_inv [OF assms] by (auto simp: bi_inv_def list_all_iff)

lemma bi_reachable_safe_witness:
  "bi_candidate (snd (bi_on_candidate (ca_demo ''b1'' ''r1'') (bi_assistant_playing ''t1'' ''r1'' (bi_new ''call-1'' 1200)))) \<noteq> None"
proof -
  let ?b0 = "bi_new ''call-1'' 1200"
  let ?b1 = "bi_assistant_playing ''t1'' ''r1'' ?b0"
  let ?b2 = "snd (bi_on_candidate (ca_demo ''b1'' ''r1'') ?b1)"
  have "reachable bi_start bi_step ?b0" by (intro reachable_init) (auto simp: bi_start_def)
  then have "reachable bi_start bi_step ?b1" by (rule reachable_step) (rule bis_playing)
  then have "reachable bi_start bi_step ?b2" by (rule reachable_step) (rule bis_candidate)
  from bi_reachable_safe [OF this] show ?thesis
    by (simp add: bi_defs bi_new_def ca_demo_def)
qed

text \<open>A candidate id is handled once. Once it is in \<open>processed_candidate_ids\<close> it stays there
whatever happens next, and a candidate message with that id changes nothing and is reported as a
duplicate.\<close>

theorem bi_candidate_once:
  assumes "ca_id c \<in> bi_processed b" and "bi_step\<^sup>*\<^sup>* b b'"
  shows "snd (bi_on_candidate c b') = b' \<and> tr_duplicate (fst (bi_on_candidate c b'))"
  using bi_run_processed [OF assms(2)] assms(1) by (auto simp: bi_on_candidate_def bi_mk_transition_def)

lemma bi_candidate_once_witness:
  "let b = snd (bi_reject ''noise'' (snd (bi_on_candidate (ca_demo ''b1'' ''r1'') (bi_assistant_playing ''t1'' ''r1'' (bi_new ''call-1'' 1200)))))
   in snd (bi_on_candidate (ca_demo ''b1'' ''r1'') (bi_resolved NOISE_OR_ECHO b)) = bi_resolved NOISE_OR_ECHO b"
proof -
  let ?b = "snd (bi_reject ''noise'' (snd (bi_on_candidate (ca_demo ''b1'' ''r1'') (bi_assistant_playing ''t1'' ''r1'' (bi_new ''call-1'' 1200)))))"
  have "ca_id (ca_demo ''b1'' ''r1'') \<in> bi_processed ?b" by (simp add: bi_defs bi_new_def ca_demo_def)
  from bi_candidate_once [OF this, of "bi_resolved NOISE_OR_ECHO ?b"] show ?thesis
    by (simp add: bis_resolved r_into_rtranclp)
qed

text \<open>\<open>confirm\<close> confirms exactly the active response. Every transition it returns is either
\<open>CONFIRMED\<close> and names the active response, or is the \<open>REJECTED\<close> transition of a stale
candidate, which is dropped and remembered as processed; a confirmation never changes the active response.\<close>

theorem bi_confirm_active_or_reject:
  assumes "bi_confirm now reason b = (Some tr, b')"
  shows "(tr_state tr = CONFIRMED \<and> tr_response_id tr = bi_active_response b
            \<and> bi_active_response b' = bi_active_response b)
       \<or> (tr_state tr = REJECTED \<and> tr_reason tr = ''stale_response'' \<and> bi_candidate b' = None
            \<and> the (tr_barge_in_id tr) \<in> bi_processed b')"
  using bi_confirm_cases [OF assms] by blast

lemma bi_confirm_active_or_reject_witness:
  "let b = bi_assistant_playing ''t1'' ''r1'' (bi_new ''call-1'' 1200)
   in \<exists>tr b'. bi_confirm 5 ''sustained_speech'' b = (Some tr, b') \<and> tr_response_id tr = Some ''r1''"
proof -
  let ?b = "bi_assistant_playing ''t1'' ''r1'' (bi_new ''call-1'' 1200)"
  obtain tr b' where c: "bi_confirm 5 ''sustained_speech'' ?b = (Some tr, b')" and st: "tr_state tr = CONFIRMED"
    by (simp add: bi_defs bi_new_def str_falsy_def)
  from bi_confirm_active_or_reject [OF c] st have "tr_response_id tr = Some ''r1''"
    by (simp add: bi_defs bi_new_def)
  with c show ?thesis by (auto simp: Let_def)
qed

text \<open>The class of an utterance does not depend on letter case, on leading or trailing blanks, or
on the punctuation around it.\<close>

theorem classify_normalises:
  assumes "set pre \<subseteq> set ci_strip_chars" "set post \<subseteq> set ci_strip_chars"
  shows "classify_interruption (pre @ t @ post) = classify_interruption t
       \<and> classify_interruption (str_lower t) = classify_interruption t"
  by (simp add: classify_interruption_def ci_clean_pad [OF assms])

lemma classify_normalises_witness:
  "classify_interruption ('' '' @ ''OK'' @ ''!!'') = classify_interruption ''OK''"
  using classify_normalises [of "'' ''" "''!!''" "''OK''"] by (simp add: ci_strip_chars_def)

text \<open>The correction marker \<open>use\<close> is matched inside other words: an utterance that merely
says why, with the word \<open>because\<close>, is classified as a correction of the interrupted request.\<close>

theorem classify_because_is_correction:
  "classify_interruption ''Because my flight is delayed'' = CORRECTION"
  by code_simp

end
