(* ===== verification/Events.thy ===== *)
theory Events
  imports Py_Value Audio
begin

text \<open>
  The event schema (\<open>apps/api/events/schemas.py\<close>), the topics
  (\<open>apps/api/events/kafka_admin.py\<close>), the topic choice of the producer
  (\<open>apps/api/events/kafka_producer.py\<close>), and the data that flows between pipeline stages
  (\<open>apps/api/pipeline/events.py\<close>).
\<close>

datatype (plugins only: code size) event_type =
    CALL_STARTED | CALL_ENDED | CALL_FAILED
  | VAD_SPEECH_STARTED | VAD_SPEECH_ENDED | VAD_NOISE_TURN_IGNORED | VAD_PROVIDER_FAILED
  | VAD_STATE_CHANGED
  | USER_BARGE_IN_CANDIDATE | USER_BARGE_IN_CONFIRMED | USER_BARGE_IN_REJECTED
  | USER_BARGE_IN_CLASSIFIED
  | STT_STARTED | STT_FINAL_TRANSCRIPT
  | LLM_STARTED | LLM_FIRST_TOKEN | LLM_TOKEN | LLM_FINAL_RESPONSE
  | TTS_STARTED | TTS_FIRST_AUDIO | TTS_AUDIO_CHUNK | TTS_COMPLETED
  | TRANSPORT_AUDIO_SENT
  | PIPELINE_CORKED | PIPELINE_UNCORKED | PIPELINE_HARD_LIMIT_REACHED
  | PIPELINE_RESPONSE_CANCELLED | PIPELINE_STALE_CHUNK_DROPPED | PIPELINE_PLAYBACK_STOPPED
  | PIPELINE_STAGE_TIMEOUT
  | PROVIDER_FAILED | PROVIDER_FALLBACK_SELECTED
  | DUPLICATE_EVENT_IGNORED
  | POSTGRES_WRITE_FAILED | POSTGRES_RECOVERED
  | WORKFLOW_STATE_CHANGED
  | USAGE_STT_RECORDED | USAGE_LLM_RECORDED | USAGE_TTS_RECORDED | USAGE_FINALIZATION_BARRIER
  | BILLING_USAGE_RECORDED | BILLING_FINALIZED | BILLING_ADJUSTMENT_CREATED
  | TOOL_ACTION_REQUESTED | TOOL_ACTION_CREATE_STARTED | TOOL_ACTION_ACCEPTED
  | TOOL_ACTION_CANCEL_REQUESTED | TOOL_ACTION_CANCELLED | TOOL_ACTION_CANNOT_CANCEL
  | TOOL_ACTION_COMPLETED | TOOL_ACTION_FAILED | TOOL_ACTION_TIMED_OUT
  | WEBHOOK_DELIVERY_REQUESTED | WEBHOOK_DELIVERED | WEBHOOK_FAILED
  | WORKFLOW_DONE

definition event_value :: "event_type \<Rightarrow> string" where
  "event_value e =
     (case e of
        CALL_STARTED \<Rightarrow> ''call.started''
      | CALL_ENDED \<Rightarrow> ''call.ended''
      | CALL_FAILED \<Rightarrow> ''call.failed''
      | VAD_SPEECH_STARTED \<Rightarrow> ''vad.speech_started''
      | VAD_SPEECH_ENDED \<Rightarrow> ''vad.speech_ended''
      | VAD_NOISE_TURN_IGNORED \<Rightarrow> ''vad.noise_turn_ignored''
      | VAD_PROVIDER_FAILED \<Rightarrow> ''vad.provider_failed''
      | VAD_STATE_CHANGED \<Rightarrow> ''vad.state_changed''
      | USER_BARGE_IN_CANDIDATE \<Rightarrow> ''user.barge_in_candidate''
      | USER_BARGE_IN_CONFIRMED \<Rightarrow> ''user.barge_in_confirmed''
      | USER_BARGE_IN_REJECTED \<Rightarrow> ''user.barge_in_rejected''
      | USER_BARGE_IN_CLASSIFIED \<Rightarrow> ''user.barge_in_classified''
      | STT_STARTED \<Rightarrow> ''stt.started''
      | STT_FINAL_TRANSCRIPT \<Rightarrow> ''stt.final_transcript''
      | LLM_STARTED \<Rightarrow> ''llm.started''
      | LLM_FIRST_TOKEN \<Rightarrow> ''llm.first_token''
      | LLM_TOKEN \<Rightarrow> ''llm.token''
      | LLM_FINAL_RESPONSE \<Rightarrow> ''llm.final_response''
      | TTS_STARTED \<Rightarrow> ''tts.started''
      | TTS_FIRST_AUDIO \<Rightarrow> ''tts.first_audio''
      | TTS_AUDIO_CHUNK \<Rightarrow> ''tts.audio_chunk''
      | TTS_COMPLETED \<Rightarrow> ''tts.completed''
      | TRANSPORT_AUDIO_SENT \<Rightarrow> ''transport.audio_sent''
      | PIPELINE_CORKED \<Rightarrow> ''pipeline.corked''
      | PIPELINE_UNCORKED \<Rightarrow> ''pipeline.uncorked''
      | PIPELINE_HARD_LIMIT_REACHED \<Rightarrow> ''pipeline.hard_limit_reached''
      | PIPELINE_RESPONSE_CANCELLED \<Rightarrow> ''pipeline.response_cancelled''
      | PIPELINE_STALE_CHUNK_DROPPED \<Rightarrow> ''pipeline.stale_chunk_dropped''
      | PIPELINE_PLAYBACK_STOPPED \<Rightarrow> ''pipeline.playback_stopped''
      | PIPELINE_STAGE_TIMEOUT \<Rightarrow> ''pipeline.stage_timeout''
      | PROVIDER_FAILED \<Rightarrow> ''provider.failed''
      | PROVIDER_FALLBACK_SELECTED \<Rightarrow> ''provider.fallback_selected''
      | DUPLICATE_EVENT_IGNORED \<Rightarrow> ''duplicate_event.ignored''
      | POSTGRES_WRITE_FAILED \<Rightarrow> ''postgres.write_failed''
      | POSTGRES_RECOVERED \<Rightarrow> ''postgres.recovered''
      | WORKFLOW_STATE_CHANGED \<Rightarrow> ''workflow.state_changed''
      | USAGE_STT_RECORDED \<Rightarrow> ''usage.stt''
      | USAGE_LLM_RECORDED \<Rightarrow> ''usage.llm''
      | USAGE_TTS_RECORDED \<Rightarrow> ''usage.tts''
      | USAGE_FINALIZATION_BARRIER \<Rightarrow> ''usage.finalization_barrier''
      | BILLING_USAGE_RECORDED \<Rightarrow> ''billing.usage_recorded''
      | BILLING_FINALIZED \<Rightarrow> ''billing.finalized''
      | BILLING_ADJUSTMENT_CREATED \<Rightarrow> ''billing.adjustment_created''
      | TOOL_ACTION_REQUESTED \<Rightarrow> ''tool.action.requested''
      | TOOL_ACTION_CREATE_STARTED \<Rightarrow> ''tool.action.create_started''
      | TOOL_ACTION_ACCEPTED \<Rightarrow> ''tool.action.accepted''
      | TOOL_ACTION_CANCEL_REQUESTED \<Rightarrow> ''tool.action.cancel_requested''
      | TOOL_ACTION_CANCELLED \<Rightarrow> ''tool.action.cancelled''
      | TOOL_ACTION_CANNOT_CANCEL \<Rightarrow> ''tool.action.cannot_cancel''
      | TOOL_ACTION_COMPLETED \<Rightarrow> ''tool.action.completed''
      | TOOL_ACTION_FAILED \<Rightarrow> ''tool.action.failed''
      | TOOL_ACTION_TIMED_OUT \<Rightarrow> ''tool.action.timed_out''
      | WEBHOOK_DELIVERY_REQUESTED \<Rightarrow> ''webhook.delivery_requested''
      | WEBHOOK_DELIVERED \<Rightarrow> ''webhook.delivered''
      | WEBHOOK_FAILED \<Rightarrow> ''webhook.failed''
      | WORKFLOW_DONE \<Rightarrow> ''workflow.done'')"

lemma event_value_simps [simp]:
  "event_value CALL_STARTED = ''call.started''"
  "event_value CALL_ENDED = ''call.ended''"
  "event_value CALL_FAILED = ''call.failed''"
  "event_value VAD_SPEECH_STARTED = ''vad.speech_started''"
  "event_value VAD_SPEECH_ENDED = ''vad.speech_ended''"
  "event_value VAD_NOISE_TURN_IGNORED = ''vad.noise_turn_ignored''"
  "event_value VAD_PROVIDER_FAILED = ''vad.provider_failed''"
  "event_value VAD_STATE_CHANGED = ''vad.state_changed''"
  "event_value USER_BARGE_IN_CANDIDATE = ''user.barge_in_candidate''"
  "event_value USER_BARGE_IN_CONFIRMED = ''user.barge_in_confirmed''"
  "event_value USER_BARGE_IN_REJECTED = ''user.barge_in_rejected''"
  "event_value USER_BARGE_IN_CLASSIFIED = ''user.barge_in_classified''"
  "event_value STT_STARTED = ''stt.started''"
  "event_value STT_FINAL_TRANSCRIPT = ''stt.final_transcript''"
  "event_value LLM_STARTED = ''llm.started''"
  "event_value LLM_FIRST_TOKEN = ''llm.first_token''"
  "event_value LLM_TOKEN = ''llm.token''"
  "event_value LLM_FINAL_RESPONSE = ''llm.final_response''"
  "event_value TTS_STARTED = ''tts.started''"
  "event_value TTS_FIRST_AUDIO = ''tts.first_audio''"
  "event_value TTS_AUDIO_CHUNK = ''tts.audio_chunk''"
  "event_value TTS_COMPLETED = ''tts.completed''"
  "event_value TRANSPORT_AUDIO_SENT = ''transport.audio_sent''"
  "event_value PIPELINE_CORKED = ''pipeline.corked''"
  "event_value PIPELINE_UNCORKED = ''pipeline.uncorked''"
  "event_value PIPELINE_HARD_LIMIT_REACHED = ''pipeline.hard_limit_reached''"
  "event_value PIPELINE_RESPONSE_CANCELLED = ''pipeline.response_cancelled''"
  "event_value PIPELINE_STALE_CHUNK_DROPPED = ''pipeline.stale_chunk_dropped''"
  "event_value PIPELINE_PLAYBACK_STOPPED = ''pipeline.playback_stopped''"
  "event_value PIPELINE_STAGE_TIMEOUT = ''pipeline.stage_timeout''"
  "event_value PROVIDER_FAILED = ''provider.failed''"
  "event_value PROVIDER_FALLBACK_SELECTED = ''provider.fallback_selected''"
  "event_value DUPLICATE_EVENT_IGNORED = ''duplicate_event.ignored''"
  "event_value POSTGRES_WRITE_FAILED = ''postgres.write_failed''"
  "event_value POSTGRES_RECOVERED = ''postgres.recovered''"
  "event_value WORKFLOW_STATE_CHANGED = ''workflow.state_changed''"
  "event_value USAGE_STT_RECORDED = ''usage.stt''"
  "event_value USAGE_LLM_RECORDED = ''usage.llm''"
  "event_value USAGE_TTS_RECORDED = ''usage.tts''"
  "event_value USAGE_FINALIZATION_BARRIER = ''usage.finalization_barrier''"
  "event_value BILLING_USAGE_RECORDED = ''billing.usage_recorded''"
  "event_value BILLING_FINALIZED = ''billing.finalized''"
  "event_value BILLING_ADJUSTMENT_CREATED = ''billing.adjustment_created''"
  "event_value TOOL_ACTION_REQUESTED = ''tool.action.requested''"
  "event_value TOOL_ACTION_CREATE_STARTED = ''tool.action.create_started''"
  "event_value TOOL_ACTION_ACCEPTED = ''tool.action.accepted''"
  "event_value TOOL_ACTION_CANCEL_REQUESTED = ''tool.action.cancel_requested''"
  "event_value TOOL_ACTION_CANCELLED = ''tool.action.cancelled''"
  "event_value TOOL_ACTION_CANNOT_CANCEL = ''tool.action.cannot_cancel''"
  "event_value TOOL_ACTION_COMPLETED = ''tool.action.completed''"
  "event_value TOOL_ACTION_FAILED = ''tool.action.failed''"
  "event_value TOOL_ACTION_TIMED_OUT = ''tool.action.timed_out''"
  "event_value WEBHOOK_DELIVERY_REQUESTED = ''webhook.delivery_requested''"
  "event_value WEBHOOK_DELIVERED = ''webhook.delivered''"
  "event_value WEBHOOK_FAILED = ''webhook.failed''"
  "event_value WORKFLOW_DONE = ''workflow.done''"
  by (simp_all add: event_value_def)

definition TOPIC_BY_EVENT_PREFIX :: "(string \<times> string) list" where
  "TOPIC_BY_EVENT_PREFIX =
     [(''call.'', ''call-events''),
      (''vad.'', ''pipeline-events''),
      (''user.'', ''pipeline-events''),
      (''stt.'', ''pipeline-events''),
      (''llm.'', ''pipeline-events''),
      (''tts.'', ''pipeline-events''),
      (''transport.'', ''pipeline-events''),
      (''pipeline.'', ''pipeline-events''),
      (''provider.'', ''provider-events''),
      (''duplicate_event.'', ''pipeline-events''),
      (''postgres.'', ''pipeline-events''),
      (''workflow.'', ''call-events''),
      (''usage.'', ''usage-events''),
      (''billing.'', ''billing-events''),
      (''tool.'', ''tool-events''),
      (''webhook.'', ''webhook-events'')]"

definition topic_for_event :: "event_type \<Rightarrow> string" where
  "topic_for_event e =
     (case List.find (\<lambda>(p, t). startswith (event_value e) p) TOPIC_BY_EVENT_PREFIX of
        Some (p, t) \<Rightarrow> t
      | None \<Rightarrow> ''dead-letter-events'')"

text \<open>\<open>kafka_admin.TOPICS\<close>: the topics \<open>create_topics\<close> makes.\<close>

definition TOPICS :: "string list" where
  "TOPICS = [''call-events'', ''pipeline-events'', ''provider-events'', ''outbox-events'',
             ''usage-events'', ''billing-events'', ''dead-letter-events'']"

text \<open>The topic \<open>KafkaEventProducer.publish\<close> sends to.\<close>

definition publish_destination :: "string option \<Rightarrow> event_type \<Rightarrow> string" where
  "publish_destination topic e =
     (case topic of Some t \<Rightarrow> (if t = [] then topic_for_event e else t) | None \<Rightarrow> topic_for_event e)"

subsection \<open>\<open>PipelineEvent\<close>\<close>

record pevent =
  pe_event_id :: string
  pe_call_id :: string
  pe_turn_id :: string
  pe_event_type :: event_type
  pe_stage :: string
  pe_timestamp :: rat
  pe_seq :: int
  pe_key :: string
  pe_payload :: dict
  pe_trace_id :: "string option"

definition pe_default_key :: "string \<Rightarrow> string \<Rightarrow> event_type \<Rightarrow> int \<Rightarrow> string" where
  "pe_default_key call turn e n =
     call @ '':'' @ turn @ '':'' @ event_value e @ '':'' @ int_str n"

text \<open>The field constraints pydantic checks when the model is built.\<close>

definition pe_valid :: "pevent \<Rightarrow> bool" where
  "pe_valid e \<longleftrightarrow> pe_call_id e \<noteq> [] \<and> pe_turn_id e \<noteq> [] \<and> pe_stage e \<noteq> [] \<and> 1 \<le> pe_seq e \<and> pe_key e \<noteq> []"

text \<open>
  \<open>PipelineEvent.create\<close>. The fresh event id and the clock are arguments; an empty
  idempotency key is replaced by the default one, as \<open>or\<close> does.
\<close>

definition pe_create ::
  "string \<Rightarrow> rat \<Rightarrow> string \<Rightarrow> string \<Rightarrow> event_type \<Rightarrow> string \<Rightarrow> int \<Rightarrow> dict option \<Rightarrow> string option
   \<Rightarrow> string option \<Rightarrow> pevent res" where
  "pe_create uuid now call turn e stage n payload trace key =
     (let ev = \<lparr> pe_event_id = uuid, pe_call_id = call, pe_turn_id = turn, pe_event_type = e,
                 pe_stage = stage, pe_timestamp = now, pe_seq = n,
                 pe_key = (case key of Some k \<Rightarrow> if k = [] then pe_default_key call turn e n else k
                           | None \<Rightarrow> pe_default_key call turn e n),
                 pe_payload = (case payload of Some p \<Rightarrow> p | None \<Rightarrow> []),
                 pe_trace_id = trace \<rparr>
      in if pe_valid ev then Inr ev else Inl (ValueError ''PipelineEvent''))"

subsection \<open>Frames, chunks and the pipeline state\<close>

record audio_frame =
  fr_data :: bytes
  fr_sample_rate :: int
  fr_channels :: int

record text_chunk =
  tc_call_id :: string
  tc_turn_id :: string
  tc_response_id :: string
  tc_sequence :: nat
  tc_text :: string
  tc_estimated_ms :: rat

record audio_chunk =
  ac_call_id :: string
  ac_turn_id :: string
  ac_response_id :: string
  ac_sequence :: nat
  ac_data :: bytes
  ac_sample_rate :: int
  ac_duration_ms :: rat

record end_of_stream =
  eos_call_id :: string
  eos_turn_id :: string
  eos_response_id :: string
  eos_reason :: string

text \<open>What travels through the two queues.\<close>

datatype 'c queue_item = Chunk 'c | Eos end_of_stream

record bp_stage_state =
  bs_corked :: bool
  bs_hard_limited :: bool
  bs_depth :: rat
  bs_depth_unit :: string
  bs_item_count :: nat
  bs_reason_code :: "string option"

definition bs_as_dict :: "bp_stage_state \<Rightarrow> dict" where
  "bs_as_dict b =
     [(''corked'', PBool (bs_corked b)),
      (''hard_limited'', PBool (bs_hard_limited b)),
      (''depth'', PFloat (bs_depth b)),
      (''depth_unit'', PStr (bs_depth_unit b)),
      (''item_count'', PInt (int (bs_item_count b))),
      (''reason_code'', opt_str (bs_reason_code b))]"

record pipeline_state =
  ps_call_id :: string
  ps_current_stage :: string
  ps_corked :: bool
  ps_cork_reason :: "string option"
  ps_queue_depths :: "(string \<times> rat) list"
  ps_backpressure :: "(string \<times> bp_stage_state) list"
  ps_vad :: dict
  ps_transcript :: string
  ps_response :: string
  ps_turn_id :: string
  ps_active_response_id :: "string option"
  ps_sequence :: int

definition ps_new :: "string \<Rightarrow> pipeline_state" where
  "ps_new call =
     \<lparr> ps_call_id = call, ps_current_stage = ''transport'', ps_corked = False, ps_cork_reason = None,
       ps_queue_depths = [], ps_backpressure = [], ps_vad = [], ps_transcript = [], ps_response = [],
       ps_turn_id = ''session'', ps_active_response_id = None, ps_sequence = 0 \<rparr>"

definition ps_backpressure_payload :: "pipeline_state \<Rightarrow> dict" where
  "ps_backpressure_payload s = map (\<lambda>(stage, b). (stage, PDict (bs_as_dict b))) (ps_backpressure s)"

subsection \<open>Laws\<close>

lemma event_value_no_colon: "CHR '':'' \<notin> set (event_value e)"
  by (cases e) simp_all

lemma event_value_not_Nil [simp]: "event_value e \<noteq> []"
  by (cases e) simp_all

end
