(* ===== verification/Session.thy ===== *)
theory Session
  imports Config Effects Flow_Queue Vad Barge_In Events "HOL-Library.List_Lexorder" "HOL-Library.Char_ord"
begin

text \<open>
  The state of one call and its effects (\<open>apps/api/pipeline/stream_module.py\<close>): class
  \<open>ResponseController\<close>, the attributes of \<open>StreamModule\<close>, event emission, response
  cancellation, backpressure reporting and the handlers of playback and barge-in messages.
  Turns, responses and the message loop are in the theories \<open>Turns\<close>, \<open>Response\<close> and
  \<open>Call\<close>.

  The outside world is the argument \<open>io\<close>: fresh identifiers, clocks, the event publisher,
  the browser connection, the speech and language providers. Its answers are indexed by the
  counter \<open>sm_tick\<close>, which every use advances. \<open>sm_events\<close> and \<open>sm_out\<close> are the
  events the publisher accepted and the messages the connection accepted, in order. Spans,
  log lines and Prometheus metrics are not modelled.
\<close>

subsection \<open>The outside world\<close>

record stt_result =
  sr_transcript :: string
  sr_item_id :: string
  sr_audio_seconds :: rat

record token_usage =
  us_input :: int
  us_cached :: int
  us_output :: int

record speech_usage =
  su_input_text :: string
  su_bytes :: int
  su_seconds :: rat

record io =
  io_uuid :: "nat \<Rightarrow> string"
  io_now :: "nat \<Rightarrow> rat"
  io_wall :: "nat \<Rightarrow> rat"
  io_iso :: "rat \<Rightarrow> string"
  io_trace :: "nat \<Rightarrow> string option"
  io_publish :: "pevent \<Rightarrow> exn option"
  io_send :: "nat \<Rightarrow> exn option"
  io_sqrt :: "rat \<Rightarrow> rat"
  io_is_speech :: "bytes \<Rightarrow> int \<Rightarrow> bool"
  io_open_stt :: "exn option"
  io_stt_append :: "nat \<Rightarrow> exn option"
  io_stt_commit :: "nat \<Rightarrow> stt_result res"
  io_llm :: "nat \<Rightarrow> string \<Rightarrow> dict \<Rightarrow> string list \<times> exn option"
  io_llm_usage :: "nat \<Rightarrow> token_usage"
  io_tts :: "nat \<Rightarrow> string \<Rightarrow> bytes list \<times> exn option"
  io_tts_usage :: "nat \<Rightarrow> speech_usage"
  io_exn_str :: "exn \<Rightarrow> string"
  io_exn_name :: "exn \<Rightarrow> string"
  io_rep :: "pyv \<Rightarrow> string"
  io_parse_int :: "string \<Rightarrow> int option"
  io_parse_float :: "string \<Rightarrow> rat option"

text \<open>The names and models of the selected providers.\<close>

record providers =
  pn_stt :: string
  pn_stt_model :: string
  pn_llm :: string
  pn_llm_model :: string
  pn_tts :: string
  pn_tts_model :: string

datatype vad_provider = VWebrtc webrtc_vad | VEnergy energy_vad | VSilero

fun vad_name :: "vad_provider \<Rightarrow> string" where
  "vad_name (VWebrtc v) = ''webrtc''"
| "vad_name (VEnergy v) = ''energy''"
| "vad_name VSilero = ''silero''"

text \<open>What the browser receives.\<close>

datatype wire = Json string dict | Audio audio_chunk

subsection \<open>\<open>ResponseController\<close>\<close>

record responses =
  rc_active :: "string option"
  rc_turns :: "(string \<times> string) list"
  rc_cancelled :: "(string \<times> string) list"

definition rc_new :: responses where
  "rc_new = \<lparr> rc_active = None, rc_turns = [], rc_cancelled = [] \<rparr>"

definition rc_is_cancelled :: "string \<Rightarrow> responses \<Rightarrow> bool" where
  "rc_is_cancelled r c \<longleftrightarrow> map_of (rc_cancelled c) r \<noteq> None"

definition rc_start :: "string \<Rightarrow> string \<Rightarrow> responses \<Rightarrow> responses" where
  "rc_start uuid turn c = c\<lparr> rc_active := Some uuid, rc_turns := dict_set (rc_turns c) uuid turn \<rparr>"

definition rc_cancel :: "string \<Rightarrow> string \<Rightarrow> responses \<Rightarrow> bool \<times> responses" where
  "rc_cancel r reason c =
     (if rc_is_cancelled r c then (False, c)
      else (let c1 = c\<lparr> rc_cancelled := dict_set (rc_cancelled c) r reason \<rparr>
            in (True, if rc_active c1 = Some r then c1\<lparr> rc_active := None \<rparr> else c1)))"

definition rc_finish :: "string \<Rightarrow> responses \<Rightarrow> bool \<times> responses" where
  "rc_finish r c = (if rc_active c \<noteq> Some r then (False, c) else (True, c\<lparr> rc_active := None \<rparr>))"

definition rc_is_active :: "string \<Rightarrow> string \<Rightarrow> responses \<Rightarrow> bool" where
  "rc_is_active r turn c \<longleftrightarrow>
     rc_active c = Some r \<and> map_of (rc_turns c) r = Some turn \<and> \<not> rc_is_cancelled r c"

subsection \<open>The state of a call\<close>

record turn_stats =
  ts_speech_ms :: rat
  ts_total_ms :: rat
  ts_ratio :: rat

record interruption =
  it_response_id :: string
  it_turn_id :: "string option"
  it_generated_text :: string
  it_spoken_text :: string
  it_played_ms :: rat
  it_last_sequence :: int
  it_ratio :: rat

definition it_dict :: "interruption \<Rightarrow> dict" where
  "it_dict i =
     [(''response_id'', PStr (it_response_id i)), (''turn_id'', opt_str (it_turn_id i)),
      (''generated_text'', PStr (it_generated_text i)), (''spoken_text'', PStr (it_spoken_text i)),
      (''played_audio_ms'', PFloat (it_played_ms i)), (''last_played_sequence'', PInt (it_last_sequence i)),
      (''spoken_ratio'', PFloat (it_ratio i))]"

type_synonym text_queue = "text_chunk queue_item fq"
type_synonym audio_queue = "audio_chunk queue_item fq"

record sess =
  sm_call :: string
  sm_org :: string
  sm_agent :: string
  sm_snapshot :: dict
  sm_cfg :: settings
  sm_names :: providers
  sm_ps :: pipeline_state
  sm_vad :: vad_provider
  sm_td :: turn_detector
  sm_stt :: bool
  sm_has_audio :: bool
  sm_audio_bytes :: int
  sm_pending :: "audio_frame list"
  sm_stats :: "(string \<times> turn_stats) list"
  sm_locked :: bool
  sm_closed :: bool
  sm_failed :: bool
  sm_started_at :: rat
  sm_usage :: "(string \<times> string list) list"
  sm_rc :: responses
  sm_tq :: "text_queue option"
  sm_aq :: "audio_queue option"
  sm_bi :: bi
  sm_conv :: "dict list"
  sm_text :: "(string \<times> string) list"
  sm_est :: "(string \<times> rat) list"
  sm_aseq :: "(string \<times> nat) list"
  sm_first_at :: "(string \<times> rat) list"
  sm_last_at :: "(string \<times> rat) list"
  sm_tcomplete :: "string list"
  sm_pdone :: "string list"
  sm_interrupted :: "string list"
  sm_last_int :: "interruption option"
  sm_events :: "pevent list"
  sm_out :: "wire list"
  sm_tick :: nat

type_synonym 'a sm = "(sess, 'a) act"

text \<open>
  The method \<open>_create_vad_provider\<close> and the constructor. The \<open>webrtcvad\<close> module may be
  missing; empty identifiers and snapshots are replaced by their defaults.
\<close>

definition create_vad_provider :: "bool \<Rightarrow> settings \<Rightarrow> vad_provider res" where
  "create_vad_provider installed cfg =
     (let v = st_vad cfg in
      if cv_provider v = ''webrtc''
        then bindE (wv_new installed (cv_webrtc_mode v) (cv_sample_rate v) (cv_frame_ms v)) (\<lambda>w. Inr (VWebrtc w))
      else if cv_provider v = ''energy''
        then Inr (VEnergy (ev_new (cv_energy_threshold v) (cv_adaptive_noise_floor v) (cv_noise_multiplier v)
                                  (cv_noise_update_alpha v)))
      else Inr VSilero)"

definition or_default :: "string option \<Rightarrow> string \<Rightarrow> string" where
  "or_default s d = (case s of None \<Rightarrow> d | Some x \<Rightarrow> if x = [] then d else x)"

definition sm_new ::
  "bool \<Rightarrow> rat \<Rightarrow> string \<Rightarrow> settings \<Rightarrow> providers \<Rightarrow> string option \<Rightarrow> string option \<Rightarrow> dict \<Rightarrow> sess res" where
  "sm_new installed now call cfg names org agent snap =
     bindE (create_vad_provider installed cfg) (\<lambda>vad. Inr
       \<lparr> sm_call = call, sm_org = or_default org ''local-demo-tenant'',
         sm_agent = or_default agent ''local-demo-assistant'', sm_snapshot = snap, sm_cfg = cfg,
         sm_names = names, sm_ps = ps_new call, sm_vad = vad,
         sm_td = td_new (of_int (cv_min_speech_ms (st_vad cfg))) (of_int (cv_end_silence_ms (st_vad cfg)))
                        (of_int (cv_speech_pad_ms (st_vad cfg))),
         sm_stt = False, sm_has_audio = False, sm_audio_bytes = 0, sm_pending = [], sm_stats = [],
         sm_locked = False, sm_closed = False, sm_failed = False, sm_started_at = now, sm_usage = [],
         sm_rc = rc_new, sm_tq = None, sm_aq = None,
         sm_bi = bi_new call (of_int (cg_candidate_retention_ms (st_barge cfg))),
         sm_conv = [], sm_text = [], sm_est = [], sm_aseq = [], sm_first_at = [], sm_last_at = [],
         sm_tcomplete = [], sm_pdone = [], sm_interrupted = [], sm_last_int = None,
         sm_events = [], sm_out = [], sm_tick = 0 \<rparr>)"

definition add_once :: "'a list \<Rightarrow> 'a \<Rightarrow> 'a list" where
  "add_once xs x = (if x \<in> set xs then xs else xs @ [x])"

definition discard :: "'a list \<Rightarrow> 'a \<Rightarrow> 'a list" where
  "discard xs x = filter (\<lambda>y. y \<noteq> x) xs"

definition get_or :: "(string \<times> 'v) list \<Rightarrow> string \<Rightarrow> 'v \<Rightarrow> 'v" where
  "get_or d k v0 = (case map_of d k of None \<Rightarrow> v0 | Some v \<Rightarrow> v)"

subsection \<open>Clocks, messages and events\<close>

definition sm_now :: "io \<Rightarrow> rat sm" where
  "sm_now io = act_step (\<lambda>s. (io_now io (sm_tick s), s\<lparr> sm_tick := Suc (sm_tick s) \<rparr>))"

definition sm_uuid :: "io \<Rightarrow> string sm" where
  "sm_uuid io = act_step (\<lambda>s. (io_uuid io (sm_tick s), s\<lparr> sm_tick := Suc (sm_tick s) \<rparr>))"

definition upd_ps :: "(pipeline_state \<Rightarrow> pipeline_state) \<Rightarrow> unit sm" where
  "upd_ps f = upd (\<lambda>s. s\<lparr> sm_ps := f (sm_ps s) \<rparr>)"

definition upd_bi :: "(bi \<Rightarrow> bi) \<Rightarrow> unit sm" where
  "upd_bi f = upd (\<lambda>s. s\<lparr> sm_bi := f (sm_bi s) \<rparr>)"

definition step_bi :: "(bi \<Rightarrow> 'a \<times> bi) \<Rightarrow> 'a sm" where
  "step_bi f = act_step (\<lambda>s. case f (sm_bi s) of (x, b) \<Rightarrow> (x, s\<lparr> sm_bi := b \<rparr>))"

text \<open>\<open>transport.send_json\<close> and \<open>transport.send_audio\<close>.\<close>

definition sm_transmit :: "io \<Rightarrow> wire \<Rightarrow> unit sm" where
  "sm_transmit io w s =
     (case io_send io (sm_tick s) of
        Some e \<Rightarrow> (Inl e, s\<lparr> sm_tick := Suc (sm_tick s) \<rparr>)
      | None \<Rightarrow> (Inr (), s\<lparr> sm_tick := Suc (sm_tick s), sm_out := sm_out s @ [w] \<rparr>))"

definition sm_send :: "io \<Rightarrow> string \<Rightarrow> dict \<Rightarrow> unit sm" where
  "sm_send io ty payload = sm_transmit io (Json ty payload)"

definition sm_safe_send :: "io \<Rightarrow> string \<Rightarrow> dict \<Rightarrow> unit sm" where
  "sm_safe_send io ty payload = act_suppress (sm_send io ty payload)"

text \<open>The \<open>state\<close> object of \<open>pipeline.state\<close> and \<open>pipeline.event\<close> messages.\<close>

definition sm_state_dict :: "string \<Rightarrow> sess \<Rightarrow> dict" where
  "sm_state_dict stage s =
     [(''stage'', PStr stage),
      (''corked'', PBool (ps_corked (sm_ps s))),
      (''cork_reason'', opt_str (ps_cork_reason (sm_ps s))),
      (''queue_depths'', PDict (map (\<lambda>(k, d). (k, PFloat d)) (ps_queue_depths (sm_ps s)))),
      (''backpressure'', PDict (ps_backpressure_payload (sm_ps s))),
      (''vad'', PDict (ps_vad (sm_ps s))),
      (''active_response_id'', opt_str (ps_active_response_id (sm_ps s))),
      (''barge_in'', PDict (bi_snapshot (sm_bi s)))]"

definition sm_send_pipeline_state :: "io \<Rightarrow> unit sm" where
  "sm_send_pipeline_state io =
     ask (\<lambda>s. sm_safe_send io ''pipeline.state''
                [(''state'', PDict (sm_state_dict (ps_current_stage (sm_ps s)) s))])"

text \<open>\<open>event.model_dump(mode="json")\<close>.\<close>

definition pe_dump :: "io \<Rightarrow> pevent \<Rightarrow> dict" where
  "pe_dump io e =
     [(''event_id'', PStr (pe_event_id e)), (''call_id'', PStr (pe_call_id e)),
      (''turn_id'', PStr (pe_turn_id e)), (''event_type'', PStr (event_value (pe_event_type e))),
      (''stage'', PStr (pe_stage e)), (''timestamp'', PStr (io_iso io (pe_timestamp e))),
      (''sequence_number'', PInt (pe_seq e)), (''idempotency_key'', PStr (pe_key e)),
      (''payload'', PDict (pe_payload e)), (''trace_id'', opt_str (pe_trace_id e))]"

text \<open>
  Building the event and handing it to the publisher. The sequence number is taken first, so
  a failure leaves a gap in the numbers.
\<close>

definition sm_publish :: "io \<Rightarrow> event_type \<Rightarrow> string \<Rightarrow> string option \<Rightarrow> dict \<Rightarrow> pevent sm" where
  "sm_publish io et stage turn payload s =
     (let n = ps_sequence (sm_ps s) + 1;
          s1 = s\<lparr> sm_ps := (sm_ps s)\<lparr> ps_sequence := n \<rparr>, sm_tick := Suc (sm_tick s) \<rparr>;
          enriched = dict_merge [(''tenant_id'', PStr (sm_org s)), (''assistant_id'', PStr (sm_agent s))] payload
      in case pe_create (io_uuid io (sm_tick s)) (io_wall io (sm_tick s)) (sm_call s)
                (or_default turn (ps_turn_id (sm_ps s))) et stage n (Some enriched) (io_trace io (sm_tick s)) None of
           Inl e \<Rightarrow> (Inl e, s1)
         | Inr ev \<Rightarrow> (case io_publish io ev of
             Some e \<Rightarrow> (Inl e, s1)
           | None \<Rightarrow> (Inr ev, s1\<lparr> sm_events := sm_events s1 @ [ev] \<rparr>)))"

definition sm_emit_turn :: "io \<Rightarrow> event_type \<Rightarrow> string \<Rightarrow> string option \<Rightarrow> dict \<Rightarrow> unit sm" where
  "sm_emit_turn io et stage turn payload =
     act_bind (sm_publish io et stage turn payload) (\<lambda>ev.
       ask (\<lambda>s. sm_safe_send io ''pipeline.event''
                  [(''event'', PDict (pe_dump io ev)), (''state'', PDict (sm_state_dict stage s))]))"

definition sm_emit :: "io \<Rightarrow> event_type \<Rightarrow> string \<Rightarrow> dict \<Rightarrow> unit sm" where
  "sm_emit io et stage payload = sm_emit_turn io et stage None payload"

definition sm_provider_failed :: "io \<Rightarrow> string \<Rightarrow> string \<Rightarrow> exn \<Rightarrow> unit sm" where
  "sm_provider_failed io stage provider e =
     sm_emit io PROVIDER_FAILED stage [(''provider'', PStr provider), (''error'', PStr (io_exn_str io e))]"

subsection \<open>Stale chunks\<close>

definition sm_is_stale :: "string \<Rightarrow> string \<Rightarrow> sess \<Rightarrow> bool" where
  "sm_is_stale turn resp s \<longleftrightarrow> \<not> rc_is_active resp turn (sm_rc s)"

definition sm_stale_reason :: "string \<Rightarrow> string \<Rightarrow> sess \<Rightarrow> string" where
  "sm_stale_reason turn resp s =
     (if rc_is_cancelled resp (sm_rc s) then ''response_cancelled''
      else if turn \<noteq> ps_turn_id (sm_ps s) then ''stale_turn''
      else ''stale_response'')"

definition sm_drop_stale_chunk :: "io \<Rightarrow> string \<Rightarrow> string \<Rightarrow> string \<Rightarrow> string \<Rightarrow> rat \<Rightarrow> unit sm" where
  "sm_drop_stale_chunk io stage kind reason resp audio_ms =
     sm_emit io PIPELINE_STALE_CHUNK_DROPPED stage
       [(''chunk_type'', PStr kind), (''reason_code'', PStr reason), (''response_id'', PStr resp),
        (''audio_ms'', PFloat audio_ms)]"

definition sm_set_queue_depth :: "string \<Rightarrow> rat \<Rightarrow> unit sm" where
  "sm_set_queue_depth stage d = upd_ps (\<lambda>p. p\<lparr> ps_queue_depths := dict_set (ps_queue_depths p) stage d \<rparr>)"

definition sm_estimate_speech_ms :: "string \<Rightarrow> sess \<Rightarrow> rat" where
  "sm_estimate_speech_ms t s = of_nat (length t) / cf_speech_chars_per_second (st_flow (sm_cfg s)) * 1000"

definition sm_audio_duration_ms :: "bytes \<Rightarrow> sess \<Rightarrow> rat" where
  "sm_audio_duration_ms b s =
     of_nat (length b) / (2 * of_int (cf_tts_output_sample_rate (st_flow (sm_cfg s)))) * 1000"

subsection \<open>Interruption of a response\<close>

definition spoken_ratio :: "rat \<Rightarrow> rat \<Rightarrow> rat" where
  "spoken_ratio played estimated = max 0 (min 1 (played / estimated))"

definition mk_interruption :: "string \<Rightarrow> sess \<Rightarrow> interruption" where
  "mk_interruption r s =
     (let text = get_or (sm_text s) r [];
          est = max (get_or (sm_est s) r 0) 1;
          played = (case bi_cursor (sm_bi s) of
                      Some c \<Rightarrow> if cu_response_id c = r then cu_played_ms c else 0 | None \<Rightarrow> 0);
          ratio = spoken_ratio played est
      in \<lparr> it_response_id = r, it_turn_id = map_of (rc_turns (sm_rc s)) r, it_generated_text = text,
           it_spoken_text = take (nat (rat_trunc (of_nat (length text) * ratio))) text,
           it_played_ms = played,
           it_last_sequence = (case bi_cursor (sm_bi s) of Some c \<Rightarrow> cu_last_sequence c | None \<Rightarrow> 0),
           it_ratio = ratio \<rparr>)"

definition interrupted_message :: "interruption \<Rightarrow> dict" where
  "interrupted_message i =
     [(''role'', PStr ''assistant''), (''response_id'', PStr (it_response_id i)),
      (''turn_id'', opt_str (it_turn_id i)), (''status'', PStr ''interrupted''),
      (''content'', PStr (it_spoken_text i)), (''generated_text'', PStr (it_generated_text i)),
      (''played_audio_ms'', PFloat (it_played_ms i)), (''last_played_sequence'', PInt (it_last_sequence i))]"

definition sm_mark_response_interrupted :: "string \<Rightarrow> unit sm" where
  "sm_mark_response_interrupted r =
     upd (\<lambda>s. if r \<in> set (sm_interrupted s) then s
              else (let i = mk_interruption r s
                    in s\<lparr> sm_interrupted := sm_interrupted s @ [r], sm_last_int := Some i,
                          sm_conv := sm_conv s @ [interrupted_message i] \<rparr>))"

subsection \<open>The two queues of a response\<close>

text \<open>
  The token queue and the audio queue of the running response, \<open>None\<close> when no response
  runs (\<open>_live_queues\<close> is empty). An operation on a queue is one atomic step on its field.
  \<open>cb\<close> is the queue's \<open>on_state_change\<close> callback, run after the operation when it changed
  the cork.
\<close>

definition step_tq :: "(text_queue option \<Rightarrow> 'a \<times> text_queue option) \<Rightarrow> 'a sm" where
  "step_tq f = act_step (\<lambda>s. case f (sm_tq s) of (x, q) \<Rightarrow> (x, s\<lparr> sm_tq := q \<rparr>))"

definition step_aq :: "(audio_queue option \<Rightarrow> 'a \<times> audio_queue option) \<Rightarrow> 'a sm" where
  "step_aq f = act_step (\<lambda>s. case f (sm_aq s) of (x, q) \<Rightarrow> (x, s\<lparr> sm_aq := q \<rparr>))"

definition sm_notify :: "(bp_transition \<Rightarrow> unit sm) \<Rightarrow> bp_transition option \<Rightarrow> unit sm" where
  "sm_notify cb t = (case t of None \<Rightarrow> act_ret () | Some x \<Rightarrow> cb x)"

definition chunks_of :: "'c queue_item list \<Rightarrow> 'c list" where
  "chunks_of xs = concat (map (\<lambda>x. case x of Chunk c \<Rightarrow> [c] | Eos e \<Rightarrow> []) xs)"

definition flush_live ::
  "rat \<Rightarrow> ('c \<Rightarrow> bool) \<Rightarrow> 'c queue_item fq option \<Rightarrow> ('c list \<times> bp_transition option) \<times> 'c queue_item fq option" where
  "flush_live now p q =
     (case q of
        None \<Rightarrow> (([], None), None)
      | Some q0 \<Rightarrow>
          (case fq_flush now (\<lambda>x. case x of Chunk c \<Rightarrow> p c | Eos e \<Rightarrow> False) q0 of
             (removed, q1, t) \<Rightarrow> ((chunks_of removed, t), Some q1)))"

definition sm_flush_text :: "io \<Rightarrow> (bp_transition \<Rightarrow> unit sm) \<Rightarrow> string \<Rightarrow> text_chunk list sm" where
  "sm_flush_text io cb r =
     act_bind (sm_now io) (\<lambda>now. act_bind (step_tq (flush_live now (\<lambda>c. tc_response_id c = r)))
       (\<lambda>x. act_bind (sm_notify cb (snd x)) (\<lambda>_. act_ret (fst x))))"

definition sm_flush_audio :: "io \<Rightarrow> (bp_transition \<Rightarrow> unit sm) \<Rightarrow> string \<Rightarrow> audio_chunk list sm" where
  "sm_flush_audio io cb r =
     act_bind (sm_now io) (\<lambda>now. act_bind (step_aq (flush_live now (\<lambda>c. ac_response_id c = r)))
       (\<lambda>x. act_bind (sm_notify cb (snd x)) (\<lambda>_. act_ret (fst x))))"

subsection \<open>Cancellation and backpressure\<close>

text \<open>
  \<open>_cancel_response\<close>. The queue callbacks run inside \<open>flush\<close>; they are the argument
  \<open>cb\<close>. The best-effort cancellation of the provider streams is an external call.
\<close>

definition sm_flush_and_report :: "io \<Rightarrow> (bp_transition \<Rightarrow> unit sm) \<Rightarrow> string \<Rightarrow> string \<Rightarrow> unit sm" where
  "sm_flush_and_report io cb r reason =
     act_bind (sm_flush_text io cb r) (\<lambda>ft.
     act_bind (sm_flush_audio io cb r) (\<lambda>fa.
     doall
      [ sm_mark_response_interrupted r,
        act_bind (sm_now io) (\<lambda>now. upd_bi (\<lambda>b. snd (bi_on_cancelled now r b))),
        sm_emit io PIPELINE_RESPONSE_CANCELLED ''barge_in''
          [(''response_id'', PStr r), (''reason_code'', PStr reason),
           (''flushed_text_items'', PInt (int (length ft))),
           (''flushed_audio_items'', PInt (int (length fa))),
           (''stale_audio_ms'', PFloat (sum_list (map ac_duration_ms fa)))],
        ask (\<lambda>s. sm_safe_send io (event_value PIPELINE_RESPONSE_CANCELLED)
          [(''call_id'', PStr (sm_call s)),
           (''turn_id'', PStr (get_or (rc_turns (sm_rc s)) r (ps_turn_id (sm_ps s)))),
           (''response_id'', PStr r), (''reason_code'', PStr reason)]) ]))"

definition fence_response :: "string \<Rightarrow> string \<Rightarrow> sess \<Rightarrow> sess" where
  "fence_response r reason s =
     (let c = snd (rc_cancel r reason (sm_rc s))
      in s\<lparr> sm_rc := c, sm_ps := (sm_ps s)\<lparr> ps_active_response_id := rc_active c \<rparr> \<rparr>)"

definition sm_cancel_with :: "io \<Rightarrow> (bp_transition \<Rightarrow> unit sm) \<Rightarrow> string \<Rightarrow> string \<Rightarrow> unit sm" where
  "sm_cancel_with io cb r reason =
     act_bind (upd_bi (\<lambda>b. snd (bi_begin_cancelling r b))) (\<lambda>_.
     ask (\<lambda>s. if rc_is_cancelled r (sm_rc s) then act_ret ()
              else act_bind (upd (fence_response r reason)) (\<lambda>_. sm_flush_and_report io cb r reason)))"

definition stage_state_of :: "bp_transition \<Rightarrow> bp_stage_state" where
  "stage_state_of t =
     \<lparr> bs_corked = bt_corked t, bs_hard_limited = bt_hard_limited t, bs_depth = bt_depth t,
       bs_depth_unit = bt_depth_unit t, bs_item_count = bt_item_count t,
       bs_reason_code = (if bt_corked t then Some (bt_reason_code t) else None) \<rparr>"

definition ps_note_transition :: "bp_transition \<Rightarrow> pipeline_state \<Rightarrow> pipeline_state" where
  "ps_note_transition t p =
     (let bp = dict_set (ps_backpressure p) (bt_stage t) (stage_state_of t);
          corked = list_ex (\<lambda>(k, b). bs_corked b) bp
      in p\<lparr> ps_backpressure := bp, ps_corked := corked,
            ps_cork_reason := (if corked then Some (bt_reason t) else None) \<rparr>)"

definition bp_event_type :: "bp_transition \<Rightarrow> event_type" where
  "bp_event_type t =
     (if bt_hard_limited t then PIPELINE_HARD_LIMIT_REACHED
      else if bt_corked t then PIPELINE_CORKED else PIPELINE_UNCORKED)"

text \<open>The part of \<open>_on_backpressure\<close> that records and reports the transition.\<close>

definition sm_report_backpressure :: "io \<Rightarrow> bp_transition \<Rightarrow> unit sm" where
  "sm_report_backpressure io t =
     doall
      [ upd_ps (ps_note_transition t),
        sm_emit io (bp_event_type t) ''backpressure''
          [(''stage'', PStr (bt_stage t)), (''reason'', PStr (bt_reason t)),
           (''reason_code'', PStr (bt_reason_code t)), (''queue_depth'', PFloat (bt_depth t)),
           (''depth_unit'', PStr (bt_depth_unit t)), (''item_count'', PInt (int (bt_item_count t))),
           (''hard_limited'', PBool (bt_hard_limited t))],
        ask (\<lambda>s. sm_send io (event_value (bp_event_type t))
          [(''corked'', PBool (ps_corked (sm_ps s))), (''stage'', PStr (bt_stage t)),
           (''reason'', PStr (bt_reason t)), (''reason_code'', PStr (bt_reason_code t)),
           (''queue_depths'', PDict (map (\<lambda>(k, d). (k, PFloat d)) (ps_queue_depths (sm_ps s)))),
           (''backpressure'', PDict (ps_backpressure_payload (sm_ps s)))]) ]"

text \<open>
  \<open>_on_backpressure\<close> and \<open>_cancel_response\<close> call each other: a hard limit cancels the
  active response, which flushes the queues, which may report again. The first argument
  bounds that nesting; the lemma \<open>sm_on_backpressure_depth\<close> shows that one nested call is
  all there is, since the cancellation leaves no active response.
\<close>

fun sm_on_backpressure :: "nat \<Rightarrow> io \<Rightarrow> bp_transition \<Rightarrow> unit sm" where
  "sm_on_backpressure 0 io t = sm_report_backpressure io t"
| "sm_on_backpressure (Suc d) io t =
     act_bind (sm_report_backpressure io t) (\<lambda>_.
       ask (\<lambda>s.
         (if bt_hard_limited t \<and> cf_hard_limit_policy (st_flow (sm_cfg s)) = ''cancel_response''
             \<and> \<not> str_falsy (ps_active_response_id (sm_ps s))
          then sm_cancel_with io (sm_on_backpressure d io) (the (ps_active_response_id (sm_ps s))) ''queue_hard_limit''
          else act_ret ())))"

definition sm_bp :: "io \<Rightarrow> bp_transition \<Rightarrow> unit sm" where
  "sm_bp io = sm_on_backpressure 2 io"

definition sm_cancel_response :: "io \<Rightarrow> string \<Rightarrow> string \<Rightarrow> unit sm" where
  "sm_cancel_response io r reason = sm_cancel_with io (sm_bp io) r reason"

subsection \<open>Playback\<close>

text \<open>Fields of a browser message: \<open>str(m.get(k) or "")\<close>, \<open>int(m.get(k) or 0)\<close>, \<open>float(m.get(k) or 0.0)\<close>.\<close>

definition msg_str :: "io \<Rightarrow> dict \<Rightarrow> string \<Rightarrow> string" where
  "msg_str io m k = py_str (io_rep io) (py_or (dict_get m k) (PStr []))"

definition msg_int :: "io \<Rightarrow> dict \<Rightarrow> string \<Rightarrow> int res" where
  "msg_int io m k = py_int (io_parse_int io) (py_or (dict_get m k) (PInt 0))"

definition msg_float :: "io \<Rightarrow> dict \<Rightarrow> string \<Rightarrow> rat res" where
  "msg_float io m k = py_float (io_parse_float io) (py_or (dict_get m k) (PFloat 0))"

definition sm_playback_progress :: "io \<Rightarrow> string \<Rightarrow> string \<Rightarrow> int \<Rightarrow> rat \<Rightarrow> unit sm" where
  "sm_playback_progress io turn resp sq played =
     act_bind (sm_now io) (\<lambda>now. upd_bi (\<lambda>b. snd (bi_playback_progress now turn resp sq played b)))"

definition sm_handle_playback_progress :: "io \<Rightarrow> dict \<Rightarrow> unit sm" where
  "sm_handle_playback_progress io m =
     act_bind (act_lift (msg_int io m ''last_played_sequence'')) (\<lambda>sq.
     act_bind (act_lift (msg_float io m ''played_audio_ms'')) (\<lambda>played.
       sm_playback_progress io (msg_str io m ''turn_id'') (msg_str io m ''response_id'') sq played))"

definition finish_response_if_playback_done :: "string \<Rightarrow> sess \<Rightarrow> sess" where
  "finish_response_if_playback_done r s =
     (if r \<notin> set (sm_tcomplete s) then s
      else if r \<notin> set (sm_pdone s) then s
      else if rc_is_cancelled r (sm_rc s) then s
      else (case rc_finish r (sm_rc s) of
              (False, c) \<Rightarrow> s
            | (True, c) \<Rightarrow> s\<lparr> sm_rc := c, sm_ps := (sm_ps s)\<lparr> ps_active_response_id := rc_active c \<rparr>,
                             sm_bi := snd (bi_assistant_finished r (sm_bi s)) \<rparr>))"

definition sm_handle_playback_done :: "io \<Rightarrow> dict \<Rightarrow> unit sm" where
  "sm_handle_playback_done io m =
     (let r = msg_str io m ''response_id'' in
      if r = [] then act_ret ()
      else
        act_bind (upd (\<lambda>s. s\<lparr> sm_pdone := add_once (sm_pdone s) r \<rparr>)) (\<lambda>_.
        act_bind (act_lift (msg_int io m ''last_played_sequence'')) (\<lambda>sq.
        act_bind (act_lift (msg_float io m ''played_audio_ms'')) (\<lambda>played.
        doall [ sm_playback_progress io (msg_str io m ''turn_id'') r sq played,
                upd (finish_response_if_playback_done r) ]))))"

subsection \<open>Barge-in\<close>

definition sm_emit_barge_rejected :: "io \<Rightarrow> bi_transition \<Rightarrow> string \<Rightarrow> unit sm" where
  "sm_emit_barge_rejected io tr reason =
     sm_emit io USER_BARGE_IN_REJECTED ''barge_in''
       [(''barge_in_id'', opt_str (tr_barge_in_id tr)), (''response_id'', opt_str (tr_response_id tr)),
        (''reason_code'', PStr reason)]"

text \<open>\<open>self._barge_in.reject(reason) or self._barge_in.reject_expired()\<close>\<close>

definition sm_maybe_reject_candidate :: "io \<Rightarrow> string \<Rightarrow> unit sm" where
  "sm_maybe_reject_candidate io reason =
     act_bind (step_bi (bi_reject reason)) (\<lambda>tr.
     act_bind (case tr of Some t \<Rightarrow> act_ret (Some t)
               | None \<Rightarrow> act_bind (sm_now io) (\<lambda>now. step_bi (bi_reject_expired now))) (\<lambda>tr2.
       (case tr2 of Some t \<Rightarrow> sm_emit_barge_rejected io t (tr_reason t) | None \<Rightarrow> act_ret ())))"

text \<open>Whether an earlier response is still audible enough to be interrupted.\<close>

definition restorable :: "rat \<Rightarrow> candidate \<Rightarrow> sess \<Rightarrow> bool" where
  "restorable now c s =
     (if rc_is_cancelled (ca_response_id c) (sm_rc s) then False
      else if str_falsy (map_of (rc_turns (sm_rc s)) (ca_response_id c)) then False
      else (case map_of (sm_last_at s) (ca_response_id c) of
              None \<Rightarrow> False
            | Some sent \<Rightarrow>
                now - sent \<le> max (of_int (cg_recent_response_grace_ms (st_barge (sm_cfg s))) / 1000)
                                (get_or (sm_est s) (ca_response_id c) 0 / 1000 + 1)))"

definition restore_response :: "candidate \<Rightarrow> sess \<Rightarrow> sess" where
  "restore_response c s =
     (let r = ca_response_id c;
          turn = (if ca_turn_id c = [] then the (map_of (rc_turns (sm_rc s)) r) else ca_turn_id c)
      in s\<lparr> sm_rc := (sm_rc s)\<lparr> rc_active := Some r \<rparr>,
            sm_ps := (sm_ps s)\<lparr> ps_active_response_id := Some r \<rparr>,
            sm_pdone := discard (sm_pdone s) r,
            sm_bi := bi_assistant_playing turn r (sm_bi s) \<rparr>)"

definition sm_restore_recent_response :: "io \<Rightarrow> candidate \<Rightarrow> unit sm" where
  "sm_restore_recent_response io c =
     act_bind (sm_now io) (\<lambda>now. upd (\<lambda>s. if restorable now c s then restore_response c s else s))"

definition sm_candidate_of_message :: "io \<Rightarrow> dict \<Rightarrow> candidate sm" where
  "sm_candidate_of_message io m =
     act_bind (if truthy (dict_get m ''barge_in_id'')
               then act_ret (py_str (io_rep io) (dict_get m ''barge_in_id'')) else sm_uuid io) (\<lambda>k.
     act_bind (if truthy (dict_get m ''detected_at_monotonic_ms'')
               then act_lift (py_float (io_parse_float io) (dict_get m ''detected_at_monotonic_ms''))
               else act_bind (sm_now io) (\<lambda>now. act_ret (now * 1000))) (\<lambda>ts.
     act_bind (act_lift (msg_int io m ''last_played_sequence'')) (\<lambda>sq.
     act_bind (act_lift (msg_float io m ''played_audio_ms'')) (\<lambda>played.
     ask (\<lambda>s. act_ret
       \<lparr> ca_id = k, ca_call_id = sm_call s, ca_turn_id = msg_str io m ''turn_id'',
         ca_response_id = msg_str io m ''response_id'', ca_detected_at_ms = ts, ca_last_sequence = sq,
         ca_played_ms = played, ca_source = ''browser'' \<rparr>)))))"

definition sm_accept_candidate :: "io \<Rightarrow> candidate \<Rightarrow> unit sm" where
  "sm_accept_candidate io c =
     doall
      [ sm_playback_progress io (ca_turn_id c) (ca_response_id c) (ca_last_sequence c) (ca_played_ms c),
        sm_emit io USER_BARGE_IN_CANDIDATE ''barge_in''
          [(''barge_in_id'', PStr (ca_id c)), (''source'', PStr (ca_source c)),
           (''response_id'', PStr (ca_response_id c)), (''last_played_sequence'', PInt (ca_last_sequence c)),
           (''played_audio_ms'', PFloat (ca_played_ms c))],
        sm_emit io PIPELINE_PLAYBACK_STOPPED ''transport''
          [(''barge_in_id'', PStr (ca_id c)), (''response_id'', PStr (ca_response_id c)),
           (''reason_code'', PStr ''speculative_candidate'')],
        sm_send_pipeline_state io ]"

definition sm_handle_barge_in_candidate :: "io \<Rightarrow> dict \<Rightarrow> unit sm" where
  "sm_handle_barge_in_candidate io m =
     act_bind (sm_candidate_of_message io m) (\<lambda>c.
     act_bind (ask (\<lambda>s. if Some (ca_response_id c) \<noteq> bi_active_response (sm_bi s)
                       then sm_restore_recent_response io c else act_ret ())) (\<lambda>_.
     act_bind (step_bi (bi_on_candidate c)) (\<lambda>tr.
       (if tr_reason tr = ''stale_response'' then sm_emit_barge_rejected io tr ''stale_response''
        else if tr_duplicate tr then act_ret ()
        else sm_accept_candidate io c))))"

definition in_echo_grace :: "rat \<Rightarrow> string \<Rightarrow> sess \<Rightarrow> bool" where
  "in_echo_grace now r s =
     (let grace = of_int (cg_backend_echo_grace_ms (st_barge (sm_cfg s))) / 1000 in
      if grace \<le> 0 then False
      else if (case map_of (sm_first_at s) r of Some t \<Rightarrow> now - t < grace | None \<Rightarrow> False) then True
      else (case map_of (sm_last_at s) r of Some t \<Rightarrow> now - t < grace | None \<Rightarrow> False))"

text \<open>The thresholds of \<open>_confirm_barge_in_from_vad\<close>, which depend on who reported the candidate.\<close>

definition barge_in_sustained :: "turn_update \<Rightarrow> sess \<Rightarrow> bool" where
  "barge_in_sustained u s =
     (let g = st_barge (sm_cfg s); client = (bi_candidate (sm_bi s) \<noteq> None)
      in of_int (if client then cg_confirmation_ms g else cg_backend_confirmation_ms g) \<le> tu_speech_ms u
       \<and> (if client then cg_min_speech_ratio g else cg_backend_min_speech_ratio g) \<le> tu_ratio u)"

definition sm_confirm_barge_in :: "io \<Rightarrow> turn_update \<Rightarrow> string \<Rightarrow> unit sm" where
  "sm_confirm_barge_in io u r =
     act_bind (ask (\<lambda>s. if bi_candidate (sm_bi s) = None
                       then act_bind (sm_now io) (\<lambda>now.
                              upd_bi (\<lambda>b. snd (bi_backend_candidate now (ps_turn_id (sm_ps s)) r b)))
                       else act_ret ())) (\<lambda>_.
     act_bind (sm_now io) (\<lambda>now.
     act_bind (step_bi (bi_confirm now ''sustained_speech'')) (\<lambda>tr.
       (case tr of
          None \<Rightarrow> act_ret ()
        | Some t \<Rightarrow>
            doall
             [ sm_emit io USER_BARGE_IN_CONFIRMED ''barge_in''
                 [(''barge_in_id'', opt_str (tr_barge_in_id t)), (''response_id'', PStr r),
                  (''reason_code'', PStr (tr_reason t)), (''speech_duration_ms'', PFloat (tu_speech_ms u)),
                  (''speech_frame_ratio'', PFloat (tu_ratio u))],
               sm_cancel_response io r ''barge_in_confirmed'' ]))))"

definition sm_confirm_barge_in_from_vad :: "io \<Rightarrow> turn_update \<Rightarrow> unit sm" where
  "sm_confirm_barge_in_from_vad io u =
     ask (\<lambda>s.
       (if str_falsy (ps_active_response_id (sm_ps s)) then act_ret ()
        else
          (let r = the (ps_active_response_id (sm_ps s)) in
           if \<not> barge_in_sustained u s then act_ret ()
           else if bi_candidate (sm_bi s) = None
             then act_bind (sm_now io) (\<lambda>now.
                    if in_echo_grace now r s then act_ret () else sm_confirm_barge_in io u r)
           else sm_confirm_barge_in io u r)))"

end
