(* ===== verification/Session_Laws.thy ===== *)
theory Session_Laws
  imports Session
begin

text \<open>
  What every action of a call keeps. \<open>sm_le\<close> relates the state before and after: events are
  only appended, with growing sequence numbers and the default idempotency key; a cancelled
  response stays cancelled and no further audio of it is sent; the barge-in coordinator only
  changes by its own steps; the call identity and the configuration stay; and the invariant
  \<open>sm_ok\<close> is kept, which ties the response controller, the pipeline state, the live queues
  and the recorded interruption together. With the flag \<open>p\<close> the action neither
  closes nor fails the call; with the flag \<open>q\<close> it leaves no live queue behind where there was
  none. The lemmas here carry all of it through the actions
  of \<open>Session\<close>.
\<close>

subsection \<open>The order on call states\<close>

fun audio_item :: "string \<Rightarrow> wire \<Rightarrow> audio_chunk list" where
  "audio_item r (Audio c) = (if ac_response_id c = r then [c] else [])"
| "audio_item r (Json ty d) = []"

text \<open>The audio of a response that was sent.\<close>

definition audio_of :: "string \<Rightarrow> wire list \<Rightarrow> audio_chunk list" where
  "audio_of r ws = concat (map (audio_item r) ws)"

lemma audio_of_simps [simp]:
  "audio_of r [] = []" "audio_of r (xs @ ys) = audio_of r xs @ audio_of r ys"
  "audio_of r [w] = audio_item r w"
  by (simp_all add: audio_of_def)

definition own_event :: "string \<Rightarrow> pevent \<Rightarrow> bool" where
  "own_event call e \<longleftrightarrow>
     pe_call_id e = call \<and> pe_key e = pe_default_key call (pe_turn_id e) (pe_event_type e) (pe_seq e)"

definition events_between :: "string \<Rightarrow> int \<Rightarrow> int \<Rightarrow> pevent list \<Rightarrow> bool" where
  "events_between call m n es \<longleftrightarrow>
     sorted_wrt (<) (map pe_seq es) \<and> (\<forall>e \<in> set es. m < pe_seq e \<and> pe_seq e \<le> n \<and> own_event call e)"

lemma events_between_append:
  assumes "events_between call m n es" "events_between call n k fs" "m \<le> n" "n \<le> k"
  shows "events_between call m k (es @ fs)"
  using assms unfolding events_between_def by (fastforce simp: sorted_wrt_append)

definition it_sound :: "interruption \<Rightarrow> bool" where
  "it_sound i \<longleftrightarrow> 0 \<le> it_ratio i \<and> it_ratio i \<le> 1 \<and> prefix (it_spoken_text i) (it_generated_text i)
     \<and> of_nat (length (it_spoken_text i)) \<le> of_nat (length (it_generated_text i)) * it_ratio i"

definition sm_ok :: "sess \<Rightarrow> bool" where
  "sm_ok s \<longleftrightarrow>
     settings_load (sm_cfg s) = Inr (sm_cfg s)
   \<and> ps_active_response_id (sm_ps s) = rc_active (sm_rc s)
   \<and> ps_current_stage (sm_ps s) \<noteq> []
   \<and> pred_option fq_inv (sm_tq s) \<and> pred_option fq_inv (sm_aq s)
   \<and> pred_option it_sound (sm_last_int s)"

definition no_live_queues :: "sess \<Rightarrow> bool" where
  "no_live_queues s \<longleftrightarrow> sm_tq s = None \<and> sm_aq s = None"

definition sm_le :: "bool \<Rightarrow> bool \<Rightarrow> sess \<Rightarrow> sess \<Rightarrow> bool" where
  "sm_le p q s t \<longleftrightarrow>
     sm_call t = sm_call s \<and> sm_cfg t = sm_cfg s
   \<and> ps_sequence (sm_ps s) \<le> ps_sequence (sm_ps t)
   \<and> (\<exists>new. sm_events t = sm_events s @ new
          \<and> events_between (sm_call s) (ps_sequence (sm_ps s)) (ps_sequence (sm_ps t)) new)
   \<and> (\<forall>r. rc_is_cancelled r (sm_rc s) \<longrightarrow>
          rc_is_cancelled r (sm_rc t) \<and> audio_of r (sm_out t) = audio_of r (sm_out s))
   \<and> (p \<longrightarrow> sm_closed t = sm_closed s \<and> sm_failed t = sm_failed s) \<and> sm_tick s \<le> sm_tick t
   \<and> bi_step\<^sup>*\<^sup>* (sm_bi s) (sm_bi t) \<and> (sm_ok s \<longrightarrow> sm_ok t)
   \<and> (q \<longrightarrow> no_live_queues s \<longrightarrow> no_live_queues t)"

lemma doall_Cons_ok: "m s = (Inr x, t) \<Longrightarrow> doall (m # ms) s = doall ms t"
  by (simp add: act_bind_def)

lemma doall_single: "doall [m] s = m s"
  by simp

lemma keepsD_snd: "keeps R m \<Longrightarrow> R s (snd (m s))"
  by (simp add: keeps_def)

lemma sm_le_trans: "sm_le p q s t \<Longrightarrow> sm_le p q t u \<Longrightarrow> sm_le p q s u"
proof -
  assume a: "sm_le p q s t" and b: "sm_le p q t u"
  obtain n1 where n1: "sm_events t = sm_events s @ n1"
    "events_between (sm_call s) (ps_sequence (sm_ps s)) (ps_sequence (sm_ps t)) n1"
    using a by (auto simp: sm_le_def)
  obtain n2 where n2: "sm_events u = sm_events t @ n2"
    "events_between (sm_call t) (ps_sequence (sm_ps t)) (ps_sequence (sm_ps u)) n2"
    using b by (auto simp: sm_le_def)
  have "events_between (sm_call s) (ps_sequence (sm_ps s)) (ps_sequence (sm_ps u)) (n1 @ n2)"
    using n1(2) n2(2) a b by (intro events_between_append) (auto simp: sm_le_def)
  moreover have "sm_events u = sm_events s @ n1 @ n2" using n1 n2 by simp
  ultimately have ex: "\<exists>new. sm_events u = sm_events s @ new
      \<and> events_between (sm_call s) (ps_sequence (sm_ps s)) (ps_sequence (sm_ps u)) new" by blast
  have bi: "bi_step\<^sup>*\<^sup>* (sm_bi s) (sm_bi u)" using a b unfolding sm_le_def by (metis rtranclp_trans)
  show ?thesis using a b ex bi unfolding sm_le_def by simp
qed

lemma sm_le_same:
  assumes "sm_call t = sm_call s" "sm_cfg t = sm_cfg s"
    "ps_sequence (sm_ps t) = ps_sequence (sm_ps s)" "sm_events t = sm_events s"
    "\<And>r. rc_is_cancelled r (sm_rc s) \<Longrightarrow> rc_is_cancelled r (sm_rc t)"
    "\<And>r. audio_of r (sm_out t) = audio_of r (sm_out s)"
    "p \<Longrightarrow> sm_closed t = sm_closed s \<and> sm_failed t = sm_failed s" "sm_tick s \<le> sm_tick t"
    "bi_step\<^sup>*\<^sup>* (sm_bi s) (sm_bi t)" "sm_ok s \<Longrightarrow> sm_ok t"
    "q \<Longrightarrow> no_live_queues s \<Longrightarrow> no_live_queues t"
  shows "sm_le p q s t"
  using assms by (auto simp: sm_le_def events_between_def)

lemma sm_le_refl: "sm_le p q s s"
  by (rule sm_le_same) simp_all

interpretation smo: effect_order "sm_le p q" for p q
  by unfold_locales (auto intro: sm_le_refl sm_le_trans)

declare smo.keeps_rules [keeps_intro]

subsection \<open>Primitive actions\<close>

lemma keeps_now [keeps_intro]: "keeps (sm_le p q) (sm_now io)"
  unfolding sm_now_def by (intro smo.keeps_step sm_le_same) (simp_all add: sm_ok_def no_live_queues_def)

lemma keeps_uuid [keeps_intro]: "keeps (sm_le p q) (sm_uuid io)"
  unfolding sm_uuid_def by (intro smo.keeps_step sm_le_same) (simp_all add: sm_ok_def no_live_queues_def)

lemma keeps_upd_ps:
  assumes "\<And>p. ps_sequence (f p) = ps_sequence p" "\<And>p. ps_active_response_id (f p) = ps_active_response_id p"
    "\<And>p. ps_current_stage p \<noteq> [] \<Longrightarrow> ps_current_stage (f p) \<noteq> []"
  shows "keeps (sm_le p q) (upd_ps f)"
  unfolding upd_ps_def by (intro smo.keeps_upd sm_le_same) (simp_all add: assms sm_ok_def no_live_queues_def)

lemma keeps_upd_bi: "(\<And>b. bi_step\<^sup>*\<^sup>* b (f b)) \<Longrightarrow> keeps (sm_le p q) (upd_bi f)"
  unfolding upd_bi_def by (intro smo.keeps_upd sm_le_same) (simp_all add: sm_ok_def no_live_queues_def)

lemma keeps_step_bi: "(\<And>b. bi_step\<^sup>*\<^sup>* b (snd (f b))) \<Longrightarrow> keeps (sm_le p q) (step_bi f)"
  unfolding step_bi_def
  by (intro smo.keeps_step sm_le_same) (simp_all add: case_prod_beta sm_ok_def no_live_queues_def)

lemmas bi_run_steps = bi_step.intros [THEN r_into_rtranclp [where r = bi_step]]

lemma bi_backend_run: "bi_step\<^sup>*\<^sup>* b (snd (bi_backend_candidate now turn r b))"
  unfolding bi_backend_candidate_def by (rule bi_run_steps)

lemma keeps_bi_updates [keeps_intro]:
  "keeps (sm_le p q) (upd_bi (\<lambda>b. bi_assistant_playing turn r b))"
  "keeps (sm_le p q) (upd_bi (\<lambda>b. snd (bi_assistant_finished r b)))"
  "keeps (sm_le p q) (upd_bi (\<lambda>b. snd (bi_playback_progress now turn r sq played b)))"
  "keeps (sm_le p q) (upd_bi (\<lambda>b. snd (bi_begin_cancelling r b)))"
  "keeps (sm_le p q) (upd_bi (\<lambda>b. snd (bi_on_cancelled now r b)))"
  "keeps (sm_le p q) (upd_bi (\<lambda>b. bi_resolving b))"
  "keeps (sm_le p q) (upd_bi (\<lambda>b. bi_resolved sem b))"
  "keeps (sm_le p q) (upd_bi (\<lambda>b. snd (bi_backend_candidate now turn r b)))"
  by (intro keeps_upd_bi bi_run_steps bi_backend_run)+

lemma keeps_bi_calls [keeps_intro]:
  "keeps (sm_le p q) (step_bi (bi_on_candidate c))"
  "keeps (sm_le p q) (step_bi (bi_reject reason))"
  "keeps (sm_le p q) (step_bi (bi_reject_expired now))"
  "keeps (sm_le p q) (step_bi (bi_confirm now reason))"
  by (intro keeps_step_bi bi_run_steps)+

lemma keeps_send [keeps_intro]: "keeps (sm_le p q) (sm_send io ty d)"
  unfolding sm_send_def by (intro keepsI sm_le_same) (simp_all add: sm_transmit_def sm_ok_def no_live_queues_def split: option.split)

lemma keeps_safe_send [keeps_intro]: "keeps (sm_le p q) (sm_safe_send io ty d)"
  unfolding sm_safe_send_def by (intro keeps_intro)

lemma keeps_send_state [keeps_intro]: "keeps (sm_le p q) (sm_send_pipeline_state io)"
  unfolding sm_send_pipeline_state_def by (intro keeps_intro)

lemma pe_create_Inr:
  "pe_create uuid now call turn e stage n payload trace None = Inr ev \<Longrightarrow>
     pe_seq ev = n \<and> pe_call_id ev = call \<and> pe_turn_id ev = turn \<and> pe_event_type ev = e \<and> own_event call ev"
  by (auto simp: pe_create_def Let_def own_event_def split: if_splits)

lemma keeps_publish [keeps_intro]: "keeps (sm_le p q) (sm_publish io et stage turn payload)"
proof (rule keepsI)
  fix s
  show "sm_le p q s (snd (sm_publish io et stage turn payload s))"
    by (auto simp: sm_publish_def Let_def sm_le_def sm_ok_def no_live_queues_def events_between_def dest: pe_create_Inr
        split: sum.split option.split)
qed

lemma keeps_emit_turn [keeps_intro]: "keeps (sm_le p q) (sm_emit_turn io et stage turn payload)"
  unfolding sm_emit_turn_def by (intro keeps_intro)

lemma keeps_emit [keeps_intro]: "keeps (sm_le p q) (sm_emit io et stage payload)"
  unfolding sm_emit_def by (intro keeps_intro)

lemma keeps_provider_failed [keeps_intro]: "keeps (sm_le p q) (sm_provider_failed io stage pr e)"
  unfolding sm_provider_failed_def by (intro keeps_intro)

lemma keeps_drop_stale [keeps_intro]: "keeps (sm_le p q) (sm_drop_stale_chunk io stage kind reason resp ms)"
  unfolding sm_drop_stale_chunk_def by (intro keeps_intro)

lemma keeps_set_depth [keeps_intro]: "keeps (sm_le p q) (sm_set_queue_depth stage d)"
  unfolding sm_set_queue_depth_def by (intro keeps_upd_ps) simp_all

lemma keeps_step_tq:
  assumes "\<And>x. pred_option fq_inv x \<Longrightarrow> pred_option fq_inv (snd (f x))" "snd (f None) = None"
  shows "keeps (sm_le p q) (step_tq f)"
  unfolding step_tq_def using assms
  by (intro smo.keeps_step sm_le_same) (auto simp: case_prod_beta sm_ok_def no_live_queues_def)

lemma keeps_step_aq:
  assumes "\<And>x. pred_option fq_inv x \<Longrightarrow> pred_option fq_inv (snd (f x))" "snd (f None) = None"
  shows "keeps (sm_le p q) (step_aq f)"
  unfolding step_aq_def using assms
  by (intro smo.keeps_step sm_le_same) (auto simp: case_prod_beta sm_ok_def no_live_queues_def)

lemma rat_trunc_bounds: "0 \<le> x \<Longrightarrow> 0 \<le> rat_trunc x \<and> of_int (rat_trunc x) \<le> x"
  by (simp add: rat_trunc_def)

lemma mk_interruption_sound: "it_sound (mk_interruption r s)"
proof -
  have len: "of_nat (min (length t) (nat (rat_trunc (of_nat (length t) * x)))) \<le> of_nat (length t) * x"
    if "0 \<le> x" for t :: string and x :: rat
  proof -
    have "0 \<le> of_nat (length t) * x" using that by simp
    then have "of_nat (nat (rat_trunc (of_nat (length t) * x))) \<le> of_nat (length t) * x"
      using rat_trunc_bounds [of "of_nat (length t) * x"] by (simp add: of_nat_nat)
    then show ?thesis by (metis min.cobounded2 of_nat_mono order.trans)
  qed
  show ?thesis
    by (simp add: it_sound_def mk_interruption_def Let_def spoken_ratio_def take_is_prefix len)
qed

lemma keeps_mark_interrupted [keeps_intro]: "keeps (sm_le p q) (sm_mark_response_interrupted r)"
  unfolding sm_mark_response_interrupted_def
  by (intro smo.keeps_upd sm_le_same) (simp_all add: Let_def sm_ok_def no_live_queues_def mk_interruption_sound)

lemma keeps_notify: "(\<And>t. keeps (sm_le p q) (cb t)) \<Longrightarrow> keeps (sm_le p q) (sm_notify cb t)"
  unfolding sm_notify_def by (intro keeps_intro)

lemma flush_live_inv: "pred_option fq_inv q \<Longrightarrow> pred_option fq_inv (snd (flush_live now p q))"
  by (auto simp: flush_live_def split: option.split prod.split intro: fq_flush_inv)

lemma flush_live_None: "snd (flush_live now p None) = None"
  by (simp add: flush_live_def)

lemma keeps_flush_text: "(\<And>t. keeps (sm_le p q) (cb t)) \<Longrightarrow> keeps (sm_le p q) (sm_flush_text io cb r)"
  unfolding sm_flush_text_def by (intro keeps_intro keeps_notify keeps_step_tq flush_live_inv flush_live_None)

lemma keeps_flush_audio: "(\<And>t. keeps (sm_le p q) (cb t)) \<Longrightarrow> keeps (sm_le p q) (sm_flush_audio io cb r)"
  unfolding sm_flush_audio_def by (intro keeps_intro keeps_notify keeps_step_aq flush_live_inv flush_live_None)

subsection \<open>Cancellation and backpressure\<close>

lemma rc_cancel_is_cancelled:
  "rc_is_cancelled r' (snd (rc_cancel r reason c)) \<longleftrightarrow> r' = r \<or> rc_is_cancelled r' c"
  by (auto simp: rc_cancel_def rc_is_cancelled_def Let_def)

lemma keeps_fence [keeps_intro]: "keeps (sm_le p q) (upd (fence_response r reason))"
  by (intro smo.keeps_upd sm_le_same) (simp_all add: fence_response_def Let_def rc_cancel_is_cancelled sm_ok_def no_live_queues_def)

lemma keeps_flush_and_report:
  assumes "\<And>t. keeps (sm_le p q) (cb t)"
  shows "keeps (sm_le p q) (sm_flush_and_report io cb r reason)"
  unfolding sm_flush_and_report_def by (intro keeps_intro keeps_flush_text keeps_flush_audio assms)

lemma keeps_cancel_with:
  assumes "\<And>t. keeps (sm_le p q) (cb t)"
  shows "keeps (sm_le p q) (sm_cancel_with io cb r reason)"
  unfolding sm_cancel_with_def by (intro keeps_intro keeps_flush_and_report assms)

lemma keeps_report_backpressure [keeps_intro]: "keeps (sm_le p q) (sm_report_backpressure io t)"
proof -
  have "keeps (sm_le p q) (upd_ps (ps_note_transition t))"
    by (intro keeps_upd_ps) (simp_all add: ps_note_transition_def Let_def)
  then show ?thesis
    unfolding sm_report_backpressure_def by (intro keeps_intro)
qed

lemma keeps_on_backpressure: "keeps (sm_le p q) (sm_on_backpressure d io t)"
  by (induction d arbitrary: t) (auto intro!: keeps_intro keeps_cancel_with)

lemma keeps_bp [keeps_intro]: "keeps (sm_le p q) (sm_bp io t)"
  unfolding sm_bp_def by (rule keeps_on_backpressure)

lemma keeps_cancel_response [keeps_intro]: "keeps (sm_le p q) (sm_cancel_response io r reason)"
  unfolding sm_cancel_response_def by (intro keeps_cancel_with keeps_intro)

text \<open>The fence holds whatever fails later: publishing, sending or a queue callback.\<close>

lemma sm_cancel_with_eq:
  "sm_cancel_with io cb r reason s =
     (let s0 = s\<lparr> sm_bi := snd (bi_begin_cancelling r (sm_bi s)) \<rparr>
      in if rc_is_cancelled r (sm_rc s) then (Inr (), s0)
         else sm_flush_and_report io cb r reason (fence_response r reason s0))"
  by (simp add: sm_cancel_with_def act_bind_def upd_bi_def upd_def ask_def act_ret_def Let_def)

lemma fence_response_cancels: "rc_is_cancelled r (sm_rc (fence_response r reason s))"
  by (simp add: fence_response_def Let_def rc_cancel_is_cancelled)

lemma sm_le_cancelled: "sm_le p q s t \<Longrightarrow> rc_is_cancelled r (sm_rc s) \<Longrightarrow> rc_is_cancelled r (sm_rc t)"
  unfolding sm_le_def by blast

lemma sm_cancel_response_cancels: "rc_is_cancelled r (sm_rc (snd (sm_cancel_response io r reason s)))"
proof (cases "rc_is_cancelled r (sm_rc s)")
  case True
  then show ?thesis by (simp add: sm_cancel_response_def sm_cancel_with_eq Let_def)
next
  case False
  let ?s1 = "fence_response r reason (s\<lparr> sm_bi := snd (bi_begin_cancelling r (sm_bi s)) \<rparr>)"
  have eq: "sm_cancel_response io r reason s = sm_flush_and_report io (sm_bp io) r reason ?s1"
    using False by (simp only: sm_cancel_response_def sm_cancel_with_eq Let_def if_False simp_thms)
  have le: "sm_le False False ?s1 (snd (sm_flush_and_report io (sm_bp io) r reason ?s1))"
    by (rule keepsD_snd) (rule keeps_flush_and_report, rule keeps_bp)
  show ?thesis unfolding eq by (rule sm_le_cancelled [OF le fence_response_cancels])
qed

text \<open>
  Without an active response the nesting of \<open>_on_backpressure\<close> and \<open>_cancel_response\<close> ends,
  so the depth two of \<open>sm_bp\<close> is enough.
\<close>

definition idle :: "sess \<Rightarrow> bool" where
  "idle s \<longleftrightarrow> ps_active_response_id (sm_ps s) = None"

lemma idle_send: "keeps (\<lambda>s t. idle s \<longrightarrow> idle t) (sm_send io ty d)"
  by (intro keepsI) (simp add: sm_send_def sm_transmit_def idle_def split: option.split)

lemma idle_emit: "keeps (\<lambda>s t. idle s \<longrightarrow> idle t) (sm_emit io et stage d)"
proof -
  have "keeps (\<lambda>s t. idle s \<longrightarrow> idle t) (sm_publish io et stage turn d)" for turn
    by (intro keepsI) (simp add: sm_publish_def Let_def idle_def split: sum.split option.split)
  then show ?thesis
    unfolding sm_emit_def sm_emit_turn_def sm_safe_send_def
    by (intro inv_order.keeps_bind inv_order.keeps_ask inv_order.keeps_suppress idle_send)
qed

lemma idle_report: "keeps (\<lambda>s t. idle s \<longrightarrow> idle t) (sm_report_backpressure io t)"
proof -
  have "keeps (\<lambda>s t. idle s \<longrightarrow> idle t) (upd_ps (ps_note_transition t))"
    by (intro keepsI) (simp add: upd_ps_def upd_def idle_def ps_note_transition_def Let_def)
  then show ?thesis unfolding sm_report_backpressure_def
    by (intro inv_order.keeps_doall_Cons inv_order.keeps_doall_Nil inv_order.keeps_ask idle_emit idle_send)
qed

lemma sm_on_backpressure_idle:
  assumes "idle s"
  shows "sm_on_backpressure d io t s = sm_report_backpressure io t s"
proof (cases d)
  case (Suc d')
  have stop: "(ask (\<lambda>s. if bt_hard_limited t \<and> cf_hard_limit_policy (st_flow (sm_cfg s)) = ''cancel_response''
                \<and> \<not> str_falsy (ps_active_response_id (sm_ps s))
             then sm_cancel_with io (sm_on_backpressure d' io) (the (ps_active_response_id (sm_ps s))) ''queue_hard_limit''
             else act_ret ())) u = act_ret () u" if "idle u" for u
    using that by (simp add: ask_def idle_def str_falsy_def)
  have "idle u" if "sm_report_backpressure io t s = (Inr x, u)" for x u
    using keepsD [OF idle_report that] assms by simp
  with stop have "sm_on_backpressure (Suc d') io t s = act_bind (sm_report_backpressure io t) (\<lambda>_. act_ret ()) s"
    unfolding sm_on_backpressure.simps by (intro act_bind_cong_at) simp_all
  then show ?thesis by (simp add: Suc del: sm_on_backpressure.simps)
qed simp

definition same_when_idle :: "(bp_transition \<Rightarrow> unit sm) \<Rightarrow> (bp_transition \<Rightarrow> unit sm) \<Rightarrow> bool" where
  "same_when_idle cb cb' \<longleftrightarrow>
     (\<forall>t s. idle s \<longrightarrow> cb t s = cb' t s) \<and> (\<forall>t. keeps (\<lambda>s t. idle s \<longrightarrow> idle t) (cb' t))"

lemma sm_flush_text_idle:
  assumes "same_when_idle cb cb'" "idle s"
  shows "sm_flush_text io cb r s = sm_flush_text io cb' r s"
    and "idle (snd (sm_flush_text io cb' r s))"
  using assms
  by (auto simp: same_when_idle_def sm_flush_text_def act_defs sm_now_def step_tq_def sm_notify_def idle_def keeps_def
      case_prod_beta flush_live_def split: option.split sum.split)

lemma sm_flush_audio_idle:
  assumes "same_when_idle cb cb'" "idle s"
  shows "sm_flush_audio io cb r s = sm_flush_audio io cb' r s"
  using assms
  by (auto simp: same_when_idle_def sm_flush_audio_def act_defs sm_now_def step_aq_def sm_notify_def idle_def
      case_prod_beta flush_live_def split: option.split sum.split)

lemma sm_flush_and_report_idle:
  assumes cb: "same_when_idle cb cb'" and idl: "idle s"
  shows "sm_flush_and_report io cb r reason s = sm_flush_and_report io cb' r reason s"
  unfolding sm_flush_and_report_def
proof (rule act_bind_cong_at)
  fix ft t
  assume "sm_flush_text io cb' r s = (Inr ft, t)"
  then have "idle t" using sm_flush_text_idle(2) [OF cb idl] by (metis snd_conv)
  then show "act_bind (sm_flush_audio io cb r) k t = act_bind (sm_flush_audio io cb' r) k t" for k
    by (intro act_bind_cong_at sm_flush_audio_idle [OF cb]) simp_all
qed (rule sm_flush_text_idle(1) [OF cb idl])

lemma sm_cancel_with_idle:
  assumes cb: "same_when_idle cb cb'" and ok: "rc_active (sm_rc s) = Some r \<or> rc_active (sm_rc s) = None"
  shows "sm_cancel_with io cb r reason s = sm_cancel_with io cb' r reason s"
proof -
  let ?s0 = "s\<lparr> sm_bi := snd (bi_begin_cancelling r (sm_bi s)) \<rparr>"
  have "idle (fence_response r reason ?s0)" if "\<not> rc_is_cancelled r (sm_rc s)"
    using that ok by (auto simp: fence_response_def Let_def idle_def rc_cancel_def)
  then show ?thesis
    by (simp add: sm_cancel_with_def act_bind_def upd_bi_def upd_def ask_def sm_flush_and_report_idle [OF cb])
qed

lemma sm_on_backpressure_depth:
  assumes "sm_ok s"
  shows "sm_on_backpressure (Suc (Suc d)) io t s = sm_bp io t s"
proof -
  have same: "same_when_idle (sm_on_backpressure (Suc d) io) (sm_on_backpressure 1 io)"
    using idle_report [of io] by (auto simp: same_when_idle_def sm_on_backpressure_idle keeps_def simp del: sm_on_backpressure.simps)
  show ?thesis
    unfolding sm_bp_def numeral_2_eq_2 sm_on_backpressure.simps(2) [of "Suc _"]
  proof (rule act_bind_cong_at)
    fix x u
    assume "sm_report_backpressure io t s = (Inr x, u)"
    then have "sm_ok u" using keepsD [OF keeps_report_backpressure] assms by (auto simp: sm_le_def)
    then have "rc_active (sm_rc u) = ps_active_response_id (sm_ps u)" by (simp add: sm_ok_def no_live_queues_def)
    with sm_cancel_with_idle [OF same, of u] show "ask (\<lambda>s. if bt_hard_limited t
             \<and> cf_hard_limit_policy (st_flow (sm_cfg s)) = ''cancel_response'' \<and> \<not> str_falsy (ps_active_response_id (sm_ps s))
          then sm_cancel_with io (sm_on_backpressure (Suc d) io) (the (ps_active_response_id (sm_ps s))) ''queue_hard_limit''
          else act_ret ()) u
      = ask (\<lambda>s. if bt_hard_limited t
             \<and> cf_hard_limit_policy (st_flow (sm_cfg s)) = ''cancel_response'' \<and> \<not> str_falsy (ps_active_response_id (sm_ps s))
          then sm_cancel_with io (sm_on_backpressure (Suc 0) io) (the (ps_active_response_id (sm_ps s))) ''queue_hard_limit''
          else act_ret ()) u"
      by (auto simp: ask_def str_falsy_def)
  qed simp
qed

subsection \<open>Playback and barge-in\<close>

lemma keeps_playback [keeps_intro]: "keeps (sm_le p q) (sm_playback_progress io turn r sq played)"
  unfolding sm_playback_progress_def by (intro keeps_intro)

lemma keeps_handle_progress [keeps_intro]: "keeps (sm_le p q) (sm_handle_playback_progress io m)"
  unfolding sm_handle_playback_progress_def by (intro keeps_intro)

lemma keeps_finish [keeps_intro]: "keeps (sm_le p q) (upd (finish_response_if_playback_done r))"
  by (intro smo.keeps_upd sm_le_same)
     (auto simp: finish_response_if_playback_done_def rc_finish_def rc_is_cancelled_def sm_ok_def no_live_queues_def
       intro: bi_run_steps)

lemma keeps_handle_done [keeps_intro]: "keeps (sm_le p q) (sm_handle_playback_done io m)"
proof -
  have "keeps (sm_le p q) (upd (\<lambda>s. s\<lparr> sm_pdone := add_once (sm_pdone s) r \<rparr>))" for r
    by (intro smo.keeps_upd sm_le_same) (simp_all add: sm_ok_def no_live_queues_def)
  then show ?thesis
    unfolding sm_handle_playback_done_def Let_def by (intro keeps_intro)
qed

lemma keeps_barge_rejected [keeps_intro]: "keeps (sm_le p q) (sm_emit_barge_rejected io t reason)"
  unfolding sm_emit_barge_rejected_def by (intro keeps_intro)

lemma keeps_maybe_reject [keeps_intro]: "keeps (sm_le p q) (sm_maybe_reject_candidate io reason)"
  unfolding sm_maybe_reject_candidate_def by (intro keeps_intro)

lemma keeps_restore [keeps_intro]: "keeps (sm_le p q) (sm_restore_recent_response io c)"
proof -
  have "keeps (sm_le p q) (upd (\<lambda>s. if restorable now c s then restore_response c s else s))" for now
    by (intro smo.keeps_upd sm_le_same) (auto simp: restore_response_def rc_is_cancelled_def Let_def sm_ok_def no_live_queues_def intro: bi_run_steps)
  then show ?thesis
    unfolding sm_restore_recent_response_def by (intro keeps_intro)
qed

lemma keeps_candidate_of_message [keeps_intro]: "keeps (sm_le p q) (sm_candidate_of_message io m)"
  unfolding sm_candidate_of_message_def by (intro keeps_intro)

lemma keeps_accept [keeps_intro]: "keeps (sm_le p q) (sm_accept_candidate io c)"
  unfolding sm_accept_candidate_def by (intro keeps_intro)

lemma keeps_handle_candidate [keeps_intro]: "keeps (sm_le p q) (sm_handle_barge_in_candidate io m)"
  unfolding sm_handle_barge_in_candidate_def by (intro keeps_intro)

lemma keeps_confirm [keeps_intro]: "keeps (sm_le p q) (sm_confirm_barge_in io u r)"
  unfolding sm_confirm_barge_in_def by (intro keeps_intro)

lemma keeps_confirm_from_vad [keeps_intro]: "keeps (sm_le p q) (sm_confirm_barge_in_from_vad io u)"
  unfolding sm_confirm_barge_in_from_vad_def Let_def by (intro keeps_intro)

end
