(* ===== verification/Turns.thy ===== *)
theory Turns
  imports Session_Laws
begin

text \<open>
  From audio frames to a turn (\<open>apps/api/pipeline/stream_module.py\<close>): \<open>_handle_audio\<close>,
  the audio of a turn, the streaming transcription, the noise rules, the meaning of an
  interrupting utterance, the context given to the language model and the usage a turn is
  expected to be billed for.
\<close>

subsection \<open>Expected usage\<close>

text \<open>\<open>_usage_expectations\<close>: the set of each turn is a list without repetition.\<close>

definition expect_usage :: "string \<Rightarrow> string \<Rightarrow> sess \<Rightarrow> sess" where
  "expect_usage turn u s =
     (if turn = ''session'' then s
      else s\<lparr> sm_usage := dict_set (sm_usage s) turn (add_once (get_or (sm_usage s) turn []) u) \<rparr>)"

definition sm_expect_usage :: "string \<Rightarrow> unit sm" where
  "sm_expect_usage u = upd (\<lambda>s. expect_usage (ps_turn_id (sm_ps s)) u s)"

definition usage_manifest_payload :: "sess \<Rightarrow> dict" where
  "usage_manifest_payload s =
     [(''tenant_id'', PStr (sm_org s)), (''assistant_id'', PStr (sm_agent s)),
      (''pricing_version'', PStr (cb_pricing_version (st_billing (sm_cfg s)))),
      (''expected_turns'', PList (map (\<lambda>(turn, us).
          PDict [(''turn_id'', PStr turn), (''expected_usage'', PList (map PStr (sort us)))])
        (filter (\<lambda>(turn, us). us \<noteq> []) (sort_key fst (sm_usage s)))))]"

subsection \<open>Audio of a turn\<close>

definition sm_append_turn_audio :: "io \<Rightarrow> audio_frame \<Rightarrow> unit sm" where
  "sm_append_turn_audio io f =
     doall
      [ upd (\<lambda>s. s\<lparr> sm_audio_bytes := sm_audio_bytes s + int (length (fr_data f)) \<rparr>),
        ask (\<lambda>s. if sm_audio_bytes s > cv_websocket_max_audio_bytes (st_vad (sm_cfg s))
                 then act_raise (ValueError ''Audio turn exceeded maximum size'') else act_ret ()),
        ask (\<lambda>s. if \<not> sm_stt s then act_raise (RuntimeError ''Streaming STT session is not available'')
                 else act_ret ()),
        upd (\<lambda>s. s\<lparr> sm_has_audio := True \<rparr>),
        (\<lambda>s. (case io_stt_append io (sm_tick s) of Some e \<Rightarrow> Inl e | None \<Rightarrow> Inr (),
              s\<lparr> sm_tick := Suc (sm_tick s) \<rparr>)) ]"

definition current_turn_stats :: "sess \<Rightarrow> turn_stats" where
  "current_turn_stats s =
     \<lparr> ts_speech_ms = td_turn_speech_ms (sm_td s), ts_total_ms = td_turn_total_ms (sm_td s),
       ts_ratio = td_ratio (sm_td s) \<rparr>"

definition vad_state_value :: "vad_state \<Rightarrow> string" where
  "vad_state_value v =
     (case v of QUIET \<Rightarrow> ''quiet'' | STARTING \<Rightarrow> ''starting'' | SPEAKING \<Rightarrow> ''speaking'' | STOPPING \<Rightarrow> ''stopping'')"

definition opt_float :: "rat option \<Rightarrow> pyv" where
  "opt_float x = (case x of None \<Rightarrow> PNone | Some r \<Rightarrow> PFloat r)"

definition vad_state_dict :: "vad_result \<Rightarrow> turn_update \<Rightarrow> dict" where
  "vad_state_dict r u =
     [(''provider'', PStr (vr_provider r)), (''state'', PStr (vad_state_value (tu_state u))),
      (''decision'', PStr (if vr_speech r then ''speech'' else ''silence'')),
      (''energy'', PFloat (vr_energy r)), (''noise_floor'', opt_float (vr_noise_floor r)),
      (''probability'', opt_float (vr_probability r)), (''sample_rate'', PInt (vr_sample_rate r)),
      (''frame_duration_ms'', PFloat (vr_frame_duration_ms r)),
      (''speech_duration_ms'', PFloat (tu_speech_ms u)), (''total_duration_ms'', PFloat (tu_total_ms u)),
      (''speech_frame_ratio'', PFloat (tu_ratio u))]"

text \<open>\<open>self.vad.detect_speech\<close> of the selected provider.\<close>

definition vad_detect :: "io \<Rightarrow> audio_frame \<Rightarrow> vad_provider \<Rightarrow> vad_result res \<times> vad_provider" where
  "vad_detect io f v =
     (case v of
        VWebrtc w \<Rightarrow> (wv_detect (io_sqrt io) (io_is_speech io) (fr_data f) (fr_sample_rate f) w, v)
      | VEnergy e \<Rightarrow> (case ev_detect (io_sqrt io) (fr_data f) (fr_sample_rate f) e of (r, e') \<Rightarrow> (r, VEnergy e'))
      | VSilero \<Rightarrow> (silero_detect (fr_data f) (fr_sample_rate f), v))"

definition sm_detect :: "io \<Rightarrow> audio_frame \<Rightarrow> vad_result sm" where
  "sm_detect io f s = (case vad_detect io f (sm_vad s) of (r, v) \<Rightarrow> (r, s\<lparr> sm_vad := v \<rparr>))"

subsection \<open>Transcription\<close>

definition sm_commit_stt :: "io \<Rightarrow> stt_result sm" where
  "sm_commit_stt io s =
     (if \<not> sm_stt s then (Inl (RuntimeError ''Streaming STT session is not available''), s)
      else (io_stt_commit io (sm_tick s), s\<lparr> sm_tick := Suc (sm_tick s) \<rparr>))"

definition measurement :: "string \<Rightarrow> rat \<Rightarrow> string \<Rightarrow> bool \<Rightarrow> pyv" where
  "measurement ty qty unit estimated =
     PDict [(''usage_type'', PStr ty), (''quantity'', PFloat qty), (''unit'', PStr unit), (''estimated'', PBool estimated)]"

definition sm_run_stt :: "io \<Rightarrow> string \<Rightarrow> string sm" where
  "sm_run_stt io turn =
     act_bind (doall [ upd_ps (\<lambda>p. p\<lparr> ps_current_stage := ''stt'' \<rparr>), sm_emit io STT_STARTED ''stt'' [] ]) (\<lambda>_.
     act_bind (sm_now io) (\<lambda>started.
     act_bind (act_try (sm_commit_stt io)
                (\<lambda>e. act_bind (if e = TimeoutError then sm_emit io PIPELINE_STAGE_TIMEOUT ''stt'' []
                               else ask (\<lambda>s. sm_provider_failed io ''stt'' (pn_stt (sm_names s)) e))
                       (\<lambda>_. act_raise e))) (\<lambda>r.
     act_bind (sm_now io) (\<lambda>now.
     act_bind (ask (\<lambda>s. doall
       [ sm_emit io STT_FINAL_TRANSCRIPT ''stt''
           [(''transcript'', PStr (sr_transcript r)), (''latency_ms'', PFloat ((now - started) * 1000)),
            (''item_id'', PStr (sr_item_id r)), (''audio_seconds'', PFloat (sr_audio_seconds r)),
            (''streaming'', PBool True), (''model'', PStr (pn_stt_model (sm_names s)))],
         sm_emit io USAGE_STT_RECORDED ''stt''
           [(''provider'', PStr (pn_stt (sm_names s))), (''model'', PStr (pn_stt_model (sm_names s))),
            (''measurements'', PList [measurement ''audio_minute'' (sr_audio_seconds r / 60) ''minute'' False])],
         upd (expect_usage turn ''stt_audio_seconds'') ])) (\<lambda>_.
       act_ret (sr_transcript r))))))"

subsection \<open>Noise turns\<close>

definition turn_stats_of :: "string \<Rightarrow> sess \<Rightarrow> turn_stats" where
  "turn_stats_of turn s = get_or (sm_stats s) turn (current_turn_stats s)"

definition noise_turn_reason :: "string \<Rightarrow> string \<Rightarrow> sess \<Rightarrow> string option" where
  "noise_turn_reason turn transcript s =
     (let st = turn_stats_of turn s;
          v = st_vad (sm_cfg s);
          cleaned = str_strip transcript;
          normalized = str_join '' '' (str_split (str_strip_chars (str_lower cleaned) ci_strip_chars))
      in if ts_speech_ms st < of_int (cv_min_turn_audio_ms v) then Some ''too_short''
         else if cleaned = [] then Some ''empty_transcript''
         else if normalized \<in> {''hi'', ''hello'', ''hey''} \<and> ts_speech_ms st \<ge> 500 then None
         else if ts_ratio st < cv_min_speech_frame_ratio v
           then (if ts_speech_ms st \<ge> of_int (cv_min_transcribed_turn_audio_ms v) then None
                 else Some ''low_speech_ratio'')
         else None)"

definition semantic_for_short_turn :: "string \<Rightarrow> semantic option" where
  "semantic_for_short_turn transcript =
     (if classify_interruption transcript = BACKCHANNEL then Some BACKCHANNEL else None)"

text \<open>\<open>_record_turn_outcome\<close> drops the statistics of the turn; its metric is not modelled.\<close>

definition sm_record_turn_outcome :: "string \<Rightarrow> unit sm" where
  "sm_record_turn_outcome turn = upd (\<lambda>s. s\<lparr> sm_stats := dict_pop (sm_stats s) turn \<rparr>)"

definition sm_ignore_noise_turn :: "io \<Rightarrow> string \<Rightarrow> string \<Rightarrow> unit sm" where
  "sm_ignore_noise_turn io turn reason =
     ask (\<lambda>s0. let st = turn_stats_of turn s0 in
       doall
        [ sm_record_turn_outcome turn,
          sm_emit_turn io VAD_NOISE_TURN_IGNORED ''vad'' (Some turn)
            [(''provider'', PStr (vad_name (sm_vad s0))), (''reason_code'', PStr reason),
             (''speech_duration_ms'', PFloat (ts_speech_ms st)), (''total_duration_ms'', PFloat (ts_total_ms st)),
             (''speech_frame_ratio'', PFloat (ts_ratio st))],
          sm_send io ''vad.noise_turn_ignored''
            [(''call_id'', PStr (sm_call s0)), (''turn_id'', PStr turn), (''reason_code'', PStr reason)] ])"

subsection \<open>The meaning of an interruption\<close>

definition sm_resolve_semantics :: "io \<Rightarrow> string \<Rightarrow> string \<Rightarrow> bool \<Rightarrow> semantic option sm" where
  "sm_resolve_semantics io turn transcript forced_noise =
     ask (\<lambda>s.
       if sm_last_int s = None \<and> \<not> forced_noise then act_ret None
       else
         (let sem = (if forced_noise then NOISE_OR_ECHO else classify_interruption transcript) in
          act_bind (doall
            [ upd_bi (\<lambda>b. bi_resolving b),
              sm_emit_turn io USER_BARGE_IN_CLASSIFIED ''barge_in'' (Some turn)
                [(''semantic'', PStr (semantic_value sem)),
                 (''interrupted_response_id'', opt_str (map_option it_response_id (sm_last_int s)))],
              upd_bi (\<lambda>b. bi_resolved sem b) ]) (\<lambda>_. act_ret (Some sem))))"

fun semantic_instruction :: "semantic \<Rightarrow> string option" where
  "semantic_instruction CORRECTION = Some ''The latest user turn corrects or replaces the prior intent.''"
| "semantic_instruction CANCELLATION_REQUEST = Some ''The latest user turn may request cancellation. Do not assume a durable business action is cancelled unless a tool route explicitly does it.''"
| "semantic_instruction ADDITIVE_CONTEXT = Some ''The latest user turn adds context to the previous conversation.''"
| "semantic_instruction CLARIFICATION_OR_REPEAT = Some ''The user is asking for clarification or repetition.''"
| "semantic_instruction UNKNOWN_INTERRUPTION = Some ''Use the conversation and interruption metadata to infer the best response.''"
| "semantic_instruction _ = None"

text \<open>\<open>self._conversation[-10:]\<close>\<close>

definition last_messages :: "'a list \<Rightarrow> 'a list" where
  "last_messages xs = drop (length xs - 10) xs"

definition llm_context :: "semantic option \<Rightarrow> sess \<Rightarrow> dict" where
  "llm_context sem s =
     [(''call_id'', PStr (sm_call s)), (''organization_id'', PStr (sm_org s)), (''agent_id'', PStr (sm_agent s)),
      (''agent'', PDict
        [(''id'', PStr (sm_agent s)), (''name'', dict_get (sm_snapshot s) ''name''),
         (''system_prompt'', dict_get (sm_snapshot s) ''system_prompt''),
         (''context_prompt'', dict_get (sm_snapshot s) ''context_prompt''),
         (''first_message'', dict_get (sm_snapshot s) ''first_message'')]),
      (''messages'', PList (map PDict (last_messages (sm_conv s)))),
      (''barge_in'', (case sem of
          None \<Rightarrow> PNone
        | Some k \<Rightarrow> PDict
            [(''semantic'', PStr (semantic_value k)),
             (''interruption'', (case sm_last_int s of None \<Rightarrow> PNone | Some i \<Rightarrow> PDict (it_dict i))),
             (''instruction'', opt_str (semantic_instruction k))]))]"

subsection \<open>Laws\<close>

lemma keeps_expect_usage [keeps_intro]: "keeps (sm_le p q) (sm_expect_usage u)"
  unfolding sm_expect_usage_def by (intro smo.keeps_upd sm_le_same) (simp_all add: expect_usage_def sm_ok_def no_live_queues_def)

lemma keeps_expect_usage' [keeps_intro]: "keeps (sm_le p q) (upd (expect_usage turn u))"
  by (intro smo.keeps_upd sm_le_same) (simp_all add: expect_usage_def sm_ok_def no_live_queues_def)

lemma keeps_append_audio [keeps_intro]: "keeps (sm_le p q) (sm_append_turn_audio io f)"
proof -
  have "keeps (sm_le p q) (upd (\<lambda>s. s\<lparr> sm_audio_bytes := sm_audio_bytes s + n \<rparr>))" for n
    by (intro smo.keeps_upd sm_le_same) (simp_all add: sm_ok_def no_live_queues_def)
  moreover have "keeps (sm_le p q) (upd (\<lambda>s. s\<lparr> sm_has_audio := True \<rparr>))"
    by (intro smo.keeps_upd sm_le_same) (simp_all add: sm_ok_def no_live_queues_def)
  moreover have "keeps (sm_le p q) (\<lambda>s. (case io_stt_append io (sm_tick s) of Some e \<Rightarrow> Inl e | None \<Rightarrow> Inr (),
              s\<lparr> sm_tick := Suc (sm_tick s) \<rparr>))"
    by (intro keepsI sm_le_same) (simp_all add: sm_ok_def no_live_queues_def)
  ultimately show ?thesis
    unfolding sm_append_turn_audio_def by (intro keeps_intro)
qed

lemma keeps_detect [keeps_intro]: "keeps (sm_le p q) (sm_detect io f)"
  by (intro keepsI sm_le_same) (simp_all add: sm_detect_def case_prod_beta sm_ok_def no_live_queues_def)

lemma keeps_stage [keeps_intro]: "st \<noteq> [] \<Longrightarrow> keeps (sm_le p q) (upd_ps (\<lambda>p. p\<lparr> ps_current_stage := st \<rparr>))"
  by (intro keeps_upd_ps) simp_all

lemma keeps_run_stt [keeps_intro]: "keeps (sm_le p q) (sm_run_stt io turn)"
proof -
  have "keeps (sm_le p q) (sm_commit_stt io)"
    by (intro keepsI sm_le_same) (simp_all add: sm_commit_stt_def sm_ok_def no_live_queues_def)
  then show ?thesis
    unfolding sm_run_stt_def by (intro keeps_intro) simp_all
qed

lemma keeps_record_outcome [keeps_intro]: "keeps (sm_le p q) (sm_record_turn_outcome turn)"
  unfolding sm_record_turn_outcome_def by (intro smo.keeps_upd sm_le_same) (simp_all add: sm_ok_def no_live_queues_def)

lemma keeps_ignore_noise [keeps_intro]: "keeps (sm_le p q) (sm_ignore_noise_turn io turn reason)"
  unfolding sm_ignore_noise_turn_def Let_def by (intro keeps_intro)

lemma keeps_resolve [keeps_intro]: "keeps (sm_le p q) (sm_resolve_semantics io turn t b)"
  unfolding sm_resolve_semantics_def Let_def by (intro keeps_intro)

end
