(* ===== verification/Response.thy ===== *)
theory Response
  imports Turns
begin

text \<open>
  One spoken response (\<open>apps/api/pipeline/stream_module.py\<close>): \<open>_run_llm_tts_transport\<close> and
  its three concurrent tasks \<open>_produce_llm\<close>, \<open>_consume_tts\<close> and \<open>_consume_transport\<close>.

  Each task is a state machine whose program counter names the places where the coroutine can
  wait: for a queue to be uncorked, for room in a queue, for an item, for the next token or
  audio chunk of a provider. A step runs the code from one such place to the next. The event
  loop's choice of the task to run is a schedule, the argument \<open>sched\<close>; a step of a task that
  has to wait changes nothing. The token stream and the audio stream of a provider are the
  lists of their items, followed by an exception if the provider failed. A schedule that ends
  before the tasks do is the timeout of \<open>asyncio.wait_for\<close>. Interleavings inside a step, at
  the awaits of the publisher and the browser connection, are not distinguished, and tasks left
  behind by a failed one are not run further.
\<close>

subsection \<open>Queue operations of the tasks\<close>

definition uncork_ready :: "'c queue_item fq option \<Rightarrow> bool" where
  "uncork_ready q = (case q of None \<Rightarrow> True | Some q0 \<Rightarrow> fq_uncork_ready q0)"

text \<open>The locked part of \<open>put\<close>: whether it returned, and the transition it reports.\<close>

definition put_live ::
  "rat \<Rightarrow> 'c queue_item \<Rightarrow> 'c queue_item fq option \<Rightarrow> (bool \<times> bp_transition option) \<times> 'c queue_item fq option" where
  "put_live now x q =
     (case q of
        None \<Rightarrow> ((True, None), None)
      | Some q0 \<Rightarrow> (case fq_put_locked now x q0 of
          None \<Rightarrow> ((False, None), Some q0)
        | Some (q1, t) \<Rightarrow> ((True, t), Some q1)))"

datatype 'c got = Waiting | Closed | Got "'c queue_item" "bp_transition option"

definition get_live :: "rat \<Rightarrow> 'c queue_item fq option \<Rightarrow> 'c got \<times> 'c queue_item fq option" where
  "get_live now q =
     (case q of
        None \<Rightarrow> (Closed, None)
      | Some q0 \<Rightarrow> (case fq_get now q0 of
          None \<Rightarrow> (Waiting, Some q0)
        | Some (Inl e) \<Rightarrow> (Closed, Some q0)
        | Some (Inr (x, q1, t)) \<Rightarrow> (Got x t, Some q1)))"

definition live_depth :: "'c queue_item fq option \<Rightarrow> rat" where
  "live_depth q = (case q of None \<Rightarrow> 0 | Some q0 \<Rightarrow> fq_depth q0)"

subsection \<open>The language model task\<close>

datatype llm_pc =
    LStart
  | LTokens "string list" "exn option"
  | LCork text_chunk "string list" "exn option"
  | LPut text_chunk "string list" "exn option"
  | LEos "exn option"
  | LTail
  | LDone
  | LFailed exn

record llm_task =
  lt_pc :: llm_pc
  lt_turn :: string
  lt_first :: bool
  lt_parts :: "string list"
  lt_seq :: nat
  lt_started :: rat

definition lt_new :: llm_task where
  "lt_new = \<lparr> lt_pc = LStart, lt_turn = [], lt_first = True, lt_parts = [], lt_seq = 0, lt_started = 0 \<rparr>"

text \<open>The text generated so far, recorded under the response.\<close>

definition note_text :: "string \<Rightarrow> string list \<Rightarrow> sess \<Rightarrow> sess" where
  "note_text r parts s =
     s\<lparr> sm_text := dict_set (sm_text s) r (concat parts),
        sm_est := dict_set (sm_est s) r (sm_estimate_speech_ms (concat parts) s) \<rparr>"

text \<open>One token: everything of the loop body before the wait for the cork.\<close>

definition llm_token :: "io \<Rightarrow> string \<Rightarrow> llm_task \<Rightarrow> string \<Rightarrow> string list \<Rightarrow> exn option \<Rightarrow> llm_task sm" where
  "llm_token io r k tok rest tail =
     act_bind (act_when (lt_first k) (sm_emit io LLM_FIRST_TOKEN ''llm'' [])) (\<lambda>_.
     (let k1 = k\<lparr> lt_first := False, lt_parts := lt_parts k @ [tok] \<rparr> in
     act_bind (upd (note_text r (lt_parts k1))) (\<lambda>_.
     ask (\<lambda>s.
       (if sm_is_stale (lt_turn k1) r s then
          act_bind (sm_drop_stale_chunk io ''llm_to_tts'' ''text'' (sm_stale_reason (lt_turn k1) r s) r 0)
            (\<lambda>_. act_ret (k1\<lparr> lt_pc := LEos None \<rparr>))
        else
          (let n = lt_seq k1 + 1;
               c = \<lparr> tc_call_id = sm_call s, tc_turn_id = lt_turn k1, tc_response_id = r, tc_sequence = n,
                     tc_text = tok, tc_estimated_ms = sm_estimate_speech_ms tok s \<rparr>
           in act_ret (k1\<lparr> lt_seq := n, lt_pc := LCork c rest tail \<rparr>)))))))"

definition llm_put :: "io \<Rightarrow> string \<Rightarrow> llm_task \<Rightarrow> text_chunk \<Rightarrow> string list \<Rightarrow> exn option \<Rightarrow> llm_task sm" where
  "llm_put io r k c rest tail =
     act_bind (sm_now io) (\<lambda>now.
     act_bind (step_tq (put_live now (Chunk c))) (\<lambda>x.
       (if \<not> fst x then act_ret k
        else
          act_bind (doall
            [ sm_notify (sm_bp io) (snd x),
              ask (\<lambda>s. sm_set_queue_depth ''llm_to_tts'' (live_depth (sm_tq s))),
              sm_send_pipeline_state io,
              ask (\<lambda>s. sm_send io ''llm.token''
                [(''call_id'', PStr (sm_call s)), (''turn_id'', PStr (lt_turn k)), (''response_id'', PStr r),
                 (''sequence'', PInt (int (tc_sequence c))), (''text'', PStr (tc_text c))]) ])
            (\<lambda>_. act_ret (k\<lparr> lt_pc := LTokens rest tail \<rparr>)))))"

definition eos_of :: "string \<Rightarrow> string \<Rightarrow> sess \<Rightarrow> end_of_stream" where
  "eos_of turn r s = \<lparr> eos_call_id = sm_call s, eos_turn_id = turn, eos_response_id = r, eos_reason = ''completed'' \<rparr>"

text \<open>The \<open>finally\<close> clause, then what follows it: the pending exception or the tail.\<close>

definition llm_eos :: "io \<Rightarrow> string \<Rightarrow> llm_task \<Rightarrow> exn option \<Rightarrow> llm_task sm" where
  "llm_eos io r k pending =
     act_bind (sm_now io) (\<lambda>now.
     act_bind (ask (\<lambda>s. step_tq (put_live now (Eos (eos_of (lt_turn k) r s))))) (\<lambda>x.
       (if \<not> fst x then act_ret k
        else act_bind (sm_notify (sm_bp io) (snd x)) (\<lambda>_.
          act_ret (k\<lparr> lt_pc := (case pending of None \<Rightarrow> LTail | Some e \<Rightarrow> LFailed e) \<rparr>)))))"

definition completed_message :: "string \<Rightarrow> string \<Rightarrow> string \<Rightarrow> dict" where
  "completed_message r turn response =
     [(''role'', PStr ''assistant''), (''response_id'', PStr r), (''turn_id'', PStr turn),
      (''status'', PStr ''completed''), (''content'', PStr response)]"

definition llm_finish_text :: "string \<Rightarrow> llm_task \<Rightarrow> sess \<Rightarrow> sess" where
  "llm_finish_text r k s =
     (let response = concat (lt_parts k);
          s1 = (note_text r (lt_parts k) s)\<lparr> sm_ps := (sm_ps s)\<lparr> ps_response := response \<rparr> \<rparr>
      in if r \<in> set (sm_interrupted s1) then s1
         else s1\<lparr> sm_conv := sm_conv s1 @ [completed_message r (lt_turn k) response] \<rparr>)"

definition llm_usage_payload :: "token_usage \<Rightarrow> sess \<Rightarrow> dict" where
  "llm_usage_payload u s =
     [(''provider'', PStr (pn_llm (sm_names s))), (''model'', PStr (pn_llm_model (sm_names s))),
      (''measurements'', PList
        [measurement ''input_token'' (of_int (max 0 (us_input u - us_cached u))) ''token'' False,
         measurement ''cached_input_token'' (of_int (us_cached u)) ''token'' False,
         measurement ''output_token'' (of_int (us_output u)) ''token'' False])]"

definition llm_tail :: "io \<Rightarrow> string \<Rightarrow> llm_task \<Rightarrow> llm_task sm" where
  "llm_tail io r k =
     act_bind (upd (llm_finish_text r k)) (\<lambda>_.
     act_bind (sm_now io) (\<lambda>now.
     act_bind (doall
       [ sm_emit io LLM_FINAL_RESPONSE ''llm''
           [(''response'', PStr (concat (lt_parts k))), (''latency_ms'', PFloat ((now - lt_started k) * 1000))],
         ask (\<lambda>s. sm_emit io USAGE_LLM_RECORDED ''llm'' (llm_usage_payload (io_llm_usage io (sm_tick s)) s)),
         sm_expect_usage ''llm_input_tokens'',
         sm_expect_usage ''llm_output_tokens'' ])
       (\<lambda>_. act_ret (k\<lparr> lt_pc := LDone \<rparr>))))"

text \<open>\<open>except Exception\<close> of the task: report the failure, then run the \<open>finally\<close> clause.\<close>

definition llm_fail :: "io \<Rightarrow> llm_task \<Rightarrow> exn \<Rightarrow> llm_task sm" where
  "llm_fail io k e =
     act_try (act_bind (ask (\<lambda>s. sm_provider_failed io ''llm'' (pn_llm (sm_names s)) e))
                (\<lambda>_. act_ret (k\<lparr> lt_pc := LEos (Some e) \<rparr>)))
             (\<lambda>e2. act_ret (k\<lparr> lt_pc := LEos (Some e2) \<rparr>))"

definition llm_start :: "io \<Rightarrow> string \<Rightarrow> semantic option \<Rightarrow> llm_task \<Rightarrow> llm_task sm" where
  "llm_start io transcript sem k =
     act_bind (doall [ upd_ps (\<lambda>p. p\<lparr> ps_current_stage := ''llm'' \<rparr>), sm_emit io LLM_STARTED ''llm'' [] ]) (\<lambda>_.
     act_bind (sm_now io) (\<lambda>started.
     ask (\<lambda>s. case io_llm io (sm_tick s) transcript (llm_context sem s) of (tokens, tail) \<Rightarrow>
       act_ret (k\<lparr> lt_turn := ps_turn_id (sm_ps s), lt_started := started, lt_pc := LTokens tokens tail \<rparr>))))"

definition llm_step :: "io \<Rightarrow> string \<Rightarrow> string \<Rightarrow> semantic option \<Rightarrow> llm_task \<Rightarrow> llm_task sm" where
  "llm_step io r transcript sem k =
     (case lt_pc k of
        LStart \<Rightarrow> act_try (llm_start io transcript sem k) (\<lambda>e. act_ret (k\<lparr> lt_pc := LFailed e \<rparr>))
      | LTokens [] None \<Rightarrow> act_ret (k\<lparr> lt_pc := LEos None \<rparr>)
      | LTokens [] (Some e) \<Rightarrow> llm_fail io k e
      | LTokens (tok # rest) tail \<Rightarrow> act_try (llm_token io r k tok rest tail) (llm_fail io k)
      | LCork c rest tail \<Rightarrow>
          ask (\<lambda>s. act_ret (if uncork_ready (sm_tq s) then k\<lparr> lt_pc := LPut c rest tail \<rparr> else k))
      | LPut c rest tail \<Rightarrow> act_try (llm_put io r k c rest tail) (llm_fail io k)
      | LEos pending \<Rightarrow> act_try (llm_eos io r k pending) (\<lambda>e. act_ret (k\<lparr> lt_pc := LFailed e \<rparr>))
      | LTail \<Rightarrow> act_try (llm_tail io r k) (\<lambda>e. act_ret (k\<lparr> lt_pc := LFailed e \<rparr>))
      | LDone \<Rightarrow> act_ret k
      | LFailed e \<Rightarrow> act_ret k)"

subsection \<open>The speech synthesis task\<close>

text \<open>What follows a phrase: the end of the loop, or the next item with an empty buffer.\<close>

datatype after_phrase = ThenEnd | ThenNext

datatype tts_end = Completed | Returned | Raised exn

datatype tts_pc =
    TStart
  | TGet
  | THave "text_chunk queue_item"
  | TAudio "bytes list" "exn option" after_phrase
  | TCork audio_chunk "bytes list" "exn option" after_phrase
  | TPut audio_chunk "bytes list" "exn option" after_phrase
  | TEos tts_end
  | TTail
  | TDone
  | TFailed exn

record tts_task =
  tt_pc :: tts_pc
  tt_turn :: string
  tt_buffer :: string
  tt_first :: bool
  tt_item_turn :: string
  tt_seq :: nat
  tt_started :: rat

definition tt_new :: tts_task where
  "tt_new = \<lparr> tt_pc = TStart, tt_turn = [], tt_buffer = [], tt_first = True, tt_item_turn = [], tt_seq = 0,
              tt_started = 0 \<rparr>"

definition tts_start :: "io \<Rightarrow> string \<Rightarrow> tts_task \<Rightarrow> tts_task sm" where
  "tts_start io r k =
     act_bind (upd_ps (\<lambda>p. p\<lparr> ps_current_stage := ''tts'' \<rparr>)) (\<lambda>_.
     ask (\<lambda>s. let turn = get_or (rc_turns (sm_rc s)) r (ps_turn_id (sm_ps s)) in
     act_bind (sm_now io) (\<lambda>started.
     act_bind (sm_emit io TTS_STARTED ''tts'' []) (\<lambda>_.
       act_ret (k\<lparr> tt_turn := turn, tt_started := started, tt_pc := TGet \<rparr>)))))"

definition tts_get :: "io \<Rightarrow> tts_task \<Rightarrow> tts_task sm" where
  "tts_get io k =
     act_bind (sm_now io) (\<lambda>now.
     act_bind (step_tq (get_live now)) (\<lambda>g.
       (case g of
          Waiting \<Rightarrow> act_ret k
        | Closed \<Rightarrow> act_ret (k\<lparr> tt_pc := TEos Returned \<rparr>)
        | Got x t \<Rightarrow>
            act_bind (doall
              [ sm_notify (sm_bp io) t,
                ask (\<lambda>s. sm_set_queue_depth ''llm_to_tts'' (live_depth (sm_tq s))),
                sm_send_pipeline_state io ])
              (\<lambda>_. act_ret (k\<lparr> tt_pc := THave x \<rparr>)))))"

definition after_phrase_task :: "after_phrase \<Rightarrow> tts_task \<Rightarrow> tts_task" where
  "after_phrase_task a k =
     (case a of ThenEnd \<Rightarrow> k\<lparr> tt_pc := TEos Completed \<rparr> | ThenNext \<Rightarrow> k\<lparr> tt_buffer := [], tt_pc := TGet \<rparr>)"

text \<open>The start of \<open>_synthesize_phrase\<close>.\<close>

definition tts_phrase :: "io \<Rightarrow> string \<Rightarrow> tts_task \<Rightarrow> string \<Rightarrow> after_phrase \<Rightarrow> tts_task sm" where
  "tts_phrase io r k turn a =
     ask (\<lambda>s.
       (if sm_is_stale turn r s then
          act_bind (sm_drop_stale_chunk io ''tts'' ''text'' (sm_stale_reason turn r s) r 0)
            (\<lambda>_. act_ret (after_phrase_task a k))
        else
          act_bind (sm_now io) (\<lambda>_.
            (case io_tts io (sm_tick s) (tt_buffer k) of (chunks, tail) \<Rightarrow>
               act_ret (k\<lparr> tt_item_turn := turn, tt_seq := get_or (sm_aseq s) r 0,
                           tt_pc := TAudio chunks tail a \<rparr>)))))"

definition phrase_complete :: "string \<Rightarrow> bool" where
  "phrase_complete buf \<longleftrightarrow>
     length buf \<ge> 120
   \<or> list_ex (\<lambda>m. endswith (rstrip_with is_space buf) [m]) [CHR ''.'', CHR ''?'', CHR ''!'']"

definition tts_item :: "io \<Rightarrow> string \<Rightarrow> tts_task \<Rightarrow> text_chunk queue_item \<Rightarrow> tts_task sm" where
  "tts_item io r k x =
     (case x of
        Eos e \<Rightarrow> (if str_strip (tt_buffer k) \<noteq> [] then tts_phrase io r k (eos_turn_id e) ThenEnd
                  else act_ret (k\<lparr> tt_pc := TEos Completed \<rparr>))
      | Chunk c \<Rightarrow>
          ask (\<lambda>s.
            (if sm_is_stale (tc_turn_id c) (tc_response_id c) s then
               act_bind (sm_drop_stale_chunk io ''tts'' ''text''
                           (sm_stale_reason (tc_turn_id c) (tc_response_id c) s) (tc_response_id c) 0)
                 (\<lambda>_. act_ret (k\<lparr> tt_pc := TGet \<rparr>))
             else
               (let k1 = k\<lparr> tt_buffer := tt_buffer k @ tc_text c \<rparr> in
                if phrase_complete (tt_buffer k1) then tts_phrase io r k1 (tc_turn_id c) ThenNext
                else act_ret (k1\<lparr> tt_pc := TGet \<rparr>)))))"

definition note_first_audio :: "string \<Rightarrow> rat \<Rightarrow> sess \<Rightarrow> sess" where
  "note_first_audio r now s =
     (if map_of (sm_first_at s) r = None then s\<lparr> sm_first_at := dict_set (sm_first_at s) r now \<rparr> else s)"

text \<open>One audio chunk of the provider: the loop body before the wait for the cork.\<close>

definition tts_audio :: "io \<Rightarrow> string \<Rightarrow> tts_task \<Rightarrow> bytes \<Rightarrow> bytes list \<Rightarrow> exn option \<Rightarrow> after_phrase \<Rightarrow> tts_task sm" where
  "tts_audio io r k b rest tail a =
     act_bind (act_when (tt_first k) (doall
       [ act_bind (sm_now io) (\<lambda>now. upd (note_first_audio r now)), sm_emit io TTS_FIRST_AUDIO ''tts'' [] ])) (\<lambda>_.
     (let k1 = k\<lparr> tt_first := False \<rparr> in
     ask (\<lambda>s. let ms = sm_audio_duration_ms b s in
       (if sm_is_stale (tt_item_turn k1) r s then
          act_bind (sm_drop_stale_chunk io ''tts_to_transport'' ''audio'' (sm_stale_reason (tt_item_turn k1) r s) r ms)
            (\<lambda>_. act_ret (k1\<lparr> tt_pc := TAudio rest tail a \<rparr>))
        else
          (let n = tt_seq k1 + 1;
               c = \<lparr> ac_call_id = sm_call s, ac_turn_id = tt_item_turn k1, ac_response_id = r, ac_sequence = n,
                     ac_data = b, ac_sample_rate = cf_tts_output_sample_rate (st_flow (sm_cfg s)), ac_duration_ms = ms \<rparr>
           in act_bind (upd (\<lambda>s. s\<lparr> sm_aseq := dict_set (sm_aseq s) r n \<rparr>))
                (\<lambda>_. act_ret (k1\<lparr> tt_seq := n, tt_pc := TCork c rest tail a \<rparr>)))))))"

definition tts_put ::
  "io \<Rightarrow> tts_task \<Rightarrow> audio_chunk \<Rightarrow> bytes list \<Rightarrow> exn option \<Rightarrow> after_phrase \<Rightarrow> tts_task sm" where
  "tts_put io k c rest tail a =
     act_bind (sm_now io) (\<lambda>now.
     act_bind (step_aq (put_live now (Chunk c))) (\<lambda>x.
       (if \<not> fst x then act_ret k
        else
          act_bind (doall
            [ sm_notify (sm_bp io) (snd x),
              ask (\<lambda>s. sm_set_queue_depth ''tts_to_transport'' (live_depth (sm_aq s))),
              sm_send_pipeline_state io ])
            (\<lambda>_. act_ret (k\<lparr> tt_pc := TAudio rest tail a \<rparr>)))))"

definition tts_usage_payload :: "speech_usage \<Rightarrow> sess \<Rightarrow> dict" where
  "tts_usage_payload u s =
     [(''provider'', PStr (pn_tts (sm_names s))), (''model'', PStr (pn_tts_model (sm_names s))),
      (''audio_seconds'', PFloat (su_seconds u)), (''audio_bytes'', PInt (su_bytes u)),
      (''measurements'', PList
        [measurement ''input_text_token'' (of_int (max 1 ((int (length (su_input_text u)) + 3) div 4))) ''token'' True,
         measurement ''output_audio_token'' (of_int (round_half_even (su_seconds u * 20))) ''token'' True])]"

definition tts_phrase_end :: "io \<Rightarrow> tts_task \<Rightarrow> after_phrase \<Rightarrow> tts_task sm" where
  "tts_phrase_end io k a =
     act_bind (doall
       [ ask (\<lambda>s. sm_emit io USAGE_TTS_RECORDED ''tts'' (tts_usage_payload (io_tts_usage io (sm_tick s)) s)),
         sm_expect_usage ''tts_characters'', sm_expect_usage ''tts_audio_seconds'' ])
       (\<lambda>_. act_ret (after_phrase_task a k))"

text \<open>\<open>except QueueClosed: return\<close> and \<open>except Exception\<close>; both run the \<open>finally\<close> clause.\<close>

definition tts_fail :: "io \<Rightarrow> tts_task \<Rightarrow> exn \<Rightarrow> tts_task sm" where
  "tts_fail io k e =
     (case e of
        QueueClosed _ \<Rightarrow> act_ret (k\<lparr> tt_pc := TEos Returned \<rparr>)
      | _ \<Rightarrow>
        act_try (act_bind (ask (\<lambda>s. sm_provider_failed io ''tts'' (pn_tts (sm_names s)) e))
                   (\<lambda>_. act_ret (k\<lparr> tt_pc := TEos (Raised e) \<rparr>)))
                (\<lambda>e2. act_ret (k\<lparr> tt_pc := TEos (Raised e2) \<rparr>)))"

definition tts_eos :: "io \<Rightarrow> string \<Rightarrow> tts_task \<Rightarrow> tts_end \<Rightarrow> tts_task sm" where
  "tts_eos io r k how =
     act_bind (sm_now io) (\<lambda>now.
     act_bind (ask (\<lambda>s. step_aq (put_live now (Eos (eos_of (tt_turn k) r s))))) (\<lambda>x.
       (if \<not> fst x then act_ret k
        else act_bind (sm_notify (sm_bp io) (snd x)) (\<lambda>_.
          act_ret (k\<lparr> tt_pc := (case how of Completed \<Rightarrow> TTail | Returned \<Rightarrow> TDone | Raised e \<Rightarrow> TFailed e) \<rparr>)))))"

definition tts_tail :: "io \<Rightarrow> tts_task \<Rightarrow> tts_task sm" where
  "tts_tail io k =
     act_bind (sm_now io) (\<lambda>now.
     act_bind (ask (\<lambda>s. sm_emit io TTS_COMPLETED ''tts''
       [(''latency_ms'', PFloat ((now - tt_started k) * 1000)),
        (''queue_depth'', PFloat (live_depth (sm_aq s))),
        (''depth_unit'', PStr (case sm_aq s of None \<Rightarrow> [] | Some q \<Rightarrow> fq_depth_unit q))]))
       (\<lambda>_. act_ret (k\<lparr> tt_pc := TDone \<rparr>)))"

definition tts_step :: "io \<Rightarrow> string \<Rightarrow> tts_task \<Rightarrow> tts_task sm" where
  "tts_step io r k =
     (case tt_pc k of
        TStart \<Rightarrow> act_try (tts_start io r k) (\<lambda>e. act_ret (k\<lparr> tt_pc := TFailed e \<rparr>))
      | TGet \<Rightarrow> act_try (tts_get io k) (tts_fail io k)
      | THave x \<Rightarrow> act_try (tts_item io r k x) (tts_fail io k)
      | TAudio [] None a \<Rightarrow> act_try (tts_phrase_end io k a) (tts_fail io k)
      | TAudio [] (Some e) a \<Rightarrow> tts_fail io k e
      | TAudio (b # rest) tail a \<Rightarrow> act_try (tts_audio io r k b rest tail a) (tts_fail io k)
      | TCork c rest tail a \<Rightarrow>
          ask (\<lambda>s. act_ret (if uncork_ready (sm_aq s) then k\<lparr> tt_pc := TPut c rest tail a \<rparr> else k))
      | TPut c rest tail a \<Rightarrow> act_try (tts_put io k c rest tail a) (tts_fail io k)
      | TEos how \<Rightarrow> act_try (tts_eos io r k how) (\<lambda>e. act_ret (k\<lparr> tt_pc := TFailed e \<rparr>))
      | TTail \<Rightarrow> act_try (tts_tail io k) (\<lambda>e. act_ret (k\<lparr> tt_pc := TFailed e \<rparr>))
      | TDone \<Rightarrow> act_ret k
      | TFailed e \<Rightarrow> act_ret k)"

subsection \<open>The transport task\<close>

datatype tr_pc = XStart | XGet | XHave "audio_chunk queue_item" | XDone | XFailed exn

record tr_task =
  xt_pc :: tr_pc
  xt_bytes :: nat
  xt_chunks :: nat

definition xt_new :: tr_task where
  "xt_new = \<lparr> xt_pc = XStart, xt_bytes = 0, xt_chunks = 0 \<rparr>"

definition tr_get :: "io \<Rightarrow> tr_task \<Rightarrow> tr_task sm" where
  "tr_get io k =
     act_bind (sm_now io) (\<lambda>now.
     act_bind (step_aq (get_live now)) (\<lambda>g.
       (case g of
          Waiting \<Rightarrow> act_ret k
        | Closed \<Rightarrow> act_ret (k\<lparr> xt_pc := XDone \<rparr>)
        | Got x t \<Rightarrow>
            act_bind (doall
              [ sm_notify (sm_bp io) t,
                ask (\<lambda>s. sm_set_queue_depth ''tts_to_transport'' (live_depth (sm_aq s))),
                sm_send_pipeline_state io ])
              (\<lambda>_. act_ret (k\<lparr> xt_pc := XHave x \<rparr>)))))"

text \<open>The staleness check and the start of the send are one step: nothing waits in between.\<close>

definition tr_item :: "io \<Rightarrow> string \<Rightarrow> tr_task \<Rightarrow> audio_chunk queue_item \<Rightarrow> tr_task sm" where
  "tr_item io r k x =
     (case x of
        Eos e \<Rightarrow>
          act_bind (doall
            [ upd (\<lambda>s. s\<lparr> sm_tcomplete := add_once (sm_tcomplete s) r \<rparr>),
              upd (finish_response_if_playback_done r),
              sm_emit io TRANSPORT_AUDIO_SENT ''transport''
                [(''bytes'', PInt (int (xt_bytes k))), (''chunks'', PInt (int (xt_chunks k))), (''queue_depth'', PInt 0)] ])
            (\<lambda>_. act_ret (k\<lparr> xt_pc := XDone \<rparr>))
      | Chunk c \<Rightarrow>
          ask (\<lambda>s.
            (if sm_is_stale (ac_turn_id c) (ac_response_id c) s \<or> ac_response_id c \<noteq> r then
               act_bind (sm_drop_stale_chunk io ''transport'' ''audio''
                           (sm_stale_reason (ac_turn_id c) (ac_response_id c) s) (ac_response_id c) (ac_duration_ms c))
                 (\<lambda>_. act_ret (k\<lparr> xt_pc := XGet \<rparr>))
             else
               act_bind (doall
                 [ sm_transmit io (Audio c),
                   act_bind (sm_now io) (\<lambda>now. upd (note_first_audio r now)),
                   act_bind (sm_now io) (\<lambda>now. upd (\<lambda>s. s\<lparr> sm_last_at := dict_set (sm_last_at s) r now \<rparr>)) ])
                 (\<lambda>_. act_ret (k\<lparr> xt_pc := XGet, xt_bytes := xt_bytes k + length (ac_data c),
                                xt_chunks := xt_chunks k + 1 \<rparr>)))))"

definition tr_step :: "io \<Rightarrow> string \<Rightarrow> tr_task \<Rightarrow> tr_task sm" where
  "tr_step io r k =
     (case xt_pc k of
        XStart \<Rightarrow> act_bind (upd_ps (\<lambda>p. p\<lparr> ps_current_stage := ''transport'' \<rparr>)) (\<lambda>_. act_ret (k\<lparr> xt_pc := XGet \<rparr>))
      | XGet \<Rightarrow> act_try (tr_get io k) (\<lambda>e. act_ret (k\<lparr> xt_pc := XFailed e \<rparr>))
      | XHave x \<Rightarrow> act_try (tr_item io r k x) (\<lambda>e. act_ret (k\<lparr> xt_pc := XFailed e \<rparr>))
      | XDone \<Rightarrow> act_ret k
      | XFailed e \<Rightarrow> act_ret k)"

subsection \<open>The response\<close>

datatype which = SLlm | STts | STransport

record run =
  rn_resp :: string
  rn_transcript :: string
  rn_sem :: "semantic option"
  rn_llm :: llm_task
  rn_tts :: tts_task
  rn_tr :: tr_task

definition rn_new :: "string \<Rightarrow> string \<Rightarrow> semantic option \<Rightarrow> run" where
  "rn_new r transcript sem =
     \<lparr> rn_resp = r, rn_transcript = transcript, rn_sem = sem, rn_llm = lt_new, rn_tts = tt_new, rn_tr = xt_new \<rparr>"

fun run_step :: "io \<Rightarrow> which \<Rightarrow> run \<Rightarrow> run sm" where
  "run_step io SLlm k =
     act_bind (llm_step io (rn_resp k) (rn_transcript k) (rn_sem k) (rn_llm k)) (\<lambda>l. act_ret (k\<lparr> rn_llm := l \<rparr>))"
| "run_step io STts k = act_bind (tts_step io (rn_resp k) (rn_tts k)) (\<lambda>l. act_ret (k\<lparr> rn_tts := l \<rparr>))"
| "run_step io STransport k = act_bind (tr_step io (rn_resp k) (rn_tr k)) (\<lambda>l. act_ret (k\<lparr> rn_tr := l \<rparr>))"

text \<open>\<open>asyncio.gather\<close>: the first failure, or the end of all three.\<close>

definition run_failed :: "run \<Rightarrow> exn option" where
  "run_failed k =
     (case lt_pc (rn_llm k) of LFailed e \<Rightarrow> Some e
      | _ \<Rightarrow> (case tt_pc (rn_tts k) of TFailed e \<Rightarrow> Some e
      | _ \<Rightarrow> (case xt_pc (rn_tr k) of XFailed e \<Rightarrow> Some e | _ \<Rightarrow> None)))"

definition run_done :: "run \<Rightarrow> bool" where
  "run_done k \<longleftrightarrow> lt_pc (rn_llm k) = LDone \<and> tt_pc (rn_tts k) = TDone \<and> xt_pc (rn_tr k) = XDone"

fun run_tasks :: "io \<Rightarrow> which list \<Rightarrow> run \<Rightarrow> run sm" where
  "run_tasks io [] k = act_ret k"
| "run_tasks io (w # ws) k =
     (if run_done k \<or> run_failed k \<noteq> None then act_ret k
      else act_bind (run_step io w k) (run_tasks io ws))"

definition begin_response :: "string \<Rightarrow> sess \<Rightarrow> sess" where
  "begin_response r s =
     s\<lparr> sm_rc := rc_start r (ps_turn_id (sm_ps s)) (sm_rc s),
        sm_ps := (sm_ps s)\<lparr> ps_active_response_id := Some r \<rparr>,
        sm_bi := bi_assistant_playing (ps_turn_id (sm_ps s)) r (sm_bi s),
        sm_text := dict_set (sm_text s) r [], sm_est := dict_set (sm_est s) r 0,
        sm_aseq := dict_set (sm_aseq s) r 0, sm_first_at := dict_pop (sm_first_at s) r,
        sm_last_at := dict_pop (sm_last_at s) r, sm_tcomplete := discard (sm_tcomplete s) r,
        sm_pdone := discard (sm_pdone s) r \<rparr>"

definition text_weight :: "text_chunk queue_item \<Rightarrow> rat" where
  "text_weight x = (case x of Chunk c \<Rightarrow> tc_estimated_ms c | Eos e \<Rightarrow> 0)"

definition audio_weight :: "audio_chunk queue_item \<Rightarrow> rat" where
  "audio_weight x = (case x of Chunk c \<Rightarrow> ac_duration_ms c | Eos e \<Rightarrow> 0)"

definition new_text_queue :: "sess \<Rightarrow> text_queue res" where
  "new_text_queue s =
     (let f = st_flow (sm_cfg s)
      in fq_new (sm_call s) ''llm_to_tts'' SPEAK_AHEAD_MS (cf_text_low f) (cf_text_high f) (cf_text_hard f)
           (Some text_weight) (nat (cf_max_items f)))"

definition new_audio_queue :: "sess \<Rightarrow> audio_queue res" where
  "new_audio_queue s =
     (let f = st_flow (sm_cfg s)
      in fq_new (sm_call s) ''tts_to_transport'' AUDIO_MS (cf_audio_low f) (cf_audio_high f) (cf_audio_hard f)
           (Some audio_weight) (nat (cf_max_items f)))"

definition sm_open_queues :: "unit sm" where
  "sm_open_queues s =
     (case bindE (new_text_queue s) (\<lambda>tq. bindE (new_audio_queue s) (\<lambda>aq. Inr (tq, aq))) of
        Inl e \<Rightarrow> (Inl e, s)
      | Inr (tq, aq) \<Rightarrow> (Inr (), s\<lparr> sm_tq := Some tq, sm_aq := Some aq \<rparr>))"

text \<open>
  The outcome of \<open>wait_for(gather(...))\<close>. A \<open>TimeoutError\<close> is reported whether it is the
  deadline or comes from a task. The \<open>finally\<close> clause closes both queues and forgets them.
\<close>

definition sm_response_outcome :: "io \<Rightarrow> run \<Rightarrow> unit sm" where
  "sm_response_outcome io k =
     (let timed_out = doall [ ask (\<lambda>s. sm_emit io PIPELINE_STAGE_TIMEOUT (ps_current_stage (sm_ps s)) []),
                              act_raise TimeoutError ]
      in case run_failed k of
           Some e \<Rightarrow> (if e = TimeoutError then timed_out else act_raise e)
         | None \<Rightarrow> (if run_done k then act_ret () else timed_out))"

definition sm_run_llm_tts_transport :: "io \<Rightarrow> which list \<Rightarrow> string \<Rightarrow> semantic option \<Rightarrow> unit sm" where
  "sm_run_llm_tts_transport io sched transcript sem =
     act_bind (sm_uuid io) (\<lambda>r.
     doall
      [ upd (begin_response r),
        sm_open_queues,
        act_finally
          (act_bind (run_tasks io sched (rn_new r transcript sem)) (sm_response_outcome io))
          (upd (\<lambda>s. s\<lparr> sm_tq := None, sm_aq := None \<rparr>)) ])"

subsection \<open>Laws\<close>

lemma put_live_inv: "pred_option fq_inv q \<Longrightarrow> pred_option fq_inv (snd (put_live now x q))"
  by (auto simp: put_live_def split: option.split intro: fq_put_inv)

lemma get_live_inv: "pred_option fq_inv q \<Longrightarrow> pred_option fq_inv (snd (get_live now q))"
  by (auto simp: get_live_def split: option.split sum.split intro: fq_get_inv)

lemma live_None: "snd (put_live now x None) = None" "snd (get_live now None) = None"
  by (simp_all add: put_live_def get_live_def)

lemma keeps_put_text [keeps_intro]: "keeps (sm_le p q) (step_tq (put_live now x))"
  by (intro keeps_step_tq put_live_inv live_None)

lemma keeps_put_audio [keeps_intro]: "keeps (sm_le p q) (step_aq (put_live now x))"
  by (intro keeps_step_aq put_live_inv live_None)

lemma keeps_get_text [keeps_intro]: "keeps (sm_le p q) (step_tq (get_live now))"
  by (intro keeps_step_tq get_live_inv live_None)

lemma keeps_get_audio [keeps_intro]: "keeps (sm_le p q) (step_aq (get_live now))"
  by (intro keeps_step_aq get_live_inv live_None)

lemma keeps_notify_bp [keeps_intro]: "keeps (sm_le p q) (sm_notify (sm_bp io) t)"
  by (intro keeps_notify keeps_bp)

lemma keeps_note_text [keeps_intro]: "keeps (sm_le p q) (upd (note_text r parts))"
  by (intro smo.keeps_upd sm_le_same) (simp_all add: note_text_def sm_ok_def no_live_queues_def)

lemma keeps_llm_fail [keeps_intro]: "keeps (sm_le p q) (llm_fail io k e)"
  unfolding llm_fail_def by (intro keeps_intro)

lemma keeps_llm_start [keeps_intro]: "keeps (sm_le p q) (llm_start io transcript sem k)"
  unfolding llm_start_def by (intro keeps_intro) simp_all

lemma keeps_llm_token [keeps_intro]: "keeps (sm_le p q) (llm_token io r k tok rest tail)"
  unfolding llm_token_def Let_def by (intro keeps_intro)

lemma keeps_llm_put [keeps_intro]: "keeps (sm_le p q) (llm_put io r k c rest tail)"
  unfolding llm_put_def by (intro keeps_intro)

lemma keeps_llm_eos [keeps_intro]: "keeps (sm_le p q) (llm_eos io r k pending)"
  unfolding llm_eos_def by (intro keeps_intro)

lemma keeps_llm_tail [keeps_intro]: "keeps (sm_le p q) (llm_tail io r k)"
proof -
  have "keeps (sm_le p q) (upd (llm_finish_text r k))"
    by (intro smo.keeps_upd sm_le_same) (simp_all add: llm_finish_text_def note_text_def Let_def sm_ok_def no_live_queues_def)
  then show ?thesis unfolding llm_tail_def by (intro keeps_intro)
qed

lemma keeps_llm_step [keeps_intro]: "keeps (sm_le p q) (llm_step io r transcript sem k)"
  unfolding llm_step_def by (auto split: llm_pc.split list.split option.split intro!: keeps_intro)

lemma keeps_note_first [keeps_intro]: "keeps (sm_le p q) (upd (note_first_audio r now))"
  by (intro smo.keeps_upd sm_le_same) (simp_all add: note_first_audio_def sm_ok_def no_live_queues_def)

lemma keeps_tts_fail [keeps_intro]: "keeps (sm_le p q) (tts_fail io k e)"
  unfolding tts_fail_def by (cases e) (auto intro!: keeps_intro)

lemma keeps_tts_start [keeps_intro]: "keeps (sm_le p q) (tts_start io r k)"
  unfolding tts_start_def Let_def by (intro keeps_intro) simp_all

lemma keeps_got: "keeps (sm_le p q) m \<Longrightarrow> keeps (sm_le p q) n \<Longrightarrow> (\<And>x t. keeps (sm_le p q) (f x t)) \<Longrightarrow>
    keeps (sm_le p q) (case g of Waiting \<Rightarrow> m | Closed \<Rightarrow> n | Got x t \<Rightarrow> f x t)"
  by (simp split: got.split)

lemma keeps_item: "(\<And>c. keeps (sm_le p q) (f c)) \<Longrightarrow> (\<And>e. keeps (sm_le p q) (g e)) \<Longrightarrow>
    keeps (sm_le p q) (case x of Chunk c \<Rightarrow> f c | Eos e \<Rightarrow> g e)"
  by (simp split: queue_item.split)

lemma keeps_tts_get [keeps_intro]: "keeps (sm_le p q) (tts_get io k)"
  unfolding tts_get_def by (intro keeps_intro keeps_got)

lemma keeps_tts_phrase [keeps_intro]: "keeps (sm_le p q) (tts_phrase io r k turn a)"
  unfolding tts_phrase_def by (intro keeps_intro)

lemma keeps_tts_item [keeps_intro]: "keeps (sm_le p q) (tts_item io r k x)"
  unfolding tts_item_def Let_def by (intro keeps_intro keeps_item)

lemma keeps_aseq [keeps_intro]: "keeps (sm_le p q) (upd (\<lambda>s. s\<lparr> sm_aseq := dict_set (sm_aseq s) r n \<rparr>))"
  by (intro smo.keeps_upd sm_le_same) (simp_all add: sm_ok_def no_live_queues_def)

lemma keeps_tts_audio [keeps_intro]: "keeps (sm_le p q) (tts_audio io r k b rest tail a)"
  unfolding tts_audio_def Let_def by (intro keeps_intro)

lemma keeps_tts_put [keeps_intro]: "keeps (sm_le p q) (tts_put io k c rest tail a)"
  unfolding tts_put_def by (intro keeps_intro)

lemma keeps_tts_phrase_end [keeps_intro]: "keeps (sm_le p q) (tts_phrase_end io k a)"
  unfolding tts_phrase_end_def by (intro keeps_intro)

lemma keeps_tts_eos [keeps_intro]: "keeps (sm_le p q) (tts_eos io r k how)"
  unfolding tts_eos_def by (intro keeps_intro)

lemma keeps_tts_tail [keeps_intro]: "keeps (sm_le p q) (tts_tail io k)"
  unfolding tts_tail_def by (intro keeps_intro)

lemma keeps_tts_step [keeps_intro]: "keeps (sm_le p q) (tts_step io r k)"
  unfolding tts_step_def by (auto split: tts_pc.split list.split option.split intro!: keeps_intro)

lemma keeps_tr_get [keeps_intro]: "keeps (sm_le p q) (tr_get io k)"
  unfolding tr_get_def by (intro keeps_intro keeps_got)

lemma sm_le_transmit:
  "\<not> rc_is_cancelled (ac_response_id c) (sm_rc s) \<Longrightarrow> sm_le p q s (snd (sm_transmit io (Audio c) s))"
  by (auto simp: sm_transmit_def sm_le_def sm_ok_def no_live_queues_def events_between_def split: option.split)

lemma keeps_tr_item [keeps_intro]: "keeps (sm_le p q) (tr_item io r k x)"
proof (cases x)
  case (Eos e)
  have "keeps (sm_le p q) (upd (\<lambda>s. s\<lparr> sm_tcomplete := add_once (sm_tcomplete s) r \<rparr>))"
    by (intro smo.keeps_upd sm_le_same) (simp_all add: sm_ok_def no_live_queues_def)
  then show ?thesis by (auto simp: tr_item_def Eos intro!: keeps_intro)
next
  case (Chunk c)
  have last: "keeps (sm_le p q) (upd (\<lambda>s. s\<lparr> sm_last_at := dict_set (sm_last_at s) r' now \<rparr>))" for r' now
    by (intro smo.keeps_upd sm_le_same) (simp_all add: sm_ok_def no_live_queues_def)
  show ?thesis
  proof (rule keepsI)
    fix s
    show "sm_le p q s (snd (tr_item io r k x s))"
    proof (cases "sm_is_stale (ac_turn_id c) (ac_response_id c) s \<or> ac_response_id c \<noteq> r")
      case True
      have "keeps (sm_le p q) (act_bind (sm_drop_stale_chunk io ''transport'' ''audio''
              (sm_stale_reason (ac_turn_id c) (ac_response_id c) s) (ac_response_id c) (ac_duration_ms c))
                 (\<lambda>_. act_ret (k\<lparr> xt_pc := XGet \<rparr>)))"
        by (intro keeps_intro)
      with True show ?thesis by (simp add: tr_item_def Chunk ask_def keeps_def)
    next
      case False
      then have "\<not> rc_is_cancelled (ac_response_id c) (sm_rc s)" by (auto simp: sm_is_stale_def rc_is_active_def)
      with False show ?thesis
        by (auto simp: tr_item_def Chunk ask_def intro!: smo.bind_at sm_le_transmit keeps_intro last)
    qed
  qed
qed

lemma keeps_tr_step [keeps_intro]: "keeps (sm_le p q) (tr_step io r k)"
  unfolding tr_step_def by (auto split: tr_pc.split intro!: keeps_intro)

lemma keeps_run_step [keeps_intro]: "keeps (sm_le p q) (run_step io w k)"
  by (cases w) (auto intro!: keeps_intro)

lemma keeps_run_tasks [keeps_intro]: "keeps (sm_le p q) (run_tasks io sched k)"
  by (induction sched arbitrary: k) (auto intro!: keeps_intro)

lemma keeps_outcome [keeps_intro]: "keeps (sm_le p q) (sm_response_outcome io k)"
  unfolding sm_response_outcome_def Let_def by (intro keeps_intro)

lemma keeps_begin [keeps_intro]: "keeps (sm_le p q) (upd (begin_response r))"
  by (intro smo.keeps_upd sm_le_same)
     (auto simp: begin_response_def rc_start_def rc_is_cancelled_def sm_ok_def no_live_queues_def intro: bi_run_steps)

lemma flow_settings_nonneg:
  assumes "settings_load c = Inr c"
  shows "0 \<le> cf_text_low (st_flow c)" "0 \<le> cf_audio_low (st_flow c)"
  using assms by (auto simp: settings_load_Inr settings_fields_ok_def Let_def)

lemma keeps_open_queues [keeps_intro]: "keeps (sm_le p False) sm_open_queues"
proof (intro keepsI sm_le_same)
  fix s
  assume ok: "sm_ok s"
  show "sm_ok (snd (sm_open_queues s))"
    using ok flow_settings_nonneg [of "sm_cfg s"]
    by (auto simp: sm_open_queues_def sm_ok_def new_text_queue_def new_audio_queue_def Let_def bindE_eq_Inr
        split: sum.split intro: fq_new_inv)
qed (simp_all add: sm_open_queues_def split: sum.split prod.split)

text \<open>The queues are created after everything that can fail before the \<open>try\<close>, and dropped in its \<open>finally\<close>.\<close>

lemma run_response_quiet:
  assumes "no_live_queues s"
  shows "no_live_queues (snd (sm_run_llm_tts_transport io sched transcript sem s))"
  using assms
  by (auto simp: sm_run_llm_tts_transport_def act_defs sm_uuid_def begin_response_def sm_open_queues_def no_live_queues_def
      split: sum.split prod.split)

lemma keeps_run_response [keeps_intro]: "keeps (sm_le p q) (sm_run_llm_tts_transport io sched transcript sem)"
proof -
  have "keeps (sm_le p False) (upd (\<lambda>s. s\<lparr> sm_tq := None, sm_aq := None \<rparr>))"
    by (intro smo.keeps_upd sm_le_same) (simp_all add: sm_ok_def)
  then have "keeps (sm_le p False) (sm_run_llm_tts_transport io sched transcript sem)"
    unfolding sm_run_llm_tts_transport_def by (intro keeps_intro)
  with run_response_quiet show ?thesis by (auto simp: keeps_def sm_le_def)
qed

end
