(* ===== verification/Call.thy ===== *)
theory Call
  imports Response
begin

text \<open>
  The life of a call (\<open>apps/api/pipeline/stream_module.py\<close>): \<open>_handle_audio\<close>,
  \<open>_finalize_turn\<close>, \<open>_process_turn\<close>, the message loop of \<open>run\<close>, the failure and the
  end of the call, and the messages of the browser connection
  (\<open>apps/api/websocket_transport.py\<close>).

  The browser is the list of messages it sends; the connection ends with the list. \<open>sch\<close>
  gives each response the schedule of its tasks.
\<close>

type_synonym schedules = "nat \<Rightarrow> which list"

subsection \<open>Turns\<close>

definition user_message :: "string \<Rightarrow> string \<Rightarrow> semantic option \<Rightarrow> dict" where
  "user_message turn transcript sem =
     [(''role'', PStr ''user''), (''turn_id'', PStr turn), (''content'', PStr transcript),
      (''semantic'', opt_str (map_option semantic_value sem))]"

definition backchannel_message :: "string \<Rightarrow> string \<Rightarrow> semantic \<Rightarrow> dict" where
  "backchannel_message turn transcript sem =
     [(''role'', PStr ''user''), (''turn_id'', PStr turn), (''content'', PStr transcript),
      (''semantic'', PStr (semantic_value sem)), (''handled_as'', PStr ''backchannel_ignored'')]"

definition sm_accept_turn :: "io \<Rightarrow> schedules \<Rightarrow> string \<Rightarrow> string \<Rightarrow> semantic option \<Rightarrow> unit sm" where
  "sm_accept_turn io sch turn transcript sem =
     doall
      [ sm_record_turn_outcome turn,
        upd_ps (\<lambda>p. p\<lparr> ps_transcript := transcript \<rparr>),
        ask (\<lambda>s. sm_send io ''transcript.final''
          [(''call_id'', PStr (sm_call s)), (''turn_id'', PStr turn), (''text'', PStr transcript)]),
        upd (\<lambda>s. s\<lparr> sm_conv := sm_conv s @ [user_message turn transcript sem] \<rparr>),
        ask (\<lambda>s. sm_run_llm_tts_transport io (sch (sm_tick s)) transcript sem),
        act_when (sem \<noteq> None) (upd (\<lambda>s. s\<lparr> sm_last_int := None \<rparr>)) ]"

definition sm_process_turn_locked :: "io \<Rightarrow> schedules \<Rightarrow> string \<Rightarrow> unit sm" where
  "sm_process_turn_locked io sch turn =
     act_bind (upd_ps (\<lambda>p. p\<lparr> ps_turn_id := turn \<rparr>)) (\<lambda>_.
     act_bind (sm_run_stt io turn) (\<lambda>transcript.
     ask (\<lambda>s. case noise_turn_reason turn transcript s of
        Some reason \<Rightarrow>
          act_bind (sm_resolve_semantics io turn transcript True) (\<lambda>_.
          doall [ upd (\<lambda>s. s\<lparr> sm_last_int := None \<rparr>), sm_ignore_noise_turn io turn reason ])
      | None \<Rightarrow>
          act_bind (sm_resolve_semantics io turn transcript False) (\<lambda>sem0.
          (let sem = (case sem0 of None \<Rightarrow> semantic_for_short_turn transcript | Some k \<Rightarrow> Some k) in
           (if sem = Some BACKCHANNEL \<and> cg_backchannel_policy (st_barge (sm_cfg s)) \<noteq> ''high''
            then upd (\<lambda>s. s\<lparr> sm_conv := sm_conv s @ [backchannel_message turn transcript BACKCHANNEL],
                            sm_last_int := None \<rparr>)
            else sm_accept_turn io sch turn transcript sem))))))"

definition sm_process_turn :: "io \<Rightarrow> schedules \<Rightarrow> string \<Rightarrow> unit sm" where
  "sm_process_turn io sch turn =
     act_bind (upd (\<lambda>s. s\<lparr> sm_locked := True \<rparr>)) (\<lambda>_.
       act_finally (sm_process_turn_locked io sch turn) (upd (\<lambda>s. s\<lparr> sm_locked := False \<rparr>)))"

definition note_turn_end :: "string \<Rightarrow> sess \<Rightarrow> sess" where
  "note_turn_end turn s =
     s\<lparr> sm_stats := (if map_of (sm_stats s) turn = None
                     then dict_set (sm_stats s) turn (current_turn_stats s) else sm_stats s),
        sm_has_audio := False, sm_audio_bytes := 0 \<rparr>"

definition sm_finalize_turn :: "io \<Rightarrow> schedules \<Rightarrow> unit sm" where
  "sm_finalize_turn io sch =
     ask (\<lambda>s.
       (if \<not> sm_has_audio s \<or> sm_locked s then act_ret ()
        else (let turn = ps_turn_id (sm_ps s)
              in doall [ upd (note_turn_end turn), sm_process_turn io sch turn ])))"

subsection \<open>Audio frames\<close>

definition stats_dict :: "turn_update \<Rightarrow> dict" where
  "stats_dict u =
     [(''speech_duration_ms'', PFloat (tu_speech_ms u)), (''total_duration_ms'', PFloat (tu_total_ms u)),
      (''speech_frame_ratio'', PFloat (tu_ratio u))]"

text \<open>The first speech of a turn: a new turn id, and the frames held back while it was starting.\<close>

definition sm_begin_turn :: "io \<Rightarrow> audio_frame \<Rightarrow> turn_update \<Rightarrow> unit sm" where
  "sm_begin_turn io f u =
     act_bind (sm_uuid io) (\<lambda>turn.
     doall
      [ upd (\<lambda>s. s\<lparr> sm_ps := (sm_ps s)\<lparr> ps_turn_id := turn \<rparr>, sm_has_audio := False, sm_audio_bytes := 0,
                    sm_pending := (if f \<in> set (sm_pending s) then sm_pending s else sm_pending s @ [f]) \<rparr>),
        ask (\<lambda>s. act_for (sm_pending s) (sm_append_turn_audio io)),
        upd (\<lambda>s. s\<lparr> sm_pending := [] \<rparr>),
        ask (\<lambda>s. sm_emit io VAD_SPEECH_STARTED ''vad''
          [(''provider'', PStr (vad_name (sm_vad s))), (''state'', PStr (vad_state_value (tu_state u))),
           (''speech_duration_ms'', PFloat (tu_speech_ms u)), (''speech_frame_ratio'', PFloat (tu_ratio u))]) ])"

definition sm_end_of_speech :: "io \<Rightarrow> schedules \<Rightarrow> turn_update \<Rightarrow> unit sm" where
  "sm_end_of_speech io sch u =
     doall
      [ upd (\<lambda>s. s\<lparr> sm_stats := dict_set (sm_stats s) (ps_turn_id (sm_ps s))
                      \<lparr> ts_speech_ms = tu_speech_ms u, ts_total_ms = tu_total_ms u, ts_ratio = tu_ratio u \<rparr> \<rparr>),
        ask (\<lambda>s. sm_emit io VAD_SPEECH_ENDED ''vad''
          ([(''provider'', PStr (vad_name (sm_vad s))), (''state'', PStr (vad_state_value (tu_state u)))] @ stats_dict u)),
        sm_finalize_turn io sch ]"

definition sm_vad_failed :: "io \<Rightarrow> exn \<Rightarrow> vad_result sm" where
  "sm_vad_failed io e =
     act_bind (ask (\<lambda>s. sm_emit io VAD_PROVIDER_FAILED ''vad''
       [(''provider'', PStr (vad_name (sm_vad s))), (''error'', PStr (io_exn_name io e))]))
       (\<lambda>_. act_raise e)"

definition sm_handle_audio :: "io \<Rightarrow> schedules \<Rightarrow> audio_frame \<Rightarrow> unit sm" where
  "sm_handle_audio io sch f =
     (if fr_sample_rate f = 0 then act_raise ZeroDivisionError
      else
        act_bind (act_try (sm_detect io f) (sm_vad_failed io)) (\<lambda>r.
        act_bind (act_step (\<lambda>s. case td_update r (sm_td s) of (d, u) \<Rightarrow>
          (u, s\<lparr> sm_td := d, sm_ps := (sm_ps s)\<lparr> ps_vad := vad_state_dict r u \<rparr> \<rparr>))) (\<lambda>u.
        doall
         [ act_when (tu_state_changed u)
             (ask (\<lambda>s. sm_emit io VAD_STATE_CHANGED ''vad''
               [(''provider'', PStr (vad_name (sm_vad s))),
                (''from_state'', PStr (vad_state_value (tu_previous u))),
                (''to_state'', PStr (vad_state_value (tu_state u))), (''speech'', PBool (vr_speech r))])),
           act_when (tu_state u = QUIET \<and> \<not> tu_ended u)
             (doall [ upd (\<lambda>s. s\<lparr> sm_pending := [] \<rparr>), sm_maybe_reject_candidate io ''noise_spike'' ]),
           act_when (tu_state u = STARTING) (upd (\<lambda>s. s\<lparr> sm_pending := sm_pending s @ [f] \<rparr>)),
           (if tu_started u then sm_begin_turn io f u
            else act_when (tu_collect_audio u \<and> tu_state u \<noteq> STARTING) (sm_append_turn_audio io f)),
           ask (\<lambda>s. act_when (\<not> str_falsy (ps_active_response_id (sm_ps s)) \<and> tu_state u \<in> {SPEAKING, STOPPING})
             (sm_confirm_barge_in_from_vad io u)),
           act_when (tu_ended u) (sm_end_of_speech io sch u) ])))"

subsection \<open>The browser connection\<close>

text \<open>
  What arrives on the socket, and what \<open>receive_messages\<close> makes of it. The sample rate and
  the channel count are those of the last \<open>audio.config\<close> message.
\<close>

datatype ws_message = WsDisconnect | WsBytes bytes | WsText string | WsOther

datatype inbound = InAudio audio_frame | InJson dict

definition ws_decode ::
  "io \<Rightarrow> (string \<Rightarrow> pyv res) \<Rightarrow> ws_message \<Rightarrow> int \<times> int \<Rightarrow> (inbound option \<times> int \<times> int) res" where
  "ws_decode io json_loads m cfg =
     (case m of
        WsBytes b \<Rightarrow> Inr (Some (InAudio \<lparr> fr_data = b, fr_sample_rate = fst cfg, fr_channels = snd cfg \<rparr>), cfg)
      | WsText t \<Rightarrow>
          (if t = [] then Inr (None, cfg)
           else bindE (json_loads t) (\<lambda>v.
             (case v of
                PDict d \<Rightarrow>
                  (if dict_get d ''type'' = PStr ''audio.config'' then
                     bindE (py_int (io_parse_int io) (dict_get_or d ''sample_rate'' (PInt 16000))) (\<lambda>rate.
                     bindE (py_int (io_parse_int io) (dict_get_or d ''channels'' (PInt 1))) (\<lambda>ch.
                       Inr (Some (InJson d), rate, ch)))
                   else Inr (Some (InJson d), cfg))
              | _ \<Rightarrow> Inl (AttributeError ''get''))))
      | _ \<Rightarrow> Inr (None, cfg))"

subsection \<open>The message loop\<close>

definition msg_is :: "dict \<Rightarrow> string \<Rightarrow> bool" where
  "msg_is m ty \<longleftrightarrow> dict_get m ''type'' = PStr ty"

text \<open>One message; the result tells whether the loop goes on.\<close>

definition sm_dispatch :: "io \<Rightarrow> schedules \<Rightarrow> inbound \<Rightarrow> bool sm" where
  "sm_dispatch io sch msg =
     (case msg of
        InAudio f \<Rightarrow> act_bind (sm_handle_audio io sch f) (\<lambda>_. act_ret True)
      | InJson m \<Rightarrow>
          (if msg_is m ''audio.end_turn'' then act_bind (sm_finalize_turn io sch) (\<lambda>_. act_ret True)
           else if msg_is m ''client.ping'' then act_bind (sm_send io ''client.pong'' []) (\<lambda>_. act_ret True)
           else if msg_is m ''client.barge_in_candidate''
             then act_bind (sm_handle_barge_in_candidate io m) (\<lambda>_. act_ret True)
           else if msg_is m ''playback.progress'' then act_bind (sm_handle_playback_progress io m) (\<lambda>_. act_ret True)
           else if msg_is m ''playback.done'' then act_bind (sm_handle_playback_done io m) (\<lambda>_. act_ret True)
           else if msg_is m ''call.end'' then act_ret False
           else act_ret True))"

fun sm_messages ::
  "io \<Rightarrow> (string \<Rightarrow> pyv res) \<Rightarrow> schedules \<Rightarrow> ws_message list \<Rightarrow> int \<times> int \<Rightarrow> unit sm" where
  "sm_messages io json_loads sch [] cfg = act_ret ()"
| "sm_messages io json_loads sch (WsDisconnect # ms) cfg = act_ret ()"
| "sm_messages io json_loads sch (m # ms) cfg =
     act_bind (act_lift (ws_decode io json_loads m cfg)) (\<lambda>(out, cfg').
       (case out of
          None \<Rightarrow> sm_messages io json_loads sch ms cfg'
        | Some msg \<Rightarrow> act_bind (sm_dispatch io sch msg) (\<lambda>go.
            (if go then sm_messages io json_loads sch ms cfg' else act_ret ()))))"

definition call_started_payload :: "sess \<Rightarrow> dict" where
  "call_started_payload s =
     (let n = sm_names s in
      [(''providers'', PDict [(''stt'', PStr (pn_stt n)), (''llm'', PStr (pn_llm n)), (''tts'', PStr (pn_tts n))]),
       (''models'', PDict [(''stt'', PStr (pn_stt_model n)), (''llm'', PStr (pn_llm_model n)), (''tts'', PStr (pn_tts_model n))]),
       (''agent'', PDict [(''id'', PStr (sm_agent s)), (''name'', dict_get (sm_snapshot s) ''name'')])])"

definition sm_open_stt :: "io \<Rightarrow> unit sm" where
  "sm_open_stt io s = (case io_open_stt io of Some e \<Rightarrow> (Inl e, s) | None \<Rightarrow> (Inr (), s\<lparr> sm_stt := True \<rparr>))"

definition sm_fail_call :: "io \<Rightarrow> string \<Rightarrow> unit sm" where
  "sm_fail_call io err =
     doall
      [ upd (\<lambda>s. s\<lparr> sm_failed := True \<rparr>),
        ask (\<lambda>s. sm_emit_turn io CALL_FAILED (ps_current_stage (sm_ps s)) (Some ''session'') [(''error'', PStr err)]),
        sm_safe_send io ''error'' [(''message'', PStr err)] ]"

definition sm_end_call :: "io \<Rightarrow> unit sm" where
  "sm_end_call io =
     ask (\<lambda>s.
       (if sm_closed s then act_ret ()
        else
          act_bind (upd (\<lambda>s. s\<lparr> sm_closed := True \<rparr>)) (\<lambda>_.
            (if sm_failed s then act_ret ()
             else doall
               [ ask (\<lambda>s. sm_emit_turn io USAGE_FINALIZATION_BARRIER ''billing'' (Some ''session'') (usage_manifest_payload s)),
                 act_bind (sm_now io) (\<lambda>now. ask (\<lambda>s. sm_emit_turn io CALL_ENDED ''transport'' (Some ''session'')
                   [(''final_response'', PStr (ps_response (sm_ps s))),
                    (''duration_seconds'', PFloat (now - sm_started_at s))])),
                 ask (\<lambda>s. sm_safe_send io ''call.ended'' [(''call_id'', PStr (sm_call s))]) ]))))"

definition sm_conversation ::
  "io \<Rightarrow> (string \<Rightarrow> pyv res) \<Rightarrow> schedules \<Rightarrow> ws_message list \<Rightarrow> unit sm" where
  "sm_conversation io json_loads sch ms =
     doall
      [ sm_open_stt io,
        ask (\<lambda>s. sm_emit_turn io CALL_STARTED ''transport'' (Some ''session'') (call_started_payload s)),
        ask (\<lambda>s. sm_send io ''call.started'' [(''call_id'', PStr (sm_call s))]),
        sm_messages io json_loads sch ms (16000, 1) ]"

text \<open>\<open>run\<close>, after the connection was accepted.\<close>

definition sm_run :: "io \<Rightarrow> (string \<Rightarrow> pyv res) \<Rightarrow> schedules \<Rightarrow> ws_message list \<Rightarrow> unit sm" where
  "sm_run io json_loads sch ms =
     act_finally
       (act_try (sm_conversation io json_loads sch ms)
          (\<lambda>e. if e = WebSocketDisconnect then act_ret () else act_suppress (sm_fail_call io (io_exn_str io e))))
       (sm_end_call io)"

subsection \<open>Laws\<close>

lemma keeps_last_int [keeps_intro]: "keeps (sm_le p q) (upd (\<lambda>s. s\<lparr> sm_last_int := None \<rparr>))"
  by (intro smo.keeps_upd sm_le_same) (simp_all add: sm_ok_def no_live_queues_def)

lemma keeps_conv: "keeps (sm_le p q) (upd (\<lambda>s. s\<lparr> sm_conv := sm_conv s @ xs \<rparr>))"
  by (intro smo.keeps_upd sm_le_same) (simp_all add: sm_ok_def no_live_queues_def)

lemma keeps_accept_turn [keeps_intro]: "keeps (sm_le p q) (sm_accept_turn io sch turn t sem)"
proof -
  have "keeps (sm_le p q) (upd_ps (\<lambda>p. p\<lparr> ps_transcript := t \<rparr>))" by (intro keeps_upd_ps) simp_all
  then show ?thesis unfolding sm_accept_turn_def by (intro keeps_intro keeps_conv)
qed

lemma keeps_process_locked [keeps_intro]: "keeps (sm_le p q) (sm_process_turn_locked io sch turn)"
proof -
  have "keeps (sm_le p q) (upd_ps (\<lambda>p. p\<lparr> ps_turn_id := turn \<rparr>))" by (intro keeps_upd_ps) simp_all
  moreover have "keeps (sm_le p q) (upd (\<lambda>s. s\<lparr> sm_conv := sm_conv s @ xs, sm_last_int := None \<rparr>))" for xs
    by (intro smo.keeps_upd sm_le_same) (simp_all add: sm_ok_def no_live_queues_def)
  ultimately show ?thesis unfolding sm_process_turn_locked_def Let_def by (intro keeps_intro)
qed

lemma keeps_process [keeps_intro]: "keeps (sm_le p q) (sm_process_turn io sch turn)"
proof -
  have "keeps (sm_le p q) (upd (\<lambda>s. s\<lparr> sm_locked := b \<rparr>))" for b
    by (intro smo.keeps_upd sm_le_same) (simp_all add: sm_ok_def no_live_queues_def)
  then show ?thesis unfolding sm_process_turn_def by (intro keeps_intro)
qed

lemma keeps_finalize [keeps_intro]: "keeps (sm_le p q) (sm_finalize_turn io sch)"
proof -
  have "keeps (sm_le p q) (upd (note_turn_end turn))" for turn
    by (intro smo.keeps_upd sm_le_same) (simp_all add: note_turn_end_def sm_ok_def no_live_queues_def)
  then show ?thesis unfolding sm_finalize_turn_def Let_def by (intro keeps_intro)
qed

lemma keeps_pending [keeps_intro]: "keeps (sm_le p q) (upd (\<lambda>s. s\<lparr> sm_pending := f s \<rparr>))"
  by (intro smo.keeps_upd sm_le_same) (simp_all add: sm_ok_def no_live_queues_def)

lemma keeps_begin_turn [keeps_intro]: "keeps (sm_le p q) (sm_begin_turn io f u)"
proof -
  have "keeps (sm_le p q) (upd (\<lambda>s. s\<lparr> sm_ps := (sm_ps s)\<lparr> ps_turn_id := turn \<rparr>, sm_has_audio := False,
          sm_audio_bytes := 0, sm_pending := (if f \<in> set (sm_pending s) then sm_pending s else sm_pending s @ [f]) \<rparr>))" for turn
    by (intro smo.keeps_upd sm_le_same) (simp_all add: sm_ok_def no_live_queues_def)
  then show ?thesis unfolding sm_begin_turn_def by (intro keeps_intro)
qed

lemma keeps_end_of_speech [keeps_intro]: "keeps (sm_le p q) (sm_end_of_speech io sch u)"
proof -
  have "keeps (sm_le p q) (upd (\<lambda>s. s\<lparr> sm_stats := f s \<rparr>))" for f
    by (intro smo.keeps_upd sm_le_same) (simp_all add: sm_ok_def no_live_queues_def)
  then show ?thesis unfolding sm_end_of_speech_def by (intro keeps_intro)
qed

lemma keeps_vad_failed [keeps_intro]: "keeps (sm_le p q) (sm_vad_failed io e)"
  unfolding sm_vad_failed_def by (intro keeps_intro)

lemma keeps_handle_audio [keeps_intro]: "keeps (sm_le p q) (sm_handle_audio io sch f)"
proof -
  have "keeps (sm_le p q) (act_step (\<lambda>s. case td_update r (sm_td s) of (d, u) \<Rightarrow>
          (u, s\<lparr> sm_td := d, sm_ps := (sm_ps s)\<lparr> ps_vad := vad_state_dict r u \<rparr> \<rparr>)))" for r
    by (intro smo.keeps_step sm_le_same) (simp_all add: sm_ok_def no_live_queues_def case_prod_beta)
  then show ?thesis unfolding sm_handle_audio_def by (intro keeps_intro)
qed

lemma keeps_dispatch [keeps_intro]: "keeps (sm_le p q) (sm_dispatch io sch msg)"
  unfolding sm_dispatch_def by (auto split: inbound.split intro!: keeps_intro)

lemma keeps_messages [keeps_intro]: "keeps (sm_le p q) (sm_messages io js sch ms cfg)"
  by (induction io js sch ms cfg rule: sm_messages.induct) (auto intro!: keeps_intro)

lemma keeps_fail_call [keeps_intro]: "keeps (sm_le False q) (sm_fail_call io err)"
proof -
  have "keeps (sm_le False q) (upd (\<lambda>s. s\<lparr> sm_failed := True \<rparr>))"
    by (intro smo.keeps_upd sm_le_same) (simp_all add: sm_ok_def no_live_queues_def)
  then show ?thesis unfolding sm_fail_call_def by (intro keeps_intro)
qed

lemma keeps_end_call [keeps_intro]: "keeps (sm_le False q) (sm_end_call io)"
proof -
  have "keeps (sm_le False q) (upd (\<lambda>s. s\<lparr> sm_closed := True \<rparr>))"
    by (intro smo.keeps_upd sm_le_same) (simp_all add: sm_ok_def no_live_queues_def)
  then show ?thesis unfolding sm_end_call_def by (intro keeps_intro)
qed

lemma keeps_conversation [keeps_intro]: "keeps (sm_le p q) (sm_conversation io js sch ms)"
proof -
  have "keeps (sm_le p q) (sm_open_stt io)"
    by (intro keepsI sm_le_same) (simp_all add: sm_open_stt_def sm_ok_def no_live_queues_def split: option.split)
  then show ?thesis unfolding sm_conversation_def by (intro keeps_intro)
qed

lemma keeps_run [keeps_intro]: "keeps (sm_le False q) (sm_run io js sch ms)"
  unfolding sm_run_def by (intro keeps_intro)

lemma pe_default_key_inj:
  "pe_default_key c1 t1 e1 n1 = pe_default_key c2 t2 e2 n2 \<Longrightarrow> n1 = n2"
proof -
  assume "pe_default_key c1 t1 e1 n1 = pe_default_key c2 t2 e2 n2"
  then have "(c1 @ CHR '':'' # t1 @ CHR '':'' # event_value e1) @ CHR '':'' # int_str n1
      = (c2 @ CHR '':'' # t2 @ CHR '':'' # event_value e2) @ CHR '':'' # int_str n2"
    by (simp only: pe_default_key_def append_assoc append_Cons append_Nil)
  from append_sep_tail_inj [OF this int_str_no_colon int_str_no_colon] show ?thesis
    by (simp add: int_str_inj)
qed

lemma events_between_keys:
  assumes "events_between call m n es"
  shows "distinct (map pe_key es)"
proof -
  have sw: "sorted_wrt (<) (map pe_seq es)"
    and own: "\<And>e. e \<in> set es \<Longrightarrow> own_event call e" using assms by (auto simp: events_between_def)
  have inj: "inj_on pe_key (set es)"
  proof (rule inj_onI)
    fix a b assume ab: "a \<in> set es" "b \<in> set es" "pe_key a = pe_key b"
    then have "pe_seq a = pe_seq b" using own pe_default_key_inj by (metis own_event_def)
    moreover have "inj_on pe_seq (set es)" using sw strict_sorted_iff by (metis distinct_map)
    ultimately show "a = b" using ab by (metis inj_onD)
  qed
  have "distinct es" using sw strict_sorted_iff by (metis distinct_map)
  with inj show ?thesis by (simp add: distinct_map)
qed

lemma sm_new_start:
  assumes "sm_new installed now call cfg names org agent snap = Inr s"
  shows "sm_events s = []" "ps_sequence (sm_ps s) = 0" "sm_call s = call" "sm_cfg s = cfg"
    "no_live_queues s" "\<not> sm_closed s" "\<not> sm_failed s" "sm_out s = []"
    "settings_load cfg = Inr cfg \<Longrightarrow> sm_ok s" "sm_bi s = bi_new call (of_int (cg_candidate_retention_ms (st_barge cfg)))"
    "ps_turn_id (sm_ps s) = ''session''"
  using assms
  by (auto simp: sm_new_def bindE_eq_Inr ps_new_def no_live_queues_def sm_ok_def rc_new_def)

lemma sm_emit_turn_ok:
  assumes "\<And>e. io_publish io e = None" "sm_call s \<noteq> []" "turn \<noteq> []" "stage \<noteq> []" "0 \<le> ps_sequence (sm_ps s)"
  obtains t ev where "sm_emit_turn io et stage (Some turn) d s = (Inr (), t)" "sm_events t = sm_events s @ [ev]"
    "pe_event_type ev = et" "sm_call t = sm_call s" "sm_closed t = sm_closed s" "sm_failed t = sm_failed s"
    "0 \<le> ps_sequence (sm_ps t)"
proof -
  let ?n = "ps_sequence (sm_ps s) + 1"
  let ?s1 = "s\<lparr> sm_ps := (sm_ps s)\<lparr> ps_sequence := ?n \<rparr>, sm_tick := Suc (sm_tick s) \<rparr>"
  obtain ev where ev: "sm_publish io et stage (Some turn) d s = (Inr ev, ?s1\<lparr> sm_events := sm_events s @ [ev] \<rparr>)"
    "pe_event_type ev = et"
    using assms by (simp add: sm_publish_def Let_def pe_create_def pe_valid_def or_default_def pe_default_key_def)
  let ?s2 = "?s1\<lparr> sm_events := sm_events s @ [ev] \<rparr>"
  have "\<exists>t. sm_safe_send io ty p ?s2 = (Inr (), t) \<and> sm_events t = sm_events ?s2 \<and> sm_call t = sm_call s
      \<and> sm_closed t = sm_closed s \<and> sm_failed t = sm_failed s \<and> sm_ps t = sm_ps ?s2" for ty p
    by (simp add: sm_safe_send_def sm_send_def sm_transmit_def act_defs split: option.split)
  then show thesis
    using ev that assms(5) by (simp add: sm_emit_turn_def act_bind_def ask_def) fastforce
qed

lemma sm_emit_ok:
  assumes "\<And>e. io_publish io e = None" "sm_call s \<noteq> []" "ps_turn_id (sm_ps s) \<noteq> []" "stage \<noteq> []"
    "0 \<le> ps_sequence (sm_ps s)" "map_of (rev d) k = Some v"
  obtains t ev where "sm_emit io et stage d s = (Inr (), t)" "sm_events t = sm_events s @ [ev]"
    "pe_event_type ev = et" "dict_get (pe_payload ev) k = v"
proof -
  let ?n = "ps_sequence (sm_ps s) + 1"
  let ?s1 = "s\<lparr> sm_ps := (sm_ps s)\<lparr> ps_sequence := ?n \<rparr>, sm_tick := Suc (sm_tick s) \<rparr>"
  obtain ev where ev: "sm_publish io et stage None d s = (Inr ev, ?s1\<lparr> sm_events := sm_events s @ [ev] \<rparr>)"
    "pe_event_type ev = et" "dict_get (pe_payload ev) k = v"
    using assms by (simp add: sm_publish_def Let_def pe_create_def pe_valid_def or_default_def pe_default_key_def
        dict_get_def map_of_dict_merge)
  let ?s2 = "?s1\<lparr> sm_events := sm_events s @ [ev] \<rparr>"
  have "\<exists>t. sm_safe_send io ty p ?s2 = (Inr (), t) \<and> sm_events t = sm_events ?s2" for ty p
    by (simp add: sm_safe_send_def sm_send_def sm_transmit_def act_defs split: option.split)
  then show thesis
    using ev that by (simp add: sm_emit_def sm_emit_turn_def act_bind_def ask_def) fastforce
qed

subsection \<open>A concrete call\<close>

definition io_demo :: io where
  "io_demo =
     \<lparr> io_uuid = (\<lambda>n. CHR ''u'' # nat_str n), io_now = of_nat, io_wall = of_nat, io_iso = (\<lambda>_. ''2026-01-01T00:00:00Z''),
       io_trace = (\<lambda>_. None), io_publish = (\<lambda>_. None), io_send = (\<lambda>_. None), io_sqrt = id,
       io_is_speech = (\<lambda>_ _. False), io_open_stt = None, io_stt_append = (\<lambda>_. None),
       io_stt_commit = (\<lambda>_. Inr \<lparr> sr_transcript = ''book a table'', sr_item_id = ''item-1'', sr_audio_seconds = 1 \<rparr>),
       io_llm = (\<lambda>_ _ _. ([''Sure.''], None)), io_llm_usage = (\<lambda>_. \<lparr> us_input = 10, us_cached = 0, us_output = 2 \<rparr>),
       io_tts = (\<lambda>_ _. ([replicate 480 0], None)),
       io_tts_usage = (\<lambda>_. \<lparr> su_input_text = ''Sure.'', su_bytes = 480, su_seconds = 1/100 \<rparr>),
       io_exn_str = (\<lambda>_. ''error''), io_exn_name = (\<lambda>_. ''Error''), io_rep = (\<lambda>_. ''value''),
       io_parse_int = (\<lambda>_. None), io_parse_float = (\<lambda>_. None) \<rparr>"

definition names_demo :: providers where
  "names_demo = \<lparr> pn_stt = ''openai'', pn_stt_model = ''m1'', pn_llm = ''openai'', pn_llm_model = ''m2'',
                  pn_tts = ''openai'', pn_tts_model = ''m3'' \<rparr>"

definition sess_demo :: sess where
  "sess_demo = (case sm_new True 0 ''call-1'' default_settings names_demo None None [] of Inr s \<Rightarrow> s | Inl e \<Rightarrow> undefined)"

lemma sess_demo_new: "sm_new True 0 ''call-1'' default_settings names_demo None None [] = Inr sess_demo"
proof -
  have "\<exists>s. sm_new True 0 ''call-1'' default_settings names_demo None None [] = Inr s"
    by (simp add: sm_new_def create_vad_provider_def default_settings_def default_vad_def wv_new_def Let_def)
  then show ?thesis by (auto simp: sess_demo_def)
qed

subsection \<open>Properties\<close>

text \<open>C21: Whatever the browser sends and however its providers, its connection and its tasks behave, the
events a call publishes belong to that call, carry strictly increasing sequence numbers from 1, and have
pairwise different idempotency keys.\<close>

theorem sm_run_events:
  assumes "sm_new installed now call cfg names org agent snap = Inr s"
  shows "let es = sm_events (snd (sm_run io js sch ms s))
         in sorted_wrt (<) (map pe_seq es) \<and> distinct (map pe_key es) \<and> list_all (\<lambda>e. 1 \<le> pe_seq e \<and> pe_call_id e = call) es"
proof -
  have "sm_le False False s (snd (sm_run io js sch ms s))" by (rule keepsD_snd [OF keeps_run])
  then have "events_between call 0 (ps_sequence (sm_ps (snd (sm_run io js sch ms s)))) (sm_events (snd (sm_run io js sch ms s)))"
    using sm_new_start [OF assms] by (auto simp: sm_le_def)
  with events_between_keys [OF this] show ?thesis
    by (auto simp: events_between_def own_event_def Let_def list_all_iff)
qed

lemma sm_run_events_witness:
  "distinct (map pe_key (sm_events (snd (sm_run io_demo (\<lambda>_. Inr PNone) (\<lambda>_. []) [WsDisconnect] sess_demo))))"
  using sm_run_events [OF sess_demo_new, of io_demo "\<lambda>_. Inr PNone" "\<lambda>_. []" "[WsDisconnect]"] by (simp add: Let_def)

text \<open>C2: Once a response is cancelled it stays cancelled, is never the active response again, and not one
more byte of its audio is sent to the browser, neither by the tasks of the running response under any
schedule nor while any later messages are handled.\<close>

theorem cancelled_response_is_silent:
  assumes "rc_is_cancelled r (sm_rc s)"
    and "t = snd (run_tasks io sched k s) \<or> t = snd (sm_messages io js sch ms cfg s)"
  shows "rc_is_cancelled r (sm_rc t) \<and> \<not> rc_is_active r turn (sm_rc t) \<and> audio_of r (sm_out t) = audio_of r (sm_out s)"
proof -
  have "sm_le False False s t"
    using assms(2) keepsD_snd [OF keeps_run_tasks, of False False s io sched k]
      keepsD_snd [OF keeps_messages, of False False s io js sch ms cfg] by auto
  then show ?thesis using assms(1) by (auto simp: sm_le_def rc_is_active_def)
qed

definition cancelled_demo :: sess where
  "cancelled_demo = sess_demo\<lparr> sm_rc := \<lparr> rc_active = None, rc_turns = [(''r1'', ''t1'')], rc_cancelled = [(''r1'', ''test'')] \<rparr> \<rparr>"

lemma cancelled_response_is_silent_witness:
  "rc_is_cancelled ''r1'' (sm_rc cancelled_demo)
   \<and> audio_of ''r1'' (sm_out (snd (sm_messages io_demo (\<lambda>_. Inr PNone) (\<lambda>_. []) [WsBytes (replicate 640 0)] (16000, 1) cancelled_demo))) = []"
proof -
  have c: "rc_is_cancelled ''r1'' (sm_rc cancelled_demo)" by (simp add: cancelled_demo_def rc_is_cancelled_def)
  have "sm_out cancelled_demo = []" using sm_new_start [OF sess_demo_new] by (simp add: cancelled_demo_def)
  with cancelled_response_is_silent [OF c disjI2 [OF refl], of io_demo "\<lambda>_. Inr PNone" "\<lambda>_. []" "[WsBytes (replicate 640 0)]" "(16000, 1)"] c
  show ?thesis by simp
qed

text \<open>C22: With validated settings, after any messages of a call the pipeline state names exactly the
controller's active response, no queue of a response is left behind, the barge-in coordinator has only made
its own steps, and the recorded interruption is sound: its spoken text is a prefix of the generated text, no
longer than the played share of it, and that share lies between 0 and 1.\<close>

theorem sm_call_safe:
  assumes "sm_new installed now call cfg names org agent snap = Inr s" and "settings_load cfg = Inr cfg"
    and "t = snd (sm_messages io js sch ms frate s)"
  shows "ps_active_response_id (sm_ps t) = rc_active (sm_rc t) \<and> sm_tq t = None \<and> sm_aq t = None
       \<and> reachable bi_start bi_step (sm_bi t)
       \<and> (case sm_last_int t of None \<Rightarrow> True | Some i \<Rightarrow>
            0 \<le> it_ratio i \<and> it_ratio i \<le> 1 \<and> prefix (it_spoken_text i) (it_generated_text i)
            \<and> of_nat (length (it_spoken_text i)) \<le> of_nat (length (it_generated_text i)) * it_ratio i)"
proof -
  have le: "sm_le False True s t" unfolding assms(3) by (rule keepsD_snd [OF keeps_messages])
  have "reachable bi_start bi_step (sm_bi s)"
    using sm_new_start(10) [OF assms(1)] by (intro reachable_init) (auto simp: bi_start_def)
  then have "reachable bi_start bi_step (sm_bi t)" using le by (auto simp: sm_le_def intro: reachable_run)
  moreover have "sm_ok t" "no_live_queues t"
    using le sm_new_start(5,9) [OF assms(1)] assms(2) by (auto simp: sm_le_def)
  ultimately show ?thesis
    by (auto simp: sm_ok_def no_live_queues_def it_sound_def split: option.split)
qed

lemma sm_call_safe_witness:
  "sm_tq (snd (sm_messages io_demo (\<lambda>_. Inr PNone) (\<lambda>_. []) [WsBytes (replicate 640 0)] (16000, 1) sess_demo)) = None"
  using sm_call_safe [OF sess_demo_new default_settings_load refl] by blast

lemma sm_end_call_ok:
  assumes "\<And>e. io_publish io e = None" "sm_call s \<noteq> []" "0 \<le> ps_sequence (sm_ps s)" "\<not> sm_closed s"
  shows "sm_closed (snd (sm_end_call io s)) \<and> sm_failed (snd (sm_end_call io s)) = sm_failed s
       \<and> (if sm_failed s then sm_events (snd (sm_end_call io s)) = sm_events s
          else \<exists>b e. sm_events (snd (sm_end_call io s)) = sm_events s @ [b, e]
                 \<and> pe_event_type b = USAGE_FINALIZATION_BARRIER \<and> pe_event_type e = CALL_ENDED)"
proof (cases "sm_failed s")
  case True
  then show ?thesis using assms(4) by (simp add: sm_end_call_def act_defs)
next
  case False
  let ?s0 = "s\<lparr> sm_closed := True \<rparr>"
  obtain s1 b where 1: "sm_emit_turn io USAGE_FINALIZATION_BARRIER ''billing'' (Some ''session'') (usage_manifest_payload ?s0) ?s0 = (Inr (), s1)"
    "sm_events s1 = sm_events ?s0 @ [b]" "pe_event_type b = USAGE_FINALIZATION_BARRIER" "sm_call s1 = sm_call ?s0"
    "sm_closed s1 = sm_closed ?s0" "sm_failed s1 = sm_failed ?s0" "0 \<le> ps_sequence (sm_ps s1)"
    by (rule sm_emit_turn_ok [of io ?s0 "''session''" "''billing''"]) (use assms in auto)
  let ?s1 = "s1\<lparr> sm_tick := Suc (sm_tick s1) \<rparr>"
  obtain s2 e where 2: "sm_emit_turn io CALL_ENDED ''transport'' (Some ''session'')
      [(''final_response'', PStr (ps_response (sm_ps s1))), (''duration_seconds'', PFloat (io_now io (sm_tick s1) - sm_started_at s1))] ?s1 = (Inr (), s2)"
    "sm_events s2 = sm_events ?s1 @ [e]" "pe_event_type e = CALL_ENDED"
    "sm_closed s2 = sm_closed ?s1" "sm_failed s2 = sm_failed ?s1"
    by (rule sm_emit_turn_ok [of io ?s1 "''session''" "''transport''"]) (use assms 1 in auto)
  have last_send: "sm_events (snd (sm_safe_send io ty p s2)) = sm_events s2 \<and> sm_closed (snd (sm_safe_send io ty p s2)) = sm_closed s2
      \<and> sm_failed (snd (sm_safe_send io ty p s2)) = sm_failed s2 \<and> fst (sm_safe_send io ty p s2) = Inr ()" for ty p
    by (simp add: sm_safe_send_def sm_send_def sm_transmit_def act_defs split: option.split)
  show ?thesis
    using False assms(4) 1 2 last_send
    by (simp add: sm_end_call_def ask_def upd_def act_bind_def act_ret_def sm_now_def act_step_def
        split: prod.split sum.split) (metis fst_conv snd_conv)
qed

lemma sm_fail_call_ok:
  assumes "\<And>e. io_publish io e = None" "sm_call s \<noteq> []" "0 \<le> ps_sequence (sm_ps s)" "ps_current_stage (sm_ps s) \<noteq> []"
  obtains t ev where "act_suppress (sm_fail_call io err) s = (Inr (), t)" "sm_events t = sm_events s @ [ev]"
    "pe_event_type ev = CALL_FAILED" "sm_failed t" "sm_closed t = sm_closed s" "sm_call t = sm_call s" "0 \<le> ps_sequence (sm_ps t)"
proof -
  let ?s0 = "s\<lparr> sm_failed := True \<rparr>"
  obtain s1 b where 1: "sm_emit_turn io CALL_FAILED (ps_current_stage (sm_ps s)) (Some ''session'') [(''error'', PStr err)] ?s0 = (Inr (), s1)"
    "sm_events s1 = sm_events ?s0 @ [b]" "pe_event_type b = CALL_FAILED" "sm_call s1 = sm_call ?s0"
    "sm_closed s1 = sm_closed ?s0" "sm_failed s1 = sm_failed ?s0" "0 \<le> ps_sequence (sm_ps s1)"
    by (rule sm_emit_turn_ok [of io ?s0 "''session''" "ps_current_stage (sm_ps s)"]) (use assms in auto)
  have "\<exists>t. sm_safe_send io ''error'' [(''message'', PStr err)] s1 = (Inr (), t) \<and> sm_events t = sm_events s1
      \<and> sm_closed t = sm_closed s1 \<and> sm_failed t = sm_failed s1 \<and> sm_call t = sm_call s1 \<and> sm_ps t = sm_ps s1"
    by (simp add: sm_safe_send_def sm_send_def sm_transmit_def act_defs split: option.split)
  then obtain t where "sm_safe_send io ''error'' [(''message'', PStr err)] s1 = (Inr (), t)" "sm_events t = sm_events s1"
    "sm_closed t = sm_closed s1" "sm_failed t = sm_failed s1" "sm_call t = sm_call s1" "sm_ps t = sm_ps s1" by blast
  with 1 show thesis
    by (intro that [of t b]) (simp_all add: sm_fail_call_def act_suppress_def act_try_def act_bind_def ask_def upd_def act_ret_def)
qed



text \<open>C37: A candidate for an earlier response takes the running one down. When the coordinator still holds
a candidate of another response and sustained speech is seen, its answer is a rejection of the stale
candidate, but the session publishes the barge-in as confirmed and cancels the running response.\<close>

theorem stale_candidate_cancels_running_response:
  assumes "ps_active_response_id (sm_ps s) = Some r" "r \<noteq> []" "bi_candidate (sm_bi s) = Some c"
    and "bi_active_response (sm_bi s) = Some r" "ca_response_id c \<noteq> r" "barge_in_sustained u s"
    and "\<forall>e. io_publish io e = None" "sm_call s \<noteq> []" "ps_turn_id (sm_ps s) \<noteq> []" "0 \<le> ps_sequence (sm_ps s)"
  shows "map_option tr_state (fst (bi_confirm now reason (sm_bi s))) = Some REJECTED
       \<and> rc_is_cancelled r (sm_rc (snd (sm_confirm_barge_in_from_vad io u s)))
       \<and> (\<exists>e rest. sm_events (snd (sm_confirm_barge_in_from_vad io u s)) = sm_events s @ e # rest
            \<and> pe_event_type e = USER_BARGE_IN_CONFIRMED \<and> dict_get (pe_payload e) ''response_id'' = PStr r)"
proof -
  have rej: "map_option tr_state (fst (bi_confirm now' reason' (sm_bi s))) = Some REJECTED" for now' reason'
    using assms(3-5) by (simp add: bi_confirm_def bi_confirm_target_def bi_reject_def bi_mk_transition_def)
  obtain b t where conf: "bi_confirm (io_now io (sm_tick s)) ''sustained_speech'' (sm_bi s) = (Some t, b)"
    using rej [of "io_now io (sm_tick s)" "''sustained_speech''"]
    by (cases "bi_confirm (io_now io (sm_tick s)) ''sustained_speech'' (sm_bi s)") auto
  let ?s1 = "s\<lparr> sm_tick := Suc (sm_tick s), sm_bi := b \<rparr>"
  let ?pl = "[(''barge_in_id'', opt_str (tr_barge_in_id t)), (''response_id'', PStr r),
                  (''reason_code'', PStr (tr_reason t)), (''speech_duration_ms'', PFloat (tu_speech_ms u)),
                  (''speech_frame_ratio'', PFloat (tu_ratio u))]"
  obtain s2 ev where em: "sm_emit io USER_BARGE_IN_CONFIRMED ''barge_in'' ?pl ?s1 = (Inr (), s2)"
    "sm_events s2 = sm_events s @ [ev]" "pe_event_type ev = USER_BARGE_IN_CONFIRMED"
    "dict_get (pe_payload ev) ''response_id'' = PStr r"
    by (rule sm_emit_ok [where io = io and s = ?s1 and stage = "''barge_in''" and et = USER_BARGE_IN_CONFIRMED
           and d = ?pl and k = "''response_id''" and v = "PStr r"])
       (use assms(7-10) in \<open>simp_all add: dict_get_def\<close>)
  have direct: "sm_confirm_barge_in_from_vad io u s = sm_confirm_barge_in io u r s"
    using assms(1-3,6) by (simp add: sm_confirm_barge_in_from_vad_def ask_def str_falsy_def)
  have conf_eq: "sm_confirm_barge_in io u r s
      = doall [ sm_emit io USER_BARGE_IN_CONFIRMED ''barge_in'' ?pl, sm_cancel_response io r ''barge_in_confirmed'' ] ?s1"
    using assms(3) conf
    by (simp add: sm_confirm_barge_in_def ask_def act_ret_def act_bind_def sm_now_def act_step_def step_bi_def del: doall.simps)
  have run: "snd (sm_confirm_barge_in_from_vad io u s) = snd (sm_cancel_response io r ''barge_in_confirmed'' s2)"
    unfolding direct conf_eq doall_single
      doall_Cons_ok [where m = "sm_emit io USER_BARGE_IN_CONFIRMED ''barge_in'' ?pl" and s = ?s1, OF em(1)] ..
  have "sm_le False False s2 (snd (sm_cancel_response io r ''barge_in_confirmed'' s2))"
    by (rule keepsD_snd [OF keeps_cancel_response])
  then obtain rest where rest: "sm_events (snd (sm_cancel_response io r ''barge_in_confirmed'' s2)) = sm_events s2 @ rest"
    unfolding sm_le_def by blast
  have "rc_is_cancelled r (sm_rc (snd (sm_confirm_barge_in_from_vad io u s)))"
    unfolding run by (rule sm_cancel_response_cancels)
  moreover have "sm_events (snd (sm_confirm_barge_in_from_vad io u s)) = sm_events s @ ev # rest"
    unfolding run rest em(2) by simp
  ultimately show ?thesis using rej em(3,4) by (intro conjI exI) assumption+
qed

definition stale_demo :: sess where
  "stale_demo = sess_demo
     \<lparr> sm_ps := (sm_ps sess_demo)\<lparr> ps_active_response_id := Some ''r2'' \<rparr>,
       sm_rc := \<lparr> rc_active = Some ''r2'', rc_turns = [(''r1'', ''t1''), (''r2'', ''t2'')], rc_cancelled = [] \<rparr>,
       sm_bi := bi_assistant_playing ''t2'' ''r2''
                  (snd (bi_on_candidate (ca_demo ''b1'' ''r1'') (bi_assistant_playing ''t1'' ''r1'' (bi_new ''call-1'' 1200)))) \<rparr>"

definition speech_demo :: turn_update where
  "speech_demo = \<lparr> tu_previous = SPEAKING, tu_state = SPEAKING, tu_started = False, tu_ended = False,
                   tu_collect_audio = True, tu_state_changed = False, tu_speech_ms = 240, tu_total_ms = 300, tu_ratio = 8/10 \<rparr>"

lemma stale_candidate_cancels_running_response_witness:
  "rc_is_cancelled ''r2'' (sm_rc (snd (sm_confirm_barge_in_from_vad io_demo speech_demo stale_demo)))"
proof -
  have cfg: "sm_cfg sess_demo = default_settings" "sm_call sess_demo = ''call-1''" "ps_turn_id (sm_ps sess_demo) = ''session''"
    "ps_sequence (sm_ps sess_demo) = 0"
    using sm_new_start [OF sess_demo_new] by simp_all
  have b: "bi_candidate (sm_bi stale_demo) = Some (ca_demo ''b1'' ''r1'')" "bi_active_response (sm_bi stale_demo) = Some ''r2''"
    by (simp_all add: stale_demo_def bi_defs bi_new_def ca_demo_def)
  have su: "barge_in_sustained speech_demo stale_demo"
    using b by (simp add: barge_in_sustained_def Let_def speech_demo_def) (simp add: stale_demo_def cfg default_settings_def default_barge_def)
  show ?thesis
    by (rule stale_candidate_cancels_running_response [OF _ _ b _ su, THEN conjunct2, THEN conjunct1])
       (simp_all add: stale_demo_def cfg ca_demo_def io_demo_def)
qed

end
