(* ===== verification/Store.thy ===== *)
theory Store
  imports Events
begin

text \<open>
  The Postgres tables (\<open>apps/api/db/migrations/001_init.sql\<close>) the services share, as the
  record \<open>db\<close>, and the repository's transaction and retry discipline
  (\<open>apps/api/db/repository.py\<close>, \<open>_retry\<close>).

  A table with a unique key the code addresses rows by is a map from that key; a table that is
  only appended to or scanned is a list in insertion order. \<open>numeric\<close> columns are exact
  rationals; surrogate ids and \<open>updated_at\<close> columns are left out. A transaction is a function
  from the tables to either an exception, which rolls everything back, or a result and the new
  tables.
\<close>

record call_row =
  cl_status :: string
  cl_started_at :: "rat option"
  cl_ended_at :: "rat option"
  cl_stage :: string
  cl_corked :: bool
  cl_cork_reason :: "string option"
  cl_stt_provider :: pyv
  cl_llm_provider :: pyv
  cl_tts_provider :: pyv
  cl_stt_model :: pyv
  cl_llm_model :: pyv
  cl_tts_model :: pyv
  cl_org :: pyv
  cl_agent :: pyv
  cl_snapshot :: pyv
  cl_summary :: pyv
  cl_error :: pyv

record metric_row =
  mt_call :: string
  mt_turn :: string
  mt_stage :: string
  mt_latency :: rat
  mt_depth :: int
  mt_corked :: bool
  mt_provider :: pyv

record price_row =
  pr_provider :: string
  pr_model :: string
  pr_usage_type :: string
  pr_unit :: string
  pr_price :: rat
  pr_version :: string
  pr_effective :: rat

record usage_row =
  us_event :: string
  us_call :: string
  us_turn :: string
  us_stage :: string
  us_provider :: string
  us_model :: string
  us_type :: string
  us_quantity :: rat
  us_unit :: string
  us_price :: rat
  us_cost :: rat
  us_estimated :: bool
  us_version :: string
  us_metadata :: dict
  us_created :: rat

record usage_event_row =
  ue_event :: string
  ue_tenant :: string
  ue_assistant :: string
  ue_call :: string
  ue_turn :: string
  ue_type :: string
  ue_provider :: string
  ue_model :: string
  ue_quantity :: rat
  ue_unit :: string
  ue_basis :: dict
  ue_created :: rat

record rollup_row =
  ro_tenant :: string
  ro_assistant :: string
  ro_amounts :: "string \<Rightarrow> rat"

record manifest_row =
  ma_tenant :: string
  ma_assistant :: string
  ma_event :: string
  ma_topic :: string
  ma_partition :: int
  ma_offset :: int
  ma_expected :: pyv
  ma_trace :: "string option"

record expect_row =
  ex_call :: string
  ex_tenant :: string
  ex_assistant :: string
  ex_turn :: string
  ex_type :: string
  ex_stage :: string

record billing_row =
  bl_duration :: rat
  bl_provider_cost :: rat
  bl_platform_fee :: rat
  bl_total :: rat
  bl_currency :: string
  bl_status :: string
  bl_version :: string
  bl_finalized_at :: "rat option"

record outbox_row =
  ob_event :: string
  ob_topic :: string
  ob_key :: string
  ob_payload :: pevent
  ob_published :: bool
  ob_attempts :: nat
  ob_error :: "string option"

record final_row =
  fi_tenant :: string
  fi_assistant :: string
  fi_started :: "rat option"
  fi_ended :: "rat option"
  fi_seconds :: int
  fi_platform :: int
  fi_stt :: int
  fi_llm :: int
  fi_tts :: int
  fi_telephony :: int
  fi_total :: int
  fi_currency :: string
  fi_version :: string
  fi_status :: string
  fi_warnings :: "string list"
  fi_finalized_at :: "rat option"

record adjust_row =
  aj_id :: string
  aj_call :: string
  aj_tenant :: string
  aj_assistant :: string
  aj_previous :: int
  aj_recomputed :: int
  aj_delta :: int
  aj_reason :: string
  aj_source :: "string option"
  aj_workflow :: "string option"
  aj_status :: string

record tool_row =
  to_tenant :: string
  to_assistant :: string
  to_call :: string
  to_turn :: string
  to_name :: string
  to_workflow :: "string option"
  to_external :: "string option"
  to_status :: string
  to_arguments :: dict
  to_message :: "string option"
  to_error :: "string option"
  to_cancel_requested :: bool
  to_cancel_reason :: "string option"
  to_completed :: "rat option"

record webhook_row =
  we_tenant :: string
  we_assistant :: string
  we_call :: string
  we_workflow :: "string option"
  we_url :: string
  we_event_type :: string
  we_payload :: dict
  we_status :: string
  we_attempts :: int
  we_status_code :: "int option"
  we_error :: "string option"
  we_key :: string
  we_completed :: "rat option"

record webhook_attempt_row =
  wa_delivery :: string
  wa_number :: int
  wa_status_code :: "int option"
  wa_success :: bool
  wa_error :: "string option"

type_synonym watermark_key = "string \<times> string \<times> int"

record db =
  db_keys :: "string \<Rightarrow> (string \<times> string) option"
  db_events :: "pevent list"
  db_calls :: "string \<Rightarrow> call_row option"
  db_metrics :: "metric_row list"
  db_pricing :: "price_row list"
  db_usage :: "usage_row list"
  db_usage_events :: "usage_event_row list"
  db_rollups :: "string \<Rightarrow> rollup_row option"
  db_manifests :: "string \<Rightarrow> manifest_row option"
  db_expect :: "expect_row list"
  db_marks :: "watermark_key \<Rightarrow> int option"
  db_billing :: "string \<Rightarrow> billing_row option"
  db_outbox :: "outbox_row list"
  db_final :: "string \<Rightarrow> final_row option"
  db_adjust :: "adjust_row list"
  db_tools :: "string \<Rightarrow> tool_row option"
  db_webhooks :: "string \<Rightarrow> webhook_row option"
  db_attempts :: "webhook_attempt_row list"

definition db_empty :: "price_row list \<Rightarrow> db" where
  "db_empty prices =
     \<lparr> db_keys = Map.empty, db_events = [], db_calls = Map.empty, db_metrics = [], db_pricing = prices,
       db_usage = [], db_usage_events = [], db_rollups = Map.empty, db_manifests = Map.empty,
       db_expect = [], db_marks = Map.empty, db_billing = Map.empty, db_outbox = [],
       db_final = Map.empty, db_adjust = [], db_tools = Map.empty, db_webhooks = Map.empty,
       db_attempts = [] \<rparr>"

text \<open>What the standard library and the configuration supply to the database code.\<close>

record env =
  en_platform_rate :: rat
  en_pricing_version :: string
  en_uuid5 :: "string \<Rightarrow> string"
  en_parse_decimal :: "string \<Rightarrow> rat option"
  en_parse_int :: "string \<Rightarrow> int option"
  en_rep :: "pyv \<Rightarrow> string"
  en_decimal_str :: "rat \<Rightarrow> string"
  en_now :: rat

text \<open>\<open>Decimal(str(v))\<close>\<close>

fun py_decimal :: "env \<Rightarrow> pyv \<Rightarrow> rat res" where
  "py_decimal en (PInt i) = Inr (of_int i)"
| "py_decimal en (PFloat x) = Inr x"
| "py_decimal en (PStr s) =
     (case en_parse_decimal en s of Some x \<Rightarrow> Inr x | None \<Rightarrow> Inl (InvalidOperation ''Decimal''))"
| "py_decimal en _ = Inl (InvalidOperation ''Decimal'')"

fun as_dict :: "pyv \<Rightarrow> dict res" where
  "as_dict (PDict d) = Inr d"
| "as_dict _ = Inl (AttributeError ''get'')"

fun as_list :: "pyv \<Rightarrow> pyv list res" where
  "as_list (PList xs) = Inr xs"
| "as_list _ = Inl (TypeError ''object is not iterable'')"

text \<open>\<open>d[k]\<close>\<close>

definition dict_item :: "dict \<Rightarrow> string \<Rightarrow> pyv res" where
  "dict_item d k = (case map_of d k of None \<Rightarrow> Inl (KeyError k) | Some v \<Rightarrow> Inr v)"

subsection \<open>Shared statements\<close>

text \<open>\<open>INSERT INTO idempotency_keys ... ON CONFLICT DO NOTHING RETURNING TRUE\<close>\<close>

definition claim_key :: "pevent \<Rightarrow> db \<Rightarrow> bool \<times> db" where
  "claim_key e d =
     (case db_keys d (pe_key e) of
        Some _ \<Rightarrow> (False, d)
      | None \<Rightarrow> (True, d\<lparr> db_keys := (db_keys d)(pe_key e \<mapsto> (pe_call_id e, event_value (pe_event_type e))) \<rparr>))"

text \<open>\<open>INSERT INTO outbox_events ... ON CONFLICT (event_id) DO NOTHING\<close>\<close>

definition enqueue_outbox :: "pevent \<Rightarrow> string \<Rightarrow> db \<Rightarrow> db" where
  "enqueue_outbox e topic d =
     (if list_ex (\<lambda>r. ob_event r = pe_event_id e) (db_outbox d) then d
      else d\<lparr> db_outbox := db_outbox d @ [\<lparr> ob_event = pe_event_id e, ob_topic = topic, ob_key = pe_call_id e,
              ob_payload = e, ob_published = False, ob_attempts = 0, ob_error = None \<rparr>] \<rparr>)"

subsection \<open>Retries\<close>

fun pg_retryable :: "exn \<Rightarrow> bool" where
  "pg_retryable (PostgresError s) = True"
| "pg_retryable (OSError s) = True"
| "pg_retryable (ConnectionLost s) = True"
| "pg_retryable TimeoutError = True"
| "pg_retryable _ = False"

text \<open>
  \<open>_retry\<close>: at most three attempts. \<open>injected\<close> is the failure injector's switch and
  \<open>fault i\<close> an infrastructure error that rolls attempt \<open>i\<close> back. \<open>Inr (None, d)\<close>
  is the Python \<open>None\<close> of a non-critical write that was given up.
\<close>

fun retry_from ::
  "bool \<Rightarrow> (nat \<Rightarrow> exn option) \<Rightarrow> bool \<Rightarrow> (db \<Rightarrow> ('a \<times> db) res) \<Rightarrow> nat list \<Rightarrow> exn option \<Rightarrow> db
   \<Rightarrow> ('a option \<times> db) res" where
  "retry_from injected fault critical op [] lst d =
     (case lst of Some e \<Rightarrow> if critical then Inl e else Inr (None, d) | None \<Rightarrow> Inr (None, d))"
| "retry_from injected fault critical op (i # ns) lst d =
     (let r = (if injected then Inl (PostgresError ''Injected Postgres write failure'')
               else case fault i of Some e \<Rightarrow> Inl e | None \<Rightarrow> op d)
      in case r of
           Inr (a, d') \<Rightarrow> Inr (Some a, d')
         | Inl e \<Rightarrow> (if pg_retryable e then retry_from injected fault critical op ns (Some e) d else Inl e))"

definition pg_retry ::
  "bool \<Rightarrow> (nat \<Rightarrow> exn option) \<Rightarrow> bool \<Rightarrow> (db \<Rightarrow> ('a \<times> db) res) \<Rightarrow> db \<Rightarrow> ('a option \<times> db) res" where
  "pg_retry injected fault critical op d = retry_from injected fault critical op [0, 1, 2] None d"

lemma retry_from_outcome:
  "retry_from injected fault critical op ns lst d = Inr (r, d') \<Longrightarrow>
     (r = None \<and> d' = d \<and> (critical \<longrightarrow> lst = None \<and> ns = [])) \<or> (\<exists>a. r = Some a \<and> op d = Inr (a, d'))"
proof (induction ns arbitrary: lst)
  case Nil
  then show ?case by (auto split: option.splits if_splits)
next
  case (Cons i ns)
  then show ?case by (fastforce simp: Let_def split: sum.splits option.splits if_splits prod.splits)
qed

text \<open>A retried transaction takes effect exactly once or not at all, and a critical one never gives up silently.\<close>

lemma pg_retry_outcome:
  "pg_retry injected fault critical op d = Inr (r, d') \<Longrightarrow>
     (r = None \<and> d' = d \<and> \<not> critical) \<or> (\<exists>a. r = Some a \<and> op d = Inr (a, d'))"
  unfolding pg_retry_def by (drule retry_from_outcome) auto

subsection \<open>Deduplicating stores\<close>

text \<open>
  The contract of every consumer that guards its effects by an idempotency key: an event whose
  key was seen changes nothing and reports a duplicate; otherwise its key is seen afterwards, and
  no other key.
\<close>

locale dedup_store =
  fixes key :: "'e \<Rightarrow> string"
    and seen :: "'s \<Rightarrow> string set"
    and exec :: "'e \<Rightarrow> 's \<Rightarrow> (bool \<times> 's) res"
  assumes dup_noop: "key e \<in> seen s \<Longrightarrow> exec e s = Inr (False, s)"
    and new_key: "key e \<notin> seen s \<Longrightarrow> exec e s = Inr (b, s') \<Longrightarrow> b \<and> seen s' = insert (key e) (seen s)"
begin

text \<open>Processing a stream, stopping at the first exception, and collecting the accepted events.\<close>

lemma exec_seen: "exec e s = Inr (b, s') \<Longrightarrow> seen s' = insert (key e) (seen s) \<and> (b \<longleftrightarrow> key e \<notin> seen s)"
  using dup_noop [of e s] new_key [of e s b s'] by (cases "key e \<in> seen s") auto

lemma exec_replay: "exec e s = Inr (b, s') \<Longrightarrow> exec e s' = Inr (False, s')"
  using exec_seen [of e s b s'] dup_noop by simp

end

text \<open>A stream through such a consumer: the flags it returned and the final state.\<close>

fun dedup_run :: "('e \<Rightarrow> 's \<Rightarrow> (bool \<times> 's) res) \<Rightarrow> 'e list \<Rightarrow> 's \<Rightarrow> (bool list \<times> 's) res" where
  "dedup_run exec [] s = Inr ([], s)"
| "dedup_run exec (e # es) s =
     bindE (exec e s) (\<lambda>(b, s1). bindE (dedup_run exec es s1) (\<lambda>(bs, s2). Inr (b # bs, s2)))"

text \<open>The first occurrence of every key that is not yet in \<open>K\<close>.\<close>

fun first_by_key :: "('e \<Rightarrow> string) \<Rightarrow> string set \<Rightarrow> 'e list \<Rightarrow> 'e list" where
  "first_by_key key K [] = []"
| "first_by_key key K (e # es) =
     (if key e \<in> K then first_by_key key K es else e # first_by_key key (insert (key e) K) es)"

context dedup_store
begin

lemma run_seen: "dedup_run exec es s = Inr (bs, s') \<Longrightarrow> seen s' = seen s \<union> key ` set es"
proof (induction es arbitrary: s bs)
  case (Cons e es)
  then show ?case by (fastforce simp: bindE_eq_Inr dest: exec_seen)
qed simp

lemma run_replay:
  "key ` set es \<subseteq> seen s \<Longrightarrow> dedup_run exec es s = Inr (replicate (length es) False, s)"
  by (induction es) (auto simp: dup_noop)

text \<open>Redelivery is invisible: a stream has the effect of its first occurrences.\<close>

lemma run_first_occurrences:
  "dedup_run exec es s = Inr (bs, s') \<Longrightarrow>
     \<exists>bs'. dedup_run exec (first_by_key key (seen s) es) s = Inr (bs', s') \<and> list_all (\<lambda>a. a) bs'"
proof (induction es arbitrary: s bs)
  case Nil
  then show ?case by simp
next
  case (Cons e es)
  obtain b s1 where e: "exec e s = Inr (b, s1)"
    using Cons.prems by (auto simp: bindE_eq_Inr)
  obtain bs1 where r: "dedup_run exec es s1 = Inr (bs1, s')"
    using Cons.prems e by (auto simp: bindE_eq_Inr)
  obtain bs' where r': "dedup_run exec (first_by_key key (seen s1) es) s1 = Inr (bs', s')" "list_all (\<lambda>a. a) bs'"
    using Cons.IH [OF r] by blast
  show ?case
  proof (cases "key e \<in> seen s")
    case True
    then have "s1 = s" using e dup_noop by simp
    then show ?thesis using r' True by auto
  next
    case False
    then have "b" "seen s1 = insert (key e) (seen s)" using exec_seen [OF e] by auto
    then show ?thesis using r' False e by auto
  qed
qed

end

end
