(* ===== verification/Tools.thy ===== *)
theory Tools
  imports Store
begin

text \<open>
  The tool layer's data and pure functions: the templates, JSON paths, money rounding and spoken
  answers of \<open>apps/api/tools/http_config.py\<close>, and the validated inputs of the durable
  workflows of \<open>apps/api/tools/models.py\<close>, with the validation pydantic does when a model is
  built from a dict and the dict \<open>model_dump(mode="json")\<close> makes of it.

  Pydantic's conversions of a field of another type (a number given as a string, say) are not
  modelled: such a field is rejected.
\<close>

subsection \<open>Templates\<close>

definition is_word_char :: "char \<Rightarrow> bool" where
  "is_word_char c = (let n = code c in
     48 \<le> n \<and> n \<le> 57 \<or> 65 \<le> n \<and> n \<le> 90 \<or> n = 95 \<or> 97 \<le> n \<and> n \<le> 122)"

text \<open>
  A match of \<open>{{\s*([a-zA-Z0-9_]+)\s*}}\<close> that starts here: the name and the text after it.
  The classes of white space, names and braces are disjoint, so no match needs backtracking.
\<close>

definition match_tag :: "string \<Rightarrow> (string \<times> string) option" where
  "match_tag s =
     (if \<not> startswith s ''{{'' then None
      else let r = dropWhile is_space (drop 2 s);
               name = takeWhile is_word_char r;
               r' = dropWhile is_space (dropWhile is_word_char r)
           in if name \<noteq> [] \<and> startswith r' ''}}'' then Some (name, drop 2 r') else None)"

lemma match_tag_shorter: "match_tag s = Some (name, r) \<Longrightarrow> length r < length s"
proof -
  assume m: "match_tag s = Some (name, r)"
  let ?r = "dropWhile is_space (drop 2 s)"
  let ?r' = "dropWhile is_space (dropWhile is_word_char ?r)"
  have r: "r = drop 2 ?r'" and s: "startswith s ''{{''"
    using m by (auto simp: match_tag_def Let_def split: if_splits)
  have "2 \<le> length s"
    using s by (auto simp: startswith_def dest: arg_cong [of _ _ length])
  moreover have "length ?r' \<le> length (drop 2 s)"
    by (meson length_dropWhile_le le_trans)
  ultimately show "length r < length s" using r by simp
qed

text \<open>\<open>render_template\<close>: every match is replaced, left to right; an unknown or null name by nothing.\<close>

definition tag_value :: "(pyv \<Rightarrow> string) \<Rightarrow> dict \<Rightarrow> string \<Rightarrow> string" where
  "tag_value rep values name =
     (case map_of values name of None \<Rightarrow> [] | Some PNone \<Rightarrow> [] | Some v \<Rightarrow> py_str rep v)"

function render_template :: "(pyv \<Rightarrow> string) \<Rightarrow> dict \<Rightarrow> string \<Rightarrow> string" where
  "render_template rep values [] = []"
| "render_template rep values (c # cs) =
     (case match_tag (c # cs) of
        Some (name, r) \<Rightarrow> tag_value rep values name @ render_template rep values r
      | None \<Rightarrow> c # render_template rep values cs)"
  by pat_completeness auto
termination
  by (relation "measure (\<lambda>(rep, values, s). length s)") (auto dest: match_tag_shorter)

lemma render_literal: "CHR ''{'' \<notin> set s \<Longrightarrow> render_template rep values (s @ t) = s @ render_template rep values t"
proof (induction s)
  case (Cons c s)
  then have "match_tag ((c # s) @ t) = None" by (auto simp: match_tag_def startswith_def)
  then show ?case using Cons by simp
qed simp

lemma match_tag_tag:
  assumes "name \<noteq> []" "list_all is_word_char name"
  shows "match_tag (''{{'' @ name @ ''}}'' @ t) = Some (name, t)"
proof -
  have nsp: "\<not> is_space c" if "is_word_char c" for c
    using that by (auto simp: is_word_char_def is_space_def Let_def)
  have "dropWhile is_space (name @ ''}}'' @ t) = name @ ''}}'' @ t"
    using assms nsp by (cases name) auto
  moreover have "takeWhile is_word_char (name @ ''}}'' @ t) = name"
    and "dropWhile is_word_char (name @ ''}}'' @ t) = ''}}'' @ t"
    using assms(2) by (auto simp: list_all_iff takeWhile_append dropWhile_append is_word_char_def code_def)
  moreover have "dropWhile is_space (''}}'' @ t) = ''}}'' @ t" by (simp add: is_space_def code_def)
  ultimately show ?thesis
    using assms(1) by (simp add: match_tag_def startswith_def Let_def)
qed

lemma render_tag:
  "name \<noteq> [] \<Longrightarrow> list_all is_word_char name \<Longrightarrow>
     render_template rep values (''{{'' @ name @ ''}}'' @ t) = tag_value rep values name @ render_template rep values t"
  using match_tag_tag [of name t] by simp

subsection \<open>JSON paths, cents and answers\<close>

fun json_walk :: "pyv \<Rightarrow> string list \<Rightarrow> pyv" where
  "json_walk v [] = v"
| "json_walk (PDict d) (p # ps) = json_walk (dict_get d p) ps"
| "json_walk v (p # ps) = PNone"

definition extract_json_path :: "pyv \<Rightarrow> string \<Rightarrow> pyv" where
  "extract_json_path payload path =
     (if \<not> startswith path ''$.'' then PNone else json_walk payload (split_on CHR ''.'' (drop 2 path)))"

definition cents :: "rat \<Rightarrow> int" where
  "cents usd = round_half_up (usd * 100)"

definition conversational_tool_response :: "string \<Rightarrow> string" where
  "conversational_tool_response state =
     (case map_of
        [(''ACTIVE'', ''I've started that request. It is being processed now.''),
         (''CREATE_IN_FLIGHT'', ''I'm starting that request now.''),
         (''CANCEL_REQUESTED'', ''I'm cancelling that request now.''),
         (''CANCEL_IN_FLIGHT'', ''I'm cancelling that request now.''),
         (''CANCELLED'', ''No problem, I cancelled that request.''),
         (''CANNOT_CANCEL'', ''That request can no longer be cancelled.''),
         (''COMPLETED'', ''That request is complete.''),
         (''FAILED'', ''I could not complete that request.''),
         (''TIMED_OUT'', ''That request is taking longer than expected.'')] state of
        None \<Rightarrow> ''That request is being processed.''
      | Some r \<Rightarrow> r)"

lemma cents_error: "\<bar>of_int (cents x) - x * 100\<bar> \<le> 1/2"
  using round_half_up_error [of "x * 100"] by (simp add: cents_def)

subsection \<open>States\<close>

datatype action_state =
    A_REQUESTED | A_CREATE_IN_FLIGHT | A_ACTIVE | A_CANCEL_REQUESTED | A_CANCEL_IN_FLIGHT
  | A_CANCELLED | A_COMPLETED | A_CANNOT_CANCEL | A_FAILED | A_TIMED_OUT

fun action_name :: "action_state \<Rightarrow> string" where
  "action_name A_REQUESTED = ''REQUESTED''"
| "action_name A_CREATE_IN_FLIGHT = ''CREATE_IN_FLIGHT''"
| "action_name A_ACTIVE = ''ACTIVE''"
| "action_name A_CANCEL_REQUESTED = ''CANCEL_REQUESTED''"
| "action_name A_CANCEL_IN_FLIGHT = ''CANCEL_IN_FLIGHT''"
| "action_name A_CANCELLED = ''CANCELLED''"
| "action_name A_COMPLETED = ''COMPLETED''"
| "action_name A_CANNOT_CANCEL = ''CANNOT_CANCEL''"
| "action_name A_FAILED = ''FAILED''"
| "action_name A_TIMED_OUT = ''TIMED_OUT''"

datatype billing_state =
    B_WAITING_FOR_CALL_END | B_WAITING_FOR_MANIFEST | B_WAITING_FOR_PROJECTION | B_WAITING_FOR_USAGE
  | B_FINALIZING | B_FINALIZED | B_FINALIZED_WITH_WARNINGS | B_FAILED | B_NEEDS_REVIEW

fun billing_name :: "billing_state \<Rightarrow> string" where
  "billing_name B_WAITING_FOR_CALL_END = ''WAITING_FOR_CALL_END''"
| "billing_name B_WAITING_FOR_MANIFEST = ''WAITING_FOR_MANIFEST''"
| "billing_name B_WAITING_FOR_PROJECTION = ''WAITING_FOR_PROJECTION''"
| "billing_name B_WAITING_FOR_USAGE = ''WAITING_FOR_USAGE''"
| "billing_name B_FINALIZING = ''FINALIZING''"
| "billing_name B_FINALIZED = ''FINALIZED''"
| "billing_name B_FINALIZED_WITH_WARNINGS = ''FINALIZED_WITH_WARNINGS''"
| "billing_name B_FAILED = ''FAILED''"
| "billing_name B_NEEDS_REVIEW = ''NEEDS_REVIEW''"

definition billing_states :: "billing_state list" where
  "billing_states = [B_WAITING_FOR_CALL_END, B_WAITING_FOR_MANIFEST, B_WAITING_FOR_PROJECTION, B_WAITING_FOR_USAGE,
     B_FINALIZING, B_FINALIZED, B_FINALIZED_WITH_WARNINGS, B_FAILED, B_NEEDS_REVIEW]"

text \<open>\<open>BillingWorkflowState(s)\<close>\<close>

definition billing_state_of :: "string \<Rightarrow> billing_state res" where
  "billing_state_of s =
     (case List.find (\<lambda>b. billing_name b = s) billing_states of
        Some b \<Rightarrow> Inr b
      | None \<Rightarrow> Inl (ValueError (s @ '' is not a valid BillingWorkflowState'')))"

lemma billing_state_of_name [simp]: "billing_state_of (billing_name b) = Inr b"
  by (cases b) (simp_all add: billing_state_of_def billing_states_def)

datatype webhook_state = W_REQUESTED | W_DELIVERING | W_DELIVERED | W_FAILED

fun webhook_name :: "webhook_state \<Rightarrow> string" where
  "webhook_name W_REQUESTED = ''REQUESTED''"
| "webhook_name W_DELIVERING = ''DELIVERING''"
| "webhook_name W_DELIVERED = ''DELIVERED''"
| "webhook_name W_FAILED = ''FAILED''"

datatype tool_mode = M_SYNC_DIRECT | M_ASYNC_JOB | M_DURABLE_ACTION

fun mode_name :: "tool_mode \<Rightarrow> string" where
  "mode_name M_SYNC_DIRECT = ''SYNC_DIRECT''"
| "mode_name M_ASYNC_JOB = ''ASYNC_JOB''"
| "mode_name M_DURABLE_ACTION = ''DURABLE_ACTION''"

definition mode_of :: "string \<Rightarrow> tool_mode res" where
  "mode_of s =
     (case List.find (\<lambda>m. mode_name m = s) [M_SYNC_DIRECT, M_ASYNC_JOB, M_DURABLE_ACTION] of
        Some m \<Rightarrow> Inr m
      | None \<Rightarrow> Inl (ValueError ''mode''))"

lemma mode_of_name [simp]: "mode_of (mode_name m) = Inr m"
  by (cases m) (simp_all add: mode_of_def)

subsection \<open>Validated models\<close>

text \<open>The fields of a model: required or with a default, optional, bounded, nested.\<close>

definition bad_field :: "string \<Rightarrow> 'a res" where
  "bad_field k = Inl (ValueError (''validation error: '' @ k))"

definition mf_str :: "dict \<Rightarrow> string \<Rightarrow> string option \<Rightarrow> string res" where
  "mf_str d k dflt =
     (case map_of d k of
        None \<Rightarrow> (case dflt of Some s \<Rightarrow> Inr s | None \<Rightarrow> bad_field k)
      | Some (PStr s) \<Rightarrow> Inr s
      | Some _ \<Rightarrow> bad_field k)"

definition mf_opt_str :: "dict \<Rightarrow> string \<Rightarrow> string option res" where
  "mf_opt_str d k =
     (case map_of d k of
        None \<Rightarrow> Inr None
      | Some PNone \<Rightarrow> Inr None
      | Some (PStr s) \<Rightarrow> Inr (Some s)
      | Some _ \<Rightarrow> bad_field k)"

text \<open>An integer with a default and, when given, the least value allowed.\<close>

definition mf_int :: "dict \<Rightarrow> string \<Rightarrow> int \<Rightarrow> int option \<Rightarrow> int res" where
  "mf_int d k dflt least =
     (case map_of d k of
        None \<Rightarrow> Inr dflt
      | Some (PInt i) \<Rightarrow> (case least of Some l \<Rightarrow> if l \<le> i then Inr i else bad_field k | None \<Rightarrow> Inr i)
      | Some _ \<Rightarrow> bad_field k)"

definition mf_positive :: "dict \<Rightarrow> string \<Rightarrow> rat \<Rightarrow> rat res" where
  "mf_positive d k dflt =
     (case map_of d k of
        None \<Rightarrow> Inr dflt
      | Some (PInt i) \<Rightarrow> if 0 < i then Inr (of_int i) else bad_field k
      | Some (PFloat x) \<Rightarrow> if 0 < x then Inr x else bad_field k
      | Some _ \<Rightarrow> bad_field k)"

fun strs_of :: "string \<Rightarrow> pyv list \<Rightarrow> string list res" where
  "strs_of k [] = Inr []"
| "strs_of k (PStr s # vs) = bindE (strs_of k vs) (\<lambda>ss. Inr (s # ss))"
| "strs_of k (v # vs) = bad_field k"

definition mf_strs :: "dict \<Rightarrow> string \<Rightarrow> string list option \<Rightarrow> string list res" where
  "mf_strs d k dflt =
     (case map_of d k of
        None \<Rightarrow> (case dflt of Some ss \<Rightarrow> Inr ss | None \<Rightarrow> bad_field k)
      | Some (PList vs) \<Rightarrow> strs_of k vs
      | Some _ \<Rightarrow> bad_field k)"

definition mf_dict :: "dict \<Rightarrow> string \<Rightarrow> dict res" where
  "mf_dict d k =
     (case map_of d k of None \<Rightarrow> Inr [] | Some (PDict x) \<Rightarrow> Inr x | Some _ \<Rightarrow> bad_field k)"

definition mf_model :: "(dict \<Rightarrow> 'a res) \<Rightarrow> dict \<Rightarrow> string \<Rightarrow> 'a res" where
  "mf_model p d k = (case map_of d k of Some (PDict x) \<Rightarrow> p x | _ \<Rightarrow> bad_field k)"

definition mf_opt_model :: "(dict \<Rightarrow> 'a res) \<Rightarrow> dict \<Rightarrow> string \<Rightarrow> 'a option res" where
  "mf_opt_model p d k =
     (case map_of d k of
        None \<Rightarrow> Inr None
      | Some PNone \<Rightarrow> Inr None
      | Some (PDict x) \<Rightarrow> bindE (p x) (\<lambda>c. Inr (Some c))
      | Some _ \<Rightarrow> bad_field k)"

definition dump_opt :: "('a \<Rightarrow> dict) \<Rightarrow> 'a option \<Rightarrow> pyv" where
  "dump_opt f c = (case c of None \<Rightarrow> PNone | Some x \<Rightarrow> PDict (f x))"

lemma strs_of_dump [simp]: "strs_of k (map PStr ss) = Inr ss"
  by (induction ss) simp_all

record http_config =
  hc_method :: string
  hc_url :: "string option"
  hc_url_template :: "string option"
  hc_key_template :: "string option"
  hc_timeout :: rat

definition http_config_of :: "dict \<Rightarrow> http_config res" where
  "http_config_of d =
     bindE (mf_str d ''method'' (Some ''POST'')) (\<lambda>method.
     bindE (mf_opt_str d ''url'') (\<lambda>url.
     bindE (mf_opt_str d ''url_template'') (\<lambda>template.
     bindE (mf_opt_str d ''idempotency_key_template'') (\<lambda>key.
     bindE (mf_positive d ''timeout_seconds'' 10) (\<lambda>timeout.
       Inr \<lparr> hc_method = method, hc_url = url, hc_url_template = template, hc_key_template = key,
             hc_timeout = timeout \<rparr>)))))"

definition http_config_dump :: "http_config \<Rightarrow> dict" where
  "http_config_dump c =
     [(''method'', PStr (hc_method c)), (''url'', opt_str (hc_url c)), (''url_template'', opt_str (hc_url_template c)),
      (''idempotency_key_template'', opt_str (hc_key_template c)), (''timeout_seconds'', PFloat (hc_timeout c))]"

record response_mapping =
  rm_id :: string
  rm_status :: string
  rm_message :: string

definition response_mapping_of :: "dict \<Rightarrow> response_mapping res" where
  "response_mapping_of d =
     bindE (mf_str d ''external_request_id'' (Some ''$.id'')) (\<lambda>i.
     bindE (mf_str d ''status'' (Some ''$.status'')) (\<lambda>s.
     bindE (mf_str d ''message'' (Some ''$.message'')) (\<lambda>m.
       Inr \<lparr> rm_id = i, rm_status = s, rm_message = m \<rparr>)))"

definition response_mapping_dump :: "response_mapping \<Rightarrow> dict" where
  "response_mapping_dump m =
     [(''external_request_id'', PStr (rm_id m)), (''status'', PStr (rm_status m)), (''message'', PStr (rm_message m))]"

record tool_config =
  tg_name :: string
  tg_mode :: tool_mode
  tg_create :: http_config
  tg_cancel :: "http_config option"
  tg_status :: "http_config option"
  tg_mapping :: response_mapping
  tg_terminal :: "string list"
  tg_poll :: int
  tg_max :: int

definition tool_config_of :: "dict \<Rightarrow> tool_config res" where
  "tool_config_of d =
     bindE (mf_str d ''tool_name'' None) (\<lambda>name.
     bindE (bindE (mf_str d ''mode'' (Some ''DURABLE_ACTION'')) mode_of) (\<lambda>mode.
     bindE (mf_model http_config_of d ''create'') (\<lambda>create.
     bindE (mf_opt_model http_config_of d ''cancel'') (\<lambda>cancel.
     bindE (mf_opt_model http_config_of d ''status'') (\<lambda>status.
     bindE (if map_of d ''response_mapping'' = None then response_mapping_of []
            else mf_model response_mapping_of d ''response_mapping'') (\<lambda>mapping.
     bindE (mf_strs d ''terminal_states'' (Some [''completed'', ''cancelled'', ''cannot_cancel'', ''failed''])) (\<lambda>terminal.
     bindE (mf_int d ''poll_interval_seconds'' 10 (Some 1)) (\<lambda>poll.
     bindE (mf_int d ''max_runtime_seconds'' 3600 (Some 1)) (\<lambda>mx.
       Inr \<lparr> tg_name = name, tg_mode = mode, tg_create = create, tg_cancel = cancel, tg_status = status,
             tg_mapping = mapping, tg_terminal = terminal, tg_poll = poll, tg_max = mx \<rparr>)))))))))"

definition tool_config_dump :: "tool_config \<Rightarrow> dict" where
  "tool_config_dump c =
     [(''tool_name'', PStr (tg_name c)), (''mode'', PStr (mode_name (tg_mode c))),
      (''create'', PDict (http_config_dump (tg_create c))),
      (''cancel'', dump_opt http_config_dump (tg_cancel c)),
      (''status'', dump_opt http_config_dump (tg_status c)),
      (''response_mapping'', PDict (response_mapping_dump (tg_mapping c))),
      (''terminal_states'', PList (map PStr (tg_terminal c))),
      (''poll_interval_seconds'', PInt (tg_poll c)), (''max_runtime_seconds'', PInt (tg_max c))]"

record action_input =
  ai_tenant :: string
  ai_assistant :: string
  ai_call :: string
  ai_turn :: string
  ai_invocation :: string
  ai_tool :: string
  ai_arguments :: dict
  ai_config :: tool_config
  ai_trace :: "string option"

definition action_input_of :: "dict \<Rightarrow> action_input res" where
  "action_input_of d =
     bindE (mf_str d ''tenant_id'' (Some ''local-demo-tenant'')) (\<lambda>tenant.
     bindE (mf_str d ''assistant_id'' (Some ''local-demo-assistant'')) (\<lambda>assistant.
     bindE (mf_str d ''call_id'' None) (\<lambda>call.
     bindE (mf_str d ''turn_id'' None) (\<lambda>turn.
     bindE (mf_str d ''tool_invocation_id'' None) (\<lambda>inv.
     bindE (mf_str d ''tool_name'' None) (\<lambda>tool.
     bindE (mf_dict d ''tool_arguments'') (\<lambda>args.
     bindE (mf_model tool_config_of d ''tool_config'') (\<lambda>config.
     bindE (mf_opt_str d ''trace_id'') (\<lambda>trace.
       Inr \<lparr> ai_tenant = tenant, ai_assistant = assistant, ai_call = call, ai_turn = turn, ai_invocation = inv,
             ai_tool = tool, ai_arguments = args, ai_config = config, ai_trace = trace \<rparr>)))))))))"

definition action_input_dump :: "action_input \<Rightarrow> dict" where
  "action_input_dump a =
     [(''tenant_id'', PStr (ai_tenant a)), (''assistant_id'', PStr (ai_assistant a)), (''call_id'', PStr (ai_call a)),
      (''turn_id'', PStr (ai_turn a)), (''tool_invocation_id'', PStr (ai_invocation a)),
      (''tool_name'', PStr (ai_tool a)), (''tool_arguments'', PDict (ai_arguments a)),
      (''tool_config'', PDict (tool_config_dump (ai_config a))), (''trace_id'', opt_str (ai_trace a))]"

record billing_input =
  bi_tenant :: string
  bi_assistant :: string
  bi_call :: string
  bi_required :: "string list"
  bi_timeout :: int
  bi_settle :: int
  bi_policy :: billing_state
  bi_version :: string
  bi_group :: string
  bi_trace :: "string option"

definition billing_input_of :: "dict \<Rightarrow> billing_input res" where
  "billing_input_of d =
     bindE (mf_str d ''tenant_id'' (Some ''local-demo-tenant'')) (\<lambda>tenant.
     bindE (mf_str d ''assistant_id'' (Some ''local-demo-assistant'')) (\<lambda>assistant.
     bindE (mf_str d ''call_id'' None) (\<lambda>call.
     bindE (mf_strs d ''required_usage_types'' None) (\<lambda>required.
     bindE (mf_int d ''wait_timeout_seconds'' 20 None) (\<lambda>timeout.
     bindE (mf_int d ''settle_seconds'' 3 None) (\<lambda>settle.
     bindE (bindE (mf_str d ''missing_usage_policy'' (Some ''FINALIZED_WITH_WARNINGS'')) billing_state_of) (\<lambda>policy.
     bindE (mf_str d ''pricing_version'' (Some ''local-demo-v1'')) (\<lambda>version.
     bindE (mf_str d ''consumer_group'' (Some ''voicemesh-postgres-projector-v1'')) (\<lambda>grp.
     bindE (mf_opt_str d ''trace_id'') (\<lambda>trace.
       Inr \<lparr> bi_tenant = tenant, bi_assistant = assistant, bi_call = call, bi_required = required,
             bi_timeout = timeout, bi_settle = settle, bi_policy = policy, bi_version = version,
             bi_group = grp, bi_trace = trace \<rparr>))))))))))"

definition billing_input_dump :: "billing_input \<Rightarrow> dict" where
  "billing_input_dump b =
     [(''tenant_id'', PStr (bi_tenant b)), (''assistant_id'', PStr (bi_assistant b)), (''call_id'', PStr (bi_call b)),
      (''required_usage_types'', PList (map PStr (bi_required b))), (''wait_timeout_seconds'', PInt (bi_timeout b)),
      (''settle_seconds'', PInt (bi_settle b)), (''missing_usage_policy'', PStr (billing_name (bi_policy b))),
      (''pricing_version'', PStr (bi_version b)), (''consumer_group'', PStr (bi_group b)),
      (''trace_id'', opt_str (bi_trace b))]"

record webhook_input =
  wi_tenant :: string
  wi_assistant :: string
  wi_call :: string
  wi_delivery :: string
  wi_url :: string
  wi_event_type :: string
  wi_payload :: dict
  wi_key :: string
  wi_attempts :: int
  wi_backoff :: int
  wi_trace :: "string option"

definition webhook_input_of :: "dict \<Rightarrow> webhook_input res" where
  "webhook_input_of d =
     bindE (mf_str d ''tenant_id'' (Some ''local-demo-tenant'')) (\<lambda>tenant.
     bindE (mf_str d ''assistant_id'' (Some ''local-demo-assistant'')) (\<lambda>assistant.
     bindE (mf_str d ''call_id'' None) (\<lambda>call.
     bindE (mf_str d ''webhook_delivery_id'' None) (\<lambda>delivery.
     bindE (mf_str d ''target_url'' None) (\<lambda>url.
     bindE (mf_str d ''event_type'' (Some ''end_of_call_report'')) (\<lambda>et.
     bindE (mf_dict d ''payload'') (\<lambda>payload.
     bindE (mf_str d ''idempotency_key'' None) (\<lambda>key.
     bindE (mf_int d ''max_attempts'' 5 (Some 1)) (\<lambda>attempts.
     bindE (mf_int d ''backoff_seconds'' 2 (Some 0)) (\<lambda>backoff.
     bindE (mf_opt_str d ''trace_id'') (\<lambda>trace.
       Inr \<lparr> wi_tenant = tenant, wi_assistant = assistant, wi_call = call, wi_delivery = delivery, wi_url = url,
             wi_event_type = et, wi_payload = payload, wi_key = key, wi_attempts = attempts,
             wi_backoff = backoff, wi_trace = trace \<rparr>)))))))))))"

definition webhook_input_dump :: "webhook_input \<Rightarrow> dict" where
  "webhook_input_dump h =
     [(''tenant_id'', PStr (wi_tenant h)), (''assistant_id'', PStr (wi_assistant h)), (''call_id'', PStr (wi_call h)),
      (''webhook_delivery_id'', PStr (wi_delivery h)), (''target_url'', PStr (wi_url h)),
      (''event_type'', PStr (wi_event_type h)), (''payload'', PDict (wi_payload h)),
      (''idempotency_key'', PStr (wi_key h)), (''max_attempts'', PInt (wi_attempts h)),
      (''backoff_seconds'', PInt (wi_backoff h)), (''trace_id'', opt_str (wi_trace h))]"

subsection \<open>Laws of the models\<close>

definition http_config_ok :: "http_config \<Rightarrow> bool" where
  "http_config_ok c \<longleftrightarrow> 0 < hc_timeout c"

definition tool_config_ok :: "tool_config \<Rightarrow> bool" where
  "tool_config_ok c \<longleftrightarrow> http_config_ok (tg_create c) \<and> (\<forall>h. tg_cancel c = Some h \<longrightarrow> http_config_ok h)
     \<and> (\<forall>h. tg_status c = Some h \<longrightarrow> http_config_ok h) \<and> 1 \<le> tg_poll c \<and> 1 \<le> tg_max c"

lemmas mf_defs = mf_str_def mf_opt_str_def mf_int_def mf_positive_def mf_strs_def mf_dict_def mf_model_def
  mf_opt_model_def bad_field_def

lemma opt_str_field [simp]: "map_of d k = Some (opt_str s) \<Longrightarrow> mf_opt_str d k = Inr s"
  by (auto simp: mf_opt_str_def opt_str_def split: option.split)

lemma http_config_roundtrip: "http_config_ok c \<Longrightarrow> http_config_of (http_config_dump c) = Inr c"
  by (simp add: http_config_of_def http_config_dump_def mf_str_def mf_positive_def http_config_ok_def)

lemma response_mapping_roundtrip [simp]: "response_mapping_of (response_mapping_dump m) = Inr m"
  by (simp add: response_mapping_of_def response_mapping_dump_def mf_str_def)

lemma mf_opt_model_dump:
  "map_of d k = Some (dump_opt f c) \<Longrightarrow> (\<And>x. c = Some x \<Longrightarrow> p (f x) = Inr x) \<Longrightarrow> mf_opt_model p d k = Inr c"
  by (cases c) (simp_all add: mf_opt_model_def dump_opt_def)

lemma tool_config_roundtrip:
  assumes "tool_config_ok c"
  shows "tool_config_of (tool_config_dump c) = Inr c"
proof -
  have ok: "http_config_ok (tg_create c)" "\<And>h. tg_cancel c = Some h \<Longrightarrow> http_config_ok h"
    "\<And>h. tg_status c = Some h \<Longrightarrow> http_config_ok h" "1 \<le> tg_poll c" "1 \<le> tg_max c"
    using assms by (auto simp: tool_config_ok_def)
  note opt = mf_opt_model_dump [where f = http_config_dump and p = http_config_of]
  have "mf_opt_model http_config_of (tool_config_dump c) ''cancel'' = Inr (tg_cancel c)"
    by (rule opt) (simp_all add: tool_config_dump_def ok http_config_roundtrip)
  moreover have "mf_opt_model http_config_of (tool_config_dump c) ''status'' = Inr (tg_status c)"
    by (rule opt) (simp_all add: tool_config_dump_def ok http_config_roundtrip)
  ultimately show ?thesis
    using ok(1,4,5) unfolding tool_config_of_def
    by (simp add: mf_str_def mf_model_def mf_strs_def mf_int_def tool_config_dump_def http_config_roundtrip)
qed

lemma http_config_of_ok: "http_config_of d = Inr c \<Longrightarrow> http_config_ok c"
  by (auto simp: http_config_of_def http_config_ok_def bindE_eq_Inr mf_positive_def bad_field_def
      split: option.splits pyv.splits if_splits)

lemma mf_model_Inr: "mf_model p d k = Inr c \<Longrightarrow> \<exists>x. p x = Inr c"
  by (auto simp: mf_model_def bad_field_def split: option.splits pyv.splits)

lemma mf_opt_model_Inr: "mf_opt_model p d k = Inr (Some c) \<Longrightarrow> \<exists>x. p x = Inr c"
  by (auto simp: mf_opt_model_def bad_field_def bindE_eq_Inr split: option.splits pyv.splits)

lemma mf_int_least: "mf_int d k dflt (Some l) = Inr i \<Longrightarrow> l \<le> dflt \<Longrightarrow> l \<le> i"
  by (auto simp: mf_int_def bad_field_def split: option.splits pyv.splits if_splits)

lemma tool_config_of_ok:
  assumes "tool_config_of d = Inr c"
  shows "tool_config_ok c"
proof -
  have "mf_model http_config_of d ''create'' = Inr (tg_create c)"
    and "mf_opt_model http_config_of d ''cancel'' = Inr (tg_cancel c)"
    and "mf_opt_model http_config_of d ''status'' = Inr (tg_status c)"
    and "mf_int d ''poll_interval_seconds'' 10 (Some 1) = Inr (tg_poll c)"
    and "mf_int d ''max_runtime_seconds'' 3600 (Some 1) = Inr (tg_max c)"
    using assms unfolding tool_config_of_def by (auto simp only: bindE_eq_Inr sum.inject tool_config.select_convs)
  then show ?thesis unfolding tool_config_ok_def
    using mf_model_Inr mf_opt_model_Inr http_config_of_ok mf_int_least [where dflt = 10] mf_int_least [where dflt = 3600]
    by (metis one_le_numeral)
qed

lemma action_input_Inr:
  assumes "action_input_of d = Inr a"
  shows "tool_config_ok (ai_config a)"
proof -
  have "mf_model tool_config_of d ''tool_config'' = Inr (ai_config a)"
    using assms unfolding action_input_of_def bindE_eq_Inr sum.inject by (elim exE conjE, hypsubst) (simp only: action_input.select_convs)
  from mf_model_Inr [OF this] show ?thesis by (auto dest: tool_config_of_ok)
qed

lemma action_input_dump_parses:
  assumes "tool_config_ok (ai_config a)"
  shows "action_input_of (action_input_dump a) = Inr a"
  using assms by (simp add: action_input_of_def action_input_dump_def mf_str_def mf_dict_def mf_model_def
      tool_config_roundtrip)

lemma webhook_input_Inr:
  assumes "webhook_input_of d = Inr h"
  shows "1 \<le> wi_attempts h \<and> 0 \<le> wi_backoff h"
proof -
  have "mf_int d ''max_attempts'' 5 (Some 1) = Inr (wi_attempts h)"
    and "mf_int d ''backoff_seconds'' 2 (Some 0) = Inr (wi_backoff h)"
    using assms unfolding webhook_input_of_def bindE_eq_Inr sum.inject
    by (elim exE conjE, hypsubst, simp only: webhook_input.select_convs)+
  then show ?thesis using mf_int_least [where dflt = 5] mf_int_least [where dflt = 2] by fastforce
qed



text \<open>Rendering a template that is literal text around one tag gives the text with the tag replaced by the
value of its name, whatever the value is: an inserted value is never rendered again.\<close>

theorem render_inserts_value:
  assumes "CHR ''{'' \<notin> set a" "CHR ''{'' \<notin> set b" "name \<noteq> []" "list_all is_word_char name"
  shows "render_template rep values (a @ ''{{'' @ name @ ''}}'' @ b) = a @ tag_value rep values name @ b"
  using render_literal [OF assms(1), of rep "values" "''{{'' @ name @ ''}}'' @ b"] render_tag [OF assms(3,4), of rep "values" b]
    render_literal [OF assms(2), of rep "values" "[]"] by simp

lemma render_inserts_value_witness:
  "render_template (\<lambda>_. []) [(''id'', PStr ''{{id}}'')] (''/r/'' @ ''{{'' @ ''id'' @ ''}}'' @ ''/x'') = ''/r/{{id}}/x''"
  by (subst render_inserts_value) (simp_all add: tag_value_def is_word_char_def code_def)

end
