(* ===== verification/Activities.thy ===== *)
theory Activities
  imports Tools Effects "HOL-Library.Char_ord" "HOL-Library.List_Lexorder"
begin

text \<open>
  The Temporal activities (\<open>apps/worker/activities.py\<close>): the side effects the durable
  workflows ask for, each an action on the \<open>world\<close>, that is the tables, the HTTP requests
  sent so far and the counters of statements and fresh ids.

  Every statement runs on a connection of its own and commits at once, so an activity that raises
  keeps what its earlier statements wrote. What a statement, a request, \<open>uuid4()\<close> or the
  clock answers is the environment's choice: the record \<open>ext\<close>. Spans and metric counters are
  not modelled.
\<close>

record http_request =
  hq_method :: string
  hq_url :: string
  hq_body :: pyv
  hq_key :: string

record http_response =
  hp_status :: int
  hp_text :: string
  hp_json :: "pyv res"

text \<open>A statement can fail before it took effect, or after (a lost acknowledgement).\<close>

datatype stmt_fault = Fail_before exn | Fail_after exn

record provider_row =
  po_type :: string
  po_name :: string
  po_enabled :: bool

record tool_attempt_row =
  ta_invocation :: string
  ta_activity :: string
  ta_url :: string
  ta_status_code :: "int option"
  ta_success :: bool
  ta_error :: "string option"

record world =
  aw_db :: db
  aw_providers :: "provider_row list"
  aw_tool_attempts :: "tool_attempt_row list"
  aw_requests :: "http_request list"
  aw_stmts :: nat
  aw_ids :: nat

record ext =
  xt_env :: env
  xt_fault :: "nat \<Rightarrow> stmt_fault option"
  xt_http :: "http_request list \<Rightarrow> http_request \<Rightarrow> http_response res"
  xt_uuid4 :: "nat \<Rightarrow> string"
  xt_uuid_ok :: "string \<Rightarrow> bool"
  xt_now :: "nat \<Rightarrow> rat"
  xt_exn_str :: "exn \<Rightarrow> string"

type_synonym 'a activity = "(world, 'a) act"

subsection \<open>Statements, requests and arguments\<close>

text \<open>\<open>_execute\<close>, \<open>_fetchrow\<close> and \<open>_fetch\<close>: one statement, which may itself raise.\<close>

definition sql :: "ext \<Rightarrow> 'a activity \<Rightarrow> 'a activity" where
  "sql x stmt w =
     (let w1 = w\<lparr> aw_stmts := Suc (aw_stmts w) \<rparr> in
      case xt_fault x (aw_stmts w) of
        Some (Fail_before e) \<Rightarrow> (Inl e, w1)
      | Some (Fail_after e) \<Rightarrow> (Inl e, snd (stmt w1))
      | None \<Rightarrow> stmt w1)"

definition sql_write :: "ext \<Rightarrow> (rat \<Rightarrow> db \<Rightarrow> db) \<Rightarrow> unit activity" where
  "sql_write x f = sql x (upd (\<lambda>w. w\<lparr> aw_db := f (xt_now x (aw_stmts w)) (aw_db w) \<rparr>))"

definition sql_read :: "ext \<Rightarrow> (db \<Rightarrow> 'a) \<Rightarrow> 'a activity" where
  "sql_read x f = sql x (ask (\<lambda>w. act_ret (f (aw_db w))))"

text \<open>A request and what came of it: an exception of the client, or a response.\<close>

definition send_request :: "ext \<Rightarrow> http_request \<Rightarrow> http_response res activity" where
  "send_request x q w = (Inr (xt_http x (aw_requests w) q), w\<lparr> aw_requests := aw_requests w @ [q] \<rparr>)"

definition fresh_uuid :: "ext \<Rightarrow> string activity" where
  "fresh_uuid x w = (Inr (xt_uuid4 x (aw_ids w)), w\<lparr> aw_ids := Suc (aw_ids w) \<rparr>)"

text \<open>
  Arguments: \<open>data[k]\<close>, \<open>data.get(k)\<close> and \<open>data.get(k, default)\<close> bound to a text
  parameter of a statement, which the driver rejects when it is of another type.
\<close>

definition as_text :: "string \<Rightarrow> pyv \<Rightarrow> string res" where
  "as_text k v = (case v of PStr s \<Rightarrow> Inr s | _ \<Rightarrow> Inl (TypeError (k @ '': expected str'')))"

definition as_text_opt :: "string \<Rightarrow> pyv \<Rightarrow> string option res" where
  "as_text_opt k v =
     (case v of PNone \<Rightarrow> Inr None | PStr s \<Rightarrow> Inr (Some s) | _ \<Rightarrow> Inl (TypeError (k @ '': expected str'')))"

definition as_int_opt :: "string \<Rightarrow> pyv \<Rightarrow> int option res" where
  "as_int_opt k v =
     (case v of PNone \<Rightarrow> Inr None | PInt i \<Rightarrow> Inr (Some i) | _ \<Rightarrow> Inl (TypeError (k @ '': expected int'')))"

definition with_text :: "dict \<Rightarrow> string \<Rightarrow> (string \<Rightarrow> 'a activity) \<Rightarrow> 'a activity" where
  "with_text d k f = act_bind (act_lift (bindE (dict_item d k) (as_text k))) f"

definition with_text_or :: "dict \<Rightarrow> string \<Rightarrow> string \<Rightarrow> (string \<Rightarrow> 'a activity) \<Rightarrow> 'a activity" where
  "with_text_or d k s f = act_bind (act_lift (as_text k (dict_get_or d k (PStr s)))) f"

definition with_text_opt :: "dict \<Rightarrow> string \<Rightarrow> (string option \<Rightarrow> 'a activity) \<Rightarrow> 'a activity" where
  "with_text_opt d k f = act_bind (act_lift (as_text_opt k (dict_get d k))) f"

definition with_dict :: "dict \<Rightarrow> string \<Rightarrow> (dict \<Rightarrow> 'a activity) \<Rightarrow> 'a activity" where
  "with_dict d k f = act_bind (act_lift (as_dict (dict_get_or d k (PDict [])))) f"

definition with_item :: "dict \<Rightarrow> string \<Rightarrow> (pyv \<Rightarrow> 'a activity) \<Rightarrow> 'a activity" where
  "with_item d k f = act_bind (act_lift (dict_item d k)) f"

subsection \<open>Outbox and tool attempts\<close>

definition outbox_topic :: "event_type \<Rightarrow> string" where
  "outbox_topic e =
     (if startswith (event_value e) ''tool.'' then ''tool-events''
      else if startswith (event_value e) ''billing.'' then ''billing-events''
      else if startswith (event_value e) ''webhook.'' then ''webhook-events''
      else ''call-events'')"

definition insert_outbox_event :: "ext \<Rightarrow> pevent \<Rightarrow> unit activity" where
  "insert_outbox_event x e = sql_write x (\<lambda>now. enqueue_outbox e (outbox_topic (pe_event_type e)))"

text \<open>\<open>_context_values\<close>: the tool's arguments override the workflow's own data.\<close>

definition context_values :: "dict \<Rightarrow> dict res" where
  "context_values data =
     bindE (as_dict (dict_get_or data ''tool_arguments'' (PDict []))) (\<lambda>args.
       Inr (dict_set (dict_merge data args) ''external_request_id'' (dict_get data ''external_request_id'')))"

definition record_tool_attempt ::
  "ext \<Rightarrow> string \<Rightarrow> string \<Rightarrow> string \<Rightarrow> int option \<Rightarrow> bool \<Rightarrow> string option \<Rightarrow> unit activity" where
  "record_tool_attempt x tid name url status success err =
     sql x (upd (\<lambda>w. w\<lparr> aw_tool_attempts := aw_tool_attempts w @
       [\<lparr> ta_invocation = tid, ta_activity = name, ta_url = url, ta_status_code = status, ta_success = success,
          ta_error = err \<rparr>] \<rparr>))"

subsection \<open>Calls\<close>

definition update_call :: "string \<Rightarrow> (call_row \<Rightarrow> call_row) \<Rightarrow> db \<Rightarrow> db" where
  "update_call call f d =
     (case db_calls d call of None \<Rightarrow> d | Some c \<Rightarrow> d\<lparr> db_calls := (db_calls d)(call \<mapsto> f c) \<rparr>)"

definition coalesce :: "'a option \<Rightarrow> 'a option \<Rightarrow> 'a option" where
  "coalesce a b = (case a of None \<Rightarrow> b | Some y \<Rightarrow> Some y)"

definition persist_call_state :: "ext \<Rightarrow> dict \<Rightarrow> unit activity" where
  "persist_call_state x data =
     with_text data ''call_id'' (\<lambda>call.
     with_text data ''state'' (\<lambda>state.
       sql_write x (\<lambda>now. update_call call (\<lambda>c. c\<lparr> cl_status := state \<rparr>))))"

text \<open>\<open>provider_configs\<close> is listed in the order of its ids.\<close>

definition select_fallback_provider :: "ext \<Rightarrow> dict \<Rightarrow> dict activity" where
  "select_fallback_provider x data =
     with_item data ''call_id'' (\<lambda>_.
     with_text data ''stage'' (\<lambda>stage.
     with_text data ''provider'' (\<lambda>provider.
     act_bind (sql x (ask (\<lambda>w. act_ret
         (List.find (\<lambda>r. po_type r = stage \<and> po_enabled r \<and> po_name r \<noteq> provider) (aw_providers w))))) (\<lambda>row.
       act_ret [(''fallback_provider'', opt_str (map_option po_name row))]))))"

definition emit_recovery_event :: "ext \<Rightarrow> dict \<Rightarrow> unit activity" where
  "emit_recovery_event x data =
     with_text data ''call_id'' (\<lambda>call.
     act_bind (fresh_uuid x) (\<lambda>eid.
       sql_write x (\<lambda>now. enqueue_outbox
         \<lparr> pe_event_id = eid, pe_call_id = call, pe_turn_id = ''session'', pe_event_type = WORKFLOW_STATE_CHANGED,
           pe_stage = ''temporal'', pe_timestamp = now, pe_seq = 1, pe_key = call @ '':workflow:recovery'',
           pe_payload = data, pe_trace_id = None \<rparr> ''call-events'')))"

definition summarize_call :: "ext \<Rightarrow> dict \<Rightarrow> string activity" where
  "summarize_call x data =
     with_item data ''call_id'' (\<lambda>_.
       act_ret (py_str (en_rep (xt_env x))
         (py_or (dict_get data ''summary'') (PStr ''Call completed without a generated summary.''))))"

definition mark_call_completed :: "ext \<Rightarrow> dict \<Rightarrow> unit activity" where
  "mark_call_completed x data =
     with_text data ''call_id'' (\<lambda>call.
     with_text data ''summary'' (\<lambda>summary.
       sql_write x (\<lambda>now. update_call call (\<lambda>c. c\<lparr> cl_status := ''CALL_COMPLETED'', cl_summary := PStr summary,
         cl_ended_at := coalesce (cl_ended_at c) (Some now) \<rparr>))))"

definition mark_call_failed :: "ext \<Rightarrow> dict \<Rightarrow> unit activity" where
  "mark_call_failed x data =
     with_text_or data ''error'' ''unknown workflow failure'' (\<lambda>err.
     with_text data ''call_id'' (\<lambda>call.
       sql_write x (\<lambda>now. update_call call (\<lambda>c. c\<lparr> cl_status := ''CALL_FAILED'', cl_error := PStr err,
         cl_ended_at := coalesce (cl_ended_at c) (Some now) \<rparr>))))"

subsection \<open>Tool invocations\<close>

definition terminal_actions :: "string list" where
  "terminal_actions = [''CANCELLED'', ''COMPLETED'', ''CANNOT_CANCEL'', ''FAILED'', ''TIMED_OUT'']"

text \<open>\<open>INSERT INTO tool_invocations ... ON CONFLICT (tool_invocation_id) DO UPDATE\<close>\<close>

definition upsert_tool :: "string \<Rightarrow> tool_row \<Rightarrow> db \<Rightarrow> db" where
  "upsert_tool tid row d =
     d\<lparr> db_tools := (db_tools d)(tid \<mapsto>
        (case db_tools d tid of
           None \<Rightarrow> row
         | Some r \<Rightarrow> r\<lparr> to_workflow := coalesce (to_workflow row) (to_workflow r),
                       to_external := coalesce (to_external row) (to_external r),
                       to_status := to_status row, to_message := to_message row, to_error := to_error row,
                       to_cancel_requested := to_cancel_requested row,
                       to_cancel_reason := coalesce (to_cancel_reason row) (to_cancel_reason r),
                       to_completed := coalesce (to_completed row) (to_completed r) \<rparr>)) \<rparr>"

definition persist_tool_state :: "ext \<Rightarrow> dict \<Rightarrow> unit activity" where
  "persist_tool_state x data =
     with_text data ''call_id'' (\<lambda>call.
     with_text data ''tool_invocation_id'' (\<lambda>tid.
     with_text data ''tool_name'' (\<lambda>name.
     with_text data ''state'' (\<lambda>state.
     with_text_or data ''tenant_id'' ''local-demo-tenant'' (\<lambda>tenant.
     with_text_or data ''assistant_id'' ''local-demo-assistant'' (\<lambda>assistant.
     with_text data ''turn_id'' (\<lambda>turn.
     with_text_opt data ''workflow_id'' (\<lambda>workflow.
     with_text_opt data ''external_request_id'' (\<lambda>external.
     with_dict data ''tool_arguments'' (\<lambda>args.
     with_text_opt data ''message'' (\<lambda>message.
     with_text_opt data ''last_error'' (\<lambda>err.
     with_text_opt data ''cancel_reason'' (\<lambda>reason.
       sql_write x (\<lambda>now. upsert_tool tid
         \<lparr> to_tenant = tenant, to_assistant = assistant, to_call = call, to_turn = turn, to_name = name,
           to_workflow = workflow, to_external = external, to_status = state, to_arguments = args,
           to_message = message, to_error = err,
           to_cancel_requested = truthy (dict_get_or data ''cancel_requested'' (PBool False)),
           to_cancel_reason = reason,
           to_completed = (if state \<in> set terminal_actions then Some now else None) \<rparr>))))))))))))))"

definition event_types :: "event_type list" where
  "event_types =
     [CALL_STARTED, CALL_ENDED, CALL_FAILED, VAD_SPEECH_STARTED, VAD_SPEECH_ENDED, VAD_NOISE_TURN_IGNORED,
      VAD_PROVIDER_FAILED, VAD_STATE_CHANGED, USER_BARGE_IN_CANDIDATE, USER_BARGE_IN_CONFIRMED,
      USER_BARGE_IN_REJECTED, USER_BARGE_IN_CLASSIFIED, STT_STARTED, STT_FINAL_TRANSCRIPT, LLM_STARTED,
      LLM_FIRST_TOKEN, LLM_TOKEN, LLM_FINAL_RESPONSE, TTS_STARTED, TTS_FIRST_AUDIO, TTS_AUDIO_CHUNK, TTS_COMPLETED,
      TRANSPORT_AUDIO_SENT, PIPELINE_CORKED, PIPELINE_UNCORKED, PIPELINE_HARD_LIMIT_REACHED,
      PIPELINE_RESPONSE_CANCELLED, PIPELINE_STALE_CHUNK_DROPPED, PIPELINE_PLAYBACK_STOPPED, PIPELINE_STAGE_TIMEOUT,
      PROVIDER_FAILED, PROVIDER_FALLBACK_SELECTED, DUPLICATE_EVENT_IGNORED, POSTGRES_WRITE_FAILED,
      POSTGRES_RECOVERED, WORKFLOW_STATE_CHANGED, USAGE_STT_RECORDED, USAGE_LLM_RECORDED, USAGE_TTS_RECORDED,
      USAGE_FINALIZATION_BARRIER, BILLING_USAGE_RECORDED, BILLING_FINALIZED, BILLING_ADJUSTMENT_CREATED,
      TOOL_ACTION_REQUESTED, TOOL_ACTION_CREATE_STARTED, TOOL_ACTION_ACCEPTED, TOOL_ACTION_CANCEL_REQUESTED,
      TOOL_ACTION_CANCELLED, TOOL_ACTION_CANNOT_CANCEL, TOOL_ACTION_COMPLETED, TOOL_ACTION_FAILED,
      TOOL_ACTION_TIMED_OUT, WEBHOOK_DELIVERY_REQUESTED, WEBHOOK_DELIVERED, WEBHOOK_FAILED, WORKFLOW_DONE]"

text \<open>\<open>EventType(s)\<close>\<close>

definition event_type_of :: "string \<Rightarrow> event_type res" where
  "event_type_of s =
     (case List.find (\<lambda>e. event_value e = s) event_types of
        Some e \<Rightarrow> Inr e
      | None \<Rightarrow> Inl (ValueError (s @ '' is not a valid EventType'')))"

lemma event_types_all: "e \<in> set event_types"
  by (cases e) (simp_all only: event_types_def list.set insert_iff refl simp_thms)

lemma event_values_distinct: "distinct (map event_value event_types)"
  by code_simp

lemma event_type_of_value [simp]: "event_type_of (event_value e) = Inr e"
  by (simp add: event_type_of_def find_by_key event_values_distinct event_types_all)

text \<open>\<open>PipelineEvent.create\<close> with a fresh id and the clock.\<close>

definition create_event ::
  "ext \<Rightarrow> string \<Rightarrow> string \<Rightarrow> event_type \<Rightarrow> string \<Rightarrow> string \<Rightarrow> dict \<Rightarrow> string option \<Rightarrow> pevent activity" where
  "create_event x call turn e stage key payload trace =
     act_bind (fresh_uuid x) (\<lambda>eid. ask (\<lambda>w.
       act_lift (pe_create eid (xt_now x (aw_stmts w)) call turn e stage 1 (Some payload) trace (Some key))))"

definition emit_tool_event :: "ext \<Rightarrow> dict \<Rightarrow> unit activity" where
  "emit_tool_event x data =
     with_text data ''event_type'' (\<lambda>et.
     act_bind (act_lift (event_type_of et)) (\<lambda>e.
     with_text data ''call_id'' (\<lambda>call.
     with_text data ''tool_invocation_id'' (\<lambda>tid.
     with_text data ''turn_id'' (\<lambda>turn.
     with_item data ''tool_name'' (\<lambda>name.
     with_text_opt data ''trace_id'' (\<lambda>trace.
     act_bind (create_event x call turn e ''tool''
         (tid @ '':'' @ event_value e @ '':'' @ py_str (en_rep (xt_env x)) (dict_get data ''state''))
         [(''event_version'', PInt 1),
          (''tenant_id'', dict_get_or data ''tenant_id'' (PStr ''local-demo-tenant'')),
          (''assistant_id'', dict_get_or data ''assistant_id'' (PStr ''local-demo-assistant'')),
          (''tool_invocation_id'', PStr tid), (''workflow_id'', dict_get data ''workflow_id''), (''tool_name'', name),
          (''state'', dict_get data ''state''), (''external_request_id'', dict_get data ''external_request_id''),
          (''message'', dict_get data ''message''), (''last_error'', dict_get data ''last_error'')] trace)
       (insert_outbox_event x))))))))"

text \<open>The request an external action makes: its URL and its idempotency key are rendered templates.\<close>

definition http_config_for :: "string \<Rightarrow> tool_config \<Rightarrow> http_config option" where
  "http_config_for action c =
     (if action = ''create'' then Some (tg_create c) else if action = ''cancel'' then tg_cancel c else tg_status c)"

definition nonempty :: "string option \<Rightarrow> string option" where
  "nonempty s = (case s of None \<Rightarrow> None | Some t \<Rightarrow> if t = [] then None else Some t)"

definition action_request :: "env \<Rightarrow> string \<Rightarrow> http_config \<Rightarrow> dict \<Rightarrow> dict \<Rightarrow> http_request" where
  "action_request en action h data values =
     \<lparr> hq_method = hc_method h,
       hq_url = (case nonempty (hc_url h) of
                   Some u \<Rightarrow> u
                 | None \<Rightarrow> render_template (en_rep en) values
                     (case hc_url_template h of None \<Rightarrow> [] | Some t \<Rightarrow> t)),
       hq_body = (if action = ''status'' then PNone else dict_get_or data ''tool_arguments'' (PDict [])),
       hq_key = render_template (en_rep en) values
                  (case nonempty (hc_key_template h) of
                     Some t \<Rightarrow> t
                   | None \<Rightarrow> ''{{tool_invocation_id}}:'' @ action) \<rparr>"

text \<open>\<open>response.raise_for_status()\<close> and \<open>response.json() if response.content else {}\<close>\<close>

definition response_payload :: "http_response \<Rightarrow> pyv res" where
  "response_payload r =
     (if \<not> (200 \<le> hp_status r \<and> hp_status r < 300) then Inl (ProviderError ''HTTP status error'')
      else if hp_text r = [] then Inr (PDict []) else hp_json r)"

text \<open>
  \<open>_call_external_action\<close>. Everything inside its \<open>try\<close>, the writing of the success record
  included, is followed by a failure record when it raises, and the exception goes on.
\<close>

definition action_result :: "dict \<Rightarrow> tool_config \<Rightarrow> pyv \<Rightarrow> dict" where
  "action_result data c payload =
     [(''external_request_id'',
         py_or (extract_json_path payload (rm_id (tg_mapping c))) (dict_get data ''external_request_id'')),
      (''status'', extract_json_path payload (rm_status (tg_mapping c))),
      (''message'', extract_json_path payload (rm_message (tg_mapping c))),
      (''raw'', payload)]"

definition action_exchange :: "ext \<Rightarrow> string \<Rightarrow> string \<Rightarrow> tool_config \<Rightarrow> dict \<Rightarrow> http_request \<Rightarrow> dict activity" where
  "action_exchange x action tid c data q =
     act_bind (send_request x q) (\<lambda>answer.
       (let name = action @ ''_external_action'';
            status = (case answer of Inl _ \<Rightarrow> None | Inr r \<Rightarrow> Some (hp_status r))
        in act_try
             (act_bind (act_lift (bindE answer response_payload)) (\<lambda>payload.
              act_bind (record_tool_attempt x tid name (hq_url q) status True None)
                (\<lambda>_. act_ret (action_result data c payload))))
             (\<lambda>e. act_bind (record_tool_attempt x tid name (hq_url q) status False (Some (xt_exn_str x e)))
                     (\<lambda>_. act_raise e))))"

definition call_external_action :: "ext \<Rightarrow> string \<Rightarrow> dict \<Rightarrow> dict activity" where
  "call_external_action x action data =
     act_bind (act_lift (bindE (dict_item data ''tool_config'') as_dict)) (\<lambda>cd.
     act_bind (act_lift (tool_config_of cd)) (\<lambda>c.
       (case http_config_for action c of
          None \<Rightarrow> act_raise (ValueError (''No '' @ action @ '' HTTP config defined for '' @ tg_name c))
        | Some h \<Rightarrow>
            act_bind (act_lift (context_values data)) (\<lambda>values.
            with_text data ''tool_invocation_id'' (\<lambda>tid.
              action_exchange x action tid c data (action_request (xt_env x) action h data values))))))"

definition external_action :: "ext \<Rightarrow> string \<Rightarrow> dict \<Rightarrow> dict activity" where
  "external_action x action data =
     with_item data ''call_id'' (\<lambda>_. with_item data ''tool_invocation_id'' (\<lambda>_. call_external_action x action data))"

definition create_external_action :: "ext \<Rightarrow> dict \<Rightarrow> dict activity" where
  "create_external_action x = external_action x ''create''"

definition cancel_external_action :: "ext \<Rightarrow> dict \<Rightarrow> dict activity" where
  "cancel_external_action x = external_action x ''cancel''"

definition get_external_action_status :: "ext \<Rightarrow> dict \<Rightarrow> dict activity" where
  "get_external_action_status x = external_action x ''status''"

subsection \<open>Billing\<close>

record component_costs =
  cc_stt :: rat
  cc_llm :: rat
  cc_tts :: rat
  cc_telephony :: rat

definition add_component_cost :: "component_costs \<Rightarrow> usage_row \<Rightarrow> component_costs" where
  "add_component_cost c u =
     (if us_stage u = ''stt'' \<or> startswith (us_type u) ''audio_'' then c\<lparr> cc_stt := cc_stt c + us_cost u \<rparr>
      else if us_stage u = ''tts'' \<or> startswith (us_type u) ''input_text'' then c\<lparr> cc_tts := cc_tts c + us_cost u \<rparr>
      else if us_stage u = ''llm'' \<or> str_contains ''token'' (us_type u) then c\<lparr> cc_llm := cc_llm c + us_cost u \<rparr>
      else if us_stage u \<in> {''transport'', ''telephony''} \<or> str_contains ''telephony'' (us_type u)
      then c\<lparr> cc_telephony := cc_telephony c + us_cost u \<rparr>
      else c\<lparr> cc_llm := cc_llm c + us_cost u \<rparr>)"

definition billing_component_costs :: "usage_row list \<Rightarrow> component_costs" where
  "billing_component_costs usage =
     foldl add_component_cost \<lparr> cc_stt = 0, cc_llm = 0, cc_tts = 0, cc_telephony = 0 \<rparr> usage"

text \<open>The readiness query: the manifest, the projection's progress and what is missing.\<close>

record readiness =
  rd_manifest :: bool
  rd_watermark :: "int option"
  rd_caught_up :: bool
  rd_present :: "string list"
  rd_missing :: "string list"
  rd_missing_expectations :: "string list"
  rd_final :: "(string \<times> int) option"

definition missing_expectation_rows :: "string \<Rightarrow> db \<Rightarrow> expect_row list" where
  "missing_expectation_rows call d =
     sort_key ex_turn (sort_key ex_type
       (filter (\<lambda>e. ex_call e = call \<and>
          \<not> list_ex (\<lambda>u. ue_call u = ex_call e \<and> ue_turn u = ex_turn e \<and> ue_type u = ex_type e) (db_usage_events d))
        (db_expect d)))"

definition billed_type :: "string \<Rightarrow> string" where
  "billed_type t =
     (case map_of [(''audio_minute'', ''stt_audio_seconds''), (''input_token'', ''llm_input_tokens''),
                   (''cached_input_token'', ''llm_input_tokens''), (''output_token'', ''llm_output_tokens''),
                   (''output_audio_token'', ''tts_audio_seconds''), (''input_text_token'', ''tts_characters'')] t of
        None \<Rightarrow> t | Some b \<Rightarrow> b)"

definition present_types :: "string \<Rightarrow> db \<Rightarrow> string list" where
  "present_types call d =
     remdups (map ue_type (filter (\<lambda>u. ue_call u = call) (db_usage_events d))
              @ map (\<lambda>u. billed_type (us_type u)) (filter (\<lambda>u. us_call u = call) (db_usage d)))"

definition with_strs :: "dict \<Rightarrow> string \<Rightarrow> (string list \<Rightarrow> 'a activity) \<Rightarrow> 'a activity" where
  "with_strs d k f =
     act_bind (act_lift (bindE (as_list (dict_get_or d k (PList []))) (strs_of k))) f"

definition mark_reached :: "manifest_row option \<Rightarrow> int option \<Rightarrow> bool" where
  "mark_reached manifest watermark =
     (case (manifest, watermark) of (Some m, Some k) \<Rightarrow> ma_offset m \<le> k | _ \<Rightarrow> False)"

definition read_watermark :: "ext \<Rightarrow> dict \<Rightarrow> manifest_row option \<Rightarrow> int option activity" where
  "read_watermark x data manifest =
     (case manifest of
        None \<Rightarrow> act_ret None
      | Some m \<Rightarrow>
          with_text_or data ''consumer_group'' ''voicemesh-postgres-projector-v1'' (\<lambda>grp.
            sql_read x (\<lambda>d. db_marks d (grp, ma_topic m, ma_partition m))))"

definition load_billing_readiness :: "ext \<Rightarrow> dict \<Rightarrow> readiness activity" where
  "load_billing_readiness x data =
     with_text data ''call_id'' (\<lambda>call.
     act_bind (sql_read x (\<lambda>d. db_manifests d call)) (\<lambda>manifest.
     act_bind (read_watermark x data manifest) (\<lambda>watermark.
     act_bind (sql_read x (missing_expectation_rows call)) (\<lambda>rows.
     act_bind (sql_read x (present_types call)) (\<lambda>present.
     with_strs data ''required_usage_types'' (\<lambda>required.
     act_bind (sql_read x (\<lambda>d. db_final d call)) (\<lambda>final.
       act_ret
         \<lparr> rd_manifest = (manifest \<noteq> None), rd_watermark = watermark,
           rd_caught_up = mark_reached manifest watermark,
           rd_present = sort present,
           rd_missing = sort (remdups (filter (\<lambda>t. t \<notin> set present) required)),
           rd_missing_expectations = map (\<lambda>e. ex_turn e @ '':'' @ ex_type e) rows,
           rd_final = map_option (\<lambda>f. (fi_status f, fi_total f)) final \<rparr>)))))))"

text \<open>The duration the platform cost is computed from.\<close>

definition billed_seconds :: "billing_row option \<Rightarrow> call_row \<Rightarrow> rat" where
  "billed_seconds billing c =
     (case billing of
        Some b \<Rightarrow> if bl_duration b \<noteq> 0 then bl_duration b
                  else (case (cl_started_at c, cl_ended_at c) of (Some a, Some e) \<Rightarrow> e - a | _ \<Rightarrow> 0)
      | None \<Rightarrow> (case (cl_started_at c, cl_ended_at c) of (Some a, Some e) \<Rightarrow> e - a | _ \<Rightarrow> 0))"

record bill =
  ll_platform :: int
  ll_stt :: int
  ll_llm :: int
  ll_tts :: int
  ll_telephony :: int

definition bill_total :: "bill \<Rightarrow> int" where
  "bill_total l = ll_platform l + ll_stt l + ll_llm l + ll_tts l + ll_telephony l"

definition compute_bill :: "rat \<Rightarrow> usage_row list \<Rightarrow> bill" where
  "compute_bill seconds usage =
     (let c = billing_component_costs usage in
      \<lparr> ll_platform = cents (seconds / 60 * (5 / 100)), ll_stt = cents (cc_stt c), ll_llm = cents (cc_llm c),
        ll_tts = cents (cc_tts c), ll_telephony = cents (cc_telephony c) \<rparr>)"

text \<open>\<open>INSERT INTO final_call_billing_records ... ON CONFLICT (call_id) DO UPDATE\<close>\<close>

definition upsert_final :: "string \<Rightarrow> final_row \<Rightarrow> rat \<Rightarrow> db \<Rightarrow> db" where
  "upsert_final call row now d =
     d\<lparr> db_final := (db_final d)(call \<mapsto>
        (case db_final d call of
           None \<Rightarrow> row
         | Some r \<Rightarrow> r\<lparr> fi_seconds := fi_seconds row, fi_platform := fi_platform row, fi_stt := fi_stt row,
                       fi_llm := fi_llm row, fi_tts := fi_tts row, fi_total := fi_total row,
                       fi_status := fi_status row, fi_warnings := fi_warnings row,
                       fi_finalized_at := coalesce (fi_finalized_at r) (Some now) \<rparr>)) \<rparr>"

text \<open>What a finalization reports back.\<close>

record bill_report =
  br_call :: string
  br_status :: string
  br_bill :: bill
  br_total :: int
  br_warnings :: "string list"

definition billing_warnings :: "string list \<Rightarrow> string list \<Rightarrow> bool \<Rightarrow> bool \<Rightarrow> string list" where
  "billing_warnings types expectations manifest_missing caught_up =
     map (\<lambda>t. ''missing usage: '' @ t) types
     @ map (\<lambda>t. ''missing expected turn usage: '' @ t) expectations
     @ (if manifest_missing then [''missing usage finalization barrier''] else [])
     @ (if caught_up then [] else [''usage projection watermark did not catch up before timeout''])"

definition finalize_call_billing :: "ext \<Rightarrow> dict \<Rightarrow> bill_report activity" where
  "finalize_call_billing x data =
     with_text data ''call_id'' (\<lambda>call.
     act_bind (sql_read x (\<lambda>d. db_calls d call)) (\<lambda>row.
       (case row of
          None \<Rightarrow> act_raise (RuntimeError (''Call '' @ call @ '' not found''))
        | Some c \<Rightarrow>
     act_bind (sql_read x (\<lambda>d. filter (\<lambda>u. us_call u = call) (db_usage d))) (\<lambda>usage.
     act_bind (sql_read x (\<lambda>d. db_billing d call)) (\<lambda>billing.
     with_strs data ''missing_usage_types'' (\<lambda>types.
     with_strs data ''missing_expectations'' (\<lambda>expectations.
     with_item data ''status'' (\<lambda>sv.
     with_text_or data ''tenant_id'' ''local-demo-tenant'' (\<lambda>tenant.
     with_text_or data ''assistant_id'' ''local-demo-assistant'' (\<lambda>assistant.
     with_text_or data ''pricing_version'' ''local-demo-v1'' (\<lambda>version.
       (let seconds = billed_seconds billing c;
            l = compute_bill seconds usage;
            status = py_str (en_rep (xt_env x)) sv;
            warnings = billing_warnings types expectations (truthy (dict_get data ''manifest_missing''))
                         (truthy (dict_get_or data ''projection_caught_up'' (PBool True)))
        in act_bind (sql_write x (\<lambda>now. upsert_final call
             \<lparr> fi_tenant = tenant, fi_assistant = assistant, fi_started = cl_started_at c, fi_ended = cl_ended_at c,
               fi_seconds = round_half_up seconds, fi_platform = ll_platform l, fi_stt = ll_stt l,
               fi_llm = ll_llm l, fi_tts = ll_tts l, fi_telephony = ll_telephony l, fi_total = bill_total l,
               fi_currency = ''USD'', fi_version = version, fi_status = status, fi_warnings = warnings,
               fi_finalized_at = Some now \<rparr> now)) (\<lambda>_.
           act_ret \<lparr> br_call = call, br_status = status, br_bill = l, br_total = bill_total l,
                     br_warnings = warnings \<rparr>)))))))))))))"

record adjust_report =
  ar_id :: string
  ar_call :: string
  ar_previous :: int
  ar_recomputed :: int
  ar_delta :: int

text \<open>
  \<open>INSERT INTO billing_adjustments ... ON CONFLICT (call_id, source_event_id) DO NOTHING\<close>.
  A row without a source event conflicts with no other, but the primary key still has to be new.
\<close>

definition insert_adjustment :: "adjust_row \<Rightarrow> unit activity" where
  "insert_adjustment row w =
     (let rows = db_adjust (aw_db w) in
      if aj_source row \<noteq> None \<and> list_ex (\<lambda>r. aj_call r = aj_call row \<and> aj_source r = aj_source row) rows then (Inr (), w)
      else if list_ex (\<lambda>r. aj_id r = aj_id row) rows then (Inl (PostgresError ''duplicate key: billing_adjustments_pkey''), w)
      else (Inr (), w\<lparr> aw_db := (aw_db w)\<lparr> db_adjust := rows @ [row] \<rparr> \<rparr>))"

text \<open>\<open>UUID(str(source_event_id)) if source_event_id else None\<close>\<close>

definition source_uuid :: "ext \<Rightarrow> pyv \<Rightarrow> string option res" where
  "source_uuid x v =
     (if truthy v
      then (if xt_uuid_ok x (py_str (en_rep (xt_env x)) v) then Inr (Some (py_str (en_rep (xt_env x)) v))
            else Inl (ValueError ''badly formed hexadecimal UUID string''))
      else Inr None)"

definition adjust_call :: "ext \<Rightarrow> dict \<Rightarrow> string \<Rightarrow> call_row \<Rightarrow> final_row \<Rightarrow> adjust_report activity" where
  "adjust_call x data call c f =
     act_bind (sql_read x (\<lambda>d. filter (\<lambda>u. us_call u = call) (db_usage d))) (\<lambda>usage.
     act_bind (sql_read x (\<lambda>d. db_billing d call)) (\<lambda>billing.
       (let recomputed = bill_total (compute_bill (billed_seconds billing c) usage);
            previous = fi_total f;
            sv = dict_get data ''source_event_id'';
            aid = en_uuid5 (xt_env x)
                    (''voicemesh:billing-adjustment:'' @ call @ '':'' @ py_str (en_rep (xt_env x)) sv)
        in act_bind (act_lift (source_uuid x sv)) (\<lambda>source.
           with_text_or data ''tenant_id'' (fi_tenant f) (\<lambda>tenant.
           with_text_or data ''assistant_id'' (fi_assistant f) (\<lambda>assistant.
           with_text_or data ''reason'' ''late_usage_after_finalization'' (\<lambda>reason.
           with_text_opt data ''workflow_id'' (\<lambda>workflow.
           act_bind (sql x (insert_adjustment
             \<lparr> aj_id = aid, aj_call = call, aj_tenant = tenant, aj_assistant = assistant, aj_previous = previous,
               aj_recomputed = recomputed, aj_delta = recomputed - previous, aj_reason = reason, aj_source = source,
               aj_workflow = workflow, aj_status = ''CREATED'' \<rparr>)) (\<lambda>_.
             act_ret \<lparr> ar_id = aid, ar_call = call, ar_previous = previous, ar_recomputed = recomputed,
                       ar_delta = recomputed - previous \<rparr>)))))))))"

definition create_billing_adjustment :: "ext \<Rightarrow> dict \<Rightarrow> adjust_report activity" where
  "create_billing_adjustment x data =
     with_text data ''call_id'' (\<lambda>call.
     act_bind (sql_read x (\<lambda>d. db_calls d call)) (\<lambda>row.
     act_bind (sql_read x (\<lambda>d. db_final d call)) (\<lambda>final.
       (case row of
          None \<Rightarrow> act_raise (RuntimeError (''Final billing record is not available for '' @ call))
        | Some c \<Rightarrow>
            (case final of
               None \<Rightarrow> act_raise (RuntimeError (''Final billing record is not available for '' @ call))
             | Some f \<Rightarrow> adjust_call x data call c f)))))"

definition emit_workflow_event :: "ext \<Rightarrow> dict \<Rightarrow> unit activity" where
  "emit_workflow_event x data =
     with_text data ''event_type'' (\<lambda>et.
     act_bind (act_lift (event_type_of et)) (\<lambda>e.
     with_text data ''call_id'' (\<lambda>call.
     with_dict data ''payload'' (\<lambda>payload.
     with_text_opt data ''trace_id'' (\<lambda>trace.
     act_bind (create_event x call ''session'' e ''temporal''
         (call @ '':'' @ et @ '':'' @ py_str (en_rep (xt_env x)) (dict_get data ''workflow_id''))
         (dict_merge
           [(''event_version'', PInt 1),
            (''tenant_id'', dict_get_or data ''tenant_id'' (PStr ''local-demo-tenant'')),
            (''assistant_id'', dict_get_or data ''assistant_id'' (PStr ''local-demo-assistant'')),
            (''workflow_id'', dict_get data ''workflow_id'')] payload) trace)
       (insert_outbox_event x))))))"

subsection \<open>Webhooks\<close>

text \<open>\<open>INSERT INTO webhook_deliveries ... ON CONFLICT (webhook_delivery_id) DO UPDATE\<close>\<close>

definition upsert_webhook :: "string \<Rightarrow> webhook_row \<Rightarrow> db \<Rightarrow> db" where
  "upsert_webhook wid row d =
     d\<lparr> db_webhooks := (db_webhooks d)(wid \<mapsto>
        (case db_webhooks d wid of
           None \<Rightarrow> row
         | Some r \<Rightarrow> r\<lparr> we_workflow := coalesce (we_workflow row) (we_workflow r), we_status := we_status row,
                       we_attempts := max (we_attempts r) (we_attempts row),
                       we_status_code := coalesce (we_status_code row) (we_status_code r),
                       we_error := coalesce (we_error row) (we_error r),
                       we_completed := coalesce (we_completed row) (we_completed r) \<rparr>)) \<rparr>"

definition persist_webhook_delivery :: "ext \<Rightarrow> dict \<Rightarrow> unit activity" where
  "persist_webhook_delivery x data =
     with_text data ''status'' (\<lambda>status.
     with_text data ''webhook_delivery_id'' (\<lambda>wid.
     with_text_or data ''tenant_id'' ''local-demo-tenant'' (\<lambda>tenant.
     with_text_or data ''assistant_id'' ''local-demo-assistant'' (\<lambda>assistant.
     with_text data ''call_id'' (\<lambda>call.
     with_text_opt data ''workflow_id'' (\<lambda>workflow.
     with_text data ''target_url'' (\<lambda>url.
     with_text_or data ''event_type'' ''end_of_call_report'' (\<lambda>et.
     with_dict data ''payload'' (\<lambda>payload.
     act_bind (act_lift (as_int_opt ''attempts'' (dict_get data ''attempts''))) (\<lambda>attempts.
     act_bind (act_lift (as_int_opt ''last_status_code'' (dict_get data ''last_status_code''))) (\<lambda>status_code.
     with_text_opt data ''last_error'' (\<lambda>err.
     with_text data ''idempotency_key'' (\<lambda>key.
       sql_write x (\<lambda>now. upsert_webhook wid
         \<lparr> we_tenant = tenant, we_assistant = assistant, we_call = call, we_workflow = workflow, we_url = url,
           we_event_type = et, we_payload = payload, we_status = status,
           we_attempts = (case attempts of None \<Rightarrow> 0 | Some n \<Rightarrow> n), we_status_code = status_code, we_error = err,
           we_key = key,
           we_completed = (if status \<in> {''DELIVERED'', ''FAILED''} then Some now else None) \<rparr>))))))))))))))"

record delivery_report =
  dr_success :: bool
  dr_status_code :: "int option"
  dr_error :: "string option"

text \<open>The exchange itself never raises: an exception becomes the error text.\<close>

definition webhook_exchange :: "ext \<Rightarrow> string \<Rightarrow> pyv \<Rightarrow> string \<Rightarrow> delivery_report activity" where
  "webhook_exchange x url payload key =
     act_bind (send_request x \<lparr> hq_method = ''POST'', hq_url = url, hq_body = payload, hq_key = key \<rparr>) (\<lambda>answer.
       act_ret (case answer of
         Inl e \<Rightarrow> \<lparr> dr_success = False, dr_status_code = None, dr_error = Some (xt_exn_str x e) \<rparr>
       | Inr r \<Rightarrow>
           (let ok = 200 \<le> hp_status r \<and> hp_status r < 300
            in \<lparr> dr_success = ok, dr_status_code = Some (hp_status r),
                 dr_error = (if ok then None else Some (take 500 (hp_text r))) \<rparr>)))"

definition opt_int :: "int option \<Rightarrow> pyv" where
  "opt_int i = (case i of None \<Rightarrow> PNone | Some n \<Rightarrow> PInt n)"

definition deliver_webhook :: "ext \<Rightarrow> dict \<Rightarrow> delivery_report activity" where
  "deliver_webhook x data =
     act_bind (act_lift (bindE (dict_item data ''attempt_number'') (py_int (en_parse_int (xt_env x))))) (\<lambda>attempt.
     with_text data ''target_url'' (\<lambda>url.
     with_text data ''idempotency_key'' (\<lambda>key.
     act_bind (webhook_exchange x url (dict_get_or data ''payload'' (PDict [])) key) (\<lambda>r.
     with_text data ''webhook_delivery_id'' (\<lambda>wid.
     act_bind (sql x (upd (\<lambda>w. w\<lparr> aw_db := (aw_db w)\<lparr> db_attempts := db_attempts (aw_db w) @
         [\<lparr> wa_delivery = wid, wa_number = attempt, wa_status_code = dr_status_code r, wa_success = dr_success r,
            wa_error = dr_error r \<rparr>] \<rparr> \<rparr>))) (\<lambda>_.
     act_bind (persist_webhook_delivery x
         (dict_merge data
           [(''status'', PStr (if dr_success r then ''DELIVERED'' else ''DELIVERING'')), (''attempts'', PInt attempt),
            (''last_status_code'', opt_int (dr_status_code r)), (''last_error'', opt_str (dr_error r))])) (\<lambda>_.
       act_ret r)))))))"

subsection \<open>Runs that end well\<close>

lemma with_text_ok: "with_text d k f w = (Inr r, w') \<longleftrightarrow> (\<exists>s. map_of d k = Some (PStr s) \<and> f s w = (Inr r, w'))"
  by (auto simp: with_text_def act_bind_def act_lift_def dict_item_def as_text_def split: option.split pyv.split)

lemma with_text_or_ok:
  "with_text_or d k a f w = (Inr r, w') \<longleftrightarrow> (\<exists>s. dict_get_or d k (PStr a) = PStr s \<and> f s w = (Inr r, w'))"
  by (auto simp: with_text_or_def act_bind_def act_lift_def as_text_def split: pyv.split)

lemma with_text_opt_ok:
  "with_text_opt d k f w = (Inr r, w') \<longleftrightarrow> (\<exists>s. dict_get d k = opt_str s \<and> f s w = (Inr r, w'))"
  by (auto simp: with_text_opt_def act_bind_def act_lift_def as_text_opt_def opt_str_def
      split: pyv.split option.splits)

lemma with_item_ok: "with_item d k f w = (Inr r, w') \<longleftrightarrow> (\<exists>v. map_of d k = Some v \<and> f v w = (Inr r, w'))"
  by (auto simp: with_item_def act_bind_def act_lift_def dict_item_def split: option.split)

lemma with_strs_ok:
  "with_strs d k f w = (Inr r, w') \<longleftrightarrow>
     (\<exists>ss. bindE (as_list (dict_get_or d k (PList []))) (strs_of k) = Inr ss \<and> f ss w = (Inr r, w'))"
  by (auto simp: with_strs_def act_bind_def act_lift_def split: sum.split)

lemma with_dict_ok:
  "with_dict d k f w = (Inr r, w') \<longleftrightarrow> (\<exists>c. dict_get_or d k (PDict []) = PDict c \<and> f c w = (Inr r, w'))"
  by (auto simp: with_dict_def act_bind_def act_lift_def split: sum.split) (cases "dict_get_or d k (PDict [])"; simp)+

lemma sql_ok:
  "sql x m w = (Inr r, w') \<longleftrightarrow> xt_fault x (aw_stmts w) = None \<and> m (w\<lparr> aw_stmts := Suc (aw_stmts w) \<rparr>) = (Inr r, w')"
  by (auto simp: sql_def Let_def split: option.split stmt_fault.split)

lemma sql_read_ok:
  "sql_read x g w = (Inr r, w') \<longleftrightarrow>
     xt_fault x (aw_stmts w) = None \<and> r = g (aw_db w) \<and> w' = w\<lparr> aw_stmts := Suc (aw_stmts w) \<rparr>"
  by (auto simp: sql_read_def sql_ok ask_def act_ret_def)

lemma sql_write_ok:
  "sql_write x f w = (Inr r, w') \<longleftrightarrow>
     xt_fault x (aw_stmts w) = None \<and>
     w' = w\<lparr> aw_stmts := Suc (aw_stmts w), aw_db := f (xt_now x (Suc (aw_stmts w))) (aw_db w) \<rparr>"
  by (auto simp: sql_write_def sql_ok upd_def)

lemmas ok_rules = act_bind_ok act_lift_ok act_ret_ok with_text_ok with_text_or_ok with_text_opt_ok with_item_ok
  with_strs_ok with_dict_ok sql_read_ok sql_write_ok

subsection \<open>What a finalization writes\<close>

lemma component_costs_total:
  "cc_stt (foldl add_component_cost c us) + cc_llm (foldl add_component_cost c us) + cc_tts (foldl add_component_cost c us)
     + cc_telephony (foldl add_component_cost c us)
   = cc_stt c + cc_llm c + cc_tts c + cc_telephony c + sum_list (map us_cost us)"
proof (induction us arbitrary: c)
  case (Cons u us)
  have "cc_stt (add_component_cost c u) + cc_llm (add_component_cost c u) + cc_tts (add_component_cost c u)
     + cc_telephony (add_component_cost c u) = cc_stt c + cc_llm c + cc_tts c + cc_telephony c + us_cost u"
    by (simp add: add_component_cost_def)
  then show ?case using Cons [of "add_component_cost c u"] by simp
qed simp

lemma bill_error:
  "\<bar>of_int (bill_total (compute_bill s us)) - 100 * (s / 60 * (5 / 100) + sum_list (map us_cost us))\<bar> \<le> 5/2"
proof -
  let ?c = "billing_component_costs us"
  have "cc_stt ?c + cc_llm ?c + cc_tts ?c + cc_telephony ?c = sum_list (map us_cost us)"
    using component_costs_total [of "\<lparr> cc_stt = 0, cc_llm = 0, cc_tts = 0, cc_telephony = 0 \<rparr>" us]
    by (simp add: billing_component_costs_def)
  moreover define p where "p = s / 60 * (5 / 100)"
  ultimately have sum: "p + sum_list (map us_cost us) = p + cc_stt ?c + cc_llm ?c + cc_tts ?c + cc_telephony ?c" by simp
  show ?thesis
    using cents_error [of p] cents_error [of "cc_stt ?c"] cents_error [of "cc_llm ?c"]
      cents_error [of "cc_tts ?c"] cents_error [of "cc_telephony ?c"]
    unfolding bill_total_def compute_bill_def Let_def bill.select_convs of_int_add p_def [symmetric] sum abs_le_iff
    by (simp add: algebra_simps)
qed

definition call_usage :: "string \<Rightarrow> db \<Rightarrow> usage_row list" where
  "call_usage call d = filter (\<lambda>u. us_call u = call) (db_usage d)"

lemma finalize_ok:
  assumes "finalize_call_billing x data w = (Inr r, w')"
  obtains call c sv row now where "map_of data ''call_id'' = Some (PStr call)" "db_calls (aw_db w) call = Some c"
    "map_of data ''status'' = Some sv" "br_call r = call" "br_status r = py_str (en_rep (xt_env x)) sv"
    "br_bill r = compute_bill (billed_seconds (db_billing (aw_db w) call) c) (call_usage call (aw_db w))"
    "br_total r = bill_total (br_bill r)"
    "aw_db w' = upsert_final call row now (aw_db w)"
    "fi_platform row = ll_platform (br_bill r)" "fi_stt row = ll_stt (br_bill r)" "fi_llm row = ll_llm (br_bill r)"
    "fi_tts row = ll_tts (br_bill r)" "fi_telephony row = ll_telephony (br_bill r)" "fi_total row = br_total r"
    "fi_status row = br_status r" "fi_warnings row = br_warnings r"
proof -
  from assms show thesis
    unfolding finalize_call_billing_def Let_def call_usage_def [symmetric]
    apply (clarsimp simp: ok_rules act_raise_def split: option.splits)
    apply (rule that, assumption, assumption, assumption)
    apply simp+
    done
qed

lemma upsert_final_sel:
  "db_final (upsert_final call row now d) call = Some
     (case db_final d call of
        None \<Rightarrow> row
      | Some r \<Rightarrow> r\<lparr> fi_seconds := fi_seconds row, fi_platform := fi_platform row, fi_stt := fi_stt row,
                    fi_llm := fi_llm row, fi_tts := fi_tts row, fi_total := fi_total row,
                    fi_status := fi_status row, fi_warnings := fi_warnings row,
                    fi_finalized_at := coalesce (fi_finalized_at r) (Some now) \<rparr>)"
  by (simp add: upsert_final_def split: option.split)

definition bill_sum :: "final_row \<Rightarrow> int" where
  "bill_sum f = fi_platform f + fi_stt f + fi_llm f + fi_tts f + fi_telephony f"

subsection \<open>Readiness\<close>

lemma readiness_ok:
  assumes "load_billing_readiness x data w = (Inr r, w')" "rd_manifest r"
  obtains call grp m required where "map_of data ''call_id'' = Some (PStr call)" "db_manifests (aw_db w) call = Some m"
    "dict_get_or data ''consumer_group'' (PStr ''voicemesh-postgres-projector-v1'') = PStr grp"
    "bindE (as_list (dict_get_or data ''required_usage_types'' (PList []))) (strs_of ''required_usage_types'') = Inr required"
    "rd_caught_up r \<longleftrightarrow> (\<exists>k. db_marks (aw_db w) (grp, ma_topic m, ma_partition m) = Some k \<and> ma_offset m \<le> k)"
    "rd_missing r = sort (remdups (filter (\<lambda>t. t \<notin> set (present_types call (aw_db w))) required))"
    "rd_missing_expectations r = map (\<lambda>e. ex_turn e @ '':'' @ ex_type e) (missing_expectation_rows call (aw_db w))"
proof -
  from assms show thesis
    unfolding load_billing_readiness_def
    apply (clarsimp simp: ok_rules)
    apply (clarsimp simp: ok_rules read_watermark_def)
    apply (rule that, assumption, assumption, assumption, assumption)
    apply (auto simp: mark_reached_def split: option.split)
    done
qed

lemma missing_expectations_empty:
  "missing_expectation_rows call d = [] \<longleftrightarrow>
     (\<forall>e \<in> set (db_expect d). ex_call e = call \<longrightarrow>
        (\<exists>u \<in> set (db_usage_events d). ue_call u = call \<and> ue_turn u = ex_turn e \<and> ue_type u = ex_type e))"
proof -
  have "missing_expectation_rows call d = [] \<longleftrightarrow> set (missing_expectation_rows call d) = {}" by simp
  also have "\<dots> \<longleftrightarrow> (\<forall>e \<in> set (db_expect d). ex_call e = call \<longrightarrow>
        (\<exists>u \<in> set (db_usage_events d). ue_call u = call \<and> ue_turn u = ex_turn e \<and> ue_type u = ex_type e))"
    unfolding missing_expectation_rows_def by (auto simp: list_ex_iff)
  finally show ?thesis .
qed

definition ready :: "readiness \<Rightarrow> bool" where
  "ready r \<longleftrightarrow> rd_manifest r \<and> rd_caught_up r \<and> rd_missing r = [] \<and> rd_missing_expectations r = []"

subsection \<open>Adjustments\<close>

lemma adjust_call_ok:
  assumes "adjust_call x data call c f w = (Inr r, w')"
  obtains row u where "aw_db u = aw_db w" "insert_adjustment row u = (Inr (), w')"
    "aj_call row = call" "aj_previous row = fi_total f" "aj_delta row = aj_recomputed row - aj_previous row"
    "aj_recomputed row = bill_total (compute_bill (billed_seconds (db_billing (aw_db w) call) c) (call_usage call (aw_db w)))"
    "aj_id row = ar_id r" "ar_delta r = aj_delta row" "ar_previous r = aj_previous row"
    "ar_recomputed r = aj_recomputed row" "ar_call r = call"
    "source_uuid x (dict_get data ''source_event_id'') = Inr (aj_source row)"
proof -
  from assms show thesis
    unfolding adjust_call_def Let_def call_usage_def [symmetric]
    apply (clarsimp simp: ok_rules sql_ok)
    apply (rule that [where u = "w\<lparr> aw_stmts := Suc (Suc (Suc (aw_stmts w))) \<rparr>"])
    apply (simp, assumption)
    apply simp+
    done
qed

lemma adjustment_ok:
  assumes "create_billing_adjustment x data w = (Inr r, w')"
  obtains call c f u where "map_of data ''call_id'' = Some (PStr call)" "db_calls (aw_db w) call = Some c"
    "db_final (aw_db w) call = Some f" "aw_db u = aw_db w" "adjust_call x data call c f u = (Inr r, w')"
proof -
  from assms obtain call where call: "map_of data ''call_id'' = Some (PStr call)"
    and rest: "(case db_calls (aw_db w) call of
          None \<Rightarrow> act_raise (RuntimeError (''Final billing record is not available for '' @ call))
        | Some c \<Rightarrow>
            (case db_final (aw_db w) call of
               None \<Rightarrow> act_raise (RuntimeError (''Final billing record is not available for '' @ call))
             | Some f \<Rightarrow> adjust_call x data call c f)) (w\<lparr> aw_stmts := Suc (Suc (aw_stmts w)) \<rparr>) = (Inr r, w')"
    unfolding create_billing_adjustment_def ok_rules by (elim exE conjE, hypsubst) (simp cong: option.case_cong)
  show thesis
    using rest call that [where u = "w\<lparr> aw_stmts := Suc (Suc (aw_stmts w)) \<rparr>"]
    by (auto simp: act_raise_def split: option.splits)
qed

end
