(* ===== verification/Activity_Laws.thy ===== *)
theory Activity_Laws
  imports Activities
begin

text \<open>
  What every activity keeps: the tables the projector owns are never written, requests, attempts,
  adjustments and outbox rows are only appended, and a completed tool invocation, a completed
  webhook delivery and a finalized bill stay so. The relation \<open>act_le\<close> says it; it is kept by
  every composition of actions, so each activity's proof is the rules applied to its statements.
\<close>

definition opt_le :: "'a option \<Rightarrow> 'a option \<Rightarrow> bool" where
  "opt_le a b \<longleftrightarrow> a = None \<or> a = b"

definition same_projection :: "db \<Rightarrow> db \<Rightarrow> bool" where
  "same_projection d e \<longleftrightarrow>
     db_keys e = db_keys d \<and> db_events e = db_events d \<and> db_metrics e = db_metrics d \<and> db_pricing e = db_pricing d
     \<and> db_usage e = db_usage d \<and> db_usage_events e = db_usage_events d \<and> db_rollups e = db_rollups d
     \<and> db_manifests e = db_manifests d \<and> db_expect e = db_expect d \<and> db_marks e = db_marks d \<and> db_billing e = db_billing d"

definition tool_le :: "tool_row \<Rightarrow> tool_row \<Rightarrow> bool" where
  "tool_le r s \<longleftrightarrow> to_tenant s = to_tenant r \<and> to_call s = to_call r \<and> to_turn s = to_turn r \<and> to_name s = to_name r
     \<and> to_arguments s = to_arguments r \<and> (to_completed r \<noteq> None \<longrightarrow> to_completed s \<noteq> None)"

definition webhook_le :: "webhook_row \<Rightarrow> webhook_row \<Rightarrow> bool" where
  "webhook_le r s \<longleftrightarrow> we_url s = we_url r \<and> we_payload s = we_payload r \<and> we_key s = we_key r
     \<and> we_attempts r \<le> we_attempts s \<and> (we_completed r \<noteq> None \<longrightarrow> we_completed s \<noteq> None)"

definition final_le :: "final_row \<Rightarrow> final_row \<Rightarrow> bool" where
  "final_le r s \<longleftrightarrow> fi_tenant s = fi_tenant r \<and> fi_version s = fi_version r \<and> fi_telephony s = fi_telephony r
     \<and> opt_le (fi_finalized_at r) (fi_finalized_at s)"

definition rows_le :: "('r \<Rightarrow> 'r \<Rightarrow> bool) \<Rightarrow> (string \<Rightarrow> 'r option) \<Rightarrow> (string \<Rightarrow> 'r option) \<Rightarrow> bool" where
  "rows_le R m n \<longleftrightarrow> (\<forall>k r. m k = Some r \<longrightarrow> (\<exists>s. n k = Some s \<and> R r s))"

definition db_le :: "db \<Rightarrow> db \<Rightarrow> bool" where
  "db_le d e \<longleftrightarrow> same_projection d e \<and> prefix (db_outbox d) (db_outbox e) \<and> prefix (db_adjust d) (db_adjust e)
     \<and> prefix (db_attempts d) (db_attempts e) \<and> dom (db_calls e) = dom (db_calls d)
     \<and> rows_le tool_le (db_tools d) (db_tools e) \<and> rows_le webhook_le (db_webhooks d) (db_webhooks e)
     \<and> rows_le final_le (db_final d) (db_final e)"

definition act_le :: "world \<Rightarrow> world \<Rightarrow> bool" where
  "act_le v w \<longleftrightarrow> db_le (aw_db v) (aw_db w) \<and> prefix (aw_requests v) (aw_requests w)
     \<and> prefix (aw_tool_attempts v) (aw_tool_attempts w) \<and> aw_providers w = aw_providers v
     \<and> aw_stmts v \<le> aw_stmts w \<and> aw_ids v \<le> aw_ids w"

lemma rows_le_refl: "(\<And>r. R r r) \<Longrightarrow> rows_le R m m"
  by (auto simp: rows_le_def)

lemma row_le_refl: "tool_le r r" "webhook_le h h" "final_le f f"
  by (simp_all add: tool_le_def webhook_le_def final_le_def opt_le_def)

lemma row_le_trans:
  "tool_le a b \<Longrightarrow> tool_le b c \<Longrightarrow> tool_le a c"
  "webhook_le h i \<Longrightarrow> webhook_le i j \<Longrightarrow> webhook_le h j"
  "final_le f g \<Longrightarrow> final_le g l \<Longrightarrow> final_le f l"
  by (auto simp: tool_le_def webhook_le_def final_le_def opt_le_def)

lemma same_projection_refl: "same_projection d d"
  by (simp add: same_projection_def)

lemma same_projection_trans: "same_projection a b \<Longrightarrow> same_projection b c \<Longrightarrow> same_projection a c"
  by (simp add: same_projection_def)

lemma db_le_refl [simp]: "db_le d d"
  by (simp add: db_le_def same_projection_refl rows_le_refl row_le_refl)

lemma rows_trans:
  "rows_le tool_le m n \<Longrightarrow> rows_le tool_le n k \<Longrightarrow> rows_le tool_le m k"
  "rows_le webhook_le h i \<Longrightarrow> rows_le webhook_le i j \<Longrightarrow> rows_le webhook_le h j"
  "rows_le final_le f g \<Longrightarrow> rows_le final_le g l \<Longrightarrow> rows_le final_le f l"
  unfolding rows_le_def by (metis row_le_trans(1), metis row_le_trans(2), metis row_le_trans(3))

lemma db_le_trans: "db_le a b \<Longrightarrow> db_le b c \<Longrightarrow> db_le a c"
  unfolding db_le_def
  using same_projection_trans [of a b c] rows_trans(1) [of "db_tools a" "db_tools b" "db_tools c"]
    rows_trans(2) [of "db_webhooks a" "db_webhooks b" "db_webhooks c"]
    rows_trans(3) [of "db_final a" "db_final b" "db_final c"]
  by (simp add: prefix_order.order_trans [of "db_outbox a" "db_outbox b"]
      prefix_order.order_trans [of "db_adjust a" "db_adjust b"] prefix_order.order_trans [of "db_attempts a" "db_attempts b"])

interpretation act: effect_order act_le
proof
  show "act_le w w" for w by (simp add: act_le_def)
next
  fix u v w
  assume "act_le u v" "act_le v w"
  then show "act_le u w"
    unfolding act_le_def using db_le_trans [of "aw_db u" "aw_db v" "aw_db w"]
    by (auto intro: prefix_order.order_trans)
qed

subsection \<open>Statements\<close>

lemma keeps_sql:
  assumes "keeps act_le m"
  shows "keeps act_le (sql x m)"
proof (rule keepsI)
  fix w :: world
  let ?w = "w\<lparr> aw_stmts := Suc (aw_stmts w) \<rparr>"
  have 1: "act_le w ?w" by (simp add: act_le_def)
  have 2: "act_le ?w (snd (m ?w))" using assms by (simp add: keeps_def)
  show "act_le w (snd (sql x m w))"
    using 1 act.order_trans [OF 1 2] by (simp add: sql_def Let_def split: option.split stmt_fault.split)
qed

lemma keeps_sql_read: "keeps act_le (sql_read x g)"
  unfolding sql_read_def by (intro keeps_sql act.keeps_rules)

lemma keeps_sql_write: "(\<And>now d. db_le d (f now d)) \<Longrightarrow> keeps act_le (sql_write x f)"
  unfolding sql_write_def by (intro keeps_sql act.keeps_upd) (simp add: act_le_def)

lemma keeps_send_request: "keeps act_le (send_request x q)"
  by (rule keepsI) (simp add: send_request_def act_le_def)

lemma keeps_fresh: "keeps act_le (fresh_uuid x)"
  by (rule keepsI) (simp add: fresh_uuid_def act_le_def)

lemma keeps_with:
  "(\<And>s. keeps act_le (f s)) \<Longrightarrow> keeps act_le (with_text d k f)"
  "(\<And>s. keeps act_le (f s)) \<Longrightarrow> keeps act_le (with_text_or d k a f)"
  "(\<And>s. keeps act_le (g s)) \<Longrightarrow> keeps act_le (with_text_opt d k g)"
  "(\<And>s. keeps act_le (h s)) \<Longrightarrow> keeps act_le (with_dict d k h)"
  "(\<And>s. keeps act_le (i s)) \<Longrightarrow> keeps act_le (with_item d k i)"
  "(\<And>s. keeps act_le (j s)) \<Longrightarrow> keeps act_le (with_strs d k j)"
  unfolding with_text_def with_text_or_def with_text_opt_def with_dict_def with_item_def with_strs_def
  by (intro act.keeps_rules; simp)+

lemmas act_intro = act.keeps_rules keeps_sql keeps_sql_read keeps_sql_write keeps_fresh keeps_send_request keeps_with

lemma enqueue_le: "db_le d (enqueue_outbox e t d)"
  by (simp add: enqueue_outbox_def db_le_def same_projection_def rows_le_refl row_le_refl)

lemma update_call_le: "db_le d (update_call call f d)"
  by (auto simp: update_call_def db_le_def same_projection_def rows_le_refl row_le_refl split: option.split)

lemma rows_le_upd: "(\<And>r. m k = Some r \<Longrightarrow> R r s) \<Longrightarrow> (\<And>r. R r r) \<Longrightarrow> rows_le R m (m(k \<mapsto> s))"
  by (simp add: rows_le_def)

lemma upsert_tool_le: "db_le d (upsert_tool tid row d)"
  unfolding upsert_tool_def db_le_def
  by (auto simp: same_projection_def rows_le_refl row_le_refl tool_le_def coalesce_def split: option.split
      intro!: rows_le_upd)

lemma upsert_final_le: "db_le d (upsert_final call row now d)"
  unfolding upsert_final_def db_le_def
  by (auto simp: same_projection_def rows_le_refl row_le_refl final_le_def opt_le_def coalesce_def split: option.split
      intro!: rows_le_upd)

lemma upsert_webhook_le: "db_le d (upsert_webhook wid row d)"
  unfolding upsert_webhook_def db_le_def
  by (auto simp: same_projection_def rows_le_refl row_le_refl webhook_le_def coalesce_def split: option.split
      intro!: rows_le_upd)

subsection \<open>The activities\<close>

lemma keeps_insert_outbox: "keeps act_le (insert_outbox_event x e)"
  unfolding insert_outbox_event_def by (intro act_intro enqueue_le)

lemma keeps_create_event: "keeps act_le (create_event x call turn e stage key payload trace)"
  unfolding create_event_def by (intro act_intro)

lemma keeps_record_attempt: "keeps act_le (record_tool_attempt x tid name url status success err)"
  unfolding record_tool_attempt_def by (intro act_intro act.keeps_upd) (simp add: act_le_def)

lemma keeps_call_activities:
  "keeps act_le (persist_call_state x data)" "keeps act_le (select_fallback_provider x data)"
  "keeps act_le (emit_recovery_event x data)" "keeps act_le (summarize_call x data)"
  "keeps act_le (mark_call_completed x data)" "keeps act_le (mark_call_failed x data)"
  unfolding persist_call_state_def select_fallback_provider_def emit_recovery_event_def summarize_call_def
    mark_call_completed_def mark_call_failed_def
  by (intro act_intro enqueue_le update_call_le)+

lemma keeps_tool_activities:
  "keeps act_le (persist_tool_state x data)" "keeps act_le (emit_tool_event x data)"
  unfolding persist_tool_state_def emit_tool_event_def
  by (intro act_intro upsert_tool_le keeps_create_event keeps_insert_outbox)+

lemma keeps_external_action: "keeps act_le (external_action x action data)"
  unfolding external_action_def call_external_action_def action_exchange_def Let_def
  by (intro act_intro keeps_record_attempt)

lemma keeps_external_actions:
  "keeps act_le (create_external_action x data)" "keeps act_le (cancel_external_action x data)"
  "keeps act_le (get_external_action_status x data)"
  unfolding create_external_action_def cancel_external_action_def get_external_action_status_def
  by (rule keeps_external_action)+

lemma keeps_readiness: "keeps act_le (load_billing_readiness x data)"
  unfolding load_billing_readiness_def read_watermark_def by (intro act_intro)

lemma keeps_finalize_call: "keeps act_le (finalize_call_billing x data)"
  unfolding finalize_call_billing_def Let_def by (intro act_intro upsert_final_le)

lemma keeps_insert_adjustment: "keeps act_le (insert_adjustment row)"
  by (rule keepsI) (simp add: insert_adjustment_def Let_def act_le_def db_le_def same_projection_def rows_le_refl row_le_refl)

lemma keeps_adjustment: "keeps act_le (create_billing_adjustment x data)"
  unfolding create_billing_adjustment_def adjust_call_def Let_def by (intro act_intro keeps_insert_adjustment)

lemma keeps_workflow_event: "keeps act_le (emit_workflow_event x data)"
  unfolding emit_workflow_event_def by (intro act_intro keeps_create_event keeps_insert_outbox)

lemma keeps_persist_webhook: "keeps act_le (persist_webhook_delivery x data)"
  unfolding persist_webhook_delivery_def by (intro act_intro upsert_webhook_le)

lemma keeps_deliver_webhook: "keeps act_le (deliver_webhook x data)"
  unfolding deliver_webhook_def webhook_exchange_def
  by (intro act_intro act.keeps_upd keeps_persist_webhook)
     (simp add: act_le_def db_le_def same_projection_def rows_le_refl row_le_refl)

lemmas keeps_activities = keeps_call_activities keeps_tool_activities keeps_external_actions keeps_readiness
  keeps_finalize_call keeps_adjustment keeps_workflow_event keeps_persist_webhook keeps_deliver_webhook

subsection \<open>Requests to external systems\<close>

lemma record_attempt_requests: "aw_requests (snd (record_tool_attempt x tid name url status success err w)) = aw_requests w"
  by (simp add: record_tool_attempt_def sql_def upd_def Let_def split: option.split stmt_fault.split)

lemma record_attempt_clean:
  "(\<And>n. xt_fault x n = None) \<Longrightarrow>
     record_tool_attempt x tid name url status success err w =
       (Inr (), w\<lparr> aw_stmts := Suc (aw_stmts w), aw_tool_attempts := aw_tool_attempts w @
         [\<lparr> ta_invocation = tid, ta_activity = name, ta_url = url, ta_status_code = status, ta_success = success,
            ta_error = err \<rparr>] \<rparr>)"
  by (simp add: record_tool_attempt_def sql_def upd_def Let_def)

interpretation quiet: effect_order "\<lambda>v w. aw_requests w = aw_requests v"
  by unfold_locales auto

lemma exchange_requests: "aw_requests (snd (action_exchange x action tid c data q w)) = aw_requests w @ [q]"
proof -
  let ?rest = "\<lambda>answer. (let name = action @ ''_external_action'';
            status = (case answer of Inl _ \<Rightarrow> None | Inr r \<Rightarrow> Some (hp_status r))
        in act_try
             (act_bind (act_lift (bindE answer response_payload)) (\<lambda>payload.
              act_bind (record_tool_attempt x tid name (hq_url q) status True None)
                (\<lambda>_. act_ret (action_result data c payload))))
             (\<lambda>e. act_bind (record_tool_attempt x tid name (hq_url q) status False (Some (xt_exn_str x e)))
                     (\<lambda>_. act_raise e)))"
  have rec: "keeps (\<lambda>v w. aw_requests w = aw_requests v) (record_tool_attempt x tid name url status success err)"
    for name url status success err
    by (rule keepsI) (rule record_attempt_requests)
  have "keeps (\<lambda>v w. aw_requests w = aw_requests v) (?rest answer)" for answer
    unfolding Let_def by (intro quiet.keeps_rules rec)
  then show ?thesis
    unfolding action_exchange_def act_bind_def [of "send_request x q"] by (simp add: send_request_def keeps_def)
qed

definition planned_request :: "ext \<Rightarrow> string \<Rightarrow> dict \<Rightarrow> http_request option" where
  "planned_request x action data =
     (case bindE (bindE (dict_item data ''tool_config'') as_dict) tool_config_of of
        Inl _ \<Rightarrow> None
      | Inr c \<Rightarrow>
          (case (http_config_for action c, context_values data) of
             (Some h, Inr values) \<Rightarrow> Some (action_request (xt_env x) action h data values)
           | _ \<Rightarrow> None))"

lemma external_action_requests:
  "aw_requests (snd (external_action x action data w)) = aw_requests w
   \<or> (\<exists>q. planned_request x action data = Some q \<and> aw_requests (snd (external_action x action data w)) = aw_requests w @ [q])"
  unfolding external_action_def call_external_action_def planned_request_def with_item_def with_text_def
  by (auto simp: act_bind_def act_lift_def act_raise_def exchange_requests bindE_def split: sum.splits option.splits prod.splits)

text \<open>C28: However often Temporal runs an external action again, it asks for the same thing: an execution sends at most
one request, and every request sent on behalf of the same input, by whichever execution and against whatever state, is
the same one, idempotency key included.\<close>

theorem retries_repeat_the_request:
  "\<exists>q. \<forall>w. aw_requests (snd (external_action x action data w)) = aw_requests w
     \<or> aw_requests (snd (external_action x action data w)) = aw_requests w @ [q]"
proof (cases "planned_request x action data")
  case None
  then show ?thesis using external_action_requests [of x action data] by auto
next
  case (Some q)
  then show ?thesis using external_action_requests [of x action data] by (intro exI [of _ q]) auto
qed

lemma exchange_audited:
  assumes "\<And>n. xt_fault x n = None"
  shows "\<exists>a. aw_tool_attempts (snd (action_exchange x action tid c data q w)) = aw_tool_attempts w @ [a]
     \<and> ta_invocation a = tid \<and> ta_url a = hq_url q \<and> (ta_success a \<longleftrightarrow> \<not> isl (fst (action_exchange x action tid c data q w)))"
  using assms
  by (auto simp: action_exchange_def send_request_def act_bind_def act_try_def act_lift_def act_ret_def act_raise_def
      Let_def record_attempt_clean split: sum.split)

text \<open>Every exchange with an external system is on record. When the database works, an execution that sent a
request leaves exactly one new attempt row, and the row says success exactly when the activity returned a result.\<close>

theorem external_action_is_recorded:
  assumes "\<forall>n. xt_fault x n = None" and "external_action x action data w = (r, w')"
    and "aw_requests w' \<noteq> aw_requests w"
  shows "\<exists>a. aw_tool_attempts w' = aw_tool_attempts w @ [a] \<and> (ta_success a \<longleftrightarrow> \<not> isl r)"
proof -
  have "\<exists>tid c q. external_action x action data w = action_exchange x action tid c data q w
     \<or> snd (external_action x action data w) = w"
    unfolding external_action_def call_external_action_def with_item_def with_text_def
    by (auto simp: act_bind_def act_lift_def act_raise_def split: sum.split option.split)
  then obtain tid c q where e: "external_action x action data w = action_exchange x action tid c data q w"
    using assms(2,3) by auto
  have "\<And>n. xt_fault x n = None" using assms(1) by simp
  from exchange_audited [OF this, of action tid c data q w] show ?thesis
    using assms(2) unfolding e by auto
qed

text \<open>Inputs for the witnesses.\<close>

definition action_ext :: "(http_request list \<Rightarrow> http_request \<Rightarrow> http_response res) \<Rightarrow> ext" where
  "action_ext http = \<lparr> xt_env = \<lparr> en_platform_rate = 1/20, en_pricing_version = ''v1'', en_uuid5 = (\<lambda>s. s),
       en_parse_decimal = (\<lambda>_. None), en_parse_int = (\<lambda>_. None), en_rep = (\<lambda>_. ''?''),
       en_decimal_str = (\<lambda>_. ''0''), en_now = 100 \<rparr>,
     xt_fault = (\<lambda>_. None), xt_http = http, xt_uuid4 = (\<lambda>n. ''id'' @ nat_str n), xt_uuid_ok = (\<lambda>_. True),
     xt_now = (\<lambda>n. of_nat n), xt_exn_str = (\<lambda>_. ''error'') \<rparr>"

definition world0 :: world where
  "world0 = \<lparr> aw_db = db_empty [], aw_providers = [], aw_tool_attempts = [], aw_requests = [], aw_stmts = 0, aw_ids = 0 \<rparr>"

definition tool_config_demo :: tool_config where
  "tool_config_demo =
     (let h = \<lparr> hc_method = ''POST'', hc_url = Some ''http://crm'', hc_url_template = None, hc_key_template = None, hc_timeout = 5 \<rparr>
      in \<lparr> tg_name = ''refund'', tg_mode = M_DURABLE_ACTION, tg_create = h, tg_cancel = Some h, tg_status = Some h,
           tg_mapping = \<lparr> rm_id = ''$.id'', rm_status = ''$.status'', rm_message = ''$.message'' \<rparr>,
           tg_terminal = [''completed''], tg_poll = 10, tg_max = 20 \<rparr>)"

definition tool_data :: "dict \<Rightarrow> dict" where
  "tool_data args =
     [(''tenant_id'', PStr ''t''), (''assistant_id'', PStr ''a''), (''call_id'', PStr ''c1''), (''turn_id'', PStr ''t1''),
      (''tool_invocation_id'', PStr ''i1''), (''tool_name'', PStr ''refund''), (''tool_arguments'', PDict args),
      (''tool_config'', PDict (tool_config_dump tool_config_demo)), (''trace_id'', PNone)]"

lemma tool_config_demo_ok [simp]: "tool_config_of (tool_config_dump tool_config_demo) = Inr tool_config_demo"
  by (rule tool_config_roundtrip) (simp add: tool_config_ok_def tool_config_demo_def http_config_ok_def Let_def)

lemmas action_run_defs = external_action_def call_external_action_def action_exchange_def send_request_def
  context_values_def with_item_def with_text_def act_bind_def act_lift_def act_try_def act_ret_def act_raise_def
  dict_item_def dict_get_or_def dict_get_def as_text_def http_config_for_def Let_def

lemma external_action_is_recorded_witness:
  "\<exists>r w' a. external_action (action_ext (\<lambda>_ _. Inl TimeoutError)) ''create'' (tool_data []) world0 = (r, w')
     \<and> aw_tool_attempts w' = [a] \<and> \<not> ta_success a"
proof -
  let ?x = "action_ext (\<lambda>_ _. Inl TimeoutError)"
  have clean: "\<And>n. xt_fault ?x n = None" by (simp add: action_ext_def)
  have http: "xt_http ?x = (\<lambda>_ _. Inl TimeoutError)" by (simp add: action_ext_def)
  obtain r w' where run: "external_action ?x ''create'' (tool_data []) world0 = (r, w')" by (rule prod.exhaust)
  have "aw_requests w' \<noteq> aw_requests world0 \<and> isl r"
    using run by (auto simp: action_run_defs tool_data_def world0_def record_attempt_clean [OF clean] http)
  then show ?thesis using external_action_is_recorded [of ?x "''create''" "tool_data []" world0 r w'] clean run
    by (auto simp: world0_def)
qed

text \<open>The default idempotency key of an external action is not tied to the invocation: the tool's arguments are
merged over the workflow's data, so when the arguments have a field named \<open>tool_invocation_id\<close>, its value
replaces the invocation's id in the key.\<close>

theorem arguments_choose_idempotency_key:
  assumes "map_of data ''tool_arguments'' = Some (PDict args)" and "map_of (rev args) ''tool_invocation_id'' = Some (PStr s)"
    and "hc_key_template h = None" and "CHR ''{'' \<notin> set action"
  shows "\<exists>values. context_values data = Inr values \<and> hq_key (action_request en action h data values) = s @ '':'' @ action"
proof -
  let ?v = "dict_set (dict_merge data args) ''external_request_id'' (dict_get data ''external_request_id'')"
  have v: "map_of ?v ''tool_invocation_id'' = Some (PStr s)"
    using assms(2) by (simp add: map_of_dict_merge)
  have tv: "tag_value (en_rep en) ?v ''tool_invocation_id'' = s" unfolding tag_value_def v by simp
  have "list_all is_word_char ''tool_invocation_id''" by (simp add: is_word_char_def code_def)
  from render_tag [OF _ this, of "en_rep en" ?v "'':'' @ action"]
  have "render_template (en_rep en) ?v (''{{'' @ ''tool_invocation_id'' @ ''}}'' @ '':'' @ action)
      = s @ render_template (en_rep en) ?v ('':'' @ action)"
    unfolding tv by simp
  also have "render_template (en_rep en) ?v ('':'' @ action) = '':'' @ action"
    using render_literal [of "'':'' @ action" "en_rep en" ?v "[]"] assms(4) by simp
  finally have "hq_key (action_request en action h data ?v) = s @ '':'' @ action"
    using assms(3) by (simp add: action_request_def nonempty_def)
  moreover have "context_values data = Inr ?v"
    using assms(1) by (simp add: context_values_def dict_get_or_def)
  ultimately show ?thesis by blast
qed

lemma arguments_choose_idempotency_key_witness:
  "\<exists>values. context_values (tool_data [(''tool_invocation_id'', PStr ''x'')]) = Inr values
     \<and> hq_key (action_request (xt_env (action_ext (\<lambda>_ _. Inl TimeoutError))) ''create'' (tg_create tool_config_demo) (tool_data [(''tool_invocation_id'', PStr ''x'')]) values)
       = ''x:create''"
proof -
  have "\<exists>values. context_values (tool_data [(''tool_invocation_id'', PStr ''x'')]) = Inr values
     \<and> hq_key (action_request (xt_env (action_ext (\<lambda>_ _. Inl TimeoutError))) ''create'' (tg_create tool_config_demo) (tool_data [(''tool_invocation_id'', PStr ''x'')]) values)
       = ''x'' @ '':'' @ ''create''"
    by (rule arguments_choose_idempotency_key [where args = "[(''tool_invocation_id'', PStr ''x'')]"]) (simp_all add: tool_data_def tool_config_demo_def Let_def)
  then show ?thesis by simp
qed

end
