(* ===== verification/Temporal.thy ===== *)
theory Temporal
  imports Activity_Laws
begin

text \<open>
  The part of the Temporal runtime the workflows rely on, as documented: activities are executed
  with a retry policy, \<open>wait_condition\<close> ends when its condition holds or times out, and signal
  handlers run whenever a workflow is waiting.

  A workflow's state is its object's fields, the \<open>world\<close> its activities act on and the number
  of times it has waited; which signals arrive at which wait is the runtime's choice. An activity with a
  bounded policy that keeps failing raises \<open>ActivityError\<close>. One without a bound is retried
  until it succeeds or until the run is terminated from outside, which is \<open>CancelledError\<close> after
  \<open>rn_patience\<close> attempts; \<open>except Exception\<close> does not catch it.
\<close>

record 'f flow =
  fl_fields :: 'f
  fl_world :: world
  fl_awaits :: nat

record 's runtime =
  rn_ext :: ext
  rn_patience :: nat
  rn_signals :: "nat \<Rightarrow> 's list"
  rn_workflow_id :: string

datatype retry_policy = Max_attempts nat | Unlimited

definition deliver :: "('s \<Rightarrow> 'f \<Rightarrow> 'f) \<Rightarrow> 's runtime \<Rightarrow> 'f flow \<Rightarrow> 'f flow" where
  "deliver handler rn fl =
     fl\<lparr> fl_fields := fold handler (rn_signals rn (fl_awaits fl)) (fl_fields fl), fl_awaits := Suc (fl_awaits fl) \<rparr>"

fun attempt :: "nat \<Rightarrow> 'a activity \<Rightarrow> 'a activity" where
  "attempt 0 m w = (Inl CancelledError, w)"
| "attempt (Suc n) m w =
     (case m w of
        (Inr r, v) \<Rightarrow> (Inr r, v)
      | (Inl e, v) \<Rightarrow> if n = 0 then (Inl e, v) else attempt n m v)"

definition under_policy :: "retry_policy \<Rightarrow> nat \<Rightarrow> 'a activity \<Rightarrow> 'a activity" where
  "under_policy pol patience m w =
     (case pol of
        Max_attempts n \<Rightarrow>
          (case attempt n m w of
             (Inl e, v) \<Rightarrow> (Inl (ActivityError ''Activity task failed''), v)
           | (Inr r, v) \<Rightarrow> (Inr r, v))
      | Unlimited \<Rightarrow>
          (case attempt patience m w of (Inl e, v) \<Rightarrow> (Inl CancelledError, v) | (Inr r, v) \<Rightarrow> (Inr r, v)))"

text \<open>\<open>await workflow.execute_activity(...)\<close>\<close>

definition execute ::
  "('s \<Rightarrow> 'f \<Rightarrow> 'f) \<Rightarrow> 's runtime \<Rightarrow> retry_policy \<Rightarrow> 'a activity \<Rightarrow> ('f flow, 'a) act" where
  "execute handler rn pol m fl =
     (case under_policy pol (rn_patience rn) m (fl_world fl) of
        (r, w) \<Rightarrow> (r, deliver handler rn (fl\<lparr> fl_world := w \<rparr>)))"

text \<open>\<open>await workflow.wait_condition(c, timeout=...)\<close>\<close>

definition wait_condition :: "('s \<Rightarrow> 'f \<Rightarrow> 'f) \<Rightarrow> 's runtime \<Rightarrow> ('f \<Rightarrow> bool) \<Rightarrow> ('f flow, unit) act" where
  "wait_condition handler rn c fl =
     (if c (fl_fields fl) then (Inr (), fl)
      else let fl1 = deliver handler rn fl
           in if c (fl_fields fl1) then (Inr (), fl1) else (Inl TimeoutError, fl1))"

definition sleep :: "('s \<Rightarrow> 'f \<Rightarrow> 'f) \<Rightarrow> 's runtime \<Rightarrow> ('f flow, unit) act" where
  "sleep handler rn = upd (deliver handler rn)"

text \<open>\<open>try: m except Exception as e: h(e)\<close>\<close>

definition act_except :: "('s, 'a) act \<Rightarrow> (exn \<Rightarrow> ('s, 'a) act) \<Rightarrow> ('s, 'a) act" where
  "act_except m h = act_try m (\<lambda>e. if e = CancelledError then act_raise e else h e)"

definition with_self :: "('f \<Rightarrow> ('f flow, 'a) act) \<Rightarrow> ('f flow, 'a) act" where
  "with_self f = ask (\<lambda>fl. f (fl_fields fl))"

definition set_self :: "('f \<Rightarrow> 'f) \<Rightarrow> ('f flow, unit) act" where
  "set_self g = upd (\<lambda>fl. fl\<lparr> fl_fields := g (fl_fields fl) \<rparr>)"

lemmas flow_defs = execute_def wait_condition_def sleep_def act_except_def with_self_def set_self_def act_defs

subsection \<open>What a workflow does to the world\<close>

definition flow_le :: "'f flow \<Rightarrow> 'f flow \<Rightarrow> bool" where
  "flow_le a b \<longleftrightarrow> act_le (fl_world a) (fl_world b)"

interpretation flow: effect_order flow_le
  by unfold_locales (auto simp: flow_le_def act.order_refl intro: act.order_trans)

lemma keeps_attempt: "keeps act_le m \<Longrightarrow> act_le w (snd (attempt n m w))"
proof (induction n arbitrary: w)
  case (Suc n)
  then have m: "act_le w (snd (m w))" by (simp add: keeps_def)
  show ?case using m Suc.IH [OF Suc.prems, of "snd (m w)"]
    by (auto split: prod.split sum.split intro: act.order_trans)
qed (simp add: act.order_refl)

lemma keeps_under_policy: "keeps act_le m \<Longrightarrow> keeps act_le (under_policy pol k m)"
proof (rule keepsI)
  fix w
  assume m: "keeps act_le m"
  show "act_le w (snd (under_policy pol k m w))"
    using keeps_attempt [OF m, of w k] keeps_attempt [OF m, of w]
    by (auto simp: under_policy_def split: retry_policy.split prod.split sum.split) (metis snd_conv)+
qed

lemma deliver_world [simp]: "fl_world (deliver handler rn fl) = fl_world fl"
  by (simp add: deliver_def)

lemma keeps_execute: "keeps act_le m \<Longrightarrow> keeps flow_le (execute handler rn pol m)"
  using keeps_under_policy [of m pol "rn_patience rn"]
  by (auto simp: keeps_def execute_def flow_le_def split: prod.split) (metis snd_conv)

lemma keeps_wait: "keeps flow_le (wait_condition handler rn c)"
  by (rule keepsI) (simp add: wait_condition_def flow_le_def Let_def act.order_refl)

lemma keeps_sleep: "keeps flow_le (sleep handler rn)"
  unfolding sleep_def by (rule flow.keeps_upd) (simp add: flow_le_def act.order_refl)

lemma keeps_except: "keeps flow_le m \<Longrightarrow> (\<And>e. keeps flow_le (h e)) \<Longrightarrow> keeps flow_le (act_except m h)"
  unfolding act_except_def by (intro flow.keeps_try flow.keeps_if flow.keeps_raise)

lemma keeps_with_self: "(\<And>f. keeps flow_le (g f)) \<Longrightarrow> keeps flow_le (with_self g)"
  unfolding with_self_def by (rule flow.keeps_ask)

lemma keeps_set_self: "keeps flow_le (set_self g)"
  unfolding set_self_def by (rule flow.keeps_upd) (simp add: flow_le_def act.order_refl)

lemmas flow_intro = flow.keeps_rules keeps_execute keeps_wait keeps_sleep keeps_except keeps_with_self keeps_set_self

lemma execute_fails: "execute handler rn (Max_attempts n) m fl = (Inl e, fl') \<Longrightarrow> e = ActivityError ''Activity task failed''"
  by (auto simp: execute_def under_policy_def split: prod.splits sum.splits)

lemma execute_ok:
  "execute handler rn pol m fl = (Inr r, fl') \<longleftrightarrow>
     (\<exists>w. under_policy pol (rn_patience rn) m (fl_world fl) = (Inr r, w) \<and> fl' = deliver handler rn (fl\<lparr> fl_world := w \<rparr>))"
  by (auto simp: execute_def split: prod.splits)

text \<open>A successful execution is a successful run of the activity, in a world earlier attempts left.\<close>

lemma attempt_ok: "keeps act_le m \<Longrightarrow> attempt n m w = (Inr r, w') \<Longrightarrow> \<exists>v. act_le w v \<and> m v = (Inr r, w')"
proof (induction n arbitrary: w)
  case (Suc n)
  show ?case
  proof (cases "m w")
    case (Pair s v)
    show ?thesis
    proof (cases s)
      case (Inl e)
      have "attempt n m v = (Inr r, w')" using Suc.prems(2) Pair Inl by (auto split: if_splits)
      then obtain u where "act_le v u" "m u = (Inr r, w')" using Suc.IH [OF Suc.prems(1)] by blast
      then show ?thesis using keepsD [OF Suc.prems(1) Pair] act.order_trans by blast
    next
      case (Inr a)
      then show ?thesis using Suc.prems(2) Pair act.order_refl by auto
    qed
  qed
qed simp

lemma under_policy_ok:
  "keeps act_le m \<Longrightarrow> under_policy pol k m w = (Inr r, w') \<Longrightarrow> \<exists>v. act_le w v \<and> m v = (Inr r, w')"
  by (auto simp: under_policy_def split: retry_policy.splits prod.splits sum.splits dest!: attempt_ok)

lemma attempt_keeps:
  assumes "\<And>u. P u \<Longrightarrow> P (snd (m u))" and "P w"
  shows "P (snd (attempt n m w))"
  using assms(2)
proof (induction n arbitrary: w)
  case (Suc n)
  have "P (snd (m w))" using assms(1) Suc.prems by blast
  then show ?case using Suc.IH [of "snd (m w)"] by (auto split: prod.split sum.split)
qed simp

lemma under_policy_keeps:
  assumes "\<And>u. P u \<Longrightarrow> P (snd (m u))" and "P w"
  shows "P (snd (under_policy pol k m w))"
  using attempt_keeps [of P m w k, OF assms] attempt_keeps [of P m w, OF assms]
  by (auto simp: under_policy_def split: retry_policy.split prod.split sum.split) (metis snd_conv)+

subsection \<open>Runs on a working database\<close>

lemma map_of_rev_distinct: "distinct (map fst xs) \<Longrightarrow> map_of (rev xs) = map_of xs"
proof (induction xs)
  case (Cons a xs)
  then have "map_of xs (fst a) = None" by (simp add: map_of_eq_None_iff)
  then show ?case using Cons by (cases a) (auto simp: map_add_def split: option.split)
qed simp

lemma dict_merge_merge: "dict_merge (dict_merge d a) b = dict_merge d (a @ b)"
  by (simp add: dict_merge_def)

lemma unlimited_first: "m w = (Inr r, v) \<Longrightarrow> 0 < k \<Longrightarrow> under_policy Unlimited k m w = (Inr r, v)"
  by (cases k) (simp_all add: under_policy_def)

definition clean :: "ext \<Rightarrow> bool" where
  "clean x \<longleftrightarrow> (\<forall>n. xt_fault x n = None)"

lemma sql_clean: "clean x \<Longrightarrow> sql x m w = m (w\<lparr> aw_stmts := Suc (aw_stmts w) \<rparr>)"
  by (simp add: clean_def sql_def Let_def)

lemma sql_read_clean: "clean x \<Longrightarrow> sql_read x g w = (Inr (g (aw_db w)), w\<lparr> aw_stmts := Suc (aw_stmts w) \<rparr>)"
  by (simp add: sql_read_def sql_clean ask_def act_ret_def)

lemma sql_write_clean:
  "clean x \<Longrightarrow> sql_write x f w =
     (Inr (), w\<lparr> aw_stmts := Suc (aw_stmts w), aw_db := f (xt_now x (Suc (aw_stmts w))) (aw_db w) \<rparr>)"
  by (simp add: sql_write_def sql_clean upd_def)

end
