(* ===== verification/Kafka.thy ===== *)
theory Kafka
  imports Events "HOL-Library.Sublist"
begin

text \<open>
  The batching consumer (\<open>apps/api/events/kafka_consumer.py\<close>, class
  \<open>KafkaEventConsumer\<close>).

  The broker is an argument: \<open>getmany timeout max\<close> returns the next records, grouped by
  partition as \<open>aiokafka\<close> does. The handler is an argument over a world \<open>'w\<close>. JSON
  decoding and pydantic validation of a message are the argument \<open>decode\<close>. One turn of the
  \<open>while True\<close> loop is \<open>kc_cycle\<close>; the clock readings of a turn are arguments. Lag gauges
  and spans are not modelled.
\<close>

record message =
  ms_topic :: string
  ms_partition :: int
  ms_offset :: int
  ms_value :: string

record consumed =
  co_event :: pevent
  co_topic :: string
  co_partition :: int
  co_offset :: int

type_synonym tp = "string \<times> int"
type_synonym records = "(tp \<times> message list) list"

text \<open>
  The attributes of the consumer and the local variables of \<open>run\<close>. \<open>kc_fetched\<close> and
  \<open>kc_handled\<close> are history variables: the events decoded so far and the batches the handler
  accepted.
\<close>

record 'w kc =
  kc_batch_size :: int
  kc_timeout_ms :: rat
  kc_buffered :: "consumed list"
  kc_deadline :: rat
  kc_committed :: "tp \<Rightarrow> int option"
  kc_world :: 'w
  kc_fetched :: "consumed list"
  kc_handled :: "consumed list list"

text \<open>The start of \<open>run\<close>: an empty buffer and the first deadline.\<close>

definition kc_new :: "int \<Rightarrow> rat \<Rightarrow> rat \<Rightarrow> (tp \<Rightarrow> int option) \<Rightarrow> 'w \<Rightarrow> 'w kc" where
  "kc_new bsize timeout now committed w =
     \<lparr> kc_batch_size = bsize, kc_timeout_ms = timeout, kc_buffered = [], kc_deadline = now + timeout / 1000,
       kc_committed = committed, kc_world = w, kc_fetched = [], kc_handled = [] \<rparr>"

text \<open>\<open>_decode_records\<close>: the first message that does not validate ends the consumer.\<close>

fun kc_decode :: "(string \<Rightarrow> pevent res) \<Rightarrow> message list \<Rightarrow> consumed list res" where
  "kc_decode decode [] = Inr []"
| "kc_decode decode (m # ms) =
     bindE (decode (ms_value m)) (\<lambda>e.
     bindE (kc_decode decode ms) (\<lambda>rest.
       Inr (\<lparr> co_event = e, co_topic = ms_topic m, co_partition = ms_partition m, co_offset = ms_offset m \<rparr> # rest)))"

definition kc_messages :: "records \<Rightarrow> message list" where
  "kc_messages rs = concat (map snd rs)"

definition kc_decode_records :: "(string \<Rightarrow> pevent res) \<Rightarrow> records \<Rightarrow> consumed list res" where
  "kc_decode_records decode rs = kc_decode decode (kc_messages rs)"

text \<open>\<open>_commit_batch\<close>: the highest offset of each partition, plus one.\<close>

definition kc_offsets :: "consumed list \<Rightarrow> tp \<Rightarrow> int option" where
  "kc_offsets batch =
     foldl (\<lambda>offs c. let k = (co_topic c, co_partition c)
                     in offs(k \<mapsto> max (case offs k of None \<Rightarrow> 0 | Some n \<Rightarrow> n) (co_offset c + 1)))
       Map.empty batch"

definition kc_is_barrier :: "consumed \<Rightarrow> bool" where
  "kc_is_barrier c = (pe_event_type (co_event c) = USAGE_FINALIZATION_BARRIER)"

definition kc_remaining_ms :: "rat \<Rightarrow> 'w kc \<Rightarrow> int" where
  "kc_remaining_ms now k = max 1 (rat_trunc ((kc_deadline k - now) * 1000))"

definition kc_max_records :: "'w kc \<Rightarrow> int" where
  "kc_max_records k = max 1 (kc_batch_size k - int (length (kc_buffered k)))"

text \<open>
  Hand the batch over and commit it. An exception of the handler ends the consumer before the
  commit; what the handler did to its world is then up to the handler.
\<close>

definition kc_flush ::
  "(consumed list \<Rightarrow> 'w \<Rightarrow> 'w \<times> exn option) \<Rightarrow> rat \<Rightarrow> 'w kc \<Rightarrow> 'w kc \<times> exn option" where
  "kc_flush handler now k =
     (let batch = kc_buffered k;
          k1 = k\<lparr> kc_buffered := [], kc_deadline := now + kc_timeout_ms k / 1000 \<rparr>
      in case handler batch (kc_world k) of
           (w, Some e) \<Rightarrow> (k1\<lparr> kc_world := w \<rparr>, Some e)
         | (w, None) \<Rightarrow> (k1\<lparr> kc_world := w, kc_committed := kc_committed k ++ kc_offsets batch,
                             kc_handled := kc_handled k @ [batch] \<rparr>, None))"

text \<open>One turn of the loop. \<open>t1\<close>, \<open>t2\<close>, \<open>t3\<close> are the clock readings in the order they are taken.\<close>

definition kc_cycle ::
  "(int \<Rightarrow> int \<Rightarrow> records) \<Rightarrow> (string \<Rightarrow> pevent res) \<Rightarrow> (consumed list \<Rightarrow> 'w \<Rightarrow> 'w \<times> exn option)
   \<Rightarrow> rat \<Rightarrow> rat \<Rightarrow> rat \<Rightarrow> 'w kc \<Rightarrow> 'w kc \<times> exn option" where
  "kc_cycle getmany decode handler t1 t2 t3 k =
     (case kc_decode_records decode (getmany (kc_remaining_ms t1 k) (kc_max_records k)) of
        Inl e \<Rightarrow> (k, Some e)
      | Inr decoded \<Rightarrow>
         (let k1 = k\<lparr> kc_buffered := kc_buffered k @ decoded, kc_fetched := kc_fetched k @ decoded \<rparr>;
              barrier_seen = list_ex kc_is_barrier decoded;
              timed_out = (t2 \<ge> kc_deadline k);
              batch_full = (int (length (kc_buffered k1)) \<ge> kc_batch_size k)
          in if kc_buffered k1 = [] then
               (if timed_out then k1\<lparr> kc_deadline := t3 + kc_timeout_ms k / 1000 \<rparr> else k1, None)
             else if \<not> (barrier_seen \<or> timed_out \<or> batch_full) then (k1, None)
             else kc_flush handler t3 k1))"

text \<open>The loop over a finite stretch of turns, each with its broker answer and clock readings.\<close>

fun kc_run ::
  "(string \<Rightarrow> pevent res) \<Rightarrow> (consumed list \<Rightarrow> 'w \<Rightarrow> 'w \<times> exn option)
   \<Rightarrow> ((int \<Rightarrow> int \<Rightarrow> records) \<times> rat \<times> rat \<times> rat) list \<Rightarrow> 'w kc \<Rightarrow> 'w kc \<times> exn option" where
  "kc_run decode handler [] k = (k, None)"
| "kc_run decode handler ((getmany, t1, t2, t3) # turns) k =
     (case kc_cycle getmany decode handler t1 t2 t3 k of
        (k1, Some e) \<Rightarrow> (k1, Some e)
      | (k1, None) \<Rightarrow> kc_run decode handler turns k1)"

subsection \<open>Laws\<close>

lemma kc_decode_length: "kc_decode decode ms = Inr cs \<Longrightarrow> length cs = length ms"
  by (induction ms arbitrary: cs) (auto simp: bindE_eq_Inr)

text \<open>What the consumer relies on: \<open>getmany\<close> respects \<open>max_records\<close>.\<close>

definition kc_broker_ok :: "(int \<Rightarrow> int \<Rightarrow> records) \<Rightarrow> bool" where
  "kc_broker_ok getmany \<longleftrightarrow> (\<forall>t m. 1 \<le> m \<longrightarrow> int (length (kc_messages (getmany t m))) \<le> m)"

lemma kc_max_records_pos: "1 \<le> kc_max_records k"
  by (simp add: kc_max_records_def)

lemma kc_offsets_snoc:
  "kc_offsets (cs @ [c]) =
     (kc_offsets cs)((co_topic c, co_partition c) \<mapsto>
        max (case kc_offsets cs (co_topic c, co_partition c) of None \<Rightarrow> 0 | Some n \<Rightarrow> n) (co_offset c + 1))"
  by (simp add: kc_offsets_def Let_def)

lemma kc_offsets_upper:
  "c \<in> set cs \<Longrightarrow> \<exists>n. kc_offsets cs (co_topic c, co_partition c) = Some n \<and> co_offset c < n"
proof (induction cs rule: rev_induct)
  case (snoc x xs)
  then show ?case
    by (cases "c = x") (auto simp: kc_offsets_snoc max_def split: option.splits)
qed simp

lemma kc_offsets_attained:
  assumes "kc_offsets cs k = Some n" and "\<And>c. c \<in> set cs \<Longrightarrow> 0 \<le> co_offset c"
  shows "\<exists>c \<in> set cs. (co_topic c, co_partition c) = k \<and> n = co_offset c + 1"
  using assms
proof (induction cs arbitrary: n rule: rev_induct)
  case Nil
  then show ?case by (simp add: kc_offsets_def)
next
  case (snoc x xs)
  show ?case
  proof (cases "(co_topic x, co_partition x) = k")
    case False
    then show ?thesis using snoc by (auto simp: kc_offsets_snoc)
  next
    case True
    show ?thesis
    proof (cases "n = co_offset x + 1")
      case False
      then obtain m where "kc_offsets xs k = Some m" "n = m"
        using snoc.prems True by (auto simp: kc_offsets_snoc max_def split: option.splits if_splits)
      then show ?thesis using snoc by auto
    qed (use True in auto)
  qed
qed

text \<open>
  The invariant of the loop, relative to the committed offsets \<open>m0\<close> and the world \<open>w0\<close> it
  started with. The last conjunct is only about a loop that is still running.
\<close>

definition kc_inv :: "(tp \<Rightarrow> int option) \<Rightarrow> 'w kc \<Rightarrow> bool" where
  "kc_inv m0 k \<longleftrightarrow>
     1 \<le> kc_batch_size k
   \<and> (kc_buffered k \<noteq> [] \<longrightarrow> int (length (kc_buffered k)) < kc_batch_size k)
   \<and> (\<forall>b \<in> set (kc_handled k). b \<noteq> [] \<and> int (length b) \<le> kc_batch_size k)
   \<and> kc_committed k = foldl (\<lambda>m b. m ++ kc_offsets b) m0 (kc_handled k)
   \<and> prefix (concat (kc_handled k) @ kc_buffered k) (kc_fetched k)"

lemma kc_flush_inv:
  assumes run: "kc_flush handler now k = (k', r)" and ne: "kc_buffered k \<noteq> []"
    and len: "int (length (kc_buffered k)) \<le> kc_batch_size k"
    and inv: "1 \<le> kc_batch_size k" "\<forall>b \<in> set (kc_handled k). b \<noteq> [] \<and> int (length b) \<le> kc_batch_size k"
      "kc_committed k = foldl (\<lambda>m b. m ++ kc_offsets b) m0 (kc_handled k)"
    and whole: "concat (kc_handled k) @ kc_buffered k = kc_fetched k"
  shows "kc_inv m0 k' \<and> (r = None \<longrightarrow> concat (kc_handled k') @ kc_buffered k' = kc_fetched k')"
proof -
  obtain w e where h: "handler (kc_buffered k) (kc_world k) = (w, e)" by (metis surj_pair)
  have pre: "prefix (concat (kc_handled k)) (kc_fetched k)" using whole by (metis prefixI)
  show ?thesis
  proof (cases e)
    case None
    then have "k' = k\<lparr> kc_buffered := [], kc_deadline := now + kc_timeout_ms k / 1000, kc_world := w,
        kc_committed := kc_committed k ++ kc_offsets (kc_buffered k), kc_handled := kc_handled k @ [kc_buffered k] \<rparr>"
      "r = None" using run h by (auto simp: kc_flush_def Let_def)
    then show ?thesis using ne len inv whole by (simp add: kc_inv_def)
  next
    case (Some x)
    then have "k' = k\<lparr> kc_buffered := [], kc_deadline := now + kc_timeout_ms k / 1000, kc_world := w \<rparr>"
      "r = Some x" using run h by (auto simp: kc_flush_def Let_def)
    then show ?thesis using inv pre by (simp add: kc_inv_def)
  qed
qed

lemma kc_cycle_inv:
  assumes run: "kc_cycle getmany decode handler t1 t2 t3 k = (k', r)"
    and broker: "kc_broker_ok getmany" and inv: "kc_inv m0 k"
    and whole: "concat (kc_handled k) @ kc_buffered k = kc_fetched k"
  shows "kc_inv m0 k' \<and> (r = None \<longrightarrow> concat (kc_handled k') @ kc_buffered k' = kc_fetched k')"
proof (cases "kc_decode_records decode (getmany (kc_remaining_ms t1 k) (kc_max_records k))")
  case (Inl e)
  then have "k' = k" "r = Some e" using run by (simp_all add: kc_cycle_def)
  then show ?thesis using inv by simp
next
  case (Inr decoded)
  have "int (length decoded) \<le> kc_max_records k"
    using Inr broker kc_decode_length kc_max_records_pos unfolding kc_decode_records_def kc_broker_ok_def by metis
  then have len: "int (length (kc_buffered k @ decoded)) \<le> kc_batch_size k"
    using inv by (cases "kc_buffered k = []") (auto simp: kc_max_records_def kc_inv_def)
  define k1 where "k1 = k\<lparr> kc_buffered := kc_buffered k @ decoded, kc_fetched := kc_fetched k @ decoded \<rparr>"
  have whole1: "concat (kc_handled k1) @ kc_buffered k1 = kc_fetched k1"
    using whole by (simp add: k1_def flip: append_assoc)
  have parts: "1 \<le> kc_batch_size k1" "\<forall>b \<in> set (kc_handled k1). b \<noteq> [] \<and> int (length b) \<le> kc_batch_size k1"
      "kc_committed k1 = foldl (\<lambda>m b. m ++ kc_offsets b) m0 (kc_handled k1)"
    using inv by (simp_all add: kc_inv_def k1_def)
  have len1: "int (length (kc_buffered k1)) \<le> kc_batch_size k1" using len by (simp add: k1_def)
  consider (empty) "kc_buffered k1 = []"
      "k' = (if t2 \<ge> kc_deadline k then k1\<lparr> kc_deadline := t3 + kc_timeout_ms k / 1000 \<rparr> else k1)" "r = None"
    | (wait) "k' = k1" "r = None" "int (length (kc_buffered k1)) < kc_batch_size k1"
    | (flush) "kc_buffered k1 \<noteq> []" "kc_flush handler t3 k1 = (k', r)"
    using run Inr unfolding kc_cycle_def Let_def
    by (simp add: k1_def [symmetric] del: append_is_Nil_conv split: if_splits)
       (auto simp: k1_def)
  then show ?thesis
  proof cases
    case flush
    then show ?thesis using kc_flush_inv [OF flush(2,1) len1 parts whole1] by simp
  next
    case wait
    then show ?thesis using parts whole1 by (simp add: kc_inv_def)
  next
    case empty
    then show ?thesis using parts whole1 by (simp add: kc_inv_def)
  qed
qed

lemma kc_run_inv:
  assumes "kc_run decode handler turns k = (k', r)"
    and "\<forall>turn \<in> set turns. kc_broker_ok (fst turn)"
    and "kc_inv m0 k" and "concat (kc_handled k) @ kc_buffered k = kc_fetched k"
  shows "kc_inv m0 k' \<and> (r = None \<longrightarrow> concat (kc_handled k') @ kc_buffered k' = kc_fetched k')"
  using assms
proof (induction turns arbitrary: k)
  case Nil
  then show ?case by simp
next
  case (Cons turn turns)
  obtain g t1 t2 t3 where t: "turn = (g, t1, t2, t3)" by (metis prod_cases4)
  obtain k1 r1 where c: "kc_cycle g decode handler t1 t2 t3 k = (k1, r1)" by (metis surj_pair)
  have step: "kc_inv m0 k1 \<and> (r1 = None \<longrightarrow> concat (kc_handled k1) @ kc_buffered k1 = kc_fetched k1)"
    using Cons.prems(2) t by (intro kc_cycle_inv [OF c _ Cons.prems(3,4)]) simp
  show ?case
  proof (cases r1)
    case None
    then show ?thesis using Cons.IH [of k1] Cons.prems step t c by simp
  next
    case (Some e)
    then show ?thesis using Cons.prems step t c by auto
  qed
qed

lemma kc_cycle_batch_size: "kc_cycle g decode handler t1 t2 t3 k = (k', r) \<Longrightarrow> kc_batch_size k' = kc_batch_size k"
  by (auto simp: kc_cycle_def kc_flush_def Let_def split: if_splits sum.splits prod.splits option.splits)

lemma kc_run_batch_size: "kc_run decode handler turns k = (k', r) \<Longrightarrow> kc_batch_size k' = kc_batch_size k"
proof (induction turns arbitrary: k)
  case (Cons turn turns)
  then show ?case
    by (cases turn) (auto split: prod.splits option.splits dest: kc_cycle_batch_size)
qed simp

lemma kc_new_inv: "1 \<le> bsize \<Longrightarrow> kc_inv m0 (kc_new bsize timeout now m0 w)"
  by (simp add: kc_inv_def kc_new_def)

lemma foldl_map_add_upper:
  assumes "\<And>b c. b \<in> set bs \<Longrightarrow> c \<in> set b \<Longrightarrow> 0 \<le> co_offset c"
    and "foldl (\<lambda>m b. m ++ kc_offsets b) m0 bs p = Some n"
  shows "m0 p = Some n \<or> (\<exists>b \<in> set bs. \<exists>c \<in> set b. (co_topic c, co_partition c) = p \<and> n = co_offset c + 1)"
  using assms
proof (induction bs rule: rev_induct)
  case Nil
  then show ?case by simp
next
  case (snoc b bs)
  show ?case
  proof (cases "kc_offsets b p")
    case None
    then have "foldl (\<lambda>m b. m ++ kc_offsets b) m0 bs p = Some n"
      using snoc.prems(2) by (simp add: map_add_def)
    then show ?thesis using snoc.IH snoc.prems(1) by auto
  next
    case (Some m)
    then have "m = n" using snoc.prems(2) by (simp add: map_add_def)
    then show ?thesis using kc_offsets_attained [OF Some] snoc.prems(1) by auto
  qed
qed

lemma kc_cycle_barrier:
  assumes "kc_cycle getmany decode handler t1 t2 t3 k = (k', None)"
    and "kc_decode_records decode (getmany (kc_remaining_ms t1 k) (kc_max_records k)) = Inr decoded"
    and "list_ex kc_is_barrier decoded"
  shows "kc_buffered k' = [] \<and> kc_handled k' = kc_handled k @ [kc_buffered k @ decoded]"
proof -
  have "decoded \<noteq> []" using assms(3) by auto
  with assms show ?thesis
    by (auto simp: kc_cycle_def kc_flush_def Let_def split: if_splits prod.splits option.splits)
qed

subsection \<open>Properties\<close>


text \<open>A broker with one finalization barrier on offset 4 of a partition.\<close>

definition kc_demo_event :: pevent where
  "kc_demo_event = \<lparr> pe_event_id = ''e1'', pe_call_id = ''c1'', pe_turn_id = ''session'',
     pe_event_type = USAGE_FINALIZATION_BARRIER, pe_stage = ''billing'', pe_timestamp = 0, pe_seq = 9,
     pe_key = ''c1:billing:barrier'', pe_payload = [], pe_trace_id = None \<rparr>"

definition kc_demo_getmany :: "int \<Rightarrow> int \<Rightarrow> records" where
  "kc_demo_getmany t m =
     [((''usage-events'', 0), [\<lparr> ms_topic = ''usage-events'', ms_partition = 0, ms_offset = 4, ms_value = [] \<rparr>])]"

lemma kc_demo_broker: "kc_broker_ok kc_demo_getmany"
  by (simp add: kc_broker_ok_def kc_demo_getmany_def kc_messages_def)


text \<open>A billing finalization barrier is never left waiting in the buffer: the turn of the loop that
fetches it hands it to the handler together with everything buffered before it.\<close>

theorem kc_barrier_flushes:
  assumes "kc_cycle getmany decode handler t1 t2 t3 k = (k', None)"
    and "kc_decode_records decode (getmany (kc_remaining_ms t1 k) (kc_max_records k)) = Inr decoded"
    and "list_ex kc_is_barrier decoded"
  shows "kc_buffered k' = [] \<and> kc_handled k' = kc_handled k @ [kc_buffered k @ decoded]"
  by (rule kc_cycle_barrier [OF assms])

lemma kc_barrier_flushes_witness:
  "\<exists>k'. kc_cycle kc_demo_getmany (\<lambda>_. Inr kc_demo_event) (\<lambda>b w. (w, None)) 0 0 0 (kc_new 2 500 0 Map.empty ()) = (k', None)
      \<and> kc_buffered k' = []"
proof -
  let ?k = "kc_new 2 500 0 Map.empty ()"
  obtain k' where c: "kc_cycle kc_demo_getmany (\<lambda>_. Inr kc_demo_event) (\<lambda>b w. (w, None)) 0 0 0 ?k = (k', None)"
    by (simp add: kc_cycle_def kc_flush_def kc_new_def kc_decode_records_def kc_messages_def
        kc_demo_getmany_def kc_is_barrier_def kc_demo_event_def Let_def)
  obtain cs where d: "kc_decode_records (\<lambda>_. Inr kc_demo_event) (kc_demo_getmany (kc_remaining_ms 0 ?k) (kc_max_records ?k)) = Inr cs"
    and b: "list_ex kc_is_barrier cs"
    by (simp add: kc_decode_records_def kc_messages_def kc_demo_getmany_def kc_is_barrier_def kc_demo_event_def Let_def)
  from kc_barrier_flushes [OF c d b] c show ?thesis by blast
qed

end
