(* ===== verification/Projector.thy ===== *)
theory Projector
  imports Store Kafka
begin

text \<open>
  The event projector (\<open>apps/api/db/projector.py\<close>, class \<open>EventProjector\<close>): from a
  batch of Kafka events to the calls, metrics, usage, billing, manifest, watermark and outbox
  tables, in one transaction per batch.

  Every method is a function on \<open>db\<close> returning an exception or the new tables; spans and
  counters are not modelled. \<open>uuid5\<close>, the parser of decimal strings, the printer of
  decimals, the configured rate and the clock are the fields of \<open>env\<close>.
\<close>

definition pj_insert_event :: "pevent \<Rightarrow> db \<Rightarrow> db" where
  "pj_insert_event e d =
     (if list_ex (\<lambda>x. pe_event_id x = pe_event_id e) (db_events d) then d
      else d\<lparr> db_events := db_events d @ [e] \<rparr>)"

subsection \<open>Live billing\<close>

definition provider_cost :: "string \<Rightarrow> db \<Rightarrow> rat" where
  "provider_cost call d = sum_list (map us_cost (filter (\<lambda>u. us_call u = call) (db_usage d)))"

definition pj_billing_insert :: "env \<Rightarrow> string \<Rightarrow> db \<Rightarrow> db" where
  "pj_billing_insert en call d =
     (case db_billing d call of
        Some _ \<Rightarrow> d
      | None \<Rightarrow> d\<lparr> db_billing := (db_billing d)(call \<mapsto>
          \<lparr> bl_duration = 0, bl_provider_cost = 0, bl_platform_fee = 0, bl_total = 0, bl_currency = ''USD'',
            bl_status = ''OPEN'', bl_version = en_pricing_version en, bl_finalized_at = None \<rparr>) \<rparr>)"

text \<open>\<open>_update_call_billing\<close>. The row exists after the insert, so the final check never fires.\<close>

definition pj_update_call_billing ::
  "env \<Rightarrow> string \<Rightarrow> rat option \<Rightarrow> bool \<Rightarrow> db \<Rightarrow> (billing_row \<times> db) res" where
  "pj_update_call_billing en call duration finalized d =
     (let d1 = pj_billing_insert en call d in
      case db_billing d1 call of
        None \<Rightarrow> Inl (RuntimeError (''Billing rollup missing for call '' @ call))
      | Some b \<Rightarrow>
         (let b1 = (case duration of
                      Some s \<Rightarrow> b\<lparr> bl_duration := s,
                                  bl_platform_fee := s / 60 * en_platform_rate en,
                                  bl_status := (if finalized then ''FINALIZED'' else bl_status b),
                                  bl_finalized_at := (if finalized then Some (en_now en) else bl_finalized_at b) \<rparr>
                    | None \<Rightarrow> (if finalized
                               then b\<lparr> bl_status := ''FINALIZED'', bl_finalized_at := Some (en_now en) \<rparr>
                               else b));
              b2 = b1\<lparr> bl_provider_cost := provider_cost call d1,
                       bl_total := bl_platform_fee b1 + provider_cost call d1 \<rparr>
          in Inr (b2, d1\<lparr> db_billing := (db_billing d1)(call \<mapsto> b2) \<rparr>)))"

definition pj_billing_event :: "env \<Rightarrow> pevent \<Rightarrow> billing_row \<Rightarrow> pevent" where
  "pj_billing_event en src b =
     \<lparr> pe_event_id = en_uuid5 en (''voicemesh:billing:'' @ pe_event_id src),
       pe_call_id = pe_call_id src, pe_turn_id = pe_turn_id src,
       pe_event_type = BILLING_USAGE_RECORDED, pe_stage = ''billing'', pe_timestamp = pe_timestamp src,
       pe_seq = pe_seq src, pe_key = ''billing:'' @ pe_event_id src,
       pe_payload = [(''source_event_id'', PStr (pe_event_id src)),
                     (''provider_cost_usd'', PStr (en_decimal_str en (bl_provider_cost b))),
                     (''platform_fee_usd'', PStr (en_decimal_str en (bl_platform_fee b))),
                     (''total_cost_usd'', PStr (en_decimal_str en (bl_total b))),
                     (''currency'', PStr (bl_currency b)),
                     (''status'', PStr (bl_status b))],
       pe_trace_id = pe_trace_id src \<rparr>"

definition pj_enqueue_billing_event :: "env \<Rightarrow> pevent \<Rightarrow> billing_row \<Rightarrow> db \<Rightarrow> db" where
  "pj_enqueue_billing_event en src b d = enqueue_outbox (pj_billing_event en src b) ''billing-events'' d"

subsection \<open>The call row\<close>

definition pj_upsert_started :: "pevent \<Rightarrow> dict \<Rightarrow> dict \<Rightarrow> db \<Rightarrow> db" where
  "pj_upsert_started e providers models d =
     (let p = pe_payload e;
          row = \<lparr> cl_status = ''CALL_STARTED'', cl_started_at = Some (pe_timestamp e), cl_ended_at = None,
                  cl_stage = pe_stage e, cl_corked = False, cl_cork_reason = None,
                  cl_stt_provider = dict_get_or providers ''stt'' (PStr ''unknown''),
                  cl_llm_provider = dict_get_or providers ''llm'' (PStr ''unknown''),
                  cl_tts_provider = dict_get_or providers ''tts'' (PStr ''unknown''),
                  cl_stt_model = dict_get models ''stt'', cl_llm_model = dict_get models ''llm'',
                  cl_tts_model = dict_get models ''tts'',
                  cl_org = dict_get p ''tenant_id'', cl_agent = dict_get p ''assistant_id'',
                  cl_snapshot = dict_get_or p ''agent'' (PDict []), cl_summary = PNone, cl_error = PNone \<rparr>
      in case db_calls d (pe_call_id e) of
           None \<Rightarrow> d\<lparr> db_calls := (db_calls d)(pe_call_id e \<mapsto> row) \<rparr>
         | Some c \<Rightarrow> d\<lparr> db_calls := (db_calls d)(pe_call_id e \<mapsto>
             c\<lparr> cl_status := ''CALL_STARTED'',
                cl_started_at := (case cl_started_at c of None \<Rightarrow> cl_started_at row | t \<Rightarrow> t),
                cl_stt_provider := cl_stt_provider row, cl_llm_provider := cl_llm_provider row,
                cl_tts_provider := cl_tts_provider row, cl_stt_model := cl_stt_model row,
                cl_llm_model := cl_llm_model row, cl_tts_model := cl_tts_model row,
                cl_org := (if cl_org c = PNone then cl_org row else cl_org c),
                cl_agent := (if cl_agent c = PNone then cl_agent row else cl_agent c),
                cl_snapshot := (if cl_snapshot c = PDict [] then cl_snapshot row else cl_snapshot c) \<rparr>) \<rparr>)"

text \<open>The branch for every other event: stage, cork and the \<open>IN_PROGRESS\<close> status.\<close>

definition pj_touch_call :: "env \<Rightarrow> pevent \<Rightarrow> call_row \<Rightarrow> call_row" where
  "pj_touch_call en e c =
     (let corked = (case pe_event_type e of PIPELINE_CORKED \<Rightarrow> Some True | PIPELINE_UNCORKED \<Rightarrow> Some False | _ \<Rightarrow> None);
          reason = (case pe_event_type e of
                      PIPELINE_CORKED \<Rightarrow> Some (py_str (en_rep en) (py_or (dict_get (pe_payload e) ''reason'') (PStr [])))
                    | _ \<Rightarrow> None)
      in c\<lparr> cl_stage := pe_stage e,
            cl_corked := (case corked of Some b \<Rightarrow> b | None \<Rightarrow> cl_corked c),
            cl_cork_reason := (case corked of None \<Rightarrow> cl_cork_reason c | Some _ \<Rightarrow> reason),
            cl_status := (if cl_status c = ''CALL_STARTED'' \<and> \<not> startswith (event_value (pe_event_type e)) ''call.''
                          then ''IN_PROGRESS'' else cl_status c) \<rparr>)"

definition pj_project_call :: "env \<Rightarrow> pevent \<Rightarrow> db \<Rightarrow> db res" where
  "pj_project_call en e d =
     (let call = pe_call_id e; p = pe_payload e in
      if pe_event_type e = BILLING_USAGE_RECORDED then Inr d
      else if pe_event_type e = CALL_STARTED then
        bindE (as_dict (dict_get_or p ''providers'' (PDict []))) (\<lambda>providers.
        bindE (as_dict (dict_get_or p ''models'' (PDict []))) (\<lambda>models.
          Inr (pj_upsert_started e providers models d)))
      else if pe_event_type e = CALL_ENDED then
        (case db_calls d call of
           None \<Rightarrow> Inr d
         | Some c \<Rightarrow>
             (if cl_status c = ''CALL_FAILED'' then Inr d
              else bindE (py_decimal en (dict_get_or p ''duration_seconds'' (PInt 0))) (\<lambda>secs.
                   bindE (pj_update_call_billing en call (Some secs) True
                      (d\<lparr> db_calls := (db_calls d)(call \<mapsto>
                            c\<lparr> cl_status := ''CALL_COMPLETED'', cl_stage := pe_stage e,
                               cl_summary := dict_get p ''final_response'',
                               cl_ended_at := Some (pe_timestamp e) \<rparr>) \<rparr>)) (\<lambda>(b, d1). Inr d1))))
      else if pe_event_type e = CALL_FAILED then
        bindE (pj_update_call_billing en call None True
          (case db_calls d call of
             None \<Rightarrow> d
           | Some c \<Rightarrow> d\<lparr> db_calls := (db_calls d)(call \<mapsto>
               c\<lparr> cl_status := ''CALL_FAILED'', cl_stage := pe_stage e, cl_error := dict_get p ''error'',
                  cl_ended_at := Some (pe_timestamp e) \<rparr>) \<rparr>)) (\<lambda>(b, d1). Inr d1)
      else
        (case db_calls d call of
           None \<Rightarrow> Inr d
         | Some c \<Rightarrow> Inr (d\<lparr> db_calls := (db_calls d)(call \<mapsto> pj_touch_call en e c) \<rparr>)))"

subsection \<open>Metrics\<close>

text \<open>\<open>isinstance(latency, int | float)\<close>: booleans are integers.\<close>

fun num_value :: "pyv \<Rightarrow> rat option" where
  "num_value (PInt i) = Some (of_int i)"
| "num_value (PFloat x) = Some x"
| "num_value (PBool b) = Some (if b then 1 else 0)"
| "num_value _ = None"

definition pj_project_metric :: "env \<Rightarrow> pevent \<Rightarrow> db \<Rightarrow> db res" where
  "pj_project_metric en e d =
     (case num_value (dict_get (pe_payload e) ''latency_ms'') of
        None \<Rightarrow> Inr d
      | Some latency \<Rightarrow>
          bindE (py_int (en_parse_int en) (dict_get_or (pe_payload e) ''queue_depth'' (PInt 0))) (\<lambda>depth.
            Inr (d\<lparr> db_metrics := db_metrics d @
              [\<lparr> mt_call = pe_call_id e, mt_turn = pe_turn_id e, mt_stage = pe_stage e, mt_latency = latency,
                 mt_depth = depth, mt_corked = (pe_event_type e = PIPELINE_CORKED),
                 mt_provider = dict_get (pe_payload e) ''provider'' \<rparr>] \<rparr>)))"

subsection \<open>Usage\<close>

definition normalized_usage_type :: "string \<Rightarrow> string \<Rightarrow> string" where
  "normalized_usage_type usage_type stage =
     (if usage_type = ''audio_minute'' then (if stage = ''stt'' then ''stt_audio_seconds'' else ''call_duration_seconds'')
      else if usage_type = ''input_token'' then ''llm_input_tokens''
      else if usage_type = ''cached_input_token'' then ''llm_input_tokens''
      else if usage_type = ''output_token'' then ''llm_output_tokens''
      else if usage_type = ''input_text_token'' then ''tts_characters''
      else if usage_type = ''output_audio_token'' then ''tts_audio_seconds''
      else usage_type)"

definition stage_for_usage_type :: "string \<Rightarrow> string" where
  "stage_for_usage_type t =
     (if startswith t ''stt_'' then ''stt''
      else if startswith t ''llm_'' then ''llm''
      else if startswith t ''tts_'' then ''tts''
      else if startswith t ''telephony_'' then ''telephony''
      else ''usage'')"

definition rollup_columns :: "string list" where
  "rollup_columns = [''stt_audio_seconds'', ''llm_input_tokens'', ''llm_output_tokens'', ''tts_characters'',
                     ''tts_audio_seconds'', ''telephony_seconds'']"

definition pj_update_usage_rollup :: "string \<Rightarrow> string \<Rightarrow> string \<Rightarrow> string \<Rightarrow> rat \<Rightarrow> db \<Rightarrow> db" where
  "pj_update_usage_rollup call tenant assistant t q d =
     (if t \<notin> set rollup_columns then d
      else (case db_rollups d call of
        None \<Rightarrow> d\<lparr> db_rollups := (db_rollups d)(call \<mapsto>
                  \<lparr> ro_tenant = tenant, ro_assistant = assistant, ro_amounts = (\<lambda>_. 0)(t := q) \<rparr>) \<rparr>
      | Some r \<Rightarrow> d\<lparr> db_rollups := (db_rollups d)(call \<mapsto>
                  r\<lparr> ro_amounts := (ro_amounts r)(t := ro_amounts r t + q) \<rparr>) \<rparr>))"

text \<open>\<open>ORDER BY effective_at DESC LIMIT 1\<close>: the latest price of the key.\<close>

fun latest_price :: "price_row list \<Rightarrow> price_row option" where
  "latest_price [] = None"
| "latest_price (p # ps) =
     (case latest_price ps of None \<Rightarrow> Some p | Some q \<Rightarrow> if pr_effective q > pr_effective p then Some q else Some p)"

definition find_price :: "string \<Rightarrow> string \<Rightarrow> string \<Rightarrow> db \<Rightarrow> price_row option" where
  "find_price provider model t d =
     latest_price (filter (\<lambda>p. pr_provider p = provider \<and> pr_model p = model \<and> pr_usage_type p = t) (db_pricing d))"

definition pj_insert_usage :: "usage_row \<Rightarrow> db \<Rightarrow> db" where
  "pj_insert_usage u d =
     (if list_ex (\<lambda>x. us_event x = us_event u \<and> us_type x = us_type u) (db_usage d) then d
      else d\<lparr> db_usage := db_usage d @ [u] \<rparr>)"

definition pj_insert_usage_event :: "usage_event_row \<Rightarrow> db \<Rightarrow> db" where
  "pj_insert_usage_event u d =
     (if list_ex (\<lambda>x. ue_event x = ue_event u) (db_usage_events d) then d
      else d\<lparr> db_usage_events := db_usage_events d @ [u] \<rparr>)"

definition payload_str :: "env \<Rightarrow> pevent \<Rightarrow> string \<Rightarrow> string \<Rightarrow> string" where
  "payload_str en e k dflt = py_str (en_rep en) (dict_get_or (pe_payload e) k (PStr dflt))"

definition pj_tenant :: "env \<Rightarrow> pevent \<Rightarrow> string" where
  "pj_tenant en e = payload_str en e ''tenant_id'' ''local-demo-tenant''"

definition pj_assistant :: "env \<Rightarrow> pevent \<Rightarrow> string" where
  "pj_assistant en e = payload_str en e ''assistant_id'' ''local-demo-assistant''"

text \<open>The rows one measurement writes to \<open>usage_records\<close> and \<open>call_usage_events\<close>.\<close>

definition pj_usage_row :: "pevent \<Rightarrow> string \<Rightarrow> string \<Rightarrow> dict \<Rightarrow> string \<Rightarrow> rat \<Rightarrow> price_row \<Rightarrow> usage_row" where
  "pj_usage_row e provider model m t quantity price =
     \<lparr> us_event = pe_event_id e, us_call = pe_call_id e, us_turn = pe_turn_id e,
       us_stage = pe_stage e, us_provider = provider, us_model = model, us_type = t,
       us_quantity = quantity, us_unit = pr_unit price, us_price = pr_price price,
       us_cost = quantity * pr_price price,
       us_estimated = truthy (dict_get_or m ''estimated'' (PBool False)),
       us_version = pr_version price,
       us_metadata = filter (\<lambda>(k, x). k \<notin> {''provider'', ''model'', ''measurements''}) (pe_payload e),
       us_created = pe_timestamp e \<rparr>"

definition pj_usage_event_row :: "env \<Rightarrow> pevent \<Rightarrow> string \<Rightarrow> string \<Rightarrow> string \<Rightarrow> rat \<Rightarrow> price_row \<Rightarrow> usage_event_row" where
  "pj_usage_event_row en e provider model t quantity price =
     \<lparr> ue_event = en_uuid5 en (''voicemesh:usage:'' @ pe_event_id e @ '':'' @ t),
       ue_tenant = pj_tenant en e, ue_assistant = pj_assistant en e, ue_call = pe_call_id e,
       ue_turn = pe_turn_id e, ue_type = normalized_usage_type t (pe_stage e), ue_provider = provider,
       ue_model = model, ue_quantity = quantity, ue_unit = pr_unit price,
       ue_basis = [(''source_usage_type'', PStr t),
                   (''unit_price_usd'', PStr (en_decimal_str en (pr_price price))),
                   (''cost_usd'', PStr (en_decimal_str en (quantity * pr_price price))),
                   (''pricing_version'', PStr (pr_version price))],
       ue_created = pe_timestamp e \<rparr>"

text \<open>One turn of the loop over the measurements.\<close>

definition pj_measurement :: "env \<Rightarrow> pevent \<Rightarrow> string \<Rightarrow> string \<Rightarrow> db \<Rightarrow> pyv \<Rightarrow> db res" where
  "pj_measurement en e provider model d v =
     bindE (as_dict v) (\<lambda>m.
     bindE (dict_item m ''usage_type'') (\<lambda>tv.
     bindE (dict_item m ''quantity'') (\<lambda>qv.
     bindE (py_decimal en qv) (\<lambda>quantity.
       (let t = py_str (en_rep en) tv in
        case find_price provider model t d of
          None \<Rightarrow> Inl (ValueError (''No price configured for '' @ provider @ ''/'' @ model @ ''/'' @ t))
        | Some price \<Rightarrow>
            Inr (pj_update_usage_rollup (pe_call_id e) (pj_tenant en e) (pj_assistant en e)
                   (normalized_usage_type t (pe_stage e)) quantity
                   (pj_insert_usage_event (pj_usage_event_row en e provider model t quantity price)
                     (pj_insert_usage (pj_usage_row e provider model m t quantity price) d))))))))"

subsection \<open>The usage manifest\<close>

definition pj_expectation :: "env \<Rightarrow> string \<Rightarrow> string \<Rightarrow> string \<Rightarrow> string \<Rightarrow> db \<Rightarrow> pyv \<Rightarrow> db" where
  "pj_expectation en call tenant assistant turn d v =
     (let t = py_str (en_rep en) v in
      if list_ex (\<lambda>x. ex_call x = call \<and> ex_turn x = turn \<and> ex_type x = t) (db_expect d) then d
      else d\<lparr> db_expect := db_expect d @ [\<lparr> ex_call = call, ex_tenant = tenant, ex_assistant = assistant,
              ex_turn = turn, ex_type = t, ex_stage = stage_for_usage_type t \<rparr>] \<rparr>)"

definition pj_expected_turn :: "env \<Rightarrow> string \<Rightarrow> string \<Rightarrow> string \<Rightarrow> db \<Rightarrow> pyv \<Rightarrow> db res" where
  "pj_expected_turn en call tenant assistant d v =
     bindE (as_dict v) (\<lambda>turn.
       (let turn_id = py_str (en_rep en) (dict_get_or turn ''turn_id'' (PStr [])) in
        if turn_id = [] then Inr d
        else bindE (as_list (dict_get_or turn ''expected_usage'' (PList []))) (\<lambda>ts.
               Inr (foldl (pj_expectation en call tenant assistant turn_id) d ts))))"

definition pj_usage_manifest :: "env \<Rightarrow> pevent \<Rightarrow> string \<Rightarrow> int \<Rightarrow> int \<Rightarrow> db \<Rightarrow> db res" where
  "pj_usage_manifest en e topic part off d =
     (let p = pe_payload e;
          tenant = pj_tenant en e;
          assistant = pj_assistant en e;
          expected = dict_get_or p ''expected_turns'' (PList []);
          row = (case db_manifests d (pe_call_id e) of
                   None \<Rightarrow> \<lparr> ma_tenant = tenant, ma_assistant = assistant, ma_event = pe_event_id e, ma_topic = topic,
                            ma_partition = part, ma_offset = off, ma_expected = expected, ma_trace = pe_trace_id e \<rparr>
                 | Some r \<Rightarrow> r\<lparr> ma_event := pe_event_id e, ma_topic := topic, ma_partition := part,
                              ma_offset := off, ma_expected := expected,
                              ma_trace := (case pe_trace_id e of None \<Rightarrow> ma_trace r | t \<Rightarrow> t) \<rparr>)
      in bindE (as_list expected) (\<lambda>turns.
           foldE (pj_expected_turn en (pe_call_id e) tenant assistant)
             (d\<lparr> db_manifests := (db_manifests d)(pe_call_id e \<mapsto> row) \<rparr>) turns))"

definition pj_project_usage :: "env \<Rightarrow> pevent \<Rightarrow> string option \<Rightarrow> int option \<Rightarrow> int option \<Rightarrow> db \<Rightarrow> db res" where
  "pj_project_usage en e topic part off d =
     (if \<not> startswith (event_value (pe_event_type e)) ''usage.'' then Inr d
      else if pe_event_type e = USAGE_FINALIZATION_BARRIER then
        pj_usage_manifest en e
          (case topic of Some t \<Rightarrow> if t = [] then ''usage-events'' else t | None \<Rightarrow> ''usage-events'')
          (case part of Some i \<Rightarrow> i | None \<Rightarrow> -1) (case off of Some i \<Rightarrow> i | None \<Rightarrow> -1) d
      else
        bindE (dict_item (pe_payload e) ''provider'') (\<lambda>pv.
        bindE (dict_item (pe_payload e) ''model'') (\<lambda>mv.
        bindE (as_list (dict_get_or (pe_payload e) ''measurements'' (PList []))) (\<lambda>ms.
        bindE (foldE (pj_measurement en e (py_str (en_rep en) pv) (py_str (en_rep en) mv)) d ms) (\<lambda>d1.
        bindE (pj_update_call_billing en (pe_call_id e) None False d1) (\<lambda>(b, d2).
          Inr (pj_enqueue_billing_event en e b d2)))))))"

subsection \<open>One event, one batch\<close>

definition pj_project_one ::
  "env \<Rightarrow> string option \<Rightarrow> int option \<Rightarrow> int option \<Rightarrow> pevent \<Rightarrow> db \<Rightarrow> (bool \<times> db) res" where
  "pj_project_one en topic part off e d =
     (let (inserted, d1) = claim_key e d in
      if \<not> inserted then Inr (False, d)
      else bindE (pj_project_call en e (pj_insert_event e d1)) (\<lambda>d2.
           bindE (pj_project_metric en e d2) (\<lambda>d3.
           bindE (pj_project_usage en e topic part off d3) (\<lambda>d4. Inr (True, d4)))))"

definition pj_project :: "bool \<Rightarrow> (nat \<Rightarrow> exn option) \<Rightarrow> env \<Rightarrow> pevent \<Rightarrow> db \<Rightarrow> (bool option \<times> db) res" where
  "pj_project injected fault en e d = pg_retry injected fault True (pj_project_one en None None None e) d"

record batch_result =
  br_inserted :: "pevent list"
  br_duplicates :: "pevent list"
  br_usage_calls :: "string set"
  br_late_calls :: "string set"
  br_late_events :: "pevent list"
  br_ended :: "pevent list"

definition br_empty :: batch_result where
  "br_empty = \<lparr> br_inserted = [], br_duplicates = [], br_usage_calls = {}, br_late_calls = {},
               br_late_events = [], br_ended = [] \<rparr>"

definition br_record :: "pevent \<Rightarrow> bool \<Rightarrow> bool \<Rightarrow> batch_result \<Rightarrow> batch_result" where
  "br_record e inserted finalized r =
     (if \<not> inserted then r\<lparr> br_duplicates := br_duplicates r @ [e] \<rparr>
      else (let usage = startswith (event_value (pe_event_type e)) ''usage.'';
                late = usage \<and> pe_event_type e \<noteq> USAGE_FINALIZATION_BARRIER \<and> finalized
            in r\<lparr> br_inserted := br_inserted r @ [e],
                  br_ended := (if pe_event_type e = CALL_ENDED then br_ended r @ [e] else br_ended r),
                  br_usage_calls := (if usage then insert (pe_call_id e) (br_usage_calls r) else br_usage_calls r),
                  br_late_calls := (if late then insert (pe_call_id e) (br_late_calls r) else br_late_calls r),
                  br_late_events := (if late then br_late_events r @ [e] else br_late_events r) \<rparr>))"

type_synonym batch_state = "batch_result \<times> (tp \<Rightarrow> int option) \<times> db"

definition pj_batch_step :: "env \<Rightarrow> batch_state \<Rightarrow> consumed \<Rightarrow> batch_state res" where
  "pj_batch_step en st c =
     (let (r, marks, d) = st; e = co_event c; k = (co_topic c, co_partition c) in
      bindE (pj_project_one en (Some (co_topic c)) (Some (co_partition c)) (Some (co_offset c)) e d) (\<lambda>(inserted, d1).
        Inr (br_record e inserted (db_final d1 (pe_call_id e) \<noteq> None) r,
             marks(k \<mapsto> max (case marks k of None \<Rightarrow> -1 | Some n \<Rightarrow> n) (co_offset c)), d1)))"

text \<open>The loop over \<open>watermarks.items()\<close>: \<open>GREATEST\<close> of the stored and the new offset, per partition.\<close>

definition pj_raise_marks :: "string \<Rightarrow> (tp \<Rightarrow> int option) \<Rightarrow> db \<Rightarrow> db" where
  "pj_raise_marks grp marks d =
     d\<lparr> db_marks := (\<lambda>(g, t, p).
          if g = grp then
            (case (db_marks d (g, t, p), marks (t, p)) of
               (old, None) \<Rightarrow> old
             | (None, Some n) \<Rightarrow> Some n
             | (Some o', Some n) \<Rightarrow> Some (max o' n))
          else db_marks d (g, t, p)) \<rparr>"

text \<open>The transaction of \<open>project_batch\<close>.\<close>

definition pj_batch_op :: "env \<Rightarrow> string \<Rightarrow> consumed list \<Rightarrow> db \<Rightarrow> (batch_result \<times> db) res" where
  "pj_batch_op en grp cs d =
     bindE (foldE (pj_batch_step en) (br_empty, Map.empty, d) cs) (\<lambda>(r, marks, d1).
       Inr (r, pj_raise_marks grp marks d1))"

definition pj_project_batch ::
  "bool \<Rightarrow> (nat \<Rightarrow> exn option) \<Rightarrow> env \<Rightarrow> string \<Rightarrow> consumed list \<Rightarrow> db \<Rightarrow> (batch_result option \<times> db) res" where
  "pj_project_batch injected fault en grp cs d = pg_retry injected fault True (pj_batch_op en grp cs) d"

subsection \<open>Frames\<close>

text \<open>The tables an operation leaves alone.\<close>

definition same_keys :: "db \<Rightarrow> db \<Rightarrow> bool" where
  "same_keys d d' \<longleftrightarrow> db_keys d' = db_keys d \<and> db_final d' = db_final d \<and> db_marks d' = db_marks d
      \<and> db_adjust d' = db_adjust d \<and> db_pricing d' = db_pricing d"

named_theorems pj_frame

lemma same_keys_refl [simp, intro]: "same_keys d d"
  by (simp add: same_keys_def)

lemma same_keys_trans: "same_keys a b \<Longrightarrow> same_keys b c \<Longrightarrow> same_keys a c"
  by (simp add: same_keys_def)

lemma insert_event_frame [pj_frame, simp]: "same_keys d (pj_insert_event e d)"
  by (simp add: pj_insert_event_def same_keys_def)

lemma enqueue_frame [simp]: "same_keys d (enqueue_outbox e t d)"
  by (simp add: enqueue_outbox_def same_keys_def)

lemma update_billing_frame: "pj_update_call_billing en call dur fin d = Inr (b, d') \<Longrightarrow> same_keys d d'"
  by (auto simp: pj_update_call_billing_def pj_billing_insert_def same_keys_def Let_def split: option.splits if_splits)

lemma upsert_started_frame [simp]: "same_keys d (pj_upsert_started e ps ms d)"
  by (auto simp: pj_upsert_started_def same_keys_def Let_def split: option.splits)

lemma same_keys_calls [simp]: "same_keys (d\<lparr> db_calls := x \<rparr>) d' = same_keys d d'"
  by (simp add: same_keys_def)

lemma project_call_frame: "pj_project_call en e d = Inr d' \<Longrightarrow> same_keys d d'"
  unfolding pj_project_call_def Let_def
  by (auto simp: bindE_eq_Inr split: if_splits option.splits dest!: update_billing_frame)
     (simp_all add: same_keys_def)

lemma project_metric_frame: "pj_project_metric en e d = Inr d' \<Longrightarrow> same_keys d d'"
  by (auto simp: pj_project_metric_def bindE_eq_Inr same_keys_def split: option.splits)

lemma insert_usage_frame [simp]: "same_keys d (pj_insert_usage u d)" "same_keys d (pj_insert_usage_event v d)"
  "same_keys d (pj_update_usage_rollup c t a ty q d)"
  by (auto simp: pj_insert_usage_def pj_insert_usage_event_def pj_update_usage_rollup_def same_keys_def split: option.split)

lemma measurement_Inr:
  assumes "pj_measurement en e provider model d v = Inr d'"
  obtains m t q price where
    "d' = pj_update_usage_rollup (pe_call_id e) (pj_tenant en e) (pj_assistant en e)
       (normalized_usage_type t (pe_stage e)) q
       (pj_insert_usage_event (pj_usage_event_row en e provider model t q price)
         (pj_insert_usage (pj_usage_row e provider model m t q price) d))"
  using assms by (auto simp: pj_measurement_def bindE_eq_Inr Let_def split: option.splits)

lemma measurement_frame: "pj_measurement en e provider model d v = Inr d' \<Longrightarrow> same_keys d d'"
  by (erule measurement_Inr) (metis insert_usage_frame same_keys_trans)

lemma foldE_frame:
  assumes "foldE f d xs = Inr d'" and "\<And>d x d'. f d x = Inr d' \<Longrightarrow> same_keys d d'"
  shows "same_keys d d'"
  by (rule foldE_invariant [where I = "same_keys d", OF assms(1)]) (auto intro: same_keys_trans assms(2))

lemma expectation_frame [simp]: "same_keys d (pj_expectation en c t a turn d v)"
  by (simp add: pj_expectation_def same_keys_def Let_def)

lemma foldl_expectation_frame: "same_keys d (foldl (pj_expectation en c t a turn) d vs)"
  by (induction vs arbitrary: d) (auto intro: same_keys_trans [OF expectation_frame])

lemma expected_turn_frame: "pj_expected_turn en c t a d v = Inr d' \<Longrightarrow> same_keys d d'"
  by (auto simp: pj_expected_turn_def bindE_eq_Inr Let_def foldl_expectation_frame split: if_splits)

lemma manifest_frame: "pj_usage_manifest en e topic part off d = Inr d' \<Longrightarrow> same_keys d d'"
  by (auto simp: pj_usage_manifest_def bindE_eq_Inr Let_def dest!: foldE_frame [OF _ expected_turn_frame])
     (simp add: same_keys_def)

lemma project_usage_frame: "pj_project_usage en e topic part off d = Inr d' \<Longrightarrow> same_keys d d'"
  unfolding pj_project_usage_def
  by (auto simp: bindE_eq_Inr pj_enqueue_billing_event_def split: if_splits dest!: manifest_frame
      foldE_frame [OF _ measurement_frame] update_billing_frame intro: same_keys_trans [OF _ enqueue_frame] same_keys_trans)

lemma claim_key_eq:
  "claim_key e d = (if pe_key e \<in> dom (db_keys d) then (False, d)
     else (True, d\<lparr> db_keys := (db_keys d)(pe_key e \<mapsto> (pe_call_id e, event_value (pe_event_type e))) \<rparr>))"
  by (auto simp: claim_key_def split: option.split)

lemma project_one_dup: "pe_key e \<in> dom (db_keys d) \<Longrightarrow> pj_project_one en t p o' e d = Inr (False, d)"
  by (simp add: pj_project_one_def claim_key_eq)

definition pj_claimed :: "pevent \<Rightarrow> db \<Rightarrow> db" where
  "pj_claimed e d =
     pj_insert_event e (d\<lparr> db_keys := (db_keys d)(pe_key e \<mapsto> (pe_call_id e, event_value (pe_event_type e))) \<rparr>)"

lemma project_one_fresh:
  assumes "pe_key e \<notin> dom (db_keys d)"
  shows "pj_project_one en t p o' e d =
     bindE (pj_project_call en e (pj_claimed e d)) (\<lambda>d2. bindE (pj_project_metric en e d2) (\<lambda>d3.
     bindE (pj_project_usage en e t p o' d3) (\<lambda>d4. Inr (True, d4))))"
  using assms by (auto simp: pj_project_one_def claim_key_eq pj_claimed_def)

lemma pj_claimed_frame:
  "db_keys (pj_claimed e d) = (db_keys d)(pe_key e \<mapsto> (pe_call_id e, event_value (pe_event_type e)))
   \<and> db_final (pj_claimed e d) = db_final d \<and> db_marks (pj_claimed e d) = db_marks d"
  by (simp add: pj_claimed_def pj_insert_event_def)

lemma project_one_steps:
  assumes "pe_key e \<notin> dom (db_keys d)" and "pj_project_one en t p o' e d = Inr (b, d')"
  obtains d2 d3 where "pj_project_call en e (pj_claimed e d) = Inr d2" "pj_project_metric en e d2 = Inr d3"
      "pj_project_usage en e t p o' d3 = Inr d'" b
  using assms(2) by (auto simp: project_one_fresh [OF assms(1)] bindE_eq_Inr)

lemma project_one_new:
  assumes "pe_key e \<notin> dom (db_keys d)" and "pj_project_one en t p o' e d = Inr (b, d')"
  shows "b \<and> dom (db_keys d') = insert (pe_key e) (dom (db_keys d)) \<and> db_final d' = db_final d \<and> db_marks d' = db_marks d"
proof -
  obtain d2 d3 where steps: "pj_project_call en e (pj_claimed e d) = Inr d2" "pj_project_metric en e d2 = Inr d3"
      "pj_project_usage en e t p o' d3 = Inr d'" and b: b
    by (rule project_one_steps [OF assms])
  have "same_keys (pj_claimed e d) d'"
    by (rule same_keys_trans [OF project_call_frame [OF steps(1)]
        same_keys_trans [OF project_metric_frame [OF steps(2)] project_usage_frame [OF steps(3)]]])
  then show ?thesis using b pj_claimed_frame [of e d] by (auto simp: same_keys_def)
qed

text \<open>Projecting one consumed event, as a deduplicating store.\<close>

definition pj_exec :: "env \<Rightarrow> consumed \<Rightarrow> db \<Rightarrow> (bool \<times> db) res" where
  "pj_exec en c d = pj_project_one en (Some (co_topic c)) (Some (co_partition c)) (Some (co_offset c)) (co_event c) d"

definition co_key :: "consumed \<Rightarrow> string" where
  "co_key c = pe_key (co_event c)"

lemma pj_exec_dup: "co_key c \<in> dom (db_keys d) \<Longrightarrow> pj_exec en c d = Inr (False, d)"
  unfolding pj_exec_def co_key_def by (rule project_one_dup)

lemma pj_exec_new:
  "co_key c \<notin> dom (db_keys d) \<Longrightarrow> pj_exec en c d = Inr (b, d') \<Longrightarrow>
   b \<and> dom (db_keys d') = insert (co_key c) (dom (db_keys d))"
  unfolding pj_exec_def co_key_def using project_one_new by blast

interpretation pj_dedup: dedup_store co_key "\<lambda>d. dom (db_keys d)" "pj_exec en" for en
  by (rule dedup_store.intro) (fact pj_exec_dup pj_exec_new)+

subsection \<open>Live billing adds up\<close>

text \<open>
  The billing row of a call is the sum of its usage records and the fee for its duration. While
  the usage of one call is being written the equation is suspended for that call only.
\<close>

definition bill_row_ok :: "env \<Rightarrow> db \<Rightarrow> string \<Rightarrow> billing_row \<Rightarrow> bool" where
  "bill_row_ok en d call b \<longleftrightarrow>
     bl_provider_cost b = provider_cost call d \<and> bl_total b = bl_platform_fee b + bl_provider_cost b"

definition bill_ok_but :: "env \<Rightarrow> string set \<Rightarrow> db \<Rightarrow> bool" where
  "bill_ok_but en S d \<longleftrightarrow>
     (\<forall>call b. db_billing d call = Some b \<longrightarrow>
        bl_platform_fee b = bl_duration b / 60 * en_platform_rate en \<and> (call \<notin> S \<longrightarrow> bill_row_ok en d call b))
   \<and> (\<forall>u \<in> set (db_usage d). us_call u \<notin> S \<longrightarrow> db_billing d (us_call u) \<noteq> None)"

definition bill_ok :: "env \<Rightarrow> db \<Rightarrow> bool" where
  "bill_ok en d \<longleftrightarrow> bill_ok_but en {} d"

lemma bill_ok_same:
  "db_billing d' = db_billing d \<Longrightarrow> db_usage d' = db_usage d \<Longrightarrow> bill_ok_but en S d' = bill_ok_but en S d"
  by (simp add: bill_ok_but_def bill_row_ok_def provider_cost_def)

lemma bill_ok_mono: "bill_ok_but en S d \<Longrightarrow> S \<subseteq> T \<Longrightarrow> bill_ok_but en T d"
  unfolding bill_ok_but_def by blast

lemma update_billing_usage: "pj_update_call_billing en call dur fin d = Inr (b, d') \<Longrightarrow> db_usage d' = db_usage d"
  by (auto simp: pj_update_call_billing_def pj_billing_insert_def Let_def split: option.splits if_splits)

lemma billing_insert_ok:
  "bill_ok_but en S d \<Longrightarrow> call \<in> S \<Longrightarrow> bill_ok_but en S (pj_billing_insert en call d)"
  unfolding bill_ok_but_def pj_billing_insert_def
  by (auto simp: bill_row_ok_def provider_cost_def split: option.splits if_splits)

lemma update_billing_ok:
  assumes "bill_ok_but en {call} d" and "pj_update_call_billing en call dur fin d = Inr (b, d')"
  shows "bill_ok en d' \<and> db_billing d' call = Some b"
proof -
  define d1 where "d1 = pj_billing_insert en call d"
  have ok1: "bill_ok_but en {call} d1" unfolding d1_def by (rule billing_insert_ok [OF assms(1)]) simp
  obtain b0 where b0: "db_billing d1 call = Some b0"
    using assms(2) by (auto simp: pj_update_call_billing_def d1_def Let_def split: option.splits)
  have fee0: "bl_platform_fee b0 = bl_duration b0 / 60 * en_platform_rate en"
    using ok1 b0 unfolding bill_ok_but_def by blast
  have d': "d' = d1\<lparr> db_billing := (db_billing d1)(call \<mapsto> b) \<rparr>"
    and cost: "bl_provider_cost b = provider_cost call d1" "bl_total b = bl_platform_fee b + provider_cost call d1"
    and fee: "bl_platform_fee b = bl_duration b / 60 * en_platform_rate en"
    using assms(2) b0 fee0 by (auto simp: pj_update_call_billing_def d1_def [symmetric] Let_def split: option.splits if_splits)
  have "bill_ok_but en {} d'"
    using ok1 unfolding bill_ok_but_def bill_row_ok_def d' by (auto simp: provider_cost_def cost fee)
  then show ?thesis by (simp add: bill_ok_def d')
qed

lemma update_billing_ok_full:
  "bill_ok en d \<Longrightarrow> pj_update_call_billing en call dur fin d = Inr (b, d') \<Longrightarrow> bill_ok en d'"
  using update_billing_ok bill_ok_mono unfolding bill_ok_def by blast

lemma bill_ok_calls [simp]: "bill_ok en (d\<lparr> db_calls := x \<rparr>) = bill_ok en d"
  unfolding bill_ok_def by (rule bill_ok_same) simp_all

lemma upsert_bill [simp]: "bill_ok en (pj_upsert_started e ps ms d) = bill_ok en d"
  unfolding bill_ok_def by (rule bill_ok_same) (auto simp: pj_upsert_started_def Let_def split: option.split)

lemma project_call_bill: "pj_project_call en e d = Inr d' \<Longrightarrow> bill_ok en d \<Longrightarrow> bill_ok en d'"
  unfolding pj_project_call_def Let_def
  by (auto simp: bindE_eq_Inr split: if_splits option.splits elim!: update_billing_ok_full [rotated])

lemma project_metric_bill: "pj_project_metric en e d = Inr d' \<Longrightarrow> bill_ok en d \<Longrightarrow> bill_ok en d'"
  unfolding bill_ok_def
  by (subst bill_ok_same [of d' d]) (auto simp: pj_project_metric_def bindE_eq_Inr split: option.splits)

lemma insert_usage_bill:
  "bill_ok_but en {us_call u} d \<Longrightarrow> bill_ok_but en {us_call u} (pj_insert_usage u d)"
  unfolding bill_ok_but_def pj_insert_usage_def bill_row_ok_def provider_cost_def by auto

lemma measurement_bill:
  assumes "pj_measurement en e provider model d v = Inr d'" and "bill_ok_but en {pe_call_id e} d"
  shows "bill_ok_but en {pe_call_id e} d'"
proof -
  from assms(1) obtain m t q price where d': "d' = pj_update_usage_rollup (pe_call_id e) (pj_tenant en e) (pj_assistant en e)
       (normalized_usage_type t (pe_stage e)) q
       (pj_insert_usage_event (pj_usage_event_row en e provider model t q price)
         (pj_insert_usage (pj_usage_row e provider model m t q price) d))" by (rule measurement_Inr)
  have "bill_ok_but en {pe_call_id e} (pj_insert_usage (pj_usage_row e provider model m t q price) d)"
    using insert_usage_bill [of en "pj_usage_row e provider model m t q price" d] assms(2) by (simp add: pj_usage_row_def)
  then show ?thesis unfolding d'
    by (subst bill_ok_same [of _ "pj_insert_usage (pj_usage_row e provider model m t q price) d"])
       (auto simp: pj_update_usage_rollup_def pj_insert_usage_event_def split: option.split)
qed

lemma manifest_bill:
  assumes "pj_usage_manifest en e topic part off d = Inr d'"
  shows "db_billing d' = db_billing d \<and> db_usage d' = db_usage d"
proof -
  have exp: "db_billing (foldl (pj_expectation en c t a turn) d vs) = db_billing d
      \<and> db_usage (foldl (pj_expectation en c t a turn) d vs) = db_usage d" for c t a turn vs d
    by (induction vs arbitrary: d) (simp_all add: pj_expectation_def Let_def)
  have "db_billing d2 = db_billing d1 \<and> db_usage d2 = db_usage d1"
    if "pj_expected_turn en c t a d1 v = Inr d2" for c t a d1 v d2
    using that exp by (auto simp: pj_expected_turn_def bindE_eq_Inr Let_def split: if_splits)
  then have turns: "db_billing d2 = db_billing d1 \<and> db_usage d2 = db_usage d1"
    if "foldE (pj_expected_turn en c t a) d1 vs = Inr d2" for c t a d1 vs d2
    using foldE_invariant [OF that, of "\<lambda>x. db_billing x = db_billing d1 \<and> db_usage x = db_usage d1"] by simp
  show ?thesis using assms by (auto simp: pj_usage_manifest_def bindE_eq_Inr Let_def dest!: turns)
qed

lemma project_usage_cases:
  assumes "pj_project_usage en e topic part off d = Inr d'"
  obtains (other) "\<not> startswith (event_value (pe_event_type e)) ''usage.''" "d' = d"
    | (barrier) t i j where "pj_usage_manifest en e t i j d = Inr d'"
    | (usage) pv mv ms d1 b d2 where
        "foldE (pj_measurement en e pv mv) d ms = Inr d1"
        "pj_update_call_billing en (pe_call_id e) None False d1 = Inr (b, d2)"
        "d' = pj_enqueue_billing_event en e b d2"
proof (cases "startswith (event_value (pe_event_type e)) ''usage.''")
  case False
  then show ?thesis using assms other by (simp add: pj_project_usage_def)
next
  case usage_event: True
  show ?thesis
  proof (cases "pe_event_type e = USAGE_FINALIZATION_BARRIER")
    case True
    then show ?thesis using assms usage_event barrier by (simp add: pj_project_usage_def)
  next
    case False
    have "\<exists>pv mv ms d1 b d2. foldE (pj_measurement en e pv mv) d ms = Inr d1
        \<and> pj_update_call_billing en (pe_call_id e) None False d1 = Inr (b, d2)
        \<and> d' = pj_enqueue_billing_event en e b d2"
      using assms usage_event False unfolding pj_project_usage_def by (auto simp: bindE_eq_Inr) blast
    then show ?thesis using usage by blast
  qed
qed

lemma project_usage_bill:
  assumes "pj_project_usage en e topic part off d = Inr d'" and "bill_ok en d"
  shows "bill_ok en d'"
proof -
  from assms(1) show ?thesis
  proof (cases rule: project_usage_cases)
    case other
    then show ?thesis using assms(2) by simp
  next
    case (barrier t i j)
    then show ?thesis using manifest_bill [OF barrier] assms(2) bill_ok_same unfolding bill_ok_def by blast
  next
    case (usage pv mv ms d1 b d2)
    have "bill_ok_but en {pe_call_id e} d" using assms(2) bill_ok_mono unfolding bill_ok_def by blast
    then have "bill_ok_but en {pe_call_id e} d1"
      using foldE_invariant [where I = "bill_ok_but en {pe_call_id e}", OF usage(1)] measurement_bill by blast
    then have "bill_ok en d2" using update_billing_ok usage(2) by blast
    then show ?thesis unfolding usage(3) bill_ok_def
      by (subst bill_ok_same [of _ d2]) (simp_all add: pj_enqueue_billing_event_def enqueue_outbox_def)
  qed
qed

lemma project_one_bill: "pj_project_one en t p o' e d = Inr (b, d') \<Longrightarrow> bill_ok en d \<Longrightarrow> bill_ok en d'"
proof (cases "pe_key e \<in> dom (db_keys d)")
  case True
  assume "pj_project_one en t p o' e d = Inr (b, d')" "bill_ok en d"
  then show ?thesis using project_one_dup [OF True] by simp
next
  case False
  assume run: "pj_project_one en t p o' e d = Inr (b, d')" and ok: "bill_ok en d"
  have claimed: "bill_ok en (pj_claimed e d)"
    using ok unfolding bill_ok_def by (subst bill_ok_same [of _ d]) (simp_all add: pj_claimed_def pj_insert_event_def)
  from project_one_steps [OF False run] obtain d2 d3 where
    steps: "pj_project_call en e (pj_claimed e d) = Inr d2" "pj_project_metric en e d2 = Inr d3"
      "pj_project_usage en e t p o' d3 = Inr d'" .
  show ?thesis
    by (rule project_usage_bill [OF steps(3) project_metric_bill [OF steps(2) project_call_bill [OF steps(1) claimed]]])
qed

subsection \<open>Watermarks do not influence the projection\<close>

definition wm :: "(watermark_key \<Rightarrow> int option) \<Rightarrow> db \<Rightarrow> db" where
  "wm m d = d\<lparr> db_marks := m \<rparr>"

definition blind :: "(db \<Rightarrow> db res) \<Rightarrow> bool" where
  "blind f \<longleftrightarrow> (\<forall>m d. f (wm m d) = map_sum id (wm m) (f d))"

lemma blindI: "(\<And>m d. f (wm m d) = map_sum id (wm m) (f d)) \<Longrightarrow> blind f"
  by (simp add: blind_def)

lemma blindD: "blind f \<Longrightarrow> f (wm m d) = map_sum id (wm m) (f d)"
  by (simp add: blind_def)

lemma wm_sel [simp]:
  "db_keys (wm m d) = db_keys d" "db_events (wm m d) = db_events d" "db_calls (wm m d) = db_calls d"
  "db_metrics (wm m d) = db_metrics d" "db_pricing (wm m d) = db_pricing d" "db_usage (wm m d) = db_usage d"
  "db_usage_events (wm m d) = db_usage_events d" "db_rollups (wm m d) = db_rollups d"
  "db_manifests (wm m d) = db_manifests d" "db_expect (wm m d) = db_expect d"
  "db_billing (wm m d) = db_billing d" "db_outbox (wm m d) = db_outbox d" "db_final (wm m d) = db_final d"
  "db_marks (wm m d) = m" "wm m (wm m' d) = wm m d"
  by (simp_all add: wm_def)

lemma wm_upd [simp]:
  "(wm m d)\<lparr> db_keys := a1 \<rparr> = wm m (d\<lparr> db_keys := a1 \<rparr>)"
  "(wm m d)\<lparr> db_events := a2 \<rparr> = wm m (d\<lparr> db_events := a2 \<rparr>)"
  "(wm m d)\<lparr> db_calls := a3 \<rparr> = wm m (d\<lparr> db_calls := a3 \<rparr>)"
  "(wm m d)\<lparr> db_metrics := a4 \<rparr> = wm m (d\<lparr> db_metrics := a4 \<rparr>)"
  "(wm m d)\<lparr> db_usage := a5 \<rparr> = wm m (d\<lparr> db_usage := a5 \<rparr>)"
  "(wm m d)\<lparr> db_usage_events := a6 \<rparr> = wm m (d\<lparr> db_usage_events := a6 \<rparr>)"
  "(wm m d)\<lparr> db_rollups := a7 \<rparr> = wm m (d\<lparr> db_rollups := a7 \<rparr>)"
  "(wm m d)\<lparr> db_manifests := a8 \<rparr> = wm m (d\<lparr> db_manifests := a8 \<rparr>)"
  "(wm m d)\<lparr> db_expect := a9 \<rparr> = wm m (d\<lparr> db_expect := a9 \<rparr>)"
  "(wm m d)\<lparr> db_billing := a10 \<rparr> = wm m (d\<lparr> db_billing := a10 \<rparr>)"
  "(wm m d)\<lparr> db_outbox := a11 \<rparr> = wm m (d\<lparr> db_outbox := a11 \<rparr>)"
  by (simp_all add: wm_def)

lemma provider_cost_wm [simp]: "provider_cost call (wm m d) = provider_cost call d"
  by (simp add: provider_cost_def)

lemma find_price_wm [simp]: "find_price p mo t (wm m d) = find_price p mo t d"
  by (simp add: find_price_def)

lemma upsert_started_wm [simp]: "pj_upsert_started e ps ms (wm m d) = wm m (pj_upsert_started e ps ms d)"
  unfolding pj_upsert_started_def Let_def
  by (cases "db_calls d (pe_call_id e)") (simp_all only: wm_sel wm_upd option.case)

lemma small_ops_wm [simp]:
  "pj_insert_event e (wm m d) = wm m (pj_insert_event e d)"
  "enqueue_outbox e t (wm m d) = wm m (enqueue_outbox e t d)"
  "pj_billing_insert en call (wm m d) = wm m (pj_billing_insert en call d)"
  "pj_insert_usage u (wm m d) = wm m (pj_insert_usage u d)"
  "pj_insert_usage_event v (wm m d) = wm m (pj_insert_usage_event v d)"
  "pj_update_usage_rollup c tn a ty q (wm m d) = wm m (pj_update_usage_rollup c tn a ty q d)"
  "pj_expectation en c tn a turn (wm m d) x = wm m (pj_expectation en c tn a turn d x)"
  "pj_enqueue_billing_event en e b (wm m d) = wm m (pj_enqueue_billing_event en e b d)"
  by (simp_all add: pj_insert_event_def enqueue_outbox_def pj_billing_insert_def
      pj_insert_usage_def pj_insert_usage_event_def pj_update_usage_rollup_def pj_expectation_def
      pj_enqueue_billing_event_def Let_def split: option.split)

lemma update_billing_wm:
  "pj_update_call_billing en call dur fin (wm m d) = map_sum id (map_prod id (wm m)) (pj_update_call_billing en call dur fin d)"
  by (simp add: pj_update_call_billing_def Let_def split: option.split)

lemma bindE_map: "bindE (map_sum id g r) f = bindE r (\<lambda>x. f (g x))"
  by (cases r) simp_all

lemma map_bindE: "map_sum id g (bindE r f) = bindE r (\<lambda>x. map_sum id g (f x))"
  by (cases r) simp_all

lemma foldE_blind: "(\<And>x. blind (\<lambda>d. f d x)) \<Longrightarrow> blind (\<lambda>d. foldE f d xs)"
proof (induction xs)
  case Nil
  then show ?case by (simp add: blind_def)
next
  case (Cons x xs)
  show ?case
    by (rule blindI) (simp add: blindD [OF Cons.prems] bindE_map map_bindE blindD [OF Cons.IH [OF Cons.prems]])
qed

lemma foldl_expectation_wm:
  "foldl (pj_expectation en c tn a turn) (wm m d) vs = wm m (foldl (pj_expectation en c tn a turn) d vs)"
  by (induction vs arbitrary: d) simp_all

lemma project_call_blind: "blind (pj_project_call en e)"
  by (rule blindI)
     (simp add: pj_project_call_def Let_def update_billing_wm bindE_map map_bindE split_beta split: option.split)

lemma project_metric_blind: "blind (pj_project_metric en e)"
  by (rule blindI) (simp add: pj_project_metric_def map_bindE split: option.split)

lemma measurement_blind: "blind (\<lambda>d. pj_measurement en e pv mv d v)"
  by (rule blindI)
     (simp add: pj_measurement_def map_bindE Let_def option.case_distrib [of "map_sum id _"] cong: option.case_cong)

lemma expected_turn_blind: "blind (\<lambda>d. pj_expected_turn en c tn a d v)"
  by (rule blindI)
     (simp add: pj_expected_turn_def map_bindE Let_def foldl_expectation_wm if_distrib [of "map_sum id _"] cong: if_cong)

lemma manifest_blind: "blind (pj_usage_manifest en e t i j)"
  by (rule blindI)
     (simp add: pj_usage_manifest_def map_bindE Let_def blindD [OF foldE_blind [OF expected_turn_blind]] split: option.split)

lemma project_usage_blind: "blind (pj_project_usage en e t i j)"
  by (rule blindI)
     (simp add: pj_project_usage_def map_bindE bindE_map blindD [OF manifest_blind]
        blindD [OF foldE_blind [OF measurement_blind]] update_billing_wm split_beta)

lemma project_one_wm:
  "pj_project_one en t p o' e (wm m d) = map_sum id (map_prod id (wm m)) (pj_project_one en t p o' e d)"
proof (cases "pe_key e \<in> dom (db_keys d)")
  case True
  then show ?thesis by (simp add: project_one_dup)
next
  case False
  have "pj_claimed e (wm m d) = wm m (pj_claimed e d)" by (simp add: pj_claimed_def)
  then show ?thesis using False
    by (simp add: project_one_fresh blindD [OF project_call_blind] blindD [OF project_metric_blind]
        blindD [OF project_usage_blind] bindE_map map_bindE)
qed

subsection \<open>Batches\<close>

text \<open>The dictionary \<open>watermarks\<close>, which depends on the offsets only.\<close>

definition raise_mark :: "(tp \<Rightarrow> int option) \<Rightarrow> consumed \<Rightarrow> tp \<Rightarrow> int option" where
  "raise_mark marks c =
     (let k = (co_topic c, co_partition c)
      in marks(k \<mapsto> max (case marks k of None \<Rightarrow> -1 | Some n \<Rightarrow> n) (co_offset c)))"

definition batch_marks :: "consumed list \<Rightarrow> tp \<Rightarrow> int option" where
  "batch_marks cs = foldl raise_mark Map.empty cs"

lemma batch_fold:
  assumes "foldE (pj_batch_step en) (r, ms, d) cs = Inr (r', ms', d')"
  shows "\<exists>bs. dedup_run (pj_exec en) cs d = Inr (bs, d')
       \<and> br_inserted r' = br_inserted r @ map (\<lambda>a. co_event (fst a)) (filter snd (zip cs bs))
       \<and> br_duplicates r' = br_duplicates r @ map (\<lambda>a. co_event (fst a)) (filter (\<lambda>a. \<not> snd a) (zip cs bs))
       \<and> ms' = foldl raise_mark ms cs"
  using assms
proof (induction cs arbitrary: r ms d)
  case Nil
  then show ?case by simp
next
  case (Cons c cs)
  obtain st1 where step: "pj_batch_step en (r, ms, d) c = Inr st1"
    and more: "foldE (pj_batch_step en) st1 cs = Inr (r', ms', d')"
    using Cons.prems by (auto simp: bindE_eq_Inr)
  define ms1 where "ms1 = raise_mark ms c"
  obtain b d1 where one: "pj_exec en c d = Inr (b, d1)"
    and st1: "st1 = (br_record (co_event c) b (db_final d1 (pe_call_id (co_event c)) \<noteq> None) r, ms1, d1)"
    using step by (auto simp: pj_batch_step_def pj_exec_def bindE_eq_Inr Let_def ms1_def raise_mark_def)
  define r1 where "r1 = br_record (co_event c) b (db_final d1 (pe_call_id (co_event c)) \<noteq> None) r"
  have rest: "foldE (pj_batch_step en) (r1, ms1, d1) cs = Inr (r', ms', d')"
    using more st1 by (simp add: r1_def)
  have rec: "br_inserted r1 = br_inserted r @ (if b then [co_event c] else [])"
      "br_duplicates r1 = br_duplicates r @ (if b then [] else [co_event c])"
    by (simp_all add: r1_def br_record_def Let_def)
  from Cons.IH [OF rest] obtain bs where
    bs: "dedup_run (pj_exec en) cs d1 = Inr (bs, d')"
      "br_inserted r' = br_inserted r1 @ map (\<lambda>a. co_event (fst a)) (filter snd (zip cs bs))"
      "br_duplicates r' = br_duplicates r1 @ map (\<lambda>a. co_event (fst a)) (filter (\<lambda>a. \<not> snd a) (zip cs bs))"
      "ms' = foldl raise_mark ms1 cs" by blast
  show ?case using one bs rec by (intro exI [of _ "b # bs"]) (simp add: ms1_def)
qed

lemma batch_op_run:
  assumes "pj_batch_op en grp cs d = Inr (r, d')"
  obtains bs d1 where "dedup_run (pj_exec en) cs d = Inr (bs, d1)" "d' = pj_raise_marks grp (batch_marks cs) d1"
    "br_inserted r = map (\<lambda>a. co_event (fst a)) (filter snd (zip cs bs))"
    "br_duplicates r = map (\<lambda>a. co_event (fst a)) (filter (\<lambda>a. \<not> snd a) (zip cs bs))"
proof -
  obtain ms d1 where f: "foldE (pj_batch_step en) (br_empty, Map.empty, d) cs = Inr (r, ms, d1)"
    and d': "d' = pj_raise_marks grp ms d1"
    using assms by (auto simp: pj_batch_op_def bindE_eq_Inr)
  from batch_fold [OF f] d' show thesis using that by (auto simp: br_empty_def batch_marks_def)
qed

text \<open>The batches a consumer group commits one after the other.\<close>

fun pj_batches :: "env \<Rightarrow> string \<Rightarrow> consumed list list \<Rightarrow> db \<Rightarrow> db res" where
  "pj_batches en grp [] d = Inr d"
| "pj_batches en grp (cs # css) d = bindE (pj_batch_op en grp cs d) (\<lambda>(r, d1). pj_batches en grp css d1)"

lemma dedup_run_append:
  "dedup_run f (xs @ ys) s = bindE (dedup_run f xs s) (\<lambda>(bs, s1). bindE (dedup_run f ys s1) (\<lambda>(bs', s2). Inr (bs @ bs', s2)))"
  by (induction xs arbitrary: s) (simp_all add: bindE_assoc split_beta bindE_def split: sum.split)

lemma pj_exec_wm: "pj_exec en c (wm m d) = map_sum id (map_prod id (wm m)) (pj_exec en c d)"
  unfolding pj_exec_def by (rule project_one_wm)

lemma dedup_run_wm:
  "dedup_run (pj_exec en) cs (wm m d) = map_sum id (map_prod id (wm m)) (dedup_run (pj_exec en) cs d)"
proof (induction cs arbitrary: d)
  case (Cons c cs)
  show ?case
  proof (cases "pj_exec en c d")
    case (Inr r)
    then show ?thesis using Cons [of "snd r"]
      by (cases r; cases "dedup_run (pj_exec en) cs (snd r)") (simp_all add: pj_exec_wm split: prod.split)
  qed (simp add: pj_exec_wm)
qed simp

lemma raise_marks_wm: "pj_raise_marks grp ms d = wm (db_marks (pj_raise_marks grp ms d)) d"
  by (simp add: pj_raise_marks_def wm_def)

lemma batches_run:
  "pj_batches en grp css d = Inr d' \<Longrightarrow> \<exists>bs d1. dedup_run (pj_exec en) (concat css) d = Inr (bs, d1) \<and> d' = wm (db_marks d') d1"
proof (induction css arbitrary: d)
  case Nil
  then show ?case by (simp add: wm_def)
next
  case (Cons cs css)
  obtain r d1 where b: "pj_batch_op en grp cs d = Inr (r, d1)" and rest: "pj_batches en grp css d1 = Inr d'"
    using Cons.prems by (auto simp: bindE_eq_Inr)
  obtain bs d2 where run: "dedup_run (pj_exec en) cs d = Inr (bs, d2)"
    and d1: "d1 = pj_raise_marks grp (batch_marks cs) d2"
    using batch_op_run [OF b] by metis
  obtain bs' d3 where run': "dedup_run (pj_exec en) (concat css) d1 = Inr (bs', d3)" and d': "d' = wm (db_marks d') d3"
    using Cons.IH [OF rest] by blast
  have d1': "d1 = wm (db_marks d1) d2" unfolding d1 by (rule raise_marks_wm)
  obtain d4 where "dedup_run (pj_exec en) (concat css) d2 = Inr (bs', d4)" "d3 = wm (db_marks d1) d4"
    using run' dedup_run_wm [of en "concat css" "db_marks d1" d2] d1'
    by (cases "dedup_run (pj_exec en) (concat css) d2") auto
  then show ?case using run d' by (auto simp: dedup_run_append)
qed

text \<open>A batch whose keys are all known is recorded as duplicates and changes nothing but the watermarks.\<close>

lemma batch_fold_known:
  assumes "co_key ` set cs \<subseteq> dom (db_keys d)"
  shows "foldE (pj_batch_step en) (r, ms, d) cs
       = Inr (r\<lparr> br_duplicates := br_duplicates r @ map co_event cs \<rparr>, foldl raise_mark ms cs, d)"
  using assms
proof (induction cs arbitrary: r ms)
  case (Cons c cs)
  have "pj_batch_step en (r, ms, d) c
      = Inr (r\<lparr> br_duplicates := br_duplicates r @ [co_event c] \<rparr>, raise_mark ms c, d)"
    using Cons.prems pj_exec_dup [of c d en]
    by (simp add: pj_batch_step_def pj_exec_def br_record_def raise_mark_def Let_def)
  then show ?case using Cons by simp
qed simp

lemma batch_op_known:
  assumes "co_key ` set cs \<subseteq> dom (db_keys d)"
  shows "pj_batch_op en grp cs d = Inr (br_empty\<lparr> br_duplicates := map co_event cs \<rparr>, pj_raise_marks grp (batch_marks cs) d)"
  by (simp add: pj_batch_op_def batch_fold_known [OF assms] batch_marks_def) (simp add: br_empty_def)

lemma raise_marks_sel [simp]:
  "db_keys (pj_raise_marks grp ms d) = db_keys d"
  "db_calls (pj_raise_marks grp ms d) = db_calls d"
  by (simp_all add: pj_raise_marks_def)

lemma raise_marks_idem: "pj_raise_marks grp ms (pj_raise_marks grp ms d) = pj_raise_marks grp ms d"
  by (auto simp: pj_raise_marks_def fun_eq_iff intro!: db.equality split: option.split)

lemma batch_op_replay:
  assumes "pj_batch_op en grp cs d = Inr (r, d')"
  shows "pj_batch_op en grp cs d' = Inr (br_empty\<lparr> br_duplicates := map co_event cs \<rparr>, d')"
proof -
  obtain bs d1 where run: "dedup_run (pj_exec en) cs d = Inr (bs, d1)"
    and d': "d' = pj_raise_marks grp (batch_marks cs) d1"
    using batch_op_run [OF assms] by metis
  have "co_key ` set cs \<subseteq> dom (db_keys d')" using pj_dedup.run_seen [OF run] d' by auto
  from batch_op_known [OF this] show ?thesis unfolding d' by (simp add: raise_marks_idem)
qed

subsection \<open>Invariants of the projected tables\<close>

lemma dedup_run_invariant:
  assumes "dedup_run (pj_exec en) cs d = Inr (bs, d')" and "I d"
    and "\<And>c d b d'. c \<in> set cs \<Longrightarrow> I d \<Longrightarrow> pj_exec en c d = Inr (b, d') \<Longrightarrow> I d'"
  shows "I d'"
  using assms
proof (induction cs arbitrary: d bs)
  case (Cons c cs)
  obtain b d1 bs1 where one: "pj_exec en c d = Inr (b, d1)" and rest: "dedup_run (pj_exec en) cs d1 = Inr (bs1, d')"
    using Cons.prems(1) by (auto simp: bindE_eq_Inr)
  have "I d1" using Cons.prems(2,3) one by auto
  then show ?case using Cons.IH [OF rest] Cons.prems(3) by auto
qed simp

lemma batches_bill: "pj_batches en grp css d = Inr d' \<Longrightarrow> bill_ok en d \<Longrightarrow> bill_ok en d'"
proof -
  assume run: "pj_batches en grp css d = Inr d'" and ok: "bill_ok en d"
  obtain bs d1 where r: "dedup_run (pj_exec en) (concat css) d = Inr (bs, d1)" and d': "d' = wm (db_marks d') d1"
    using batches_run [OF run] by blast
  have "bill_ok en d1"
    by (rule dedup_run_invariant [where I = "bill_ok en", OF r ok]) (auto simp: pj_exec_def intro: project_one_bill)
  then have "bill_ok en (wm (db_marks d') d1)"
    unfolding bill_ok_def by (subst bill_ok_same [of _ d1]) simp_all
  then show ?thesis using d' by simp
qed

lemma bill_ok_empty: "bill_ok en (db_empty prices)"
  by (simp add: bill_ok_def bill_ok_but_def db_empty_def)

text \<open>A failed call stays failed.\<close>

definition call_failed :: "string \<Rightarrow> db \<Rightarrow> bool" where
  "call_failed call d \<longleftrightarrow> (\<exists>c. db_calls d call = Some c \<and> cl_status c = ''CALL_FAILED'')"

lemma update_billing_calls: "pj_update_call_billing en call dur fin d = Inr (b, d') \<Longrightarrow> db_calls d' = db_calls d"
  by (auto simp: pj_update_call_billing_def pj_billing_insert_def Let_def split: option.splits if_splits)

lemma upsert_other: "call \<noteq> pe_call_id e \<Longrightarrow> db_calls (pj_upsert_started e ps ms d) call = db_calls d call"
  by (simp add: pj_upsert_started_def Let_def split: option.split)

lemma project_call_failed:
  assumes "pj_project_call en e d = Inr d'" and "call_failed call d"
    and "pe_event_type e \<noteq> CALL_STARTED \<or> pe_call_id e \<noteq> call"
  shows "call_failed call d'"
proof -
  consider "pe_event_type e = CALL_STARTED" | "pe_event_type e = CALL_ENDED" | "pe_event_type e = CALL_FAILED"
    | (other) "pe_event_type e \<notin> {CALL_STARTED, CALL_ENDED, CALL_FAILED}" by blast
  then show ?thesis
  proof cases
    case 1
    then show ?thesis using assms
      by (auto simp: pj_project_call_def Let_def bindE_eq_Inr call_failed_def upsert_other)
  next
    case 2
    then show ?thesis using assms
      by (auto simp: pj_project_call_def Let_def bindE_eq_Inr call_failed_def split: option.splits if_splits
          dest!: update_billing_calls)
  next
    case 3
    then show ?thesis using assms
      by (auto simp: pj_project_call_def Let_def bindE_eq_Inr call_failed_def split: option.splits if_splits
          dest!: update_billing_calls)
  next
    case other
    then show ?thesis using assms
      by (auto simp: pj_project_call_def Let_def call_failed_def pj_touch_call_def split: option.splits if_splits)
  qed
qed

lemma project_metric_calls: "pj_project_metric en e d = Inr d' \<Longrightarrow> db_calls d' = db_calls d"
  by (auto simp: pj_project_metric_def bindE_eq_Inr split: option.splits)

lemma manifest_calls:
  assumes "pj_usage_manifest en e topic part off d = Inr d'"
  shows "db_calls d' = db_calls d"
proof -
  have exp: "db_calls (foldl (pj_expectation en c t a turn) d vs) = db_calls d" for c t a turn vs d
    by (induction vs arbitrary: d) (simp_all add: pj_expectation_def Let_def)
  have "db_calls d2 = db_calls d1" if "pj_expected_turn en c t a d1 v = Inr d2" for c t a d1 v d2
    using that exp by (auto simp: pj_expected_turn_def bindE_eq_Inr Let_def split: if_splits)
  then have turns: "db_calls d2 = db_calls d1"
    if "foldE (pj_expected_turn en c t a) d1 vs = Inr d2" for c t a d1 vs d2
    using foldE_invariant [OF that, of "\<lambda>x. db_calls x = db_calls d1"] by simp
  show ?thesis using assms by (auto simp: pj_usage_manifest_def bindE_eq_Inr Let_def dest!: turns)
qed

lemma measurement_calls: "pj_measurement en e pv mv d v = Inr d' \<Longrightarrow> db_calls d' = db_calls d"
  by (erule measurement_Inr)
     (simp add: pj_update_usage_rollup_def pj_insert_usage_event_def pj_insert_usage_def split: option.split)

lemma project_usage_calls:
  assumes "pj_project_usage en e topic part off d = Inr d'"
  shows "db_calls d' = db_calls d"
  using assms
proof (cases rule: project_usage_cases)
  case (barrier t i j)
  then show ?thesis by (rule manifest_calls)
next
  case (usage pv mv ms d1 b d2)
  have "db_calls d1 = db_calls d"
    using foldE_invariant [OF usage(1), of "\<lambda>x. db_calls x = db_calls d"] measurement_calls by simp
  then show ?thesis using update_billing_calls [OF usage(2)] usage(3)
    by (simp add: pj_enqueue_billing_event_def enqueue_outbox_def)
qed simp

lemma pj_exec_failed:
  assumes "pj_exec en c d = Inr (b, d')" and "call_failed call d"
    and "pe_event_type (co_event c) \<noteq> CALL_STARTED \<or> pe_call_id (co_event c) \<noteq> call"
  shows "call_failed call d'"
proof (cases "pe_key (co_event c) \<in> dom (db_keys d)")
  case True
  then show ?thesis using assms pj_exec_dup [of c d en] by (simp add: co_key_def)
next
  case False
  from project_one_steps [OF False assms(1) [unfolded pj_exec_def]] obtain d2 d3 where
    steps: "pj_project_call en (co_event c) (pj_claimed (co_event c) d) = Inr d2"
      "pj_project_metric en (co_event c) d2 = Inr d3"
      "pj_project_usage en (co_event c) (Some (co_topic c)) (Some (co_partition c)) (Some (co_offset c)) d3 = Inr d'"
    by metis
  have "call_failed call (pj_claimed (co_event c) d)"
    using assms(2) by (simp add: call_failed_def pj_claimed_def pj_insert_event_def)
  from project_call_failed [OF steps(1) this assms(3)] show ?thesis
    using project_metric_calls [OF steps(2)] project_usage_calls [OF steps(3)] by (simp add: call_failed_def)
qed

lemma usage_inserts_rollups: "db_rollups (pj_insert_usage_event v (pj_insert_usage u d)) = db_rollups d"
  by (simp add: pj_insert_usage_event_def pj_insert_usage_def)

lemma pj_exec_marks: "pj_exec en c d = Inr (b, d') \<Longrightarrow> db_marks d' = db_marks d"
proof (cases "pe_key (co_event c) \<in> dom (db_keys d)")
  case True
  assume "pj_exec en c d = Inr (b, d')"
  with True show ?thesis using pj_exec_dup [of c d en] by (simp add: co_key_def)
next
  case False
  assume "pj_exec en c d = Inr (b, d')"
  with False show ?thesis using project_one_new unfolding pj_exec_def by blast
qed

lemma fold_marks_upper:
  "c \<in> set cs \<Longrightarrow> \<exists>n. foldl raise_mark m cs (co_topic c, co_partition c) = Some n \<and> co_offset c \<le> n"
proof (induction cs rule: rev_induct)
  case (snoc x xs)
  then show ?case by (cases "c = x") (auto simp: raise_mark_def Let_def max_def split: option.splits)
qed simp

lemma batch_marks_upper:
  "c \<in> set cs \<Longrightarrow> \<exists>n. batch_marks cs (co_topic c, co_partition c) = Some n \<and> co_offset c \<le> n"
  unfolding batch_marks_def by (rule fold_marks_upper)

subsection \<open>Properties\<close>

text \<open>A price list, an environment and events used as concrete inputs.\<close>

definition env_demo :: env where
  "env_demo = \<lparr> en_platform_rate = 1/20, en_pricing_version = ''v1'', en_uuid5 = (\<lambda>s. ''uuid5:'' @ s),
     en_parse_decimal = (\<lambda>_. None), en_parse_int = (\<lambda>_. None), en_rep = (\<lambda>_. ''?''),
     en_decimal_str = (\<lambda>_. ''0''), en_now = 100 \<rparr>"

definition price_demo :: price_row where
  "price_demo = \<lparr> pr_provider = ''openai'', pr_model = ''m'', pr_usage_type = ''audio_minute'', pr_unit = ''minute'',
     pr_price = 1/100, pr_version = ''v1'', pr_effective = 0 \<rparr>"

definition ev_demo :: "string \<Rightarrow> event_type \<Rightarrow> string \<Rightarrow> dict \<Rightarrow> pevent" where
  "ev_demo k t stage p = \<lparr> pe_event_id = k, pe_call_id = ''c1'', pe_turn_id = ''t1'', pe_event_type = t,
     pe_stage = stage, pe_timestamp = 50, pe_seq = 1, pe_key = k, pe_payload = p, pe_trace_id = None \<rparr>"

definition co_demo :: "int \<Rightarrow> pevent \<Rightarrow> consumed" where
  "co_demo n e = \<lparr> co_event = e, co_topic = ''usage-events'', co_partition = 0, co_offset = n \<rparr>"

definition usage_demo :: pevent where
  "usage_demo = ev_demo ''k2'' USAGE_STT_RECORDED ''stt''
     [(''provider'', PStr ''openai''), (''model'', PStr ''m''),
      (''measurements'', PList [PDict [(''usage_type'', PStr ''audio_minute''), (''quantity'', PFloat (1/2))]])]"

definition started_demo :: pevent where
  "started_demo = ev_demo ''k1'' CALL_STARTED ''transport'' []"

lemmas demo_defs = env_demo_def price_demo_def ev_demo_def co_demo_def usage_demo_def started_demo_def db_empty_def

lemmas pj_run_defs = pj_batch_op_def pj_batch_step_def pj_project_one_def claim_key_def pj_insert_event_def
  pj_project_call_def pj_upsert_started_def pj_project_metric_def pj_project_usage_def pj_measurement_def
  dict_item_def dict_get_or_def dict_get_def find_price_def pj_usage_row_def pj_usage_event_row_def
  pj_update_usage_rollup_def pj_insert_usage_def pj_insert_usage_event_def pj_update_call_billing_def
  pj_billing_insert_def provider_cost_def pj_enqueue_billing_event_def enqueue_outbox_def pj_billing_event_def
  normalized_usage_type_def rollup_columns_def pj_tenant_def pj_assistant_def payload_str_def
  startswith_def br_record_def br_empty_def pj_touch_call_def py_or_def Let_def

lemma demo_batches: "\<exists>d. pj_batches env_demo ''g'' [[co_demo 0 started_demo], [co_demo 1 usage_demo]] (db_empty [price_demo]) = Inr d"
  by (simp add: demo_defs pj_run_defs pj_raise_marks_def)

text \<open>C1: Exactly-once projection. However the consumed events are grouped into batches and however often
they are redelivered, the tables (apart from the watermarks) end up as if the first occurrence of every new
idempotency key had been projected once, in order, and nothing else.\<close>

theorem pj_exactly_once:
  assumes "pj_batches en grp css d = Inr d'"
  shows "\<exists>bs d1. dedup_run (pj_exec en) (first_by_key co_key (dom (db_keys d)) (concat css)) d = Inr (bs, d1)
          \<and> list_all (\<lambda>b. b) bs \<and> d' = wm (db_marks d') d1"
proof -
  obtain bs d1 where run: "dedup_run (pj_exec en) (concat css) d = Inr (bs, d1)" and d': "d' = wm (db_marks d') d1"
    using batches_run [OF assms] by blast
  from pj_dedup.run_first_occurrences [OF run] d' show ?thesis by blast
qed

lemma pj_exactly_once_witness:
  "\<exists>d' bs d1. pj_batches env_demo ''g'' [[co_demo 0 started_demo], [co_demo 1 usage_demo]] (db_empty [price_demo]) = Inr d'
     \<and> dedup_run (pj_exec env_demo) (first_by_key co_key (dom (db_keys (db_empty [price_demo])))
          (concat [[co_demo 0 started_demo], [co_demo 1 usage_demo]])) (db_empty [price_demo]) = Inr (bs, d1)"
  using demo_batches pj_exactly_once by blast

text \<open>Redelivering a batch that was projected before, as happens when the worker dies between the
database commit and the offset commit, leaves every table unchanged, watermarks included, and reports every
event as a duplicate: no usage call, no late usage event and no ended call is reported again.\<close>

theorem pj_replay_is_noop:
  assumes "pj_batch_op en grp cs d = Inr (r, d')"
  shows "pj_batch_op en grp cs d' = Inr (br_empty\<lparr> br_duplicates := map co_event cs \<rparr>, d')"
  by (rule batch_op_replay [OF assms])

lemma pj_replay_is_noop_witness:
  "\<exists>r d'. pj_batch_op env_demo ''g'' [co_demo 1 usage_demo] (db_empty [price_demo]) = Inr (r, d')
      \<and> pj_batch_op env_demo ''g'' [co_demo 1 usage_demo] d' = Inr (br_empty\<lparr> br_duplicates := [usage_demo] \<rparr>, d')"
proof -
  obtain r d' where b: "pj_batch_op env_demo ''g'' [co_demo 1 usage_demo] (db_empty [price_demo]) = Inr (r, d')"
    by (simp add: demo_defs pj_run_defs)
  from pj_replay_is_noop [OF b] b show ?thesis by (auto simp: co_demo_def)
qed

text \<open>Live billing adds up. After any batches from empty tables, every billing row's provider cost is
the sum of the usage records of its call, its platform fee is the duration in minutes times the configured
rate, and its total is the sum of both.\<close>

theorem pj_live_billing_adds_up:
  assumes "pj_batches en grp css (db_empty prices) = Inr d" and "db_billing d call = Some b"
  shows "bl_provider_cost b = sum_list (map us_cost (filter (\<lambda>u. us_call u = call) (db_usage d)))
       \<and> bl_platform_fee b = bl_duration b / 60 * en_platform_rate en
       \<and> bl_total b = bl_platform_fee b + bl_provider_cost b"
  using batches_bill [OF assms(1) bill_ok_empty] assms(2)
  unfolding bill_ok_def bill_ok_but_def bill_row_ok_def provider_cost_def by blast

lemma pj_live_billing_adds_up_witness:
  "\<exists>d b. pj_batches env_demo ''g'' [[co_demo 1 usage_demo]] (db_empty [price_demo]) = Inr d
     \<and> db_billing d ''c1'' = Some b \<and> bl_total b = bl_platform_fee b + bl_provider_cost b"
proof -
  obtain d b where r: "pj_batches env_demo ''g'' [[co_demo 1 usage_demo]] (db_empty [price_demo]) = Inr d"
    and b: "db_billing d ''c1'' = Some b"
    by (simp add: demo_defs pj_run_defs pj_raise_marks_def)
  from pj_live_billing_adds_up [OF r b] r b show ?thesis by blast
qed

text \<open>A failed call stays failed: once the row of a call has status \<open>CALL_FAILED\<close>, no sequence of
batches without a \<open>call.started\<close> event for it changes the status, a late \<open>call.ended\<close> included.\<close>

theorem pj_failed_is_terminal:
  assumes "pj_batches en grp css d = Inr d'" and "call_failed call d"
    and "\<And>c. c \<in> set (concat css) \<Longrightarrow> pe_event_type (co_event c) \<noteq> CALL_STARTED \<or> pe_call_id (co_event c) \<noteq> call"
  shows "call_failed call d'"
proof -
  obtain bs d1 where run: "dedup_run (pj_exec en) (concat css) d = Inr (bs, d1)" and d': "d' = wm (db_marks d') d1"
    using batches_run [OF assms(1)] by blast
  have "call_failed call d1"
    by (rule dedup_run_invariant [where I = "call_failed call", OF run assms(2)])
       (erule (1) pj_exec_failed, erule assms(3))
  then have "call_failed call (wm (db_marks d') d1)" by (simp add: call_failed_def)
  with d' show ?thesis by simp
qed

definition failed_demo :: db where
  "failed_demo = (db_empty [])\<lparr> db_calls := [''c1'' \<mapsto>
     (the (db_calls (pj_upsert_started started_demo [] [] (db_empty [])) ''c1''))\<lparr> cl_status := ''CALL_FAILED'' \<rparr>] \<rparr>"

lemma pj_failed_is_terminal_witness:
  "\<exists>d'. pj_batches env_demo ''g'' [[co_demo 2 (ev_demo ''k4'' CALL_ENDED ''transport'' [])]] failed_demo = Inr d'
     \<and> call_failed ''c1'' d'"
proof -
  have f: "call_failed ''c1'' failed_demo" by (simp add: failed_demo_def call_failed_def)
  obtain d' where d': "pj_batches env_demo ''g'' [[co_demo 2 (ev_demo ''k4'' CALL_ENDED ''transport'' [])]] failed_demo = Inr d'"
    by (simp add: failed_demo_def demo_defs pj_run_defs)
  have "call_failed ''c1'' d'"
    by (rule pj_failed_is_terminal [OF d' f]) (simp add: co_demo_def ev_demo_def)
  with d' show ?thesis by blast
qed

text \<open>Watermarks only rise, and reach the highest projected offset of every partition of the batch.\<close>

theorem pj_watermarks_rise:
  assumes "pj_batch_op en grp cs d = Inr (r, d')"
  shows "(\<forall>k n. db_marks d k = Some n \<longrightarrow> (\<exists>n'. db_marks d' k = Some n' \<and> n \<le> n'))
       \<and> (\<forall>c \<in> set cs. \<exists>n. db_marks d' (grp, co_topic c, co_partition c) = Some n \<and> co_offset c \<le> n)"
proof -
  obtain bs d1 where run: "dedup_run (pj_exec en) cs d = Inr (bs, d1)"
    and d': "d' = pj_raise_marks grp (batch_marks cs) d1"
    using batch_op_run [OF assms] by metis
  have "db_marks d1 = db_marks d"
    by (rule dedup_run_invariant [where I = "\<lambda>x. db_marks x = db_marks d", OF run]) (auto dest: pj_exec_marks)
  then show ?thesis using batch_marks_upper [of _ cs] unfolding d' pj_raise_marks_def
    by (fastforce split: option.split)
qed

lemma pj_watermarks_rise_witness:
  "\<exists>r d' n. pj_batch_op env_demo ''g'' [co_demo 1 usage_demo] (db_empty [price_demo]) = Inr (r, d')
      \<and> db_marks d' (''g'', ''usage-events'', 0) = Some n \<and> 1 \<le> n"
proof -
  obtain r d' where b: "pj_batch_op env_demo ''g'' [co_demo 1 usage_demo] (db_empty [price_demo]) = Inr (r, d')"
    by (simp add: demo_defs pj_run_defs)
  from pj_watermarks_rise [OF b] b show ?thesis by (auto simp: co_demo_def)
qed

text \<open>A poison event blocks its partition. When a new usage event measures something the price list
does not know, every attempt to project a batch that contains it fails with the same \<open>ValueError\<close>,
which is not retried, so the offsets of that batch are never committed.\<close>

theorem pj_unpriced_usage_blocks:
  assumes "pj_batch_op en grp cs d = Inr (r, d1)"
    and "pe_key e \<notin> dom (db_keys d1)" and "pe_event_type e = USAGE_STT_RECORDED"
    and "map_of (pe_payload e) ''provider'' = Some (PStr p)" and "map_of (pe_payload e) ''model'' = Some (PStr m)"
    and "dict_get (pe_payload e) ''latency_ms'' = PNone"
    and "map_of (pe_payload e) ''measurements'' = Some (PList (PDict q # ms))"
    and "map_of q ''usage_type'' = Some (PStr t)" and "map_of q ''quantity'' = Some (PFloat x)"
    and "find_price p m t d1 = None"
  shows "pj_project_batch False (\<lambda>_. None) en grp (cs @ [c\<lparr> co_event := e \<rparr>] @ rest) d
       = Inl (ValueError (''No price configured for '' @ p @ ''/'' @ m @ ''/'' @ t))"
proof -
  obtain r0 marks d0 where f: "foldE (pj_batch_step en) (br_empty, Map.empty, d) cs = Inr (r0, marks, d0)"
    and d1: "d1 = pj_raise_marks grp marks d0"
    using assms(1) by (auto simp: pj_batch_op_def bindE_eq_Inr)
  have k: "pe_key e \<notin> dom (db_keys d0)" and pr: "find_price p m t d0 = None"
    using assms(2,10) d1 by (auto simp: pj_raise_marks_def find_price_def)
  have pc: "\<exists>y. pj_project_call en e X = Inr y \<and> db_pricing y = db_pricing X" for X
    using assms(3) by (cases "db_calls X (pe_call_id e)") (simp_all add: pj_project_call_def Let_def)
  have "db_pricing (pj_claimed e d0) = db_pricing d0" by (simp add: pj_claimed_def pj_insert_event_def)
  then obtain d2 where call: "pj_project_call en e (pj_claimed e d0) = Inr d2" and "db_pricing d2 = db_pricing d0"
    using pc [of "pj_claimed e d0"] by auto
  then have "find_price p m t d2 = None" using pr by (simp add: find_price_def)
  then have us: "pj_project_usage en e a b o2 d2 = Inl (ValueError (''No price configured for '' @ p @ ''/'' @ m @ ''/'' @ t))" for a b o2
    using assms(3-9) by (simp add: pj_project_usage_def startswith_def dict_item_def dict_get_or_def pj_measurement_def)
  have metric: "pj_project_metric en e d2 = Inr d2" using assms(6) by (simp add: pj_project_metric_def)
  have "pj_batch_op en grp (cs @ [c\<lparr> co_event := e \<rparr>] @ rest) d
      = Inl (ValueError (''No price configured for '' @ p @ ''/'' @ m @ ''/'' @ t))"
    using f call metric us k
    by (simp add: pj_batch_op_def foldE_append pj_batch_step_def Let_def project_one_fresh)
  then show ?thesis by (simp add: pj_project_batch_def pg_retry_def)
qed

lemma pj_unpriced_usage_blocks_witness:
  "pj_project_batch False (\<lambda>_. None) env_demo ''g'' ([] @ [(co_demo 0 started_demo)\<lparr> co_event := usage_demo \<rparr>] @ []) (db_empty [])
     = Inl (ValueError (''No price configured for '' @ ''openai'' @ ''/'' @ ''m'' @ ''/'' @ ''audio_minute''))"
  by (rule pj_unpriced_usage_blocks [where r = br_empty and ?d1.0 = "pj_raise_marks ''g'' Map.empty (db_empty [])" and x = "1/2" and
        q = "[(''usage_type'', PStr ''audio_minute''), (''quantity'', PFloat (1/2))]" and ms = "[]"])
     (simp_all add: usage_demo_def ev_demo_def db_empty_def dict_get_def find_price_def pj_raise_marks_def pj_batch_op_def)

text \<open>A unit error in the usage rollup. A speech-to-text measurement is priced in minutes, and the
rollup adds that quantity of minutes to the column \<open>stt_audio_seconds\<close> as it is.\<close>

theorem pj_rollup_adds_minutes_to_seconds:
  assumes "find_price p m ''audio_minute'' d = Some price" and "pe_stage e = ''stt''"
    and "db_rollups d (pe_call_id e) = Some r"
  shows "\<exists>d' r'. pj_measurement en e p m d (PDict [(''usage_type'', PStr ''audio_minute''), (''quantity'', PFloat minutes)]) = Inr d'
          \<and> db_rollups d' (pe_call_id e) = Some r'
          \<and> ro_amounts r' ''stt_audio_seconds'' = ro_amounts r ''stt_audio_seconds'' + minutes"
  using assms usage_inserts_rollups
  by (simp add: pj_measurement_def dict_item_def normalized_usage_type_def pj_update_usage_rollup_def rollup_columns_def
      Let_def)

lemma pj_rollup_adds_minutes_to_seconds_witness:
  "\<exists>d' r'. pj_measurement env_demo usage_demo ''openai'' ''m''
       ((db_empty [price_demo])\<lparr> db_rollups := [''c1'' \<mapsto> \<lparr> ro_tenant = ''t'', ro_assistant = ''a'', ro_amounts = (\<lambda>_. 0) \<rparr>] \<rparr>)
       (PDict [(''usage_type'', PStr ''audio_minute''), (''quantity'', PFloat 2)]) = Inr d'
     \<and> db_rollups d' (pe_call_id usage_demo) = Some r' \<and> ro_amounts r' ''stt_audio_seconds'' = 0 + 2"
  using pj_rollup_adds_minutes_to_seconds [of "''openai''" "''m''"
      "(db_empty [price_demo])\<lparr> db_rollups := [''c1'' \<mapsto> \<lparr> ro_tenant = ''t'', ro_assistant = ''a'', ro_amounts = (\<lambda>_. 0) \<rparr>] \<rparr>"
      price_demo usage_demo _ env_demo 2]
  by (simp add: find_price_def price_demo_def db_empty_def usage_demo_def ev_demo_def)

end
