(* ===== verification/Billing.thy ===== *)
theory Billing
  imports Activity_Laws Projector
begin

text \<open>
  What the billing activities promise, and how they fit the projector: the final bill against the
  usage records, the readiness check against what has been projected, and the adjustments for
  usage that came after the final bill.
\<close>

subsection \<open>Inputs for the witnesses\<close>

definition bill_ext :: ext where
  "bill_ext = \<lparr> xt_env = env_demo, xt_fault = (\<lambda>_. None), xt_http = (\<lambda>_ _. Inl TimeoutError),
     xt_uuid4 = (\<lambda>n. ''id'' @ nat_str n), xt_uuid_ok = (\<lambda>_. True), xt_now = (\<lambda>n. of_nat n), xt_exn_str = (\<lambda>_. ''error'') \<rparr>"

definition call_demo :: call_row where
  "call_demo = \<lparr> cl_status = ''CALL_COMPLETED'', cl_started_at = Some 0, cl_ended_at = Some 120, cl_stage = ''transport'',
     cl_corked = False, cl_cork_reason = None, cl_stt_provider = PNone, cl_llm_provider = PNone,
     cl_tts_provider = PNone, cl_stt_model = PNone, cl_llm_model = PNone, cl_tts_model = PNone, cl_org = PNone,
     cl_agent = PNone, cl_snapshot = PNone, cl_summary = PNone, cl_error = PNone \<rparr>"

definition usage_row_demo :: "string \<Rightarrow> string \<Rightarrow> rat \<Rightarrow> usage_row" where
  "usage_row_demo eid stage cost = \<lparr> us_event = eid, us_call = ''c1'', us_turn = ''t1'', us_stage = stage, us_provider = ''p'',
     us_model = ''m'', us_type = ''unit'', us_quantity = 1, us_unit = ''u'', us_price = cost, us_cost = cost,
     us_estimated = False, us_version = ''v1'', us_metadata = [], us_created = 0 \<rparr>"

definition final_demo :: final_row where
  "final_demo = \<lparr> fi_tenant = ''t'', fi_assistant = ''a'', fi_started = Some 0, fi_ended = Some 120, fi_seconds = 120,
     fi_platform = 10, fi_stt = 0, fi_llm = 0, fi_tts = 0, fi_telephony = 0, fi_total = 10, fi_currency = ''USD'',
     fi_version = ''v1'', fi_status = ''FINALIZED'', fi_warnings = [], fi_finalized_at = Some 5 \<rparr>"

definition bill_world :: "usage_row list \<Rightarrow> final_row option \<Rightarrow> world" where
  "bill_world us f = \<lparr> aw_db = (db_empty [])\<lparr> db_calls := Map.empty(''c1'' \<mapsto> call_demo), db_usage := us,
       db_final := (\<lambda>c. if c = ''c1'' then f else None) \<rparr>,
     aw_providers = [], aw_tool_attempts = [], aw_requests = [], aw_stmts = 0, aw_ids = 0 \<rparr>"

definition bill_data :: dict where
  "bill_data = [(''call_id'', PStr ''c1''), (''status'', PStr ''FINALIZED'')]"

lemmas bill_demo_defs = bill_ext_def call_demo_def usage_row_demo_def final_demo_def bill_world_def bill_data_def
  env_demo_def db_empty_def

lemmas act_run_defs = act_bind_def act_lift_def act_ret_def act_raise_def with_text_def with_text_or_def
  with_text_opt_def with_item_def with_strs_def with_dict_def sql_def sql_read_def sql_write_def upd_def ask_def
  dict_item_def dict_get_or_def dict_get_def as_text_def as_text_opt_def

lemmas bill_run_defs = finalize_call_billing_def compute_bill_def billing_component_costs_def add_component_cost_def
  billed_seconds_def bill_total_def cents_def round_half_up_def startswith_def billing_warnings_def Let_def

lemma floor_rat_numeral [simp]:
  "\<lfloor>numeral a / numeral b :: rat\<rfloor> = numeral a div numeral b" "\<lfloor>1 / numeral b :: rat\<rfloor> = 1 div numeral b"
  using floor_divide_of_int_eq [where ?'a = rat, of "numeral a" "numeral b"]
    floor_divide_of_int_eq [where ?'a = rat, of 1 "numeral b"] by simp_all

subsection \<open>The final bill\<close>

text \<open>C19: A first finalization stores a bill whose total is the sum of its five components, and that total is
within two and a half cents of the exact price of the call: five cents per minute of its duration plus the cost
of every usage record of the call, each counted once.\<close>

theorem finalized_bill_adds_up:
  assumes "finalize_call_billing x data w = (Inr r, w')" and "db_final (aw_db w) (br_call r) = None"
  shows "\<exists>f c. db_final (aw_db w') (br_call r) = Some f \<and> db_calls (aw_db w) (br_call r) = Some c
     \<and> fi_total f = fi_platform f + fi_stt f + fi_llm f + fi_tts f + fi_telephony f
     \<and> \<bar>of_int (fi_total f) - 100 * (billed_seconds (db_billing (aw_db w) (br_call r)) c / 60 * (5 / 100)
           + sum_list (map us_cost (call_usage (br_call r) (aw_db w))))\<bar> \<le> 5/2"
  using assms(1)
proof (cases rule: finalize_ok)
  case (1 call c sv row now)
  have f: "db_final (aw_db w') (br_call r) = Some row"
    using 1 assms(2) by (simp add: upsert_final_sel)
  have "fi_total row = fi_platform row + fi_stt row + fi_llm row + fi_tts row + fi_telephony row"
    using 1 by (simp add: bill_total_def)
  moreover have "\<bar>of_int (fi_total row) - 100 * (billed_seconds (db_billing (aw_db w) (br_call r)) c / 60 * (5 / 100)
           + sum_list (map us_cost (call_usage (br_call r) (aw_db w))))\<bar> \<le> 5/2"
    using bill_error [of "billed_seconds (db_billing (aw_db w) call) c" "call_usage call (aw_db w)"] 1 by simp
  ultimately show ?thesis using f 1 by auto
qed

lemma finalized_bill_adds_up_witness:
  "\<exists>r w' f. finalize_call_billing bill_ext bill_data (bill_world [usage_row_demo ''e1'' ''llm'' (1/3)] None) = (Inr r, w')
     \<and> db_final (aw_db w') (br_call r) = Some f
     \<and> fi_total f = fi_platform f + fi_stt f + fi_llm f + fi_tts f + fi_telephony f \<and> fi_total f = 43"
proof -
  let ?w = "bill_world [usage_row_demo ''e1'' ''llm'' (1/3)] None"
  have "\<exists>r w'. finalize_call_billing bill_ext bill_data ?w = (Inr r, w')
      \<and> br_call r = ''c1'' \<and> map_option fi_total (db_final (aw_db w') ''c1'') = Some 43"
    by (rule ran_exists) code_simp
  then obtain r w' where run: "finalize_call_billing bill_ext bill_data ?w = (Inr r, w')" and call: "br_call r = ''c1''"
    and f: "map_option fi_total (db_final (aw_db w') ''c1'') = Some 43" by blast
  have "db_final (aw_db ?w) (br_call r) = None" by (simp add: bill_demo_defs)
  from finalized_bill_adds_up [OF run this] run f call show ?thesis by auto
qed

text \<open>A second finalization does not store the telephony cost it computed: the row keeps the one of the
first, while the stored total is the new total. The stored components then no longer add up to it; they are off by
exactly the change of the telephony cost.\<close>

theorem refinalized_bill_keeps_telephony:
  assumes "finalize_call_billing x data w = (Inr r, w')" and "db_final (aw_db w) (br_call r) = Some f0"
  shows "\<exists>f. db_final (aw_db w') (br_call r) = Some f \<and> fi_telephony f = fi_telephony f0 \<and> fi_total f = br_total r
     \<and> fi_total f - bill_sum f = ll_telephony (br_bill r) - fi_telephony f0"
  using assms(1)
proof (cases rule: finalize_ok)
  case (1 call c sv row now)
  let ?f = "f0\<lparr> fi_seconds := fi_seconds row, fi_platform := fi_platform row, fi_stt := fi_stt row,
                fi_llm := fi_llm row, fi_tts := fi_tts row, fi_total := fi_total row,
                fi_status := fi_status row, fi_warnings := fi_warnings row,
                fi_finalized_at := coalesce (fi_finalized_at f0) (Some now) \<rparr>"
  have "db_final (aw_db w') (br_call r) = Some ?f"
    using 1 assms(2) by (simp add: upsert_final_sel)
  moreover have "fi_total ?f - bill_sum ?f = ll_telephony (br_bill r) - fi_telephony f0"
    using 1 by (simp add: bill_sum_def bill_total_def)
  ultimately show ?thesis using 1 by fastforce
qed

lemma refinalized_bill_keeps_telephony_witness:
  "\<exists>r w' f. finalize_call_billing bill_ext bill_data (bill_world [usage_row_demo ''e1'' ''telephony'' 1] (Some final_demo)) = (Inr r, w')
     \<and> db_final (aw_db w') (br_call r) = Some f \<and> fi_total f = 110 \<and> bill_sum f = 10"
proof -
  let ?w = "bill_world [usage_row_demo ''e1'' ''telephony'' 1] (Some final_demo)"
  have "\<exists>r w'. finalize_call_billing bill_ext bill_data ?w = (Inr r, w')
      \<and> br_call r = ''c1'' \<and> br_total r = 110 \<and> ll_telephony (br_bill r) = 100"
    by (rule ran_exists) code_simp
  then obtain r w' where run: "finalize_call_billing bill_ext bill_data ?w = (Inr r, w')" and call: "br_call r = ''c1''"
    and f: "br_total r = 110" "ll_telephony (br_bill r) = 100" by blast
  have f0: "db_final (aw_db ?w) (br_call r) = Some final_demo" by (simp add: bill_demo_defs call)
  from refinalized_bill_keeps_telephony [OF run f0] run f show ?thesis
    by (auto simp: final_demo_def)
qed

lemma sql_env: "sql (x\<lparr> xt_env := en \<rparr>) = sql x"
  by (simp add: sql_def fun_eq_iff)

lemma rate_update:
  "sql_read (x\<lparr> xt_env := (xt_env x)\<lparr> en_platform_rate := q \<rparr> \<rparr>) = sql_read x"
  "sql_write (x\<lparr> xt_env := (xt_env x)\<lparr> en_platform_rate := q \<rparr> \<rparr>) = sql_write x"
  "en_rep (xt_env (x\<lparr> xt_env := (xt_env x)\<lparr> en_platform_rate := q \<rparr> \<rparr>)) = en_rep (xt_env x)"
  by (simp_all add: sql_read_def sql_write_def sql_env fun_eq_iff)

text \<open>The platform rate the deployment configures has no influence on a final bill: changing it, and with it every
fee the projector computes, changes neither the report nor the tables a finalization leaves.\<close>

theorem finalization_ignores_configured_rate:
  "finalize_call_billing (x\<lparr> xt_env := (xt_env x)\<lparr> en_platform_rate := q \<rparr> \<rparr>) data w = finalize_call_billing x data w"
  unfolding finalize_call_billing_def rate_update by (rule refl)

subsection \<open>Readiness and the projection\<close>

lemma batch_marks_bound:
  "foldl raise_mark ms cs (t, p) = Some k \<Longrightarrow>
     (\<exists>k0. ms (t, p) = Some k0 \<and> k \<le> k0) \<or> k \<le> -1 \<or> (\<exists>c \<in> set cs. co_topic c = t \<and> co_partition c = p \<and> k \<le> co_offset c)"
proof (induction cs arbitrary: ms)
  case (Cons c cs)
  from Cons.IH [of "raise_mark ms c"] Cons.prems
  consider (old) k0 where "raise_mark ms c (t, p) = Some k0" "k \<le> k0"
    | (rest) "k \<le> -1 \<or> (\<exists>c \<in> set cs. co_topic c = t \<and> co_partition c = p \<and> k \<le> co_offset c)"
    by auto
  then show ?case
  proof cases
    case old
    then show ?thesis
      by (cases "(t, p) = (co_topic c, co_partition c)")
         (auto simp: raise_mark_def Let_def max_def split: if_splits option.splits)
  qed auto
qed simp

lemma raise_marks_cases:
  "db_marks (pj_raise_marks grp ms d) (grp, t, p) = Some n \<Longrightarrow>
     (\<exists>k0. db_marks d (grp, t, p) = Some k0 \<and> n \<le> k0) \<or> ms (t, p) = Some n"
  by (auto simp: pj_raise_marks_def max_def split: option.splits if_splits)

lemma batches_marks_bound:
  assumes "pj_batches en grp css d = Inr d'" and "db_marks d' (grp, t, p) = Some k"
  shows "(\<exists>k0. db_marks d (grp, t, p) = Some k0 \<and> k \<le> k0) \<or> k \<le> -1
       \<or> (\<exists>c \<in> set (concat css). co_topic c = t \<and> co_partition c = p \<and> k \<le> co_offset c)"
  using assms(1)
proof (induction css arbitrary: d)
  case Nil
  then show ?case using assms(2) by auto
next
  case (Cons cs css)
  obtain r d1 where b: "pj_batch_op en grp cs d = Inr (r, d1)" and rest: "pj_batches en grp css d1 = Inr d'"
    using Cons.prems by (auto simp: bindE_eq_Inr)
  obtain bs d2 where run: "dedup_run (pj_exec en) cs d = Inr (bs, d2)" and d1: "d1 = pj_raise_marks grp (batch_marks cs) d2"
    using batch_op_run [OF b] by metis
  have "db_marks d2 = db_marks d"
    by (rule dedup_run_invariant [where I = "\<lambda>x. db_marks x = db_marks d", OF run]) (auto dest: pj_exec_marks)
  then have step: "(\<exists>k0. db_marks d (grp, t, p) = Some k0 \<and> n \<le> k0) \<or> n \<le> -1
       \<or> (\<exists>c \<in> set cs. co_topic c = t \<and> co_partition c = p \<and> n \<le> co_offset c)"
    if "db_marks d1 (grp, t, p) = Some n" for n
    using raise_marks_cases [OF that [unfolded d1]] batch_marks_bound [of Map.empty cs t p n]
    by (auto simp: batch_marks_def)
  from Cons.IH [OF rest] show ?case
  proof (elim disjE exE conjE)
    fix k0
    assume "db_marks d1 (grp, t, p) = Some k0" "k \<le> k0"
    from step [OF this(1)] this(2) show ?thesis by (auto intro: order_trans)
  qed auto
qed

lemma batches_keys:
  assumes "pj_batches en grp css d = Inr d'" and "c \<in> set (concat css)"
  shows "co_key c \<in> dom (db_keys d')"
proof -
  obtain bs d1 where run: "dedup_run (pj_exec en) (concat css) d = Inr (bs, d1)" and d': "d' = wm (db_marks d') d1"
    using batches_run [OF assms(1)] by blast
  have "dom (db_keys d1) = dom (db_keys d) \<union> co_key ` set (concat css)"
    by (rule pj_dedup.run_seen [OF run])
  moreover have "db_keys d' = db_keys d1" using d' by (metis wm_sel(1))
  ultimately show ?thesis using assms(2) by auto
qed

text \<open>C26: Readiness means what it says. Suppose the broker hands a partition's records to the projector in order and
without gaps. When the readiness check reports that nothing is missing, the call has a manifest; every record of the
manifest's partition up to the barrier has been projected, so no usage published before the barrier can still be
outstanding; every expected usage of every turn has been recorded; and every required type is present.\<close>

theorem ready_means_projected:
  assumes "load_billing_readiness x data w = (Inr r, w')" and "ready r"
    and "map_of data ''call_id'' = Some (PStr call)"
    and "dict_get_or data ''consumer_group'' (PStr ''voicemesh-postgres-projector-v1'') = PStr grp"
    and "pj_batches en grp css (db_empty prices) = Inr d"
    and "db_marks (aw_db w) = db_marks d" and "db_keys (aw_db w) = db_keys d"
    and "\<forall>c \<in> set (concat css). \<forall>a \<in> set published. co_topic a = co_topic c \<and> co_partition a = co_partition c
           \<and> co_offset a \<le> co_offset c \<longrightarrow> a \<in> set (concat css)"
    and "\<forall>a \<in> set published. 0 \<le> co_offset a"
  shows "\<exists>m. db_manifests (aw_db w) call = Some m
     \<and> (\<forall>a \<in> set published. co_topic a = ma_topic m \<and> co_partition a = ma_partition m \<and> co_offset a \<le> ma_offset m
           \<longrightarrow> co_key a \<in> dom (db_keys (aw_db w)))
     \<and> (\<forall>e \<in> set (db_expect (aw_db w)). ex_call e = call \<longrightarrow>
          (\<exists>u \<in> set (db_usage_events (aw_db w)). ue_call u = call \<and> ue_turn u = ex_turn e \<and> ue_type u = ex_type e))
     \<and> (\<forall>ts. dict_get data ''required_usage_types'' = PList (map PStr ts) \<longrightarrow> set ts \<subseteq> set (present_types call (aw_db w)))"
proof -
  have man: "rd_manifest r" using assms(2) by (simp add: ready_def)
  obtain m required where m: "db_manifests (aw_db w) call = Some m"
    and req: "bindE (as_list (dict_get_or data ''required_usage_types'' (PList []))) (strs_of ''required_usage_types'') = Inr required"
    and up: "rd_caught_up r \<longleftrightarrow> (\<exists>k. db_marks (aw_db w) (grp, ma_topic m, ma_partition m) = Some k \<and> ma_offset m \<le> k)"
    and miss: "rd_missing r = sort (remdups (filter (\<lambda>t. t \<notin> set (present_types call (aw_db w))) required))"
    and exps: "rd_missing_expectations r = map (\<lambda>e. ex_turn e @ '':'' @ ex_type e) (missing_expectation_rows call (aw_db w))"
    using assms(3,4) by - (rule readiness_ok [OF assms(1) man], auto)
  obtain k where k: "db_marks d (grp, ma_topic m, ma_partition m) = Some k" "ma_offset m \<le> k"
    using up assms(2,6) by (auto simp: ready_def)
  have projected: "co_key a \<in> dom (db_keys (aw_db w))"
    if a: "a \<in> set published" "co_topic a = ma_topic m" "co_partition a = ma_partition m" "co_offset a \<le> ma_offset m" for a
  proof -
    have "0 \<le> co_offset a" using assms(9) a by blast
    then obtain c where "c \<in> set (concat css)" "co_topic c = ma_topic m" "co_partition c = ma_partition m" "k \<le> co_offset c"
      using batches_marks_bound [OF assms(5) k(1)] k(2) a(4) by (auto simp: db_empty_def)
    then have "a \<in> set (concat css)" using assms(8) a k(2) by (metis order_trans)
    then show ?thesis using batches_keys [OF assms(5)] assms(7) by simp
  qed
  have "missing_expectation_rows call (aw_db w) = []" using exps assms(2) by (simp add: ready_def)
  moreover have "set ts \<subseteq> set (present_types call (aw_db w))" if "dict_get data ''required_usage_types'' = PList (map PStr ts)" for ts
  proof -
    have "dict_get_or data ''required_usage_types'' (PList []) = PList (map PStr ts)"
      using that by (auto simp: dict_get_def dict_get_or_def split: option.splits)
    then have "required = ts" using req by simp
    then show ?thesis using miss assms(2) by (auto simp: ready_def filter_empty_conv dest: arg_cong [of _ _ set])
  qed
  ultimately show ?thesis using m projected unfolding missing_expectations_empty by blast
qed

definition barrier_demo :: pevent where
  "barrier_demo = ev_demo ''k3'' USAGE_FINALIZATION_BARRIER ''session''
     [(''expected_turns'', PList [PDict [(''turn_id'', PStr ''t1''), (''expected_usage'', PList [PStr ''stt_audio_seconds''])]])]"

definition ready_world :: "db \<Rightarrow> world" where
  "ready_world d = \<lparr> aw_db = d, aw_providers = [], aw_tool_attempts = [], aw_requests = [], aw_stmts = 0, aw_ids = 0 \<rparr>"

definition ready_data :: dict where
  "ready_data = [(''call_id'', PStr ''c1''), (''consumer_group'', PStr ''g''),
     (''required_usage_types'', PList (map PStr [''stt_audio_seconds'']))]"

lemma ready_demo_db:
  "\<exists>d m. pj_batches env_demo ''g'' [[co_demo 0 usage_demo, co_demo 1 barrier_demo]] (db_empty [price_demo]) = Inr d
     \<and> db_manifests d ''c1'' = Some m \<and> ma_topic m = ''usage-events'' \<and> ma_partition m = 0 \<and> ma_offset m = 1
     \<and> db_marks d (''g'', ''usage-events'', 0) = Some 1
     \<and> missing_expectation_rows ''c1'' d = [] \<and> present_types ''c1'' d = [''stt_audio_seconds'']"
proof -
  have "case pj_batches env_demo ''g'' [[co_demo 0 usage_demo, co_demo 1 barrier_demo]] (db_empty [price_demo]) of
      Inr d \<Rightarrow> (case db_manifests d ''c1'' of
          Some m \<Rightarrow> ma_topic m = ''usage-events'' \<and> ma_partition m = 0 \<and> ma_offset m = 1 \<and> db_marks d (''g'', ''usage-events'', 0) = Some 1
            \<and> missing_expectation_rows ''c1'' d = [] \<and> present_types ''c1'' d = [''stt_audio_seconds'']
        | None \<Rightarrow> False)
    | Inl e \<Rightarrow> False" by code_simp
  then show ?thesis by (auto split: sum.splits option.splits)
qed

lemma ready_means_projected_witness:
  "\<exists>d m. pj_batches env_demo ''g'' [[co_demo 0 usage_demo, co_demo 1 barrier_demo]] (db_empty [price_demo]) = Inr d
     \<and> db_manifests d ''c1'' = Some m \<and> co_offset (co_demo 0 usage_demo) \<le> ma_offset m
     \<and> co_key (co_demo 0 usage_demo) \<in> dom (db_keys d) \<and> ''stt_audio_seconds'' \<in> set (present_types ''c1'' d)"
proof -
  obtain d m where b: "pj_batches env_demo ''g'' [[co_demo 0 usage_demo, co_demo 1 barrier_demo]] (db_empty [price_demo]) = Inr d"
    and m: "db_manifests d ''c1'' = Some m" "ma_topic m = ''usage-events''" "ma_partition m = 0" "ma_offset m = 1"
    and k: "db_marks d (''g'', ''usage-events'', 0) = Some 1"
    and e: "missing_expectation_rows ''c1'' d = []" "present_types ''c1'' d = [''stt_audio_seconds'']"
    using ready_demo_db by blast
  obtain r w' where run: "load_billing_readiness bill_ext ready_data (ready_world d) = (Inr r, w')" and rd: "ready r"
    using m k e by (simp add: load_billing_readiness_def read_watermark_def bill_ext_def ready_data_def ready_world_def
        act_run_defs ready_def mark_reached_def)
  have "\<exists>m. db_manifests (aw_db (ready_world d)) ''c1'' = Some m
     \<and> (\<forall>a \<in> set [co_demo 0 usage_demo, co_demo 1 barrier_demo]. co_topic a = ma_topic m \<and> co_partition a = ma_partition m
           \<and> co_offset a \<le> ma_offset m \<longrightarrow> co_key a \<in> dom (db_keys (aw_db (ready_world d))))
     \<and> (\<forall>e \<in> set (db_expect (aw_db (ready_world d))). ex_call e = ''c1'' \<longrightarrow>
          (\<exists>u \<in> set (db_usage_events (aw_db (ready_world d))). ue_call u = ''c1'' \<and> ue_turn u = ex_turn e \<and> ue_type u = ex_type e))
     \<and> (\<forall>ts. dict_get ready_data ''required_usage_types'' = PList (map PStr ts)
           \<longrightarrow> set ts \<subseteq> set (present_types ''c1'' (aw_db (ready_world d))))"
    by (rule ready_means_projected [OF run rd, where grp = "''g''" and d = d
          and css = "[[co_demo 0 usage_demo, co_demo 1 barrier_demo]]"])
       (use b in \<open>auto simp: ready_data_def dict_get_or_def ready_world_def co_demo_def\<close>)
  then have "co_key (co_demo 0 usage_demo) \<in> dom (db_keys d)" using m by (auto simp: ready_world_def co_demo_def)
  then show ?thesis using b m(1,4) e by (intro exI [of _ d] exI [of _ m]) (simp add: co_demo_def)
qed

subsection \<open>Adjustments for late usage\<close>

lemma insert_adjustment_known:
  "aj_source row = Some s \<Longrightarrow> r \<in> set (db_adjust (aw_db w)) \<Longrightarrow> aj_call r = aj_call row \<Longrightarrow> aj_source r = Some s
   \<Longrightarrow> insert_adjustment row w = (Inr (), w)"
  by (auto simp: insert_adjustment_def Let_def list_ex_iff)

lemma insert_adjustment_there:
  "insert_adjustment row w = (Inr (), w') \<Longrightarrow> aj_source row = Some s \<Longrightarrow>
     \<exists>r \<in> set (db_adjust (aw_db w')). aj_call r = aj_call row \<and> aj_source r = Some s"
  by (auto simp: insert_adjustment_def Let_def list_ex_iff split: if_splits)

text \<open>A late usage event is adjusted for once. When the adjustment activity succeeded for a source event, running it
again for the same call and event, after whatever other activities, adds no second adjustment.\<close>

theorem adjustment_happens_once:
  assumes "create_billing_adjustment x data w = (Inr r, w1)" and "truthy (dict_get data ''source_event_id'')"
    and "act_le w1 v" and "create_billing_adjustment x data v = (Inr r', v')"
  shows "db_adjust (aw_db v') = db_adjust (aw_db v)"
proof -
  obtain call c f u where 1: "map_of data ''call_id'' = Some (PStr call)" "adjust_call x data call c f u = (Inr r, w1)"
    using adjustment_ok [OF assms(1)] by metis
  obtain call' c' f' u' where 2: "map_of data ''call_id'' = Some (PStr call')" "aw_db u' = aw_db v"
    "adjust_call x data call' c' f' u' = (Inr r', v')"
    using adjustment_ok [OF assms(4)] by metis
  obtain row t where row: "insert_adjustment row t = (Inr (), w1)" "aj_call row = call"
    "source_uuid x (dict_get data ''source_event_id'') = Inr (aj_source row)"
    using adjust_call_ok [OF 1(2)] by metis
  obtain row' t' where row': "aw_db t' = aw_db u'" "insert_adjustment row' t' = (Inr (), v')" "aj_call row' = call'"
    "source_uuid x (dict_get data ''source_event_id'') = Inr (aj_source row')"
    using adjust_call_ok [OF 2(3)] by metis
  have same: "call' = call" "aj_source row' = aj_source row" using 1 2 row row' by auto
  obtain s where s: "aj_source row = Some s"
    using row(3) assms(2) by (cases "aj_source row") (auto simp: source_uuid_def split: if_splits)
  obtain a where a: "a \<in> set (db_adjust (aw_db w1))" "aj_call a = call" "aj_source a = Some s"
    using insert_adjustment_there [OF row(1) s] row(2) by auto
  have "prefix (db_adjust (aw_db w1)) (db_adjust (aw_db v))" using assms(3) by (simp add: act_le_def db_le_def)
  then have "a \<in> set (db_adjust (aw_db t'))" using a(1) row'(1) 2(2) by (auto dest: set_mono_prefix)
  then have "insert_adjustment row' t' = (Inr (), t')"
    using insert_adjustment_known [of row' s a t'] a s same row'(3) by simp
  then show ?thesis using row'(1,2) 2(2) by simp
qed

definition late_data :: "string \<Rightarrow> dict" where
  "late_data e = [(''call_id'', PStr ''c1''), (''source_event_id'', PStr e)]"

lemmas adjust_run_defs = create_billing_adjustment_def adjust_call_def source_uuid_def insert_adjustment_def late_data_def

lemma adjustment_happens_once_witness:
  "\<exists>r w1 r' w2. create_billing_adjustment bill_ext (late_data ''e1'') (bill_world [] (Some final_demo)) = (Inr r, w1)
     \<and> create_billing_adjustment bill_ext (late_data ''e1'') w1 = (Inr r', w2)
     \<and> length (db_adjust (aw_db w1)) = 1 \<and> db_adjust (aw_db w2) = db_adjust (aw_db w1)"
proof -
  have "\<exists>r w1. create_billing_adjustment bill_ext (late_data ''e1'') (bill_world [] (Some final_demo)) = (Inr r, w1)
      \<and> length (db_adjust (aw_db w1)) = 1 \<and> (case create_billing_adjustment bill_ext (late_data ''e1'') w1 of (Inr r', w2) \<Rightarrow> True | (Inl e, w2) \<Rightarrow> False)"
    by (rule ran_exists) code_simp
  then obtain r w1 where 1: "create_billing_adjustment bill_ext (late_data ''e1'') (bill_world [] (Some final_demo)) = (Inr r, w1)"
    and n: "length (db_adjust (aw_db w1)) = 1"
    and again: "case create_billing_adjustment bill_ext (late_data ''e1'') w1 of (Inr r', w2) \<Rightarrow> True | (Inl e, w2) \<Rightarrow> False"
    by (elim exE conjE) (rule that)
  from ran_exists [OF again] obtain r' w2 where 2: "create_billing_adjustment bill_ext (late_data ''e1'') w1 = (Inr r', w2)" by blast
  have "truthy (dict_get (late_data ''e1'') ''source_event_id'')" by (simp add: late_data_def dict_get_def)
  from adjustment_happens_once [OF 1 this act.order_refl 2] show ?thesis using 1 2 n by blast
qed

text \<open>Adjustments are not cumulative. Two late events of a call are each adjusted against the final bill as it was
stored, which no adjustment changes, so their deltas together exceed what is missing from the bill by the first delta.\<close>

theorem late_deltas_overlap:
  assumes "create_billing_adjustment x data1 w = (Inr r1, w1)" and "create_billing_adjustment x data2 v = (Inr r2, v2)"
    and "ar_call r1 = ar_call r2" and "db_final (aw_db v) = db_final (aw_db w1)"
  shows "\<exists>f. db_final (aw_db v2) (ar_call r2) = Some f \<and> ar_previous r1 = fi_total f \<and> ar_previous r2 = fi_total f
     \<and> ar_delta r1 + ar_delta r2 = (ar_recomputed r2 - fi_total f) + ar_delta r1"
proof -
  have step: "\<exists>f. db_final (aw_db t) (ar_call r) = Some f \<and> db_final (aw_db t') = db_final (aw_db t)
      \<and> ar_previous r = fi_total f \<and> ar_delta r = ar_recomputed r - fi_total f"
    if run: "create_billing_adjustment x data t = (Inr r, t')" for data t r t'
  proof -
    obtain call c f u where 1: "db_final (aw_db t) call = Some f" "aw_db u = aw_db t"
      "adjust_call x data call c f u = (Inr r, t')"
      using adjustment_ok [OF run] by metis
    obtain row u' where 2: "aw_db u' = aw_db u" "insert_adjustment row u' = (Inr (), t')" "aj_previous row = fi_total f"
      "aj_delta row = aj_recomputed row - aj_previous row" "ar_delta r = aj_delta row" "ar_previous r = aj_previous row"
      "ar_recomputed r = aj_recomputed row" "ar_call r = call"
      using adjust_call_ok [OF 1(3)] by metis
    have "db_final (aw_db t') = db_final (aw_db u')"
      using 2(2) by (auto simp: insert_adjustment_def Let_def split: if_splits)
    then show ?thesis using 1 2 by simp
  qed
  from step [OF assms(1)] step [OF assms(2)] assms(3,4) show ?thesis by auto
qed

lemma late_deltas_overlap_witness:
  "\<exists>r1 w1 r2 v2. create_billing_adjustment bill_ext (late_data ''e1'') (bill_world [usage_row_demo ''e1'' ''llm'' 1] (Some final_demo)) = (Inr r1, w1)
     \<and> create_billing_adjustment bill_ext (late_data ''e2'')
          (w1\<lparr> aw_db := (aw_db w1)\<lparr> db_usage := [usage_row_demo ''e1'' ''llm'' 1, usage_row_demo ''e2'' ''llm'' 1] \<rparr> \<rparr>) = (Inr r2, v2)
     \<and> ar_recomputed r2 - ar_previous r2 = 200 \<and> ar_delta r1 + ar_delta r2 = 300"
proof -
  let ?us = "[usage_row_demo ''e1'' ''llm'' 1, usage_row_demo ''e2'' ''llm'' 1]"
  have "\<exists>r1 w1. create_billing_adjustment bill_ext (late_data ''e1'') (bill_world [usage_row_demo ''e1'' ''llm'' 1] (Some final_demo)) = (Inr r1, w1)
      \<and> ar_call r1 = ''c1'' \<and> ar_delta r1 = 100
      \<and> (case create_billing_adjustment bill_ext (late_data ''e2'') (w1\<lparr> aw_db := (aw_db w1)\<lparr> db_usage := ?us \<rparr> \<rparr>) of
            (Inr r2, v2) \<Rightarrow> ar_call r2 = ''c1'' \<and> ar_recomputed r2 = 210 \<and> ar_previous r2 = 10 | (Inl e, v2) \<Rightarrow> False)"
    by (rule ran_exists) code_simp
  then obtain r1 w1 where 1: "create_billing_adjustment bill_ext (late_data ''e1'') (bill_world [usage_row_demo ''e1'' ''llm'' 1] (Some final_demo)) = (Inr r1, w1)"
    and f1: "ar_call r1 = ''c1''" "ar_delta r1 = 100"
    and again: "case create_billing_adjustment bill_ext (late_data ''e2'') (w1\<lparr> aw_db := (aw_db w1)\<lparr> db_usage := ?us \<rparr> \<rparr>) of
            (Inr r2, v2) \<Rightarrow> ar_call r2 = ''c1'' \<and> ar_recomputed r2 = 210 \<and> ar_previous r2 = 10 | (Inl e, v2) \<Rightarrow> False"
    by (elim exE conjE) (rule that)
  from ran_exists [OF again] obtain r2 v2 where 2: "create_billing_adjustment bill_ext (late_data ''e2'') (w1\<lparr> aw_db := (aw_db w1)\<lparr> db_usage := ?us \<rparr> \<rparr>) = (Inr r2, v2)"
    and f2: "ar_call r2 = ''c1''" "ar_recomputed r2 = 210" "ar_previous r2 = 10" by blast
  have "ar_delta r1 + ar_delta r2 = 300"
    using late_deltas_overlap [OF 1 2] f1 f2 by auto
  then show ?thesis using 1 2 f2 by (intro exI conjI) simp_all
qed

end
