(* ===== verification/Billing_Workflow.thy ===== *)
theory Billing_Workflow
  imports Temporal Billing
begin

text \<open>
  \<open>BillingFinalizationWorkflow\<close>, \<open>BillingAdjustmentWorkflow\<close> and \<open>CallCompletionWorkflow\<close>
  (\<open>apps/worker/durable_workflows.py\<close>): wait until the projector has caught up with the call's
  finalization barrier and all expected usage is there, or the time is over, then write the final bill;
  and write an adjustment for usage that came later. Their activities have no retry bound.
\<close>

record billing_wf =
  bf_state :: billing_state
  bf_ended :: bool
  bf_present :: "string list"
  bf_missing :: "string list"
  bf_missing_expectations :: "string list"
  bf_manifest :: bool
  bf_caught_up :: bool
  bf_updates :: nat
  bf_warnings :: "string list"
  bf_total :: "int option"
  bf_input :: dict

definition billing_wf_new :: billing_wf where
  "billing_wf_new = \<lparr> bf_state = B_WAITING_FOR_CALL_END, bf_ended = False, bf_present = [], bf_missing = [],
     bf_missing_expectations = [], bf_manifest = False, bf_caught_up = False, bf_updates = 0, bf_warnings = [],
     bf_total = None, bf_input = [] \<rparr>"

datatype billing_signal = CallEnded dict | UsageRecorded dict | UsageProjectionUpdated dict

fun bw_signal :: "env \<Rightarrow> billing_signal \<Rightarrow> billing_wf \<Rightarrow> billing_wf" where
  "bw_signal en (CallEnded ev) f = f\<lparr> bf_ended := True \<rparr>"
| "bw_signal en (UsageRecorded ev) f =
     (let f1 = (if truthy (dict_get ev ''usage_type'')
                then f\<lparr> bf_present := List.insert (py_str (en_rep en) (dict_get ev ''usage_type'')) (bf_present f) \<rparr> else f)
      in f1\<lparr> bf_updates := Suc (bf_updates f1) \<rparr>)"
| "bw_signal en (UsageProjectionUpdated ev) f = f\<lparr> bf_updates := Suc (bf_updates f) \<rparr>"

type_synonym billing_flow = "billing_wf flow"
type_synonym billing_runtime = "billing_signal runtime"

abbreviation bw_handler :: "billing_runtime \<Rightarrow> billing_signal \<Rightarrow> billing_wf \<Rightarrow> billing_wf" where
  "bw_handler rn \<equiv> bw_signal (xt_env (rn_ext rn))"

definition bw_execute :: "billing_runtime \<Rightarrow> 'a activity \<Rightarrow> (billing_flow, 'a) act" where
  "bw_execute rn m = execute (bw_handler rn) rn Unlimited m"

definition bw_observe :: "readiness \<Rightarrow> billing_wf \<Rightarrow> billing_wf" where
  "bw_observe r f =
     f\<lparr> bf_manifest := rd_manifest r, bf_caught_up := rd_caught_up r, bf_present := rd_present r,
        bf_missing := rd_missing r, bf_missing_expectations := rd_missing_expectations r \<rparr>"

definition bw_ready :: "billing_wf \<Rightarrow> bool" where
  "bw_ready f \<longleftrightarrow> bf_manifest f \<and> bf_caught_up f \<and> bf_missing f = [] \<and> bf_missing_expectations f = []"

definition bw_waiting :: "billing_wf \<Rightarrow> billing_state" where
  "bw_waiting f =
     (if \<not> bf_manifest f then B_WAITING_FOR_MANIFEST
      else if \<not> bf_caught_up f then B_WAITING_FOR_PROJECTION
      else B_WAITING_FOR_USAGE)"

definition bw_wait_seconds :: "billing_input \<Rightarrow> int" where
  "bw_wait_seconds p = max 1 (if bi_settle p = 0 then 2 else bi_settle p)"

lemma bw_wait_positive: "0 < bw_wait_seconds p"
  by (simp add: bw_wait_seconds_def)

text \<open>The loop of \<open>run\<close>: its result is whether the readiness check was met.\<close>

function bw_loop :: "billing_runtime \<Rightarrow> billing_input \<Rightarrow> int \<Rightarrow> (billing_flow, bool) act" where
  "bw_loop rn p elapsed =
     (if \<not> elapsed \<le> bi_timeout p then act_ret False
      else
        with_self (\<lambda>f.
        act_bind (bw_execute rn (load_billing_readiness (rn_ext rn) (bf_input f))) (\<lambda>r.
        act_bind (set_self (bw_observe r)) (\<lambda>_.
        with_self (\<lambda>f.
          if bw_ready f then act_ret True
          else
            act_bind (set_self (\<lambda>f. f\<lparr> bf_state := bw_waiting f \<rparr>)) (\<lambda>_.
            with_self (\<lambda>f.
            act_bind
              (act_try (wait_condition (bw_handler rn) rn (\<lambda>g. bf_updates f < bf_updates g))
                 (\<lambda>e. if e = TimeoutError then act_ret () else act_raise e)) (\<lambda>_.
              bw_loop rn p (elapsed + bw_wait_seconds p)))))))))"
  by pat_completeness auto
termination
  by (relation "measure (\<lambda>(rn, p, elapsed). nat (bi_timeout p + 1 - elapsed))") (use bw_wait_positive in auto)

declare bw_loop.simps [simp del]

definition bill_report_dict :: "bill_report \<Rightarrow> dict" where
  "bill_report_dict r =
     [(''call_id'', PStr (br_call r)), (''status'', PStr (br_status r)),
      (''platform_cost_cents'', PInt (ll_platform (br_bill r))), (''stt_cost_cents'', PInt (ll_stt (br_bill r))),
      (''llm_cost_cents'', PInt (ll_llm (br_bill r))), (''tts_cost_cents'', PInt (ll_tts (br_bill r))),
      (''telephony_cost_cents'', PInt (ll_telephony (br_bill r))), (''total_cost_cents'', PInt (br_total r)),
      (''warnings'', PList (map PStr (br_warnings r)))]"

definition bw_finalize_data :: "billing_input \<Rightarrow> bool \<Rightarrow> billing_wf \<Rightarrow> dict" where
  "bw_finalize_data p ok f =
     dict_merge (bf_input f)
       [(''missing_usage_types'', PList (map PStr (sort (bf_missing f)))),
        (''missing_expectations'', PList (map PStr (sort (bf_missing_expectations f)))),
        (''manifest_missing'', PBool (\<not> bf_manifest f)),
        (''projection_caught_up'', PBool (bf_caught_up f)),
        (''status'', PStr (billing_name (if ok then B_FINALIZED else bi_policy p)))]"

definition bw_finish :: "billing_runtime \<Rightarrow> billing_input \<Rightarrow> bool \<Rightarrow> (billing_flow, unit) act" where
  "bw_finish rn p ok =
     act_bind (set_self (\<lambda>f. f\<lparr> bf_state := B_FINALIZING \<rparr>)) (\<lambda>_.
     with_self (\<lambda>f.
     act_bind (bw_execute rn (finalize_call_billing (rn_ext rn) (bw_finalize_data p ok f))) (\<lambda>result.
     act_bind (set_self (\<lambda>f. f\<lparr> bf_total := Some (br_total result), bf_warnings := br_warnings result \<rparr>)) (\<lambda>_.
     act_bind (act_lift (billing_state_of (br_status result))) (\<lambda>st.
     act_bind (set_self (\<lambda>f. f\<lparr> bf_state := st \<rparr>)) (\<lambda>_.
     with_self (\<lambda>f.
       bw_execute rn (emit_workflow_event (rn_ext rn)
         (dict_merge (bf_input f)
           [(''event_type'', PStr ''billing.finalized''), (''workflow_id'', PStr (rn_workflow_id rn)),
            (''payload'', PDict (bill_report_dict result))])))))))))"

definition bw_body :: "billing_runtime \<Rightarrow> billing_input \<Rightarrow> (billing_flow, unit) act" where
  "bw_body rn p =
     act_bind (wait_condition (bw_handler rn) rn bf_ended) (\<lambda>_.
     act_bind (bw_loop rn p 0) (bw_finish rn p))"

definition bw_run :: "billing_runtime \<Rightarrow> dict \<Rightarrow> (billing_flow, unit) act" where
  "bw_run rn input =
     act_bind (act_lift (billing_input_of input)) (\<lambda>p.
     act_bind (set_self (\<lambda>f.
       let f1 = f\<lparr> bf_input := (case dict_get input ''_trace'' of
                                  PDict t \<Rightarrow> dict_set (billing_input_dump p) ''_trace'' (PDict t)
                                | _ \<Rightarrow> billing_input_dump p) \<rparr>
       in if truthy (dict_get input ''call_ended'') then f1\<lparr> bf_ended := True \<rparr> else f1)) (\<lambda>_.
     act_except (bw_body rn p)
       (\<lambda>e. set_self (\<lambda>f. f\<lparr> bf_state := B_FAILED, bf_warnings := bf_warnings f @ [xt_exn_str (rn_ext rn) e] \<rparr>))))"

text \<open>The query \<open>GetBillingState\<close>, and what \<open>run\<close> returns.\<close>

definition bw_status :: "billing_wf \<Rightarrow> dict" where
  "bw_status f =
     [(''state'', PStr (billing_name (bf_state f))), (''present_usage_types'', PList (map PStr (sort (bf_present f)))),
      (''missing_usage_types'', PList (map PStr (sort (bf_missing f)))), (''manifest_present'', PBool (bf_manifest f)),
      (''projection_caught_up'', PBool (bf_caught_up f)),
      (''missing_expectations'', PList (map PStr (sort (bf_missing_expectations f)))),
      (''total_cost_cents'', opt_int (bf_total f)), (''warnings'', PList (map PStr (bf_warnings f)))]"

definition adjust_report_dict :: "adjust_report \<Rightarrow> dict" where
  "adjust_report_dict r =
     [(''adjustment_id'', PStr (ar_id r)), (''call_id'', PStr (ar_call r)),
      (''previous_total_cost_cents'', PInt (ar_previous r)), (''recomputed_total_cost_cents'', PInt (ar_recomputed r)),
      (''delta_cost_cents'', PInt (ar_delta r))]"

text \<open>\<open>BillingAdjustmentWorkflow.run\<close>; it has no fields and no signals.\<close>

definition adjustment_run :: "unit runtime \<Rightarrow> dict \<Rightarrow> (unit flow, adjust_report) act" where
  "adjustment_run rn input =
     act_bind (execute (\<lambda>_ f. f) rn Unlimited
         (create_billing_adjustment (rn_ext rn) (dict_merge input [(''workflow_id'', PStr (rn_workflow_id rn))]))) (\<lambda>r.
     act_bind (execute (\<lambda>_ f. f) rn Unlimited
         (emit_workflow_event (rn_ext rn)
           (dict_merge input
             [(''event_type'', PStr ''billing.adjustment_created''), (''workflow_id'', PStr (rn_workflow_id rn)),
              (''payload'', PDict (adjust_report_dict r))]))) (\<lambda>_.
       act_ret r))"

text \<open>\<open>CallCompletionWorkflow.run\<close>: its only field is the state's name.\<close>

definition cc_execute :: "unit runtime \<Rightarrow> 'a activity \<Rightarrow> (string flow, 'a) act" where
  "cc_execute rn m = execute (\<lambda>_ f. f) rn Unlimited m"

definition cc_run :: "unit runtime \<Rightarrow> dict \<Rightarrow> (string flow, string \<times> bill_report) act" where
  "cc_run rn input =
     act_bind (set_self (\<lambda>_. ''SUMMARIZING'')) (\<lambda>_.
     act_bind (cc_execute rn (summarize_call (rn_ext rn) input)) (\<lambda>summary.
     act_bind (set_self (\<lambda>_. ''FINALIZING_BILLING'')) (\<lambda>_.
     act_bind (cc_execute rn (finalize_call_billing (rn_ext rn)
         (dict_merge input [(''missing_usage_types'', PList []), (''status'', PStr ''FINALIZED'')]))) (\<lambda>bill.
     act_bind (set_self (\<lambda>_. ''PERSISTING_FINAL_STATE'')) (\<lambda>_.
     act_bind (act_lift (dict_item input ''call_id'')) (\<lambda>call.
     act_bind (cc_execute rn (mark_call_completed (rn_ext rn) [(''call_id'', call), (''summary'', PStr summary)])) (\<lambda>_.
     act_bind (set_self (\<lambda>_. ''DONE'')) (\<lambda>_.
     act_bind (cc_execute rn (emit_workflow_event (rn_ext rn)
         (dict_merge input
           [(''event_type'', PStr ''workflow.done''), (''workflow_id'', PStr (rn_workflow_id rn)),
            (''payload'', PDict [(''summary'', PStr summary), (''billing'', PDict (bill_report_dict bill))])]))) (\<lambda>_.
       act_ret (summary, bill))))))))))"

subsection \<open>Signals and executions\<close>

lemma bw_signal_step:
  "bf_state (bw_signal en s f) = bf_state f" "bf_input (bw_signal en s f) = bf_input f"
  "bf_total (bw_signal en s f) = bf_total f"
  by (cases s; simp add: Let_def)+

lemma bw_signal_stable:
  "bf_state (fold (bw_signal en) ss f) = bf_state f" "bf_input (fold (bw_signal en) ss f) = bf_input f"
  "bf_total (fold (bw_signal en) ss f) = bf_total f"
  by (induction ss arbitrary: f; simp add: bw_signal_step)+

lemma bw_deliver_stable [simp]:
  "bf_state (fl_fields (deliver (bw_handler rn) rn fl)) = bf_state (fl_fields fl)"
  "bf_input (fl_fields (deliver (bw_handler rn) rn fl)) = bf_input (fl_fields fl)"
  "bf_total (fl_fields (deliver (bw_handler rn) rn fl)) = bf_total (fl_fields fl)"
  by (simp_all add: deliver_def bw_signal_stable)

lemma bw_execute_ok:
  assumes "bw_execute rn m fl = (Inr r, fl')" and "keeps act_le m"
  obtains v w where "act_le (fl_world fl) v" "m v = (Inr r, w)" "fl_world fl' = w"
    "bf_state (fl_fields fl') = bf_state (fl_fields fl)" "bf_input (fl_fields fl') = bf_input (fl_fields fl)"
    "bf_total (fl_fields fl') = bf_total (fl_fields fl)"
proof -
  obtain w where w: "under_policy Unlimited (rn_patience rn) m (fl_world fl) = (Inr r, w)"
    and fl': "fl' = deliver (bw_handler rn) rn (fl\<lparr> fl_world := w \<rparr>)"
    using assms(1) by (auto simp: bw_execute_def execute_ok)
  from under_policy_ok [OF assms(2) w] show thesis using that fl' by auto
qed

lemma bw_wait_frame:
  "act_try (wait_condition (bw_handler rn) rn c) (\<lambda>e. if e = TimeoutError then act_ret () else act_raise e) fl = (r, fl')
   \<Longrightarrow> r = Inr () \<and> fl_world fl' = fl_world fl \<and> bf_input (fl_fields fl') = bf_input (fl_fields fl)"
  by (auto simp: act_try_def wait_condition_def Let_def act_ret_def act_raise_def split: if_splits)

text \<open>A loop that ends with the check met ended on a readiness report that says so.\<close>

lemma bw_loop_ok:
  "bw_loop rn p elapsed fl = (Inr b, fl') \<Longrightarrow>
     bf_input (fl_fields fl') = bf_input (fl_fields fl) \<and>
     (b \<longrightarrow> (\<exists>v r. act_le (fl_world fl) v \<and> ready r
        \<and> load_billing_readiness (rn_ext rn) (bf_input (fl_fields fl)) v = (Inr r, fl_world fl')))"
proof (induction rn p elapsed arbitrary: fl rule: bw_loop.induct)
  case (1 rn p elapsed)
  have run: "bw_loop rn p elapsed fl = (Inr b, fl')" by fact
  show ?case
  proof (cases "elapsed \<le> bi_timeout p")
    case over: False
    then show ?thesis using run by (subst (asm) bw_loop.simps) (auto simp: act_ret_def)
  next
    case le: True
    obtain r fl1 where x: "bw_execute rn (load_billing_readiness (rn_ext rn) (bf_input (fl_fields fl))) fl = (Inr r, fl1)"
      and rest: "(let fl2 = fl1\<lparr> fl_fields := bw_observe r (fl_fields fl1) \<rparr> in
         if bw_ready (fl_fields fl2) then (Inr True, fl2)
         else let fl3 = fl2\<lparr> fl_fields := (fl_fields fl2)\<lparr> bf_state := bw_waiting (fl_fields fl2) \<rparr> \<rparr> in
           act_bind (act_try (wait_condition (bw_handler rn) rn (\<lambda>g. bf_updates (fl_fields fl3) < bf_updates g))
                   (\<lambda>e. if e = TimeoutError then act_ret () else act_raise e))
             (\<lambda>_. bw_loop rn p (elapsed + bw_wait_seconds p)) fl3) = (Inr b, fl')"
      using run le by (subst (asm) bw_loop.simps) (auto simp: act_bind_ok with_self_def set_self_def ask_def upd_def act_ret_def Let_def
          act_bind_def split: prod.splits sum.splits if_splits)
    obtain v w where v: "act_le (fl_world fl) v" "load_billing_readiness (rn_ext rn) (bf_input (fl_fields fl)) v = (Inr r, w)"
      "fl_world fl1 = w" "bf_input (fl_fields fl1) = bf_input (fl_fields fl)"
      by (rule bw_execute_ok [OF x keeps_readiness])
    let ?fl2 = "fl1\<lparr> fl_fields := bw_observe r (fl_fields fl1) \<rparr>"
    let ?fl3 = "?fl2\<lparr> fl_fields := (fl_fields ?fl2)\<lparr> bf_state := bw_waiting (fl_fields ?fl2) \<rparr> \<rparr>"
    show ?thesis
    proof (cases "bw_ready (fl_fields ?fl2)")
      case True
      then have "ready r" by (simp add: bw_ready_def ready_def bw_observe_def)
      moreover have "fl' = ?fl2" using rest True by (simp add: Let_def)
      ultimately show ?thesis using v by (auto simp: bw_observe_def)
    next
      case False
      then obtain fl4 where w4: "act_try (wait_condition (bw_handler rn) rn (\<lambda>g. bf_updates (fl_fields ?fl3) < bf_updates g))
                   (\<lambda>e. if e = TimeoutError then act_ret () else act_raise e) ?fl3 = (Inr (), fl4)"
        and again: "bw_loop rn p (elapsed + bw_wait_seconds p) fl4 = (Inr b, fl')"
        using rest by (auto simp: Let_def act_bind_ok)
      have f4: "fl_world fl4 = w" "bf_input (fl_fields fl4) = bf_input (fl_fields fl)"
        using bw_wait_frame [OF w4] v by (simp_all add: bw_observe_def)
      have "act_le (fl_world fl) w" using v(1) keepsD [OF keeps_readiness v(2)] by (rule act.order_trans)
      moreover have "bf_input (fl_fields fl') = bf_input (fl_fields fl4) \<and>
          (b \<longrightarrow> (\<exists>v r. act_le (fl_world fl4) v \<and> ready r
             \<and> load_billing_readiness (rn_ext rn) (bf_input (fl_fields fl4)) v = (Inr r, fl_world fl')))"
        by (rule "1.IH" [OF _ False again]) (use le in simp)
      ultimately show ?thesis using f4 by (auto intro: act.order_trans)
    qed
  qed
qed

interpretation final_fixed: effect_order "\<lambda>v w. db_final (aw_db w) = db_final (aw_db v)"
  by unfold_locales auto

lemma workflow_event_final: "keeps (\<lambda>v w. db_final (aw_db w) = db_final (aw_db v)) (emit_workflow_event x data)"
proof -
  have fresh: "keeps (\<lambda>v w. db_final (aw_db w) = db_final (aw_db v)) (fresh_uuid x)"
    by (rule keepsI) (simp add: fresh_uuid_def)
  have outbox: "keeps (\<lambda>v w. db_final (aw_db w) = db_final (aw_db v)) (insert_outbox_event x e)" for e
    by (rule keepsI)
       (simp add: insert_outbox_event_def sql_write_def sql_def upd_def enqueue_outbox_def Let_def split: option.split stmt_fault.split)
  show ?thesis
    unfolding emit_workflow_event_def create_event_def with_text_def with_dict_def with_text_opt_def
    by (intro final_fixed.keeps_rules fresh outbox)
qed

text \<open>What a finish that ended well left.\<close>

lemma bw_finish_ok:
  assumes "bw_finish rn p ok fl = (Inr u, fl')"
    and "map_of (bf_input (fl_fields fl)) ''call_id'' = Some (PStr call)"
  shows "bf_state (fl_fields fl') = (if ok then B_FINALIZED else bi_policy p)
     \<and> (\<exists>f. db_final (aw_db (fl_world fl')) call = Some f \<and> fi_status f = billing_name (bf_state (fl_fields fl'))
          \<and> bf_total (fl_fields fl') = Some (fi_total f))
     \<and> act_le (fl_world fl) (fl_world fl')"
proof -
  let ?fl0 = "fl\<lparr> fl_fields := (fl_fields fl)\<lparr> bf_state := B_FINALIZING \<rparr> \<rparr>"
  let ?data = "bw_finalize_data p ok (fl_fields ?fl0)"
  obtain result fl1 where x: "bw_execute rn (finalize_call_billing (rn_ext rn) ?data) ?fl0 = (Inr result, fl1)"
    and rest: "\<exists>st. billing_state_of (br_status result) = Inr st \<and>
       (\<exists>m. m = emit_workflow_event (rn_ext rn)
         (dict_merge (bf_input (fl_fields fl1))
           [(''event_type'', PStr ''billing.finalized''), (''workflow_id'', PStr (rn_workflow_id rn)),
            (''payload'', PDict (bill_report_dict result))]) \<and>
       bw_execute rn m (fl1\<lparr> fl_fields := (fl_fields fl1)\<lparr> bf_total := Some (br_total result),
          bf_warnings := br_warnings result, bf_state := st \<rparr> \<rparr>) = (Inr u, fl'))"
    using assms(1) by (auto simp: bw_finish_def act_bind_ok act_lift_ok set_self_def with_self_def upd_def ask_def)
  then obtain st data2 where st: "billing_state_of (br_status result) = Inr st"
    and e: "bw_execute rn (emit_workflow_event (rn_ext rn) data2)
       (fl1\<lparr> fl_fields := (fl_fields fl1)\<lparr> bf_total := Some (br_total result), bf_warnings := br_warnings result, bf_state := st \<rparr> \<rparr>)
       = (Inr u, fl')" by blast
  obtain v w where v: "act_le (fl_world ?fl0) v" "finalize_call_billing (rn_ext rn) ?data v = (Inr result, w)" "fl_world fl1 = w"
    "bf_input (fl_fields fl1) = bf_input (fl_fields ?fl0)"
    by (rule bw_execute_ok [OF x keeps_finalize_call])
  obtain v2 w2 where v2: "act_le w v2" "emit_workflow_event (rn_ext rn) data2 v2 = (Inr u, w2)" "fl_world fl' = w2"
    "bf_state (fl_fields fl') = st" "bf_total (fl_fields fl') = Some (br_total result)"
    by (rule bw_execute_ok [OF e keeps_workflow_event]) (use v(3) in auto)
  have d: "map_of ?data ''call_id'' = Some (PStr call)"
    "map_of ?data ''status'' = Some (PStr (billing_name (if ok then B_FINALIZED else bi_policy p)))"
    using assms(2) by (simp_all add: bw_finalize_data_def map_of_dict_merge)
  have status: "br_status result = billing_name (if ok then B_FINALIZED else bi_policy p)" and call: "br_call result = call"
    using v(2) by (rule finalize_ok; use d in simp)+
  then have st': "st = (if ok then B_FINALIZED else bi_policy p)" using st by (auto split: if_splits)
  have "under_policy Unlimited (rn_patience rn) (emit_workflow_event (rn_ext rn) data2) w = (Inr u, w2)"
    using e v2(3) v(3) by (auto simp: bw_execute_def execute_ok)
  moreover have "db_final (aw_db (snd (under_policy Unlimited (rn_patience rn) (emit_workflow_event (rn_ext rn) data2) w)))
      = db_final (aw_db w)"
    by (rule under_policy_keeps) (use workflow_event_final in \<open>simp_all add: keeps_def\<close>)
  ultimately have fin: "db_final (aw_db w2) = db_final (aw_db w)" by simp
  have "\<exists>f. db_final (aw_db w) call = Some f \<and> fi_status f = br_status result \<and> fi_total f = br_total result"
    using v(2) by (rule finalize_ok) (use call in \<open>simp add: upsert_final_sel split: option.split\<close>)
  moreover have "act_le (fl_world fl) w2"
    using v(1) keepsD [OF keeps_finalize_call v(2)] v2(1) keepsD [OF keeps_workflow_event v2(2)]
    by (auto intro: act.order_trans)
  ultimately show ?thesis using v2 status st' fin by auto
qed

definition bw_started :: "dict \<Rightarrow> billing_input \<Rightarrow> dict" where
  "bw_started input p =
     (case dict_get input ''_trace'' of PDict t \<Rightarrow> dict_set (billing_input_dump p) ''_trace'' (PDict t) | _ \<Rightarrow> billing_input_dump p)"

lemma bw_started_lookup: "k \<noteq> ''_trace'' \<Longrightarrow> map_of (bw_started input p) k = map_of (billing_input_dump p) k"
  by (simp add: bw_started_def split: pyv.split)

lemma bw_run_start:
  assumes "billing_input_of input = Inr p"
  shows "\<exists>fl0. bw_run rn input fl = act_except (bw_body rn p)
       (\<lambda>e. set_self (\<lambda>f. f\<lparr> bf_state := B_FAILED, bf_warnings := bf_warnings f @ [xt_exn_str (rn_ext rn) e] \<rparr>)) fl0
     \<and> fl_world fl0 = fl_world fl \<and> bf_input (fl_fields fl0) = bw_started input p
     \<and> (truthy (dict_get input ''call_ended'') \<longrightarrow> bf_ended (fl_fields fl0))"
  unfolding bw_run_def assms
  by (auto simp: act_bind_def act_lift_def set_self_def upd_def Let_def bw_started_def)


subsection \<open>Runs on a working database\<close>

lemma bw_execute_first:
  "m (fl_world fl) = (Inr r, v) \<Longrightarrow> 0 < rn_patience rn \<Longrightarrow>
     bw_execute rn m fl = (Inr r, deliver (bw_handler rn) rn (fl\<lparr> fl_world := v \<rparr>))"
  by (simp add: bw_execute_def execute_def unlimited_first)

lemmas started_lookup = bw_started_lookup billing_input_dump_def

lemma load_clean:
  assumes "clean x"
  shows "\<exists>r w'. load_billing_readiness x (bw_started input p) w = (Inr r, w') \<and> aw_db w' = aw_db w"
  using assms
  by (cases "db_manifests (aw_db w) (bi_call p)")
     (simp_all add: load_billing_readiness_def read_watermark_def with_text_def with_text_or_def with_strs_def act_bind_def
        act_lift_def act_ret_def dict_item_def dict_get_or_def as_text_def started_lookup sql_read_clean)

lemma finalize_clean:
  assumes "clean x" and "db_calls (aw_db w) (bi_call p) = Some c" and "bf_input f = bw_started input p"
  shows "\<exists>r w'. finalize_call_billing x (bw_finalize_data p ok f) w = (Inr r, w')"
proof -
  have d: "map_of (bw_finalize_data p ok f) k =
     (case map_of [(''missing_usage_types'', PList (map PStr (sort (bf_missing f)))),
        (''missing_expectations'', PList (map PStr (sort (bf_missing_expectations f)))),
        (''manifest_missing'', PBool (\<not> bf_manifest f)),
        (''projection_caught_up'', PBool (bf_caught_up f)),
        (''status'', PStr (billing_name (if ok then B_FINALIZED else bi_policy p)))] k of
        None \<Rightarrow> map_of (bw_started input p) k | v \<Rightarrow> v)" for k
    unfolding bw_finalize_data_def map_of_dict_merge assms(3) by (auto split: option.split)
  show ?thesis
    using assms(1,2)
    by (simp add: finalize_call_billing_def with_text_def with_text_or_def with_strs_def with_item_def act_bind_def
        act_lift_def act_ret_def dict_item_def dict_get_or_def as_text_def d started_lookup sql_read_clean sql_write_clean Let_def)
qed

lemma workflow_event_clean:
  assumes "clean x" and "bi_call p \<noteq> []"
  shows "\<exists>w'. emit_workflow_event x (dict_merge (bw_started input p)
           [(''event_type'', PStr ''billing.finalized''), (''workflow_id'', PStr wid), (''payload'', PDict d)]) w = (Inr (), w')"
proof -
  have et: "event_type_of ''billing.finalized'' = Inr BILLING_FINALIZED"
    using event_type_of_value [of BILLING_FINALIZED] by simp
  have trace: "as_text_opt k (opt_str t) = Inr t" for k t by (simp add: as_text_opt_def opt_str_def split: option.split)
  show ?thesis using assms
    by (simp add: emit_workflow_event_def with_text_def with_dict_def with_text_opt_def act_bind_def act_lift_def
        dict_item_def dict_get_or_def dict_get_def as_text_def map_of_dict_merge started_lookup et trace create_event_def
        fresh_uuid_def ask_def pe_create_def pe_valid_def insert_outbox_event_def sql_write_clean Let_def)
qed

lemma bw_loop_clean:
  assumes "clean (rn_ext rn)" and "0 < rn_patience rn"
  shows "bf_input (fl_fields fl) = bw_started input p \<Longrightarrow>
     \<exists>b fl'. bw_loop rn p elapsed fl = (Inr b, fl') \<and> aw_db (fl_world fl') = aw_db (fl_world fl)"
  using assms
proof (induction rn p elapsed arbitrary: fl rule: bw_loop.induct)
  case (1 rn p elapsed)
  show ?case
  proof (cases "elapsed \<le> bi_timeout p")
    case False
    then have "bw_loop rn p elapsed fl = (Inr False, fl)" by (subst bw_loop.simps) (simp add: act_ret_def)
    then show ?thesis by blast
  next
    case le: True
    obtain r w where l: "load_billing_readiness (rn_ext rn) (bf_input (fl_fields fl)) (fl_world fl) = (Inr r, w)"
      and w: "aw_db w = aw_db (fl_world fl)"
      using load_clean [OF 1(3), of input p "fl_world fl"] 1(2) by auto
    let ?fl1 = "deliver (bw_handler rn) rn (fl\<lparr> fl_world := w \<rparr>)"
    let ?fl2 = "?fl1\<lparr> fl_fields := bw_observe r (fl_fields ?fl1) \<rparr>"
    let ?fl3 = "?fl2\<lparr> fl_fields := (fl_fields ?fl2)\<lparr> bf_state := bw_waiting (fl_fields ?fl2) \<rparr> \<rparr>"
    let ?wait = "act_try (wait_condition (bw_handler rn) rn (\<lambda>g. bf_updates (fl_fields ?fl3) < bf_updates g))
                   (\<lambda>e. if e = TimeoutError then act_ret () else act_raise e)"
    have run: "bw_loop rn p elapsed fl =
        (if bw_ready (fl_fields ?fl2) then (Inr True, ?fl2)
         else act_bind ?wait (\<lambda>_. bw_loop rn p (elapsed + bw_wait_seconds p)) ?fl3)"
      using le bw_execute_first [where fl = fl and m = "load_billing_readiness (rn_ext rn) (bf_input (fl_fields fl))", OF l 1(4)]
      by (subst bw_loop.simps) (simp add: act_bind_def with_self_def set_self_def ask_def upd_def act_ret_def)
    show ?thesis
    proof (cases "bw_ready (fl_fields ?fl2)")
      case True
      then show ?thesis using run w by (intro exI [of _ True]) simp
    next
      case False
      obtain r4 fl4 where w4: "?wait ?fl3 = (r4, fl4)" by (rule prod.exhaust)
      have f4: "r4 = Inr ()" "fl_world fl4 = w" "bf_input (fl_fields fl4) = bw_started input p"
        using bw_wait_frame [OF w4] 1(2) by (simp_all add: bw_observe_def)
      have "\<exists>b fl'. bw_loop rn p (elapsed + bw_wait_seconds p) fl4 = (Inr b, fl') \<and> aw_db (fl_world fl') = aw_db (fl_world fl4)"
        by (rule "1.IH" [OF _ False f4(3) 1(3,4)]) (use le in simp)
      then show ?thesis using run False w4 f4 w by (auto simp: act_bind_def)
    qed
  qed
qed

lemma bw_finish_clean:
  assumes "clean (rn_ext rn)" and "0 < rn_patience rn" and "bf_input (fl_fields fl) = bw_started input p"
    and "db_calls (aw_db (fl_world fl)) (bi_call p) = Some c" and "bi_call p \<noteq> []"
  shows "\<exists>u fl'. bw_finish rn p ok fl = (Inr u, fl')"
proof -
  let ?fl0 = "fl\<lparr> fl_fields := (fl_fields fl)\<lparr> bf_state := B_FINALIZING \<rparr> \<rparr>"
  let ?data = "bw_finalize_data p ok (fl_fields ?fl0)"
  obtain r w where f: "finalize_call_billing (rn_ext rn) ?data (fl_world ?fl0) = (Inr r, w)"
    using finalize_clean [OF assms(1), of "fl_world fl" p c "fl_fields ?fl0" input ok] assms(3,4) by auto
  have d: "map_of ?data ''status'' = Some (PStr (billing_name (if ok then B_FINALIZED else bi_policy p)))"
    by (simp add: bw_finalize_data_def map_of_dict_merge)
  have "br_status r = billing_name (if ok then B_FINALIZED else bi_policy p)"
    using f by (rule finalize_ok) (use d in simp)
  then obtain st where st: "billing_state_of (br_status r) = Inr st" by auto
  let ?fl1 = "deliver (bw_handler rn) rn (?fl0\<lparr> fl_world := w \<rparr>)"
  let ?fl2 = "?fl1\<lparr> fl_fields := (fl_fields ?fl1)\<lparr> bf_total := Some (br_total r), bf_warnings := br_warnings r, bf_state := st \<rparr> \<rparr>"
  let ?ev = "emit_workflow_event (rn_ext rn) (dict_merge (bf_input (fl_fields ?fl2))
     [(''event_type'', PStr ''billing.finalized''), (''workflow_id'', PStr (rn_workflow_id rn)), (''payload'', PDict (bill_report_dict r))])"
  have i2: "bf_input (fl_fields ?fl2) = bw_started input p" using assms(3) by simp
  obtain w2 where e: "?ev (fl_world ?fl2) = (Inr (), w2)"
    unfolding i2 using workflow_event_clean [OF assms(1,5), of input "rn_workflow_id rn" "bill_report_dict r" "fl_world ?fl2"] by auto
  have "bw_finish rn p ok fl = (Inr (), deliver (bw_handler rn) rn (?fl2\<lparr> fl_world := w2 \<rparr>))"
    using bw_execute_first [where fl = ?fl0 and m = "finalize_call_billing (rn_ext rn) ?data", OF f assms(2)] st
      bw_execute_first [where fl = ?fl2 and m = ?ev, OF e assms(2)]
    by (simp add: bw_finish_def act_bind_def set_self_def with_self_def upd_def ask_def act_lift_def)
  then show ?thesis by blast
qed

text \<open>The whole workflow on a working database.\<close>

lemma bw_run_clean:
  assumes "billing_input_of input = Inr p" and "truthy (dict_get input ''call_ended'')" and "bi_call p \<noteq> []"
    and "clean (rn_ext rn)" and "0 < rn_patience rn" and "db_calls (aw_db (fl_world fl)) (bi_call p) = Some c"
  shows "\<exists>u fl' f. bw_run rn input fl = (Inr u, fl') \<and> bf_state (fl_fields fl') \<in> {B_FINALIZED, bi_policy p}
     \<and> db_final (aw_db (fl_world fl')) (bi_call p) = Some f \<and> fi_status f = billing_name (bf_state (fl_fields fl'))
     \<and> bf_total (fl_fields fl') = Some (fi_total f)"
proof -
  obtain fl0 where run: "bw_run rn input fl = act_except (bw_body rn p)
       (\<lambda>e. set_self (\<lambda>f. f\<lparr> bf_state := B_FAILED, bf_warnings := bf_warnings f @ [xt_exn_str (rn_ext rn) e] \<rparr>)) fl0"
    and fl0: "fl_world fl0 = fl_world fl" "bf_input (fl_fields fl0) = bw_started input p" "bf_ended (fl_fields fl0)"
    using bw_run_start [OF assms(1), of rn fl] assms(2) by auto
  obtain ok fl2 where l: "bw_loop rn p 0 fl0 = (Inr ok, fl2)" and w2: "aw_db (fl_world fl2) = aw_db (fl_world fl)"
    using bw_loop_clean [OF assms(4,5) fl0(2), of 0] fl0(1) by auto
  have i2: "bf_input (fl_fields fl2) = bw_started input p" using bw_loop_ok [OF l] fl0(2) by simp
  then have call2: "map_of (bf_input (fl_fields fl2)) ''call_id'' = Some (PStr (bi_call p))"
    by (simp add: bw_started_lookup billing_input_dump_def)
  obtain u fl' where f: "bw_finish rn p ok fl2 = (Inr u, fl')"
    using bw_finish_clean [OF assms(4,5) i2, of c ok] w2 assms(3,6) by auto
  have "bw_body rn p fl0 = (Inr u, fl')"
    using fl0(3) l f by (simp add: bw_body_def act_bind_def wait_condition_def)
  then have "bw_run rn input fl = (Inr u, fl')" using run by (simp add: act_except_def act_try_def)
  then show ?thesis using bw_finish_ok [OF f call2] by (auto split: if_splits)
qed

text \<open>Every ended call gets its final bill. When the database works and the call is known, the workflow started
after the call ended returns, in the state \<open>FINALIZED\<close> or in the one the policy names, and the final bill of the call
is stored with that status and the reported total.\<close>

theorem ended_call_is_billed:
  assumes "billing_input_of input = Inr p" and "truthy (dict_get input ''call_ended'')" and "bi_call p \<noteq> []"
    and "clean (rn_ext rn)" and "0 < rn_patience rn" and "db_calls (aw_db (fl_world fl)) (bi_call p) = Some c"
  shows "\<exists>u fl' f. bw_run rn input fl = (Inr u, fl') \<and> bf_state (fl_fields fl') \<in> {B_FINALIZED, bi_policy p}
     \<and> db_final (aw_db (fl_world fl')) (bi_call p) = Some f \<and> fi_status f = billing_name (bf_state (fl_fields fl'))
     \<and> bf_total (fl_fields fl') = Some (fi_total f)"
  by (rule bw_run_clean [OF assms])

text \<open>Inputs for the witnesses.\<close>

definition bw_runtime_demo :: billing_runtime where
  "bw_runtime_demo = \<lparr> rn_ext = bill_ext, rn_patience = 1, rn_signals = (\<lambda>_. []), rn_workflow_id = ''billing-c1'' \<rparr>"

definition bw_input_demo :: dict where
  "bw_input_demo = [(''call_id'', PStr ''c1''), (''required_usage_types'', PList []), (''call_ended'', PBool True)]"

definition bw_parsed_demo :: billing_input where
  "bw_parsed_demo = \<lparr> bi_tenant = ''local-demo-tenant'', bi_assistant = ''local-demo-assistant'', bi_call = ''c1'', bi_required = [],
     bi_timeout = 20, bi_settle = 3, bi_policy = B_FINALIZED_WITH_WARNINGS, bi_version = ''local-demo-v1'',
     bi_group = ''voicemesh-postgres-projector-v1'', bi_trace = None \<rparr>"

lemma bw_input_demo_parses: "billing_input_of bw_input_demo = Inr bw_parsed_demo"
  using billing_state_of_name [of B_FINALIZED_WITH_WARNINGS]
  by (simp add: billing_input_of_def bw_input_demo_def bw_parsed_demo_def mf_defs)

definition manifest_demo :: manifest_row where
  "manifest_demo = \<lparr> ma_tenant = ''t'', ma_assistant = ''a'', ma_event = ''k3'', ma_topic = ''usage-events'', ma_partition = 0,
     ma_offset = 1, ma_expected = PList [], ma_trace = None \<rparr>"

definition bw_flow_demo :: "world \<Rightarrow> billing_flow" where
  "bw_flow_demo w = \<lparr> fl_fields = billing_wf_new, fl_world = w, fl_awaits = 0 \<rparr>"

definition complete_world :: world where
  "complete_world = (bill_world [] None)\<lparr> aw_db := (aw_db (bill_world [] None))\<lparr>
     db_manifests := Map.empty(''c1'' \<mapsto> manifest_demo),
     db_marks := Map.empty((''voicemesh-postgres-projector-v1'', ''usage-events'', 0) \<mapsto> 1) \<rparr> \<rparr>"

lemma bw_demo: "clean (rn_ext bw_runtime_demo)" "0 < rn_patience bw_runtime_demo" "truthy (dict_get bw_input_demo ''call_ended'')"
  "bi_call bw_parsed_demo = ''c1''" "bi_policy bw_parsed_demo = B_FINALIZED_WITH_WARNINGS"
  by (simp_all add: bw_runtime_demo_def bill_ext_def clean_def bw_input_demo_def bw_parsed_demo_def dict_get_def)

lemma ended_call_is_billed_witness:
  "\<exists>u fl' f. bw_run bw_runtime_demo bw_input_demo (bw_flow_demo (bill_world [] None)) = (Inr u, fl')
     \<and> db_final (aw_db (fl_world fl')) ''c1'' = Some f \<and> bf_total (fl_fields fl') = Some (fi_total f)"
proof -
  have "bi_call bw_parsed_demo \<noteq> []" by (simp add: bw_demo)
  moreover have "db_calls (aw_db (fl_world (bw_flow_demo (bill_world [] None)))) (bi_call bw_parsed_demo) = Some call_demo"
    by (simp add: bw_demo bw_flow_demo_def bill_world_def)
  ultimately obtain u fl' f where "bw_run bw_runtime_demo bw_input_demo (bw_flow_demo (bill_world [] None)) = (Inr u, fl')"
    "db_final (aw_db (fl_world fl')) (bi_call bw_parsed_demo) = Some f" "bf_total (fl_fields fl') = Some (fi_total f)"
    using ended_call_is_billed [OF bw_input_demo_parses bw_demo(3) _ bw_demo(1,2)] by blast
  then show ?thesis unfolding bw_demo(4) by blast
qed

lemma complete_loop:
  assumes "bf_input (fl_fields fl) = bw_started bw_input_demo bw_parsed_demo" and "aw_db (fl_world fl) = aw_db complete_world"
  shows "\<exists>fl'. bw_loop bw_runtime_demo bw_parsed_demo 0 fl = (Inr True, fl') \<and> aw_db (fl_world fl') = aw_db complete_world"
proof -
  have "\<exists>r w. load_billing_readiness (rn_ext bw_runtime_demo) (bf_input (fl_fields fl)) (fl_world fl) = (Inr r, w)
      \<and> ready r \<and> aw_db w = aw_db complete_world"
    unfolding assms(1)
    by (simp add: load_billing_readiness_def read_watermark_def with_text_def with_text_or_def with_strs_def act_bind_def
        act_lift_def act_ret_def dict_item_def dict_get_or_def as_text_def started_lookup sql_read_clean bw_demo(1) assms(2)
        ready_def mark_reached_def complete_world_def bill_world_def bw_parsed_demo_def manifest_demo_def
        missing_expectation_rows_def db_empty_def)
  then obtain r w where l: "load_billing_readiness (rn_ext bw_runtime_demo) (bf_input (fl_fields fl)) (fl_world fl) = (Inr r, w)"
    and r: "ready r" "aw_db w = aw_db complete_world" by blast
  let ?fl1 = "deliver (bw_handler bw_runtime_demo) bw_runtime_demo (fl\<lparr> fl_world := w \<rparr>)"
  have "bw_execute bw_runtime_demo (load_billing_readiness (rn_ext bw_runtime_demo) (bf_input (fl_fields fl))) fl = (Inr r, ?fl1)"
    using bw_execute_first [where fl = fl and m = "load_billing_readiness (rn_ext bw_runtime_demo) (bf_input (fl_fields fl))", OF l bw_demo(2)] .
  moreover have "0 \<le> bi_timeout bw_parsed_demo" by (simp add: bw_parsed_demo_def)
  moreover have "bw_ready (bw_observe r (fl_fields ?fl1))" using r by (simp add: bw_ready_def ready_def bw_observe_def)
  ultimately have "bw_loop bw_runtime_demo bw_parsed_demo 0 fl = (Inr True, ?fl1\<lparr> fl_fields := bw_observe r (fl_fields ?fl1) \<rparr>)"
    by (subst bw_loop.simps) (simp add: act_bind_def with_self_def set_self_def ask_def upd_def act_ret_def)
  then show ?thesis using r by simp
qed


end
