(* ===== verification/Durable_Action.thy ===== *)
theory Durable_Action
  imports Temporal
begin

text \<open>
  \<open>DurableActionWorkflow\<close> (\<open>apps/worker/durable_workflows.py\<close>): a tool call that creates
  something in an external system, polls it until it is done, and can be cancelled by a signal. Every
  change of state is written to \<open>tool_invocations\<close> and announced by an outbox event.
\<close>

record action_wf =
  wf_state :: action_state
  wf_external :: pyv
  wf_message :: pyv
  wf_cancel :: bool
  wf_reason :: "string option"
  wf_error :: pyv
  wf_status :: "dict option"
  wf_input :: dict

definition action_wf_new :: action_wf where
  "action_wf_new = \<lparr> wf_state = A_REQUESTED, wf_external = PNone, wf_message = PNone, wf_cancel = False,
     wf_reason = None, wf_error = PNone, wf_status = None, wf_input = [] \<rparr>"

datatype action_signal = CancelRequested dict | ExternalStatusUpdated dict

fun da_signal :: "env \<Rightarrow> action_signal \<Rightarrow> action_wf \<Rightarrow> action_wf" where
  "da_signal en (CancelRequested ev) f =
     f\<lparr> wf_cancel := True,
        wf_reason := Some (py_str (en_rep en) (py_or (dict_get ev ''reason'') (PStr ''requested_by_user''))) \<rparr>"
| "da_signal en (ExternalStatusUpdated ev) f = f\<lparr> wf_status := Some ev \<rparr>"

type_synonym action_flow = "action_wf flow"
type_synonym action_runtime = "action_signal runtime"

abbreviation da_handler :: "action_runtime \<Rightarrow> action_signal \<Rightarrow> action_wf \<Rightarrow> action_wf" where
  "da_handler rn \<equiv> da_signal (xt_env (rn_ext rn))"

text \<open>Every activity of this workflow runs under its \<open>_retry_policy\<close>: five attempts.\<close>

definition da_execute :: "action_runtime \<Rightarrow> 'a activity \<Rightarrow> (action_flow, 'a) act" where
  "da_execute rn m = execute (da_handler rn) rn (Max_attempts 5) m"

text \<open>\<open>_validated_payload_with_trace\<close>\<close>

definition payload_with_trace :: "dict \<Rightarrow> dict \<Rightarrow> dict" where
  "payload_with_trace payload original =
     (case dict_get original ''_trace'' of PDict t \<Rightarrow> dict_set payload ''_trace'' (PDict t) | _ \<Rightarrow> payload)"

definition da_payload :: "action_runtime \<Rightarrow> action_wf \<Rightarrow> dict" where
  "da_payload rn f =
     dict_merge (wf_input f)
       [(''state'', PStr (action_name (wf_state f))), (''external_request_id'', wf_external f),
        (''message'', wf_message f), (''cancel_requested'', PBool (wf_cancel f)),
        (''cancel_reason'', opt_str (wf_reason f)), (''last_error'', wf_error f),
        (''workflow_id'', PStr (rn_workflow_id rn))]"

definition da_transition :: "action_runtime \<Rightarrow> action_state \<Rightarrow> string \<Rightarrow> (action_flow, unit) act" where
  "da_transition rn st et =
     act_bind (set_self (\<lambda>f. f\<lparr> wf_state := st \<rparr>)) (\<lambda>_.
     with_self (\<lambda>f.
       act_bind (da_execute rn (persist_tool_state (rn_ext rn) (da_payload rn f))) (\<lambda>_.
       da_execute rn (emit_tool_event (rn_ext rn)
         (dict_merge (da_payload rn f) [(''event_type'', PStr et)])))))"

definition status_word :: "action_runtime \<Rightarrow> dict \<Rightarrow> string" where
  "status_word rn d = str_lower (py_str (en_rep (xt_env (rn_ext rn))) (py_or (dict_get d ''status'') (PStr [])))"

definition da_cancel_after_create :: "action_runtime \<Rightarrow> action_input \<Rightarrow> (action_flow, unit) act" where
  "da_cancel_after_create rn p =
     (if tg_cancel (ai_config p) = None then da_transition rn A_CANNOT_CANCEL ''tool.action.cannot_cancel''
      else
        act_bind (da_transition rn A_CANCEL_IN_FLIGHT ''tool.action.cancel_requested'') (\<lambda>_.
        with_self (\<lambda>f.
        act_bind (da_execute rn (cancel_external_action (rn_ext rn)
            (dict_merge (wf_input f)
               [(''external_request_id'', wf_external f), (''cancel_reason'', opt_str (wf_reason f))]))) (\<lambda>result.
        act_bind (set_self (\<lambda>f. f\<lparr> wf_message := py_or (dict_get result ''message'') (wf_message f) \<rparr>)) (\<lambda>_.
          (let status = status_word rn result in
           if status = ''cannot_cancel'' then da_transition rn A_CANNOT_CANCEL ''tool.action.cannot_cancel''
           else if status = ''failed'' then
             act_bind (set_self (\<lambda>f. f\<lparr> wf_error := dict_get result ''message'' \<rparr>)) (\<lambda>_.
               da_transition rn A_FAILED ''tool.action.failed'')
           else da_transition rn A_CANCELLED ''tool.action.cancelled''))))))"

text \<open>What a reported status decides; \<open>None\<close> is to poll again.\<close>

definition da_decision :: "tool_config \<Rightarrow> string \<Rightarrow> (action_state \<times> string) option" where
  "da_decision c status =
     (if status = ''cancelled'' then Some (A_CANCELLED, ''tool.action.cancelled'')
      else if status = ''cannot_cancel'' then Some (A_CANNOT_CANCEL, ''tool.action.cannot_cancel'')
      else if status \<in> {''failed'', ''rejected''} then Some (A_FAILED, ''tool.action.failed'')
      else if status \<in> set (tg_terminal c) then Some (A_COMPLETED, ''tool.action.completed'')
      else None)"

text \<open>The status of one iteration: the one a signal brought, or the one asked for.\<close>

definition nonempty_dict :: "dict option \<Rightarrow> dict option" where
  "nonempty_dict d = (case d of Some x \<Rightarrow> if x = [] then None else Some x | None \<Rightarrow> None)"

definition da_fetch_status :: "action_runtime \<Rightarrow> action_input \<Rightarrow> (action_flow, dict option) act" where
  "da_fetch_status rn p =
     with_self (\<lambda>f.
     act_bind (set_self (\<lambda>f. f\<lparr> wf_status := None \<rparr>)) (\<lambda>_.
       (case nonempty_dict (wf_status f) of
          Some d \<Rightarrow> act_ret (Some d)
        | None \<Rightarrow>
            (if tg_status (ai_config p) = None then act_ret None
             else with_self (\<lambda>f.
               act_bind (da_execute rn (get_external_action_status (rn_ext rn)
                   (dict_merge (wf_input f) [(''external_request_id'', wf_external f)]))) (\<lambda>d.
                 act_ret (nonempty_dict (Some d))))))))"

definition da_wait :: "action_runtime \<Rightarrow> (action_flow, unit) act" where
  "da_wait rn =
     act_try (wait_condition (da_handler rn) rn (\<lambda>f. wf_cancel f \<or> wf_status f \<noteq> None))
       (\<lambda>e. if e = TimeoutError then act_ret () else act_raise e)"

text \<open>
  The loop of \<open>_poll_until_terminal\<close>. The first argument bounds the number of iterations; the
  lemma \<open>da_poll_fails\<close> shows the bound used is never reached.
\<close>

fun da_poll :: "nat \<Rightarrow> action_runtime \<Rightarrow> action_input \<Rightarrow> int \<Rightarrow> (action_flow, unit) act" where
  "da_poll 0 rn p elapsed = act_raise CancelledError"
| "da_poll (Suc k) rn p elapsed =
     (if \<not> elapsed < tg_max (ai_config p) then da_transition rn A_TIMED_OUT ''tool.action.timed_out''
      else with_self (\<lambda>f.
        if wf_cancel f then da_cancel_after_create rn p
        else
          act_bind (da_wait rn) (\<lambda>_.
          act_bind (da_fetch_status rn p) (\<lambda>status.
            (case status of
               None \<Rightarrow> da_poll k rn p (elapsed + tg_poll (ai_config p))
             | Some d \<Rightarrow>
                 act_bind (set_self (\<lambda>f. f\<lparr> wf_message := py_or (dict_get d ''message'') (wf_message f) \<rparr>)) (\<lambda>_.
                   (case da_decision (ai_config p) (status_word rn d) of
                      Some (st, et) \<Rightarrow> da_transition rn st et
                    | None \<Rightarrow> da_poll k rn p (elapsed + tg_poll (ai_config p)))))))))"

definition da_poll_until_terminal :: "action_runtime \<Rightarrow> action_input \<Rightarrow> (action_flow, unit) act" where
  "da_poll_until_terminal rn p = da_poll (Suc (nat (tg_max (ai_config p)))) rn p 0"

text \<open>\<open>status().model_dump(...)\<close>: the model takes texts only.\<close>

definition da_status :: "action_wf \<Rightarrow> dict res" where
  "da_status f =
     bindE (as_text_opt ''external_request_id'' (wf_external f)) (\<lambda>i.
     bindE (as_text_opt ''message'' (wf_message f)) (\<lambda>m.
     bindE (as_text_opt ''last_error'' (wf_error f)) (\<lambda>e.
       Inr [(''state'', PStr (action_name (wf_state f))), (''external_request_id'', opt_str i), (''message'', opt_str m),
            (''cancel_requested'', PBool (wf_cancel f)), (''last_error'', opt_str e)])))"

text \<open>The body of the \<open>try\<close>: a result when it returns from inside, \<open>None\<close> when it runs to its end.\<close>

definition da_body :: "action_runtime \<Rightarrow> action_input \<Rightarrow> (action_flow, dict option) act" where
  "da_body rn p =
     act_bind (da_transition rn A_CREATE_IN_FLIGHT ''tool.action.create_started'') (\<lambda>_.
     with_self (\<lambda>f.
     act_bind (da_execute rn (create_external_action (rn_ext rn) (wf_input f))) (\<lambda>result.
     act_bind (set_self (\<lambda>f. f\<lparr> wf_external := dict_get result ''external_request_id'',
                                wf_message := dict_get result ''message'' \<rparr>)) (\<lambda>_.
     with_self (\<lambda>f.
       if wf_cancel f then
         act_bind (da_cancel_after_create rn p) (\<lambda>_.
         with_self (\<lambda>f. act_bind (act_lift (da_status f)) (\<lambda>d. act_ret (Some d))))
       else
         act_bind (da_transition rn A_ACTIVE ''tool.action.accepted'') (\<lambda>_.
         act_bind (da_poll_until_terminal rn p) (\<lambda>_. act_ret None)))))))"

definition da_rescue :: "action_runtime \<Rightarrow> exn \<Rightarrow> (action_flow, dict option) act" where
  "da_rescue rn e =
     act_bind (set_self (\<lambda>f. f\<lparr> wf_error := PStr (xt_exn_str (rn_ext rn) e) \<rparr>)) (\<lambda>_.
     act_bind (if e = TimeoutError then da_transition rn A_TIMED_OUT ''tool.action.timed_out''
               else da_transition rn A_FAILED ''tool.action.failed'') (\<lambda>_. act_ret None))"

definition da_run :: "action_runtime \<Rightarrow> dict \<Rightarrow> (action_flow, dict) act" where
  "da_run rn input =
     act_bind (act_lift (action_input_of input)) (\<lambda>p.
     act_bind (set_self (\<lambda>f. f\<lparr> wf_input := payload_with_trace (action_input_dump p) input \<rparr>)) (\<lambda>_.
     act_bind (da_transition rn A_REQUESTED ''tool.action.requested'') (\<lambda>_.
     act_bind (act_except (da_body rn p) (da_rescue rn)) (\<lambda>r.
       (case r of
          Some d \<Rightarrow> act_ret d
        | None \<Rightarrow> with_self (\<lambda>f. act_lift (da_status f)))))))"

subsection \<open>How a run can fail\<close>

text \<open>Only an activity that failed five times, or a value the status model rejects, ends a run.\<close>

definition da_error :: "exn \<Rightarrow> bool" where
  "da_error e \<longleftrightarrow> (\<exists>s. e = ActivityError s) \<or> (\<exists>s. e = TypeError s)"

lemma raises_execute: "raises da_error (da_execute rn m)"
  unfolding da_execute_def by (rule raisesI) (auto simp: da_error_def dest: execute_fails)

lemma raises_self: "(\<And>f. raises E (g f)) \<Longrightarrow> raises E (with_self g)" "raises E (set_self h)"
  unfolding with_self_def set_self_def by (auto intro: raises_ask raises_rules)

lemma raises_except: "raises (\<lambda>e. e \<noteq> CancelledError) m \<Longrightarrow> (\<And>e. raises E (h e)) \<Longrightarrow> raises E (act_except m h)"
  unfolding act_except_def raises_def act_try_def act_raise_def
  by (auto split: prod.splits sum.splits if_splits)

lemmas raises_intro = raises_rules raises_bind raises_execute raises_self

lemma raises_transition: "raises da_error (da_transition rn st et)"
  unfolding da_transition_def by (intro raises_intro)

lemma raises_cancel: "raises da_error (da_cancel_after_create rn p)"
  unfolding da_cancel_after_create_def Let_def
  by (simp add: raises_transition) (intro raises_intro raises_transition impI conjI; simp add: raises_transition raises_intro)

lemma raises_fetch: "raises da_error (da_fetch_status rn p)"
  unfolding da_fetch_status_def
  by (auto intro!: raises_intro split: option.split)

lemma raises_wait: "raises da_error (da_wait rn)"
  by (rule raisesI)
     (auto simp: da_wait_def act_try_def wait_condition_def act_ret_def act_raise_def Let_def split: if_splits)

lemma da_poll_fails:
  "0 < tg_poll (ai_config p) \<Longrightarrow> nat (tg_max (ai_config p) - elapsed) < k \<Longrightarrow> raises da_error (da_poll k rn p elapsed)"
proof (induction k arbitrary: elapsed)
  case (Suc k)
  show ?case
  proof (cases "elapsed < tg_max (ai_config p)")
    case True
    then have "nat (tg_max (ai_config p) - (elapsed + tg_poll (ai_config p))) < k" using Suc.prems by linarith
    note again = Suc.IH [OF Suc.prems(1) this]
    show ?thesis using True
      by (auto intro!: raises_intro raises_cancel raises_wait raises_fetch raises_transition again split: option.split prod.split)
  qed (simp add: raises_transition)
qed simp

lemma raises_status: "raises da_error (act_lift (da_status f))"
  by (rule raises_rules)
     (auto simp: da_status_def da_error_def bindE_eq_Inl as_text_opt_def split: pyv.splits)

lemma raises_body:
  assumes "tool_config_ok (ai_config p)"
  shows "raises da_error (da_body rn p)"
proof -
  have "raises da_error (da_poll_until_terminal rn p)"
    unfolding da_poll_until_terminal_def
    by (rule da_poll_fails) (use assms in \<open>simp_all add: tool_config_ok_def\<close>)
  then show ?thesis
    unfolding da_body_def
    by (auto intro!: raises_intro raises_transition raises_cancel raises_status)
qed

lemma raises_rescue: "raises da_error (da_rescue rn e)"
  unfolding da_rescue_def by (auto intro!: raises_intro raises_transition)

lemma bind_lift: "act_bind (act_lift (Inr x)) f = f x"
  by (simp add: act_bind_def act_lift_def fun_eq_iff)

lemma raises_run:
  assumes "action_input_of input = Inr p"
  shows "raises da_error (da_run rn input)"
proof -
  have body: "raises da_error (da_body rn p)" by (rule raises_body [OF action_input_Inr [OF assms]])
  then have "raises (\<lambda>e. e \<noteq> CancelledError) (da_body rn p)" by (auto simp: raises_def da_error_def)
  then show ?thesis
    unfolding da_run_def assms bind_lift
    by (auto intro!: raises_intro raises_transition raises_except raises_rescue raises_status split: option.split)
qed

subsection \<open>What a finished run leaves\<close>

definition terminal_state :: "action_state \<Rightarrow> bool" where
  "terminal_state st \<longleftrightarrow> st \<in> {A_CANCELLED, A_COMPLETED, A_CANNOT_CANCEL, A_FAILED, A_TIMED_OUT}"

lemma terminal_state_name: "action_name st \<in> set terminal_actions \<longleftrightarrow> terminal_state st"
  by (cases st) (simp_all add: terminal_actions_def terminal_state_def)

text \<open>The run is over and its row in \<open>tool_invocations\<close> says so.\<close>

definition da_settled :: "action_flow \<Rightarrow> bool" where
  "da_settled fl \<longleftrightarrow> terminal_state (wf_state (fl_fields fl)) \<and>
     (\<exists>tid r. map_of (wf_input (fl_fields fl)) ''tool_invocation_id'' = Some (PStr tid)
        \<and> db_tools (aw_db (fl_world fl)) tid = Some r \<and> to_status r = action_name (wf_state (fl_fields fl))
        \<and> to_completed r \<noteq> None)"

lemma persist_tool_state_ok:
  assumes "persist_tool_state x data w = (Inr u, w')"
  shows "\<exists>tid st r. map_of data ''tool_invocation_id'' = Some (PStr tid) \<and> map_of data ''state'' = Some (PStr st)
     \<and> db_tools (aw_db w') tid = Some r \<and> to_status r = st \<and> (st \<in> set terminal_actions \<longrightarrow> to_completed r \<noteq> None)"
  using assms unfolding persist_tool_state_def ok_rules
  by (elim exE conjE) (auto simp: upsert_tool_def coalesce_def split: option.split)

interpretation tools_fixed: effect_order "\<lambda>v w. db_tools (aw_db w) = db_tools (aw_db v)"
  by unfold_locales auto

lemma emit_tool_event_tools: "keeps (\<lambda>v w. db_tools (aw_db w) = db_tools (aw_db v)) (emit_tool_event x data)"
proof -
  have fresh: "keeps (\<lambda>v w. db_tools (aw_db w) = db_tools (aw_db v)) (fresh_uuid x)"
    by (rule keepsI) (simp add: fresh_uuid_def)
  have outbox: "keeps (\<lambda>v w. db_tools (aw_db w) = db_tools (aw_db v)) (insert_outbox_event x e)" for e
    by (rule keepsI)
       (simp add: insert_outbox_event_def sql_write_def sql_def upd_def enqueue_outbox_def Let_def split: option.split stmt_fault.split)
  show ?thesis
    unfolding emit_tool_event_def create_event_def with_text_def with_item_def with_text_opt_def
    by (intro tools_fixed.keeps_rules fresh outbox)
qed

lemma da_signal_stable: "wf_state (fold (da_signal en) ss f) = wf_state f" "wf_input (fold (da_signal en) ss f) = wf_input f"
proof (induction ss arbitrary: f)
  case (Cons s ss)
  case 1
  then show ?case using Cons by (cases s) auto
  case 2
  then show ?case using Cons by (cases s) auto
qed simp_all

lemma da_deliver_stable [simp]:
  "wf_state (fl_fields (deliver (da_handler rn) rn fl)) = wf_state (fl_fields fl)"
  "wf_input (fl_fields (deliver (da_handler rn) rn fl)) = wf_input (fl_fields fl)"
  by (simp_all add: deliver_def da_signal_stable)

lemma payload_fields:
  "map_of (da_payload rn f) ''state'' = Some (PStr (action_name (wf_state f)))"
  "map_of (da_payload rn f) ''tool_invocation_id'' = map_of (wf_input f) ''tool_invocation_id''"
  by (simp_all add: da_payload_def map_of_dict_merge)

lemma transition_settles:
  assumes "terminal_state st"
  shows "achieves da_settled (da_transition rn st et)"
proof (rule achievesI)
  fix fl fl' u
  assume run: "da_transition rn st et fl = (Inr u, fl')"
  let ?f = "(fl_fields fl)\<lparr> wf_state := st \<rparr>"
  let ?fl = "fl\<lparr> fl_fields := ?f \<rparr>"
  obtain fl1 where p: "da_execute rn (persist_tool_state (rn_ext rn) (da_payload rn ?f)) ?fl = (Inr (), fl1)"
    and e: "da_execute rn (emit_tool_event (rn_ext rn) (dict_merge (da_payload rn ?f) [(''event_type'', PStr et)])) fl1 = (Inr (), fl')"
    using run by (auto simp: da_transition_def act_bind_ok set_self_def with_self_def upd_def ask_def)
  obtain w1 where w1: "under_policy (Max_attempts 5) (rn_patience rn) (persist_tool_state (rn_ext rn) (da_payload rn ?f)) (fl_world ?fl) = (Inr (), w1)"
    and fl1: "fl1 = deliver (da_handler rn) rn (?fl\<lparr> fl_world := w1 \<rparr>)"
    using p by (auto simp: da_execute_def execute_ok)
  obtain v where "persist_tool_state (rn_ext rn) (da_payload rn ?f) v = (Inr (), w1)"
    using under_policy_ok [OF keeps_tool_activities(1) w1] by blast
  from persist_tool_state_ok [OF this] obtain tid r
    where r: "map_of (wf_input ?f) ''tool_invocation_id'' = Some (PStr tid)" "db_tools (aw_db w1) tid = Some r"
      "to_status r = action_name st" "to_completed r \<noteq> None"
    using assms by (auto simp: payload_fields terminal_state_name)
  obtain w2 where w2: "under_policy (Max_attempts 5) (rn_patience rn)
        (emit_tool_event (rn_ext rn) (dict_merge (da_payload rn ?f) [(''event_type'', PStr et)])) w1 = (Inr (), w2)"
    and fl': "fl' = deliver (da_handler rn) rn (fl1\<lparr> fl_world := w2 \<rparr>)"
    using e fl1 by (auto simp: da_execute_def execute_ok)
  have "db_tools (aw_db (snd (under_policy (Max_attempts 5) (rn_patience rn)
        (emit_tool_event (rn_ext rn) (dict_merge (da_payload rn ?f) [(''event_type'', PStr et)])) w1))) = db_tools (aw_db w1)"
    by (rule under_policy_keeps) (use emit_tool_event_tools in \<open>simp_all add: keeps_def\<close>)
  then show "da_settled fl'" using w2 r assms unfolding fl' fl1 da_settled_def by auto
qed

lemma achieves_self: "(\<And>f. achieves Q (g f)) \<Longrightarrow> achieves Q (with_self g)"
  unfolding with_self_def by (rule achieves_ask)

lemma settles:
  "achieves da_settled (da_transition rn A_CANCELLED et)" "achieves da_settled (da_transition rn A_COMPLETED et)"
  "achieves da_settled (da_transition rn A_CANNOT_CANCEL et)" "achieves da_settled (da_transition rn A_FAILED et)"
  "achieves da_settled (da_transition rn A_TIMED_OUT et)"
  by (rule transition_settles; simp add: terminal_state_def)+

lemma cancel_settles: "achieves da_settled (da_cancel_after_create rn p)"
  unfolding da_cancel_after_create_def Let_def
  by (auto intro!: achieves_bind achieves_self settles)

lemma decision_terminal: "da_decision c s = Some (st, et) \<Longrightarrow> terminal_state st"
  by (auto simp: da_decision_def terminal_state_def split: if_splits)

lemma poll_settles: "achieves da_settled (da_poll k rn p elapsed)"
proof (induction k arbitrary: elapsed)
  case 0
  then show ?case by (simp add: achieves_raise)
next
  case (Suc k)
  show ?case
    by (auto intro!: achieves_bind achieves_self settles cancel_settles Suc
        simp: transition_settles [OF decision_terminal] split: option.split)
qed

lemma act_lift_settled:
  assumes "da_settled fl" "act_lift r fl = (Inr x, fl')"
  shows "da_settled fl'"
  using assms by (simp add: act_lift_def)

lemma settled_then:
  assumes "achieves da_settled m" and "\<And>x fl. da_settled fl \<Longrightarrow> da_settled (snd (f x fl))"
  shows "achieves da_settled (act_bind m f)"
  using assms unfolding achieves_def act_bind_def
  by (auto split: prod.splits sum.splits) (metis snd_conv)

lemma status_tail: "snd (with_self (\<lambda>f. act_bind (act_lift (da_status f)) (\<lambda>d. act_ret (Some d))) fl) = fl"
  by (simp add: with_self_def ask_def act_bind_def act_lift_def act_ret_def split: sum.split)

lemma body_settles: "achieves da_settled (da_body rn p)"
  unfolding da_body_def da_poll_until_terminal_def
  by (auto intro!: achieves_bind achieves_self settled_then [OF cancel_settles] achieves_bind_ret poll_settles
      simp: status_tail simp del: da_poll.simps)

lemma rescue_settles: "achieves da_settled (da_rescue rn e)"
  unfolding da_rescue_def by (auto intro!: achieves_bind achieves_bind_ret settles)

lemma run_settles: "achieves da_settled (da_run rn input)"
  unfolding da_run_def act_except_def
  by (intro achieves_bind settled_then achieves_try body_settles)
     (auto intro: rescue_settles achieves_raise simp: act_ret_def with_self_def ask_def act_lift_def split: option.split)


text \<open>A run for the witnesses: nothing fails, no signal comes, and every request gets the given answers.\<close>

definition da_runtime_demo ::
  "(http_request list \<Rightarrow> http_request \<Rightarrow> http_response res) \<Rightarrow> (nat \<Rightarrow> action_signal list) \<Rightarrow> action_runtime" where
  "da_runtime_demo http sigs =
     \<lparr> rn_ext = action_ext http, rn_patience = 3, rn_signals = sigs, rn_workflow_id = ''tool-i1'' \<rparr>"

definition da_flow0 :: action_flow where
  "da_flow0 = \<lparr> fl_fields = action_wf_new, fl_world = world0, fl_awaits = 0 \<rparr>"

definition action_input_demo :: action_input where
  "action_input_demo = \<lparr> ai_tenant = ''t'', ai_assistant = ''a'', ai_call = ''c1'', ai_turn = ''t1'', ai_invocation = ''i1'',
     ai_tool = ''refund'', ai_arguments = [], ai_config = tool_config_demo, ai_trace = None \<rparr>"

lemma action_input_demo_parses: "action_input_of (action_input_dump action_input_demo) = Inr action_input_demo"
  by (rule action_input_dump_parses)
     (simp add: action_input_demo_def tool_config_ok_def tool_config_demo_def http_config_ok_def Let_def)


subsection \<open>How much is asked of the external system\<close>

definition da_sent :: "'f flow \<Rightarrow> nat" where
  "da_sent fl = length (aw_requests (fl_world fl))"

lemma attempt_sent:
  assumes "\<And>u. length (aw_requests (snd (m u))) \<le> length (aw_requests u) + a"
  shows "length (aw_requests (snd (attempt n m w))) \<le> length (aw_requests w) + n * a"
proof (induction n arbitrary: w)
  case (Suc n)
  show ?case using assms [of w] Suc.IH [of "snd (m w)"] by (auto split: prod.split sum.split)
qed simp

lemma execute_sent:
  assumes "\<And>u. length (aw_requests (snd (m u))) \<le> length (aw_requests u) + a"
  shows "grows da_sent (5 * a) (da_execute rn m)"
proof (rule growsI)
  fix fl
  show "da_sent (snd (da_execute rn m fl)) \<le> da_sent fl + 5 * a"
    using attempt_sent [of m a 5 "fl_world fl", OF assms]
    by (auto simp: da_execute_def execute_def under_policy_def da_sent_def split: prod.split sum.split)
qed

lemma external_sent: "length (aw_requests (snd (external_action x action data w))) \<le> length (aw_requests w) + 1"
  using external_action_requests [of x action data w] by auto

lemma sent_external:
  "grows da_sent 5 (da_execute rn (create_external_action x data))"
  "grows da_sent 5 (da_execute rn (cancel_external_action x data))"
  "grows da_sent 5 (da_execute rn (get_external_action_status x data))"
  using execute_sent [OF external_sent]
  by (simp_all add: create_external_action_def cancel_external_action_def get_external_action_status_def)

lemma quiet_sql_write: "keeps (\<lambda>v w. aw_requests w = aw_requests v) (sql_write x f)"
  by (rule keepsI) (simp add: sql_write_def sql_def upd_def Let_def split: option.split stmt_fault.split)

lemma quiet_persist: "keeps (\<lambda>v w. aw_requests w = aw_requests v) (persist_tool_state x data)"
  unfolding persist_tool_state_def with_text_def with_text_or_def with_text_opt_def with_dict_def
  by (intro quiet.keeps_rules quiet_sql_write)

lemma quiet_emit: "keeps (\<lambda>v w. aw_requests w = aw_requests v) (emit_tool_event x data)"
proof -
  have fresh: "keeps (\<lambda>v w. aw_requests w = aw_requests v) (fresh_uuid x)"
    by (rule keepsI) (simp add: fresh_uuid_def)
  show ?thesis
    unfolding emit_tool_event_def create_event_def insert_outbox_event_def with_text_def with_item_def with_text_opt_def
    by (intro quiet.keeps_rules fresh quiet_sql_write)
qed

lemma sent_quiet:
  "keeps (\<lambda>v w. aw_requests w = aw_requests v) m \<Longrightarrow> grows da_sent 0 (da_execute rn m)"
  using execute_sent [of m 0 rn] by (simp add: keeps_def)

lemma sent_self: "(\<And>f. grows da_sent n (g f)) \<Longrightarrow> grows da_sent n (with_self g)" "grows da_sent 0 (set_self h)"
proof -
  show "grows da_sent n (with_self g)" if "\<And>f. grows da_sent n (g f)"
    unfolding with_self_def by (rule grows_ask) (rule that)
  show "grows da_sent 0 (set_self h)" by (simp add: set_self_def grows_def upd_def da_sent_def)
qed

lemma sent_transition: "grows da_sent 0 (da_transition rn st et)"
  unfolding da_transition_def
  by (intro grows_bind0 sent_self sent_quiet quiet_persist quiet_emit)

lemma sent_cancel: "grows da_sent 5 (da_cancel_after_create rn p)"
proof -
  have tail: "grows da_sent 0 (act_bind (set_self g) (\<lambda>_. m))" if "grows da_sent 0 m" for g m
    using that by (intro grows_bind0 sent_self)
  show ?thesis
    unfolding da_cancel_after_create_def Let_def
    using grows_bind [OF sent_external(2), where b = 0]
    by (auto intro!: grows_bind0 sent_self sent_transition tail grows_weaken [OF sent_transition]
        grows_bind [OF sent_external(2), where b = 0, simplified] split: if_split)
qed

lemma sent_wait: "grows da_sent 0 (da_wait rn)"
  by (rule growsI)
     (simp add: da_wait_def act_try_def wait_condition_def Let_def act_ret_def act_raise_def da_sent_def)

lemma sent_fetch: "grows da_sent 5 (da_fetch_status rn p)"
  unfolding da_fetch_status_def
  by (auto intro!: grows_bind0 sent_self grows_still grows_bind [OF sent_external(3), where b = 0, simplified]
      split: option.split)

text \<open>The number of iterations the polling loop still has.\<close>

definition polls_left :: "action_input \<Rightarrow> int \<Rightarrow> nat" where
  "polls_left p elapsed = nat ((tg_max (ai_config p) - elapsed + tg_poll (ai_config p) - 1) div tg_poll (ai_config p))"

lemma polls_left_step:
  assumes "0 < tg_poll (ai_config p)" "elapsed < tg_max (ai_config p)"
  shows "polls_left p elapsed = Suc (polls_left p (elapsed + tg_poll (ai_config p)))"
proof -
  let ?d = "tg_poll (ai_config p)" and ?n = "tg_max (ai_config p) - elapsed"
  have "(?n + ?d - 1) div ?d = (?n - 1 + ?d) div ?d" by (simp add: algebra_simps)
  also have "\<dots> = (?n - 1) div ?d + 1" using assms(1) by (simp only: div_add_self2)
  finally have "(?n + ?d - 1) div ?d = (?n - 1) div ?d + 1" .
  moreover have "0 \<le> (?n - 1) div ?d" using assms by (simp add: pos_imp_zdiv_nonneg_iff)
  ultimately show ?thesis by (simp add: polls_left_def algebra_simps nat_add_distrib)
qed

lemma grows_bind_still: "grows f a m \<Longrightarrow> (\<And>x. grows f 0 (g x)) \<Longrightarrow> grows f a (act_bind m g)"
  using grows_bind [of f a m 0 g] by simp

lemma sent_poll:
  assumes "0 < tg_poll (ai_config p)"
  shows "grows da_sent (5 * Suc (polls_left p elapsed)) (da_poll k rn p elapsed)"
proof (induction k arbitrary: elapsed)
  case 0
  then show ?case by (simp add: grows_still)
next
  case (Suc k)
  show ?case
  proof (cases "elapsed < tg_max (ai_config p)")
    case True
    define n where "n = 5 * Suc (polls_left p (elapsed + tg_poll (ai_config p)))"
    have n: "5 * Suc (polls_left p elapsed) = 5 + n" using polls_left_step [OF assms True] by (simp add: n_def)
    note again = Suc.IH [of "elapsed + tg_poll (ai_config p)", folded n_def]
    have c: "grows da_sent (5 + n) (da_cancel_after_create rn p)" by (rule grows_weaken [OF sent_cancel]) simp
    have t: "grows da_sent n (da_transition rn st et)" for st et by (rule grows_weaken [OF sent_transition]) simp
    show ?thesis using True unfolding n
      by (auto intro!: sent_self c grows_bind0 [OF sent_wait] grows_bind [OF sent_fetch] grows_bind0 [OF sent_self(2)] again t
          split: option.split)
  qed (auto intro: grows_weaken [OF sent_transition])
qed

lemma sent_body:
  assumes "0 < tg_poll (ai_config p)"
  shows "grows da_sent (5 * (2 + polls_left p 0)) (da_body rn p)"
proof -
  define n where "n = 5 * Suc (polls_left p 0)"
  have n: "5 * (2 + polls_left p 0) = 0 + (5 + n)" by (simp add: n_def)
  have poll: "grows da_sent n (da_poll_until_terminal rn p)"
    unfolding da_poll_until_terminal_def n_def by (rule sent_poll [OF assms])
  have c: "grows da_sent n (act_bind (da_cancel_after_create rn p)
      (\<lambda>_. with_self (\<lambda>f. act_bind (act_lift (da_status f)) (\<lambda>d. act_ret (Some d)))))"
    by (rule grows_weaken [OF grows_bind [OF sent_cancel, where b = 0]])
       (auto simp: n_def intro!: sent_self grows_bind0 grows_still)
  have a: "grows da_sent n (act_bind (da_transition rn A_ACTIVE et) (\<lambda>_.
      act_bind (da_poll_until_terminal rn p) (\<lambda>_. act_ret None)))" for et
    by (rule grows_bind0 [OF sent_transition])
       (rule grows_bind_still [OF poll], rule grows_still)
  show ?thesis unfolding da_body_def n
    by (intro grows_bind [OF sent_transition] sent_self grows_bind [OF sent_external(1)])
       (auto intro!: grows_bind0 [OF sent_self(2)] sent_self c a)
qed

lemma sent_rescue: "grows da_sent 0 (da_rescue rn e)"
  unfolding da_rescue_def by (auto intro!: grows_bind0 sent_self sent_transition grows_still)

lemma sent_run:
  assumes "action_input_of input = Inr p"
  shows "grows da_sent (5 * (2 + polls_left p 0)) (da_run rn input)"
proof -
  have pos: "0 < tg_poll (ai_config p)" using action_input_Inr [OF assms] by (simp add: tool_config_ok_def)
  have "grows da_sent (5 * (2 + polls_left p 0) + 0) (act_except (da_body rn p) (da_rescue rn))"
    unfolding act_except_def by (intro grows_try sent_body [OF pos]) (auto intro: sent_rescue grows_still)
  then have mid: "grows da_sent (5 * (2 + polls_left p 0)) (act_except (da_body rn p) (da_rescue rn))" by simp
  show ?thesis unfolding da_run_def assms bind_lift
    by (rule grows_bind0 [OF sent_self(2)], rule grows_bind0 [OF sent_transition])
       (rule grows_bind_still [OF mid], auto intro!: sent_self grows_still split: option.split)
qed

text \<open>C27: A durable action does not flood the external system: over a whole run, retries included, it sends at most five
requests for the creation, five for a cancellation, and five per poll, of which there are at most the running time divided
by the poll interval, rounded up.\<close>

theorem durable_action_request_bound:
  assumes "action_input_of input = Inr p" and "da_run rn input fl = (r, fl')"
  shows "length (aw_requests (fl_world fl')) \<le> length (aw_requests (fl_world fl))
     + 5 * (2 + nat ((tg_max (ai_config p) + tg_poll (ai_config p) - 1) div tg_poll (ai_config p)))"
  using sent_run [OF assms(1), of rn] assms(2) unfolding grows_def da_sent_def polls_left_def
  by (metis diff_zero snd_conv)

lemma durable_action_request_bound_witness:
  "length (aw_requests (fl_world (snd (da_run (da_runtime_demo (\<lambda>_ _. Inl TimeoutError) (\<lambda>_. []))
      (action_input_dump action_input_demo) da_flow0)))) \<le> 20"
proof -
  obtain r fl' where run: "da_run (da_runtime_demo (\<lambda>_ _. Inl TimeoutError) (\<lambda>_. []))
      (action_input_dump action_input_demo) da_flow0 = (r, fl')" by (rule prod.exhaust)
  show ?thesis unfolding run snd_conv
    using durable_action_request_bound [OF action_input_demo_parses run]
    by (simp add: da_flow0_def world0_def action_input_demo_def tool_config_demo_def Let_def)
qed

subsection \<open>Two runs that go wrong\<close>

lemma attempt_fails: "(\<And>v. \<exists>e. m v = (Inl e, v)) \<Longrightarrow> \<exists>e. attempt n m w = (Inl e, w)"
proof (induction n)
  case (Suc n)
  then obtain e where "m w = (Inl e, w)" by blast
  then show ?case using Suc by auto
qed simp

lemma persist_needs_text:
  assumes "map_of data ''external_request_id'' = Some (PInt n)"
  shows "\<exists>e. persist_tool_state x data w = (Inl e, w)"
  using assms unfolding persist_tool_state_def with_text_def with_text_or_def with_text_opt_def with_dict_def
  by (auto simp: act_bind_def act_lift_def dict_get_def as_text_opt_def split: sum.split)

lemma transition_needs_text:
  assumes "wf_external (fl_fields fl) = PInt n"
  shows "\<exists>fl'. da_transition rn st et fl = (Inl (ActivityError ''Activity task failed''), fl')
     \<and> fl_world fl' = fl_world fl \<and> (\<exists>m. wf_external (fl_fields fl') = PInt m)"
proof -
  let ?fl = "fl\<lparr> fl_fields := (fl_fields fl)\<lparr> wf_state := st \<rparr> \<rparr>"
  let ?m = "persist_tool_state (rn_ext rn) (da_payload rn (fl_fields ?fl))"
  have "map_of (da_payload rn (fl_fields ?fl)) ''external_request_id'' = Some (PInt n)"
    using assms by (simp add: da_payload_def map_of_dict_merge)
  then have "\<And>v. \<exists>e. ?m v = (Inl e, v)" by (rule persist_needs_text)
  then obtain e where e: "attempt 5 ?m (fl_world fl) = (Inl e, fl_world fl)" using attempt_fails [of ?m 5 "fl_world fl"] by blast
  have ext: "wf_external (fold (da_signal en) ss f) = wf_external f" for en ss f
  proof (induction ss arbitrary: f)
    case (Cons s ss)
    then show ?case by (cases s) auto
  qed simp
  show ?thesis using e assms
    by (simp add: da_transition_def act_bind_def set_self_def with_self_def upd_def ask_def da_execute_def execute_def
        under_policy_def deliver_def ext)
qed

text \<open>An external system that identifies its requests by numbers strands the workflow. Once such an identifier was
received, no change of state can be recorded any more, not even the failure: every transition fails, the handler of
exceptions fails with it, and the tables stay as they were, although the external request exists.\<close>

theorem numeric_request_id_strands_action:
  assumes "wf_external (fl_fields fl) = PInt n"
  shows "\<exists>fl1 fl2. da_transition rn st et fl = (Inl (ActivityError ''Activity task failed''), fl1)
     \<and> da_rescue rn (ActivityError ''Activity task failed'') fl1 = (Inl (ActivityError ''Activity task failed''), fl2)
     \<and> fl_world fl2 = fl_world fl"
proof -
  obtain fl1 m where 1: "da_transition rn st et fl = (Inl (ActivityError ''Activity task failed''), fl1)"
    "fl_world fl1 = fl_world fl" "wf_external (fl_fields fl1) = PInt m"
    using transition_needs_text [OF assms, of rn st et] by blast
  let ?fl = "fl1\<lparr> fl_fields := (fl_fields fl1)\<lparr> wf_error := PStr (xt_exn_str (rn_ext rn) (ActivityError ''Activity task failed'')) \<rparr> \<rparr>"
  have "wf_external (fl_fields ?fl) = PInt m" using 1 by simp
  then obtain fl2 where 2: "da_transition rn A_FAILED ''tool.action.failed'' ?fl = (Inl (ActivityError ''Activity task failed''), fl2)"
    "fl_world fl2 = fl_world ?fl"
    using transition_needs_text [of ?fl m rn A_FAILED] by blast
  have "da_rescue rn (ActivityError ''Activity task failed'') fl1 = (Inl (ActivityError ''Activity task failed''), fl2)"
    using 2(1) by (simp add: da_rescue_def act_bind_def set_self_def upd_def)
  then show ?thesis using 1 2 by auto
qed

lemma numeric_request_id_strands_action_witness:
  "\<exists>fl fl1 fl2. wf_external (fl_fields fl) = PInt 42
     \<and> da_transition (da_runtime_demo (\<lambda>_ _. Inl TimeoutError) (\<lambda>_. [])) A_ACTIVE ''tool.action.accepted'' fl
         = (Inl (ActivityError ''Activity task failed''), fl1)
     \<and> da_rescue (da_runtime_demo (\<lambda>_ _. Inl TimeoutError) (\<lambda>_. [])) (ActivityError ''Activity task failed'') fl1
         = (Inl (ActivityError ''Activity task failed''), fl2)"
proof -
  let ?fl = "da_flow0\<lparr> fl_fields := action_wf_new\<lparr> wf_external := PInt 42 \<rparr> \<rparr>"
  have "wf_external (fl_fields ?fl) = PInt 42" by simp
  from this numeric_request_id_strands_action [OF this] show ?thesis by blast
qed

lemma da_signal_cancel: "wf_cancel f \<Longrightarrow> wf_cancel (fold (da_signal en) ss f)"
proof (induction ss arbitrary: f)
  case (Cons s ss)
  then show ?case by (cases s) auto
qed simp

lemma transition_frame:
  assumes "da_transition rn st et fl = (Inr u, fl')"
  shows "wf_state (fl_fields fl') = st \<and> (wf_cancel (fl_fields fl) \<longrightarrow> wf_cancel (fl_fields fl'))
     \<and> length (aw_requests (fl_world fl')) \<le> length (aw_requests (fl_world fl))"
proof -
  let ?fl = "fl\<lparr> fl_fields := (fl_fields fl)\<lparr> wf_state := st \<rparr> \<rparr>"
  obtain fl1 m1 m2 where "da_execute rn m1 ?fl = (Inr (), fl1)" "da_execute rn m2 fl1 = (Inr (), fl')"
    using assms by (auto simp: da_transition_def act_bind_ok set_self_def with_self_def upd_def ask_def)
  then have "wf_state (fl_fields fl') = st \<and> (wf_cancel (fl_fields fl) \<longrightarrow> wf_cancel (fl_fields fl'))"
    by (auto simp: da_execute_def execute_ok da_signal_cancel deliver_def da_signal_stable)
  moreover have "length (aw_requests (fl_world fl')) \<le> length (aw_requests (fl_world fl))"
    using sent_transition [of rn st et] assms unfolding grows_def da_sent_def by (metis add_0_right snd_conv)
  ultimately show ?thesis by blast
qed

text \<open>A cancellation that arrives during the last poll interval is lost: the loop checks for it only before the next
poll, and there is none. The run times out, with the request to cancel noted, and nothing is sent to the external
system.\<close>

theorem late_cancel_is_lost:
  assumes "elapsed < tg_max (ai_config p)" and "tg_max (ai_config p) \<le> elapsed + tg_poll (ai_config p)"
    and "tg_status (ai_config p) = None" and "\<not> wf_cancel (fl_fields fl)" and "wf_status (fl_fields fl) = None"
    and "rn_signals rn (fl_awaits fl) = [CancelRequested ev]"
    and "da_poll (Suc (Suc k)) rn p elapsed fl = (Inr u, fl')"
  shows "wf_cancel (fl_fields fl') \<and> wf_state (fl_fields fl') = A_TIMED_OUT
     \<and> length (aw_requests (fl_world fl')) \<le> length (aw_requests (fl_world fl))"
proof -
  let ?fl1 = "deliver (da_handler rn) rn fl"
  let ?fl2 = "?fl1\<lparr> fl_fields := (fl_fields ?fl1)\<lparr> wf_status := None \<rparr> \<rparr>"
  have f1: "wf_cancel (fl_fields ?fl1)" "wf_status (fl_fields ?fl1) = None"
    using assms(4,5,6) by (auto simp: deliver_def)
  have "da_wait rn fl = (Inr (), ?fl1)"
    using assms(4,5) f1 by (simp add: da_wait_def act_try_def wait_condition_def)
  moreover have "da_fetch_status rn p ?fl1 = (Inr None, ?fl2)"
    using assms(3) f1 by (simp add: da_fetch_status_def with_self_def set_self_def ask_def upd_def act_bind_def
        nonempty_dict_def act_ret_def)
  ultimately have "da_poll (Suc (Suc k)) rn p elapsed fl = da_transition rn A_TIMED_OUT ''tool.action.timed_out'' ?fl2"
    using assms(1,2,4) by (simp add: with_self_def ask_def act_bind_def)
  then have "da_transition rn A_TIMED_OUT ''tool.action.timed_out'' ?fl2 = (Inr u, fl')" using assms(7) by simp
  from transition_frame [OF this] f1 show ?thesis by simp
qed

lemma under_policy_first: "m w = (Inr r, v) \<Longrightarrow> under_policy (Max_attempts (Suc n)) k m w = (Inr r, v)"
  by (simp add: under_policy_def)

lemma transition_clean:
  assumes "\<And>n. xt_fault (rn_ext rn) n = None" and "event_type_of et = Inr e"
    and "wf_input (fl_fields fl) = action_input_dump p" and "ai_call p \<noteq> []" and "ai_turn p \<noteq> []"
    and "wf_external (fl_fields fl) = opt_str i" and "wf_message (fl_fields fl) = opt_str m" and "wf_error (fl_fields fl) = opt_str x"
  shows "\<exists>fl'. da_transition rn st et fl = (Inr (), fl')"
proof -
  let ?f = "(fl_fields fl)\<lparr> wf_state := st \<rparr>"
  let ?fl = "fl\<lparr> fl_fields := ?f \<rparr>"
  have fields: "map_of (da_payload rn ?f) ''call_id'' = Some (PStr (ai_call p))"
    "map_of (da_payload rn ?f) ''tool_invocation_id'' = Some (PStr (ai_invocation p))"
    "map_of (da_payload rn ?f) ''tool_name'' = Some (PStr (ai_tool p))"
    "map_of (da_payload rn ?f) ''state'' = Some (PStr (action_name st))"
    "map_of (da_payload rn ?f) ''tenant_id'' = Some (PStr (ai_tenant p))"
    "map_of (da_payload rn ?f) ''assistant_id'' = Some (PStr (ai_assistant p))"
    "map_of (da_payload rn ?f) ''turn_id'' = Some (PStr (ai_turn p))"
    "map_of (da_payload rn ?f) ''workflow_id'' = Some (opt_str (Some (rn_workflow_id rn)))"
    "map_of (da_payload rn ?f) ''external_request_id'' = Some (opt_str i)"
    "map_of (da_payload rn ?f) ''tool_arguments'' = Some (PDict (ai_arguments p))"
    "map_of (da_payload rn ?f) ''message'' = Some (opt_str m)" "map_of (da_payload rn ?f) ''last_error'' = Some (opt_str x)"
    "map_of (da_payload rn ?f) ''cancel_reason'' = Some (opt_str (wf_reason (fl_fields fl)))"
    "map_of (da_payload rn ?f) ''trace_id'' = Some (opt_str (ai_trace p))"
    using assms(3,6,7,8) by (simp_all add: da_payload_def map_of_dict_merge action_input_dump_def opt_str_def)
  have opt: "as_text_opt k (opt_str y) = Inr y" for k y by (simp add: as_text_opt_def opt_str_def split: option.split)
  let ?d = "dict_merge (da_payload rn ?f) [(''event_type'', PStr et)]"
  have d: "map_of ?d k = (if k = ''event_type'' then Some (PStr et) else map_of (da_payload rn ?f) k)" for k
    by (simp add: map_of_dict_merge)
  have persist: "\<exists>w'. persist_tool_state (rn_ext rn) (da_payload rn ?f) w = (Inr (), w')" for w
    unfolding persist_tool_state_def with_text_def with_text_or_def with_text_opt_def with_dict_def dict_item_def
      dict_get_or_def dict_get_def fields
    by (simp add: act_bind_def act_lift_def as_text_def opt sql_write_def sql_def assms(1) upd_def Let_def)
  have emit: "\<exists>w'. emit_tool_event (rn_ext rn) ?d w = (Inr (), w')" for w
    unfolding emit_tool_event_def with_text_def with_item_def with_text_opt_def dict_item_def
      dict_get_def d
    by (simp add: fields act_bind_def act_lift_def as_text_def opt sql_write_def sql_def assms(1,2,4,5) upd_def Let_def
        create_event_def fresh_uuid_def ask_def pe_create_def pe_valid_def insert_outbox_event_def)
  obtain w1 where "persist_tool_state (rn_ext rn) (da_payload rn ?f) (fl_world fl) = (Inr (), w1)" using persist by blast
  then have p5: "under_policy (Max_attempts 5) (rn_patience rn) (persist_tool_state (rn_ext rn) (da_payload rn ?f)) (fl_world fl) = (Inr (), w1)"
    using under_policy_first [where n = 4] by (simp add: eval_nat_numeral)
  obtain w2 where "emit_tool_event (rn_ext rn) ?d w1 = (Inr (), w2)" using emit by blast
  then have e5: "under_policy (Max_attempts 5) (rn_patience rn) (emit_tool_event (rn_ext rn) ?d) w1 = (Inr (), w2)"
    using under_policy_first [where n = 4] by (simp add: eval_nat_numeral)
  show ?thesis
    using p5 e5 by (simp add: da_transition_def set_self_def with_self_def upd_def ask_def act_bind_def da_execute_def execute_def)
qed

lemma late_cancel_is_lost_witness:
  "\<exists>rn p fl u fl' ev. da_poll 2 rn p 0 fl = (Inr u, fl') \<and> rn_signals rn (fl_awaits fl) = [CancelRequested ev]
     \<and> wf_cancel (fl_fields fl') \<and> wf_state (fl_fields fl') = A_TIMED_OUT \<and> aw_requests (fl_world fl') = []"
proof -
  let ?p = "action_input_demo\<lparr> ai_config := tool_config_demo\<lparr> tg_status := None, tg_max := 10 \<rparr> \<rparr>"
  let ?rn = "da_runtime_demo (\<lambda>_ _. Inl TimeoutError) (\<lambda>n. if n = 0 then [CancelRequested []] else [])"
  let ?fl = "da_flow0\<lparr> fl_fields := action_wf_new\<lparr> wf_input := action_input_dump ?p \<rparr> \<rparr>"
  have cfg: "tg_max (ai_config ?p) = 10" "tg_poll (ai_config ?p) = 10" "tg_status (ai_config ?p) = None"
    by (simp_all add: tool_config_demo_def Let_def)
  let ?fl1 = "deliver (da_handler ?rn) ?rn ?fl"
  let ?fl2 = "?fl1\<lparr> fl_fields := (fl_fields ?fl1)\<lparr> wf_status := None \<rparr> \<rparr>"
  have f1: "wf_cancel (fl_fields ?fl1)" "wf_status (fl_fields ?fl1) = None" "wf_input (fl_fields ?fl1) = action_input_dump ?p"
    "wf_external (fl_fields ?fl1) = PNone" "wf_message (fl_fields ?fl1) = PNone" "wf_error (fl_fields ?fl1) = PNone"
    by (simp_all add: deliver_def da_runtime_demo_def da_flow0_def action_wf_new_def)
  have new: "\<not> wf_cancel (fl_fields ?fl)" "wf_status (fl_fields ?fl) = None" by (simp_all add: action_wf_new_def)
  have "\<exists>fl'. da_transition ?rn A_TIMED_OUT ''tool.action.timed_out'' ?fl2 = (Inr (), fl')"
    by (rule transition_clean [where p = ?p and i = None and m = None and x = None and e = TOOL_ACTION_TIMED_OUT])
       (use f1 event_type_of_value [of TOOL_ACTION_TIMED_OUT] in \<open>simp_all add: opt_str_def action_input_demo_def da_runtime_demo_def action_ext_def\<close>)
  then obtain fl' where t: "da_transition ?rn A_TIMED_OUT ''tool.action.timed_out'' ?fl2 = (Inr (), fl')" by blast
  have "da_wait ?rn ?fl = (Inr (), ?fl1)"
    using new f1 by (simp add: da_wait_def act_try_def wait_condition_def)
  moreover have "da_fetch_status ?rn ?p ?fl1 = (Inr None, ?fl2)"
    using cfg(3) f1 by (simp add: da_fetch_status_def with_self_def set_self_def ask_def upd_def act_bind_def
        nonempty_dict_def act_ret_def)
  ultimately have run: "da_poll (Suc (Suc 0)) ?rn ?p 0 ?fl = (Inr (), fl')"
    using t new(1) cfg by (simp add: with_self_def ask_def act_bind_def)
  have sig: "rn_signals ?rn (fl_awaits ?fl) = [CancelRequested []]" by (simp add: da_runtime_demo_def da_flow0_def)
  have "wf_cancel (fl_fields fl') \<and> wf_state (fl_fields fl') = A_TIMED_OUT
     \<and> length (aw_requests (fl_world fl')) \<le> length (aw_requests (fl_world ?fl))"
    by (rule late_cancel_is_lost [OF _ _ cfg(3) new sig run]) (simp_all add: tool_config_demo_def Let_def)
  moreover have "aw_requests (fl_world ?fl) = []" by (simp add: da_flow0_def world0_def)
  ultimately have "wf_cancel (fl_fields fl')" "wf_state (fl_fields fl') = A_TIMED_OUT" "aw_requests (fl_world fl') = []" by simp_all
  with run sig show ?thesis unfolding numeral_2_eq_2 by blast
qed

end
