(* ===== verification/Webhook_Workflow.thy ===== *)
theory Webhook_Workflow
  imports Temporal
begin

text \<open>
  \<open>WebhookDeliveryWorkflow\<close> (\<open>apps/worker/durable_workflows.py\<close>): deliver a report to a
  customer's endpoint with a bounded number of attempts. It has no signals.
\<close>

record webhook_wf =
  ww_state :: webhook_state
  ww_attempts :: int
  ww_error :: "string option"

definition webhook_wf_new :: webhook_wf where
  "webhook_wf_new = \<lparr> ww_state = W_REQUESTED, ww_attempts = 0, ww_error = None \<rparr>"

type_synonym webhook_flow = "webhook_wf flow"

definition ww_execute :: "unit runtime \<Rightarrow> 'a activity \<Rightarrow> (webhook_flow, 'a) act" where
  "ww_execute rn m = execute (\<lambda>_ f. f) rn Unlimited m"

definition ww_sleep :: "unit runtime \<Rightarrow> (webhook_flow, unit) act" where
  "ww_sleep rn = sleep (\<lambda>_ f. f) rn"

definition ww_persist :: "unit runtime \<Rightarrow> webhook_input \<Rightarrow> webhook_state \<Rightarrow> dict \<Rightarrow> (webhook_flow, unit) act" where
  "ww_persist rn p st extra =
     ww_execute rn (persist_webhook_delivery (rn_ext rn)
       (dict_merge (webhook_input_dump p)
         ([(''status'', PStr (webhook_name st)), (''workflow_id'', PStr (rn_workflow_id rn))] @ extra)))"

text \<open>\<open>for attempt in range(1, max_attempts + 1)\<close>, and what follows the loop.\<close>

fun ww_loop :: "unit runtime \<Rightarrow> webhook_input \<Rightarrow> int list \<Rightarrow> (webhook_flow, webhook_state \<times> int) act" where
  "ww_loop rn p [] =
     act_bind (set_self (\<lambda>f. f\<lparr> ww_state := W_FAILED \<rparr>)) (\<lambda>_.
     with_self (\<lambda>f.
     act_bind (ww_persist rn p W_FAILED
         [(''attempts'', PInt (ww_attempts f)), (''last_error'', opt_str (ww_error f))]) (\<lambda>_.
       act_ret (W_FAILED, ww_attempts f))))"
| "ww_loop rn p (i # is) =
     act_bind (set_self (\<lambda>f. f\<lparr> ww_state := W_DELIVERING, ww_attempts := i \<rparr>)) (\<lambda>_.
     act_bind (ww_execute rn (deliver_webhook (rn_ext rn)
         (dict_merge (webhook_input_dump p)
           [(''attempt_number'', PInt i), (''workflow_id'', PStr (rn_workflow_id rn))]))) (\<lambda>r.
       if dr_success r then
         act_bind (set_self (\<lambda>f. f\<lparr> ww_state := W_DELIVERED \<rparr>)) (\<lambda>_.
         act_bind (ww_persist rn p W_DELIVERED
             [(''attempts'', PInt i), (''last_status_code'', opt_int (dr_status_code r))]) (\<lambda>_.
           act_ret (W_DELIVERED, i)))
       else
         act_bind (set_self (\<lambda>f. f\<lparr> ww_error := Some (case nonempty (dr_error r) of
                                                      Some e \<Rightarrow> e | None \<Rightarrow> ''webhook failed'') \<rparr>)) (\<lambda>_.
         act_bind (if wi_backoff p \<noteq> 0 then ww_sleep rn else act_ret ()) (\<lambda>_.
           ww_loop rn p is))))"

definition ww_run :: "unit runtime \<Rightarrow> dict \<Rightarrow> (webhook_flow, webhook_state \<times> int) act" where
  "ww_run rn input =
     act_bind (act_lift (webhook_input_of input)) (\<lambda>p.
     with_self (\<lambda>f.
     act_bind (ww_persist rn p (ww_state f) []) (\<lambda>_.
       ww_loop rn p [1..wi_attempts p])))"

subsection \<open>A delivery on a working database\<close>

lemma ww_execute_first:
  "m (fl_world fl) = (Inr r, v) \<Longrightarrow> 0 < rn_patience rn \<Longrightarrow>
     ww_execute rn m fl = (Inr r, deliver (\<lambda>_ f. f) rn (fl\<lparr> fl_world := v \<rparr>))"
  by (simp add: ww_execute_def execute_def unlimited_first)

lemma fold_const_id: "fold (\<lambda>_ f. f) ss f = f"
  by (induction ss) auto

lemma deliver_id [simp]: "fl_fields (deliver (\<lambda>_ f. f) rn fl) = fl_fields fl"
  by (simp add: deliver_def fold_const_id)

definition webhook_request :: "webhook_input \<Rightarrow> http_request" where
  "webhook_request p = \<lparr> hq_method = ''POST'', hq_url = wi_url p, hq_body = PDict (wi_payload p), hq_key = wi_key p \<rparr>"

text \<open>Whether the endpoint accepts a request, after those it was sent before.\<close>

definition accepts :: "ext \<Rightarrow> http_request \<Rightarrow> http_request list \<Rightarrow> bool" where
  "accepts x q sent = (case xt_http x sent q of Inl _ \<Rightarrow> False | Inr r \<Rightarrow> 200 \<le> hp_status r \<and> hp_status r < 300)"

lemma upsert_webhook_sel: "\<exists>r. db_webhooks (upsert_webhook wid row d) wid = Some r \<and> we_status r = we_status row
   \<and> (we_completed row \<noteq> None \<longrightarrow> we_completed r \<noteq> None)"
  by (simp add: upsert_webhook_def coalesce_def split: option.split)

lemma persist_clean:
  assumes "clean x" and "map_of extra ''status'' = Some (PStr st)"
    and "map_of extra ''workflow_id'' = Some (PStr wid)"
    and "dict_get_or extra ''attempts'' PNone = opt_int a" and "dict_get_or extra ''last_status_code'' PNone = opt_int c"
    and "dict_get_or extra ''last_error'' PNone = opt_str e"
    and "distinct (map fst extra)" and "set (map fst extra) \<subseteq> {''status'', ''workflow_id'', ''attempts'', ''last_status_code'', ''last_error'', ''attempt_number''}"
  shows "\<exists>w' r. persist_webhook_delivery x (dict_merge (webhook_input_dump p) extra) w = (Inr (), w')
     \<and> aw_requests w' = aw_requests w \<and> db_webhooks (aw_db w') (wi_delivery p) = Some r \<and> we_status r = st
     \<and> (st \<in> {''DELIVERED'', ''FAILED''} \<longrightarrow> we_completed r \<noteq> None)"
proof -
  have extra: "map_of (rev extra) = map_of extra" using assms(7) by (simp add: map_of_rev_distinct)
  have look: "map_of (dict_merge (webhook_input_dump p) extra) k =
      (case map_of extra k of None \<Rightarrow> map_of (webhook_input_dump p) k | v \<Rightarrow> v)" for k
    by (simp add: map_of_dict_merge extra)
  have out: "map_of extra k = None" if "k \<notin> {''status'', ''workflow_id'', ''attempts'', ''last_status_code'', ''last_error'', ''attempt_number''}" for k
    using that assms(8) by (auto simp: map_of_eq_None_iff)
  have base: "map_of (webhook_input_dump p) ''attempts'' = None" "map_of (webhook_input_dump p) ''last_status_code'' = None"
    "map_of (webhook_input_dump p) ''last_error'' = None"
    by (simp_all add: webhook_input_dump_def)
  have dump: "map_of (webhook_input_dump p) ''webhook_delivery_id'' = Some (PStr (wi_delivery p))"
    "map_of (webhook_input_dump p) ''tenant_id'' = Some (PStr (wi_tenant p))"
    "map_of (webhook_input_dump p) ''assistant_id'' = Some (PStr (wi_assistant p))"
    "map_of (webhook_input_dump p) ''call_id'' = Some (PStr (wi_call p))"
    "map_of (webhook_input_dump p) ''target_url'' = Some (PStr (wi_url p))"
    "map_of (webhook_input_dump p) ''event_type'' = Some (PStr (wi_event_type p))"
    "map_of (webhook_input_dump p) ''payload'' = Some (PDict (wi_payload p))"
    "map_of (webhook_input_dump p) ''idempotency_key'' = Some (PStr (wi_key p))"
    by (simp_all add: webhook_input_dump_def)
  let ?d = "dict_merge (webhook_input_dump p) extra"
  have opt: "dict_get ?d k = dict_get_or extra k PNone" if "map_of (webhook_input_dump p) k = None" for k
    using that by (simp add: dict_get_def dict_get_or_def look split: option.split)
  have known: "map_of ?d ''webhook_delivery_id'' = Some (PStr (wi_delivery p))" "map_of ?d ''tenant_id'' = Some (PStr (wi_tenant p))"
    "map_of ?d ''assistant_id'' = Some (PStr (wi_assistant p))" "map_of ?d ''call_id'' = Some (PStr (wi_call p))"
    "map_of ?d ''target_url'' = Some (PStr (wi_url p))" "map_of ?d ''event_type'' = Some (PStr (wi_event_type p))"
    "map_of ?d ''payload'' = Some (PDict (wi_payload p))" "map_of ?d ''idempotency_key'' = Some (PStr (wi_key p))"
    "map_of ?d ''status'' = Some (PStr st)" "map_of ?d ''workflow_id'' = Some (PStr wid)"
    using assms(2,3) by (simp_all add: look out dump)
  have ints: "as_int_opt k (opt_int i) = Inr i" for k i by (simp add: as_int_opt_def opt_int_def split: option.split)
  have texts: "as_text_opt k (opt_str i) = Inr i" for k i by (simp add: as_text_opt_def opt_str_def split: option.split)
  let ?row = "\<lambda>now. \<lparr> we_tenant = wi_tenant p, we_assistant = wi_assistant p, we_call = wi_call p, we_workflow = Some wid, we_url = wi_url p,
           we_event_type = wi_event_type p, we_payload = wi_payload p, we_status = st,
           we_attempts = (case a of None \<Rightarrow> 0 | Some n \<Rightarrow> n), we_status_code = c, we_error = e, we_key = wi_key p,
           we_completed = (if st \<in> {''DELIVERED'', ''FAILED''} then Some now else None) \<rparr>"
  have wopt: "dict_get ?d ''workflow_id'' = opt_str (Some wid)" by (simp add: dict_get_def known opt_str_def)
  have run: "persist_webhook_delivery x ?d w = sql_write x (\<lambda>now. upsert_webhook (wi_delivery p) (?row now)) w"
    unfolding persist_webhook_delivery_def with_text_def with_text_or_def with_text_opt_def with_dict_def dict_item_def
      dict_get_or_def known opt [OF base(1)] opt [OF base(2)] opt [OF base(3)] wopt assms(4-6) [unfolded dict_get_or_def]
    by (simp add: act_bind_def act_lift_def as_text_def ints texts)
  show ?thesis
    unfolding run sql_write_clean [OF assms(1)]
    using upsert_webhook_sel [of "wi_delivery p" "?row (xt_now x (Suc (aw_stmts w)))" "aw_db w"]
    by (auto split: if_splits)
qed

lemma deliver_clean:
  assumes "clean x"
  shows "\<exists>w' dr r. deliver_webhook x (dict_merge (webhook_input_dump p)
       [(''attempt_number'', PInt i), (''workflow_id'', PStr wid)]) w = (Inr dr, w')
     \<and> aw_requests w' = aw_requests w @ [webhook_request p]
     \<and> dr_success dr = accepts x (webhook_request p) (aw_requests w)"
proof -
  let ?a = "[(''attempt_number'', PInt i), (''workflow_id'', PStr wid)]"
  let ?d = "dict_merge (webhook_input_dump p) ?a"
  have dump: "map_of (webhook_input_dump p) ''target_url'' = Some (PStr (wi_url p))"
    "map_of (webhook_input_dump p) ''idempotency_key'' = Some (PStr (wi_key p))"
    "map_of (webhook_input_dump p) ''payload'' = Some (PDict (wi_payload p))"
    "map_of (webhook_input_dump p) ''webhook_delivery_id'' = Some (PStr (wi_delivery p))"
    by (simp_all add: webhook_input_dump_def)
  have known: "map_of ?d ''attempt_number'' = Some (PInt i)" "map_of ?d ''target_url'' = Some (PStr (wi_url p))"
    "map_of ?d ''idempotency_key'' = Some (PStr (wi_key p))" "map_of ?d ''payload'' = Some (PDict (wi_payload p))"
    "map_of ?d ''webhook_delivery_id'' = Some (PStr (wi_delivery p))"
    by (simp_all add: map_of_dict_merge dump)
  obtain dr w1 where ex: "webhook_exchange x (wi_url p) (PDict (wi_payload p)) (wi_key p) w = (Inr dr, w1)"
    and w1: "aw_requests w1 = aw_requests w @ [webhook_request p]"
    and dr: "dr_success dr = accepts x (webhook_request p) (aw_requests w)"
    by (auto simp: webhook_exchange_def send_request_def act_bind_def act_ret_def webhook_request_def accepts_def Let_def
        split: sum.split)
  let ?f = "\<lambda>w. w\<lparr> aw_db := (aw_db w)\<lparr> db_attempts := db_attempts (aw_db w) @
         [\<lparr> wa_delivery = wi_delivery p, wa_number = i, wa_status_code = dr_status_code dr, wa_success = dr_success dr,
            wa_error = dr_error dr \<rparr>] \<rparr> \<rparr>"
  obtain w2 where w2: "sql x (upd ?f) w1 = (Inr (), w2)" and r2: "aw_requests w2 = aw_requests w1"
    by (simp add: sql_clean [OF assms] upd_def)
  let ?b = "[(''status'', PStr (if dr_success dr then ''DELIVERED'' else ''DELIVERING'')), (''attempts'', PInt i),
            (''last_status_code'', opt_int (dr_status_code dr)), (''last_error'', opt_str (dr_error dr))]"
  obtain w3 where w3: "persist_webhook_delivery x (dict_merge ?d ?b) w2 = (Inr (), w3)" and r3: "aw_requests w3 = aw_requests w2"
    using persist_clean [OF assms, where extra = "?a @ ?b" and p = p and w = w2 and wid = wid
        and st = "if dr_success dr then ''DELIVERED'' else ''DELIVERING''" and a = "Some i"
        and c = "dr_status_code dr" and e = "dr_error dr"]
    unfolding dict_merge_merge by (auto simp: dict_get_or_def opt_int_def [of "Some i"])
  have "deliver_webhook x ?d w = (Inr dr, w3)"
    unfolding deliver_webhook_def with_text_def dict_item_def dict_get_or_def known
    using w2 w3 by (simp add: act_bind_def act_lift_def as_text_def ex act_ret_def)
  then show ?thesis using w1 r2 r3 dr by auto
qed

subsection \<open>The attempts\<close>

lemma ww_persist_clean:
  assumes "clean (rn_ext rn)" "0 < rn_patience rn"
    and "dict_get_or extra ''attempts'' PNone = opt_int a" and "dict_get_or extra ''last_status_code'' PNone = opt_int c"
    and "dict_get_or extra ''last_error'' PNone = opt_str e" and "distinct (map fst extra)"
    and "set (map fst extra) \<subseteq> {''attempts'', ''last_status_code'', ''last_error''}"
  shows "\<exists>fl' r. ww_persist rn p st extra fl = (Inr (), fl') \<and> fl_fields fl' = fl_fields fl
     \<and> aw_requests (fl_world fl') = aw_requests (fl_world fl)
     \<and> db_webhooks (aw_db (fl_world fl')) (wi_delivery p) = Some r \<and> we_status r = webhook_name st
     \<and> (st \<in> {W_DELIVERED, W_FAILED} \<longrightarrow> we_completed r \<noteq> None)"
proof -
  let ?e = "[(''status'', PStr (webhook_name st)), (''workflow_id'', PStr (rn_workflow_id rn))] @ extra"
  have out: "''status'' \<notin> set (map fst extra)" "''workflow_id'' \<notin> set (map fst extra)" using assms(7) by auto
  have look: "dict_get_or ?e k PNone = dict_get_or extra k PNone" if "k \<noteq> ''status''" "k \<noteq> ''workflow_id''" for k
    using that by (simp add: dict_get_or_def)
  obtain w' r where run: "persist_webhook_delivery (rn_ext rn) (dict_merge (webhook_input_dump p) ?e) (fl_world fl) = (Inr (), w')"
    and w': "aw_requests w' = aw_requests (fl_world fl)" "db_webhooks (aw_db w') (wi_delivery p) = Some r"
      "we_status r = webhook_name st" "webhook_name st \<in> {''DELIVERED'', ''FAILED''} \<longrightarrow> we_completed r \<noteq> None"
    using persist_clean [OF assms(1), where extra = ?e and p = p and w = "fl_world fl" and wid = "rn_workflow_id rn"
        and st = "webhook_name st" and a = a and c = c and e = e] assms(3-7) out look
    by fastforce
  show ?thesis
    unfolding ww_persist_def ww_execute_first [where fl = fl and m = "persist_webhook_delivery (rn_ext rn) (dict_merge (webhook_input_dump p) ?e)", OF run assms(2)]
    using w' by (auto simp: webhook_name.simps)
qed

lemma accepted_later:
  "(\<forall>j < k. a (q # replicate j q) \<longleftrightarrow> (d \<and> Suc j = k)) \<Longrightarrow> \<not> a [] \<Longrightarrow>
   (\<forall>j < Suc k. a (replicate j q) \<longleftrightarrow> (d \<and> Suc j = Suc k \<and> 0 < k))"
  by (auto simp: less_Suc_eq_0_disj)

text \<open>
  The sequence of attempts: \<open>k\<close> requests are sent, every one but the last is refused, and the
  last is accepted exactly when the outcome is \<open>DELIVERED\<close>.
\<close>

lemma ww_loop_clean:
  assumes "clean (rn_ext rn)" "0 < rn_patience rn"
  shows "\<exists>st n fl' k r. ww_loop rn p is fl = (Inr (st, n), fl')
     \<and> aw_requests (fl_world fl') = aw_requests (fl_world fl) @ replicate k (webhook_request p)
     \<and> (\<forall>j < k. accepts (rn_ext rn) (webhook_request p) (aw_requests (fl_world fl) @ replicate j (webhook_request p))
          \<longleftrightarrow> (st = W_DELIVERED \<and> Suc j = k))
     \<and> (st = W_DELIVERED \<and> 0 < k \<and> k \<le> length is \<and> n = is ! (k - 1)
          \<or> st = W_FAILED \<and> k = length is \<and> n = (if is = [] then ww_attempts (fl_fields fl) else is ! (k - 1)))
     \<and> ww_state (fl_fields fl') = st
     \<and> db_webhooks (aw_db (fl_world fl')) (wi_delivery p) = Some r \<and> we_status r = webhook_name st \<and> we_completed r \<noteq> None"
proof (induction "is" arbitrary: fl)
  case Nil
  let ?fl = "fl\<lparr> fl_fields := (fl_fields fl)\<lparr> ww_state := W_FAILED \<rparr> \<rparr>"
  obtain fl' r where run: "ww_persist rn p W_FAILED [(''attempts'', PInt (ww_attempts (fl_fields fl))),
        (''last_error'', opt_str (ww_error (fl_fields fl)))] ?fl = (Inr (), fl')"
    and fl': "fl_fields fl' = fl_fields ?fl" "aw_requests (fl_world fl') = aw_requests (fl_world fl)"
      "db_webhooks (aw_db (fl_world fl')) (wi_delivery p) = Some r" "we_status r = ''FAILED''" "we_completed r \<noteq> None"
    using ww_persist_clean [OF assms, where st = W_FAILED and fl = ?fl and p = p and c = None
        and a = "Some (ww_attempts (fl_fields fl))" and e = "ww_error (fl_fields fl)"
        and extra = "[(''attempts'', PInt (ww_attempts (fl_fields fl))), (''last_error'', opt_str (ww_error (fl_fields fl)))]"]
    by (auto simp: dict_get_or_def opt_int_def)
  show ?case
    using fl' by (simp add: with_self_def set_self_def upd_def ask_def act_bind_def act_ret_def run)
next
  case (Cons i "is")
  let ?q = "webhook_request p" and ?sent = "aw_requests (fl_world fl)"
  let ?fl = "fl\<lparr> fl_fields := (fl_fields fl)\<lparr> ww_state := W_DELIVERING, ww_attempts := i \<rparr> \<rparr>"
  obtain w dr where del: "deliver_webhook (rn_ext rn) (dict_merge (webhook_input_dump p)
       [(''attempt_number'', PInt i), (''workflow_id'', PStr (rn_workflow_id rn))]) (fl_world ?fl) = (Inr dr, w)"
    and w: "aw_requests w = ?sent @ [?q]" and dr: "dr_success dr = accepts (rn_ext rn) ?q ?sent"
    using deliver_clean [OF assms(1), of p i "rn_workflow_id rn" "fl_world fl"] by auto
  define fl2 where "fl2 = deliver (\<lambda>_ f. f) rn (?fl\<lparr> fl_world := w \<rparr>)"
  have fl2: "fl_fields fl2 = fl_fields ?fl" "fl_world fl2 = w" by (simp_all add: fl2_def)
  note ex = ww_execute_first [where fl = ?fl and m = "deliver_webhook (rn_ext rn) (dict_merge (webhook_input_dump p)
       [(''attempt_number'', PInt i), (''workflow_id'', PStr (rn_workflow_id rn))])", OF del assms(2), folded fl2_def]
  show ?case
  proof (cases "dr_success dr")
    case True
    let ?fl3 = "fl2\<lparr> fl_fields := (fl_fields fl2)\<lparr> ww_state := W_DELIVERED \<rparr> \<rparr>"
    let ?e = "[(''attempts'', PInt i), (''last_status_code'', opt_int (dr_status_code dr))]"
    obtain fl' r where run: "ww_persist rn p W_DELIVERED ?e ?fl3 = (Inr (), fl')"
      and fl': "fl_fields fl' = fl_fields ?fl3" "aw_requests (fl_world fl') = aw_requests w"
        "db_webhooks (aw_db (fl_world fl')) (wi_delivery p) = Some r" "we_status r = ''DELIVERED''" "we_completed r \<noteq> None"
      using ww_persist_clean [OF assms, where st = W_DELIVERED and fl = ?fl3 and p = p and c = "dr_status_code dr"
          and a = "Some i" and e = None and extra = ?e] fl2
      by (auto simp: dict_get_or_def opt_int_def [of "Some i"] opt_str_def)
    have "ww_loop rn p (i # is) fl = (Inr (W_DELIVERED, i), fl')"
      using True by (simp add: set_self_def upd_def act_bind_def act_ret_def ex run)
    then show ?thesis using fl' w dr True by (intro exI [of _ W_DELIVERED] exI [of _ i] exI [of _ fl'] exI [of _ 1]) auto
  next
    case False
    let ?e = "Some (case nonempty (dr_error dr) of Some e \<Rightarrow> e | None \<Rightarrow> ''webhook failed'')"
    let ?fl3 = "fl2\<lparr> fl_fields := (fl_fields fl2)\<lparr> ww_error := ?e \<rparr> \<rparr>"
    define fl4 where "fl4 = (if wi_backoff p \<noteq> 0 then deliver (\<lambda>_ f. f) rn ?fl3 else ?fl3)"
    have fl4: "ww_attempts (fl_fields fl4) = i" "fl_world fl4 = w" by (simp_all add: fl4_def fl2)
    have step: "ww_loop rn p (i # is) fl = ww_loop rn p is fl4"
      using False by (simp add: set_self_def upd_def act_bind_def act_ret_def ex ww_sleep_def sleep_def fl4_def)
    from Cons.IH [of fl4, unfolded fl4 w] obtain st n fl' k r where IH: "ww_loop rn p is fl4 = (Inr (st, n), fl')"
      "aw_requests (fl_world fl') = (?sent @ [?q]) @ replicate k ?q"
      "\<forall>j < k. accepts (rn_ext rn) ?q ((?sent @ [?q]) @ replicate j ?q) \<longleftrightarrow> (st = W_DELIVERED \<and> Suc j = k)"
      "st = W_DELIVERED \<and> 0 < k \<and> k \<le> length is \<and> n = is ! (k - 1)
          \<or> st = W_FAILED \<and> k = length is \<and> n = (if is = [] then i else is ! (k - 1))"
      "ww_state (fl_fields fl') = st"
      "db_webhooks (aw_db (fl_world fl')) (wi_delivery p) = Some r" "we_status r = webhook_name st" "we_completed r \<noteq> None"
      by (elim exE conjE) (rule that; assumption)
    have "\<forall>j < Suc k. accepts (rn_ext rn) ?q (?sent @ replicate j ?q) \<longleftrightarrow> (st = W_DELIVERED \<and> Suc j = Suc k)"
      using accepted_later [of k "\<lambda>l. accepts (rn_ext rn) ?q (?sent @ l)" ?q "st = W_DELIVERED"] IH(3,4) dr False by auto
    moreover have "st = W_DELIVERED \<and> 0 < Suc k \<and> Suc k \<le> length (i # is) \<and> n = (i # is) ! (Suc k - 1)
          \<or> st = W_FAILED \<and> Suc k = length (i # is) \<and> n = (i # is) ! (Suc k - 1)"
    proof (cases k)
      case (Suc m)
      then have "(i # is) ! (Suc k - 1) = is ! (k - 1)" by simp
      then show ?thesis using IH(4) Suc by (auto split: if_splits)
    qed (use IH(4) in auto)
    moreover have "aw_requests (fl_world fl') = ?sent @ replicate (Suc k) ?q" using IH(2) by simp
    moreover have "(i # is) \<noteq> []" by simp
    ultimately show ?thesis unfolding step using IH(1,5-8) by (metis (no_types))
  qed
qed


lemma webhook_input_dump_parses:
  assumes "1 \<le> wi_attempts h" "0 \<le> wi_backoff h"
  shows "webhook_input_of (webhook_input_dump h) = Inr h"
proof -
  let ?d = "webhook_input_dump h"
  have look: "map_of ?d ''tenant_id'' = Some (PStr (wi_tenant h))" "map_of ?d ''assistant_id'' = Some (PStr (wi_assistant h))"
    "map_of ?d ''call_id'' = Some (PStr (wi_call h))" "map_of ?d ''webhook_delivery_id'' = Some (PStr (wi_delivery h))"
    "map_of ?d ''target_url'' = Some (PStr (wi_url h))" "map_of ?d ''event_type'' = Some (PStr (wi_event_type h))"
    "map_of ?d ''payload'' = Some (PDict (wi_payload h))" "map_of ?d ''idempotency_key'' = Some (PStr (wi_key h))"
    "map_of ?d ''max_attempts'' = Some (PInt (wi_attempts h))" "map_of ?d ''backoff_seconds'' = Some (PInt (wi_backoff h))"
    "map_of ?d ''trace_id'' = Some (opt_str (wi_trace h))"
    by (simp_all add: webhook_input_dump_def)
  have trace: "mf_opt_str ?d ''trace_id'' = Inr (wi_trace h)"
    by (simp add: mf_opt_str_def look opt_str_def split: option.split)
  show ?thesis
    using assms by (simp add: webhook_input_of_def mf_str_def mf_int_def mf_dict_def look trace)
qed

definition webhook_demo :: webhook_input where
  "webhook_demo = \<lparr> wi_tenant = ''t1'', wi_assistant = ''a1'', wi_call = ''c1'', wi_delivery = ''d1'',
     wi_url = ''http://crm/hook'', wi_event_type = ''end_of_call_report'', wi_payload = [(''summary'', PStr ''ok'')],
     wi_key = ''c1:report'', wi_attempts = 3, wi_backoff = 2, wi_trace = None \<rparr>"

text \<open>An endpoint that answers 500 twice and then 200.\<close>

definition flaky_runtime :: "unit runtime" where
  "flaky_runtime = \<lparr> rn_ext = action_ext (\<lambda>sent _. Inr \<lparr> hp_status = (if length sent < 2 then 500 else 200),
       hp_text = ''try later'', hp_json = Inr PNone \<rparr>),
     rn_patience = 1, rn_signals = (\<lambda>_. []), rn_workflow_id = ''webhook-d1'' \<rparr>"


end
