(* ===== verification/Call_Workflow.thy ===== *)
theory Call_Workflow
  imports Temporal Billing
begin

text \<open>
  \<open>CallWorkflow\<close> (\<open>apps/worker/workflows.py\<close>): the life of a call as its signals tell it. The
  handlers append to a list of events; the run applies them in order. How many signals arrive is
  not bounded, so the loops take fuel; a call whose signals end is shown to need finitely much.
\<close>

datatype call_state =
  PENDING | C_STARTED | IN_PROGRESS | BACKPRESSURE_ACTIVE | PROVIDER_DEGRADED | FALLBACK_SELECTED
| C_FAILED | C_COMPLETED | RECOVERY_REQUIRED | DONE

fun call_state_name :: "call_state \<Rightarrow> string" where
  "call_state_name PENDING = ''PENDING''"
| "call_state_name C_STARTED = ''CALL_STARTED''"
| "call_state_name IN_PROGRESS = ''IN_PROGRESS''"
| "call_state_name BACKPRESSURE_ACTIVE = ''BACKPRESSURE_ACTIVE''"
| "call_state_name PROVIDER_DEGRADED = ''PROVIDER_DEGRADED''"
| "call_state_name FALLBACK_SELECTED = ''FALLBACK_SELECTED''"
| "call_state_name C_FAILED = ''CALL_FAILED''"
| "call_state_name C_COMPLETED = ''CALL_COMPLETED''"
| "call_state_name RECOVERY_REQUIRED = ''RECOVERY_REQUIRED''"
| "call_state_name DONE = ''DONE''"

datatype signal_kind = S_started | S_pipeline | S_provider_failed | S_completed | S_failed

record workflow_event =
  ev_kind :: signal_kind
  ev_payload :: dict

record call_wf =
  cw_state :: call_state
  cw_call_id :: string
  cw_events :: "workflow_event list"
  cw_summary :: string
  cw_done :: bool

definition call_wf_new :: call_wf where
  "call_wf_new = \<lparr> cw_state = PENDING, cw_call_id = '''', cw_events = [], cw_summary = '''', cw_done = False \<rparr>"

text \<open>The five signal handlers.\<close>

definition cw_signal :: "workflow_event \<Rightarrow> call_wf \<Rightarrow> call_wf" where
  "cw_signal s f = f\<lparr> cw_events := cw_events f @ [s] \<rparr>"

type_synonym call_runtime = "workflow_event runtime"
type_synonym call_flow = "call_wf flow"

definition cw_execute :: "call_runtime \<Rightarrow> 'a activity \<Rightarrow> (call_flow, 'a) act" where
  "cw_execute rn m = execute cw_signal rn Unlimited m"

definition cw_persist :: "call_runtime \<Rightarrow> (call_flow, unit) act" where
  "cw_persist rn =
     with_self (\<lambda>f. execute cw_signal rn (Max_attempts 5)
       (persist_call_state (rn_ext rn)
         [(''call_id'', PStr (cw_call_id f)), (''state'', PStr (call_state_name (cw_state f)))]))"

definition cw_enter :: "call_runtime \<Rightarrow> call_state \<Rightarrow> (call_flow, unit) act" where
  "cw_enter rn s = act_bind (set_self (\<lambda>f. f\<lparr> cw_state := s \<rparr>)) (\<lambda>_. cw_persist rn)"

text \<open>\<open>self.state = DONE; self.done = True; await self._persist()\<close>\<close>

definition cw_finish :: "call_runtime \<Rightarrow> (call_flow, unit) act" where
  "cw_finish rn = act_bind (set_self (\<lambda>f. f\<lparr> cw_state := DONE, cw_done := True \<rparr>)) (\<lambda>_. cw_persist rn)"

definition cw_data :: "call_wf \<Rightarrow> dict \<Rightarrow> dict" where
  "cw_data f extra = dict_merge [(''call_id'', PStr (cw_call_id f))] extra"

fun cw_apply_kind :: "call_runtime \<Rightarrow> signal_kind \<Rightarrow> dict \<Rightarrow> (call_flow, unit) act" where
  "cw_apply_kind rn S_started p = act_bind (cw_enter rn C_STARTED) (\<lambda>_. cw_enter rn IN_PROGRESS)"
| "cw_apply_kind rn S_pipeline p =
     cw_enter rn (if dict_get p ''event_type'' = PStr ''pipeline.corked'' then BACKPRESSURE_ACTIVE else IN_PROGRESS)"
| "cw_apply_kind rn S_provider_failed p =
     act_bind (cw_enter rn PROVIDER_DEGRADED) (\<lambda>_.
     with_self (\<lambda>f.
     act_bind (cw_execute rn (select_fallback_provider (rn_ext rn) (cw_data f p))) (\<lambda>fallback.
       cw_enter rn (if truthy (dict_get fallback ''fallback_provider'') then FALLBACK_SELECTED else RECOVERY_REQUIRED))))"
| "cw_apply_kind rn S_completed p =
     act_bind (cw_enter rn C_COMPLETED) (\<lambda>_.
     with_self (\<lambda>f.
     act_bind (cw_execute rn (summarize_call (rn_ext rn) (cw_data f p))) (\<lambda>summary.
     act_bind (set_self (\<lambda>f. f\<lparr> cw_summary := summary \<rparr>)) (\<lambda>_.
     with_self (\<lambda>f.
     act_bind (cw_execute rn (mark_call_completed (rn_ext rn)
         [(''call_id'', PStr (cw_call_id f)), (''summary'', PStr (cw_summary f))])) (\<lambda>_.
       cw_finish rn))))))"
| "cw_apply_kind rn S_failed p =
     act_bind (cw_enter rn C_FAILED) (\<lambda>_.
     with_self (\<lambda>f.
     act_bind (cw_execute rn (mark_call_failed (rn_ext rn) (cw_data f p))) (\<lambda>_.
       cw_finish rn)))"

definition cw_apply :: "call_runtime \<Rightarrow> workflow_event \<Rightarrow> (call_flow, unit) act" where
  "cw_apply rn e = cw_apply_kind rn (ev_kind e) (ev_payload e)"

text \<open>The two nested loops; \<open>False\<close> when the fuel is used up.\<close>

fun cw_drain :: "nat \<Rightarrow> call_runtime \<Rightarrow> (call_flow, bool) act" where
  "cw_drain 0 rn = act_ret False"
| "cw_drain (Suc n) rn =
     with_self (\<lambda>f.
       case cw_events f of
         [] \<Rightarrow> act_ret True
       | e # es \<Rightarrow>
           act_bind (set_self (\<lambda>f. f\<lparr> cw_events := es \<rparr>)) (\<lambda>_.
           act_bind (cw_apply rn e) (\<lambda>_. cw_drain n rn)))"

fun cw_loop :: "nat \<Rightarrow> call_runtime \<Rightarrow> (call_flow, bool) act" where
  "cw_loop 0 rn = act_ret False"
| "cw_loop (Suc n) rn =
     with_self (\<lambda>f.
       if cw_done f then act_ret True
       else
         act_bind (wait_condition cw_signal rn (\<lambda>f. cw_events f \<noteq> [] \<or> cw_done f)) (\<lambda>_.
         act_bind (cw_drain n rn) (\<lambda>b. if b then cw_loop n rn else act_ret False)))"

definition cw_timeout :: "call_runtime \<Rightarrow> (call_flow, unit) act" where
  "cw_timeout rn =
     act_bind (cw_enter rn RECOVERY_REQUIRED) (\<lambda>_.
     with_self (\<lambda>f.
     act_bind (cw_execute rn (emit_recovery_event (rn_ext rn)
         [(''call_id'', PStr (cw_call_id f)), (''reason'', PStr ''call lifecycle timeout'')])) (\<lambda>_.
     act_bind (cw_enter rn C_FAILED) (\<lambda>_.
     with_self (\<lambda>f.
     act_bind (cw_execute rn (mark_call_failed (rn_ext rn)
         [(''call_id'', PStr (cw_call_id f)), (''error'', PStr ''workflow timeout'')])) (\<lambda>_.
       cw_finish rn))))))"

definition cw_run :: "nat \<Rightarrow> call_runtime \<Rightarrow> dict \<Rightarrow> (call_flow, (call_state \<times> string) option) act" where
  "cw_run fuel rn input =
     act_bind (act_lift (dict_item input ''call_id'')) (\<lambda>v.
     act_bind (set_self (\<lambda>f. f\<lparr> cw_call_id := py_str (en_rep (xt_env (rn_ext rn))) v \<rparr>)) (\<lambda>_.
     act_bind (act_lift (py_int (en_parse_int (xt_env (rn_ext rn))) (dict_get_or input ''timeout_seconds'' (PInt 3600)))) (\<lambda>_.
     act_bind (cw_persist rn) (\<lambda>_.
     act_bind (act_try (cw_loop fuel rn)
         (\<lambda>e. if e = TimeoutError then act_bind (cw_timeout rn) (\<lambda>_. act_ret True) else act_raise e)) (\<lambda>b.
     with_self (\<lambda>f. act_ret (if b then Some (cw_state f, cw_summary f) else None)))))))"

subsection \<open>What every step keeps\<close>

text \<open>The signals that arrived between two waits, and the steps that only add to the events.\<close>

definition arrivals :: "call_runtime \<Rightarrow> nat \<Rightarrow> nat \<Rightarrow> workflow_event list" where
  "arrivals rn a b = concat (map (rn_signals rn) [a..<b])"

lemma arrivals_self [simp]: "arrivals rn a a = []"
  by (simp add: arrivals_def)

lemma arrivals_append: "a \<le> b \<Longrightarrow> b \<le> c \<Longrightarrow> arrivals rn a c = arrivals rn a b @ arrivals rn b c"
  by (metis arrivals_def concat_append le_add_diff_inverse map_append upt_add_eq_append)

lemma arrivals_one: "arrivals rn a (Suc a) = rn_signals rn a"
  by (simp add: arrivals_def)

definition cw_advance :: "call_runtime \<Rightarrow> call_flow \<Rightarrow> call_flow \<Rightarrow> bool" where
  "cw_advance rn a b \<longleftrightarrow> fl_awaits a \<le> fl_awaits b \<and> cw_call_id (fl_fields b) = cw_call_id (fl_fields a) \<and>
     cw_events (fl_fields b) = cw_events (fl_fields a) @ arrivals rn (fl_awaits a) (fl_awaits b)"

interpretation adv: effect_order "cw_advance rn"
proof
  fix s t u
  show "cw_advance rn s s" by (simp add: cw_advance_def)
  assume "cw_advance rn s t" "cw_advance rn t u"
  then show "cw_advance rn s u"
    using arrivals_append [of "fl_awaits s" "fl_awaits t" "fl_awaits u" rn] by (simp add: cw_advance_def)
qed

lemma fold_signal: "fold cw_signal ss f = f\<lparr> cw_events := cw_events f @ ss \<rparr>"
  by (induction ss arbitrary: f) (simp_all add: cw_signal_def)

lemma deliver_signal:
  "deliver cw_signal rn fl = fl\<lparr> fl_fields := (fl_fields fl)\<lparr> cw_events := cw_events (fl_fields fl) @ rn_signals rn (fl_awaits fl) \<rparr>,
     fl_awaits := Suc (fl_awaits fl) \<rparr>"
  by (simp add: deliver_def fold_signal)

lemma adv_execute: "keeps (cw_advance rn) (execute cw_signal rn pol m)"
  by (rule keepsI) (simp add: execute_def cw_advance_def deliver_signal arrivals_one split: prod.split)

lemma adv_set_self: "(\<And>f. cw_call_id (g f) = cw_call_id f \<and> cw_events (g f) = cw_events f) \<Longrightarrow> keeps (cw_advance rn) (set_self g)"
  unfolding set_self_def by (rule adv.keeps_upd) (simp add: cw_advance_def)

lemma adv_with_self: "(\<And>f. keeps (cw_advance rn) (g f)) \<Longrightarrow> keeps (cw_advance rn) (with_self g)"
  unfolding with_self_def by (rule adv.keeps_ask)

lemmas adv_intro = adv.keeps_rules adv_execute adv_with_self adv_set_self

lemma adv_persist: "keeps (cw_advance rn) (cw_persist rn)"
  unfolding cw_persist_def by (intro adv_intro)

lemma adv_enter: "keeps (cw_advance rn) (cw_enter rn s)" "keeps (cw_advance rn) (cw_finish rn)"
  unfolding cw_enter_def cw_finish_def by (intro adv_intro adv_persist; simp)+

lemma adv_apply: "keeps (cw_advance rn) (cw_apply rn e)"
proof (cases "ev_kind e")
  case S_provider_failed
  then show ?thesis unfolding cw_apply_def
    by (simp only: cw_apply_kind.simps cw_execute_def) (intro adv.keeps_bind adv_enter adv_with_self adv_execute)
next
  case S_completed
  then show ?thesis unfolding cw_apply_def
    by (simp only: cw_apply_kind.simps cw_execute_def)
      (intro adv.keeps_bind adv_enter adv_with_self adv_execute adv_set_self, simp)
next
  case S_failed
  then show ?thesis unfolding cw_apply_def
    by (simp only: cw_apply_kind.simps cw_execute_def) (intro adv.keeps_bind adv_enter adv_with_self adv_execute)
qed (simp_all only: cw_apply_def cw_apply_kind.simps adv.keeps_bind adv_enter)

subsection \<open>Steps on a working database\<close>

definition cw_recorded :: "call_flow \<Rightarrow> bool" where
  "cw_recorded fl \<longleftrightarrow> (case db_calls (aw_db (fl_world fl)) (cw_call_id (fl_fields fl)) of
     None \<Rightarrow> True | Some c \<Rightarrow> cl_status c = call_state_name (cw_state (fl_fields fl)))"

definition wf_event :: "string \<Rightarrow> workflow_event \<Rightarrow> bool" where
  "wf_event c e \<longleftrightarrow> distinct (map fst (ev_payload e)) \<and>
     (case map_of (ev_payload e) ''call_id'' of None \<Rightarrow> True | Some v \<Rightarrow> v = PStr c) \<and>
     (ev_kind e = S_provider_failed \<longrightarrow> is_str (dict_get (ev_payload e) ''stage'') \<and> is_str (dict_get (ev_payload e) ''provider'')) \<and>
     (ev_kind e = S_failed \<longrightarrow> is_str (dict_get_or (ev_payload e) ''error'' (PStr [])))"

definition terminal :: "workflow_event \<Rightarrow> bool" where
  "terminal e \<longleftrightarrow> ev_kind e = S_completed \<or> ev_kind e = S_failed"

text \<open>The state an event leaves.\<close>

fun cw_outcome :: "workflow_event \<Rightarrow> call_state \<Rightarrow> bool" where
  "cw_outcome e st =
     (case ev_kind e of
        S_started \<Rightarrow> st = IN_PROGRESS
      | S_pipeline \<Rightarrow> st = (if dict_get (ev_payload e) ''event_type'' = PStr ''pipeline.corked'' then BACKPRESSURE_ACTIVE else IN_PROGRESS)
      | S_provider_failed \<Rightarrow> st = FALLBACK_SELECTED \<or> st = RECOVERY_REQUIRED
      | _ \<Rightarrow> st = DONE)"

declare cw_outcome.simps [simp del]

definition working :: "call_runtime \<Rightarrow> bool" where
  "working rn \<longleftrightarrow> clean (rn_ext rn) \<and> 0 < rn_patience rn"

lemma persist_state_clean:
  assumes "clean x"
  shows "\<exists>w'. persist_call_state x [(''call_id'', PStr c), (''state'', PStr s)] w = (Inr (), w')
     \<and> (case db_calls (aw_db w') c of None \<Rightarrow> True | Some r \<Rightarrow> cl_status r = s)"
  by (simp add: persist_call_state_def with_text_def act_bind_def act_lift_def dict_item_def as_text_def
      sql_write_clean [OF assms] update_call_def split: option.split)

lemma bounded_first: "m w = (Inr r, v) \<Longrightarrow> under_policy (Max_attempts (Suc n)) k m w = (Inr r, v)"
  by (simp add: under_policy_def)

lemma cw_persist_clean:
  assumes "working rn"
  shows "\<exists>fl'. cw_persist rn fl = (Inr (), fl') \<and> cw_recorded fl' \<and> cw_state (fl_fields fl') = cw_state (fl_fields fl)
     \<and> cw_done (fl_fields fl') = cw_done (fl_fields fl)"
proof -
  let ?f = "fl_fields fl" let ?m = "persist_call_state (rn_ext rn)
         [(''call_id'', PStr (cw_call_id ?f)), (''state'', PStr (call_state_name (cw_state ?f)))]"
  obtain w where m: "?m (fl_world fl) = (Inr (), w)"
    and w: "case db_calls (aw_db w) (cw_call_id ?f) of None \<Rightarrow> True | Some r \<Rightarrow> cl_status r = call_state_name (cw_state ?f)"
    using persist_state_clean assms unfolding working_def by blast
  show ?thesis
    using bounded_first [of ?m "fl_world fl" "()" w 4 "rn_patience rn", OF m] w
    by (simp add: cw_persist_def with_self_def ask_def execute_def deliver_signal cw_recorded_def eval_nat_numeral split: option.splits)
qed

lemma cw_enter_clean:
  assumes "working rn"
  shows "\<exists>fl'. cw_enter rn s fl = (Inr (), fl') \<and> cw_recorded fl' \<and> cw_state (fl_fields fl') = s
     \<and> cw_done (fl_fields fl') = cw_done (fl_fields fl)"
  using cw_persist_clean [OF assms, of "fl\<lparr> fl_fields := (fl_fields fl)\<lparr> cw_state := s \<rparr> \<rparr>"]
  by (auto simp: cw_enter_def set_self_def upd_def act_bind_def)

lemma cw_finish_clean:
  assumes "working rn"
  shows "\<exists>fl'. cw_finish rn fl = (Inr (), fl') \<and> cw_recorded fl' \<and> cw_state (fl_fields fl') = DONE \<and> cw_done (fl_fields fl')"
  using cw_persist_clean [OF assms, of "fl\<lparr> fl_fields := (fl_fields fl)\<lparr> cw_state := DONE, cw_done := True \<rparr> \<rparr>"]
  by (auto simp: cw_finish_def set_self_def upd_def act_bind_def)

lemma cw_execute_clean:
  assumes "working rn" "\<And>w. \<exists>r w'. m w = (Inr r, w')"
  shows "\<exists>r fl'. cw_execute rn m fl = (Inr r, fl') \<and> cw_state (fl_fields fl') = cw_state (fl_fields fl)
     \<and> cw_done (fl_fields fl') = cw_done (fl_fields fl) \<and> cw_call_id (fl_fields fl') = cw_call_id (fl_fields fl)
     \<and> cw_summary (fl_fields fl') = cw_summary (fl_fields fl)"
proof -
  obtain r w where "m (fl_world fl) = (Inr r, w)" using assms(2) by blast
  then have "under_policy Unlimited (rn_patience rn) m (fl_world fl) = (Inr r, w)"
    using assms(1) by (simp add: unlimited_first working_def)
  then show ?thesis by (simp add: cw_execute_def execute_def deliver_signal)
qed

lemma is_str_PStr: "is_str v \<longleftrightarrow> (\<exists>s. v = PStr s)"
  by (cases v) auto

lemma with_text_runs: "map_of d k = Some (PStr s) \<Longrightarrow> with_text d k f = f s"
  by (rule ext) (simp add: with_text_def act_bind_def act_lift_def dict_item_def as_text_def)

lemma with_text_or_runs: "dict_get_or d k (PStr a) = PStr s \<Longrightarrow> with_text_or d k a f = f s"
  by (rule ext) (simp add: with_text_or_def act_bind_def act_lift_def as_text_def)

lemma with_item_runs: "map_of d k = Some v \<Longrightarrow> with_item d k f = f v"
  by (rule ext) (simp add: with_item_def act_bind_def act_lift_def dict_item_def)

lemma cw_data_look:
  assumes "wf_event (cw_call_id f) e"
  shows "map_of (cw_data f (ev_payload e)) ''call_id'' = Some (PStr (cw_call_id f))"
    and "k \<noteq> ''call_id'' \<Longrightarrow> map_of (cw_data f (ev_payload e)) k = map_of (ev_payload e) k"
proof -
  have rev: "map_of (rev (ev_payload e)) = map_of (ev_payload e)"
    using assms by (simp add: wf_event_def map_of_rev_distinct)
  show "map_of (cw_data f (ev_payload e)) ''call_id'' = Some (PStr (cw_call_id f))"
    using assms by (cases "map_of (ev_payload e) ''call_id''") (simp_all add: cw_data_def map_of_dict_merge rev wf_event_def)
  show "map_of (cw_data f (ev_payload e)) k = map_of (ev_payload e) k" if "k \<noteq> ''call_id''"
    using that by (simp add: cw_data_def map_of_dict_merge rev split: option.split)
qed

lemma call_activities_run:
  assumes "working rn" "wf_event (cw_call_id f) e"
  shows "ev_kind e = S_provider_failed \<Longrightarrow> \<exists>r w'. select_fallback_provider (rn_ext rn) (cw_data f (ev_payload e)) w = (Inr r, w')"
    and "\<exists>r w'. summarize_call (rn_ext rn) (cw_data f (ev_payload e)) w = (Inr r, w')"
    and "ev_kind e = S_failed \<Longrightarrow> \<exists>r w'. mark_call_failed (rn_ext rn) (cw_data f (ev_payload e)) w = (Inr r, w')"
proof -
  let ?d = "cw_data f (ev_payload e)"
  have clean: "clean (rn_ext rn)" using assms(1) by (simp add: working_def)
  note call = cw_data_look(1) [OF assms(2)] and other = cw_data_look(2) [OF assms(2)]
  show "\<exists>r w'. summarize_call (rn_ext rn) ?d w = (Inr r, w')"
    by (simp add: summarize_call_def with_item_runs [OF call] act_ret_def)
  show "\<exists>r w'. select_fallback_provider (rn_ext rn) ?d w = (Inr r, w')" if k: "ev_kind e = S_provider_failed"
  proof -
    obtain a b where "dict_get (ev_payload e) ''stage'' = PStr a" "dict_get (ev_payload e) ''provider'' = PStr b"
      using assms(2) k by (auto simp: wf_event_def is_str_PStr)
    then have "map_of ?d ''stage'' = Some (PStr a)" "map_of ?d ''provider'' = Some (PStr b)"
      by (auto simp: other dict_get_def split: option.splits)
    then show ?thesis
      by (simp add: select_fallback_provider_def with_item_runs [OF call] with_text_runs act_bind_def sql_clean [OF clean]
          ask_def act_ret_def)
  qed
  show "\<exists>r w'. mark_call_failed (rn_ext rn) ?d w = (Inr r, w')" if k: "ev_kind e = S_failed"
  proof -
    have "is_str (dict_get_or (ev_payload e) ''error'' (PStr []))" using assms(2) k by (simp add: wf_event_def)
    then obtain s where "dict_get_or ?d ''error'' (PStr ''unknown workflow failure'') = PStr s"
      by (auto simp: is_str_PStr dict_get_or_def other split: option.splits)
    then show ?thesis
      by (simp add: mark_call_failed_def with_text_or_runs with_text_runs [OF call] sql_write_clean [OF clean])
  qed
qed

lemma mark_completed_runs:
  assumes "working rn"
  shows "\<exists>r w'. mark_call_completed (rn_ext rn) [(''call_id'', PStr c), (''summary'', PStr s)] w = (Inr r, w')"
  using assms by (simp add: mark_call_completed_def with_text_runs sql_write_clean working_def)

text \<open>An event on a working database is applied, recorded and leaves the state of its kind.\<close>

definition cw_settles :: "call_runtime \<Rightarrow> workflow_event \<Rightarrow> call_flow \<Rightarrow> call_flow \<Rightarrow> bool" where
  "cw_settles rn e fl fl' \<longleftrightarrow> cw_advance rn fl fl' \<and> cw_recorded fl' \<and> cw_outcome e (cw_state (fl_fields fl')) \<and>
     (cw_done (fl_fields fl') \<longleftrightarrow> cw_done (fl_fields fl) \<or> terminal e)"

lemma cw_apply_clean:
  assumes "working rn" "wf_event (cw_call_id (fl_fields fl)) e"
  shows "\<exists>fl'. cw_apply rn e fl = (Inr (), fl') \<and> cw_settles rn e fl fl'"
proof -
  have "\<exists>fl'. cw_apply rn e fl = (Inr (), fl') \<and> cw_recorded fl' \<and> cw_outcome e (cw_state (fl_fields fl'))
     \<and> (cw_done (fl_fields fl') \<longleftrightarrow> cw_done (fl_fields fl) \<or> terminal e)"
  proof (cases "ev_kind e")
    case S_started
    obtain a where a: "cw_enter rn C_STARTED fl = (Inr (), a)" "cw_done (fl_fields a) = cw_done (fl_fields fl)"
      using cw_enter_clean [OF assms(1)] by blast
    obtain b where b: "cw_enter rn IN_PROGRESS a = (Inr (), b)" "cw_recorded b" "cw_state (fl_fields b) = IN_PROGRESS"
      "cw_done (fl_fields b) = cw_done (fl_fields a)" using cw_enter_clean [OF assms(1)] by blast
    show ?thesis using S_started a b by (simp add: cw_apply_def act_bind_def terminal_def cw_outcome.simps)
  next
    case S_pipeline
    then show ?thesis
      using cw_enter_clean [OF assms(1), of "if dict_get (ev_payload e) ''event_type'' = PStr ''pipeline.corked'' then BACKPRESSURE_ACTIVE else IN_PROGRESS" fl]
      by (auto simp: cw_apply_def terminal_def cw_outcome.simps)
  next
    case S_provider_failed
    obtain a where a: "cw_enter rn PROVIDER_DEGRADED fl = (Inr (), a)" "cw_done (fl_fields a) = cw_done (fl_fields fl)"
      using cw_enter_clean [OF assms(1)] by blast
    have "cw_call_id (fl_fields a) = cw_call_id (fl_fields fl)"
      using keepsD [OF adv_enter(1) a(1)] by (simp add: cw_advance_def)
    then have wf: "wf_event (cw_call_id (fl_fields a)) e" using assms(2) by simp
    obtain r b where b: "cw_execute rn (select_fallback_provider (rn_ext rn) (cw_data (fl_fields a) (ev_payload e))) a = (Inr r, b)"
      "cw_done (fl_fields b) = cw_done (fl_fields a)"
      using cw_execute_clean [OF assms(1), of "select_fallback_provider (rn_ext rn) (cw_data (fl_fields a) (ev_payload e))" a]
        call_activities_run(1) [OF assms(1) wf S_provider_failed] by blast
    obtain c where c: "cw_enter rn (if truthy (dict_get r ''fallback_provider'') then FALLBACK_SELECTED else RECOVERY_REQUIRED) b = (Inr (), c)"
      "cw_recorded c" "cw_state (fl_fields c) = (if truthy (dict_get r ''fallback_provider'') then FALLBACK_SELECTED else RECOVERY_REQUIRED)"
      "cw_done (fl_fields c) = cw_done (fl_fields b)"
      using cw_enter_clean [OF assms(1), of "if truthy (dict_get r ''fallback_provider'') then FALLBACK_SELECTED else RECOVERY_REQUIRED" b] by blast
    show ?thesis using S_provider_failed a b c
      by (simp add: cw_apply_def act_bind_def with_self_def ask_def terminal_def cw_outcome.simps)
  next
    case S_completed
    obtain a where a: "cw_enter rn C_COMPLETED fl = (Inr (), a)" using cw_enter_clean [OF assms(1)] by blast
    have "cw_call_id (fl_fields a) = cw_call_id (fl_fields fl)"
      using keepsD [OF adv_enter(1) a(1)] by (simp add: cw_advance_def)
    then have wf: "wf_event (cw_call_id (fl_fields a)) e" using assms(2) by simp
    obtain r b where b: "cw_execute rn (summarize_call (rn_ext rn) (cw_data (fl_fields a) (ev_payload e))) a = (Inr r, b)"
      using cw_execute_clean [OF assms(1), of "summarize_call (rn_ext rn) (cw_data (fl_fields a) (ev_payload e))" a]
        call_activities_run(2) [OF assms(1) wf] by blast
    let ?b = "b\<lparr> fl_fields := (fl_fields b)\<lparr> cw_summary := r \<rparr> \<rparr>"
    obtain u c where c: "cw_execute rn (mark_call_completed (rn_ext rn)
         [(''call_id'', PStr (cw_call_id (fl_fields b))), (''summary'', PStr r)]) ?b = (Inr u, c)"
      using cw_execute_clean [OF assms(1), of "mark_call_completed (rn_ext rn) [(''call_id'', PStr (cw_call_id (fl_fields b))), (''summary'', PStr r)]" ?b]
        mark_completed_runs [OF assms(1)] by blast
    obtain d where d: "cw_finish rn c = (Inr (), d)" "cw_recorded d" "cw_state (fl_fields d) = DONE" "cw_done (fl_fields d)"
      using cw_finish_clean [OF assms(1)] by blast
    show ?thesis using S_completed a b c d
      by (simp add: cw_apply_def act_bind_def with_self_def ask_def set_self_def upd_def terminal_def cw_outcome.simps)
  next
    case S_failed
    obtain a where a: "cw_enter rn C_FAILED fl = (Inr (), a)" using cw_enter_clean [OF assms(1)] by blast
    have "cw_call_id (fl_fields a) = cw_call_id (fl_fields fl)"
      using keepsD [OF adv_enter(1) a(1)] by (simp add: cw_advance_def)
    then have wf: "wf_event (cw_call_id (fl_fields a)) e" using assms(2) by simp
    obtain u b where b: "cw_execute rn (mark_call_failed (rn_ext rn) (cw_data (fl_fields a) (ev_payload e))) a = (Inr u, b)"
      using cw_execute_clean [OF assms(1), of "mark_call_failed (rn_ext rn) (cw_data (fl_fields a) (ev_payload e))" a]
        call_activities_run(3) [OF assms(1) wf S_failed] by blast
    obtain d where d: "cw_finish rn b = (Inr (), d)" "cw_recorded d" "cw_state (fl_fields d) = DONE" "cw_done (fl_fields d)"
      using cw_finish_clean [OF assms(1)] by blast
    show ?thesis using S_failed a b d by (simp add: cw_apply_def act_bind_def with_self_def ask_def terminal_def cw_outcome.simps)
  qed
  then show ?thesis using keepsD [OF adv_apply] unfolding cw_settles_def by blast
qed

subsection \<open>The loops\<close>

text \<open>What is still to be applied, when no signal arrives after wait \<open>m\<close>.\<close>

definition cw_pending :: "call_runtime \<Rightarrow> nat \<Rightarrow> call_flow \<Rightarrow> workflow_event list" where
  "cw_pending rn m fl = cw_events (fl_fields fl) @ arrivals rn (fl_awaits fl) (max m (fl_awaits fl))"

definition silent_after :: "call_runtime \<Rightarrow> nat \<Rightarrow> bool" where
  "silent_after rn m \<longleftrightarrow> (\<forall>n \<ge> m. rn_signals rn n = [])"

lemma arrivals_silent: "silent_after rn m \<Longrightarrow> m \<le> a \<Longrightarrow> arrivals rn a b = []"
  by (auto simp: arrivals_def silent_after_def)

lemma cw_pending_advance:
  assumes "silent_after rn m" "cw_advance rn fl fl'"
  shows "cw_pending rn m fl' = cw_pending rn m fl"
proof -
  let ?a = "fl_awaits fl" and ?b = "fl_awaits fl'"
  have le: "?a \<le> ?b" using assms(2) by (simp add: cw_advance_def)
  have "arrivals rn ?a (max m ?a) = arrivals rn ?a ?b @ arrivals rn ?b (max m ?b)"
  proof (cases "m \<le> ?a")
    case True
    then show ?thesis using assms(1) le arrivals_silent [of rn m ?a ?b] by (simp add: max_absorb2)
  next
    case False
    show ?thesis
    proof (cases "?b \<le> m")
      case True
      then show ?thesis using arrivals_append [OF le True] False by (simp add: max_absorb1)
    next
      case over: False
      then show ?thesis using arrivals_append [of ?a m ?b rn] arrivals_silent [OF assms(1), of m ?b] False
        by (simp add: max_absorb1 max_absorb2)
    qed
  qed
  then show ?thesis using assms(2) by (simp add: cw_pending_def cw_advance_def)
qed

text \<open>A run that applied the events \<open>es\<close>: the last one decided the state.\<close>

definition cw_applied :: "call_runtime \<Rightarrow> nat \<Rightarrow> workflow_event list \<Rightarrow> call_flow \<Rightarrow> call_flow \<Rightarrow> bool" where
  "cw_applied rn m es fl fl' \<longleftrightarrow> fl_awaits fl \<le> fl_awaits fl' \<and> cw_pending rn m fl = es @ cw_pending rn m fl' \<and>
     cw_call_id (fl_fields fl') = cw_call_id (fl_fields fl) \<and>
     (cw_done (fl_fields fl') \<longleftrightarrow> cw_done (fl_fields fl) \<or> (\<exists>e \<in> set es. terminal e)) \<and>
     (if es = [] then fl_world fl' = fl_world fl \<and> cw_state (fl_fields fl') = cw_state (fl_fields fl)
      else cw_recorded fl' \<and> cw_outcome (last es) (cw_state (fl_fields fl')))"

lemma cw_recorded_same:
  "fl_world b = fl_world a \<Longrightarrow> cw_call_id (fl_fields b) = cw_call_id (fl_fields a) \<Longrightarrow>
     cw_state (fl_fields b) = cw_state (fl_fields a) \<Longrightarrow> cw_recorded b = cw_recorded a"
  by (simp add: cw_recorded_def split: option.split)

lemma cw_applied_trans:
  assumes "cw_applied rn m es fl a" "cw_applied rn m fs a b"
  shows "cw_applied rn m (es @ fs) fl b"
proof (cases "fs = []")
  case True
  then show ?thesis using assms cw_recorded_same [of b a] by (simp add: cw_applied_def)
next
  case False
  then show ?thesis using assms by (auto simp: cw_applied_def split: if_splits)
qed

lemma cw_drain_clean:
  assumes "working rn" "silent_after rn m"
  shows "length (cw_pending rn m fl) < n \<Longrightarrow> list_all (wf_event (cw_call_id (fl_fields fl))) (cw_pending rn m fl) \<Longrightarrow>
     \<exists>es fl'. cw_drain n rn fl = (Inr True, fl') \<and> cw_applied rn m es fl fl' \<and> cw_events (fl_fields fl') = []
       \<and> (cw_events (fl_fields fl) \<noteq> [] \<longrightarrow> es \<noteq> [])"
proof (induction n arbitrary: fl)
  case (Suc n)
  show ?case
  proof (cases "cw_events (fl_fields fl)")
    case Nil
    then show ?thesis by (intro exI [of _ "[]"] exI [of _ fl]) (simp add: cw_applied_def with_self_def ask_def act_ret_def)
  next
    case (Cons e rest)
    let ?fl = "fl\<lparr> fl_fields := (fl_fields fl)\<lparr> cw_events := rest \<rparr> \<rparr>"
    have pend: "cw_pending rn m fl = e # cw_pending rn m ?fl" by (simp add: cw_pending_def Cons)
    then have "wf_event (cw_call_id (fl_fields ?fl)) e" using Suc.prems(2) by simp
    then obtain a where a: "cw_apply rn e ?fl = (Inr (), a)" "cw_settles rn e ?fl a"
      using cw_apply_clean [OF assms(1)] by blast
    have pa: "cw_pending rn m a = cw_pending rn m ?fl"
      using a(2) cw_pending_advance [OF assms(2)] by (simp add: cw_settles_def)
    have one: "cw_applied rn m [e] fl a"
      using a(2) pend pa by (simp add: cw_applied_def cw_settles_def cw_advance_def)
    have "length (cw_pending rn m a) < n" "list_all (wf_event (cw_call_id (fl_fields a))) (cw_pending rn m a)"
      using Suc.prems pend pa one by (simp_all add: cw_applied_def)
    then obtain es b where b: "cw_drain n rn a = (Inr True, b)" "cw_applied rn m es a b" "cw_events (fl_fields b) = []"
      using Suc.IH [of a] by blast
    have run: "cw_drain (Suc n) rn fl = (Inr True, b)"
      using a(1) b(1) by (simp add: Cons with_self_def set_self_def upd_def ask_def act_bind_def)
    have "cw_applied rn m (e # es) fl b"
      using cw_applied_trans [OF one b(2)] by simp
    then show ?thesis using run b(3) by blast
  qed
qed simp

text \<open>
  The outer loop: it ends with every event applied that arrived before it ended, or by the time-out when
  a wait brings no event.
\<close>

lemma wait_advance: "keeps (cw_advance rn) (wait_condition cw_signal rn c)"
  by (rule keepsI) (simp add: wait_condition_def Let_def adv.order_refl cw_advance_def deliver_signal arrivals_one)

lemma wait_frame:
  "wait_condition cw_signal rn c fl = (r, a) \<Longrightarrow> cw_done (fl_fields a) = cw_done (fl_fields fl) \<and>
     fl_world a = fl_world fl \<and> cw_state (fl_fields a) = cw_state (fl_fields fl)"
  by (auto simp: wait_condition_def deliver_signal Let_def split: if_splits)

lemma cw_loop_clean:
  assumes "working rn" "silent_after rn m"
  shows "Suc (length (cw_pending rn m fl)) < n \<Longrightarrow> list_all (wf_event (cw_call_id (fl_fields fl))) (cw_pending rn m fl) \<Longrightarrow>
     (cw_done (fl_fields fl) \<longrightarrow> cw_events (fl_fields fl) = []) \<Longrightarrow>
     \<exists>es fl'. cw_applied rn m es fl fl' \<and> cw_events (fl_fields fl') = [] \<and>
       (cw_loop n rn fl = (Inr True, fl') \<and> cw_done (fl_fields fl')
        \<or> cw_loop n rn fl = (Inl TimeoutError, fl') \<and> \<not> cw_done (fl_fields fl'))"
proof (induction n arbitrary: fl)
  case (Suc n)
  let ?c = "\<lambda>f. cw_events f \<noteq> [] \<or> cw_done f"
  show ?case
  proof (cases "cw_done (fl_fields fl)")
    case True
    then show ?thesis
      using Suc.prems(3) by (intro exI [of _ "[]"] exI [of _ fl]) (simp add: cw_applied_def with_self_def ask_def act_ret_def)
  next
    case open_call: False
    obtain r a where w: "wait_condition cw_signal rn ?c fl = (r, a)" by (rule prod.exhaust)
    have adv: "cw_advance rn fl a" using keepsD [OF wait_advance w] .
    have pa: "cw_pending rn m a = cw_pending rn m fl" using cw_pending_advance [OF assms(2) adv] .
    have ida: "cw_call_id (fl_fields a) = cw_call_id (fl_fields fl)" using adv by (simp add: cw_advance_def)
    have le: "fl_awaits fl \<le> fl_awaits a" using adv by (simp add: cw_advance_def)
    have fr: "cw_done (fl_fields a) = cw_done (fl_fields fl)" "fl_world a = fl_world fl"
      "cw_state (fl_fields a) = cw_state (fl_fields fl)"
      using wait_frame [OF w] by simp_all
    then have da: "\<not> cw_done (fl_fields a)" using open_call by simp
    show ?thesis
    proof (cases r)
      case (Inl e)
      then have "e = TimeoutError" using w by (auto simp: wait_condition_def Let_def split: if_splits)
      then have "cw_loop (Suc n) rn fl = (Inl TimeoutError, a)"
        using w Inl open_call by (simp add: with_self_def ask_def act_bind_def)
      moreover have "cw_applied rn m [] fl a" by (simp add: cw_applied_def pa ida fr le)
      moreover have "cw_events (fl_fields a) = []"
        using w Inl by (auto simp: wait_condition_def Let_def split: if_splits)
      ultimately show ?thesis using da by blast
    next
      case (Inr u)
      then have ev: "cw_events (fl_fields a) \<noteq> []"
        using w open_call by (auto simp: wait_condition_def deliver_signal Let_def split: if_splits)
      have "length (cw_pending rn m a) < n" "list_all (wf_event (cw_call_id (fl_fields a))) (cw_pending rn m a)"
        using Suc.prems pa ida by simp_all
      from cw_drain_clean [OF assms this] obtain es b where b: "cw_drain n rn a = (Inr True, b)" "cw_applied rn m es a b"
        "cw_events (fl_fields b) = []" "cw_events (fl_fields a) \<noteq> [] \<longrightarrow> es \<noteq> []"
        by (elim exE conjE) (rule that; assumption)
      have es: "es \<noteq> []" using b(4) ev by simp
      have first: "cw_applied rn m es fl b"
        using b(2) es pa ida fr le by (simp add: cw_applied_def)
      have pb: "cw_pending rn m fl = es @ cw_pending rn m b" "cw_call_id (fl_fields b) = cw_call_id (fl_fields fl)"
        using first by (simp_all add: cw_applied_def)
      have left: "Suc (length (cw_pending rn m b)) < n" "list_all (wf_event (cw_call_id (fl_fields b))) (cw_pending rn m b)"
        using Suc.prems(1,2) pb es by (cases es; simp)+
      have "cw_done (fl_fields b) \<longrightarrow> cw_events (fl_fields b) = []" using b(3) by simp
      from Suc.IH [OF left this] obtain fs d where d: "cw_applied rn m fs b d" "cw_events (fl_fields d) = []"
        "cw_loop n rn b = (Inr True, d) \<and> cw_done (fl_fields d)
          \<or> cw_loop n rn b = (Inl TimeoutError, d) \<and> \<not> cw_done (fl_fields d)"
        by (elim exE conjE) (rule that; assumption)
      have run: "cw_loop (Suc n) rn fl = cw_loop n rn b"
        using w Inr b(1) open_call by (simp add: with_self_def ask_def act_bind_def)
      show ?thesis using cw_applied_trans [OF first d(1)] d(2,3) unfolding run by blast
    qed
  qed
qed simp

lemma cw_timeout_clean:
  assumes "working rn"
  shows "\<exists>fl'. cw_timeout rn fl = (Inr (), fl') \<and> cw_recorded fl' \<and> cw_state (fl_fields fl') = DONE \<and> cw_done (fl_fields fl')"
proof -
  have clean: "clean (rn_ext rn)" using assms by (simp add: working_def)
  obtain a where a: "cw_enter rn RECOVERY_REQUIRED fl = (Inr (), a)" using cw_enter_clean [OF assms] by blast
  let ?c = "PStr (cw_call_id (fl_fields a))"
  have "\<exists>r w'. emit_recovery_event (rn_ext rn) [(''call_id'', ?c), (''reason'', PStr ''call lifecycle timeout'')] w = (Inr r, w')" for w
    by (simp add: emit_recovery_event_def with_text_runs act_bind_def fresh_uuid_def sql_write_clean [OF clean])
  then obtain u b where b: "cw_execute rn (emit_recovery_event (rn_ext rn)
      [(''call_id'', ?c), (''reason'', PStr ''call lifecycle timeout'')]) a = (Inr u, b)"
    using cw_execute_clean [OF assms] by blast
  obtain d where d: "cw_enter rn C_FAILED b = (Inr (), d)" using cw_enter_clean [OF assms] by blast
  let ?d = "PStr (cw_call_id (fl_fields d))"
  have "\<exists>r w'. mark_call_failed (rn_ext rn) [(''call_id'', ?d), (''error'', PStr ''workflow timeout'')] w = (Inr r, w')" for w
    by (simp add: mark_call_failed_def with_text_runs with_text_or_runs dict_get_or_def sql_write_clean [OF clean])
  then obtain v e where e: "cw_execute rn (mark_call_failed (rn_ext rn)
      [(''call_id'', ?d), (''error'', PStr ''workflow timeout'')]) d = (Inr v, e)"
    using cw_execute_clean [OF assms] by blast
  obtain f where f: "cw_finish rn e = (Inr (), f)" "cw_recorded f" "cw_state (fl_fields f) = DONE" "cw_done (fl_fields f)"
    using cw_finish_clean [OF assms] by blast
  show ?thesis using a b d e f by (simp add: cw_timeout_def act_bind_def with_self_def ask_def)
qed

lemma adv_timeout: "keeps (cw_advance rn) (cw_timeout rn)"
  unfolding cw_timeout_def cw_execute_def by (intro adv.keeps_bind adv_enter adv_with_self adv_execute)

lemma cw_arrived:
  assumes "silent_after rn m" "arrivals rn 0 m = es @ arrivals rn k (max m k)"
  shows "es = arrivals rn 0 k"
proof (cases "k \<le> m")
  case True
  then show ?thesis using assms(2) arrivals_append [of 0 k m rn] by (simp add: max_absorb1)
next
  case False
  then have "arrivals rn 0 k = arrivals rn 0 m"
    using arrivals_append [of 0 m k rn] arrivals_silent [OF assms(1), of m k] by simp
  then show ?thesis using assms(2) False by (simp add: max_absorb2)
qed

lemma cw_run_applies:
  assumes "working rn" and "silent_after rn m" and "list_all (wf_event c) (arrivals rn 0 m)"
    and "dict_item input ''call_id'' = Inr (PStr c)"
    and "py_int (en_parse_int (xt_env (rn_ext rn))) (dict_get_or input ''timeout_seconds'' (PInt 3600)) = Inr t"
    and "Suc (length (arrivals rn 0 m)) < fuel"
    and "cw_run fuel rn input \<lparr> fl_fields = call_wf_new, fl_world = w, fl_awaits = 0 \<rparr> = (r, fl')"
  shows "\<exists>k es st s. r = Inr (Some (st, s)) \<and> 0 < k \<and> es = arrivals rn 0 k
     \<and> (if list_ex terminal es then cw_outcome (last es) st else st = DONE)
     \<and> (case db_calls (aw_db (fl_world fl')) c of None \<Rightarrow> True | Some q \<Rightarrow> cl_status q = call_state_name st)"
proof -
  let ?fl = "\<lparr> fl_fields = call_wf_new\<lparr> cw_call_id := c \<rparr>, fl_world = w, fl_awaits = 0 \<rparr>"
  obtain a where a: "cw_persist rn ?fl = (Inr (), a)" "cw_done (fl_fields a) = cw_done (fl_fields ?fl)"
    using cw_persist_clean [OF assms(1)] by blast
  have adv: "cw_advance rn ?fl a" using keepsD [OF adv_persist a(1)] .
  have waits: "0 < fl_awaits a" using a(1) by (auto simp: cw_persist_def with_self_def ask_def execute_def deliver_signal split: prod.splits)
  have pend: "cw_pending rn m a = arrivals rn 0 m" and ida: "cw_call_id (fl_fields a) = c"
    using cw_pending_advance [OF assms(2) adv] adv by (simp_all add: cw_pending_def cw_advance_def call_wf_new_def)
  have closed: "cw_done (fl_fields a) \<longrightarrow> cw_events (fl_fields a) = []" using a(2) by (simp add: call_wf_new_def)
  obtain es b where es: "cw_applied rn m es a b" "cw_events (fl_fields b) = []"
    and loop: "cw_loop fuel rn a = (Inr True, b) \<and> cw_done (fl_fields b) \<or> cw_loop fuel rn a = (Inl TimeoutError, b) \<and> \<not> cw_done (fl_fields b)"
    using cw_loop_clean [OF assms(1,2), of a fuel, unfolded pend ida, OF assms(6,3) closed]
    by (elim exE conjE) (rule that; assumption)
  have split: "arrivals rn 0 m = es @ cw_pending rn m b" "cw_call_id (fl_fields b) = c"
    and fin: "cw_done (fl_fields b) \<longleftrightarrow> list_ex terminal es"
    using es(1) pend ida a(2) by (simp_all add: cw_applied_def call_wf_new_def list_ex_iff)
  let ?k = "fl_awaits b"
  have k: "0 < ?k" using es(1) waits by (simp add: cw_applied_def)
  have "cw_pending rn m b = arrivals rn ?k (max m ?k)" by (simp add: cw_pending_def es(2))
  then have arr: "es = arrivals rn 0 ?k" by (intro cw_arrived [OF assms(2)]) (simp only: split(1))
  have run: "cw_run fuel rn input \<lparr> fl_fields = call_wf_new, fl_world = w, fl_awaits = 0 \<rparr> =
     act_bind (act_try (cw_loop fuel rn)
         (\<lambda>e. if e = TimeoutError then act_bind (cw_timeout rn) (\<lambda>_. act_ret True) else act_raise e))
       (\<lambda>b. with_self (\<lambda>f. act_ret (if b then Some (cw_state f, cw_summary f) else None))) a"
    using a(1) by (simp add: cw_run_def assms(4,5) act_bind_def act_lift_def set_self_def upd_def)
  from loop show ?thesis
  proof
    assume l: "cw_loop fuel rn a = (Inr True, b) \<and> cw_done (fl_fields b)"
    then have "r = Inr (Some (cw_state (fl_fields b), cw_summary (fl_fields b)))" "fl' = b"
      using assms(7) unfolding run by (auto simp: act_bind_def act_try_def with_self_def ask_def act_ret_def)
    moreover have "es \<noteq> []" using fin l by auto
    ultimately show ?thesis
      using es(1) l fin split(2) k arr unfolding cw_applied_def cw_recorded_def
      by - (rule exI [of _ ?k], rule exI [of _ es], rule exI [of _ "cw_state (fl_fields b)"], simp split: option.splits if_splits)
  next
    assume l: "cw_loop fuel rn a = (Inl TimeoutError, b) \<and> \<not> cw_done (fl_fields b)"
    obtain d where d: "cw_timeout rn b = (Inr (), d)" "cw_recorded d" "cw_state (fl_fields d) = DONE"
      using cw_timeout_clean [OF assms(1)] by blast
    have "cw_call_id (fl_fields d) = c" using keepsD [OF adv_timeout d(1)] split(2) by (simp add: cw_advance_def)
    moreover have "r = Inr (Some (DONE, cw_summary (fl_fields d)))" "fl' = d"
      using assms(7) l d(1,3) unfolding run by (auto simp: act_bind_def act_try_def with_self_def ask_def act_ret_def)
    moreover have "\<not> list_ex terminal es" using l fin by simp
    ultimately show ?thesis using d(2,3) k arr unfolding cw_recorded_def
      by - (rule exI [of _ ?k], rule exI [of _ es], rule exI [of _ DONE], simp split: option.splits)
  qed
qed

lemma keeps_cw_execute: "keeps act_le m \<Longrightarrow> keeps flow_le (cw_execute rn m)"
  unfolding cw_execute_def by (rule keeps_execute)

lemma keeps_cw_persist: "keeps flow_le (cw_persist rn)"
  unfolding cw_persist_def by (intro flow_intro keeps_call_activities)

lemma keeps_cw_enter: "keeps flow_le (cw_enter rn s)" "keeps flow_le (cw_finish rn)"
  unfolding cw_enter_def cw_finish_def by (intro flow_intro keeps_cw_persist)+

lemma keeps_cw_apply: "keeps flow_le (cw_apply rn e)"
  unfolding cw_apply_def
  by (cases "ev_kind e"; simp only: cw_apply_kind.simps)
    (intro flow.keeps_bind keeps_cw_enter keeps_with_self keeps_set_self keeps_cw_execute keeps_call_activities)+

lemma keeps_cw_drain: "keeps flow_le (cw_drain n rn)"
proof (induction n)
  case (Suc n)
  have "keeps flow_le (case cw_events f of [] \<Rightarrow> act_ret True
      | e # es \<Rightarrow> act_bind (set_self (\<lambda>f. f\<lparr> cw_events := es \<rparr>)) (\<lambda>_. act_bind (cw_apply rn e) (\<lambda>_. cw_drain n rn)))" for f
    by (cases "cw_events f") (simp_all add: flow.keeps_ret flow.keeps_bind keeps_set_self keeps_cw_apply Suc)
  then show ?case unfolding cw_drain.simps by (rule keeps_with_self)
qed (simp add: flow.keeps_ret)

lemma keeps_cw_loop: "keeps flow_le (cw_loop n rn)"
proof (induction n)
  case (Suc n)
  show ?case unfolding cw_loop.simps
    by (intro keeps_with_self flow.keeps_if flow.keeps_ret flow.keeps_bind keeps_wait keeps_cw_drain Suc)
qed (simp add: flow.keeps_ret)

lemma keeps_cw_timeout: "keeps flow_le (cw_timeout rn)"
  unfolding cw_timeout_def
  by (intro flow.keeps_bind keeps_cw_enter keeps_with_self keeps_cw_execute keeps_call_activities)

lemma keeps_cw_run: "keeps flow_le (cw_run n rn input)"
  unfolding cw_run_def
  by (intro flow.keeps_bind flow.keeps_lift flow.keeps_ret flow.keeps_try flow.keeps_if flow.keeps_raise keeps_set_self
      keeps_with_self keeps_cw_persist keeps_cw_loop keeps_cw_timeout)

lemma cw_run_known:
  assumes "cw_run fuel rn input fl = (r, fl')" "db_calls (aw_db (fl_world fl)) c \<noteq> None"
  shows "\<exists>q. db_calls (aw_db (fl_world fl')) c = Some q"
proof -
  have "dom (db_calls (aw_db (fl_world fl'))) = dom (db_calls (aw_db (fl_world fl)))"
    using keepsD [OF keeps_cw_run assms(1)] by (simp add: flow_le_def act_le_def db_le_def)
  then show ?thesis using assms(2) by auto
qed


definition call_signal :: "signal_kind \<Rightarrow> workflow_event" where
  "call_signal k = \<lparr> ev_kind = k, ev_payload = [(''call_id'', PStr ''c1'')] \<rparr>"

definition call_runtime_demo :: "workflow_event list \<Rightarrow> call_runtime" where
  "call_runtime_demo es = \<lparr> rn_ext = action_ext (\<lambda>_ _. Inl TimeoutError), rn_patience = 1,
     rn_signals = (\<lambda>n. if n = 0 then es else []), rn_workflow_id = ''call-c1'' \<rparr>"

lemma call_runtime_demo_ok:
  "working (call_runtime_demo es)" "silent_after (call_runtime_demo es) 1" "arrivals (call_runtime_demo es) 0 1 = es"
  by (simp_all add: working_def clean_def call_runtime_demo_def action_ext_def silent_after_def arrivals_def)


lemma arrivals_first: "silent_after rn 1 \<Longrightarrow> 0 < k \<Longrightarrow> arrivals rn 0 k = rn_signals rn 0"
  using arrivals_append [of 0 1 k rn] arrivals_silent [of rn 1 1 k] arrivals_one [of rn 0] by simp

text \<open>A workflow that is done goes on. When another signal arrives together with the one that completes or fails the
call, it is applied after it: the workflow returns, and the call's status is left, as if the call were going on.\<close>

theorem done_call_reopened:
  assumes "working rn" and "silent_after rn 1" and "rn_signals rn 0 = [e, f]" and "wf_event c e" "wf_event c f"
    and "terminal e" and "\<not> terminal f"
    and "dict_item input ''call_id'' = Inr (PStr c)" and "dict_get_or input ''timeout_seconds'' (PInt 3600) = PInt t"
    and "3 < fuel" and "db_calls (aw_db w) c \<noteq> None"
    and "cw_run fuel rn input \<lparr> fl_fields = call_wf_new, fl_world = w, fl_awaits = 0 \<rparr> = (r, fl')"
  shows "\<exists>st s q. r = Inr (Some (st, s)) \<and> cw_outcome f st \<and> st \<noteq> DONE
     \<and> db_calls (aw_db (fl_world fl')) c = Some q \<and> cl_status q = call_state_name st"
proof -
  have all: "arrivals rn 0 1 = [e, f]" using arrivals_one [of rn 0] assms(3) by simp
  obtain k es st s where r: "r = Inr (Some (st, s))" "0 < k" "es = arrivals rn 0 k"
      "if list_ex terminal es then cw_outcome (last es) st else st = DONE"
      "case db_calls (aw_db (fl_world fl')) c of None \<Rightarrow> True | Some q \<Rightarrow> cl_status q = call_state_name st"
    using cw_run_applies [OF assms(1,2) _ assms(8) _ _ assms(12), of t] assms(4,5,9,10) unfolding all by auto
  have "es = [e, f]" using arrivals_first [OF assms(2) r(2)] assms(3) r(3) by simp
  then have "cw_outcome f st" using r(4) assms(6) by simp
  moreover have "st \<noteq> DONE"
    using calculation assms(7) by (cases "ev_kind f") (auto simp: cw_outcome.simps terminal_def split: if_splits)
  moreover obtain q where "db_calls (aw_db (fl_world fl')) c = Some q"
    using cw_run_known [OF assms(12)] assms(11) by auto
  ultimately show ?thesis using r(1,5) by auto
qed

definition call_world :: world where
  "call_world = world0\<lparr> aw_db := (db_empty [])\<lparr> db_calls := [''c1'' \<mapsto> call_demo] \<rparr> \<rparr>"

lemma call_world_known: "db_calls (aw_db call_world) ''c1'' \<noteq> None"
  by (simp add: call_world_def)

definition call_input_demo :: dict where
  "call_input_demo = [(''call_id'', PStr ''c1'')]"

lemma call_input_demo_ok:
  "dict_item call_input_demo ''call_id'' = Inr (PStr ''c1'')" "dict_get_or call_input_demo ''timeout_seconds'' (PInt 3600) = PInt 3600"
  by (simp_all add: call_input_demo_def dict_item_def dict_get_or_def)

lemma call_signal_wf: "k \<noteq> S_provider_failed \<Longrightarrow> wf_event ''c1'' (call_signal k)"
  by (simp add: wf_event_def call_signal_def dict_get_or_def)

lemma call_runtime_demo_first: "rn_signals (call_runtime_demo es) 0 = es"
  by (simp add: call_runtime_demo_def)

definition call_run_demo :: "workflow_event list \<Rightarrow> (call_state \<times> string) option res \<times> call_flow" where
  "call_run_demo es = cw_run 9 (call_runtime_demo es) call_input_demo
     \<lparr> fl_fields = call_wf_new, fl_world = call_world, fl_awaits = 0 \<rparr>"

lemma done_call_reopened_witness:
  "\<exists>st s q. fst (call_run_demo [call_signal S_completed, call_signal S_pipeline]) = Inr (Some (st, s)) \<and> st = IN_PROGRESS
     \<and> db_calls (aw_db (fl_world (snd (call_run_demo [call_signal S_completed, call_signal S_pipeline])))) ''c1'' = Some q
     \<and> cl_status q = ''IN_PROGRESS''"
proof -
  let ?e = "call_signal S_completed" and ?f = "call_signal S_pipeline"
  obtain r fl' where run: "call_run_demo [?e, ?f] = (r, fl')" by (rule prod.exhaust)
  have tm: "terminal ?e" "\<not> terminal ?f" by (simp_all add: terminal_def call_signal_def)
  have wf: "wf_event ''c1'' ?e" "wf_event ''c1'' ?f" by (simp_all add: call_signal_wf)
  obtain st s q where "r = Inr (Some (st, s))" "cw_outcome ?f st"
      "db_calls (aw_db (fl_world fl')) ''c1'' = Some q" "cl_status q = call_state_name st"
    using done_call_reopened [OF call_runtime_demo_ok(1,2) call_runtime_demo_first wf tm call_input_demo_ok _ call_world_known
        run [unfolded call_run_demo_def]] by auto
  then show ?thesis unfolding run by (simp add: cw_outcome.simps call_signal_def dict_get_def)
qed

text \<open>C39: A failed call can end as a completed one. The projector keeps a row whose status is \<open>CALL_FAILED\<close> from
being completed; but the workflow of a call that failed writes \<open>DONE\<close> over that status, so a \<open>call.ended\<close> event
projected afterwards marks the call \<open>CALL_COMPLETED\<close>.\<close>

theorem failed_call_completes:
  assumes "working rn" and "silent_after rn 1" and "rn_signals rn 0 = [e]" and "wf_event c e" and "ev_kind e = S_failed"
    and "dict_item input ''call_id'' = Inr (PStr c)" and "dict_get_or input ''timeout_seconds'' (PInt 3600) = PInt t"
    and "2 < fuel" and "db_calls (aw_db w) c \<noteq> None"
    and "cw_run fuel rn input \<lparr> fl_fields = call_wf_new, fl_world = w, fl_awaits = 0 \<rparr> = (r, fl')"
    and "pe_event_type ev = CALL_ENDED" "pe_call_id ev = c" and "pj_project_call en ev (aw_db (fl_world fl')) = Inr d"
  shows "\<exists>q q'. db_calls (aw_db (fl_world fl')) c = Some q \<and> cl_status q = ''DONE''
     \<and> db_calls d c = Some q' \<and> cl_status q' = ''CALL_COMPLETED''"
proof -
  have all: "arrivals rn 0 1 = [e]" using arrivals_one [of rn 0] assms(3) by simp
  obtain k es st s where r: "r = Inr (Some (st, s))" "0 < k" "es = arrivals rn 0 k"
      "if list_ex terminal es then cw_outcome (last es) st else st = DONE"
      "case db_calls (aw_db (fl_world fl')) c of None \<Rightarrow> True | Some q \<Rightarrow> cl_status q = call_state_name st"
    using cw_run_applies [OF assms(1,2) _ assms(6) _ _ assms(10), of t] assms(4,7,8) unfolding all by auto
  have "st = DONE"
    using arrivals_first [OF assms(2) r(2)] assms(3,5) r(3,4) by (auto simp: terminal_def cw_outcome.simps)
  moreover obtain q where q: "db_calls (aw_db (fl_world fl')) c = Some q"
    using cw_run_known [OF assms(10)] assms(9) by auto
  ultimately have "cl_status q = ''DONE''" using r(5) by simp
  then show ?thesis
    using assms(11-13) q
    by (auto simp: pj_project_call_def Let_def bindE_eq_Inr split: prod.splits dest!: update_billing_calls)
qed

definition ended_event :: pevent where
  "ended_event = \<lparr> pe_event_id = ''e9'', pe_call_id = ''c1'', pe_turn_id = ''session'', pe_event_type = CALL_ENDED,
     pe_stage = ''session'', pe_timestamp = 9, pe_seq = 9, pe_key = ''c1:session:call.ended:9'', pe_payload = [], pe_trace_id = None \<rparr>"

lemma update_billing_total: "\<exists>b d'. pj_update_call_billing en call dur fin d = Inr (b, d')"
  by (simp add: pj_update_call_billing_def pj_billing_insert_def Let_def split: option.split)

lemma ended_event_projects: "\<exists>d'. pj_project_call en ended_event d = Inr d'"
proof -
  have p: "py_decimal en (dict_get_or [] ''duration_seconds'' (PInt 0)) = Inr 0" by (simp add: dict_get_or_def)
  show ?thesis
  proof (cases "db_calls d ''c1''")
    case (Some c)
    let ?d = "d\<lparr> db_calls := (db_calls d)(''c1'' \<mapsto>
                            c\<lparr> cl_status := ''CALL_COMPLETED'', cl_stage := ''session'',
                               cl_summary := dict_get [] ''final_response'', cl_ended_at := Some 9 \<rparr>) \<rparr>"
    obtain b d' where "pj_update_call_billing en ''c1'' (Some 0) True ?d = Inr (b, d')" using update_billing_total by blast
    then show ?thesis using Some by (simp add: pj_project_call_def ended_event_def Let_def p)
  qed (simp add: pj_project_call_def ended_event_def Let_def)
qed

lemma failed_call_completes_witness:
  "\<exists>d q. pj_project_call (xt_env (action_ext (\<lambda>_ _. Inl TimeoutError))) ended_event
      (aw_db (fl_world (snd (call_run_demo [call_signal S_failed])))) = Inr d
    \<and> db_calls d ''c1'' = Some q \<and> cl_status q = ''CALL_COMPLETED''"
proof -
  let ?e = "call_signal S_failed" and ?en = "xt_env (action_ext (\<lambda>_ _. Inl TimeoutError))"
  obtain r fl' where run: "call_run_demo [?e] = (r, fl')" by (rule prod.exhaust)
  obtain d where d: "pj_project_call ?en ended_event (aw_db (fl_world fl')) = Inr d"
    using ended_event_projects by blast
  have wf: "wf_event ''c1'' ?e" by (simp add: call_signal_wf)
  have k: "ev_kind ?e = S_failed" by (simp add: call_signal_def)
  have e: "pe_event_type ended_event = CALL_ENDED" "pe_call_id ended_event = ''c1''" by (simp_all add: ended_event_def)
  show ?thesis
    using failed_call_completes [OF call_runtime_demo_ok(1,2) call_runtime_demo_first wf k call_input_demo_ok _ call_world_known
        run [unfolded call_run_demo_def] e d] d unfolding run by auto
qed

end
