(* ===== verification/Outbox.thy ===== *)
theory Outbox
  imports Store Effects "HOL-Library.Sublist"
begin

text \<open>
  The outbox relay (\<open>apps/api/db/outbox.py\<close>, class \<open>OutboxPublisher\<close>): rows the projector and
  the activities insert in their transactions are published to Kafka and then marked.

  A statement can fail before it took effect; a publication can fail before the broker stored the
  record, or after it, when only the acknowledgement is lost. Which does is the argument \<open>relay_ext\<close>,
  by the number of operations done so far. The rows of \<open>outbox_events\<close> are kept in the order of
  \<open>created_at\<close>; a row is identified by its event id, which is unique.
\<close>

datatype publication = Stored | Stored_unacknowledged exn | Not_stored exn

type_synonym broker_record = "string \<times> string \<times> pevent"

definition send_record :: "publication \<Rightarrow> broker_record \<Rightarrow> broker_record list \<Rightarrow> unit res \<times> broker_record list" where
  "send_record p b sent =
     (case p of Stored \<Rightarrow> (Inr (), sent @ [b]) | Stored_unacknowledged e \<Rightarrow> (Inl e, sent @ [b]) | Not_stored e \<Rightarrow> (Inl e, sent))"

text \<open>\<open>KafkaEventProducer.publish\<close> with the default topic: the record it sends\<close>

definition event_record :: "pevent \<Rightarrow> broker_record" where
  "event_record e = (publish_destination None (pe_event_type e), pe_call_id e, e)"

record relay_world =
  rl_db :: db
  rl_log :: "broker_record list"
  rl_ops :: nat

record relay_ext =
  rx_publish :: "nat \<Rightarrow> outbox_row \<Rightarrow> publication"
  rx_stmt :: "nat \<Rightarrow> exn option"
  rx_exn_str :: "exn \<Rightarrow> string"

type_synonym 'a relay = "(relay_world, 'a) act"

definition rl_tick :: "relay_world \<Rightarrow> relay_world" where
  "rl_tick w = w\<lparr> rl_ops := Suc (rl_ops w) \<rparr>"

definition ob_stmt :: "relay_ext \<Rightarrow> (db \<Rightarrow> db) \<Rightarrow> unit relay" where
  "ob_stmt x f w =
     (case rx_stmt x (rl_ops w) of
        Some e \<Rightarrow> (Inl e, rl_tick w)
      | None \<Rightarrow> (Inr (), (rl_tick w)\<lparr> rl_db := f (rl_db w) \<rparr>))"

definition ob_record :: "outbox_row \<Rightarrow> broker_record" where
  "ob_record r = (ob_topic r, ob_key r, ob_payload r)"

text \<open>\<open>KafkaEventProducer.publish_raw\<close>\<close>

definition ob_publish :: "relay_ext \<Rightarrow> outbox_row \<Rightarrow> unit relay" where
  "ob_publish x r w =
     (let (res, sent) = send_record (rx_publish x (rl_ops w) r) (ob_record r) (rl_log w)
      in (res, (rl_tick w)\<lparr> rl_log := sent \<rparr>))"

definition ob_unpublished :: "db \<Rightarrow> outbox_row list" where
  "ob_unpublished d = filter (\<lambda>r. \<not> ob_published r) (db_outbox d)"

text \<open>The \<open>SELECT\<close>. Its row locks end with the statement: the connection has no transaction.\<close>

definition ob_fetch :: "relay_ext \<Rightarrow> nat \<Rightarrow> outbox_row list relay" where
  "ob_fetch x limit =
     act_bind (ob_stmt x (\<lambda>d. d)) (\<lambda>_. ask (\<lambda>w. act_ret (take limit (ob_unpublished (rl_db w)))))"

definition ob_update :: "string \<Rightarrow> (outbox_row \<Rightarrow> outbox_row) \<Rightarrow> db \<Rightarrow> db" where
  "ob_update eid f d = d\<lparr> db_outbox := map (\<lambda>r. if ob_event r = eid then f r else r) (db_outbox d) \<rparr>"

definition ob_mark :: "outbox_row \<Rightarrow> outbox_row" where
  "ob_mark r = r\<lparr> ob_published := True, ob_attempts := ob_attempts r + 1, ob_error := None \<rparr>"

definition ob_note :: "string \<Rightarrow> outbox_row \<Rightarrow> outbox_row" where
  "ob_note err r = r\<lparr> ob_attempts := ob_attempts r + 1, ob_error := Some err \<rparr>"

text \<open>The body of the loop; the result says whether the row counts as published.\<close>

definition ob_row :: "relay_ext \<Rightarrow> outbox_row \<Rightarrow> nat relay" where
  "ob_row x r =
     act_try
       (act_bind (ob_publish x r) (\<lambda>_. act_bind (ob_stmt x (ob_update (ob_event r) ob_mark)) (\<lambda>_. act_ret 1)))
       (\<lambda>e. act_bind (ob_stmt x (ob_update (ob_event r) (ob_note (rx_exn_str x e)))) (\<lambda>_. act_ret 0))"

fun ob_rows :: "relay_ext \<Rightarrow> outbox_row list \<Rightarrow> nat relay" where
  "ob_rows x [] = act_ret 0"
| "ob_rows x (r # rs) = act_bind (ob_row x r) (\<lambda>n. act_bind (ob_rows x rs) (\<lambda>m. act_ret (n + m)))"

definition ob_publish_batch :: "relay_ext \<Rightarrow> nat \<Rightarrow> nat relay" where
  "ob_publish_batch x limit = act_bind (ob_fetch x limit) (ob_rows x)"

text \<open>\<open>run\<close>: \<open>n\<close> polls, then \<open>stop\<close>. An exception of a batch is logged.\<close>

fun ob_run :: "relay_ext \<Rightarrow> nat \<Rightarrow> nat \<Rightarrow> unit relay" where
  "ob_run x limit 0 = act_ret ()"
| "ob_run x limit (Suc n) =
     act_bind (act_suppress (act_bind (ob_publish_batch x limit) (\<lambda>_. act_ret ()))) (\<lambda>_. ob_run x limit n)"

subsection \<open>What the relay keeps\<close>

text \<open>
  A row's content never changes and a published row stays so; the log only grows, by records of rows;
  and a row becomes published only when its record is in the log.
\<close>

definition same_row :: "outbox_row \<Rightarrow> outbox_row \<Rightarrow> bool" where
  "same_row r s \<longleftrightarrow> ob_event s = ob_event r \<and> ob_record s = ob_record r \<and> ob_attempts r \<le> ob_attempts s
     \<and> (ob_published r \<longrightarrow> ob_published s)"

definition relay_le :: "relay_world \<Rightarrow> relay_world \<Rightarrow> bool" where
  "relay_le v w \<longleftrightarrow> list_all2 same_row (db_outbox (rl_db v)) (db_outbox (rl_db w))
     \<and> rl_db w = (rl_db v)\<lparr> db_outbox := db_outbox (rl_db w) \<rparr>
     \<and> (\<exists>new. rl_log w = rl_log v @ new)"

lemma same_row_refl [simp]: "same_row r r"
  by (simp add: same_row_def)

lemma same_row_trans: "same_row a b \<Longrightarrow> same_row b c \<Longrightarrow> same_row a c"
  by (auto simp: same_row_def)

interpretation relay: effect_order relay_le
proof
  fix s t u :: relay_world
  show "relay_le s s" by (simp add: relay_le_def list_all2_refl)
  assume a: "relay_le s t" "relay_le t u"
  have "list_all2 same_row (db_outbox (rl_db s)) (db_outbox (rl_db u))"
    using a same_row_trans unfolding relay_le_def by (blast intro: list_all2_trans)
  moreover have "rl_db u = (rl_db s)\<lparr> db_outbox := db_outbox (rl_db u) \<rparr>"
    using a unfolding relay_le_def by (metis db.surjective db.update_convs(13))
  ultimately show "relay_le s u" using a unfolding relay_le_def by auto
qed

text \<open>The rows a batch was given are rows of the table, and every marked row has its record in the log.\<close>

definition relay_ok :: "relay_world \<Rightarrow> bool" where
  "relay_ok w \<longleftrightarrow> distinct (map ob_event (db_outbox (rl_db w)))
     \<and> (\<forall>r \<in> set (db_outbox (rl_db w)). ob_published r \<longrightarrow> ob_record r \<in> set (rl_log w))"

definition row_of :: "relay_world \<Rightarrow> outbox_row \<Rightarrow> bool" where
  "row_of w r \<longleftrightarrow> (\<exists>s \<in> set (db_outbox (rl_db w)). ob_event s = ob_event r \<and> ob_record s = ob_record r)"

definition logged_rows :: "relay_world \<Rightarrow> bool" where
  "logged_rows w \<longleftrightarrow> (\<forall>b \<in> set (rl_log w). \<exists>r \<in> set (db_outbox (rl_db w)). b = ob_record r)"

definition relay_inv :: "relay_world \<Rightarrow> bool" where
  "relay_inv w \<longleftrightarrow> relay_ok w \<and> logged_rows w"

lemma logged_rows_image: "logged_rows w \<longleftrightarrow> set (rl_log w) \<subseteq> ob_record ` set (db_outbox (rl_db w))"
  unfolding logged_rows_def subset_eq image_iff by (rule refl)

lemma rl_tick_sel [simp]: "rl_db (rl_tick w) = rl_db w" "rl_log (rl_tick w) = rl_log w"
  by (simp_all add: rl_tick_def)

text \<open>An update that keeps rows the same but for marking one whose record is in the log.\<close>

lemma ob_update_inv:
  assumes "relay_inv w" and "\<And>r. same_row r (f r)"
    and "\<And>r. r \<in> set (db_outbox (rl_db w)) \<Longrightarrow> ob_event r = eid \<Longrightarrow> ob_published (f r) \<Longrightarrow> ob_record r \<in> set (rl_log w)"
  shows "relay_inv (w\<lparr> rl_db := ob_update eid f (rl_db w) \<rparr>) \<and> relay_le w (w\<lparr> rl_db := ob_update eid f (rl_db w) \<rparr>)"
proof -
  let ?g = "\<lambda>r. if ob_event r = eid then f r else r"
  have same: "same_row r (?g r)" for r using assms(2) by simp
  then have ev: "map ob_event (map ?g rs) = map ob_event rs" and rec: "map ob_record (map ?g rs) = map ob_record rs" for rs
    by (simp_all add: same_row_def)
  have kept: "ob_record (?g r) = ob_record r" for r using same by (simp add: same_row_def)
  have f: "ob_event (f r) = ob_event r" "ob_record (f r) = ob_record r" for r using assms(2) by (simp_all add: same_row_def)
  have "(\<lambda>r. ob_event (?g r)) = ob_event" by (auto simp: f)
  then have "relay_ok (w\<lparr> rl_db := ob_update eid f (rl_db w) \<rparr>)"
    using assms(1,3) unfolding relay_inv_def relay_ok_def ob_update_def by (auto simp: comp_def f)
  moreover have "logged_rows (w\<lparr> rl_db := ob_update eid f (rl_db w) \<rparr>)"
  proof -
    have "ob_record ` set (map ?g (db_outbox (rl_db w))) = ob_record ` set (db_outbox (rl_db w))"
      by (simp only: set_map image_image kept)
    then show ?thesis using assms(1) by (simp add: relay_inv_def logged_rows_image ob_update_def)
  qed
  moreover have "relay_le w (w\<lparr> rl_db := ob_update eid f (rl_db w) \<rparr>)"
    using same by (simp add: relay_le_def ob_update_def list_all2_conv_all_nth)
  ultimately show ?thesis by (simp add: relay_inv_def)
qed

lemma ob_stmt_inv:
  assumes "relay_inv w" and "\<And>r. same_row r (f r)"
    and "\<And>r. r \<in> set (db_outbox (rl_db w)) \<Longrightarrow> ob_event r = eid \<Longrightarrow> ob_published (f r) \<Longrightarrow> ob_record r \<in> set (rl_log w)"
    and "ob_stmt x (ob_update eid f) w = (res, w')"
  shows "relay_inv w' \<and> relay_le w w' \<and> rl_log w' = rl_log w"
proof -
  have tick: "relay_inv (rl_tick w) = relay_inv w" "relay_le w (rl_tick w)" "\<And>v. relay_le (rl_tick w) v = relay_le w v"
    by (simp_all add: relay_inv_def relay_ok_def logged_rows_def relay_le_def list_all2_refl)
  show ?thesis
    using assms(1,4) tick ob_update_inv [of "rl_tick w" f eid] assms(2,3)
    by (auto simp: ob_stmt_def split: option.splits)
qed

lemma list_all2_member: "list_all2 P xs ys \<Longrightarrow> \<forall>x \<in> set xs. \<exists>y \<in> set ys. P x y"
  by (induction rule: list_all2_induct) auto

lemma row_of_le:
  assumes "row_of v r" "relay_le v w"
  shows "row_of w r"
proof -
  obtain s where s: "s \<in> set (db_outbox (rl_db v))" "ob_event s = ob_event r" "ob_record s = ob_record r"
    using assms(1) by (auto simp: row_of_def)
  have "list_all2 same_row (db_outbox (rl_db v)) (db_outbox (rl_db w))" using assms(2) by (simp add: relay_le_def)
  from list_all2_member [OF this] s(1) obtain t where "t \<in> set (db_outbox (rl_db w))" "same_row s t" by blast
  then show ?thesis using s by (auto simp: row_of_def same_row_def)
qed

lemma ob_publish_inv:
  assumes "relay_inv w" "row_of w r" "ob_publish x r w = (res, w')"
  shows "relay_inv w' \<and> relay_le w w' \<and> (\<not> isl res \<longrightarrow> ob_record r \<in> set (rl_log w')) \<and> set (rl_log w') \<subseteq> insert (ob_record r) (set (rl_log w))"
proof -
  have db: "rl_db w' = rl_db w" and sent: "rl_log w' = rl_log w \<or> rl_log w' = rl_log w @ [ob_record r]"
    and ok: "\<not> isl res \<longrightarrow> ob_record r \<in> set (rl_log w')"
    using assms(3) by (auto simp: ob_publish_def send_record_def split: publication.splits)
  have le: "relay_le w w'" using db sent by (auto simp: relay_le_def list_all2_refl)
  have "ob_record r \<in> ob_record ` set (db_outbox (rl_db w))" using assms(2) unfolding row_of_def by (metis image_eqI)
  then have "logged_rows w'" using assms(1) db sent by (auto simp: relay_inv_def logged_rows_image)
  moreover have "relay_ok w'" using assms(1) db sent by (auto simp: relay_inv_def relay_ok_def)
  ultimately show ?thesis using le sent ok by (auto simp: relay_inv_def)
qed

lemma row_record: "relay_inv w \<Longrightarrow> row_of w r \<Longrightarrow> s \<in> set (db_outbox (rl_db w)) \<Longrightarrow> ob_event s = ob_event r \<Longrightarrow> ob_record s = ob_record r"
  unfolding relay_inv_def relay_ok_def row_of_def by (metis distinct_map inj_onD)

lemma ob_row_cases:
  assumes "ob_row x r w = (res, w')"
  obtains (refused) e v b where "ob_publish x r w = (Inl e, v)"
      "ob_stmt x (ob_update (ob_event r) (ob_note (rx_exn_str x e))) v = (b, w')"
  | (marked) u v b where "ob_publish x r w = (Inr u, v)" "ob_stmt x (ob_update (ob_event r) ob_mark) v = (Inr b, w')" "res = Inr 1"
  | (unmarked) u v e z b where "ob_publish x r w = (Inr u, v)" "ob_stmt x (ob_update (ob_event r) ob_mark) v = (Inl e, z)"
      "ob_stmt x (ob_update (ob_event r) (ob_note (rx_exn_str x e))) z = (b, w')"
proof -
  obtain a v where p: "ob_publish x r w = (a, v)" by (rule prod.exhaust)
  obtain b z where q: "ob_stmt x (ob_update (ob_event r) ob_mark) v = (b, z)" by (rule prod.exhaust)
  obtain c y where n: "ob_stmt x (ob_update (ob_event r) (ob_note (rx_exn_str x (case a of Inl e \<Rightarrow> e | Inr _ \<Rightarrow> case b of Inl e \<Rightarrow> e | Inr _ \<Rightarrow> TimeoutError))))
      (case a of Inl e \<Rightarrow> v | Inr _ \<Rightarrow> z) = (c, y)" by (rule prod.exhaust)
  show thesis
  proof (cases a)
    case (Inl e)
    then have "w' = y" using assms p n by (cases c) (simp_all add: ob_row_def act_try_def act_bind_def act_ret_def)
    then show thesis using refused p n Inl by simp
  next
    case (Inr u)
    show thesis
    proof (cases b)
      case (Inl e)
      then have "w' = y" using assms p q n Inr by (cases c) (simp_all add: ob_row_def act_try_def act_bind_def act_ret_def)
      then show thesis using unmarked p q n Inl Inr by simp
    next
      case (Inr u')
      then have "w' = z \<and> res = Inr 1" using assms p q \<open>a = Inr u\<close> by (simp add: ob_row_def act_try_def act_bind_def act_ret_def)
      then show thesis using marked p q Inr \<open>a = Inr u\<close> by simp
    qed
  qed
qed

lemma ob_mark_inv:
  assumes "relay_inv v" "row_of v r" "ob_record r \<in> set (rl_log v)" "ob_stmt x (ob_update (ob_event r) ob_mark) v = (b, z)"
  shows "relay_inv z \<and> relay_le v z \<and> rl_log z = rl_log v"
proof (rule ob_stmt_inv [OF assms(1) _ _ assms(4)])
  show "same_row s (ob_mark s)" for s by (simp add: ob_mark_def same_row_def ob_record_def)
  show "ob_record s \<in> set (rl_log v)" if "s \<in> set (db_outbox (rl_db v))" "ob_event s = ob_event r" for s
    using row_record [OF assms(1,2) that] assms(3) by simp
qed

lemma ob_note_inv:
  assumes "relay_inv v" "ob_stmt x (ob_update eid (ob_note err)) v = (b, z)"
  shows "relay_inv z \<and> relay_le v z \<and> rl_log z = rl_log v"
proof (rule ob_stmt_inv [OF assms(1) _ _ assms(2)])
  show "same_row s (ob_note err s)" for s by (simp add: ob_note_def same_row_def ob_record_def)
  show "ob_record s \<in> set (rl_log v)" if "s \<in> set (db_outbox (rl_db v))" "ob_published (ob_note err s)" for s
    using assms(1) that by (simp add: ob_note_def relay_inv_def relay_ok_def)
qed

lemma ob_row_inv:
  assumes "relay_inv w" "row_of w r" "ob_row x r w = (res, w')"
  shows "relay_inv w' \<and> relay_le w w'"
  using assms(3)
proof (cases rule: ob_row_cases)
  case (refused e v b)
  then show ?thesis using ob_publish_inv [OF assms(1,2)] ob_note_inv relay.order_trans by blast
next
  case (marked u v b)
  have v: "relay_inv v" "relay_le w v" "ob_record r \<in> set (rl_log v)" using ob_publish_inv [OF assms(1,2) marked(1)] by simp_all
  show ?thesis using ob_mark_inv [OF v(1) row_of_le [OF assms(2) v(2)] v(3) marked(2)] v(2) relay.order_trans by blast
next
  case (unmarked u v e z b)
  have v: "relay_inv v" "relay_le w v" "ob_record r \<in> set (rl_log v)" using ob_publish_inv [OF assms(1,2) unmarked(1)] by simp_all
  have z: "relay_inv z" "relay_le v z" using ob_mark_inv [OF v(1) row_of_le [OF assms(2) v(2)] v(3) unmarked(2)] by simp_all
  show ?thesis using ob_note_inv [OF z(1) unmarked(3)] z(2) v(2) relay.order_trans by blast
qed

subsection \<open>Several relays\<close>

text \<open>
  Every API and worker process runs a relay. Between two statements of one, the others and the
  producers of events run; a relay's program point is the list of rows it still has to treat.
\<close>

type_synonym relays = "relay_world \<times> (nat \<Rightarrow> outbox_row list)"

inductive relays_reach :: "relay_ext \<Rightarrow> nat \<Rightarrow> relays \<Rightarrow> bool" for x limit where
  start: "relays_reach x limit (\<lparr> rl_db = db_empty prices, rl_log = [], rl_ops = n \<rparr>, \<lambda>_. [])"
| insert: "relays_reach x limit (w, p) \<Longrightarrow> relays_reach x limit (w\<lparr> rl_db := enqueue_outbox e t (rl_db w) \<rparr>, p)"
| fetch: "relays_reach x limit (w, p) \<Longrightarrow> p i = [] \<Longrightarrow> ob_fetch x limit w = (Inr rs, w') \<Longrightarrow> relays_reach x limit (w', p(i := rs))"
| no_fetch: "relays_reach x limit (w, p) \<Longrightarrow> p i = [] \<Longrightarrow> ob_fetch x limit w = (Inl e, w') \<Longrightarrow> relays_reach x limit (w', p)"
| treat: "relays_reach x limit (w, p) \<Longrightarrow> p i = r # rs \<Longrightarrow> ob_row x r w = (Inr n, w') \<Longrightarrow> relays_reach x limit (w', p(i := rs))"
| give_up: "relays_reach x limit (w, p) \<Longrightarrow> p i = r # rs \<Longrightarrow> ob_row x r w = (Inl e, w') \<Longrightarrow> relays_reach x limit (w', p(i := []))"

definition relays_inv :: "relays \<Rightarrow> bool" where
  "relays_inv s \<longleftrightarrow> relay_inv (fst s) \<and> (\<forall>i. \<forall>r \<in> set (snd s i). row_of (fst s) r)"

lemma ob_fetch_run: "ob_fetch x limit w = (res, w') \<Longrightarrow> w' = rl_tick w \<and> (\<forall>rs. res = Inr rs \<longrightarrow> rs = take limit (ob_unpublished (rl_db w)))"
  by (auto simp: ob_fetch_def ob_stmt_def act_bind_def ask_def act_ret_def split: option.splits)

lemma enqueue_inv:
  assumes "relay_inv w"
  shows "relay_inv (w\<lparr> rl_db := enqueue_outbox e t (rl_db w) \<rparr>)" and "row_of w r \<Longrightarrow> row_of (w\<lparr> rl_db := enqueue_outbox e t (rl_db w) \<rparr>) r"
  using assms by (auto simp: enqueue_outbox_def relay_inv_def relay_ok_def logged_rows_def row_of_def list_ex_iff ob_record_def)

lemma relays_reach_inv: "relays_reach x limit s \<Longrightarrow> relays_inv s"
proof (induction rule: relays_reach.induct)
  case (start prices n)
  show ?case by (simp add: relays_inv_def relay_inv_def relay_ok_def logged_rows_def db_empty_def)
next
  case (insert w p e t)
  then show ?case using enqueue_inv [of w] by (simp add: relays_inv_def)
next
  case (fetch w p i rs w')
  have w': "w' = rl_tick w" "rs = take limit (ob_unpublished (rl_db w))" using ob_fetch_run [OF fetch(3)] by auto
  have "row_of w' r" if "r \<in> set rs" for r
    using set_take_subset [of limit "ob_unpublished (rl_db w)"] that unfolding w' by (auto simp: row_of_def ob_unpublished_def)
  moreover have "relay_inv w'" "\<And>r. row_of w' r = row_of w r"
    using fetch(4) by (simp_all add: w' relays_inv_def relay_inv_def relay_ok_def logged_rows_def row_of_def)
  ultimately show ?case using fetch(4) by (simp add: relays_inv_def)
next
  case (no_fetch w p i e w')
  then show ?case using ob_fetch_run [OF no_fetch(3)]
    by (simp add: relays_inv_def relay_inv_def relay_ok_def logged_rows_def row_of_def)
next
  case (treat w p i r rs n w')
  have w': "relay_inv w'" "relay_le w w'" using ob_row_inv [OF _ _ treat(3)] treat(2,4) by (auto simp: relays_inv_def) (metis list.set_intros(1))+
  have "row_of w' s" if "s \<in> set (p j)" for s j using row_of_le [OF _ w'(2)] treat(4) that by (simp add: relays_inv_def)
  then show ?case using w'(1) treat(2) by (simp add: relays_inv_def) (metis list.set_intros(2))
next
  case (give_up w p i r rs e w')
  have w': "relay_inv w'" "relay_le w w'" using ob_row_inv [OF _ _ give_up(3)] give_up(2,4) by (auto simp: relays_inv_def) (metis list.set_intros(1))+
  have "row_of w' s" if "s \<in> set (p j)" for s j using row_of_le [OF _ w'(2)] give_up(4) that by (simp add: relays_inv_def)
  then show ?case using w'(1) by (simp add: relays_inv_def)
qed

subsection \<open>A relay on a working broker and database\<close>

definition relay_works :: "relay_ext \<Rightarrow> bool" where
  "relay_works x \<longleftrightarrow> (\<forall>n r. rx_publish x n r = Stored) \<and> (\<forall>n. rx_stmt x n = None)"

lemma ob_row_works:
  assumes "relay_works x"
  shows "ob_row x r w = (Inr 1, w\<lparr> rl_db := ob_update (ob_event r) ob_mark (rl_db w), rl_log := rl_log w @ [ob_record r],
     rl_ops := Suc (Suc (rl_ops w)) \<rparr>)"
  using assms by (simp add: relay_works_def ob_row_def ob_publish_def send_record_def ob_stmt_def act_try_def act_bind_def act_ret_def rl_tick_def)

lemma unpublished_mark:
  "ob_unpublished (ob_update eid ob_mark d) = filter (\<lambda>r. ob_event r \<noteq> eid) (ob_unpublished d)"
proof -
  have "filter (\<lambda>r. \<not> ob_published r) (map (\<lambda>r. if ob_event r = eid then ob_mark r else r) rs)
      = filter (\<lambda>r. ob_event r \<noteq> eid) (filter (\<lambda>r. \<not> ob_published r) rs)" for rs
    by (induction rs) (auto simp: ob_mark_def)
  then show ?thesis by (simp add: ob_unpublished_def ob_update_def)
qed

lemma ob_rows_works:
  assumes "relay_works x"
  shows "\<exists>w'. ob_rows x rs w = (Inr (length rs), w') \<and> rl_log w' = rl_log w @ map ob_record rs
     \<and> ob_unpublished (rl_db w') = filter (\<lambda>r. ob_event r \<notin> ob_event ` set rs) (ob_unpublished (rl_db w))"
proof (induction rs arbitrary: w)
  case (Cons r rs)
  let ?v = "snd (ob_row x r w)"
  obtain w' where w': "ob_rows x rs ?v = (Inr (length rs), w')" "rl_log w' = rl_log ?v @ map ob_record rs"
    "ob_unpublished (rl_db w') = filter (\<lambda>r. ob_event r \<notin> ob_event ` set rs) (ob_unpublished (rl_db ?v))"
    using Cons by blast
  then show ?case
    by (simp add: ob_row_works [OF assms] act_bind_def act_ret_def unpublished_mark conj_commute)
qed (simp add: act_ret_def)

lemma filter_not_taken:
  "distinct (map ob_event rs) \<Longrightarrow> filter (\<lambda>r. ob_event r \<notin> ob_event ` set (take n rs)) rs = drop n rs"
proof (induction rs arbitrary: n)
  case (Cons r rs)
  show ?case
  proof (cases n)
    case (Suc m)
    have "filter (\<lambda>s. ob_event s \<notin> insert (ob_event r) (ob_event ` set (take m rs))) rs
        = filter (\<lambda>s. ob_event s \<notin> ob_event ` set (take m rs)) rs"
      using Cons.prems by (intro filter_cong) (auto simp: image_iff)
    then show ?thesis using Cons Suc by simp
  qed simp
qed simp

lemma ob_batch_works:
  assumes "relay_works x" and "distinct (map ob_event (ob_unpublished (rl_db w)))"
  shows "\<exists>w'. ob_publish_batch x limit w = (Inr (length (take limit (ob_unpublished (rl_db w)))), w')
     \<and> rl_log w' = rl_log w @ map ob_record (take limit (ob_unpublished (rl_db w)))
     \<and> ob_unpublished (rl_db w') = drop limit (ob_unpublished (rl_db w))"
proof -
  have "ob_fetch x limit w = (Inr (take limit (ob_unpublished (rl_db w))), rl_tick w)"
    using assms(1) by (simp add: ob_fetch_def ob_stmt_def relay_works_def act_bind_def ask_def act_ret_def)
  then show ?thesis
    using ob_rows_works [OF assms(1), of "take limit (ob_unpublished (rl_db w))" "rl_tick w"] filter_not_taken [OF assms(2), of limit]
    by (auto simp: ob_publish_batch_def act_bind_def)
qed

lemma ob_run_works:
  assumes "relay_works x"
  shows "distinct (map ob_event (ob_unpublished (rl_db w))) \<Longrightarrow> \<exists>w'. ob_run x limit n w = (Inr (), w')
     \<and> rl_log w' = rl_log w @ map ob_record (take (n * limit) (ob_unpublished (rl_db w)))
     \<and> ob_unpublished (rl_db w') = drop (n * limit) (ob_unpublished (rl_db w))"
proof (induction n arbitrary: w)
  case (Suc n)
  obtain v where v: "ob_publish_batch x limit w = (Inr (length (take limit (ob_unpublished (rl_db w)))), v)"
      "rl_log v = rl_log w @ map ob_record (take limit (ob_unpublished (rl_db w)))"
      "ob_unpublished (rl_db v) = drop limit (ob_unpublished (rl_db w))"
    using ob_batch_works [OF assms Suc.prems] by blast
  have "distinct (map ob_event (ob_unpublished (rl_db v)))"
    using Suc.prems by (simp add: v(3) drop_map [symmetric])
  from Suc.IH [OF this] obtain w' where "ob_run x limit n v = (Inr (), w')"
      "rl_log w' = rl_log v @ map ob_record (take (n * limit) (ob_unpublished (rl_db v)))"
      "ob_unpublished (rl_db w') = drop (n * limit) (ob_unpublished (rl_db v))" by blast
  then show ?case
    using v by (simp add: act_bind_def act_suppress_def act_try_def act_ret_def take_add add.commute map_append [symmetric]
        del: map_append)
qed (simp add: act_ret_def)

subsection \<open>Rows that cannot be published\<close>

lemma ob_row_refused:
  assumes "\<And>n. \<exists>e. rx_publish x n r = Not_stored e" "\<And>n. rx_stmt x n = None"
  shows "\<exists>w' e. ob_row x r w = (Inr 0, w') \<and> rl_log w' = rl_log w \<and> rl_db w' = ob_update (ob_event r) (ob_note e) (rl_db w)"
proof -
  obtain e where "rx_publish x (rl_ops w) r = Not_stored e" using assms(1) by blast
  then show ?thesis
    by (auto simp: ob_row_def ob_publish_def send_record_def ob_stmt_def assms(2) act_try_def act_bind_def act_ret_def)
qed

lemma unpublished_note: "map ob_event (ob_unpublished (ob_update eid (ob_note e) d)) = map ob_event (ob_unpublished d)"
proof -
  have "map ob_event (filter (\<lambda>r. \<not> ob_published r) (map (\<lambda>r. if ob_event r = eid then ob_note e r else r) rs))
      = map ob_event (filter (\<lambda>r. \<not> ob_published r) rs)" for rs
    by (induction rs) (auto simp: ob_note_def)
  then show ?thesis by (simp add: ob_unpublished_def ob_update_def)
qed

lemma ob_rows_refused:
  assumes "\<And>r n. r \<in> set rs \<Longrightarrow> \<exists>e. rx_publish x n r = Not_stored e" "\<And>n. rx_stmt x n = None"
  shows "\<exists>w'. ob_rows x rs w = (Inr 0, w') \<and> rl_log w' = rl_log w
     \<and> map ob_event (ob_unpublished (rl_db w')) = map ob_event (ob_unpublished (rl_db w))"
  using assms(1)
proof (induction rs arbitrary: w)
  case (Cons r rs)
  obtain v e where v: "ob_row x r w = (Inr 0, v)" "rl_log v = rl_log w" "rl_db v = ob_update (ob_event r) (ob_note e) (rl_db w)"
    using ob_row_refused [of x r w] Cons.prems assms(2) by auto
  obtain w' where "ob_rows x rs v = (Inr 0, w')" "rl_log w' = rl_log v"
    "map ob_event (ob_unpublished (rl_db w')) = map ob_event (ob_unpublished (rl_db v))"
    using Cons.IH [of v] Cons.prems by auto
  then show ?case using v by (simp add: act_bind_def act_ret_def unpublished_note)
qed (simp add: act_ret_def)

lemma ob_run_starved:
  assumes "\<And>r n. ob_event r \<in> bad \<Longrightarrow> \<exists>e. rx_publish x n r = Not_stored e" "\<And>n. rx_stmt x n = None"
  shows "set (take limit (map ob_event (ob_unpublished (rl_db w)))) \<subseteq> bad \<Longrightarrow>
     \<exists>w'. ob_run x limit n w = (Inr (), w') \<and> rl_log w' = rl_log w
       \<and> map ob_event (ob_unpublished (rl_db w')) = map ob_event (ob_unpublished (rl_db w))"
proof (induction n arbitrary: w)
  case (Suc n)
  let ?rs = "take limit (ob_unpublished (rl_db w))"
  have f: "ob_fetch x limit w = (Inr ?rs, rl_tick w)"
    by (simp add: ob_fetch_def ob_stmt_def assms(2) act_bind_def ask_def act_ret_def)
  have "ob_event r \<in> bad" if "r \<in> set ?rs" for r using Suc.prems that by (auto simp: take_map)
  then obtain v where v: "ob_rows x ?rs (rl_tick w) = (Inr 0, v)" "rl_log v = rl_log w"
    "map ob_event (ob_unpublished (rl_db v)) = map ob_event (ob_unpublished (rl_db w))"
    using ob_rows_refused [of ?rs x "rl_tick w"] assms by auto
  obtain w' where "ob_run x limit n v = (Inr (), w')" "rl_log w' = rl_log v"
    "map ob_event (ob_unpublished (rl_db w')) = map ob_event (ob_unpublished (rl_db v))"
    using Suc.IH [of v] Suc.prems v(3) by auto
  then show ?case using f v by (simp add: ob_publish_batch_def act_bind_def act_suppress_def act_try_def act_ret_def)
qed (simp add: act_ret_def)

subsection \<open>Properties\<close>

text \<open>C33: However many relays run, and wherever statements and publications fail: a row is marked published only
when its record is in Kafka, so no event is lost; and Kafka holds nothing but records of outbox rows.\<close>

theorem outbox_loses_nothing:
  assumes "relays_reach x limit (w, p)"
  shows "(\<forall>r \<in> set (db_outbox (rl_db w)). ob_published r \<longrightarrow> ob_record r \<in> set (rl_log w))
     \<and> set (rl_log w) \<subseteq> ob_record ` set (db_outbox (rl_db w))"
  using relays_reach_inv [OF assms] by (simp add: relays_inv_def relay_inv_def relay_ok_def logged_rows_image)

definition relay_ext_demo :: relay_ext where
  "relay_ext_demo = \<lparr> rx_publish = (\<lambda>_ _. Stored), rx_stmt = (\<lambda>_. None), rx_exn_str = (\<lambda>_. ''error'') \<rparr>"

lemma relay_ext_demo_works: "relay_works relay_ext_demo"
  by (simp add: relay_works_def relay_ext_demo_def)

definition outbox_event_demo :: pevent where
  "outbox_event_demo = \<lparr> pe_event_id = ''e1'', pe_call_id = ''c1'', pe_turn_id = ''session'', pe_event_type = CALL_ENDED,
     pe_stage = ''session'', pe_timestamp = 0, pe_seq = 1, pe_key = ''c1:ended'', pe_payload = [], pe_trace_id = None \<rparr>"

definition relay_world_demo :: relay_world where
  "relay_world_demo = \<lparr> rl_db = enqueue_outbox outbox_event_demo ''call-events'' (db_empty []), rl_log = [], rl_ops = 0 \<rparr>"

lemma relay_world_demo_reached: "relays_reach relay_ext_demo 100 (relay_world_demo, \<lambda>_. [])"
  using relays_reach.insert [OF relays_reach.start [of relay_ext_demo 100 "[]" 0], of outbox_event_demo "''call-events''"]
  by (simp add: relay_world_demo_def)

lemma outbox_loses_nothing_witness:
  "\<exists>w p. relays_reach relay_ext_demo 100 (w, p) \<and> (\<exists>r \<in> set (db_outbox (rl_db w)). ob_published r)
     \<and> ob_record (hd (db_outbox (rl_db w))) \<in> set (rl_log w)"
proof -
  let ?r = "hd (db_outbox (rl_db relay_world_demo))"
  obtain v where f: "ob_fetch relay_ext_demo 100 relay_world_demo = (Inr [?r], v)" "rl_db v = rl_db relay_world_demo"
    by (simp add: ob_fetch_def ob_stmt_def relay_ext_demo_def act_bind_def ask_def act_ret_def relay_world_demo_def
        ob_unpublished_def enqueue_outbox_def db_empty_def)
  obtain w where w: "ob_row relay_ext_demo ?r v = (Inr 1, w)" "db_outbox (rl_db w) = [ob_mark ?r]"
    by (simp add: ob_row_works [OF relay_ext_demo_works] f ob_update_def relay_world_demo_def enqueue_outbox_def db_empty_def)
  have "relays_reach relay_ext_demo 100 (w, (\<lambda>_. [])(0 := [?r], 0 := []))"
    using relays_reach.treat [OF relays_reach.fetch [OF relay_world_demo_reached _ f(1), of 0], of 0 ?r "[]" 1 w] w(1) by simp
  from this outbox_loses_nothing [OF this] show ?thesis
    using w(2) by (intro exI [of _ w] exI [of _ "(\<lambda>_. [])(0 := [?r], 0 := [])"]) (auto simp: ob_mark_def)
qed

text \<open>C34: On a working broker and database one relay publishes every row exactly once, in the order the rows were inserted,
and marks it: \<open>n\<close> polls are enough for \<open>n\<close> times the batch size.\<close>

theorem outbox_drains_in_order:
  assumes "relay_works x" and "distinct (map ob_event (ob_unpublished (rl_db w)))"
    and "length (ob_unpublished (rl_db w)) \<le> n * limit"
  shows "\<exists>w'. ob_run x limit n w = (Inr (), w') \<and> ob_unpublished (rl_db w') = []
     \<and> rl_log w' = rl_log w @ map ob_record (ob_unpublished (rl_db w))"
  using ob_run_works [OF assms(1,2), of limit n] assms(3) by auto

lemma outbox_drains_in_order_witness:
  "\<exists>w'. ob_run relay_ext_demo 100 1 relay_world_demo = (Inr (), w') \<and> ob_unpublished (rl_db w') = []
     \<and> rl_log w' = [(''call-events'', ''c1'', outbox_event_demo)]"
proof -
  have u: "map ob_event (ob_unpublished (rl_db relay_world_demo)) = [''e1'']"
    "map ob_record (ob_unpublished (rl_db relay_world_demo)) = [(''call-events'', ''c1'', outbox_event_demo)]"
    "rl_log relay_world_demo = []"
    by (simp_all add: relay_world_demo_def ob_unpublished_def enqueue_outbox_def db_empty_def ob_record_def outbox_event_demo_def)
  then have "length (ob_unpublished (rl_db relay_world_demo)) = 1" by (metis length_map list.size(3,4) One_nat_def add.commute plus_1_eq_Suc)
  then show ?thesis
    using outbox_drains_in_order [OF relay_ext_demo_works, of relay_world_demo 1 100] u by simp
qed

text \<open>Rows that cannot be published block the outbox. As soon as the oldest unpublished rows are \<open>limit\<close> rows the
broker refuses, every batch consists of them: no other row is published any more, by any number of polls.\<close>

theorem refused_rows_block_outbox:
  assumes "\<forall>r n. ob_event r \<in> bad \<longrightarrow> (\<exists>e. rx_publish x n r = Not_stored e)" and "\<forall>n. rx_stmt x n = None"
    and "set (take limit (map ob_event (ob_unpublished (rl_db w)))) \<subseteq> bad"
  shows "\<exists>w'. ob_run x limit n w = (Inr (), w') \<and> rl_log w' = rl_log w
     \<and> map ob_event (ob_unpublished (rl_db w')) = map ob_event (ob_unpublished (rl_db w))"
  by (rule ob_run_starved [OF _ _ assms(3)]) (use assms(1,2) in auto)

lemma refused_rows_block_outbox_witness:
  "\<exists>w'. ob_run (relay_ext_demo\<lparr> rx_publish := \<lambda>_ r. if ob_event r = ''e1'' then Not_stored (ValueError ''too large'') else Stored \<rparr>)
      1 50 (relay_world_demo\<lparr> rl_db := enqueue_outbox (outbox_event_demo\<lparr> pe_event_id := ''e2'' \<rparr>) ''call-events'' (rl_db relay_world_demo) \<rparr>)
      = (Inr (), w') \<and> rl_log w' = [] \<and> map ob_event (ob_unpublished (rl_db w')) = [''e1'', ''e2'']"
proof -
  let ?x = "relay_ext_demo\<lparr> rx_publish := \<lambda>_ r. if ob_event r = ''e1'' then Not_stored (ValueError ''too large'') else Stored \<rparr>"
  let ?w = "relay_world_demo\<lparr> rl_db := enqueue_outbox (outbox_event_demo\<lparr> pe_event_id := ''e2'' \<rparr>) ''call-events'' (rl_db relay_world_demo) \<rparr>"
  have u: "map ob_event (ob_unpublished (rl_db ?w)) = [''e1'', ''e2'']" and l: "rl_log ?w = []"
    by (simp_all add: relay_world_demo_def ob_unpublished_def enqueue_outbox_def db_empty_def outbox_event_demo_def)
  have "\<forall>r n. ob_event r \<in> {''e1''} \<longrightarrow> (\<exists>e. rx_publish ?x n r = Not_stored e)" "\<forall>n. rx_stmt ?x n = None"
    by (auto simp: relay_ext_demo_def)
  moreover have "set (take 1 (map ob_event (ob_unpublished (rl_db ?w)))) \<subseteq> {''e1''}" unfolding u by simp
  ultimately show ?thesis using refused_rows_block_outbox [of "{''e1''}" ?x 1 ?w 50] u l by simp
qed

text \<open>Two relays publish a row twice without any failure. \<open>FOR UPDATE SKIP LOCKED\<close> holds no lock after the
\<open>SELECT\<close>, because the connection is in no transaction; a second relay that polls before the first one has marked its
rows fetches and publishes them again.\<close>

theorem two_relays_publish_twice:
  assumes "relay_works x" and "0 < limit"
  shows "\<exists>w p. relays_reach x limit (w, p) \<and> db_outbox (rl_db w) \<noteq> []
     \<and> rl_log w = map ob_record (db_outbox (rl_db w)) @ map ob_record (db_outbox (rl_db w))"
proof -
  let ?w = "\<lparr> rl_db = enqueue_outbox outbox_event_demo ''call-events'' (db_empty []), rl_log = [], rl_ops = 0 \<rparr>"
  let ?r = "hd (db_outbox (rl_db ?w))"
  have rows: "ob_unpublished (rl_db ?w) = [?r]" "db_outbox (rl_db ?w) = [?r]"
    by (simp_all add: ob_unpublished_def enqueue_outbox_def db_empty_def)
  have taken: "take limit (ob_unpublished (rl_db ?w)) = [?r]" unfolding rows(1) using assms(2) by (cases limit) simp_all
  have fetch: "ob_fetch x limit v = (Inr [?r], rl_tick v)" if "rl_db v = rl_db ?w" for v
    using assms(1) taken unfolding that [symmetric] by (simp add: ob_fetch_def ob_stmt_def relay_works_def act_bind_def ask_def act_ret_def)
  have "relays_reach x limit (?w, \<lambda>_. [])"
    using relays_reach.insert [OF relays_reach.start [of x limit "[]" 0], of outbox_event_demo "''call-events''"] by simp
  then have "relays_reach x limit (rl_tick ?w, (\<lambda>_. [])(0 := [?r]))"
    by (rule relays_reach.fetch) (simp_all add: fetch)
  then have "relays_reach x limit (rl_tick (rl_tick ?w), (\<lambda>_. [])(0 := [?r], 1 := [?r]))"
    by (rule relays_reach.fetch) (simp_all add: fetch)
  from relays_reach.treat [OF this _ ob_row_works [OF assms(1)], of 0 ?r "[]"]
  have first: "relays_reach x limit ((rl_tick (rl_tick ?w))\<lparr> rl_db := ob_update (ob_event ?r) ob_mark (rl_db (rl_tick (rl_tick ?w))),
      rl_log := rl_log (rl_tick (rl_tick ?w)) @ [ob_record ?r], rl_ops := Suc (Suc (rl_ops (rl_tick (rl_tick ?w)))) \<rparr>,
      (\<lambda>_. [])(0 := [?r], 1 := [?r], 0 := []))" (is "relays_reach x limit (?v, ?p)") by simp
  from relays_reach.treat [OF first _ ob_row_works [OF assms(1)], of 1 ?r "[]"]
  have second: "relays_reach x limit (?v\<lparr> rl_db := ob_update (ob_event ?r) ob_mark (rl_db ?v),
      rl_log := rl_log ?v @ [ob_record ?r], rl_ops := Suc (Suc (rl_ops ?v)) \<rparr>, ?p(1 := []))" (is "relays_reach x limit (?u, _)") by simp
  have "map ob_record (db_outbox (rl_db ?u)) = [ob_record ?r]" "db_outbox (rl_db ?u) \<noteq> []" "rl_log ?u = [ob_record ?r, ob_record ?r]"
    by (simp_all add: ob_update_def enqueue_outbox_def db_empty_def ob_mark_def ob_record_def)
  then show ?thesis using second by fastforce
qed

lemma two_relays_publish_twice_witness:
  "\<exists>w p. relays_reach relay_ext_demo 100 (w, p) \<and> rl_log w \<noteq> []
     \<and> rl_log w = map ob_record (db_outbox (rl_db w)) @ map ob_record (db_outbox (rl_db w))"
  using two_relays_publish_twice [OF relay_ext_demo_works, of 100] by fastforce

end
