(* ===== verification/Temporal_Client.thy ===== *)
theory Temporal_Client
  imports Store Effects
begin

text \<open>
  The client of the workflow service (\<open>apps/api/temporal_client.py\<close>, class
  \<open>TemporalLifecycleClient\<close>): how the API and the event worker start and signal workflows.

  The service is an argument: what it answers to the \<open>n\<close>-th request. The requests that were sent are
  kept with their answers in \<open>tc_log\<close>, whether or not the answer arrived. A workflow handle is its
  workflow id. \<open>inject_trace_context\<close> of \<open>apps/api/telemetry/tracing.py\<close> adds the carrier the
  tracing library fills, an argument too. Metrics are not modelled.
\<close>

datatype start_reply = Started | Already_started | Start_error exn

datatype request =
    Start_workflow string dict string string
  | Send_signal string string dict

datatype reply = Start_reply start_reply | Signal_reply "exn option"

record tc =
  tc_connected :: bool
  tc_handles :: "string \<Rightarrow> string option"
  tc_log :: "(request \<times> reply) list"

record tc_ext =
  tx_start :: "nat \<Rightarrow> start_reply"
  tx_signal :: "nat \<Rightarrow> exn option"
  tx_carrier :: "nat \<Rightarrow> dict"
  tx_queue :: string
  tx_rep :: "pyv \<Rightarrow> string"
  tx_health :: bool

type_synonym 'a client = "(tc, 'a) act"

definition tc_new :: tc where
  "tc_new = \<lparr> tc_connected = False, tc_handles = Map.empty, tc_log = [] \<rparr>"

definition tc_connect :: "unit client" where
  "tc_connect = upd (\<lambda>s. s\<lparr> tc_connected := True \<rparr>)"

text \<open>\<open>inject_trace_context\<close>\<close>

definition inject_trace :: "dict \<Rightarrow> dict \<Rightarrow> dict" where
  "inject_trace carrier payload = (if carrier = [] then payload else dict_merge payload [(''_trace'', PDict carrier)])"

definition traced :: "tc_ext \<Rightarrow> dict \<Rightarrow> tc \<Rightarrow> dict" where
  "traced x payload s = inject_trace (tx_carrier x (length (tc_log s))) payload"

text \<open>\<open>client.start_workflow\<close> and \<open>handle.signal\<close>\<close>

definition tc_start :: "tc_ext \<Rightarrow> string \<Rightarrow> dict \<Rightarrow> string \<Rightarrow> start_reply client" where
  "tc_start x kind input wid s =
     (let r = tx_start x (length (tc_log s));
          s1 = s\<lparr> tc_log := tc_log s @ [(Start_workflow kind input wid (tx_queue x), Start_reply r)] \<rparr>
      in case r of Start_error e \<Rightarrow> (Inl e, s1) | _ \<Rightarrow> (Inr r, s1))"

definition tc_send :: "tc_ext \<Rightarrow> string \<Rightarrow> string \<Rightarrow> dict \<Rightarrow> unit client" where
  "tc_send x wid name event s =
     (let r = tx_signal x (length (tc_log s));
          s1 = s\<lparr> tc_log := tc_log s @ [(Send_signal wid name (traced x event s), Signal_reply r)] \<rparr>
      in case r of Some e \<Rightarrow> (Inl e, s1) | None \<Rightarrow> (Inr (), s1))"

definition tc_require :: "'a client \<Rightarrow> 'a client" where
  "tc_require m = ask (\<lambda>s. if tc_connected s then m else act_raise (RuntimeError ''Temporal client not connected''))"

text \<open>A signal is skipped with a warning when the client is not connected.\<close>

definition tc_if_connected :: "unit client \<Rightarrow> unit client" where
  "tc_if_connected m = ask (\<lambda>s. if tc_connected s then m else act_ret ())"

subsection \<open>Calls\<close>

definition call_workflow_id :: "string \<Rightarrow> string" where
  "call_workflow_id call = ''call-'' @ call"

definition tc_call_signal :: "tc_ext \<Rightarrow> string \<Rightarrow> string \<Rightarrow> dict \<Rightarrow> unit client" where
  "tc_call_signal x call name event =
     tc_if_connected (ask (\<lambda>s.
       let handle = (case tc_handles s call of Some h \<Rightarrow> h | None \<Rightarrow> call_workflow_id call) in
       act_bind (upd (\<lambda>s. s\<lparr> tc_handles := (tc_handles s)(call \<mapsto> handle) \<rparr>)) (\<lambda>_. tc_send x handle name event)))"

definition tc_start_call :: "tc_ext \<Rightarrow> string \<Rightarrow> unit client" where
  "tc_start_call x call =
     tc_require
       (act_bind (tc_start x ''CallWorkflow'' [(''call_id'', PStr call), (''timeout_seconds'', PInt 3600)] (call_workflow_id call)) (\<lambda>_.
        act_bind (upd (\<lambda>s. s\<lparr> tc_handles := (tc_handles s)(call \<mapsto> call_workflow_id call) \<rparr>)) (\<lambda>_.
          tc_call_signal x call ''call_started'' [(''call_id'', PStr call)])))"

subsection \<open>The durable workflows\<close>

text \<open>The common part of the four \<open>start_*\<close> methods: a workflow that runs already is left alone.\<close>

definition tc_start_once :: "tc_ext \<Rightarrow> string \<Rightarrow> dict \<Rightarrow> string \<Rightarrow> string client" where
  "tc_start_once x kind input wid =
     ask (\<lambda>s. act_bind (tc_start x kind (traced x input s) wid) (\<lambda>_. act_ret wid))"

definition field_str :: "tc_ext \<Rightarrow> dict \<Rightarrow> string \<Rightarrow> string res" where
  "field_str x d k = bindE (dict_item d k) (\<lambda>v. Inr (py_str (tx_rep x) v))"

definition action_workflow_id :: "string \<Rightarrow> string" where
  "action_workflow_id invocation = ''tool-'' @ invocation"

definition tc_start_durable_action :: "tc_ext \<Rightarrow> dict \<Rightarrow> string client" where
  "tc_start_durable_action x input =
     tc_require
       (act_bind (act_lift (field_str x input ''tool_invocation_id'')) (\<lambda>i.
          tc_start_once x ''DurableActionWorkflow'' input (action_workflow_id i)))"

definition tc_signal_durable_action :: "tc_ext \<Rightarrow> string \<Rightarrow> string \<Rightarrow> dict \<Rightarrow> unit client" where
  "tc_signal_durable_action x invocation name event =
     tc_if_connected (tc_send x (action_workflow_id invocation) name event)"

definition billing_workflow_id :: "string \<Rightarrow> string" where
  "billing_workflow_id call = ''billing-'' @ call"

definition tc_start_billing :: "tc_ext \<Rightarrow> string \<Rightarrow> dict \<Rightarrow> string client" where
  "tc_start_billing x call input =
     tc_require (tc_start_once x ''BillingFinalizationWorkflow'' input (billing_workflow_id call))"

definition tc_signal_billing :: "tc_ext \<Rightarrow> string \<Rightarrow> string \<Rightarrow> dict \<Rightarrow> unit client" where
  "tc_signal_billing x call name event = tc_if_connected (tc_send x (billing_workflow_id call) name event)"

definition tc_start_adjustment :: "tc_ext \<Rightarrow> dict \<Rightarrow> string client" where
  "tc_start_adjustment x input =
     tc_require
       (act_bind (act_lift (field_str x input ''call_id'')) (\<lambda>call.
        act_bind (act_lift (field_str x input ''source_event_id'')) (\<lambda>source.
          tc_start_once x ''BillingAdjustmentWorkflow'' input (''billing-adjustment-'' @ call @ ''-'' @ source))))"

definition tc_start_webhook :: "tc_ext \<Rightarrow> dict \<Rightarrow> string client" where
  "tc_start_webhook x input =
     tc_require
       (act_bind (act_lift (field_str x input ''webhook_delivery_id'')) (\<lambda>d.
          tc_start_once x ''WebhookDeliveryWorkflow'' input (''webhook-'' @ d)))"

definition tc_healthy :: "tc_ext \<Rightarrow> tc \<Rightarrow> bool" where
  "tc_healthy x s \<longleftrightarrow> tc_connected s \<and> tx_health x"

subsection \<open>What a client operation does\<close>

text \<open>The log only grows, and the connection stays.\<close>

definition client_le :: "tc \<Rightarrow> tc \<Rightarrow> bool" where
  "client_le s t \<longleftrightarrow> tc_connected t = tc_connected s \<and> (\<exists>new. tc_log t = tc_log s @ new)"

interpretation client: effect_order client_le
  by unfold_locales (auto simp: client_le_def)

lemma client_le_start: "keeps client_le (tc_start x kind input wid)"
  by (rule keepsI) (auto simp: tc_start_def client_le_def Let_def split: start_reply.splits)

lemma client_le_send: "keeps client_le (tc_send x wid name ev)"
  by (rule keepsI) (auto simp: tc_send_def client_le_def Let_def split: option.splits)

lemma client_le_handles: "keeps client_le (upd (\<lambda>s. s\<lparr> tc_handles := f s \<rparr>))"
  by (rule client.keeps_upd) (simp add: client_le_def)

lemmas client_keeps = client_le_start client_le_send client_le_handles client.keeps_ret client.keeps_raise client.keeps_lift
  client.keeps_bind client.keeps_ask

text \<open>A workflow was asked for with this input (and some trace), and the answer says that it runs.\<close>

definition runs :: "string \<Rightarrow> dict \<Rightarrow> string \<Rightarrow> tc \<Rightarrow> bool" where
  "runs kind input wid s \<longleftrightarrow>
     (\<exists>carrier q r. (Start_workflow kind (inject_trace carrier input) wid q, Start_reply r) \<in> set (tc_log s)
        \<and> (r = Started \<or> r = Already_started))"

text \<open>A workflow was asked for, whatever the answer.\<close>

definition requested :: "string \<Rightarrow> string \<Rightarrow> tc \<Rightarrow> bool" where
  "requested kind wid s \<longleftrightarrow>
     list_ex (\<lambda>e. case e of (Start_workflow k input w q, r) \<Rightarrow> k = kind \<and> w = wid | _ \<Rightarrow> False) (tc_log s)"

lemma runs_mono: "client_le s t \<Longrightarrow> runs kind input wid s \<Longrightarrow> runs kind input wid t"
  unfolding client_le_def runs_def by fastforce

lemma start_once_ok:
  assumes "tc_start_once x kind input wid s = (Inr r, t)"
  shows "r = wid \<and> runs kind input wid t"
proof -
  let ?n = "length (tc_log s)"
  have "r = wid" and log: "tc_log t = tc_log s @ [(Start_workflow kind (inject_trace (tx_carrier x ?n) input) wid (tx_queue x),
      Start_reply (tx_start x ?n))]" and ok: "tx_start x ?n = Started \<or> tx_start x ?n = Already_started"
    using assms
    by (auto simp: tc_start_once_def tc_start_def traced_def act_bind_def ask_def act_ret_def Let_def split: start_reply.splits)
  then have "(Start_workflow kind (inject_trace (tx_carrier x ?n) input) wid (tx_queue x), Start_reply (tx_start x ?n)) \<in> set (tc_log t)"
    by simp
  then show ?thesis using \<open>r = wid\<close> ok unfolding runs_def by blast
qed

lemma start_billing_ok:
  assumes "tc_start_billing x call input s = (Inr r, t)"
  shows "r = billing_workflow_id call \<and> runs ''BillingFinalizationWorkflow'' input (billing_workflow_id call) t"
  using assms start_once_ok [of x "''BillingFinalizationWorkflow''" input "billing_workflow_id call" s r t]
  by (auto simp: tc_start_billing_def tc_require_def ask_def act_raise_def split: if_splits)

lemma keeps_start_billing: "keeps client_le (tc_start_billing x call input)"
  unfolding tc_start_billing_def tc_require_def tc_start_once_def
  by (rule client.keeps_ask) (simp add: client_keeps)

lemma keeps_signal_billing: "keeps client_le (tc_signal_billing x call name ev)"
  unfolding tc_signal_billing_def tc_if_connected_def
  by (rule client.keeps_ask) (simp add: client_keeps)

lemma keeps_start_adjustment: "keeps client_le (tc_start_adjustment x input)"
  unfolding tc_start_adjustment_def tc_require_def tc_start_once_def
  by (rule client.keeps_ask) (simp add: client_keeps)

end
