(* ===== verification/Event_Worker.thy ===== *)
theory Event_Worker
  imports Outbox Temporal_Client Projector Config Tools
begin

text \<open>
  The event worker (\<open>apps/worker/event_worker.py\<close>): the consumer of the event topics hands its
  batches to \<open>handle_batch\<close>, which projects them in one transaction, starts and signals the billing
  workflows, and publishes a notice for every duplicate. When an exception ends the consumer a new one
  is started, which reads on from the committed offsets.

  Arguments: the faults of the database, the workflow service and the broker; the order in which a set
  is iterated; fresh event ids and the clock.
\<close>

definition CONSUMER_GROUP :: string where
  "CONSUMER_GROUP = ''voicemesh-postgres-projector-v1''"

definition WORKER_TOPICS :: "string list" where
  "WORKER_TOPICS = [''call-events'', ''pipeline-events'', ''provider-events'', ''usage-events'', ''billing-events'']"

record ew =
  ew_db :: db
  ew_tc :: tc
  ew_log :: "broker_record list"
  ew_batches :: nat
  ew_sends :: nat

record ew_ext =
  wx_env :: env
  wx_injected :: bool
  wx_fault :: "nat \<Rightarrow> nat \<Rightarrow> exn option"
  wx_tc :: tc_ext
  wx_publish :: "nat \<Rightarrow> pevent \<Rightarrow> publication"
  wx_order :: "string set \<Rightarrow> string list"
  wx_uuid :: "nat \<Rightarrow> string"
  wx_now :: "nat \<Rightarrow> rat"
  wx_billing :: billing_settings

type_synonym 'a worker = "(ew, 'a) act"

definition on_tc :: "'a client \<Rightarrow> 'a worker" where
  "on_tc m w = (case m (ew_tc w) of (r, s) \<Rightarrow> (r, w\<lparr> ew_tc := s \<rparr>))"

text \<open>\<open>projector.project_batch\<close>; \<open>None\<close> is the write that was given up.\<close>

definition ew_project :: "ew_ext \<Rightarrow> consumed list \<Rightarrow> batch_result option worker" where
  "ew_project x cs w =
     (let w1 = w\<lparr> ew_batches := Suc (ew_batches w) \<rparr> in
      case pj_project_batch (wx_injected x) (wx_fault x (ew_batches w)) (wx_env x) CONSUMER_GROUP cs (ew_db w) of
        Inl e \<Rightarrow> (Inl e, w1)
      | Inr (r, d) \<Rightarrow> (Inr r, w1\<lparr> ew_db := d \<rparr>))"

definition ew_publish :: "ew_ext \<Rightarrow> pevent \<Rightarrow> unit worker" where
  "ew_publish x e w =
     (let (res, sent) = send_record (wx_publish x (ew_sends w) e) (event_record e) (ew_log w)
      in (res, w\<lparr> ew_sends := Suc (ew_sends w), ew_log := sent \<rparr>))"

text \<open>The settings' comma-separated list\<close>

definition ew_required_usage_types :: "billing_settings \<Rightarrow> string list" where
  "ew_required_usage_types b =
     map str_strip (filter (\<lambda>s. str_strip s \<noteq> []) (split_on (CHR '','') (cb_required_usage_types b)))"

definition ew_tenant :: "pevent \<Rightarrow> pyv" where
  "ew_tenant e = dict_get_or (pe_payload e) ''tenant_id'' (PStr ''local-demo-tenant'')"

definition ew_assistant :: "pevent \<Rightarrow> pyv" where
  "ew_assistant e = dict_get_or (pe_payload e) ''assistant_id'' (PStr ''local-demo-assistant'')"

definition ew_billing_input :: "billing_settings \<Rightarrow> pevent \<Rightarrow> dict" where
  "ew_billing_input b e =
     [(''tenant_id'', ew_tenant e), (''assistant_id'', ew_assistant e), (''call_id'', PStr (pe_call_id e)),
      (''required_usage_types'', PList (map PStr (ew_required_usage_types b))),
      (''wait_timeout_seconds'', PInt (cb_usage_wait_seconds b)), (''settle_seconds'', PInt (cb_usage_settle_seconds b)),
      (''missing_usage_policy'', PStr (cb_missing_usage_policy b)), (''pricing_version'', PStr (cb_pricing_version b)),
      (''call_ended'', PBool True), (''consumer_group'', PStr CONSUMER_GROUP), (''trace_id'', opt_str (pe_trace_id e))]"

definition ew_ended :: "ew_ext \<Rightarrow> pevent \<Rightarrow> unit worker" where
  "ew_ended x e =
     act_bind (on_tc (tc_start_billing (wx_tc x) (pe_call_id e) (ew_billing_input (wx_billing x) e))) (\<lambda>_.
       on_tc (tc_signal_billing (wx_tc x) (pe_call_id e) ''CallEnded''
         [(''call_id'', PStr (pe_call_id e)), (''trace_id'', opt_str (pe_trace_id e))]))"

text \<open>\<open>trace_by_call\<close>: the last event of a call with a trace.\<close>

definition ew_traces :: "pevent list \<Rightarrow> string \<Rightarrow> string option" where
  "ew_traces es =
     foldl (\<lambda>m e. case pe_trace_id e of Some t \<Rightarrow> if t = [] then m else m(pe_call_id e \<mapsto> t) | None \<Rightarrow> m) Map.empty es"

definition ew_signal_usage :: "ew_ext \<Rightarrow> string \<Rightarrow> string option \<Rightarrow> unit worker" where
  "ew_signal_usage x call trace =
     act_suppress (on_tc (tc_signal_billing (wx_tc x) call ''UsageProjectionUpdated''
       [(''call_id'', PStr call), (''trace_id'', opt_str trace)]))"

definition ew_late :: "ew_ext \<Rightarrow> pevent \<Rightarrow> unit worker" where
  "ew_late x e =
     act_bind (on_tc (tc_start_adjustment (wx_tc x)
       [(''tenant_id'', ew_tenant e), (''assistant_id'', ew_assistant e), (''call_id'', PStr (pe_call_id e)),
        (''source_event_id'', PStr (pe_event_id e)), (''reason'', PStr ''late_usage_after_finalization''),
        (''trace_id'', opt_str (pe_trace_id e))])) (\<lambda>_. act_ret ())"

definition ew_duplicate_event :: "ew_ext \<Rightarrow> nat \<Rightarrow> pevent \<Rightarrow> pevent res" where
  "ew_duplicate_event x n e =
     pe_create (wx_uuid x n) (wx_now x n) (pe_call_id e) (pe_turn_id e) DUPLICATE_EVENT_IGNORED ''idempotency'' (pe_seq e)
       (Some [(''duplicate_event_id'', PStr (pe_event_id e)), (''duplicate_idempotency_key'', PStr (pe_key e))])
       (pe_trace_id e) (Some (''duplicate:'' @ pe_event_id e))"

definition ew_notice :: "ew_ext \<Rightarrow> pevent \<Rightarrow> unit worker" where
  "ew_notice x e =
     (if pe_event_type e = DUPLICATE_EVENT_IGNORED then act_ret ()
      else ask (\<lambda>w. act_bind (act_lift (ew_duplicate_event x (ew_sends w) e)) (\<lambda>d. ew_publish x d)))"

definition ew_follow_up :: "ew_ext \<Rightarrow> batch_result \<Rightarrow> unit worker" where
  "ew_follow_up x r =
     act_bind (act_for (br_ended r) (ew_ended x)) (\<lambda>_.
     act_bind (act_for (wx_order x (br_usage_calls r)) (\<lambda>c. ew_signal_usage x c (ew_traces (br_inserted r) c))) (\<lambda>_.
     act_bind (act_for (br_late_events r) (ew_late x)) (\<lambda>_.
       act_for (br_duplicates r) (ew_notice x))))"

definition ew_handle_batch :: "ew_ext \<Rightarrow> consumed list \<Rightarrow> unit worker" where
  "ew_handle_batch x cs =
     act_bind (ew_project x cs) (\<lambda>r.
       case r of
         None \<Rightarrow> act_raise (RuntimeError ''Postgres batch projection failed'')
       | Some result \<Rightarrow> ew_follow_up x result)"

text \<open>The handler the consumer calls, and the loop that restarts the consumer.\<close>

definition ew_handler :: "ew_ext \<Rightarrow> consumed list \<Rightarrow> ew \<Rightarrow> ew \<times> exn option" where
  "ew_handler x cs w = (case ew_handle_batch x cs w of (Inl e, w1) \<Rightarrow> (w1, Some e) | (Inr _, w1) \<Rightarrow> (w1, None))"

type_synonym turns = "((int \<Rightarrow> int \<Rightarrow> records) \<times> rat \<times> rat \<times> rat) list"

text \<open>
  Each element of \<open>lives\<close> is what one consumer sees before it ends: the time it starts and its turns.
  The result is the committed offsets, the world, the batches that were accepted and all events that
  were fetched.
\<close>

fun ew_lives ::
  "ew_ext \<Rightarrow> (string \<Rightarrow> pevent res) \<Rightarrow> (rat \<times> turns) list \<Rightarrow> (tp \<Rightarrow> int option) \<Rightarrow> ew \<Rightarrow> (tp \<Rightarrow> int option) \<times> ew \<times> consumed list list \<times> consumed list" where
  "ew_lives x decode [] m w = (m, w, [], [])"
| "ew_lives x decode ((now, turns) # lives) m w =
     (let (k, r) = kc_run decode (ew_handler x) turns
            (kc_new (cb_kafka_consumer_batch_size (wx_billing x)) (of_int (cb_kafka_consumer_batch_timeout_ms (wx_billing x))) now m w);
          (m', w', bs, fs) = ew_lives x decode lives (kc_committed k) (kc_world k)
      in (m', w', kc_handled k @ bs, kc_fetched k @ fs))"

subsection \<open>The batches that took effect\<close>

context dedup_store
begin

text \<open>The flags of a stream mark its first occurrences.\<close>

lemma run_accepts: "dedup_run exec es s = Inr (bs, s') \<Longrightarrow> map fst (filter snd (zip es bs)) = first_by_key key (seen s) es"
proof (induction es arbitrary: s bs)
  case (Cons e es)
  obtain b s1 bs1 where e: "exec e s = Inr (b, s1)" and r: "dedup_run exec es s1 = Inr (bs1, s')" and bs: "bs = b # bs1"
    using Cons.prems by (auto simp: bindE_eq_Inr)
  show ?case using Cons.IH [OF r] exec_seen [OF e] by (auto simp: bs insert_absorb)
qed simp

end

text \<open>Nothing after the projection touches the tables.\<close>

definition same_db :: "ew \<Rightarrow> ew \<Rightarrow> bool" where
  "same_db v w \<longleftrightarrow> ew_db w = ew_db v \<and> client_le (ew_tc v) (ew_tc w)"

interpretation worker: effect_order same_db
  by unfold_locales (auto simp: same_db_def client.order_refl intro: client.order_trans)

lemma same_db_on_tc: "keeps client_le m \<Longrightarrow> keeps same_db (on_tc m)"
  by (rule keepsI) (auto simp: on_tc_def same_db_def split: prod.split dest: keepsD)

lemma same_db_publish: "keeps same_db (ew_publish x e)"
  by (rule keepsI) (auto simp: ew_publish_def same_db_def Let_def client.order_refl split: prod.split)

lemmas worker_keeps = same_db_on_tc same_db_publish keeps_start_billing keeps_signal_billing keeps_start_adjustment
  worker.keeps_ret worker.keeps_raise worker.keeps_lift worker.keeps_bind worker.keeps_ask worker.keeps_suppress worker.keeps_for

lemma ew_ended_keeps: "keeps same_db (ew_ended x e)"
  unfolding ew_ended_def by (simp add: worker_keeps)

lemma ew_signal_keeps: "keeps same_db (ew_signal_usage x c t)"
  unfolding ew_signal_usage_def by (simp add: worker_keeps)

lemma ew_late_keeps: "keeps same_db (ew_late x e)"
  unfolding ew_late_def by (simp add: worker_keeps)

lemma ew_notice_keeps: "keeps same_db (ew_notice x e)"
  unfolding ew_notice_def by (simp add: worker_keeps)

lemma ew_follow_up_keeps: "keeps same_db (ew_follow_up x r)"
  unfolding ew_follow_up_def by (simp add: worker_keeps ew_ended_keeps ew_signal_keeps ew_late_keeps ew_notice_keeps)

lemma ew_project_cases:
  assumes "ew_project x cs w = (res, w1)"
  shows "(\<exists>e. res = Inl e \<and> w1 = w\<lparr> ew_batches := Suc (ew_batches w) \<rparr>)
     \<or> (\<exists>r d. res = Inr (Some r) \<and> pj_batch_op (wx_env x) CONSUMER_GROUP cs (ew_db w) = Inr (r, d)
              \<and> w1 = w\<lparr> ew_batches := Suc (ew_batches w), ew_db := d \<rparr>)"
  using assms
  by (auto simp: ew_project_def pj_project_batch_def Let_def split: sum.splits prod.splits dest!: pg_retry_outcome)

lemma handle_batch_cases:
  assumes "ew_handle_batch x cs w = (res, w')"
  shows "(\<exists>e. res = Inl e \<and> w' = w\<lparr> ew_batches := Suc (ew_batches w) \<rparr>)
     \<or> (\<exists>r d. pj_batch_op (wx_env x) CONSUMER_GROUP cs (ew_db w) = Inr (r, d) \<and> ew_db w' = d
          \<and> ew_follow_up x r (w\<lparr> ew_batches := Suc (ew_batches w), ew_db := d \<rparr>) = (res, w'))"
proof -
  obtain pr w1 where p: "ew_project x cs w = (pr, w1)" by (metis surj_pair)
  from ew_project_cases [OF p] show ?thesis
  proof
    assume "\<exists>e. pr = Inl e \<and> w1 = w\<lparr> ew_batches := Suc (ew_batches w) \<rparr>"
    then show ?thesis using assms p by (auto simp: ew_handle_batch_def act_bind_def)
  next
    assume "\<exists>r d. pr = Inr (Some r) \<and> pj_batch_op (wx_env x) CONSUMER_GROUP cs (ew_db w) = Inr (r, d)
              \<and> w1 = w\<lparr> ew_batches := Suc (ew_batches w), ew_db := d \<rparr>"
    then obtain r d where r: "pr = Inr (Some r)" "pj_batch_op (wx_env x) CONSUMER_GROUP cs (ew_db w) = Inr (r, d)"
      and w1: "w1 = w\<lparr> ew_batches := Suc (ew_batches w), ew_db := d \<rparr>" by blast
    have f: "ew_follow_up x r w1 = (res, w')" using assms p r by (simp add: ew_handle_batch_def act_bind_def)
    have "ew_db w' = d" using keepsD [OF ew_follow_up_keeps f] w1 by (simp add: same_db_def)
    then show ?thesis using r(2) f w1 by blast
  qed
qed

lemma handler_cases:
  assumes "ew_handler x cs w = (w', r)"
  shows "(r \<noteq> None \<and> ew_db w' = ew_db w) \<or> (\<exists>br. pj_batch_op (wx_env x) CONSUMER_GROUP cs (ew_db w) = Inr (br, ew_db w'))"
proof -
  obtain res w1 where h: "ew_handle_batch x cs w = (res, w1)" by (metis surj_pair)
  then have "w' = w1" "r = None \<longleftrightarrow> (\<exists>u. res = Inr u)"
    using assms by (auto simp: ew_handler_def split: sum.splits)
  then show ?thesis using handle_batch_cases [OF h] by auto
qed

subsection \<open>The consumer with this handler\<close>

lemma batches_append:
  "pj_batches en grp (xs @ ys) d = bindE (pj_batches en grp xs d) (\<lambda>d1. pj_batches en grp ys d1)"
  by (induction xs arbitrary: d) (auto simp: bindE_assoc case_prod_unfold)

lemma batches_single: "pj_batch_op en grp cs d = Inr (br, d1) \<Longrightarrow> pj_batches en grp [cs] d = Inr d1"
  by simp

text \<open>What the turns of one consumer did: the batches it accepted, and at most one more that was projected but not accepted.\<close>

definition consumer_did :: "ew_ext \<Rightarrow> ew kc \<Rightarrow> ew kc \<Rightarrow> exn option \<Rightarrow> bool" where
  "consumer_did x k k' r \<longleftrightarrow>
     (\<exists>bs new. kc_handled k' = kc_handled k @ bs \<and> kc_committed k' = foldl (\<lambda>m b. m ++ kc_offsets b) (kc_committed k) bs
        \<and> length new \<le> 1 \<and> (r = None \<longrightarrow> new = [])
        \<and> set (kc_fetched k) \<subseteq> set (kc_fetched k')
        \<and> (set (kc_buffered k) \<subseteq> set (kc_fetched k) \<longrightarrow>
             set (kc_buffered k') \<subseteq> set (kc_fetched k') \<and> set (concat (bs @ new)) \<subseteq> set (kc_fetched k'))
        \<and> pj_batches (wx_env x) CONSUMER_GROUP (bs @ new) (ew_db (kc_world k)) = Inr (ew_db (kc_world k')))"

lemma consumer_did_nothing: "kc_handled k' = kc_handled k \<Longrightarrow> kc_committed k' = kc_committed k \<Longrightarrow> kc_world k' = kc_world k
  \<Longrightarrow> set (kc_fetched k) \<subseteq> set (kc_fetched k')
  \<Longrightarrow> (set (kc_buffered k) \<subseteq> set (kc_fetched k) \<Longrightarrow> set (kc_buffered k') \<subseteq> set (kc_fetched k')) \<Longrightarrow> consumer_did x k k' r"
  unfolding consumer_did_def by (intro exI [of _ "[]"]) simp

lemma consumer_did_flush:
  assumes "kc_flush (ew_handler x) now k = (k', r)"
  shows "consumer_did x k k' r"
proof -
  obtain w e where h: "ew_handler x (kc_buffered k) (kc_world k) = (w, e)" by (metis surj_pair)
  show ?thesis
  proof (cases e)
    case None
    then have k': "kc_handled k' = kc_handled k @ [kc_buffered k]" "kc_world k' = w" "r = None"
        "kc_committed k' = kc_committed k ++ kc_offsets (kc_buffered k)" "kc_buffered k' = []" "kc_fetched k' = kc_fetched k"
      using assms h by (auto simp: kc_flush_def Let_def)
    have "pj_batches (wx_env x) CONSUMER_GROUP [kc_buffered k] (ew_db (kc_world k)) = Inr (ew_db w)"
      using handler_cases [OF h] None batches_single by blast
    then show ?thesis unfolding consumer_did_def by (intro exI [of _ "[kc_buffered k]"] exI [of _ "[]"]) (simp add: k')
  next
    case (Some err)
    then have k': "kc_handled k' = kc_handled k" "kc_world k' = w" "r \<noteq> None" "kc_committed k' = kc_committed k"
        "kc_buffered k' = []" "kc_fetched k' = kc_fetched k"
      using assms h by (auto simp: kc_flush_def Let_def)
    consider "ew_db w = ew_db (kc_world k)"
      | br where "pj_batch_op (wx_env x) CONSUMER_GROUP (kc_buffered k) (ew_db (kc_world k)) = Inr (br, ew_db w)"
      using handler_cases [OF h] by blast
    then show ?thesis
    proof cases
      case 1
      then show ?thesis unfolding consumer_did_def by (intro exI [of _ "[]"]) (simp add: k')
    next
      case 2
      from batches_single [OF this] show ?thesis
        unfolding consumer_did_def using k' by (intro exI [of _ "[]"] exI [of _ "[kc_buffered k]"]) simp
    qed
  qed
qed

lemma consumer_did_trans:
  assumes "consumer_did x k k1 None" "consumer_did x k1 k' r"
  shows "consumer_did x k k' r"
proof -
  let ?fresh = "\<lambda>k k' bs. set (kc_fetched k) \<subseteq> set (kc_fetched k')
      \<and> (set (kc_buffered k) \<subseteq> set (kc_fetched k) \<longrightarrow> set (kc_buffered k') \<subseteq> set (kc_fetched k') \<and> set (concat bs) \<subseteq> set (kc_fetched k'))"
  obtain bs where 1: "kc_handled k1 = kc_handled k @ bs" "kc_committed k1 = foldl (\<lambda>m b. m ++ kc_offsets b) (kc_committed k) bs"
      "pj_batches (wx_env x) CONSUMER_GROUP bs (ew_db (kc_world k)) = Inr (ew_db (kc_world k1))" "?fresh k k1 bs"
    using assms(1) unfolding consumer_did_def by auto
  obtain bs' new where 2: "kc_handled k' = kc_handled k1 @ bs'" "kc_committed k' = foldl (\<lambda>m b. m ++ kc_offsets b) (kc_committed k1) bs'"
      "length new \<le> 1" "r = None \<longrightarrow> new = []"
      "pj_batches (wx_env x) CONSUMER_GROUP (bs' @ new) (ew_db (kc_world k1)) = Inr (ew_db (kc_world k'))"
      "?fresh k1 k' (bs' @ new)"
    using assms(2) unfolding consumer_did_def by blast
  have "?fresh k k' ((bs @ bs') @ new)" using 1(4) 2(6) by auto
  then show ?thesis unfolding consumer_did_def
    by (intro exI [of _ "bs @ bs'"] exI [of _ new]) (use 1 2 in \<open>simp add: batches_append [of _ _ bs]\<close>)
qed

lemma kc_cycle_did:
  assumes "kc_cycle getmany decode (ew_handler x) t1 t2 t3 k = (k', r)"
  shows "consumer_did x k k' r"
proof (cases "kc_decode_records decode (getmany (kc_remaining_ms t1 k) (kc_max_records k))")
  case (Inl e)
  then show ?thesis using assms by (auto simp: kc_cycle_def intro: consumer_did_nothing)
next
  case (Inr decoded)
  define k1 where "k1 = k\<lparr> kc_buffered := kc_buffered k @ decoded, kc_fetched := kc_fetched k @ decoded \<rparr>"
  have same: "consumer_did x k k2 q" if did: "consumer_did x k1 k2 q" for k2 q
  proof -
    obtain bs new where d: "kc_handled k2 = kc_handled k1 @ bs" "kc_committed k2 = foldl (\<lambda>m b. m ++ kc_offsets b) (kc_committed k1) bs"
        "length new \<le> 1" "q = None \<longrightarrow> new = []" "set (kc_fetched k1) \<subseteq> set (kc_fetched k2)"
        "set (kc_buffered k1) \<subseteq> set (kc_fetched k1) \<longrightarrow>
           set (kc_buffered k2) \<subseteq> set (kc_fetched k2) \<and> set (concat (bs @ new)) \<subseteq> set (kc_fetched k2)"
        "pj_batches (wx_env x) CONSUMER_GROUP (bs @ new) (ew_db (kc_world k1)) = Inr (ew_db (kc_world k2))"
      using did unfolding consumer_did_def by (elim exE conjE) (rule that)
    have "set (kc_buffered k) \<subseteq> set (kc_fetched k) \<Longrightarrow> set (kc_buffered k1) \<subseteq> set (kc_fetched k1)"
      by (auto simp: k1_def)
    then show ?thesis unfolding consumer_did_def
      by (intro exI [of _ bs] exI [of _ new]) (use d in \<open>simp add: k1_def\<close>)
  qed
  consider (flush) "kc_flush (ew_handler x) t3 k1 = (k', r)"
    | (stay) "kc_handled k' = kc_handled k" "kc_committed k' = kc_committed k" "kc_world k' = kc_world k"
        "kc_fetched k' = kc_fetched k @ decoded" "kc_buffered k' = kc_buffered k @ decoded"
    using assms Inr by (auto simp: kc_cycle_def Let_def k1_def split: if_splits)
  then show ?thesis
  proof cases
    case flush
    from same [OF consumer_did_flush [OF this]] show ?thesis .
  next
    case stay
    then show ?thesis by (intro consumer_did_nothing) auto
  qed
qed

lemma kc_run_did: "kc_run decode (ew_handler x) turns k = (k', r) \<Longrightarrow> consumer_did x k k' r"
proof (induction turns arbitrary: k)
  case Nil
  then show ?case by (auto intro: consumer_did_nothing)
next
  case (Cons turn turns)
  obtain g t1 t2 t3 where t: "turn = (g, t1, t2, t3)" by (metis prod_cases4)
  obtain k1 r1 where c: "kc_cycle g decode (ew_handler x) t1 t2 t3 k = (k1, r1)" by (metis surj_pair)
  show ?case
  proof (cases r1)
    case None
    then show ?thesis using Cons.prems t c Cons.IH [of k1] kc_cycle_did [OF c] consumer_did_trans by simp
  next
    case (Some e)
    then show ?thesis using Cons.prems t c kc_cycle_did [OF c] by simp
  qed
qed

text \<open>All consumers one after the other.\<close>

lemma lives_did:
  assumes "ew_lives x decode lives m w = (m', w', accepted, fetched)"
  shows "\<exists>css. subseq accepted css \<and> pj_batches (wx_env x) CONSUMER_GROUP css (ew_db w) = Inr (ew_db w')
     \<and> m' = foldl (\<lambda>m b. m ++ kc_offsets b) m accepted
     \<and> set (concat css) \<subseteq> set fetched \<and> length css \<le> length accepted + length lives"
  using assms
proof (induction lives arbitrary: m w accepted fetched)
  case Nil
  then show ?case by (intro exI [of _ "[]"]) simp
next
  case (Cons life lives)
  obtain now turns where l: "life = (now, turns)" by (metis surj_pair)
  let ?k0 = "kc_new (cb_kafka_consumer_batch_size (wx_billing x)) (of_int (cb_kafka_consumer_batch_timeout_ms (wx_billing x))) now m w"
  obtain k r where k: "kc_run decode (ew_handler x) turns ?k0 = (k, r)" by (metis surj_pair)
  obtain m1 w1 bs fs where rest: "ew_lives x decode lives (kc_committed k) (kc_world k) = (m1, w1, bs, fs)" by (metis prod_cases4)
  have out: "m' = m1" "w' = w1" "accepted = kc_handled k @ bs" "fetched = kc_fetched k @ fs" using Cons.prems l k rest by auto
  obtain new where did: "kc_committed k = foldl (\<lambda>m b. m ++ kc_offsets b) m (kc_handled k)"
      "pj_batches (wx_env x) CONSUMER_GROUP (kc_handled k @ new) (ew_db w) = Inr (ew_db (kc_world k))"
      "length new \<le> 1" "set (concat (kc_handled k @ new)) \<subseteq> set (kc_fetched k)"
    using kc_run_did [OF k] unfolding consumer_did_def by (auto simp: kc_new_def)
  from Cons.IH [OF rest [folded out(1,2)]] obtain css where css: "subseq bs css"
      "pj_batches (wx_env x) CONSUMER_GROUP css (ew_db (kc_world k)) = Inr (ew_db w')"
      "m' = foldl (\<lambda>m b. m ++ kc_offsets b) (kc_committed k) bs"
      "set (concat css) \<subseteq> set fs" "length css \<le> length bs + length lives" by blast
  have "subseq (kc_handled k @ bs) ((kc_handled k @ new) @ css)"
    using css(1) by (simp add: list_emb_append_mono subseq_drop_many)
  moreover have "pj_batches (wx_env x) CONSUMER_GROUP ((kc_handled k @ new) @ css) (ew_db w) = Inr (ew_db w')"
    using did(2) css(2) by (simp only: batches_append [of _ _ "kc_handled k @ new"] bindE_simps)
  moreover have "set (concat ((kc_handled k @ new) @ css)) \<subseteq> set fetched" using did(4) css(4) out(4) by auto
  moreover have "length ((kc_handled k @ new) @ css) \<le> length accepted + length (life # lives)"
    using did(3) css(5) out(3) by simp
  moreover have "m' = foldl (\<lambda>m b. m ++ kc_offsets b) m accepted" using css(3) did(1) out(3) by simp
  ultimately show ?case using out(3) by (intro exI [of _ "(kc_handled k @ new) @ css"]) simp
qed

lemma worker_batches_keys:
  assumes "pj_batches en grp css d = Inr d'"
  shows "dom (db_keys d') = dom (db_keys d) \<union> co_key ` set (concat css)"
proof -
  obtain bs d1 where run: "dedup_run (pj_exec en) (concat css) d = Inr (bs, d1)" and d': "d' = wm (db_marks d') d1"
    using batches_run [OF assms] by blast
  have "db_keys d' = db_keys (wm (db_marks d') d1)" using d' by simp
  then have "db_keys d' = db_keys d1" by simp
  then show ?thesis using pj_dedup.run_seen [OF run] by simp
qed

subsection \<open>What a handled batch has started\<close>

lemma batch_ended:
  assumes "pj_batch_op en grp cs d = Inr (r, d')"
  shows "br_ended r = filter (\<lambda>e. pe_event_type e = CALL_ENDED) (br_inserted r)"
proof -
  obtain ms d1 where f: "foldE (pj_batch_step en) (br_empty, Map.empty, d) cs = Inr (r, ms, d1)"
    using assms by (auto simp: pj_batch_op_def bindE_eq_Inr)
  let ?I = "\<lambda>st :: batch_state. br_ended (fst st) = filter (\<lambda>e. pe_event_type e = CALL_ENDED) (br_inserted (fst st))"
  have "?I (r, ms, d1)"
    by (rule foldE_invariant [OF f]) (auto simp: br_empty_def pj_batch_step_def br_record_def Let_def bindE_eq_Inr)
  then show ?thesis by simp
qed

lemma batch_inserted:
  assumes "pj_batch_op en grp cs d = Inr (r, d')"
  shows "br_inserted r = map co_event (first_by_key co_key (dom (db_keys d)) cs)"
proof -
  obtain bs d1 where run: "dedup_run (pj_exec en) cs d = Inr (bs, d1)"
    and ins: "br_inserted r = map (\<lambda>a. co_event (fst a)) (filter snd (zip cs bs))"
    using batch_op_run [OF assms] by metis
  have "br_inserted r = map co_event (map fst (filter snd (zip cs bs)))" using ins by (simp add: comp_def)
  then show ?thesis using pj_dedup.run_accepts [OF run] by simp
qed

lemma act_for_ok:
  assumes "act_for xs f s = (Inr u, t)" and "\<And>x. keeps R (f x)" and "effect_order R" and "x \<in> set xs"
  shows "\<exists>s1 v t1. f x s1 = (Inr v, t1) \<and> R t1 t"
  using assms(1,4)
proof (induction xs arbitrary: s)
  case (Cons y ys)
  obtain v s1 where y: "f y s = (Inr v, s1)" and rest: "act_for ys f s1 = (Inr u, t)"
    using Cons.prems(1) by (auto simp: act_bind_ok)
  show ?case
  proof (cases "x = y")
    case True
    have "keeps R (act_for ys f)" by (rule effect_order.keeps_for [OF assms(3)]) (rule assms(2))
    from keepsD [OF this rest] show ?thesis using y True by (intro exI conjI) simp_all
  next
    case False
    then show ?thesis using Cons.IH [OF rest] Cons.prems(2) by simp
  qed
qed simp

lemma ended_runs:
  assumes "ew_ended x e s = (Inr u, t)"
  shows "runs ''BillingFinalizationWorkflow'' (ew_billing_input (wx_billing x) e) (billing_workflow_id (pe_call_id e)) (ew_tc t)"
proof -
  obtain wid s1 where st: "on_tc (tc_start_billing (wx_tc x) (pe_call_id e) (ew_billing_input (wx_billing x) e)) s = (Inr wid, s1)"
    and sig: "on_tc (tc_signal_billing (wx_tc x) (pe_call_id e) ''CallEnded''
         [(''call_id'', PStr (pe_call_id e)), (''trace_id'', opt_str (pe_trace_id e))]) s1 = (Inr u, t)"
    using assms by (auto simp: ew_ended_def act_bind_ok)
  have "runs ''BillingFinalizationWorkflow'' (ew_billing_input (wx_billing x) e) (billing_workflow_id (pe_call_id e)) (ew_tc s1)"
    using st start_billing_ok [of "wx_tc x" "pe_call_id e" "ew_billing_input (wx_billing x) e" "ew_tc s" wid]
    by (auto simp: on_tc_def split: prod.splits)
  then show ?thesis
    using keepsD [OF same_db_on_tc [OF keeps_signal_billing] sig] runs_mono by (auto simp: same_db_def)
qed

lemma follow_up_runs:
  assumes "ew_follow_up x r s = (Inr u, t)" and "e \<in> set (br_ended r)"
  shows "runs ''BillingFinalizationWorkflow'' (ew_billing_input (wx_billing x) e) (billing_workflow_id (pe_call_id e)) (ew_tc t)"
proof -
  let ?rest = "\<lambda>_ :: unit. act_bind (act_for (wx_order x (br_usage_calls r)) (\<lambda>c. ew_signal_usage x c (ew_traces (br_inserted r) c)))
     (\<lambda>_. act_bind (act_for (br_late_events r) (ew_late x)) (\<lambda>_. act_for (br_duplicates r) (ew_notice x)))"
  obtain v s1 where a: "act_for (br_ended r) (ew_ended x) s = (Inr v, s1)" and b: "?rest v s1 = (Inr u, t)"
    using assms(1) unfolding ew_follow_up_def by (subst (asm) act_bind_ok) (elim exE conjE, rule that)
  have "keeps same_db (?rest v)" by (simp add: worker_keeps ew_signal_keeps ew_late_keeps ew_notice_keeps)
  from keepsD [OF this b] have le: "same_db s1 t" .
  obtain s0 w s2 where "ew_ended x e s0 = (Inr w, s2)" "same_db s2 s1"
    using act_for_ok [OF a ew_ended_keeps worker.effect_order_axioms assms(2)] by (elim exE conjE) (rule that)
  then show ?thesis using ended_runs [of x e s0 w s2] le runs_mono [of "ew_tc s2"] runs_mono [of "ew_tc s1"]
    by (simp add: same_db_def)
qed

text \<open>A batch of known events: nothing is started or signalled.\<close>

lemma publish_keeps_tc: "keeps (\<lambda>v w. ew_tc w = ew_tc v) (ew_notice x e)"
  by (rule keepsI)
     (auto simp: ew_notice_def ew_publish_def act_defs Let_def split: sum.splits prod.splits)

interpretation same_tc: effect_order "\<lambda>v w :: ew. ew_tc w = ew_tc v"
  by unfold_locales auto

lemma handle_known:
  assumes "ew_handle_batch x cs w = (res, w')" and "co_key ` set cs \<subseteq> dom (db_keys (ew_db w))" and "wx_order x {} = []"
  shows "ew_tc w' = ew_tc w"
proof -
  have op: "pj_batch_op (wx_env x) CONSUMER_GROUP cs (ew_db w)
      = Inr (br_empty\<lparr> br_duplicates := map co_event cs \<rparr>, pj_raise_marks CONSUMER_GROUP (batch_marks cs) (ew_db w))"
    by (rule batch_op_known [OF assms(2)])
  have "keeps (\<lambda>v w. ew_tc w = ew_tc v) (ew_follow_up x (br_empty\<lparr> br_duplicates := map co_event cs \<rparr>))"
    using assms(3) unfolding ew_follow_up_def br_empty_def
    by (simp add: same_tc.keeps_bind same_tc.keeps_ret same_tc.keeps_for publish_keeps_tc)
  then have "ew_follow_up x (br_empty\<lparr> br_duplicates := map co_event cs \<rparr>) v = (res, w') \<Longrightarrow> ew_tc w' = ew_tc v" for v
    by (rule keepsD)
  then show ?thesis using handle_batch_cases [OF assms(1)] op by fastforce
qed

subsection \<open>Properties\<close>

lemma subseq_set: "subseq xs ys \<Longrightarrow> set xs \<subseteq> set ys"
  by (auto dest: list_emb_set)

text \<open>C10: The worker projects exactly once across restarts. However often the consumer is ended by an exception
and started again on the committed offsets, and whatever the broker redelivers: the tables are the initial ones
after projecting, once and in order, the first occurrence of every new key of some batches of fetched events, which
include all accepted ones and at most one more for each consumer; and an offset is committed only above an event whose
key is in the tables.\<close>

theorem worker_projects_once:
  assumes "ew_lives x decode lives m w = (m', w', accepted, fetched)"
    and "\<And>b c. b \<in> set accepted \<Longrightarrow> c \<in> set b \<Longrightarrow> 0 \<le> co_offset c"
  shows "\<exists>css bs d. subseq accepted css \<and> set (concat css) \<subseteq> set fetched \<and> length css \<le> length accepted + length lives
      \<and> dedup_run (pj_exec (wx_env x)) (first_by_key co_key (dom (db_keys (ew_db w))) (concat css)) (ew_db w) = Inr (bs, d)
      \<and> list_all (\<lambda>b. b) bs \<and> ew_db w' = wm (db_marks (ew_db w')) d
      \<and> (\<forall>p n. m' p = Some n \<longrightarrow> m p = Some n
           \<or> (\<exists>c \<in> set (concat accepted). (co_topic c, co_partition c) = p \<and> n = co_offset c + 1 \<and> co_key c \<in> dom (db_keys (ew_db w'))))"
proof -
  obtain css where css: "subseq accepted css" "pj_batches (wx_env x) CONSUMER_GROUP css (ew_db w) = Inr (ew_db w')"
      "m' = foldl (\<lambda>m b. m ++ kc_offsets b) m accepted" "set (concat css) \<subseteq> set fetched"
      "length css \<le> length accepted + length lives"
    using lives_did [OF assms(1)] by (elim exE conjE) (rule that)
  obtain bs0 d where run: "dedup_run (pj_exec (wx_env x)) (concat css) (ew_db w) = Inr (bs0, d)"
    and d: "ew_db w' = wm (db_marks (ew_db w')) d"
    using batches_run [OF css(2)] by blast
  from pj_dedup.run_first_occurrences [OF run] obtain bs where
    once: "dedup_run (pj_exec (wx_env x)) (first_by_key co_key (dom (db_keys (ew_db w))) (concat css)) (ew_db w) = Inr (bs, d)"
      "list_all (\<lambda>b. b) bs" by blast
  have offs: "m p = Some n \<or> (\<exists>c \<in> set (concat accepted). (co_topic c, co_partition c) = p \<and> n = co_offset c + 1
      \<and> co_key c \<in> dom (db_keys (ew_db w')))" if "m' p = Some n" for p n
  proof -
    have "set accepted \<subseteq> set css" using css(1) subseq_set by blast
    then have known: "co_key c \<in> dom (db_keys (ew_db w'))" if "c \<in> set (concat accepted)" for c
      unfolding worker_batches_keys [OF css(2)] using that by auto
    have "m p = Some n \<or> (\<exists>b \<in> set accepted. \<exists>c \<in> set b. (co_topic c, co_partition c) = p \<and> n = co_offset c + 1)"
      using foldl_map_add_upper [OF assms(2), of accepted] that css(3) by simp
    then show ?thesis using known by fastforce
  qed
  show ?thesis by (rule exI [of _ css], rule exI [of _ bs], rule exI [of _ d]) (intro conjI allI impI css(1,4,5) once d offs)
qed

lemma handled_end_runs:
  assumes "ew_handle_batch x cs w = (Inr u, w')" and "c \<in> set (first_by_key co_key (dom (db_keys (ew_db w))) cs)"
    and "pe_event_type (co_event c) = CALL_ENDED"
  shows "runs ''BillingFinalizationWorkflow'' (ew_billing_input (wx_billing x) (co_event c))
     (billing_workflow_id (pe_call_id (co_event c))) (ew_tc w')"
proof -
  obtain r d where r: "pj_batch_op (wx_env x) CONSUMER_GROUP cs (ew_db w) = Inr (r, d)"
      "ew_follow_up x r (w\<lparr> ew_batches := Suc (ew_batches w), ew_db := d \<rparr>) = (Inr u, w')"
    using handle_batch_cases [OF assms(1)] by auto
  have "co_event c \<in> set (br_ended r)" using assms(2,3) batch_ended [OF r(1)] batch_inserted [OF r(1)] by simp
  then show ?thesis by (rule follow_up_runs [OF r(2)])
qed

text \<open>When a batch was handled, every call whose \<open>call.ended\<close> event it projected for the first time has a
finalization workflow, started with that call's input (or already running under the call's workflow id).\<close>

theorem ended_calls_get_workflow:
  assumes "ew_handle_batch x cs w = (Inr u, w')" and "c \<in> set (first_by_key co_key (dom (db_keys (ew_db w))) cs)"
    and "pe_event_type (co_event c) = CALL_ENDED"
  shows "runs ''BillingFinalizationWorkflow'' (ew_billing_input (wx_billing x) (co_event c))
     (billing_workflow_id (pe_call_id (co_event c))) (ew_tc w')"
  by (rule handled_end_runs [OF assms])

text \<open>C40: A follow-up that failed is lost. When handling a batch raised after its projection was committed, because
the workflow service or the broker failed, the batch is delivered again, but then all its events are known: no later
handling of it sends any request to the workflow service, so no finalization workflow is started for the calls that ended in it.\<close>

theorem failed_follow_up_is_lost:
  assumes "ew_handle_batch x cs w = (Inl e, w1)" and "db_keys (ew_db w1) \<noteq> db_keys (ew_db w)"
    and "dom (db_keys (ew_db w1)) \<subseteq> dom (db_keys (ew_db w2))"
    and "wx_order y {} = []" and "ew_handle_batch y cs w2 = (r, w3)"
  shows "ew_tc w3 = ew_tc w2"
proof -
  have "\<exists>br. pj_batch_op (wx_env x) CONSUMER_GROUP cs (ew_db w) = Inr (br, ew_db w1)"
    using handle_batch_cases [OF assms(1)] assms(2) by auto
  then have "pj_batches (wx_env x) CONSUMER_GROUP [cs] (ew_db w) = Inr (ew_db w1)" using batches_single by blast
  from worker_batches_keys [OF this] have "co_key ` set cs \<subseteq> dom (db_keys (ew_db w2))" using assms(3) by auto
  then show ?thesis by (rule handle_known [OF assms(5) _ assms(4)])
qed

text \<open>Inputs for the witnesses: a call that starts and ends.\<close>

definition ended_demo :: pevent where
  "ended_demo = ev_demo ''k9'' CALL_ENDED ''transport'' []"

definition wx_demo :: "start_reply \<Rightarrow> ew_ext" where
  "wx_demo r = \<lparr> wx_env = env_demo, wx_injected = False, wx_fault = (\<lambda>_ _. None),
     wx_tc = \<lparr> tx_start = (\<lambda>_. r), tx_signal = (\<lambda>_. None), tx_carrier = (\<lambda>_. []), tx_queue = ''q'', tx_rep = (\<lambda>_. []), tx_health = True \<rparr>,
     wx_publish = (\<lambda>_ _. Stored), wx_order = (\<lambda>_. []), wx_uuid = (\<lambda>_. ''d''), wx_now = (\<lambda>_. 0), wx_billing = default_billing \<rparr>"

definition ew_demo :: ew where
  "ew_demo = \<lparr> ew_db = db_empty [], ew_tc = \<lparr> tc_connected = True, tc_handles = Map.empty, tc_log = [] \<rparr>,
     ew_log = [], ew_batches = 0, ew_sends = 0 \<rparr>"

lemma ended_demo_batch:
  "\<exists>r d. pj_batch_op env_demo CONSUMER_GROUP [co_demo n ended_demo] (db_empty []) = Inr (r, d) \<and> br_ended r = [ended_demo]
     \<and> br_usage_calls r = {} \<and> br_late_events r = [] \<and> br_duplicates r = [] \<and> db_keys d ''k9'' \<noteq> None"
  by (simp add: ended_demo_def demo_defs pj_run_defs pj_raise_marks_def)

lemma ew_project_demo:
  "\<exists>r d. ew_project (wx_demo reply) [co_demo n ended_demo] ew_demo = (Inr (Some r), ew_demo\<lparr> ew_batches := 1, ew_db := d \<rparr>)
     \<and> br_ended r = [ended_demo] \<and> br_usage_calls r = {} \<and> br_late_events r = [] \<and> br_duplicates r = [] \<and> db_keys d ''k9'' \<noteq> None"
proof -
  obtain r d where "pj_batch_op env_demo CONSUMER_GROUP [co_demo n ended_demo] (db_empty []) = Inr (r, d)"
    "br_ended r = [ended_demo]" "br_usage_calls r = {}" "br_late_events r = []" "br_duplicates r = []" "db_keys d ''k9'' \<noteq> None"
    using ended_demo_batch by blast
  then show ?thesis by (simp add: ew_project_def pj_project_batch_def pg_retry_def wx_demo_def ew_demo_def Let_def)
qed

lemma handle_demo_started:
  "\<exists>w'. ew_handle_batch (wx_demo Started) [co_demo n ended_demo] ew_demo = (Inr (), w') \<and> db_keys (ew_db w') ''k9'' \<noteq> None"
  using ew_project_demo [of Started n]
  by (auto simp: ew_handle_batch_def ew_follow_up_def ew_ended_def on_tc_def tc_start_billing_def tc_signal_billing_def tc_require_def
      tc_if_connected_def tc_start_once_def tc_start_def tc_send_def wx_demo_def ew_demo_def act_defs Let_def)

lemma handle_demo_failed:
  "\<exists>w'. ew_handle_batch (wx_demo (Start_error TimeoutError)) [co_demo n ended_demo] ew_demo = (Inl TimeoutError, w')
     \<and> db_keys (ew_db w') ''k9'' \<noteq> None \<and> \<not> runs ''BillingFinalizationWorkflow'' i (billing_workflow_id ''c1'') (ew_tc w')"
  using ew_project_demo [of "Start_error TimeoutError" n]
  by (auto simp: ew_handle_batch_def ew_follow_up_def ew_ended_def on_tc_def tc_start_billing_def tc_require_def runs_def
      tc_start_once_def tc_start_def wx_demo_def ew_demo_def act_defs Let_def)

lemma ended_calls_get_workflow_witness:
  "\<exists>w'. ew_handle_batch (wx_demo Started) [co_demo 3 ended_demo] ew_demo = (Inr (), w')
     \<and> runs ''BillingFinalizationWorkflow'' (ew_billing_input default_billing ended_demo) (billing_workflow_id ''c1'') (ew_tc w')"
proof -
  obtain w' where h: "ew_handle_batch (wx_demo Started) [co_demo 3 ended_demo] ew_demo = (Inr (), w')"
    using handle_demo_started by blast
  have "co_demo 3 ended_demo \<in> set (first_by_key co_key (dom (db_keys (ew_db ew_demo))) [co_demo 3 ended_demo])"
    by (simp add: ew_demo_def db_empty_def)
  then have "runs ''BillingFinalizationWorkflow'' (ew_billing_input (wx_billing (wx_demo Started)) (co_event (co_demo 3 ended_demo)))
     (billing_workflow_id (pe_call_id (co_event (co_demo 3 ended_demo)))) (ew_tc w')"
    by (rule ended_calls_get_workflow [OF h]) (simp add: co_demo_def ended_demo_def ev_demo_def)
  then show ?thesis using h by (simp add: wx_demo_def co_demo_def ended_demo_def ev_demo_def)
qed

lemma failed_follow_up_is_lost_witness:
  "\<exists>w1 r w3. ew_handle_batch (wx_demo (Start_error TimeoutError)) [co_demo 3 ended_demo] ew_demo = (Inl TimeoutError, w1)
     \<and> ew_handle_batch (wx_demo Started) [co_demo 3 ended_demo] w1 = (r, w3)
     \<and> \<not> runs ''BillingFinalizationWorkflow'' (ew_billing_input default_billing ended_demo) (billing_workflow_id ''c1'') (ew_tc w3)"
proof -
  obtain w1 where h: "ew_handle_batch (wx_demo (Start_error TimeoutError)) [co_demo 3 ended_demo] ew_demo = (Inl TimeoutError, w1)"
    "db_keys (ew_db w1) ''k9'' \<noteq> None"
    "\<not> runs ''BillingFinalizationWorkflow'' (ew_billing_input default_billing ended_demo) (billing_workflow_id ''c1'') (ew_tc w1)"
    using handle_demo_failed by blast
  obtain r w3 where k: "ew_handle_batch (wx_demo Started) [co_demo 3 ended_demo] w1 = (r, w3)" by (metis surj_pair)
  have "db_keys (ew_db w1) \<noteq> db_keys (ew_db ew_demo)" using h(2) by (auto simp: ew_demo_def db_empty_def)
  from failed_follow_up_is_lost [OF h(1) this order_refl _ k] have "ew_tc w3 = ew_tc w1" by (simp add: wx_demo_def)
  then show ?thesis using h k by auto
qed

lemma worker_projects_once_witness:
  "\<exists>m' w' a f c. ew_lives (wx_demo Started) (\<lambda>_. Inr ended_demo) [(0, [(kc_demo_getmany, 0, 1, 1)])] Map.empty ew_demo = (m', w', a, f)
     \<and> m' (''usage-events'', 0) = Some 5 \<and> co_offset c = 4 \<and> co_key c \<in> dom (db_keys (ew_db w'))"
proof -
  obtain w1 where h: "ew_handle_batch (wx_demo Started) [co_demo 4 ended_demo] ew_demo = (Inr (), w1)"
    using handle_demo_started by blast
  then have "ew_handler (wx_demo Started) [co_demo 4 ended_demo] ew_demo = (w1, None)" by (simp add: ew_handler_def)
  moreover have "wx_billing (wx_demo Started) = default_billing" by (simp add: wx_demo_def)
  ultimately obtain f where lives: "ew_lives (wx_demo Started) (\<lambda>_. Inr ended_demo) [(0, [(kc_demo_getmany, 0, 1, 1)])] Map.empty ew_demo
      = ([(''usage-events'', 0) \<mapsto> 5], w1, [[co_demo 4 ended_demo]], f)"
    by (simp add: kc_cycle_def kc_flush_def kc_new_def kc_decode_records_def kc_messages_def kc_demo_getmany_def kc_is_barrier_def
        co_demo_def kc_offsets_def default_billing_def ended_demo_def ev_demo_def Let_def)
  have off: "0 \<le> co_offset c" if "b \<in> set [[co_demo 4 ended_demo]]" "c \<in> set b" for b c
    using that by (auto simp: co_demo_def)
  have all: "\<forall>p n. [(''usage-events'', 0) \<mapsto> 5] p = Some n \<longrightarrow> Map.empty p = Some n
      \<or> (\<exists>c \<in> set (concat [[co_demo 4 ended_demo]]). (co_topic c, co_partition c) = p \<and> n = co_offset c + 1 \<and> co_key c \<in> dom (db_keys (ew_db w1)))"
    by (rule worker_projects_once [OF lives, THEN exE], erule (1) off) (elim exE conjE)
  have "\<exists>c. co_offset c = 4 \<and> co_key c \<in> dom (db_keys (ew_db w1))"
    using spec [OF spec [OF all, of "(''usage-events'', 0)"], of 5]
    by (intro exI [of _ "co_demo 4 ended_demo"]) (auto simp: co_demo_def)
  then show ?thesis using lives by auto
qed

end
