(* ===== verification/Tool_Executor.thy ===== *)
theory Tool_Executor
  imports Activities Outbox Temporal_Client
begin

text \<open>
  The tool executor of the API (\<open>apps/api/tools/executor.py\<close>, class \<open>ToolExecutor\<close>, and the
  routes of \<open>apps/api/routes/tools.py\<close>): a tool call is made directly, accepted for a job, or handed
  to a durable workflow.

  Arguments: the HTTP exchange, the broker, the workflow service, fresh ids, the clock, \<open>float\<close> of a
  string and the text of an exception. The body of a direct request is the tool's arguments; it has no
  idempotency key.
\<close>

record te =
  te_tc :: tc
  te_log :: "broker_record list"
  te_sends :: nat
  te_ids :: nat
  te_requests :: "http_request list"

record te_ext =
  ux_tc :: tc_ext
  ux_publish :: "nat \<Rightarrow> pevent \<Rightarrow> publication"
  ux_http :: "http_request list \<Rightarrow> http_request \<Rightarrow> http_response res"
  ux_uuid :: "nat \<Rightarrow> string"
  ux_now :: "nat \<Rightarrow> rat"
  ux_rep :: "pyv \<Rightarrow> string"
  ux_parse_float :: "string \<Rightarrow> rat option"
  ux_exn_str :: "exn \<Rightarrow> string"

record tool_call =
  tk_tenant :: string
  tk_assistant :: string
  tk_call :: string
  tk_turn :: string
  tk_name :: string
  tk_mode :: tool_mode
  tk_arguments :: dict
  tk_config :: dict
  tk_invocation :: "string option"

type_synonym 'a exec = "(te, 'a) act"

text \<open>The body of \<open>POST /tools/execute\<close>\<close>

definition tool_call_of :: "dict \<Rightarrow> tool_call res" where
  "tool_call_of d =
     bindE (mf_str d ''tenant_id'' (Some ''local-demo-tenant'')) (\<lambda>tenant.
     bindE (mf_str d ''assistant_id'' (Some ''local-demo-assistant'')) (\<lambda>assistant.
     bindE (mf_str d ''call_id'' None) (\<lambda>call.
     bindE (mf_str d ''turn_id'' (Some ''tool-demo-turn'')) (\<lambda>turn.
     bindE (mf_opt_str d ''tool_invocation_id'') (\<lambda>tid.
     bindE (mf_str d ''tool_name'' None) (\<lambda>name.
     bindE (bindE (mf_str d ''mode'' None) mode_of) (\<lambda>mode.
     bindE (mf_dict d ''arguments'') (\<lambda>args.
     bindE (mf_dict d ''config'') (\<lambda>config.
       Inr \<lparr> tk_tenant = tenant, tk_assistant = assistant, tk_call = call, tk_turn = turn, tk_name = name,
             tk_mode = mode, tk_arguments = args, tk_config = config, tk_invocation = tid \<rparr>)))))))))"

definition te_fresh :: "te_ext \<Rightarrow> string exec" where
  "te_fresh x w = (Inr (ux_uuid x (te_ids w)), w\<lparr> te_ids := Suc (te_ids w) \<rparr>)"

definition te_publish :: "te_ext \<Rightarrow> pevent \<Rightarrow> unit exec" where
  "te_publish x e w =
     (let (res, sent) = send_record (ux_publish x (te_sends w) e) (event_record e) (te_log w)
      in (res, w\<lparr> te_sends := Suc (te_sends w), te_log := sent \<rparr>))"

definition te_request :: "te_ext \<Rightarrow> http_request \<Rightarrow> http_response exec" where
  "te_request x q w = (ux_http x (te_requests w) q, w\<lparr> te_requests := te_requests w @ [q] \<rparr>)"

definition te_on_tc :: "'a client \<Rightarrow> 'a exec" where
  "te_on_tc m w = (case m (te_tc w) of (r, s) \<Rightarrow> (r, w\<lparr> te_tc := s \<rparr>))"

text \<open>\<open>_emit_tool_event\<close>\<close>

definition te_event_payload :: "tool_call \<Rightarrow> string \<Rightarrow> dict \<Rightarrow> dict" where
  "te_event_payload k tid payload =
     dict_merge
       [(''event_version'', PInt 1), (''tenant_id'', PStr (tk_tenant k)), (''assistant_id'', PStr (tk_assistant k)),
        (''tool_invocation_id'', PStr tid), (''tool_name'', PStr (tk_name k))] payload"

definition te_emit :: "te_ext \<Rightarrow> event_type \<Rightarrow> tool_call \<Rightarrow> string \<Rightarrow> dict \<Rightarrow> unit exec" where
  "te_emit x t k tid payload =
     act_bind (te_fresh x) (\<lambda>uuid.
     ask (\<lambda>w.
     act_bind (act_lift (pe_create uuid (ux_now x (te_ids w)) (tk_call k) (tk_turn k) t ''tool'' 1
                 (Some (te_event_payload k tid payload)) None (Some (tid @ '':'' @ event_value t)))) (\<lambda>e.
       te_publish x e)))"

text \<open>\<open>_execute_sync_direct\<close>\<close>

definition te_direct_request :: "te_ext \<Rightarrow> tool_call \<Rightarrow> http_request res" where
  "te_direct_request x k =
     bindE (dict_item (tk_config k) ''url'') (\<lambda>u.
       Inr \<lparr> hq_method = py_str (ux_rep x) (dict_get_or (tk_config k) ''method'' (PStr ''POST'')),
             hq_url = py_str (ux_rep x) u, hq_body = PDict (tk_arguments k), hq_key = [] \<rparr>)"

definition te_direct :: "te_ext \<Rightarrow> tool_call \<Rightarrow> string \<Rightarrow> dict exec" where
  "te_direct x k tid =
     act_bind (act_lift (te_direct_request x k)) (\<lambda>q.
     act_try
       (act_bind (act_lift (py_float (ux_parse_float x) (dict_get_or (tk_config k) ''timeout_seconds'' (PInt 2)))) (\<lambda>_.
        act_bind (te_request x q) (\<lambda>response.
        act_bind (act_lift (response_payload response)) (\<lambda>payload.
        act_bind (te_emit x TOOL_ACTION_COMPLETED k tid [(''mode'', PStr ''SYNC_DIRECT''), (''result'', payload)]) (\<lambda>_.
          act_ret [(''tool_invocation_id'', PStr tid), (''status'', PStr ''COMPLETED''), (''result'', payload)])))))
       (\<lambda>e.
        act_bind (te_emit x TOOL_ACTION_FAILED k tid [(''mode'', PStr ''SYNC_DIRECT''), (''error'', PStr (ux_exn_str x e))]) (\<lambda>_.
          act_ret [(''tool_invocation_id'', PStr tid), (''status'', PStr ''FAILED''), (''error'', PStr (ux_exn_str x e))])))"

definition te_durable_input :: "tool_call \<Rightarrow> string \<Rightarrow> tool_config \<Rightarrow> dict" where
  "te_durable_input k tid c =
     [(''tenant_id'', PStr (tk_tenant k)), (''assistant_id'', PStr (tk_assistant k)), (''call_id'', PStr (tk_call k)),
      (''turn_id'', PStr (tk_turn k)), (''tool_invocation_id'', PStr tid), (''tool_name'', PStr (tk_name k)),
      (''tool_arguments'', PDict (tk_arguments k)), (''tool_config'', PDict (tool_config_dump c))]"

definition te_durable :: "te_ext \<Rightarrow> tool_call \<Rightarrow> string \<Rightarrow> dict exec" where
  "te_durable x k tid =
     act_bind (act_lift (tool_config_of (tk_config k))) (\<lambda>c.
     act_bind (te_on_tc (tc_start_durable_action (ux_tc x) (te_durable_input k tid c))) (\<lambda>wid.
       act_ret [(''tool_invocation_id'', PStr tid), (''workflow_id'', PStr wid), (''status'', PStr ''ACCEPTED''),
                (''message'', PStr ''I've started that request. It is being processed now.'')]))"

definition te_job :: "te_ext \<Rightarrow> tool_call \<Rightarrow> string \<Rightarrow> dict exec" where
  "te_job x k tid =
     act_bind (te_emit x TOOL_ACTION_ACCEPTED k tid [(''mode'', PStr (mode_name (tk_mode k))), (''accepted'', PBool True)]) (\<lambda>_.
       act_ret [(''tool_invocation_id'', PStr tid), (''status'', PStr ''ACCEPTED''),
                (''message'', PStr ''Accepted for asynchronous processing.'')])"

definition te_invocation :: "te_ext \<Rightarrow> tool_call \<Rightarrow> string exec" where
  "te_invocation x k =
     (case nonempty (tk_invocation k) of
        Some i \<Rightarrow> act_ret i
      | None \<Rightarrow> act_bind (te_fresh x) (\<lambda>u. act_ret (''tool_'' @ u)))"

definition te_execute :: "te_ext \<Rightarrow> tool_call \<Rightarrow> dict exec" where
  "te_execute x k =
     act_bind (te_invocation x k) (\<lambda>tid.
       case tk_mode k of
         M_SYNC_DIRECT \<Rightarrow> te_direct x k tid
       | M_ASYNC_JOB \<Rightarrow> te_job x k tid
       | M_DURABLE_ACTION \<Rightarrow> te_durable x k tid)"

text \<open>The routes\<close>

definition execute_tool :: "te_ext \<Rightarrow> dict \<Rightarrow> dict exec" where
  "execute_tool x body = act_bind (act_lift (tool_call_of body)) (te_execute x)"

definition cancel_durable_action :: "te_ext \<Rightarrow> string \<Rightarrow> string option \<Rightarrow> dict exec" where
  "cancel_durable_action x tid reason =
     act_bind (te_on_tc (tc_signal_durable_action (ux_tc x) tid ''CancelRequested''
       [(''tool_invocation_id'', PStr tid),
        (''reason'', PStr (case reason of None \<Rightarrow> ''requested_by_user'' | Some r \<Rightarrow> r))])) (\<lambda>_.
       act_ret [(''tool_invocation_id'', PStr tid), (''cancel_requested'', PBool True)])"

subsection \<open>Durable calls\<close>

lemma start_durable_ok:
  assumes "tc_start_durable_action x input s = (Inr r, t)"
  shows "\<exists>i. field_str x input ''tool_invocation_id'' = Inr i \<and> r = action_workflow_id i
     \<and> runs ''DurableActionWorkflow'' input (action_workflow_id i) t"
proof -
  obtain i where i: "field_str x input ''tool_invocation_id'' = Inr i"
    and st: "tc_start_once x ''DurableActionWorkflow'' input (action_workflow_id i) s = (Inr r, t)"
    using assms
    by (auto simp: tc_start_durable_action_def tc_require_def ask_def act_raise_def act_bind_def act_lift_def split: if_splits sum.splits)
  from start_once_ok [OF st] i show ?thesis by blast
qed

lemma inject_trace_lookup: "k \<noteq> ''_trace'' \<Longrightarrow> map_of (inject_trace carrier d) k = map_of d k"
  by (simp add: inject_trace_def map_of_dict_merge)

definition durable_action_input :: "tool_call \<Rightarrow> string \<Rightarrow> tool_config \<Rightarrow> action_input" where
  "durable_action_input k tid c =
     \<lparr> ai_tenant = tk_tenant k, ai_assistant = tk_assistant k, ai_call = tk_call k, ai_turn = tk_turn k, ai_invocation = tid,
       ai_tool = tk_name k, ai_arguments = tk_arguments k, ai_config = c, ai_trace = None \<rparr>"

lemma durable_input_parses:
  assumes "tool_config_of (tk_config k) = Inr c"
  shows "action_input_of (inject_trace carrier (te_durable_input k tid c)) = Inr (durable_action_input k tid c)"
  using tool_config_roundtrip [OF tool_config_of_ok [OF assms]]
  by (simp add: action_input_of_def mf_str_def mf_dict_def mf_model_def mf_opt_str_def inject_trace_lookup
      te_durable_input_def durable_action_input_def)


subsection \<open>Direct calls\<close>

text \<open>The event a tool call publishes.\<close>

definition tool_event :: "te_ext \<Rightarrow> event_type \<Rightarrow> tool_call \<Rightarrow> string \<Rightarrow> dict \<Rightarrow> nat \<Rightarrow> pevent" where
  "tool_event x t k tid payload n =
     \<lparr> pe_event_id = ux_uuid x n, pe_call_id = tk_call k, pe_turn_id = tk_turn k, pe_event_type = t, pe_stage = ''tool'',
       pe_timestamp = ux_now x (Suc n), pe_seq = 1, pe_key = tid @ '':'' @ event_value t,
       pe_payload = te_event_payload k tid payload, pe_trace_id = None \<rparr>"

lemma te_emit_eq:
  "te_emit x t k tid payload w =
     (if pe_valid (tool_event x t k tid payload (te_ids w))
      then te_publish x (tool_event x t k tid payload (te_ids w)) (w\<lparr> te_ids := Suc (te_ids w) \<rparr>)
      else (Inl (ValueError ''PipelineEvent''), w\<lparr> te_ids := Suc (te_ids w) \<rparr>))"
  by (simp add: te_emit_def te_fresh_def act_bind_def ask_def act_lift_def pe_create_def tool_event_def Let_def)

lemma tool_event_valid: "tk_call k \<noteq> [] \<Longrightarrow> tk_turn k \<noteq> [] \<Longrightarrow> pe_valid (tool_event x t k tid payload n)"
  by (simp add: pe_valid_def tool_event_def)

definition tool_event_of :: "pevent \<Rightarrow> event_type \<Rightarrow> tool_call \<Rightarrow> string \<Rightarrow> bool" where
  "tool_event_of e t k tid \<longleftrightarrow> pe_event_type e = t \<and> pe_call_id e = tk_call k \<and> pe_key e = tid @ '':'' @ event_value t"

lemma te_emit_outcome:
  assumes "te_emit x t k tid payload w = (res, w')"
  shows "te_requests w' = te_requests w \<and> te_tc w' = te_tc w
     \<and> (te_log w' = te_log w \<and> (\<exists>e. res = Inl e) \<or> (\<exists>e. tool_event_of e t k tid \<and> te_log w' = te_log w @ [event_record e]))"
proof -
  let ?e = "tool_event x t k tid payload (te_ids w)"
  have "tool_event_of ?e t k tid" by (simp add: tool_event_of_def tool_event_def)
  then show ?thesis using assms
    by (auto simp: te_emit_eq te_publish_def send_record_def Let_def split: if_splits publication.splits)
qed

lemma te_invocation_ok:
  assumes "te_invocation x k w = (res, w1)"
  shows "te_requests w1 = te_requests w \<and> te_log w1 = te_log w \<and> (\<exists>tid. res = Inr tid)"
  using assms by (auto simp: te_invocation_def te_fresh_def act_bind_def act_ret_def split: option.splits)

text \<open>The \<open>try\<close> block of a direct call.\<close>

definition direct_body :: "te_ext \<Rightarrow> tool_call \<Rightarrow> string \<Rightarrow> http_request \<Rightarrow> dict exec" where
  "direct_body x k tid q =
       act_bind (act_lift (py_float (ux_parse_float x) (dict_get_or (tk_config k) ''timeout_seconds'' (PInt 2)))) (\<lambda>_.
        act_bind (te_request x q) (\<lambda>response.
        act_bind (act_lift (response_payload response)) (\<lambda>payload.
        act_bind (te_emit x TOOL_ACTION_COMPLETED k tid [(''mode'', PStr ''SYNC_DIRECT''), (''result'', payload)]) (\<lambda>_.
          act_ret [(''tool_invocation_id'', PStr tid), (''status'', PStr ''COMPLETED''), (''result'', payload)]))))"

lemma direct_body_ok:
  assumes "direct_body x k tid q w = (Inr reply, w')"
  shows "\<exists>r payload e. ux_http x (te_requests w) q = Inr r \<and> response_payload r = Inr payload
     \<and> reply = [(''tool_invocation_id'', PStr tid), (''status'', PStr ''COMPLETED''), (''result'', payload)]
     \<and> te_requests w' = te_requests w @ [q] \<and> tool_event_of e TOOL_ACTION_COMPLETED k tid \<and> te_log w' = te_log w @ [event_record e]"
proof -
  obtain r w1 payload u w2 where 1: "te_request x q w = (Inr r, w1)" "response_payload r = Inr payload"
    "te_emit x TOOL_ACTION_COMPLETED k tid [(''mode'', PStr ''SYNC_DIRECT''), (''result'', payload)] w1 = (Inr u, w2)"
    "reply = [(''tool_invocation_id'', PStr tid), (''status'', PStr ''COMPLETED''), (''result'', payload)]" "w' = w2"
    using assms by (auto simp: direct_body_def act_bind_ok act_lift_ok act_ret_ok)
  then show ?thesis using te_emit_outcome [OF 1(3)] by (auto simp: te_request_def)
qed

lemma direct_body_requests:
  assumes "direct_body x k tid q w = (res, w')"
  shows "te_requests w' = te_requests w \<or> te_requests w' = te_requests w @ [q]"
  using assms
  by (auto simp: direct_body_def act_bind_def act_lift_def act_ret_def te_request_def
      split: sum.splits prod.splits dest!: te_emit_outcome)

text \<open>An answered direct tool call sends at most one request, and the answer is the last event: it says
\<open>COMPLETED\<close> only when the request was answered with success and the completion event was published, with the
result of the response; otherwise it says \<open>FAILED\<close>, and the failure event was published last.\<close>

theorem direct_tool_outcome:
  assumes "te_execute x k w = (Inr reply, w')" and "tk_mode k = M_SYNC_DIRECT"
  shows "\<exists>tid q. dict_get reply ''tool_invocation_id'' = PStr tid \<and> te_direct_request x k = Inr q
     \<and> ((\<exists>r payload e. dict_get reply ''status'' = PStr ''COMPLETED'' \<and> dict_get reply ''result'' = payload
            \<and> te_requests w' = te_requests w @ [q] \<and> ux_http x (te_requests w) q = Inr r \<and> response_payload r = Inr payload
            \<and> tool_event_of e TOOL_ACTION_COMPLETED k tid \<and> te_log w' = te_log w @ [event_record e])
      \<or> (\<exists>e more'. dict_get reply ''status'' = PStr ''FAILED'' \<and> (te_requests w' = te_requests w \<or> te_requests w' = te_requests w @ [q])
            \<and> tool_event_of e TOOL_ACTION_FAILED k tid \<and> te_log w' = te_log w @ more' @ [event_record e]))"
proof -
  obtain tid w1 where i: "te_invocation x k w = (Inr tid, w1)" and d: "te_direct x k tid w1 = (Inr reply, w')"
    using assms by (auto simp: te_execute_def act_bind_ok)
  have w1: "te_requests w1 = te_requests w" "te_log w1 = te_log w" using te_invocation_ok [OF i] by auto
  obtain q where q: "te_direct_request x k = Inr q"
    and t: "act_try (direct_body x k tid q)
       (\<lambda>e. act_bind (te_emit x TOOL_ACTION_FAILED k tid [(''mode'', PStr ''SYNC_DIRECT''), (''error'', PStr (ux_exn_str x e))]) (\<lambda>_.
          act_ret [(''tool_invocation_id'', PStr tid), (''status'', PStr ''FAILED''), (''error'', PStr (ux_exn_str x e))])) w1 = (Inr reply, w')"
    using d unfolding te_direct_def direct_body_def [symmetric] by (auto simp: act_bind_ok act_lift_ok)
  show ?thesis
  proof (cases "direct_body x k tid q w1")
    case (Pair res w2)
    show ?thesis
    proof (cases res)
      case (Inr rp)
      then have "direct_body x k tid q w1 = (Inr reply, w')" using t Pair by (simp add: act_try_def)
      from direct_body_ok [OF this] q w1 show ?thesis by (auto simp: dict_get_def)
    next
      case (Inl e)
      then obtain u where em: "te_emit x TOOL_ACTION_FAILED k tid [(''mode'', PStr ''SYNC_DIRECT''), (''error'', PStr (ux_exn_str x e))] w2 = (Inr u, w')"
        and r: "reply = [(''tool_invocation_id'', PStr tid), (''status'', PStr ''FAILED''), (''error'', PStr (ux_exn_str x e))]"
        using t Pair by (auto simp: act_try_def act_bind_ok act_ret_ok)
      have pre: "\<exists>new. te_log w2 = te_log w1 @ new" using Pair
        by (auto simp: direct_body_def act_bind_def act_lift_def act_ret_def te_request_def
            split: sum.splits prod.splits dest!: te_emit_outcome)
      show ?thesis using te_emit_outcome [OF em] direct_body_requests [OF Pair] pre r q w1 by (auto simp: dict_get_def)
    qed
  qed
qed

text \<open>A completed direct call is reported as failed when the acknowledgement of its completion event is lost:
the request was answered with success and the completion event is stored, but then the failure event is published
too, and the caller is told \<open>FAILED\<close>. (The publication is inside the \<open>try\<close> block of the request.)\<close>

theorem completed_tool_reported_failed:
  assumes "tk_mode k = M_SYNC_DIRECT" and "tk_call k \<noteq> []" "tk_turn k \<noteq> []" and "tk_invocation k = Some tid" "tid \<noteq> []"
    and "te_direct_request x k = Inr q" and "ux_http x (te_requests w) q = Inr r" "response_payload r = Inr payload"
    and "py_float (ux_parse_float x) (dict_get_or (tk_config k) ''timeout_seconds'' (PInt 2)) = Inr t"
    and "\<And>e. ux_publish x (te_sends w) e = Stored_unacknowledged err" "\<And>e. ux_publish x (Suc (te_sends w)) e = Stored"
  shows "\<exists>reply w' e1 e2. te_execute x k w = (Inr reply, w') \<and> dict_get reply ''status'' = PStr ''FAILED''
     \<and> te_requests w' = te_requests w @ [q] \<and> te_log w' = te_log w @ [event_record e1, event_record e2]
     \<and> tool_event_of e1 TOOL_ACTION_COMPLETED k tid \<and> tool_event_of e2 TOOL_ACTION_FAILED k tid"
proof -
  have "te_execute x k w = te_direct x k tid w"
    using assms(1,4,5) by (simp add: te_execute_def te_invocation_def nonempty_def act_bind_def act_ret_def)
  moreover have "te_direct x k tid w = act_try (direct_body x k tid q)
       (\<lambda>e. act_bind (te_emit x TOOL_ACTION_FAILED k tid [(''mode'', PStr ''SYNC_DIRECT''), (''error'', PStr (ux_exn_str x e))]) (\<lambda>_.
          act_ret [(''tool_invocation_id'', PStr tid), (''status'', PStr ''FAILED''), (''error'', PStr (ux_exn_str x e))])) w"
    using assms(6) by (simp add: te_direct_def direct_body_def act_bind_def act_lift_def)
  moreover
  let ?e1 = "tool_event x TOOL_ACTION_COMPLETED k tid [(''mode'', PStr ''SYNC_DIRECT''), (''result'', payload)] (te_ids w)"
  let ?e2 = "tool_event x TOOL_ACTION_FAILED k tid [(''mode'', PStr ''SYNC_DIRECT''), (''error'', PStr (ux_exn_str x err))] (Suc (te_ids w))"
  let ?w2 = "w\<lparr> te_requests := te_requests w @ [q], te_ids := Suc (te_ids w), te_sends := Suc (te_sends w),
               te_log := te_log w @ [event_record ?e1] \<rparr>"
  let ?w3 = "?w2\<lparr> te_ids := Suc (Suc (te_ids w)), te_sends := Suc (Suc (te_sends w)), te_log := te_log ?w2 @ [event_record ?e2] \<rparr>"
  have valid: "pe_valid (tool_event x t k tid p n)" for t p n by (rule tool_event_valid [OF assms(2,3)])
  have "direct_body x k tid q w = (Inl err, ?w2)"
    using assms(7,8,9,10)
    by (simp add: direct_body_def act_bind_def act_lift_def te_request_def te_emit_eq valid te_publish_def send_record_def)
  moreover have "te_emit x TOOL_ACTION_FAILED k tid [(''mode'', PStr ''SYNC_DIRECT''), (''error'', PStr (ux_exn_str x err))] ?w2 = (Inr (), ?w3)"
    using assms(11) by (simp add: te_emit_eq valid te_publish_def send_record_def)
  moreover have "tool_event_of ?e1 TOOL_ACTION_COMPLETED k tid" "tool_event_of ?e2 TOOL_ACTION_FAILED k tid"
    by (simp_all add: tool_event_of_def tool_event_def)
  ultimately show ?thesis
    by (intro exI [of _ "[(''tool_invocation_id'', PStr tid), (''status'', PStr ''FAILED''), (''error'', PStr (ux_exn_str x err))]"]
        exI [of _ ?w3] exI [of _ ?e1] exI [of _ ?e2]) (simp add: act_try_def act_bind_def act_ret_def dict_get_def)
qed

text \<open>Inputs for the witnesses.\<close>

definition ux_demo :: "publication \<Rightarrow> te_ext" where
  "ux_demo p = \<lparr> ux_tc = \<lparr> tx_start = (\<lambda>_. Started), tx_signal = (\<lambda>_. None), tx_carrier = (\<lambda>_. []), tx_queue = ''q'',
       tx_rep = (\<lambda>_. []), tx_health = True \<rparr>,
     ux_publish = (\<lambda>n _. if n = 0 then p else Stored), ux_http = (\<lambda>_ _. Inr \<lparr> hp_status = 200, hp_text = [], hp_json = Inr PNone \<rparr>),
     ux_uuid = (\<lambda>_. ''u''), ux_now = (\<lambda>_. 0), ux_rep = (\<lambda>_. []), ux_parse_float = (\<lambda>_. None), ux_exn_str = (\<lambda>_. ''lost'') \<rparr>"

definition te_demo :: te where
  "te_demo = \<lparr> te_tc = tc_new\<lparr> tc_connected := True \<rparr>, te_log = [], te_sends = 0, te_ids = 0, te_requests = [] \<rparr>"

definition tool_call_demo :: "tool_mode \<Rightarrow> tool_call" where
  "tool_call_demo m = \<lparr> tk_tenant = ''t'', tk_assistant = ''a'', tk_call = ''c1'', tk_turn = ''t1'', tk_name = ''refund'', tk_mode = m,
     tk_arguments = [], tk_config = [(''url'', PStr ''http://crm''), (''tool_name'', PStr ''refund''),
       (''create'', PDict [(''url'', PStr ''http://crm/refunds'')])], tk_invocation = Some ''i1'' \<rparr>"

lemmas te_run_defs = te_execute_def te_invocation_def nonempty_def te_direct_def te_durable_def te_direct_request_def te_request_def
  te_emit_eq te_publish_def send_record_def te_on_tc_def tc_start_durable_action_def tc_require_def tc_start_once_def tc_start_def
  field_str_def dict_item_def dict_get_or_def dict_get_def response_payload_def tool_event_valid act_defs ux_demo_def te_demo_def
  tool_call_demo_def tc_new_def Let_def

lemma tool_config_demo: "\<exists>c. tool_config_of (tk_config (tool_call_demo m)) = Inr c"
  by (simp add: tool_call_demo_def tool_config_of_def http_config_of_def response_mapping_of_def mf_defs mode_of_def)

lemma durable_demo_runs: "\<exists>reply w'. te_execute (ux_demo Stored) (tool_call_demo M_DURABLE_ACTION) te_demo = (Inr reply, w')"
  using tool_config_demo [of M_DURABLE_ACTION] by (auto simp: te_run_defs te_durable_input_def)


lemma direct_tool_outcome_witness:
  "\<exists>reply w'. te_execute (ux_demo Stored) (tool_call_demo M_SYNC_DIRECT) te_demo = (Inr reply, w')
     \<and> length (te_log w') = 1 \<and> length (te_requests w') \<le> 1"
proof -
  obtain reply w' where r: "te_execute (ux_demo Stored) (tool_call_demo M_SYNC_DIRECT) te_demo = (Inr reply, w')"
    and l: "length (te_log w') = 1"
    by (simp add: te_run_defs)
  have m: "tk_mode (tool_call_demo M_SYNC_DIRECT) = M_SYNC_DIRECT" by (simp add: tool_call_demo_def)
  have "te_requests te_demo = []" by (simp add: te_demo_def)
  then have "length (te_requests w') \<le> 1" using direct_tool_outcome [OF r m] by auto
  then show ?thesis using r l by blast
qed

lemma completed_tool_reported_failed_witness:
  "\<exists>reply w'. te_execute (ux_demo (Stored_unacknowledged TimeoutError)) (tool_call_demo M_SYNC_DIRECT) te_demo = (Inr reply, w')
     \<and> dict_get reply ''status'' = PStr ''FAILED'' \<and> length (te_requests w') = 1 \<and> length (te_log w') = 2"
proof -
  let ?x = "ux_demo (Stored_unacknowledged TimeoutError)" and ?k = "tool_call_demo M_SYNC_DIRECT"
  obtain q where q: "te_direct_request ?x ?k = Inr q" by (simp add: te_run_defs)
  have "\<exists>reply w' e1 e2. te_execute ?x ?k te_demo = (Inr reply, w') \<and> dict_get reply ''status'' = PStr ''FAILED''
     \<and> te_requests w' = te_requests te_demo @ [q] \<and> te_log w' = te_log te_demo @ [event_record e1, event_record e2]
     \<and> tool_event_of e1 TOOL_ACTION_COMPLETED ?k ''i1'' \<and> tool_event_of e2 TOOL_ACTION_FAILED ?k ''i1''"
    by (rule completed_tool_reported_failed [OF _ _ _ _ _ q, where r = "\<lparr> hp_status = 200, hp_text = [], hp_json = Inr PNone \<rparr>"
          and payload = "PDict []" and t = 2 and err = TimeoutError])
      (simp_all add: ux_demo_def tool_call_demo_def te_demo_def response_payload_def dict_get_or_def)
  then show ?thesis by (auto simp: te_demo_def)
qed

text \<open>The events of tool calls go to a topic the event worker does not read and \<open>kafka_admin\<close> does not create.\<close>

lemma tool_events_topic: "topic_for_event TOOL_ACTION_COMPLETED = ''tool-events'' \<and> ''tool-events'' \<notin> set TOPICS"
  by (simp add: topic_for_event_def TOPIC_BY_EVENT_PREFIX_def startswith_def TOPICS_def)

end
