(* ===== verification/Slug.thy ===== *)
theory Slug
  imports Py_Str
begin

text \<open>
  The normal form of free text both the analytics normalizer (\<open>_stable_code\<close>) and the
  repository (\<open>_slugify_org\<close>) use: \<open>re.sub("[^a-z0-9]+", sep, s.lower()).strip(sep)\<close>.
\<close>

definition alnum :: "char \<Rightarrow> bool" where
  "alnum c \<longleftrightarrow> (48 \<le> code c \<and> code c \<le> 57) \<or> (97 \<le> code c \<and> code c \<le> 122)"

text \<open>Every maximal run of other characters becomes one separator.\<close>

fun squeeze :: "char \<Rightarrow> string \<Rightarrow> string" where
  "squeeze sep [] = []"
| "squeeze sep (c # cs) =
     (if alnum c then c # squeeze sep cs
      else (case squeeze sep cs of
              [] \<Rightarrow> [sep]
            | d # ds \<Rightarrow> if d = sep then d # ds else sep # d # ds))"

definition slug :: "char \<Rightarrow> string \<Rightarrow> string" where
  "slug sep s = str_strip_chars (squeeze sep (str_lower s)) [sep]"

text \<open>A slug consists of runs of letters and digits joined by single separators.\<close>

definition slug_ok :: "char \<Rightarrow> string \<Rightarrow> bool" where
  "slug_ok sep s \<longleftrightarrow> (\<forall>c \<in> set s. alnum c \<or> c = sep) \<and> (\<forall>i. Suc i < length s \<longrightarrow> s ! i = sep \<longrightarrow> s ! Suc i \<noteq> sep)
     \<and> (s \<noteq> [] \<longrightarrow> hd s \<noteq> sep \<and> last s \<noteq> sep)"

lemma squeeze_chars: "c \<in> set (squeeze sep s) \<Longrightarrow> alnum c \<or> c = sep"
  by (induction sep s rule: squeeze.induct) (auto split: if_splits list.splits)

lemma squeeze_single: "\<not> alnum sep \<Longrightarrow> Suc i < length (squeeze sep s) \<Longrightarrow> squeeze sep s ! i = sep \<Longrightarrow> squeeze sep s ! Suc i \<noteq> sep"
proof (induction s arbitrary: i)
  case (Cons c cs)
  show ?case
  proof (cases "alnum c")
    case True
    then show ?thesis using Cons by (cases i) auto
  next
    case False
    then show ?thesis using Cons by (cases i) (auto split: if_splits list.splits)
  qed
qed simp

lemma strip_with_part: "\<exists>a b. s = a @ strip_with p s @ b"
proof -
  let ?d = "dropWhile p s"
  have "rev ?d = takeWhile p (rev ?d) @ dropWhile p (rev ?d)" by simp
  then have "?d = rev (dropWhile p (rev ?d)) @ rev (takeWhile p (rev ?d))" by (metis rev_append rev_rev_ident)
  then have "s = takeWhile p s @ strip_with p s @ rev (takeWhile p (rev ?d))"
    unfolding strip_with_def by (metis takeWhile_dropWhile_id)
  then show ?thesis by blast
qed

lemma slug_normal:
  assumes "\<not> alnum sep"
  shows "slug_ok sep (slug sep s)"
proof -
  let ?q = "squeeze sep (str_lower s)" and ?p = "\<lambda>c. c \<in> set [sep]"
  obtain a b where q: "?q = a @ strip_with ?p ?q @ b" using strip_with_part by metis
  define r where "r = strip_with ?p ?q"
  have "set r \<subseteq> set ?q" by (subst q) (auto simp: r_def)
  then have chars: "alnum c \<or> c = sep" if "c \<in> set r" for c using that squeeze_chars by blast
  have nth: "?q ! (length a + i) = r ! i" if "i < length r" for i
    using that by (subst q) (simp add: r_def nth_append)
  have len: "length ?q = length a + length r + length b" by (subst q) (simp add: r_def)
  have single: "r ! Suc i \<noteq> sep" if "Suc i < length r" "r ! i = sep" for i
    using nth [of i] nth [of "Suc i"] that len squeeze_single [OF assms, of "length a + i" "str_lower s"] by simp
  have ends: "hd r \<noteq> sep \<and> last r \<noteq> sep" if "r \<noteq> []"
    unfolding r_def using that [unfolded r_def] strip_with_hd [of ?p ?q] strip_with_last [of ?p ?q] by auto
  show ?thesis unfolding slug_ok_def slug_def str_strip_chars_def r_def [symmetric] using chars single ends by blast
qed

end
