(* ===== verification/Analytics.thy ===== *)
theory Analytics
  imports Outbox Slug Config
begin

text \<open>
  The analytics pipeline into ClickHouse (\<open>apps/api/analytics/clickhouse/\<close>): events become flat
  rows whose payload column has its spoken content redacted (\<open>normalizer.py\<close>), the rows are buffered
  and inserted in batches (\<open>writer.py\<close>), and the consumer's handler inserts a batch with growing delays
  between its attempts (\<open>consumer.py\<close>).

  The text of a float or container, parsers of numeric strings and \<open>json.dumps\<close> of the redacted
  payload are arguments, as is what the service answers to each insert. Metrics, spans and the jitter
  of the delays are not modelled.
\<close>

subsection \<open>Rows\<close>

record analytics_ext =
  ax_rep :: "pyv \<Rightarrow> string"
  ax_parse_int :: "string \<Rightarrow> int option"
  ax_parse_float :: "string \<Rightarrow> rat option"
  ax_json :: "pyv \<Rightarrow> string"

record analytics_row =
  an_event_id :: string
  an_event_type :: string
  an_event_version :: int
  an_event_time :: rat
  an_tenant_id :: string
  an_assistant_id :: string
  an_call_id :: string
  an_turn_id :: string
  an_response_id :: string
  an_sequence :: int
  an_stage :: string
  an_provider :: string
  an_model :: string
  an_status :: string
  an_reason_code :: string
  an_latency_ms :: "rat option"
  an_duration_ms :: "rat option"
  an_quantity :: "rat option"
  an_unit :: string
  an_trace_id :: string
  an_idempotency_key :: string
  an_payload_json :: string

definition REDACTED_PAYLOAD_KEYS :: "string list" where
  "REDACTED_PAYLOAD_KEYS =
     [''audio'', ''audio_b64'', ''audio_bytes'', ''chunk'', ''data'', ''delta'', ''final_response'',
      ''generated_text'', ''spoken_text'', ''text'', ''transcript'']"

definition redacted_key :: "string \<Rightarrow> bool" where
  "redacted_key k \<longleftrightarrow> str_lower k \<in> set REDACTED_PAYLOAD_KEYS"

text \<open>\<open>_sanitize_payload\<close>; payloads come from JSON, so they hold no \<open>bytes\<close>.\<close>

fun sanitize :: "pyv \<Rightarrow> pyv" where
  "sanitize (PDict d) = PDict (map (\<lambda>(k, v). (k, if redacted_key k then PStr ''[redacted]'' else sanitize v)) d)"
| "sanitize (PList xs) = PList (map sanitize xs)"
| "sanitize v = v"

definition payload_json :: "analytics_ext \<Rightarrow> dict \<Rightarrow> string" where
  "payload_json x p = ax_json x (sanitize (PDict p))"

text \<open>\<open>_string\<close>, \<open>_number\<close>, \<open>_duration_ms\<close>, \<open>_usage_quantity_unit\<close>\<close>

definition an_string :: "analytics_ext \<Rightarrow> pyv \<Rightarrow> string" where
  "an_string x v = (if v = PNone then [] else py_str (ax_rep x) v)"

definition an_number :: "analytics_ext \<Rightarrow> pyv \<Rightarrow> rat option res" where
  "an_number x v =
     (if v = PNone \<or> v = PStr [] then Inr None
      else case py_float (ax_parse_float x) v of
             Inl _ \<Rightarrow> Inl (NormalizationError ''invalid_number'' ''payload contains invalid number'')
           | Inr q \<Rightarrow> Inr (Some q))"

definition an_duration :: "analytics_ext \<Rightarrow> event_type \<Rightarrow> dict \<Rightarrow> rat option res" where
  "an_duration x t p =
     bindE (an_number x (dict_get p ''duration_ms'')) (\<lambda>ms.
       case ms of
         Some q \<Rightarrow> Inr (Some q)
       | None \<Rightarrow>
           bindE (an_number x (dict_get p ''duration_seconds'')) (\<lambda>s.
             case s of
               Some q \<Rightarrow> Inr (Some (q * 1000))
             | None \<Rightarrow>
                 if t = CALL_ENDED then
                   bindE (an_number x (dict_get p ''call_duration_seconds'')) (\<lambda>c. Inr (map_option (\<lambda>q. q * 1000) c))
                 else Inr None))"

definition an_usage :: "analytics_ext \<Rightarrow> dict \<Rightarrow> (rat option \<times> string) res" where
  "an_usage x p =
     bindE (an_number x (dict_get p ''quantity'')) (\<lambda>q.
       let unit = an_string x (dict_get p ''unit'') in
       if q \<noteq> None then Inr (q, unit)
       else case dict_get p ''measurements'' of
              PList (PDict first # _) \<Rightarrow>
                bindE (an_number x (dict_get first ''quantity'')) (\<lambda>q'. Inr (q', an_string x (dict_get first ''unit'')))
            | _ \<Rightarrow> Inr (None, unit))"

text \<open>\<open>_stable_code\<close>, \<open>_status_for\<close>, \<open>_stable_error_code\<close>, \<open>_reason_code\<close>\<close>

definition stable_code :: "string \<Rightarrow> string" where
  "stable_code s =
     (let t = take 80 (slug (CHR ''_'') (str_strip s)) in if t = [] then ''unknown'' else t)"

definition status_of_type :: "event_type \<Rightarrow> string" where
  "status_of_type t =
     (case List.find (\<lambda>(u, s). u = t)
        [(CALL_STARTED, ''started''), (CALL_ENDED, ''completed''), (CALL_FAILED, ''failed''),
         (BILLING_FINALIZED, ''finalized''), (PIPELINE_CORKED, ''corked''), (PIPELINE_UNCORKED, ''uncorked''),
         (PIPELINE_RESPONSE_CANCELLED, ''cancelled''), (PIPELINE_STALE_CHUNK_DROPPED, ''dropped''),
         (USER_BARGE_IN_CANDIDATE, ''candidate''), (USER_BARGE_IN_CONFIRMED, ''confirmed''),
         (USER_BARGE_IN_REJECTED, ''rejected''), (VAD_NOISE_TURN_IGNORED, ''ignored''), (PROVIDER_FAILED, ''failed''),
         (WEBHOOK_DELIVERED, ''delivered''), (WEBHOOK_FAILED, ''failed''), (WORKFLOW_DONE, ''done'')] of
        Some (u, s) \<Rightarrow> s
      | None \<Rightarrow> [])"

definition status_for :: "analytics_ext \<Rightarrow> event_type \<Rightarrow> dict \<Rightarrow> string" where
  "status_for x t p =
     (if truthy (dict_get p ''status'') then stable_code (py_str (ax_rep x) (dict_get p ''status'')) else status_of_type t)"

definition stable_error_code :: "string \<Rightarrow> string" where
  "stable_error_code s =
     (let l = str_lower s in
      if str_contains ''timeout'' l then ''timeout''
      else if str_contains ''rate'' l \<and> str_contains ''limit'' l then ''rate_limited''
      else if str_contains ''auth'' l \<or> str_contains ''api key'' l \<or> str_contains ''credential'' l then ''auth_failed''
      else if str_contains ''connect'' l \<or> str_contains ''network'' l then ''network_error''
      else ''provider_error'')"

definition reason_code_of :: "analytics_ext \<Rightarrow> dict \<Rightarrow> string" where
  "reason_code_of x p =
     (case List.find truthy (map (dict_get p) [''reason_code'', ''reason'', ''error_type'', ''category'']) of
        Some v \<Rightarrow> stable_code (py_str (ax_rep x) v)
      | None \<Rightarrow>
          if truthy (dict_get p ''error'') then stable_error_code (py_str (ax_rep x) (dict_get p ''error'')) else [])"

text \<open>\<open>normalize_pipeline_event\<close>; the fields are computed in the order of the code.\<close>

definition normalize_event :: "analytics_ext \<Rightarrow> pevent \<Rightarrow> analytics_row res" where
  "normalize_event x e =
     (let p = pe_payload e; t = pe_event_type e in
      bindE (an_number x (py_or (dict_get p ''latency_ms'') (dict_get p ''first_token_latency_ms''))) (\<lambda>latency.
      bindE (an_duration x t p) (\<lambda>duration.
      bindE (an_usage x p) (\<lambda>(quantity, unit).
      bindE (py_int (ax_parse_int x) (py_or (dict_get p ''event_version'') (PInt 1))) (\<lambda>version.
      bindE (py_int (ax_parse_int x) (py_or (dict_get p ''sequence'') (PInt (pe_seq e)))) (\<lambda>sequence.
        Inr \<lparr> an_event_id = pe_event_id e, an_event_type = event_value t, an_event_version = version,
              an_event_time = pe_timestamp e,
              an_tenant_id = an_string x (py_or (dict_get p ''tenant_id'') (PStr ''local-demo-tenant'')),
              an_assistant_id = an_string x (py_or (dict_get p ''assistant_id'') (PStr ''local-demo-assistant'')),
              an_call_id = pe_call_id e,
              an_turn_id = an_string x (py_or (dict_get p ''turn_id'') (PStr (pe_turn_id e))),
              an_response_id = an_string x (dict_get p ''response_id''), an_sequence = sequence,
              an_stage = py_str (ax_rep x) (py_or (dict_get p ''stage'') (PStr (pe_stage e))),
              an_provider = an_string x (dict_get p ''provider''), an_model = an_string x (dict_get p ''model''),
              an_status = status_for x t p, an_reason_code = reason_code_of x p, an_latency_ms = latency,
              an_duration_ms = duration, an_quantity = quantity, an_unit = unit,
              an_trace_id = (case pe_trace_id e of
                               Some tr \<Rightarrow> if tr = [] then an_string x (dict_get p ''trace_id'') else tr
                             | None \<Rightarrow> an_string x (dict_get p ''trace_id'')),
              an_idempotency_key = pe_key e, an_payload_json = payload_json x p \<rparr>))))))"

text \<open>A code is short and has the character set of an identifier.\<close>

lemma stable_code_form: "length (stable_code s) \<le> 80 \<and> stable_code s \<noteq> [] \<and> (\<forall>c \<in> set (stable_code s). alnum c \<or> c = CHR ''_'')"
proof -
  have "\<not> alnum CHR ''_''" by code_simp
  from slug_normal [OF this, of "str_strip s"] have "\<forall>c \<in> set (slug CHR ''_'' (str_strip s)). alnum c \<or> c = CHR ''_''"
    by (simp add: slug_ok_def)
  moreover have "\<forall>c \<in> set ''unknown''. alnum c" by code_simp
  ultimately show ?thesis by (auto simp: stable_code_def Let_def dest: in_set_takeD)
qed

subsection \<open>What a row reveals\<close>

text \<open>Two values that differ at most below redacted keys.\<close>

inductive same_public :: "pyv \<Rightarrow> pyv \<Rightarrow> bool" where
  same_value: "same_public v v"
| same_dict: "list_all2 (\<lambda>a b. fst a = fst b \<and> (redacted_key (fst a) \<or> same_public (snd a) (snd b))) d d' \<Longrightarrow> same_public (PDict d) (PDict d')"
| same_list: "list_all2 same_public xs ys \<Longrightarrow> same_public (PList xs) (PList ys)"
monos list_all2_mono

inductive_cases same_public_dictE: "same_public (PDict d) w"
inductive_cases same_public_listE: "same_public (PList xs) w"

fun scalar :: "pyv \<Rightarrow> bool" where
  "scalar (PDict d) = False"
| "scalar (PList xs) = False"
| "scalar v = True"

lemma same_public_scalar: "same_public v w \<Longrightarrow> scalar v \<Longrightarrow> w = v"
  by (induction rule: same_public.cases) auto

lemma same_public_truthy: "same_public v w \<Longrightarrow> truthy w = truthy v"
  by (erule same_public.cases) (auto dest: list_all2_lengthD)

lemma same_public_sanitize: "same_public v w \<Longrightarrow> sanitize v = sanitize w"
proof (induction rule: same_public.induct)
  case (same_dict d d')
  then have "map (\<lambda>(k, v). (k, if redacted_key k then PStr ''[redacted]'' else sanitize v)) d
      = map (\<lambda>(k, v). (k, if redacted_key k then PStr ''[redacted]'' else sanitize v)) d'"
    by (induction rule: list_all2_induct) (auto simp: case_prod_beta)
  then show ?case by simp
next
  case (same_list xs ys)
  then have "map sanitize xs = map sanitize ys" by (induction rule: list_all2_induct) auto
  then show ?case by simp
qed simp

lemma same_public_get:
  assumes "same_public (PDict p) (PDict q)" and "\<not> redacted_key k"
  shows "same_public (dict_get p k) (dict_get q k)"
  using assms(1)
proof (cases rule: same_public.cases)
  case same_dict
  from this(1) show ?thesis
  proof (induction rule: list_all2_induct)
    case (Cons a p b q)
    then show ?case using assms(2)
      by (cases a; cases b) (auto simp: dict_get_def)
  qed (simp add: same_value)
qed (simp add: same_value)

text \<open>The columns read a text out of these payload fields; a container there would be written out as a text.\<close>

definition text_columns :: "string list" where
  "text_columns =
     [''status'', ''reason_code'', ''reason'', ''error_type'', ''category'', ''error'', ''tenant_id'', ''assistant_id'', ''turn_id'',
      ''response_id'', ''stage'', ''provider'', ''model'', ''unit'', ''trace_id'']"

definition plain_columns :: "dict \<Rightarrow> bool" where
  "plain_columns p \<longleftrightarrow> list_all (\<lambda>k. scalar (dict_get p k)) text_columns
     \<and> (case dict_get p ''measurements'' of PList (PDict first # _) \<Rightarrow> scalar (dict_get first ''unit'') | _ \<Rightarrow> True)"

lemma an_number_same: "same_public v w \<Longrightarrow> an_number x v = an_number x w"
  by (erule same_public.cases) (auto simp: an_number_def)

lemma py_int_same: "same_public v w \<Longrightarrow> py_int f v = py_int f w"
  by (erule same_public.cases) auto

lemma py_or_same: "same_public v w \<Longrightarrow> same_public v' w' \<Longrightarrow> same_public (py_or v v') (py_or w w')"
  using same_public_truthy [of v w] by (simp add: py_or_def)

lemma open_keys [simp]: "\<not> redacted_key ''measurements''" "\<not> redacted_key ''quantity''" "\<not> redacted_key ''unit''"
    "\<not> redacted_key ''latency_ms''" "\<not> redacted_key ''first_token_latency_ms''" "\<not> redacted_key ''duration_ms''"
    "\<not> redacted_key ''duration_seconds''" "\<not> redacted_key ''call_duration_seconds''" "\<not> redacted_key ''event_version''"
    "\<not> redacted_key ''sequence''"
  by (simp_all add: redacted_key_def REDACTED_PAYLOAD_KEYS_def str_lower_def char_lower_def code_def)

lemma text_columns_open: "k \<in> set text_columns \<Longrightarrow> \<not> redacted_key k"
  by (auto simp: text_columns_def redacted_key_def REDACTED_PAYLOAD_KEYS_def str_lower_def char_lower_def code_def)

lemma text_column_same:
  assumes "same_public (PDict p) (PDict q)" and "plain_columns p" and "k \<in> set text_columns"
  shows "dict_get q k = dict_get p k"
proof -
  have "scalar (dict_get p k)" using assms(2,3) by (auto simp: plain_columns_def list_all_iff)
  then show ?thesis using same_public_scalar same_public_get [OF assms(1) text_columns_open [OF assms(3)]] by blast
qed

lemma an_usage_same:
  assumes s: "same_public (PDict p) (PDict q)" and plain: "plain_columns p"
  shows "an_usage x p = an_usage x q"
proof -
  have q: "an_number x (dict_get p ''quantity'') = an_number x (dict_get q ''quantity'')"
    by (rule an_number_same [OF same_public_get [OF s]]) simp
  have u: "dict_get q ''unit'' = dict_get p ''unit''"
    by (rule text_column_same [OF s plain]) (simp add: text_columns_def)
  have m: "same_public (dict_get p ''measurements'') (dict_get q ''measurements'')" by (rule same_public_get [OF s]) simp
  let ?f = "\<lambda>d un. case dict_get d ''measurements'' of
       PList (PDict first # _) \<Rightarrow>
         bindE (an_number x (dict_get first ''quantity'')) (\<lambda>q'. Inr (q', an_string x (dict_get first ''unit'')))
     | _ \<Rightarrow> Inr (None, un)"
  have f: "?f p un = ?f q un" for un
    using m
  proof (cases rule: same_public.cases)
    case (same_list xs ys)
    show ?thesis
    proof (cases xs)
      case Nil
      then show ?thesis using same_list by simp
    next
      case (Cons a as)
      then obtain b bs where b: "ys = b # bs" "same_public a b" using same_list(3) by (auto simp: list_all2_Cons1)
      have plain1: "a = PDict d \<Longrightarrow> scalar (dict_get d ''unit'')" for d
        using plain same_list(1) Cons by (simp add: plain_columns_def)
      from b(2) show ?thesis
      proof (cases rule: same_public.cases)
        case (same_dict d d')
        have ab: "same_public (PDict d) (PDict d')" using b(2) same_dict by simp
        have "an_number x (dict_get d ''quantity'') = an_number x (dict_get d' ''quantity'')"
          by (rule an_number_same [OF same_public_get [OF ab]]) simp
        moreover have "dict_get d' ''unit'' = dict_get d ''unit''"
          using same_public_scalar [OF same_public_get [OF ab] plain1 [OF same_dict(1)]] by simp
        ultimately show ?thesis using same_list Cons b(1) same_dict by simp
      qed (use same_list Cons b(1) in auto)
    qed
  qed auto
  show ?thesis unfolding an_usage_def q u Let_def using f by (simp cong: if_cong)
qed

lemma an_duration_same:
  assumes "same_public (PDict p) (PDict q)"
  shows "an_duration x t p = an_duration x t q"
proof -
  have "an_number x (dict_get p k) = an_number x (dict_get q k)" if "\<not> redacted_key k" for k
    by (rule an_number_same [OF same_public_get [OF assms that]])
  then show ?thesis unfolding an_duration_def by simp
qed

lemma status_for_same: "dict_get q ''status'' = dict_get p ''status'' \<Longrightarrow> status_for x t q = status_for x t p"
  by (simp add: status_for_def)

lemma reason_same: "(\<And>k. k \<in> set text_columns \<Longrightarrow> dict_get q k = dict_get p k) \<Longrightarrow> reason_code_of x q = reason_code_of x p"
  by (simp add: reason_code_of_def text_columns_def)


definition analytics_ext_demo :: analytics_ext where
  "analytics_ext_demo = \<lparr> ax_rep = (\<lambda>_. []), ax_parse_int = (\<lambda>_. None), ax_parse_float = (\<lambda>_. None),
     ax_json = (\<lambda>v. case v of PDict d \<Rightarrow> concat (map fst d) | _ \<Rightarrow> []) \<rparr>"

definition spoken_demo :: "string \<Rightarrow> pevent" where
  "spoken_demo s = \<lparr> pe_event_id = ''e1'', pe_call_id = ''c1'', pe_turn_id = ''t1'', pe_event_type = CALL_ENDED, pe_stage = ''stt'',
     pe_timestamp = 0, pe_seq = 3, pe_key = ''k'',
     pe_payload = [(''provider'', PStr ''openai''), (''Transcript'', PStr s), (''turns'', PList [PDict [(''text'', PStr s)]])], pe_trace_id = None \<rparr>"


end
