(* ===== verification/Batch_Handler.thy ===== *)
theory Batch_Handler
  imports Kafka
begin

text \<open>
  The contract between the batching consumer and the handler it is given: an invariant of the
  handler's world, what accepting a batch establishes, and that no later batch undoes it. The
  consumer then establishes it for every batch below the offsets it commits.
\<close>

locale batch_handler =
  fixes handler :: "consumed list \<Rightarrow> 'w \<Rightarrow> 'w \<times> exn option"
    and world_ok :: "'w \<Rightarrow> bool"
    and accepted :: "consumed list \<Rightarrow> 'w \<Rightarrow> bool"
  assumes handler_ok: "world_ok w \<Longrightarrow> handler b w = (w', r) \<Longrightarrow> world_ok w'"
    and handler_accepts: "world_ok w \<Longrightarrow> handler b w = (w', None) \<Longrightarrow> accepted b w'"
    and handler_keeps: "world_ok w \<Longrightarrow> handler b w = (w', r) \<Longrightarrow> accepted b' w \<Longrightarrow> accepted b' w'"
begin

definition consumer_ok :: "'w kc \<Rightarrow> bool" where
  "consumer_ok k \<longleftrightarrow> world_ok (kc_world k) \<and> (\<forall>b \<in> set (kc_handled k). accepted b (kc_world k))"

lemma flush_ok:
  assumes "kc_flush handler now k = (k', r)" and "consumer_ok k"
  shows "consumer_ok k'"
proof -
  obtain w e where h: "handler (kc_buffered k) (kc_world k) = (w, e)" by (metis surj_pair)
  have ok: "world_ok (kc_world k)" "\<forall>b \<in> set (kc_handled k). accepted b (kc_world k)"
    using assms(2) by (auto simp: consumer_ok_def)
  have "kc_world k' = w" "kc_handled k' = kc_handled k \<or> e = None \<and> kc_handled k' = kc_handled k @ [kc_buffered k]"
    using assms(1) h by (auto simp: kc_flush_def Let_def split: option.splits)
  then show ?thesis
    using handler_ok [OF ok(1) h] handler_keeps [OF ok(1) h] handler_accepts [OF ok(1)] h ok(2) by (auto simp: consumer_ok_def)
qed

lemma cycle_ok:
  assumes "kc_cycle getmany decode handler t1 t2 t3 k = (k', r)" and "consumer_ok k"
  shows "consumer_ok k'"
  using assms by (auto simp: kc_cycle_def consumer_ok_def Let_def split: sum.splits if_splits dest!: flush_ok)

lemma run_ok: "kc_run decode handler turns k = (k', r) \<Longrightarrow> consumer_ok k \<Longrightarrow> consumer_ok k'"
proof (induction turns arbitrary: k)
  case (Cons turn turns)
  obtain g t1 t2 t3 where t: "turn = (g, t1, t2, t3)" by (metis prod_cases4)
  obtain k1 r1 where c: "kc_cycle g decode handler t1 t2 t3 k = (k1, r1)" by (metis surj_pair)
  have "consumer_ok k1" by (rule cycle_ok [OF c Cons.prems(2)])
  then show ?case using Cons t c by (cases r1) auto
qed simp

lemma new_run_ok:
  assumes "kc_run decode handler turns (kc_new bsize timeout now m w) = (k, r)" and "world_ok w"
  shows "\<forall>b \<in> set (kc_handled k). accepted b (kc_world k)"
  using run_ok [OF assms(1)] assms(2) by (simp add: consumer_ok_def kc_new_def)

end

end
