(* ===== verification/Analytics_Writer.thy ===== *)
theory Analytics_Writer
  imports Analytics Batch_Handler Effects
begin

text \<open>
  The batch writer and the consumer of the analytics pipeline
  (\<open>apps/api/analytics/clickhouse/writer.py\<close> and \<open>consumer.py\<close>). An insert of the service can fail
  before it took effect or after; its answers are the argument \<open>cx_insert\<close>, by the number of inserts
  sent so far. Clock readings are arguments too. The handler runs on one task, so the writer's lock
  is always free.
\<close>

definition CLICKHOUSE_CONSUMER_GROUP :: string where
  "CLICKHOUSE_CONSUMER_GROUP = ''voicemesh-clickhouse-analytics''"

definition CLICKHOUSE_TOPICS :: "string list" where
  "CLICKHOUSE_TOPICS = [''call-events'', ''pipeline-events'', ''provider-events'', ''usage-events'', ''billing-events'',
     ''tool-events'', ''webhook-events'']"

record cw =
  cw_rows :: "analytics_row list"
  cw_first :: "rat option"
  cw_table :: "analytics_row list"
  cw_inserts :: nat
  cw_readings :: nat

record cw_ext =
  cx_norm :: analytics_ext
  cx_settings :: clickhouse_settings
  cx_insert :: "nat \<Rightarrow> publication"
  cx_now :: "nat \<Rightarrow> rat"

type_synonym 'a writer = "(cw, 'a) act"

definition cw_new :: cw where
  "cw_new = \<lparr> cw_rows = [], cw_first = None, cw_table = [], cw_inserts = 0, cw_readings = 0 \<rparr>"

text \<open>\<open>insert_rows\<close> and the client's \<open>insert_voice_events\<close>\<close>

definition cw_insert_rows :: "cw_ext \<Rightarrow> analytics_row list \<Rightarrow> unit writer" where
  "cw_insert_rows x rows w =
     (if rows = [] then (Inr (), w)
      else case cx_insert x (cw_inserts w) of
             Stored \<Rightarrow> (Inr (), w\<lparr> cw_inserts := Suc (cw_inserts w), cw_table := cw_table w @ rows \<rparr>)
           | Stored_unacknowledged e \<Rightarrow> (Inl e, w\<lparr> cw_inserts := Suc (cw_inserts w), cw_table := cw_table w @ rows \<rparr>)
           | Not_stored e \<Rightarrow> (Inl e, w\<lparr> cw_inserts := Suc (cw_inserts w) \<rparr>))"

definition cw_flush :: "cw_ext \<Rightarrow> nat writer" where
  "cw_flush x =
     ask (\<lambda>w.
       let rows = cw_rows w in
       act_bind (upd (\<lambda>w. w\<lparr> cw_rows := [], cw_first := None \<rparr>)) (\<lambda>_.
         if rows = [] then act_ret 0
         else act_bind (cw_insert_rows x rows) (\<lambda>_. act_ret (length rows))))"

text \<open>The clock is only read for the first row.\<close>

definition cw_buffer :: "cw_ext \<Rightarrow> analytics_row \<Rightarrow> cw \<Rightarrow> cw" where
  "cw_buffer x r w =
     (let w1 = (if cw_rows w = [] then w\<lparr> cw_first := Some (cx_now x (cw_readings w)), cw_readings := Suc (cw_readings w) \<rparr> else w)
      in w1\<lparr> cw_rows := cw_rows w1 @ [r] \<rparr>)"

definition cw_add :: "cw_ext \<Rightarrow> analytics_row \<Rightarrow> unit writer" where
  "cw_add x r =
     act_bind (upd (cw_buffer x r)) (\<lambda>_.
       ask (\<lambda>w. if ch_batch_max_rows (cx_settings x) \<le> int (length (cw_rows w))
                then act_bind (cw_flush x) (\<lambda>_. act_ret ()) else act_ret ()))"

definition cw_flush_if_due :: "cw_ext \<Rightarrow> unit writer" where
  "cw_flush_if_due x =
     ask (\<lambda>w.
       case cw_first w of
         Some t \<Rightarrow>
           if cw_rows w \<noteq> [] then
             act_bind (upd (\<lambda>w. w\<lparr> cw_readings := Suc (cw_readings w) \<rparr>)) (\<lambda>_.
               if ch_batch_flush_seconds (cx_settings x) \<le> cx_now x (cw_readings w) - t
               then act_bind (cw_flush x) (\<lambda>_. act_ret ()) else act_ret ())
           else act_ret ()
       | None \<Rightarrow> act_ret ())"

subsection \<open>The consumer's handler\<close>

text \<open>One pass over the rows\<close>

definition cw_attempt :: "cw_ext \<Rightarrow> analytics_row list \<Rightarrow> unit writer" where
  "cw_attempt x rows = act_bind (act_for rows (cw_add x)) (\<lambda>_. act_bind (cw_flush x) (\<lambda>_. act_ret ()))"

lemma nat_less_two_power: "(2 :: int) ^ n \<le> m \<Longrightarrow> int n < m"
  using of_nat_less_two_power [of n] by (rule less_le_trans)

text \<open>\<open>_insert_with_retry\<close>: the delay after \<open>n\<close> failures is \<open>2^n\<close> seconds.\<close>

function cw_retry :: "cw_ext \<Rightarrow> analytics_row list \<Rightarrow> nat \<Rightarrow> unit writer" where
  "cw_retry x rows n =
     act_try (cw_attempt x rows)
       (\<lambda>e. if ch_max_retry_seconds (cx_settings x) < 2 ^ n then act_raise e else cw_retry x rows (Suc n))"
  by pat_completeness auto

termination
  by (relation "measure (\<lambda>(x, rows, n). nat (ch_max_retry_seconds (cx_settings x)) - n)")
     (auto simp: not_less dest: nat_less_two_power)

declare cw_retry.simps [simp del]

text \<open>The rows of a batch: events that are rejected are left out; another exception ends the batch.\<close>

fun cw_normalize :: "cw_ext \<Rightarrow> consumed list \<Rightarrow> analytics_row list res" where
  "cw_normalize x [] = Inr []"
| "cw_normalize x (c # cs) =
     (case normalize_event (cx_norm x) (co_event c) of
        Inl (NormalizationError reason msg) \<Rightarrow> cw_normalize x cs
      | Inl e \<Rightarrow> Inl e
      | Inr row \<Rightarrow> bindE (cw_normalize x cs) (\<lambda>rows. Inr (row # rows)))"

definition cw_handle_batch :: "cw_ext \<Rightarrow> consumed list \<Rightarrow> unit writer" where
  "cw_handle_batch x batch =
     act_bind (act_lift (cw_normalize x batch)) (\<lambda>rows. if rows = [] then act_ret () else cw_retry x rows 0)"

definition cw_handler :: "cw_ext \<Rightarrow> consumed list \<Rightarrow> cw \<Rightarrow> cw \<times> exn option" where
  "cw_handler x cs w = (case cw_handle_batch x cs w of (Inl e, w1) \<Rightarrow> (w1, Some e) | (Inr _, w1) \<Rightarrow> (w1, None))"

text \<open>\<open>run\<close>: nothing when analytics are disabled; a failing \<open>ping\<close> ends it at once.\<close>

definition analytics_run ::
  "cw_ext \<Rightarrow> exn option \<Rightarrow> (string \<Rightarrow> pevent res) \<Rightarrow> ((int \<Rightarrow> int \<Rightarrow> records) \<times> rat \<times> rat \<times> rat) list \<Rightarrow> rat
   \<Rightarrow> (tp \<Rightarrow> int option) \<Rightarrow> cw \<Rightarrow> cw kc \<times> exn option" where
  "analytics_run x ping decode turns now m w =
     (let k = kc_new (ch_batch_max_rows (cx_settings x)) (of_int (rat_trunc (ch_batch_flush_seconds (cx_settings x) * 1000))) now m w
      in if \<not> ch_enabled (cx_settings x) then (k, None)
         else case ping of Some e \<Rightarrow> (k, Some e) | None \<Rightarrow> kc_run decode (cw_handler x) turns k)"

definition cw_close :: "cw_ext \<Rightarrow> unit writer" where
  "cw_close x = act_bind (cw_flush x) (\<lambda>_. act_ret ())"

subsection \<open>What an attempt stores\<close>

definition cw_all :: "cw \<Rightarrow> analytics_row list" where
  "cw_all w = cw_table w @ cw_rows w"

text \<open>Either every row got to the table or the buffer, in order, or the buffer is empty and only a first part did.\<close>

definition stores :: "analytics_row list \<Rightarrow> cw \<Rightarrow> 'a res \<times> cw \<Rightarrow> bool" where
  "stores rows w out \<longleftrightarrow>
     (case out of
        (Inr _, w') \<Rightarrow> cw_all w' = cw_all w @ rows
      | (Inl _, w') \<Rightarrow> cw_rows w' = [] \<and> (\<exists>p. prefix p (cw_rows w @ rows) \<and> cw_table w' = cw_table w @ p))
     \<and> prefix (cw_table w) (cw_table (snd out))"

lemma cw_flush_cases:
  "cw_flush x w = (if cw_rows w = [] then (Inr 0, w\<lparr> cw_rows := [], cw_first := None \<rparr>)
     else (case cw_insert_rows x (cw_rows w) (w\<lparr> cw_rows := [], cw_first := None \<rparr>) of
             (Inl e, w') \<Rightarrow> (Inl e, w') | (Inr _, w') \<Rightarrow> (Inr (length (cw_rows w)), w')))"
  by (auto simp: cw_flush_def ask_def upd_def act_bind_def act_ret_def Let_def split: prod.split sum.split)

lemma cw_flush_stores: "stores [] w (cw_flush x w) \<and> cw_rows (snd (cw_flush x w)) = []"
  by (auto simp: cw_flush_cases cw_insert_rows_def stores_def cw_all_def split: publication.split)

lemma cw_buffer_sel: "cw_rows (cw_buffer x r w) = cw_rows w @ [r]" "cw_table (cw_buffer x r w) = cw_table w"
    "cw_inserts (cw_buffer x r w) = cw_inserts w"
  by (auto simp: cw_buffer_def Let_def)

lemma cw_add_cases:
  "cw_add x r w =
     (if ch_batch_max_rows (cx_settings x) \<le> int (length (cw_rows w) + 1) then
        (case cw_flush x (cw_buffer x r w) of (Inl e, w') \<Rightarrow> (Inl e, w') | (Inr _, w') \<Rightarrow> (Inr (), w'))
      else (Inr (), cw_buffer x r w))"
  by (auto simp: cw_add_def ask_def upd_def act_bind_def act_ret_def cw_buffer_sel split: prod.split sum.split)

lemma cw_add_stores: "stores [r] w (cw_add x r w)"
proof -
  obtain res w' where f: "cw_flush x (cw_buffer x r w) = (res, w')" by (metis surj_pair)
  show ?thesis using cw_flush_stores [of "cw_buffer x r w" x] f
    by (auto simp: cw_add_cases stores_def cw_all_def cw_buffer_sel split: sum.splits)
qed

lemma stores_step:
  assumes "stores xs w (Inr u, w1)" and "stores ys w1 out"
  shows "stores (xs @ ys) w out"
proof -
  obtain res w' where o: "out = (res, w')" by (metis surj_pair)
  have all: "cw_table w1 @ cw_rows w1 = (cw_table w @ cw_rows w) @ xs" and pre: "prefix (cw_table w) (cw_table w1)"
    using assms(1) by (simp_all add: stores_def cw_all_def)
  have pre2: "prefix (cw_table w) (cw_table w')" using pre assms(2) o by (auto simp: stores_def)
  show ?thesis
  proof (cases res)
    case (Inr v)
    then show ?thesis using assms(2) o all pre2 by (simp add: stores_def cw_all_def)
  next
    case (Inl e)
    then obtain p where p: "prefix p (cw_rows w1 @ ys)" "cw_table w' = cw_table w1 @ p" "cw_rows w' = []"
      using assms(2) o by (auto simp: stores_def)
    obtain d where d: "cw_table w1 = cw_table w @ d" using pre by (auto simp: prefix_def)
    have "prefix (d @ p) (d @ cw_rows w1 @ ys)" using p(1) by simp
    moreover have "d @ cw_rows w1 @ ys = cw_rows w @ xs @ ys" using all d by simp
    ultimately have "prefix (d @ p) (cw_rows w @ xs @ ys)" by simp
    then show ?thesis using Inl o p d pre2 by (auto simp: stores_def)
  qed
qed

lemma for_add_stores: "stores rows w (act_for rows (cw_add x) w)"
proof (induction rows arbitrary: w)
  case Nil
  then show ?case by (simp add: stores_def act_ret_def)
next
  case (Cons r rows)
  obtain res w1 where a: "cw_add x r w = (res, w1)" by (metis surj_pair)
  have one: "stores [r] w (res, w1)" using cw_add_stores [of r w x] a by simp
  show ?case
  proof (cases res)
    case (Inr u)
    then show ?thesis using stores_step [OF one [unfolded Inr] Cons.IH [of w1]] a by (simp add: act_bind_def)
  next
    case (Inl e)
    have "prefix p (cw_rows w @ [r]) \<Longrightarrow> prefix p (cw_rows w @ r # rows)" for p
      using prefix_order.order_trans [of p "cw_rows w @ [r]" "cw_rows w @ r # rows"] by simp
    then show ?thesis using one Inl a by (auto simp: act_bind_def stores_def)
  qed
qed

lemma attempt_stores: "stores rows w (cw_attempt x rows w) \<and> (\<forall>u w'. cw_attempt x rows w = (Inr u, w') \<longrightarrow> cw_rows w' = [])"
proof -
  obtain res w1 where a: "act_for rows (cw_add x) w = (res, w1)" by (metis surj_pair)
  obtain res2 w2 where f: "cw_flush x w1 = (res2, w2)" by (metis surj_pair)
  have one: "stores rows w (res, w1)" using for_add_stores [of rows w x] a by simp
  show ?thesis
  proof (cases res)
    case (Inr u)
    have "stores [] w1 (res2, w2)" "cw_rows w2 = []" using cw_flush_stores [of w1 x] f by auto
    then have "stores (rows @ []) w (res2, w2)" using stores_step [OF one [unfolded Inr]] by blast
    then show ?thesis using Inr a f \<open>cw_rows w2 = []\<close>
      by (auto simp: cw_attempt_def act_bind_def act_ret_def stores_def split: sum.splits)
  next
    case (Inl e)
    then show ?thesis using a one by (auto simp: cw_attempt_def act_bind_def stores_def)
  qed
qed

text \<open>An attempt with an empty buffer and no more rows than a batch has inserts at most once.\<close>

lemma insert_rows_once: "cw_inserts (snd (cw_insert_rows x rows w)) \<le> Suc (cw_inserts w)"
  by (auto simp: cw_insert_rows_def split: publication.split)

lemma flush_once: "cw_inserts (snd (cw_flush x w)) \<le> Suc (cw_inserts w)"
  using insert_rows_once [of x "cw_rows w" "w\<lparr> cw_rows := [], cw_first := None \<rparr>"]
  by (auto simp: cw_flush_cases split: sum.split prod.split)

lemma for_add_buffers:
  assumes "int (length (cw_rows w) + length rows) < ch_batch_max_rows (cx_settings x)"
  shows "\<exists>w'. act_for rows (cw_add x) w = (Inr (), w') \<and> cw_rows w' = cw_rows w @ rows \<and> cw_inserts w' = cw_inserts w"
  using assms
proof (induction rows arbitrary: w)
  case (Cons r rows)
  have "cw_add x r w = (Inr (), cw_buffer x r w)" using Cons.prems by (simp add: cw_add_cases)
  then show ?case using Cons.IH [of "cw_buffer x r w"] Cons.prems by (auto simp: act_bind_def cw_buffer_sel)
qed (simp add: act_ret_def)

lemma act_for_snoc: "act_for (xs @ [y]) f s = act_bind (act_for xs f) (\<lambda>_. f y) s"
proof (induction xs arbitrary: s)
  case Nil
  then show ?case by (auto simp: act_bind_def act_ret_def split: prod.split sum.split)
next
  case (Cons x xs)
  then show ?case by (auto simp: act_bind_def split: prod.split sum.split)
qed

lemma attempt_once:
  assumes "cw_rows w = []" and "int (length rows) \<le> ch_batch_max_rows (cx_settings x)"
  shows "cw_inserts (snd (cw_attempt x rows w)) \<le> Suc (cw_inserts w)"
proof (cases rows rule: rev_cases)
  case Nil
  then show ?thesis using flush_once [of x w]
    by (auto simp: cw_attempt_def act_bind_def act_ret_def split: prod.split sum.split)
next
  case (snoc rs r)
  obtain w1 where w1: "act_for rs (cw_add x) w = (Inr (), w1)" "cw_rows w1 = rs" "cw_inserts w1 = cw_inserts w"
    using for_add_buffers [of w rs x] assms snoc by auto
  have all: "cw_attempt x rows w = act_bind (cw_add x r) (\<lambda>_. act_bind (cw_flush x) (\<lambda>_. act_ret ())) w1"
    using w1(1) by (simp add: cw_attempt_def snoc act_for_snoc act_bind_def)
  show ?thesis
  proof (cases "ch_batch_max_rows (cx_settings x) \<le> int (length rs + 1)")
    case True
    obtain res w2 where f: "cw_flush x (cw_buffer x r w1) = (res, w2)" by (metis surj_pair)
    have "cw_rows w2 = []" "cw_inserts w2 \<le> Suc (cw_inserts w)"
      using cw_flush_stores [of "cw_buffer x r w1" x] flush_once [of x "cw_buffer x r w1"] f w1(3) by (auto simp: cw_buffer_sel)
    then show ?thesis using True f w1(2)
      by (auto simp: all cw_add_cases act_bind_def act_ret_def cw_flush_cases split: sum.split)
  next
    case False
    then have "cw_add x r w1 = (Inr (), cw_buffer x r w1)" using w1(2) by (simp add: cw_add_cases)
    then show ?thesis using flush_once [of x "cw_buffer x r w1"] w1(3)
      by (auto simp: all act_bind_def act_ret_def cw_buffer_sel split: prod.split sum.split)
  qed
qed

subsection \<open>Retrying\<close>

lemma retry_stores:
  assumes "cw_retry x rows n w = (res, w')" and "cw_rows w = []"
  shows "cw_rows w' = [] \<and> prefix (cw_table w) (cw_table w')
     \<and> (\<forall>u. res = Inr u \<longrightarrow> (\<exists>pre. cw_table w' = cw_table w @ pre @ rows \<and> set pre \<subseteq> set rows))"
  using assms
proof (induction x rows n arbitrary: w rule: cw_retry.induct)
  case (1 x rows n)
  obtain res1 w1 where a: "cw_attempt x rows w = (res1, w1)" by (metis surj_pair)
  have st: "stores rows w (res1, w1)" and em: "\<And>u. res1 = Inr u \<Longrightarrow> cw_rows w1 = []"
    using attempt_stores [of rows w x] a by auto
  show ?case
  proof (cases res1)
    case (Inr u)
    then have "cw_table w1 = cw_table w @ rows" "cw_rows w1 = []" "res = Inr u" "w' = w1"
      using st em 1(2,3) a by (auto simp: stores_def cw_all_def cw_retry.simps [of x rows n] act_try_def)
    then show ?thesis by (auto intro!: exI [of _ "[]"])
  next
    case (Inl e)
    then obtain p where p: "cw_rows w1 = []" "prefix p rows" "cw_table w1 = cw_table w @ p"
      using st 1(3) by (auto simp: stores_def)
    show ?thesis
    proof (cases "ch_max_retry_seconds (cx_settings x) < 2 ^ n")
      case True
      then have "w' = w1" "res = Inl e" using 1(2) a Inl by (auto simp: cw_retry.simps [of x rows n] act_try_def act_raise_def)
      then show ?thesis using p by simp
    next
      case False
      then have "cw_retry x rows (Suc n) w1 = (res, w')"
        using 1(2) a Inl by (simp add: cw_retry.simps [of x rows n] act_try_def)
      from 1(1) [OF False this p(1)] have ih: "cw_rows w' = []" "prefix (cw_table w1) (cw_table w')"
        "\<forall>u. res = Inr u \<longrightarrow> (\<exists>pre. cw_table w' = cw_table w1 @ pre @ rows \<and> set pre \<subseteq> set rows)" by auto
      have "set p \<subseteq> set rows" using p(2) by (rule set_mono_prefix)
      moreover have "prefix (cw_table w) (cw_table w')" using ih(2) p(3) by (metis append_prefixD)
      ultimately show ?thesis using ih p(3) by (auto intro: exI [of _ "p @ _"])
    qed
  qed
qed

lemma retry_bounded:
  assumes "cw_retry x rows n w = (res, w')" and "cw_rows w = []" and "int (length rows) \<le> ch_batch_max_rows (cx_settings x)"
    and "ch_max_retry_seconds (cx_settings x) < 2 ^ m" and "n \<le> m"
  shows "cw_inserts w' \<le> cw_inserts w + Suc (m - n)"
  using assms
proof (induction x rows n arbitrary: w rule: cw_retry.induct)
  case (1 x rows n)
  obtain res1 w1 where a: "cw_attempt x rows w = (res1, w1)" by (metis surj_pair)
  have once: "cw_inserts w1 \<le> Suc (cw_inserts w)" using attempt_once [OF 1(3,4)] a by simp
  show ?case
  proof (cases res1)
    case (Inr u)
    then show ?thesis using 1(2) a once by (simp add: cw_retry.simps [of x rows n] act_try_def)
  next
    case (Inl e)
    then have em: "cw_rows w1 = []" using attempt_stores [of rows w x] a by (auto simp: stores_def)
    show ?thesis
    proof (cases "ch_max_retry_seconds (cx_settings x) < 2 ^ n")
      case True
      then show ?thesis using 1(2) a Inl once by (auto simp: cw_retry.simps [of x rows n] act_try_def act_raise_def)
    next
      case False
      then have "cw_retry x rows (Suc n) w1 = (res, w')" using 1(2) a Inl by (simp add: cw_retry.simps [of x rows n] act_try_def)
      moreover have "n < m" using False 1(5,6) by (cases "n = m") auto
      ultimately have "cw_inserts w' \<le> cw_inserts w1 + Suc (m - Suc n)"
        using 1(1) [OF False _ em 1(4,5)] by auto
      then show ?thesis using once \<open>n < m\<close> by linarith
    qed
  qed
qed

subsection \<open>The handler's contract\<close>

definition rejected :: "exn \<Rightarrow> bool" where
  "rejected e \<longleftrightarrow> (case e of NormalizationError reason msg \<Rightarrow> True | _ \<Rightarrow> False)"

text \<open>Every event of the batch was rejected or has its row in the table.\<close>

definition in_table :: "cw_ext \<Rightarrow> consumed list \<Rightarrow> cw \<Rightarrow> bool" where
  "in_table x b w \<longleftrightarrow> (\<forall>c \<in> set b. case normalize_event (cx_norm x) (co_event c) of
      Inl e \<Rightarrow> rejected e | Inr row \<Rightarrow> row \<in> set (cw_table w))"

lemma cw_normalize_step:
  "cw_normalize x (c # cs) =
     (case normalize_event (cx_norm x) (co_event c) of
        Inl e \<Rightarrow> if rejected e then cw_normalize x cs else Inl e
      | Inr row \<Rightarrow> bindE (cw_normalize x cs) (\<lambda>rows. Inr (row # rows)))"
  by (auto simp: rejected_def split: sum.split exn.split)

lemma cw_normalize_rows:
  "cw_normalize x cs = Inr rows \<Longrightarrow> c \<in> set cs \<Longrightarrow>
     (case normalize_event (cx_norm x) (co_event c) of Inl e \<Rightarrow> rejected e | Inr row \<Rightarrow> row \<in> set rows)"
proof (induction cs arbitrary: rows)
  case (Cons d cs)
  then show ?case
    unfolding cw_normalize_step by (fastforce simp: bindE_eq_Inr split: sum.splits if_splits)
qed simp

lemma cw_normalize_length: "cw_normalize x cs = Inr rows \<Longrightarrow> length rows \<le> length cs"
proof (induction cs arbitrary: rows)
  case (Cons d cs)
  then show ?case
    unfolding cw_normalize_step by (fastforce simp: bindE_eq_Inr split: sum.splits if_splits)
qed simp

lemma handle_batch_stores:
  assumes "cw_handle_batch x b w = (res, w')" and "cw_rows w = []"
  shows "cw_rows w' = [] \<and> prefix (cw_table w) (cw_table w') \<and> (\<forall>u. res = Inr u \<longrightarrow> in_table x b w')"
proof (cases "cw_normalize x b")
  case (Inl e)
  then show ?thesis using assms by (auto simp: cw_handle_batch_def act_bind_def act_lift_def)
next
  case (Inr rows)
  show ?thesis
  proof (cases "rows = []")
    case True
    have "w' = w" using True assms(1) Inr by (auto simp: cw_handle_batch_def act_bind_def act_lift_def act_ret_def)
    then show ?thesis using True assms(2) cw_normalize_rows [OF Inr] by (fastforce simp: in_table_def split: sum.splits)
  next
    case False
    then have "cw_retry x rows 0 w = (res, w')" using assms(1) Inr by (simp add: cw_handle_batch_def act_bind_def act_lift_def)
    from retry_stores [OF this assms(2)] have r: "cw_rows w' = []" "prefix (cw_table w) (cw_table w')"
      "\<And>u. res = Inr u \<Longrightarrow> set rows \<subseteq> set (cw_table w')" by auto
    then show ?thesis using cw_normalize_rows [OF Inr] by (fastforce simp: in_table_def split: sum.splits)
  qed
qed

interpretation analytics: batch_handler "cw_handler x" "\<lambda>w. cw_rows w = []" "in_table x" for x
proof
  fix w w' :: cw and b b' r
  assume ok: "cw_rows w = []"
  { assume h: "cw_handler x b w = (w', r)"
    then obtain res where res: "cw_handle_batch x b w = (res, w')" by (auto simp: cw_handler_def split: prod.splits sum.splits)
    show "cw_rows w' = []" using handle_batch_stores [OF res ok] by simp
    assume "in_table x b' w"
    then show "in_table x b' w'" using handle_batch_stores [OF res ok] set_mono_prefix
      by (fastforce simp: in_table_def split: sum.splits) }
  assume "cw_handler x b w = (w', None)"
  then obtain u where "cw_handle_batch x b w = (Inr u, w')" by (auto simp: cw_handler_def split: prod.splits sum.splits)
  from handle_batch_stores [OF this ok] show "in_table x b w'" by simp
qed

subsection \<open>Properties\<close>


text \<open>An insert is not retried for ever. For a batch of at most \<open>clickhouse_batch_max_rows\<close> events, the handler
returns or raises after at most \<open>n + 1\<close> inserts, where the \<open>n\<close>-th power of two is above
\<open>clickhouse_max_retry_seconds\<close>.\<close>

theorem analytics_retries_bounded:
  assumes "cw_handle_batch x b w = (res, w')" and "cw_rows w = []"
    and "int (length b) \<le> ch_batch_max_rows (cx_settings x)" and "ch_max_retry_seconds (cx_settings x) < 2 ^ n"
  shows "cw_inserts w' \<le> cw_inserts w + (n + 1)"
proof (cases "cw_normalize x b")
  case (Inl e)
  then show ?thesis using assms(1) by (auto simp: cw_handle_batch_def act_bind_def act_lift_def)
next
  case (Inr rows)
  show ?thesis
  proof (cases "rows = []")
    case True
    then show ?thesis using assms(1) Inr by (auto simp: cw_handle_batch_def act_bind_def act_lift_def act_ret_def)
  next
    case False
    have "int (length rows) \<le> ch_batch_max_rows (cx_settings x)" using cw_normalize_length [OF Inr] assms(3) by linarith
    moreover have "cw_retry x rows 0 w = (res, w')" using False assms(1) Inr by (simp add: cw_handle_batch_def act_bind_def act_lift_def)
    ultimately show ?thesis using retry_bounded [of x rows 0 w res w' n] assms(2,4) by simp
  qed
qed

text \<open>An event whose \<open>event_version\<close> is a text that is no number stops the analytics of its partition: the exception
is not one the handler takes as a rejection, so every batch with such an event raises before any of its rows is inserted,
on every delivery.\<close>

theorem bad_version_blocks_analytics:
  assumes "dict_get (pe_payload e) ''event_version'' = PStr v" "v \<noteq> []" "ax_parse_int (cx_norm x) v = None"
    and "an_number (cx_norm x) (py_or (dict_get (pe_payload e) ''latency_ms'') (dict_get (pe_payload e) ''first_token_latency_ms'')) = Inr l"
    and "an_duration (cx_norm x) (pe_event_type e) (pe_payload e) = Inr d" "an_usage (cx_norm x) (pe_payload e) = Inr q"
    and "e \<in> co_event ` set b"
  shows "\<exists>err. cw_handle_batch x b w = (Inl err, w)"
proof -
  have n: "normalize_event (cx_norm x) e = Inl (ValueError ''invalid literal for int()'')"
    using assms(1-6) by (simp add: normalize_event_def py_or_def Let_def case_prod_beta)
  have "\<exists>err. cw_normalize x b = Inl err"
    using assms(7)
  proof (induction b)
    case (Cons c b)
    show ?case
    proof (cases "co_event c = e")
      case True
      then show ?thesis unfolding cw_normalize_step using n by (simp add: rejected_def)
    next
      case False
      then obtain err where "cw_normalize x b = Inl err" using Cons by auto
      then show ?thesis unfolding cw_normalize_step by (auto split: sum.split)
    qed
  qed simp
  then show ?thesis by (auto simp: cw_handle_batch_def act_bind_def act_lift_def)
qed

text \<open>Inputs for the witnesses: a service that fails its first insert.\<close>

definition cx_demo :: cw_ext where
  "cx_demo = \<lparr> cx_norm = analytics_ext_demo, cx_settings = default_clickhouse\<lparr> ch_enabled := True \<rparr>,
     cx_insert = (\<lambda>n. if n = 0 then Stored_unacknowledged TimeoutError else Stored), cx_now = (\<lambda>_. 0) \<rparr>"

definition co_spoken_demo :: consumed where
  "co_spoken_demo = \<lparr> co_event = spoken_demo ''hello'', co_topic = ''call-events'', co_partition = 0, co_offset = 4 \<rparr>"

lemma spoken_normal: "\<exists>r. normalize_event analytics_ext_demo (spoken_demo ''hello'') = Inr r"
  by (simp add: normalize_event_def analytics_ext_demo_def spoken_demo_def dict_get_def py_or_def an_number_def an_duration_def
      an_usage_def Let_def)

lemma spoken_handled:
  "\<exists>w' row. cw_handle_batch cx_demo [c\<lparr> co_event := spoken_demo ''hello'' \<rparr>] cw_new = (Inr (), w') \<and> cw_inserts w' = 2
     \<and> normalize_event analytics_ext_demo (spoken_demo ''hello'') = Inr row"
proof -
  obtain row where row: "normalize_event analytics_ext_demo (spoken_demo ''hello'') = Inr row" using spoken_normal by blast
  have s: "cx_norm cx_demo = analytics_ext_demo" "ch_batch_max_rows (cx_settings cx_demo) = 500"
    "ch_max_retry_seconds (cx_settings cx_demo) = 30" by (simp_all add: cx_demo_def default_clickhouse_def)
  let ?w1 = "\<lparr> cw_rows = [], cw_first = None, cw_table = [row], cw_inserts = 1, cw_readings = 1 \<rparr>"
  let ?w2 = "\<lparr> cw_rows = [], cw_first = None, cw_table = [row, row], cw_inserts = 2, cw_readings = 2 \<rparr>"
  note run = cw_attempt_def act_bind_def act_ret_def cw_add_cases cw_buffer_def cw_flush_cases cw_insert_rows_def s
  have "cw_attempt cx_demo [row] cw_new = (Inl TimeoutError, ?w1)"
    by (simp add: run cw_new_def) (simp add: cx_demo_def)
  moreover have "cw_attempt cx_demo [row] ?w1 = (Inr (), ?w2)"
    by (simp add: run) (simp add: cx_demo_def act_ret_def)
  ultimately have "cw_retry cx_demo [row] 0 cw_new = (Inr (), ?w2)"
    by (simp add: cw_retry.simps [of _ _ 0] cw_retry.simps [of _ _ "Suc 0"] act_try_def s)
  then have "cw_handle_batch cx_demo [c\<lparr> co_event := spoken_demo ''hello'' \<rparr>] cw_new = (Inr (), ?w2)"
    using row by (simp add: cw_handle_batch_def act_bind_def act_lift_def s)
  then show ?thesis using row by (intro exI [of _ ?w2] exI [of _ row]) simp
qed


lemma analytics_retries_bounded_witness:
  "\<exists>w'. cw_handle_batch cx_demo [co_spoken_demo] cw_new = (Inr (), w') \<and> cw_inserts w' = 2 \<and> cw_inserts w' \<le> 6"
proof -
  have c: "co_spoken_demo\<lparr> co_event := spoken_demo ''hello'' \<rparr> = co_spoken_demo" by (simp add: co_spoken_demo_def)
  obtain w' where h: "cw_handle_batch cx_demo [co_spoken_demo] cw_new = (Inr (), w')" "cw_inserts w' = 2"
    using spoken_handled [of co_spoken_demo] unfolding c by blast
  have "cw_inserts w' \<le> cw_inserts cw_new + (5 + 1)"
    by (rule analytics_retries_bounded [OF h(1)]) (simp_all add: cw_new_def cx_demo_def default_clickhouse_def)
  then show ?thesis using h by (simp add: cw_new_def)
qed

definition version_demo :: pevent where
  "version_demo = (spoken_demo ''hello'')\<lparr> pe_payload := [(''event_version'', PStr ''v2'')] \<rparr>"

lemma bad_version_blocks_analytics_witness:
  "\<exists>err. cw_handle_batch cx_demo [co_spoken_demo, co_spoken_demo\<lparr> co_event := version_demo \<rparr>] cw_new = (Inl err, cw_new)"
  by (rule bad_version_blocks_analytics [where e = version_demo and v = "''v2''" and l = None and d = None and q = "(None, [])"])
     (simp_all add: version_demo_def spoken_demo_def cx_demo_def analytics_ext_demo_def dict_get_def py_or_def an_number_def
        an_duration_def an_usage_def an_string_def Let_def)

end
