(* ===== verification/Passwords.thy ===== *)
theory Passwords
  imports Prelude Py_Str "HOL-Library.Word"
begin

text \<open>
  Password hashes and session tokens (\<open>apps/api/security.py\<close>). A stored password is the text
  \<open>scheme$iterations$salt$digest\<close> with salt and digest in hexadecimal. The cryptographic functions of
  \<open>hashlib\<close> and UTF-8 encoding are arguments; \<open>pbkdf2_hmac\<close> can raise, as it does for a number
  of iterations below one. The standard library's \<open>bytes.hex\<close>, \<open>bytes.fromhex\<close>, \<open>int\<close> of a
  string and \<open>str.split\<close> with a bound are modelled for ASCII text.
\<close>

type_synonym octets = "8 word list"

record crypto =
  cr_pbkdf2 :: "octets \<Rightarrow> octets \<Rightarrow> int \<Rightarrow> octets res"
  cr_sha256 :: "octets \<Rightarrow> octets"
  cr_utf8 :: "string \<Rightarrow> octets"

subsection \<open>Text of bytes and numbers\<close>

definition hex_digit :: "nat \<Rightarrow> char" where
  "hex_digit d = (if d < 10 then digit_char d else char_of (87 + d))"

fun hex_value :: "char \<Rightarrow> nat option" where
  "hex_value c =
     (if 48 \<le> code c \<and> code c \<le> 57 then Some (code c - 48)
      else if 97 \<le> code c \<and> code c \<le> 102 then Some (code c - 87)
      else if 65 \<le> code c \<and> code c \<le> 70 then Some (code c - 55)
      else None)"

fun to_hex :: "octets \<Rightarrow> string" where
  "to_hex [] = []"
| "to_hex (b # bs) = hex_digit (unat b div 16) # hex_digit (unat b mod 16) # to_hex bs"

definition hex_space :: "char \<Rightarrow> bool" where
  "hex_space c \<longleftrightarrow> 9 \<le> code c \<and> code c \<le> 13 \<or> code c = 32"

text \<open>\<open>bytes.fromhex\<close>: white space is allowed between bytes, not inside one.\<close>

fun from_hex :: "string \<Rightarrow> octets option" where
  "from_hex [] = Some []"
| "from_hex (c # cs) =
     (if hex_space c then from_hex cs
      else case cs of
             [] \<Rightarrow> None
           | d # ds \<Rightarrow>
               (case (hex_value c, hex_value d, from_hex ds) of
                  (Some h, Some l, Some bs) \<Rightarrow> Some (word_of_nat (16 * h + l) # bs)
                | _ \<Rightarrow> None))"

text \<open>\<open>int(s)\<close>: surrounding white space, a sign, and digits with single underscores between them.\<close>

definition is_digit :: "char \<Rightarrow> bool" where
  "is_digit c \<longleftrightarrow> 48 \<le> code c \<and> code c \<le> 57"

definition digits_value :: "string \<Rightarrow> nat option" where
  "digits_value s =
     (if list_all (\<lambda>g. g \<noteq> [] \<and> list_all is_digit g) (split_on (CHR ''_'') s) then Some (str_nat (filter (\<lambda>c. c \<noteq> CHR ''_'') s))
      else None)"

definition int_of_str :: "string \<Rightarrow> int option" where
  "int_of_str s =
     (case str_strip s of
        [] \<Rightarrow> None
      | c # cs \<Rightarrow>
          if c = CHR ''-'' then map_option (\<lambda>n. - int n) (digits_value cs)
          else if c = CHR ''+'' then map_option int (digits_value cs)
          else map_option int (digits_value (c # cs)))"

text \<open>\<open>s.split(sep, n)\<close>\<close>

fun split_max :: "char \<Rightarrow> nat \<Rightarrow> string \<Rightarrow> string list" where
  "split_max c 0 s = [s]"
| "split_max c (Suc n) s = (case partition_at c s of (a, None) \<Rightarrow> [a] | (a, Some b) \<Rightarrow> a # split_max c n b)"

subsection \<open>Passwords and tokens\<close>

definition PASSWORD_SCHEME :: string where
  "PASSWORD_SCHEME = ''pbkdf2_sha256''"

definition PASSWORD_ITERATIONS :: int where
  "PASSWORD_ITERATIONS = 390000"

text \<open>\<open>hash_password\<close> with the salt it draws\<close>

definition hash_password :: "crypto \<Rightarrow> octets \<Rightarrow> string \<Rightarrow> string res" where
  "hash_password x salt password =
     bindE (cr_pbkdf2 x (cr_utf8 x password) salt PASSWORD_ITERATIONS) (\<lambda>digest.
       Inr (PASSWORD_SCHEME @ ''$'' @ int_str PASSWORD_ITERATIONS @ ''$'' @ to_hex salt @ ''$'' @ to_hex digest))"

text \<open>\<open>verify_password\<close>: a malformed hash is no match; an exception of the hash function goes on.\<close>

definition parse_password_hash :: "string \<Rightarrow> (int \<times> octets \<times> octets) option" where
  "parse_password_hash h =
     (case split_max (CHR ''$'') 3 h of
        [scheme, iterations, salt, digest] \<Rightarrow>
          if scheme \<noteq> PASSWORD_SCHEME then None
          else (case (int_of_str iterations, from_hex salt, from_hex digest) of
                  (Some i, Some s, Some d) \<Rightarrow> Some (i, s, d)
                | _ \<Rightarrow> None)
      | _ \<Rightarrow> None)"

definition verify_password :: "crypto \<Rightarrow> string \<Rightarrow> string \<Rightarrow> bool res" where
  "verify_password x password h =
     (case parse_password_hash h of
        None \<Rightarrow> Inr False
      | Some (i, salt, expected) \<Rightarrow> bindE (cr_pbkdf2 x (cr_utf8 x password) salt i) (\<lambda>actual. Inr (actual = expected)))"

definition hash_session_token :: "crypto \<Rightarrow> string \<Rightarrow> string" where
  "hash_session_token x token = to_hex (cr_sha256 x (cr_utf8 x token))"

subsection \<open>Round trips\<close>

lemma code_hex_digit: "d < 16 \<Longrightarrow> code (hex_digit d) = (if d < 10 then 48 + d else 87 + d)"
  using code_digit [of d] by (auto simp: hex_digit_def code_def)

lemma hex_digit_value:
  assumes "d < 16"
  shows "hex_value (hex_digit d) = Some d" "\<not> hex_space (hex_digit d)" "hex_digit d \<noteq> CHR ''$''"
proof -
  have dollar: "code (CHR ''$'') = 36" by (simp add: code_def)
  show "hex_value (hex_digit d) = Some d" using assms by (simp add: code_hex_digit)
  show "\<not> hex_space (hex_digit d)" using assms by (simp add: hex_space_def code_hex_digit)
  show "hex_digit d \<noteq> CHR ''$''" using code_hex_digit [OF assms] dollar by (auto split: if_splits)
qed

lemma from_to_hex [simp]: "from_hex (to_hex bs) = Some bs"
proof (induction bs)
  case (Cons b bs)
  have lt: "unat b < 256" using unsigned_less [of b] by simp
  have "unat b div 16 < 16" "unat b mod 16 < 16" using lt by auto
  moreover have "16 * (unat b div 16) + unat b mod 16 = unat b" by simp
  ultimately show ?case using Cons hex_digit_value by (simp del: hex_value.simps add: word_of_nat_eq_iff)
qed simp

lemma to_hex_no_dollar: "CHR ''$'' \<notin> set (to_hex bs)"
proof (induction bs)
  case (Cons b bs)
  have lt: "unat b < 256" using unsigned_less [of b] by simp
  have "unat b div 16 < 16" "unat b mod 16 < 16" using lt by auto
  then have "hex_digit (unat b div 16) \<noteq> CHR ''$''" "hex_digit (unat b mod 16) \<noteq> CHR ''$''"
    using hex_digit_value by auto
  then show ?case using Cons by simp
qed simp

lemma partition_at_sep: "c \<notin> set a \<Longrightarrow> partition_at c (a @ c # b) = (a, Some b)"
  by (induction a) (auto simp: partition_at_def)

lemma partition_at_none: "c \<notin> set a \<Longrightarrow> partition_at c a = (a, None)"
  by (induction a) (auto simp: partition_at_def)

lemma split_max_sep: "c \<notin> set a \<Longrightarrow> split_max c (Suc n) (a @ c # b) = a # split_max c n b"
  by (simp add: partition_at_sep)

text \<open>\<open>int(str(n))\<close>\<close>

lemma split_on_none: "c \<notin> set s \<Longrightarrow> split_on c s = [s]"
  by (induction s) auto

lemma nat_str_chars: "c \<in> set (nat_str n) \<Longrightarrow> is_digit c \<and> \<not> is_space c \<and> c \<noteq> CHR ''_'' \<and> c \<noteq> CHR ''-'' \<and> c \<noteq> CHR ''+'' \<and> c \<noteq> CHR ''$''"
  using nat_str_digits [of c n] by (auto simp: is_digit_def is_space_def Let_def code_def)

lemma digits_value_nat_str: "digits_value (nat_str n) = Some n"
proof -
  have "CHR ''_'' \<notin> set (nat_str n)" using nat_str_chars by blast
  then have "split_on (CHR ''_'') (nat_str n) = [nat_str n]" "filter (\<lambda>c. c \<noteq> CHR ''_'') (nat_str n) = nat_str n"
    by (auto simp: split_on_none filter_id_conv)
  moreover have "list_all is_digit (nat_str n)" using nat_str_chars by (auto simp: list_all_iff)
  ultimately show ?thesis by (simp add: digits_value_def)
qed

lemma strip_none: "(\<And>c. c \<in> set s \<Longrightarrow> \<not> p c) \<Longrightarrow> strip_with p s = s"
proof -
  assume none: "\<And>c. c \<in> set s \<Longrightarrow> \<not> p c"
  have "dropWhile p ys = ys" if "set ys \<subseteq> set s" for ys
    using that none by (cases ys) auto
  then show ?thesis by (simp add: strip_with_def)
qed

lemma int_of_str_nat_str: "int_of_str (nat_str n) = Some (int n)"
proof -
  have "str_strip (nat_str n) = nat_str n" unfolding str_strip_def by (rule strip_none) (use nat_str_chars in blast)
  moreover obtain c cs where cs: "nat_str n = c # cs" using nat_str_not_Nil [of n] by (cases "nat_str n") auto
  moreover have "c \<noteq> CHR ''-''" "c \<noteq> CHR ''+''" using nat_str_chars [of c n] cs by auto
  ultimately show ?thesis using digits_value_nat_str [of n] by (simp add: int_of_str_def)
qed

lemma parse_hash:
  "parse_password_hash (PASSWORD_SCHEME @ ''$'' @ int_str PASSWORD_ITERATIONS @ ''$'' @ to_hex salt @ ''$'' @ to_hex digest)
     = Some (PASSWORD_ITERATIONS, salt, digest)"
proof -
  let ?n = "nat_str 390000"
  have i: "int_str PASSWORD_ITERATIONS = ?n" by (simp add: int_str_def PASSWORD_ITERATIONS_def)
  have v: "int_of_str ?n = Some PASSWORD_ITERATIONS" by (simp add: int_of_str_nat_str PASSWORD_ITERATIONS_def)
  have "CHR ''$'' \<notin> set PASSWORD_SCHEME" by (simp add: PASSWORD_SCHEME_def)
  moreover have "CHR ''$'' \<notin> set ?n" using nat_str_chars by blast
  ultimately have "split_max CHR ''$'' 3 (PASSWORD_SCHEME @ CHR ''$'' # ?n @ CHR ''$'' # to_hex salt @ CHR ''$'' # to_hex digest)
      = [PASSWORD_SCHEME, ?n, to_hex salt, to_hex digest]"
    by (simp add: numeral_3_eq_3 partition_at_sep to_hex_no_dollar)
  then show ?thesis by (simp add: parse_password_hash_def i v)
qed

lemma hash_parsed:
  assumes "hash_password x salt password = Inr h"
  obtains d where "cr_pbkdf2 x (cr_utf8 x password) salt PASSWORD_ITERATIONS = Inr d"
    and "parse_password_hash h = Some (PASSWORD_ITERATIONS, salt, d)"
  using assms parse_hash by (auto simp: hash_password_def bindE_eq_Inr simp del: append_Cons append_Nil append.simps)

text \<open>A stored password verifies, and another password verifies against it exactly when the hash function maps both
to the same digest under the stored salt.\<close>

theorem password_round_trip:
  assumes "hash_password x salt password = Inr h"
  shows "verify_password x password h = Inr True
     \<and> verify_password x other h = bindE (cr_pbkdf2 x (cr_utf8 x other) salt 390000) (\<lambda>d.
         Inr (cr_pbkdf2 x (cr_utf8 x password) salt 390000 = Inr d))"
proof -
  obtain d where "cr_pbkdf2 x (cr_utf8 x password) salt PASSWORD_ITERATIONS = Inr d"
    and "parse_password_hash h = Some (PASSWORD_ITERATIONS, salt, d)" by (rule hash_parsed [OF assms])
  then show ?thesis by (auto simp: verify_password_def PASSWORD_ITERATIONS_def intro!: bindE_cong)
qed

definition crypto_demo :: crypto where
  "crypto_demo = \<lparr> cr_pbkdf2 = (\<lambda>p s i. if i < 1 then Inl (ValueError ''iteration value must be greater than 0.'') else Inr (s @ p)),
     cr_sha256 = (\<lambda>b. b), cr_utf8 = map (\<lambda>c. word_of_nat (of_char c)) \<rparr>"

lemma password_round_trip_witness:
  "\<exists>h. hash_password crypto_demo [7] ''secret'' = Inr h \<and> verify_password crypto_demo ''secret'' h = Inr True
     \<and> verify_password crypto_demo ''other'' h = Inr False"
proof -
  obtain h where h: "hash_password crypto_demo [7] ''secret'' = Inr h" by (simp add: hash_password_def crypto_demo_def PASSWORD_ITERATIONS_def)
  have "verify_password crypto_demo ''other'' h = Inr False"
    using password_round_trip [OF h, of "''other''"] by (simp add: crypto_demo_def)
  then show ?thesis using h password_round_trip [OF h] by blast
qed

end
