(* ===== verification/Accounts.thy ===== *)
theory Accounts
  imports Passwords Slug Tools
begin

text \<open>
  Workspaces, users, sessions and voice agents: the identity part of the repository
  (\<open>apps/api/db/repository.py\<close>), the session check of \<open>apps/api/auth.py\<close> and the routes of
  \<open>apps/api/routes/auth.py\<close> and \<open>routes/agents.py\<close>.

  Tables are lists in the order of insertion, which is the order of \<open>created_at\<close>. An insert checks the
  unique keys and foreign keys of the schema. Fresh ids, salts and tokens are arguments indexed by a
  counter, and so is the conversion of a text to the \<open>uuid\<close> it denotes; \<open>NOW()\<close> is an argument. A \<open>jsonb\<close> column holds a JSON value and is read as its text,
  as \<open>asyncpg\<close> does without a codec; the text of a value is an argument.
\<close>

subsection \<open>Tables\<close>

record org_row =
  og_id :: string
  og_name :: string
  og_slug :: string

record user_row =
  ur_id :: string
  ur_email :: string
  ur_name :: string
  ur_hash :: string

record member_row =
  mb_org :: string
  mb_user :: string
  mb_role :: string

record session_row =
  ss_id :: string
  ss_user :: string
  ss_org :: string
  ss_hash :: string
  ss_expires :: rat

record agent_data =
  ad_name :: string
  ad_description :: string
  ad_status :: string
  ad_system_prompt :: string
  ad_context_prompt :: string
  ad_first_message :: string
  ad_stt_provider :: string
  ad_stt_model :: string
  ad_llm_provider :: string
  ad_llm_model :: string
  ad_tts_provider :: string
  ad_tts_model :: string
  ad_tts_voice :: string
  ad_tuning :: pyv

record agent_row =
  ag_id :: string
  ag_org :: string
  ag_data :: agent_data

record accounts =
  ac_orgs :: "org_row list"
  ac_users :: "user_row list"
  ac_members :: "member_row list"
  ac_sessions :: "session_row list"
  ac_agents :: "agent_row list"
  ac_drawn :: nat

record seed_settings =
  sd_admin_email :: string
  sd_admin_password :: string
  sd_org_name :: string
  sd_stt_provider :: string
  sd_stt_model :: string
  sd_llm_provider :: string
  sd_llm_model :: string
  sd_tts_provider :: string
  sd_tts_model :: string
  sd_tts_voice :: string
  sd_ttl_hours :: int

record acc_ext =
  kx_crypto :: crypto
  kx_uuid :: "nat \<Rightarrow> string"
  kx_uuid_of :: "string \<Rightarrow> string option"
  kx_salt :: "nat \<Rightarrow> octets"
  kx_token :: "nat \<Rightarrow> string"
  kx_json :: "pyv \<Rightarrow> string"
  kx_seed :: seed_settings

type_synonym 'a tx = "accounts \<Rightarrow> ('a \<times> accounts) res"

definition accounts_empty :: accounts where
  "accounts_empty = \<lparr> ac_orgs = [], ac_users = [], ac_members = [], ac_sessions = [], ac_agents = [], ac_drawn = 0 \<rparr>"

text \<open>A fresh id\<close>

definition draw :: "accounts \<Rightarrow> nat \<times> accounts" where
  "draw s = (ac_drawn s, s\<lparr> ac_drawn := Suc (ac_drawn s) \<rparr>)"

definition has_org :: "string \<Rightarrow> accounts \<Rightarrow> bool" where
  "has_org i s \<longleftrightarrow> list_ex (\<lambda>g. og_id g = i) (ac_orgs s)"

definition has_user :: "string \<Rightarrow> accounts \<Rightarrow> bool" where
  "has_user i s \<longleftrightarrow> list_ex (\<lambda>u. ur_id u = i) (ac_users s)"

subsection \<open>Inserts with their constraints\<close>

definition unique_violation :: exn where
  "unique_violation = PostgresError ''duplicate key value violates unique constraint''"

definition foreign_key_violation :: exn where
  "foreign_key_violation = PostgresError ''insert or update violates foreign key constraint''"

definition insert_org :: "org_row \<Rightarrow> accounts \<Rightarrow> accounts res" where
  "insert_org g s =
     (if list_ex (\<lambda>h. og_slug h = og_slug g \<or> og_id h = og_id g) (ac_orgs s) then Inl unique_violation
      else Inr (s\<lparr> ac_orgs := ac_orgs s @ [g] \<rparr>))"

definition insert_user :: "user_row \<Rightarrow> accounts \<Rightarrow> accounts res" where
  "insert_user u s =
     (if list_ex (\<lambda>v. ur_email v = ur_email u \<or> ur_id v = ur_id u) (ac_users s) then Inl unique_violation
      else Inr (s\<lparr> ac_users := ac_users s @ [u] \<rparr>))"

definition insert_member :: "member_row \<Rightarrow> accounts \<Rightarrow> accounts res" where
  "insert_member m s =
     (if \<not> has_org (mb_org m) s \<or> \<not> has_user (mb_user m) s then Inl foreign_key_violation
      else if list_ex (\<lambda>n. mb_org n = mb_org m \<and> mb_user n = mb_user m) (ac_members s) then Inl unique_violation
      else Inr (s\<lparr> ac_members := ac_members s @ [m] \<rparr>))"

definition same_agent_name :: "agent_row \<Rightarrow> agent_row \<Rightarrow> bool" where
  "same_agent_name a b \<longleftrightarrow> ag_org a = ag_org b \<and> ad_name (ag_data a) = ad_name (ag_data b)"

definition insert_agent :: "agent_row \<Rightarrow> accounts \<Rightarrow> accounts res" where
  "insert_agent a s =
     (if \<not> has_org (ag_org a) s then Inl foreign_key_violation
      else if list_ex (\<lambda>b. same_agent_name b a \<or> ag_id b = ag_id a) (ac_agents s) then Inl unique_violation
      else Inr (s\<lparr> ac_agents := ac_agents s @ [a] \<rparr>))"

definition insert_session :: "session_row \<Rightarrow> accounts \<Rightarrow> accounts res" where
  "insert_session t s =
     (if \<not> has_org (ss_org t) s \<or> \<not> has_user (ss_user t) s then Inl foreign_key_violation
      else if list_ex (\<lambda>u. ss_hash u = ss_hash t \<or> ss_id u = ss_id t) (ac_sessions s) then Inl unique_violation
      else Inr (s\<lparr> ac_sessions := ac_sessions s @ [t] \<rparr>))"

subsection \<open>Registration\<close>

definition slugify_org :: "string \<Rightarrow> string" where
  "slugify_org name = (let t = slug (CHR ''-'') name in if t = [] then ''workspace'' else t)"

text \<open>The loop over numbered slugs ends, since only finitely many are taken.\<close>

definition numbered :: "string \<Rightarrow> nat \<Rightarrow> string" where
  "numbered base k = base @ ''-'' @ nat_str k"

lemma numbered_inj: "numbered base j = numbered base k \<longleftrightarrow> j = k"
  using nat_str_inj by (auto simp: numbered_def)

function free_numbered :: "string list \<Rightarrow> string \<Rightarrow> nat \<Rightarrow> string" where
  "free_numbered taken base k = (if numbered base k \<in> set taken then free_numbered taken base (Suc k) else numbered base k)"
  by pat_completeness auto

termination
proof (relation "measure (\<lambda>(taken, base, k). card {j. k \<le> j \<and> numbered base j \<in> set taken})")
  fix taken base k
  assume t: "numbered base k \<in> set taken"
  have "inj_on (numbered base) {j. k \<le> j \<and> numbered base j \<in> set taken}" by (auto simp: inj_on_def numbered_inj)
  moreover have "finite (numbered base ` {j. k \<le> j \<and> numbered base j \<in> set taken})"
    by (rule finite_subset [of _ "set taken"]) auto
  ultimately have "finite {j. k \<le> j \<and> numbered base j \<in> set taken}" using finite_imageD by blast
  moreover have "{j. Suc k \<le> j \<and> numbered base j \<in> set taken} \<subset> {j. k \<le> j \<and> numbered base j \<in> set taken}"
    by (rule psubsetI, force, rule not_sym, rule notI)
       (use t in \<open>metis (mono_tags, lifting) Suc_n_not_le_n le_refl mem_Collect_eq\<close>)
  ultimately show "((taken, base, Suc k), (taken, base, k)) \<in> measure (\<lambda>(taken, base, k). card {j. k \<le> j \<and> numbered base j \<in> set taken})"
    by (simp add: psubset_card_mono)
qed simp

declare free_numbered.simps [simp del]

definition free_slug :: "string list \<Rightarrow> string \<Rightarrow> string" where
  "free_slug taken base = (if base \<in> set taken then free_numbered taken base 2 else base)"

definition default_agent :: "string \<Rightarrow> string \<Rightarrow> seed_settings \<Rightarrow> agent_data" where
  "default_agent description prompt d =
     \<lparr> ad_name = ''Default Voice Agent'', ad_description = description, ad_status = ''active'', ad_system_prompt = prompt,
       ad_context_prompt = [], ad_first_message = ''Hi, this is VoiceMesh. How can I help?'',
       ad_stt_provider = sd_stt_provider d, ad_stt_model = sd_stt_model d, ad_llm_provider = sd_llm_provider d,
       ad_llm_model = sd_llm_model d, ad_tts_provider = sd_tts_provider d, ad_tts_model = sd_tts_model d,
       ad_tts_voice = sd_tts_voice d, ad_tuning = PDict [] \<rparr>"

record login_row =
  lg_user :: user_row
  lg_org :: string
  lg_org_name :: string
  lg_role :: string

definition register_workspace :: "acc_ext \<Rightarrow> string \<Rightarrow> string \<Rightarrow> string \<Rightarrow> string \<Rightarrow> login_row tx" where
  "register_workspace x email password name org_name s =
     (if list_ex (\<lambda>u. str_lower (ur_email u) = str_lower email) (ac_users s) then Inl (ValueError ''email_already_registered'')
      else
        (let (n0, s0) = draw s;
             g = \<lparr> og_id = kx_uuid x n0, og_name = org_name,
                   og_slug = free_slug (map og_slug (ac_orgs s)) (slugify_org org_name) \<rparr>
         in bindE (insert_org g s0) (\<lambda>s1.
            bindE (hash_password (kx_crypto x) (kx_salt x (ac_drawn s1)) password) (\<lambda>h.
              (let (n1, s2) = draw s1;
                   u = \<lparr> ur_id = kx_uuid x n1, ur_email = str_lower email, ur_name = name, ur_hash = h \<rparr>
               in bindE (insert_user u s2) (\<lambda>s3.
                  bindE (insert_member \<lparr> mb_org = og_id g, mb_user = ur_id u, mb_role = ''owner'' \<rparr> s3) (\<lambda>s4.
                    (let (n2, s5) = draw s4
                     in bindE (insert_agent \<lparr> ag_id = kx_uuid x n2, ag_org = og_id g,
                           ag_data = default_agent ''Starter agent for testing live calls in this workspace.''
                             ''You are a concise, helpful voice agent. Speak naturally and ask one question at a time.'' (kx_seed x) \<rparr> s5) (\<lambda>s6.
                          Inr (\<lparr> lg_user = u, lg_org = og_id g, lg_org_name = og_name g, lg_role = ''owner'' \<rparr>, s6))))))))))"

subsection \<open>Login and sessions\<close>

text \<open>The join of users, memberships and organizations, owners first, then in the order of joining.\<close>

definition login_rows :: "string \<Rightarrow> accounts \<Rightarrow> login_row list" where
  "login_rows email s =
     (let rows = concat (map (\<lambda>m. concat (map (\<lambda>u. map (\<lambda>g.
                   \<lparr> lg_user = u, lg_org = og_id g, lg_org_name = og_name g, lg_role = mb_role m \<rparr>)
                   (filter (\<lambda>g. og_id g = mb_org m) (ac_orgs s)))
                   (filter (\<lambda>u. ur_id u = mb_user m \<and> str_lower (ur_email u) = str_lower email) (ac_users s)))) (ac_members s))
      in filter (\<lambda>r. lg_role r = ''owner'') rows @ filter (\<lambda>r. lg_role r \<noteq> ''owner'') rows)"

definition login_user :: "acc_ext \<Rightarrow> string \<Rightarrow> string \<Rightarrow> accounts \<Rightarrow> login_row option res" where
  "login_user x email password s =
     (case login_rows email s of
        [] \<Rightarrow> Inr None
      | r # _ \<Rightarrow> bindE (verify_password (kx_crypto x) password (ur_hash (lg_user r))) (\<lambda>ok. Inr (if ok then Some r else None)))"

definition create_session :: "acc_ext \<Rightarrow> rat \<Rightarrow> string \<Rightarrow> string \<Rightarrow> string \<Rightarrow> int \<Rightarrow> unit tx" where
  "create_session x now user org hash ttl s =
     (let (n, s1) = draw s
      in bindE (insert_session \<lparr> ss_id = kx_uuid x n, ss_user = user, ss_org = org, ss_hash = hash, ss_expires = now + of_int (ttl * 3600) \<rparr> s1)
           (\<lambda>s2. Inr ((), s2)))"

record auth_context =
  au_session :: string
  au_user :: string
  au_email :: string
  au_name :: string
  au_org :: string
  au_org_name :: string
  au_role :: string

text \<open>\<open>get_session_context\<close>: the join; a token hash is unique, so there is at most one row.\<close>

definition session_context :: "rat \<Rightarrow> string \<Rightarrow> accounts \<Rightarrow> auth_context option" where
  "session_context now hash s =
     (let rows = concat (map (\<lambda>t. concat (map (\<lambda>u. concat (map (\<lambda>g. map (\<lambda>m.
                   \<lparr> au_session = ss_id t, au_user = ur_id u, au_email = ur_email u, au_name = ur_name u, au_org = og_id g,
                     au_org_name = og_name g, au_role = mb_role m \<rparr>)
                   (filter (\<lambda>m. mb_user m = ur_id u \<and> mb_org m = og_id g) (ac_members s)))
                   (filter (\<lambda>g. og_id g = ss_org t) (ac_orgs s))))
                   (filter (\<lambda>u. ur_id u = ss_user t) (ac_users s))))
                   (filter (\<lambda>t. ss_hash t = hash \<and> now < ss_expires t) (ac_sessions s)))
      in case rows of [] \<Rightarrow> None | r # _ \<Rightarrow> Some r)"

definition delete_session :: "string \<Rightarrow> accounts \<Rightarrow> accounts" where
  "delete_session hash s = s\<lparr> ac_sessions := filter (\<lambda>t. ss_hash t \<noteq> hash) (ac_sessions s) \<rparr>"

subsection \<open>Agents\<close>

text \<open>How a row is read: the \<open>jsonb\<close> column as text.\<close>

definition agent_view :: "acc_ext \<Rightarrow> agent_row \<Rightarrow> agent_row" where
  "agent_view x a = a\<lparr> ag_data := (ag_data a)\<lparr> ad_tuning := PStr (kx_json x (ad_tuning (ag_data a))) \<rparr> \<rparr>"

definition agent_snapshot :: "agent_row \<Rightarrow> dict" where
  "agent_snapshot a =
     (let d = ag_data a in
      [(''id'', PStr (ag_id a)), (''organization_id'', PStr (ag_org a)), (''name'', PStr (ad_name d)),
       (''description'', PStr (ad_description d)),
       (''status'', PStr (if ad_status d = [] then ''active'' else ad_status d)),
       (''system_prompt'', PStr (ad_system_prompt d)), (''context_prompt'', PStr (ad_context_prompt d)),
       (''first_message'', PStr (ad_first_message d)), (''stt_provider'', PStr (ad_stt_provider d)),
       (''stt_model'', PStr (ad_stt_model d)), (''llm_provider'', PStr (ad_llm_provider d)), (''llm_model'', PStr (ad_llm_model d)),
       (''tts_provider'', PStr (ad_tts_provider d)), (''tts_model'', PStr (ad_tts_model d)), (''tts_voice'', PStr (ad_tts_voice d)),
       (''tuning'', py_or (ad_tuning d) (PDict []))])"

definition get_default_agent :: "acc_ext \<Rightarrow> accounts \<Rightarrow> agent_row option" where
  "get_default_agent x s =
     map_option (agent_view x)
       (List.find (\<lambda>a. list_ex (\<lambda>g. og_id g = ag_org a \<and> og_slug g = ''voicemesh-local'') (ac_orgs s)) (ac_agents s))"

definition get_agent :: "acc_ext \<Rightarrow> string \<Rightarrow> string \<Rightarrow> accounts \<Rightarrow> agent_row option res" where
  "get_agent x org i s =
     (case (kx_uuid_of x org, kx_uuid_of x i) of
        (Some o', Some j) \<Rightarrow> Inr (map_option (agent_view x) (List.find (\<lambda>a. ag_org a = o' \<and> ag_id a = j) (ac_agents s)))
      | _ \<Rightarrow> Inl (ValueError ''invalid UUID''))"

text \<open>With the number of calls of each agent; the newest agent comes first.\<close>

definition agent_calls :: "string \<Rightarrow> string \<Rightarrow> (string \<times> call_row) list \<Rightarrow> (string \<times> call_row) list" where
  "agent_calls org i calls = filter (\<lambda>(c, r). cl_org r = PStr org \<and> cl_agent r = PStr i) calls"

definition list_agents :: "acc_ext \<Rightarrow> (string \<times> call_row) list \<Rightarrow> string \<Rightarrow> accounts \<Rightarrow> (agent_row \<times> nat) list" where
  "list_agents x calls org s =
     map (\<lambda>a. (agent_view x a, length (agent_calls org (ag_id a) calls))) (rev (filter (\<lambda>a. ag_org a = org) (ac_agents s)))"

definition list_agent_calls :: "(string \<times> call_row) list \<Rightarrow> string \<Rightarrow> string \<Rightarrow> nat \<Rightarrow> (string \<times> call_row) list" where
  "list_agent_calls calls org i limit = take limit (rev (agent_calls org i calls))"

definition create_agent :: "acc_ext \<Rightarrow> string \<Rightarrow> agent_data \<Rightarrow> agent_row tx" where
  "create_agent x org d s =
     (let (n, s1) = draw s;
          a = \<lparr> ag_id = kx_uuid x n, ag_org = org, ag_data = d\<lparr> ad_tuning := py_or (ad_tuning d) (PDict []) \<rparr> \<rparr>
      in bindE (insert_agent a s1) (\<lambda>s2. Inr (agent_view x a, s2)))"

text \<open>The validation of \<open>AgentCreate\<close> and \<open>AgentUpdate\<close>\<close>

definition sized :: "nat \<Rightarrow> nat option \<Rightarrow> string \<Rightarrow> string res" where
  "sized lo hi s =
     (if lo \<le> length s \<and> (case hi of None \<Rightarrow> True | Some n \<Rightarrow> length s \<le> n) then Inr s else Inl (ValueError ''string length''))"

definition one_of :: "string list \<Rightarrow> string \<Rightarrow> string res" where
  "one_of allowed s = (if s \<in> set allowed then Inr s else Inl (ValueError ''unexpected value''))"

definition agent_create_of :: "dict \<Rightarrow> agent_data res" where
  "agent_create_of d =
     bindE (bindE (mf_str d ''name'' None) (sized 1 (Some 120))) (\<lambda>name.
     bindE (mf_str d ''description'' (Some [])) (\<lambda>description.
     bindE (bindE (mf_str d ''status'' (Some ''active'')) (one_of [''active'', ''paused''])) (\<lambda>status.
     bindE (bindE (mf_str d ''system_prompt'' None) (sized 1 None)) (\<lambda>system.
     bindE (mf_str d ''context_prompt'' (Some [])) (\<lambda>prompt.
     bindE (mf_str d ''first_message'' (Some [])) (\<lambda>first.
     bindE (bindE (mf_str d ''stt_provider'' (Some ''openai'')) (one_of [''openai''])) (\<lambda>sp.
     bindE (mf_str d ''stt_model'' (Some ''gpt-realtime-whisper'')) (\<lambda>sm.
     bindE (bindE (mf_str d ''llm_provider'' (Some ''openai'')) (one_of [''openai''])) (\<lambda>lp.
     bindE (mf_str d ''llm_model'' (Some ''gpt-4.1-mini'')) (\<lambda>lm.
     bindE (bindE (mf_str d ''tts_provider'' (Some ''openai'')) (one_of [''openai''])) (\<lambda>tp.
     bindE (mf_str d ''tts_model'' (Some ''gpt-4o-mini-tts'')) (\<lambda>tm.
     bindE (mf_str d ''tts_voice'' (Some ''alloy'')) (\<lambda>voice.
     bindE (mf_dict d ''tuning'') (\<lambda>tuning.
       Inr \<lparr> ad_name = name, ad_description = description, ad_status = status, ad_system_prompt = system,
             ad_context_prompt = prompt, ad_first_message = first, ad_stt_provider = sp, ad_stt_model = sm, ad_llm_provider = lp,
             ad_llm_model = lm, ad_tts_provider = tp, ad_tts_model = tm, ad_tts_voice = voice, ad_tuning = PDict tuning \<rparr>))))))))))))))"

definition checked :: "(string \<Rightarrow> string res) \<Rightarrow> string option res \<Rightarrow> string option res" where
  "checked f r = bindE r (\<lambda>v. case v of None \<Rightarrow> Inr None | Some t \<Rightarrow> bindE (f t) (\<lambda>u. Inr (Some u)))"

text \<open>The set, non-null fields of an update\<close>

record agent_patch =
  pa_name :: "string option"
  pa_description :: "string option"
  pa_status :: "string option"
  pa_system_prompt :: "string option"
  pa_context_prompt :: "string option"
  pa_first_message :: "string option"
  pa_stt_provider :: "string option"
  pa_stt_model :: "string option"
  pa_llm_provider :: "string option"
  pa_llm_model :: "string option"
  pa_tts_provider :: "string option"
  pa_tts_model :: "string option"
  pa_tts_voice :: "string option"
  pa_tuning :: "dict option"

definition agent_patch_of :: "dict \<Rightarrow> agent_patch res" where
  "agent_patch_of d =
     bindE (checked (sized 1 (Some 120)) (mf_opt_str d ''name'')) (\<lambda>name.
     bindE (mf_opt_str d ''description'') (\<lambda>description.
     bindE (checked (one_of [''active'', ''paused'']) (mf_opt_str d ''status'')) (\<lambda>status.
     bindE (checked (sized 1 None) (mf_opt_str d ''system_prompt'')) (\<lambda>system.
     bindE (mf_opt_str d ''context_prompt'') (\<lambda>prompt.
     bindE (mf_opt_str d ''first_message'') (\<lambda>first.
     bindE (checked (one_of [''openai'']) (mf_opt_str d ''stt_provider'')) (\<lambda>sp.
     bindE (mf_opt_str d ''stt_model'') (\<lambda>sm.
     bindE (checked (one_of [''openai'']) (mf_opt_str d ''llm_provider'')) (\<lambda>lp.
     bindE (mf_opt_str d ''llm_model'') (\<lambda>lm.
     bindE (checked (one_of [''openai'']) (mf_opt_str d ''tts_provider'')) (\<lambda>tp.
     bindE (mf_opt_str d ''tts_model'') (\<lambda>tm.
     bindE (mf_opt_str d ''tts_voice'') (\<lambda>voice.
     bindE (mf_opt_model Inr d ''tuning'') (\<lambda>tuning.
       Inr \<lparr> pa_name = name, pa_description = description, pa_status = status, pa_system_prompt = system,
             pa_context_prompt = prompt, pa_first_message = first, pa_stt_provider = sp, pa_stt_model = sm, pa_llm_provider = lp,
             pa_llm_model = lm, pa_tts_provider = tp, pa_tts_model = tm, pa_tts_voice = voice, pa_tuning = tuning \<rparr>))))))))))))))"

definition patched :: "'a option \<Rightarrow> 'a \<Rightarrow> 'a" where
  "patched p v = (case p of None \<Rightarrow> v | Some w \<Rightarrow> w)"

definition apply_patch :: "agent_patch \<Rightarrow> agent_data \<Rightarrow> agent_data" where
  "apply_patch p d =
     \<lparr> ad_name = patched (pa_name p) (ad_name d), ad_description = patched (pa_description p) (ad_description d),
       ad_status = patched (pa_status p) (ad_status d), ad_system_prompt = patched (pa_system_prompt p) (ad_system_prompt d),
       ad_context_prompt = patched (pa_context_prompt p) (ad_context_prompt d),
       ad_first_message = patched (pa_first_message p) (ad_first_message d),
       ad_stt_provider = patched (pa_stt_provider p) (ad_stt_provider d), ad_stt_model = patched (pa_stt_model p) (ad_stt_model d),
       ad_llm_provider = patched (pa_llm_provider p) (ad_llm_provider d), ad_llm_model = patched (pa_llm_model p) (ad_llm_model d),
       ad_tts_provider = patched (pa_tts_provider p) (ad_tts_provider d), ad_tts_model = patched (pa_tts_model p) (ad_tts_model d),
       ad_tts_voice = patched (pa_tts_voice p) (ad_tts_voice d),
       ad_tuning = (case pa_tuning p of None \<Rightarrow> ad_tuning d | Some t \<Rightarrow> PDict t) \<rparr>"

definition update_agent :: "acc_ext \<Rightarrow> string \<Rightarrow> string \<Rightarrow> agent_patch \<Rightarrow> agent_row option tx" where
  "update_agent x org i p s =
     bindE (get_agent x org i s) (\<lambda>current.
       case current of
         None \<Rightarrow> Inr (None, s)
       | Some a \<Rightarrow>
           (let merged = apply_patch p (ag_data a);
                b = a\<lparr> ag_data := merged\<lparr> ad_tuning := py_or (ad_tuning merged) (PDict []) \<rparr> \<rparr>
            in if list_ex (\<lambda>o'. same_agent_name o' b \<and> ag_id o' \<noteq> ag_id a) (ac_agents s) then Inl unique_violation
               else Inr (Some (agent_view x b),
                         s\<lparr> ac_agents := map (\<lambda>o'. if ag_org o' = ag_org a \<and> ag_id o' = ag_id a then b else o') (ac_agents s) \<rparr>)))"

subsection \<open>The seed of the local workspace\<close>

definition upsert_org :: "acc_ext \<Rightarrow> org_row tx" where
  "upsert_org x s =
     (case List.find (\<lambda>g. og_slug g = ''voicemesh-local'') (ac_orgs s) of
        Some g \<Rightarrow>
          (let h = g\<lparr> og_name := sd_org_name (kx_seed x) \<rparr>
           in Inr (h, s\<lparr> ac_orgs := map (\<lambda>k. if og_slug k = ''voicemesh-local'' then h else k) (ac_orgs s) \<rparr>))
      | None \<Rightarrow>
          (let (n, s1) = draw s;
               g = \<lparr> og_id = kx_uuid x n, og_name = sd_org_name (kx_seed x), og_slug = ''voicemesh-local'' \<rparr>
           in bindE (insert_org g s1) (\<lambda>s2. Inr (g, s2))))"

definition seed_fields :: "seed_settings \<Rightarrow> agent_data \<Rightarrow> agent_data" where
  "seed_fields e d =
     d\<lparr> ad_stt_provider := sd_stt_provider e, ad_stt_model := sd_stt_model e, ad_llm_provider := sd_llm_provider e,
        ad_llm_model := sd_llm_model e, ad_tts_provider := sd_tts_provider e, ad_tts_model := sd_tts_model e,
        ad_tts_voice := sd_tts_voice e \<rparr>"

definition upsert_default_agent :: "acc_ext \<Rightarrow> string \<Rightarrow> agent_row tx" where
  "upsert_default_agent x org s =
     (let (n, s1) = draw s;
          a = \<lparr> ag_id = kx_uuid x n, ag_org = org,
                ag_data = default_agent ''Local seeded agent used for compatibility and quick testing.''
                  ''You are a concise VoiceMesh voice agent. Help the caller clearly, ask one question at a time, and keep responses easy to speak aloud.''
                  (kx_seed x) \<rparr>
      in case List.find (\<lambda>b. same_agent_name b a) (ac_agents s) of
           Some b \<Rightarrow>
             (let c = b\<lparr> ag_data := seed_fields (kx_seed x) (ag_data b) \<rparr>
              in Inr (c, s\<lparr> ac_agents := map (\<lambda>o'. if same_agent_name o' a then c else o') (ac_agents s) \<rparr>))
         | None \<Rightarrow> bindE (insert_agent a s1) (\<lambda>s2. Inr (a, s2)))"

definition seed_user :: "acc_ext \<Rightarrow> user_row tx" where
  "seed_user x s =
     (let email = str_lower (sd_admin_email (kx_seed x)) in
      case List.find (\<lambda>u. ur_email u = email) (ac_users s) of
        Some u \<Rightarrow> Inr (u, s)
      | None \<Rightarrow>
          bindE (hash_password (kx_crypto x) (kx_salt x (ac_drawn s)) (sd_admin_password (kx_seed x))) (\<lambda>h.
            (let (n, s1) = draw s; u = \<lparr> ur_id = kx_uuid x n, ur_email = email, ur_name = ''VoiceMesh Admin'', ur_hash = h \<rparr>
             in bindE (insert_user u s1) (\<lambda>s2. Inr (u, s2)))))"

definition upsert_owner :: "string \<Rightarrow> string \<Rightarrow> accounts \<Rightarrow> accounts res" where
  "upsert_owner org user s =
     (if list_ex (\<lambda>m. mb_org m = org \<and> mb_user m = user) (ac_members s)
      then Inr (s\<lparr> ac_members := map (\<lambda>m. if mb_org m = org \<and> mb_user m = user then m\<lparr> mb_role := ''owner'' \<rparr> else m) (ac_members s) \<rparr>)
      else insert_member \<lparr> mb_org = org, mb_user = user, mb_role = ''owner'' \<rparr> s)"

text \<open>Calls without a workspace, an agent or a snapshot get those of the seed.\<close>

definition coalesce :: "pyv \<Rightarrow> pyv \<Rightarrow> pyv" where
  "coalesce v w = (if v = PNone then w else v)"

definition adopt_call :: "agent_row \<Rightarrow> call_row \<Rightarrow> call_row" where
  "adopt_call a c =
     c\<lparr> cl_org := coalesce (cl_org c) (PStr (ag_org a)), cl_agent := coalesce (cl_agent c) (PStr (ag_id a)),
        cl_snapshot := (if cl_snapshot c = PDict [] then PDict (agent_snapshot a) else cl_snapshot c) \<rparr>"

definition ensure_platform_seed :: "acc_ext \<Rightarrow> accounts \<times> db \<Rightarrow> ((org_row \<times> user_row \<times> agent_row) \<times> accounts \<times> db) res" where
  "ensure_platform_seed x sd =
     (let (s, d) = sd in
      if sd_admin_email (kx_seed x) = [] \<or> sd_admin_password (kx_seed x) = [] then
        Inl (RuntimeError ''VOICEMESH_ADMIN_EMAIL and VOICEMESH_ADMIN_PASSWORD are required to seed the local workspace. Set them in .env.'')
      else bindE (upsert_org x s) (\<lambda>(g, s1).
           bindE (upsert_default_agent x (og_id g) s1) (\<lambda>(a, s2).
           bindE (seed_user x s2) (\<lambda>(u, s3).
           bindE (upsert_owner (og_id g) (ur_id u) s3) (\<lambda>s4.
             Inr ((g, u, a), s4, d\<lparr> db_calls := (\<lambda>c. map_option (adopt_call (agent_view x a)) (db_calls d c)) \<rparr>))))))"

subsection \<open>Requests\<close>

datatype http_fail = Http int string | Raised exn

type_synonym 'a http = "http_fail + 'a"

definition raised :: "'a res \<Rightarrow> 'a http" where
  "raised r = (case r of Inl e \<Rightarrow> Inl (Raised e) | Inr v \<Rightarrow> Inr v)"

definition cookie_token :: "string option \<Rightarrow> string" where
  "cookie_token c = (case c of None \<Rightarrow> [] | Some t \<Rightarrow> t)"

definition get_current_context :: "acc_ext \<Rightarrow> rat \<Rightarrow> string option \<Rightarrow> accounts \<Rightarrow> auth_context http" where
  "get_current_context x now cookie s =
     (if cookie_token cookie = [] then Inl (Http 401 ''Not authenticated'')
      else case session_context now (hash_session_token (kx_crypto x) (cookie_token cookie)) s of
             None \<Rightarrow> Inl (Http 401 ''Session expired'')
           | Some c \<Rightarrow> Inr c)"

definition authenticate_websocket :: "acc_ext \<Rightarrow> rat \<Rightarrow> string option \<Rightarrow> accounts \<Rightarrow> auth_context option" where
  "authenticate_websocket x now cookie s =
     (if cookie_token cookie = [] then None
      else session_context now (hash_session_token (kx_crypto x) (cookie_token cookie)) s)"

text \<open>\<open>_create_session_cookie\<close>: the token goes to the client, its hash to the table.\<close>

definition create_session_cookie :: "acc_ext \<Rightarrow> rat \<Rightarrow> login_row \<Rightarrow> accounts \<Rightarrow> (string \<times> accounts) http" where
  "create_session_cookie x now r s =
     (let token = kx_token x (ac_drawn s)
      in raised (bindE (create_session x now (ur_id (lg_user r)) (lg_org r) (hash_session_token (kx_crypto x) token) (sd_ttl_hours (kx_seed x)) s)
           (\<lambda>(_, s1). Inr (token, s1))))"

definition route_login :: "acc_ext \<Rightarrow> rat \<Rightarrow> string \<Rightarrow> string \<Rightarrow> accounts \<Rightarrow> ((login_row \<times> string) \<times> accounts) http" where
  "route_login x now email password s =
     bindE (raised (login_user x email password s)) (\<lambda>user.
       case user of
         None \<Rightarrow> Inl (Http 401 ''Invalid email or password'')
       | Some r \<Rightarrow> bindE (create_session_cookie x now r s) (\<lambda>(token, s1). Inr ((r, token), s1)))"

definition route_register ::
  "acc_ext \<Rightarrow> rat \<Rightarrow> string \<Rightarrow> string \<Rightarrow> string \<Rightarrow> string \<Rightarrow> accounts \<Rightarrow> (login_row \<times> string) http \<times> accounts" where
  "route_register x now email password name org_name s =
     (if length password < 8 then (Inl (Http 422 ''Password must be at least 8 characters''), s)
      else case register_workspace x email password name org_name s of
             Inl e \<Rightarrow>
               (Inl (if e = ValueError ''email_already_registered'' then Http 409 ''Email is already registered'' else Raised e), s)
           | Inr (r, s1) \<Rightarrow>
               (case create_session_cookie x now r s1 of
                  Inl f \<Rightarrow> (Inl f, s1)
                | Inr (token, s2) \<Rightarrow> (Inr (r, token), s2)))"

definition route_logout :: "acc_ext \<Rightarrow> rat \<Rightarrow> string option \<Rightarrow> accounts \<Rightarrow> (string \<times> accounts) http" where
  "route_logout x now cookie s =
     bindE (get_current_context x now cookie s) (\<lambda>c.
       Inr (au_user c, delete_session (hash_session_token (kx_crypto x) (cookie_token cookie)) s))"

definition found :: "string \<Rightarrow> 'a option \<Rightarrow> 'a http" where
  "found what v = (case v of None \<Rightarrow> Inl (Http 404 (what @ '' not found'')) | Some a \<Rightarrow> Inr a)"

definition route_get_agent :: "acc_ext \<Rightarrow> rat \<Rightarrow> string option \<Rightarrow> string \<Rightarrow> accounts \<Rightarrow> agent_row http" where
  "route_get_agent x now cookie i s =
     bindE (get_current_context x now cookie s) (\<lambda>c.
     bindE (raised (get_agent x (au_org c) i s)) (found ''Agent''))"

definition route_list_agents :: "acc_ext \<Rightarrow> rat \<Rightarrow> (string \<times> call_row) list \<Rightarrow> string option \<Rightarrow> accounts \<Rightarrow> (agent_row \<times> nat) list http" where
  "route_list_agents x now calls cookie s =
     bindE (get_current_context x now cookie s) (\<lambda>c. Inr (list_agents x calls (au_org c) s))"

definition route_create_agent :: "acc_ext \<Rightarrow> rat \<Rightarrow> string option \<Rightarrow> agent_data \<Rightarrow> accounts \<Rightarrow> (agent_row \<times> accounts) http" where
  "route_create_agent x now cookie d s =
     bindE (get_current_context x now cookie s) (\<lambda>c. raised (create_agent x (au_org c) d s))"

definition route_update_agent :: "acc_ext \<Rightarrow> rat \<Rightarrow> string option \<Rightarrow> string \<Rightarrow> agent_patch \<Rightarrow> accounts \<Rightarrow> (agent_row \<times> accounts) http" where
  "route_update_agent x now cookie i p s =
     bindE (get_current_context x now cookie s) (\<lambda>c.
     bindE (raised (update_agent x (au_org c) i p s)) (\<lambda>(a, s1). bindE (found ''Agent'' a) (\<lambda>b. Inr (b, s1))))"

definition route_agent_calls ::
  "acc_ext \<Rightarrow> rat \<Rightarrow> (string \<times> call_row) list \<Rightarrow> string option \<Rightarrow> string \<Rightarrow> accounts \<Rightarrow> (string \<times> call_row) list http" where
  "route_agent_calls x now calls cookie i s =
     bindE (get_current_context x now cookie s) (\<lambda>c.
     bindE (raised (get_agent x (au_org c) i s)) (\<lambda>a.
     bindE (found ''Agent'' a) (\<lambda>b. Inr (list_agent_calls calls (au_org c) (ag_id b) 50))))"

end
