(* ===== verification/Account_Flow.thy ===== *)
theory Account_Flow
  imports Account_Laws
begin

text \<open>
  Runs of the identity routes: the tables stay consistent, a registered user can log in, a login
  lasts its session's time, a logout ends it, and the requests of a session stay in its workspace.
\<close>

subsection \<open>The tables by their keys\<close>

lemma has_org_key: "has_org i s \<longleftrightarrow> i \<in> set (map og_id (ac_orgs s))"
  and has_user_key: "has_user i s \<longleftrightarrow> i \<in> set (map ur_id (ac_users s))"
  by (auto simp: has_org_def has_user_def list_ex_iff)

definition member_keys :: "accounts \<Rightarrow> (string \<times> string) list" where
  "member_keys s = map (\<lambda>m. (mb_org m, mb_user m)) (ac_members s)"

definition agent_keys :: "accounts \<Rightarrow> (string \<times> string) list" where
  "agent_keys s = map (\<lambda>a. (ag_org a, ad_name (ag_data a))) (ac_agents s)"

lemma member_of_key: "member_of u g s \<longleftrightarrow> (g, u) \<in> set (member_keys s)"
  by (auto simp: member_of_def member_keys_def)

lemma accounts_ok_keys:
  "accounts_ok s \<longleftrightarrow> distinct (map og_slug (ac_orgs s)) \<and> distinct (map og_id (ac_orgs s)) \<and> users_ok s
     \<and> distinct (member_keys s) \<and> set (member_keys s) \<subseteq> set (map og_id (ac_orgs s)) \<times> set (map ur_id (ac_users s))
     \<and> distinct (map ss_hash (ac_sessions s)) \<and> (\<lambda>t. (ss_org t, ss_user t)) ` set (ac_sessions s) \<subseteq> set (member_keys s)
     \<and> distinct (agent_keys s) \<and> distinct (map ag_id (ac_agents s)) \<and> fst ` set (agent_keys s) \<subseteq> set (map og_id (ac_orgs s))"
  unfolding accounts_ok_def orgs_ok_def members_ok_def sessions_ok_def agents_ok_def has_org_key has_user_key member_of_key
  by (auto simp: member_keys_def agent_keys_def image_subset_iff)

lemma fst_agent_keys: "fst ` set (agent_keys s) = set (map ag_org (ac_agents s))"
  by (simp add: agent_keys_def image_image)

lemma agents_replaced_ok:
  assumes "accounts_ok s" "distinct (map (\<lambda>a. (ag_org a, ad_name (ag_data a))) as)" "distinct (map ag_id as)"
    and "set (map ag_org as) \<subseteq> set (map og_id (ac_orgs s))"
  shows "accounts_ok (s\<lparr> ac_agents := as \<rparr>)"
  using assms by (simp add: accounts_ok_keys fst_agent_keys users_ok_def) (simp add: agent_keys_def member_keys_def)

text \<open>Replacing one row of a table.\<close>

lemma replace_same_key:
  "(\<And>y. y \<in> set xs \<Longrightarrow> P y \<Longrightarrow> k b = k y) \<Longrightarrow> map k (map (\<lambda>y. if P y then b else y) xs) = map k xs"
  by (simp add: o_def)

lemma replace_keys_distinct:
  assumes "distinct xs" "distinct (map k xs)" "\<And>y. y \<in> set xs \<Longrightarrow> P y \<longleftrightarrow> y = a" "\<And>y. y \<in> set xs \<Longrightarrow> y \<noteq> a \<Longrightarrow> k y \<noteq> k b"
  shows "distinct (map k (map (\<lambda>y. if P y then b else y) xs))"
  using assms
proof (induction xs)
  case (Cons z xs)
  have "distinct (map k (map (\<lambda>y. if P y then b else y) xs))" using Cons by simp
  moreover have "k (if P z then b else z) \<notin> set (map k (map (\<lambda>y. if P y then b else y) xs))"
  proof
    assume "k (if P z then b else z) \<in> set (map k (map (\<lambda>y. if P y then b else y) xs))"
    then obtain y where y: "y \<in> set xs" "k (if P z then b else z) = k (if P y then b else y)" by auto
    have ne: "z \<noteq> y" "k z \<noteq> k y" using Cons.prems(1,2) y(1) by auto
    show False
      using y ne Cons.prems(3) [of z] Cons.prems(3) [of y] Cons.prems(4) [of z] Cons.prems(4) [of y] by (auto split: if_splits)
  qed
  ultimately show ?case by simp
qed simp

lemma key_unique: "distinct (map f xs) \<Longrightarrow> a \<in> set xs \<Longrightarrow> b \<in> set xs \<Longrightarrow> f a = f b \<longleftrightarrow> a = b"
  by (auto simp: distinct_map inj_on_def)

subsection \<open>Each operation\<close>

lemma create_session_ok:
  assumes "create_session x now u g h ttl s = Inr (v, s')" "accounts_ok s" "member_of u g s"
  shows "accounts_ok s' \<and> ac_members s' = ac_members s \<and> ac_users s' = ac_users s \<and> ac_orgs s' = ac_orgs s \<and> ac_agents s' = ac_agents s
     \<and> ac_sessions s' = ac_sessions s @ [\<lparr> ss_id = kx_uuid x (ac_drawn s), ss_user = u, ss_org = g, ss_hash = h, ss_expires = now + of_int (ttl * 3600) \<rparr>]"
proof -
  have "insert_session \<lparr> ss_id = kx_uuid x (ac_drawn s), ss_user = u, ss_org = g, ss_hash = h, ss_expires = now + of_int (ttl * 3600) \<rparr>
      (s\<lparr> ac_drawn := Suc (ac_drawn s) \<rparr>) = Inr s'"
    using assms(1) by (auto simp: create_session_def draw_def bindE_eq_Inr)
  from insert_session_ok [OF this] show ?thesis using assms(2,3) by (simp add: member_of_def)
qed

lemma delete_session_ok: "accounts_ok s \<Longrightarrow> accounts_ok (delete_session h s)"
  by (auto simp: accounts_ok_keys delete_session_def member_keys_def agent_keys_def users_ok_def distinct_map inj_on_def)

lemma login_rows_in: "r \<in> set (login_rows e s) \<Longrightarrow> lg_user r \<in> set (ac_users s) \<and> member_of (ur_id (lg_user r)) (lg_org r) s
    \<and> str_lower (ur_email (lg_user r)) = str_lower e"
  by (auto simp: login_rows_def member_of_def Let_def)

lemma login_user_row: "login_user x e p s = Inr (Some r) \<Longrightarrow> r \<in> set (login_rows e s) \<and> verify_password (kx_crypto x) p (ur_hash (lg_user r)) = Inr True"
  by (auto simp: login_user_def bindE_eq_Inr split: list.splits if_splits)

lemma create_agent_ok:
  assumes "create_agent x g d s = Inr (a, s')" "accounts_ok s"
  shows "accounts_ok s' \<and> ac_members s' = ac_members s \<and> ac_users s' = ac_users s \<and> ac_orgs s' = ac_orgs s \<and> ac_sessions s' = ac_sessions s
     \<and> (\<exists>b. ac_agents s' = ac_agents s @ [b] \<and> a = agent_view x b \<and> ag_org b = g)"
proof -
  obtain b where b: "insert_agent b (s\<lparr> ac_drawn := Suc (ac_drawn s) \<rparr>) = Inr s'" "ag_org b = g" "a = agent_view x b"
    using assms(1) by (auto simp: create_agent_def draw_def bindE_eq_Inr Let_def)
  from insert_agent_ok [OF b(1)] show ?thesis using assms(2) b(2,3) by auto
qed

lemma get_agent_row:
  assumes "get_agent x g i s = Inr (Some a)"
  obtains b where "b \<in> set (ac_agents s)" "a = agent_view x b" "kx_uuid_of x g = Some (ag_org b)" "kx_uuid_of x i = Some (ag_id b)"
proof -
  obtain o' j b where "kx_uuid_of x g = Some o'" "kx_uuid_of x i = Some j" "a = agent_view x b"
    and find: "List.find (\<lambda>a. ag_org a = o' \<and> ag_id a = j) (ac_agents s) = Some b"
    using assms by (auto simp: get_agent_def split: option.splits)
  moreover have "b \<in> set (ac_agents s) \<and> ag_org b = o' \<and> ag_id b = j" using find by (auto simp: find_Some_iff)
  ultimately show ?thesis using that by blast
qed

text \<open>An update replaces one row, of the workspace named, by one of the same workspace.\<close>

lemma update_agent_cases:
  assumes "update_agent x g i p s = Inr (r, s')"
  obtains "r = None" "s' = s"
  | a0 b where "a0 \<in> set (ac_agents s)" "kx_uuid_of x g = Some (ag_org a0)" "kx_uuid_of x i = Some (ag_id a0)"
      "ag_org b = ag_org a0" "ag_id b = ag_id a0" "r = Some (agent_view x b)"
      "\<forall>y \<in> set (ac_agents s). same_agent_name y b \<longrightarrow> ag_id y = ag_id a0"
      "s' = s\<lparr> ac_agents := map (\<lambda>y. if ag_org y = ag_org a0 \<and> ag_id y = ag_id a0 then b else y) (ac_agents s) \<rparr>"
      "ag_data b = (let m = apply_patch p (ag_data (agent_view x a0)) in m\<lparr> ad_tuning := py_or (ad_tuning m) (PDict []) \<rparr>)"
proof -
  obtain current where current: "get_agent x g i s = Inr current"
    using assms by (auto simp: update_agent_def bindE_eq_Inr)
  show thesis
  proof (cases current)
    case None
    then have "r = None" "s' = s" using assms current by (simp_all add: update_agent_def)
    then show ?thesis by (rule that(1))
  next
    case (Some a)
    obtain a0 where a0: "a0 \<in> set (ac_agents s)" "a = agent_view x a0" "kx_uuid_of x g = Some (ag_org a0)" "kx_uuid_of x i = Some (ag_id a0)"
      using get_agent_row current Some by metis
    define m where "m = apply_patch p (ag_data a)"
    define b where "b = a\<lparr> ag_data := m\<lparr> ad_tuning := py_or (ad_tuning m) (PDict []) \<rparr> \<rparr>"
    have keys: "ag_org a = ag_org a0" "ag_id a = ag_id a0" by (simp_all add: a0(2) agent_view_def)
    have run: "(if list_ex (\<lambda>y. same_agent_name y b \<and> ag_id y \<noteq> ag_id a) (ac_agents s) then Inl unique_violation
        else Inr (Some (agent_view x b), s\<lparr> ac_agents := map (\<lambda>y. if ag_org y = ag_org a \<and> ag_id y = ag_id a then b else y) (ac_agents s) \<rparr>))
        = Inr (r, s')"
      using assms current Some unfolding update_agent_def b_def m_def Let_def by simp
    then have no: "\<not> list_ex (\<lambda>y. same_agent_name y b \<and> ag_id y \<noteq> ag_id a) (ac_agents s)" by (auto split: if_splits)
    with run have res: "r = Some (agent_view x b)"
        "s' = s\<lparr> ac_agents := map (\<lambda>y. if ag_org y = ag_org a0 \<and> ag_id y = ag_id a0 then b else y) (ac_agents s) \<rparr>"
      using keys by auto
    have names: "\<forall>y \<in> set (ac_agents s). same_agent_name y b \<longrightarrow> ag_id y = ag_id a0"
      using no keys by (auto simp: list_ex_iff)
    have data: "ag_data b = (let m = apply_patch p (ag_data (agent_view x a0)) in m\<lparr> ad_tuning := py_or (ad_tuning m) (PDict []) \<rparr>)"
      by (simp add: b_def m_def a0(2) Let_def)
    have "ag_org b = ag_org a0" "ag_id b = ag_id a0" using keys by (simp_all add: b_def)
    then show ?thesis by (rule that(2) [OF a0(1,3,4) _ _ res(1) names res(2) data])
  qed
qed

lemma update_agent_ok:
  assumes "update_agent x g i p s = Inr (r, s')" "accounts_ok s"
  shows "accounts_ok s' \<and> ac_members s' = ac_members s \<and> ac_users s' = ac_users s \<and> ac_orgs s' = ac_orgs s \<and> ac_sessions s' = ac_sessions s"
  using assms(1)
proof (cases rule: update_agent_cases)
  case 1
  then show ?thesis using assms(2) by simp
next
  case (2 a0 b)
  let ?f = "\<lambda>y. if ag_org y = ag_org a0 \<and> ag_id y = ag_id a0 then b else y"
  have ids: "distinct (map ag_id (ac_agents s))" and names: "distinct (agent_keys s)" using assms(2) by (auto simp: accounts_ok_keys)
  then have d: "distinct (ac_agents s)" by (simp add: distinct_map)
  have this_row: "(ag_org y = ag_org a0 \<and> ag_id y = ag_id a0) = (y = a0)" if "y \<in> set (ac_agents s)" for y
    using key_unique [OF ids that 2(1)] by auto
  have keep: "map ag_id (map ?f (ac_agents s)) = map ag_id (ac_agents s)" by (rule replace_same_key) (simp add: 2(5))
  have new: "distinct (map (\<lambda>a. (ag_org a, ad_name (ag_data a))) (map ?f (ac_agents s)))"
  proof (rule replace_keys_distinct [OF d])
    show "distinct (map (\<lambda>a. (ag_org a, ad_name (ag_data a))) (ac_agents s))" using names by (simp add: agent_keys_def)
    show "(ag_org y = ag_org a0 \<and> ag_id y = ag_id a0) = (y = a0)" if "y \<in> set (ac_agents s)" for y by (rule this_row [OF that])
    show "(ag_org y, ad_name (ag_data y)) \<noteq> (ag_org b, ad_name (ag_data b))" if "y \<in> set (ac_agents s)" "y \<noteq> a0" for y
    proof -
      have "ag_id y \<noteq> ag_id a0" using key_unique [OF ids that(1) 2(1)] that(2) by simp
      then have "\<not> same_agent_name y b" using 2(7) that(1) by blast
      then show ?thesis by (auto simp: same_agent_name_def)
    qed
  qed
  have orgs: "map ag_org (map ?f (ac_agents s)) = map ag_org (ac_agents s)" by (rule replace_same_key) (simp add: 2(4))
  have "set (map ag_org (ac_agents s)) \<subseteq> set (map og_id (ac_orgs s))" using assms(2) by (simp add: accounts_ok_keys fst_agent_keys)
  then have "accounts_ok (s\<lparr> ac_agents := map ?f (ac_agents s) \<rparr>)"
    using agents_replaced_ok [OF assms(2) new] unfolding keep orgs using ids by blast
  then show ?thesis by (simp add: 2(8))
qed

subsection \<open>The seed\<close>

lemma find_key:
  assumes "distinct (map f xs)" "List.find (\<lambda>y. f y = v) xs = Some a"
  shows "a \<in> set xs" "f a = v" "\<And>y. y \<in> set xs \<Longrightarrow> f y = v \<longleftrightarrow> y = a"
proof -
  have a: "a \<in> set xs \<and> f a = v" using assms(2) by (auto simp: find_Some_iff)
  then show "a \<in> set xs" "f a = v" by simp_all
  show "f y = v \<longleftrightarrow> y = a" if "y \<in> set xs" for y
    using key_unique [OF assms(1) that, of a] a by auto
qed

lemma upsert_org_ok:
  assumes "upsert_org x s = Inr (g, s')" "accounts_ok s"
  shows "accounts_ok s' \<and> ac_sessions s' = ac_sessions s"
proof (cases "List.find (\<lambda>g. og_slug g = ''voicemesh-local'') (ac_orgs s)")
  case None
  define g' where "g' = \<lparr> og_id = kx_uuid x (ac_drawn s), og_name = sd_org_name (kx_seed x), og_slug = ''voicemesh-local'' \<rparr>"
  have "insert_org g' (s\<lparr> ac_drawn := Suc (ac_drawn s) \<rparr>) = Inr s'"
    using None assms(1) unfolding g'_def by (auto simp: upsert_org_def g'_def draw_def bindE_eq_Inr Let_def)
  from insert_org_ok [OF this] show ?thesis using assms(2) by simp
next
  case (Some k)
  have slugs: "distinct (map og_slug (ac_orgs s))" using assms(2) by (simp add: accounts_ok_keys)
  note k = find_key [OF slugs Some]
  define f where "f = (\<lambda>y. if og_slug y = ''voicemesh-local'' then k\<lparr> og_name := sd_org_name (kx_seed x) \<rparr> else y)"
  have s': "s' = s\<lparr> ac_orgs := map f (ac_orgs s) \<rparr>" using Some assms(1) by (simp add: upsert_org_def f_def Let_def)
  have "map og_id (map f (ac_orgs s)) = map og_id (ac_orgs s)" unfolding f_def by (rule replace_same_key) (use k(3) in auto)
  moreover have "map og_slug (map f (ac_orgs s)) = map og_slug (ac_orgs s)" unfolding f_def by (rule replace_same_key) (use k(3) in auto)
  ultimately show ?thesis
    using assms(2) by (simp add: s' accounts_ok_keys users_ok_def member_keys_def agent_keys_def del: list.map_comp map_map)
qed

lemma upsert_default_agent_ok:
  assumes "upsert_default_agent x g s = Inr (a, s')" "accounts_ok s"
  shows "accounts_ok s' \<and> ac_sessions s' = ac_sessions s"
proof -
  define n where "n = \<lparr> ag_id = kx_uuid x (ac_drawn s), ag_org = g,
      ag_data = default_agent ''Local seeded agent used for compatibility and quick testing.''
        ''You are a concise VoiceMesh voice agent. Help the caller clearly, ask one question at a time, and keep responses easy to speak aloud.''
        (kx_seed x) \<rparr>"
  show ?thesis
  proof (cases "List.find (\<lambda>b. same_agent_name b n) (ac_agents s)")
    case None
    then have "insert_agent n (s\<lparr> ac_drawn := Suc (ac_drawn s) \<rparr>) = Inr s'"
      using assms(1) unfolding n_def by (auto simp: upsert_default_agent_def draw_def bindE_eq_Inr Let_def)
    from insert_agent_ok [OF this] show ?thesis using assms(2) by simp
  next
    case (Some k)
    let ?key = "\<lambda>a. (ag_org a, ad_name (ag_data a))"
    have keys: "distinct (map ?key (ac_agents s))" using assms(2) by (simp add: accounts_ok_keys agent_keys_def)
    have same: "same_agent_name b n \<longleftrightarrow> ?key b = ?key n" for b by (simp add: same_agent_name_def)
    have find: "List.find (\<lambda>b. ?key b = ?key n) (ac_agents s) = Some k" using Some unfolding same .
    note k = find_key [OF keys find]
    define c where "c = k\<lparr> ag_data := seed_fields (kx_seed x) (ag_data k) \<rparr>"
    define f where "f = (\<lambda>y. if same_agent_name y n then c else y)"
    have s': "s' = s\<lparr> ac_agents := map f (ac_agents s) \<rparr>"
      using Some assms(1) unfolding n_def f_def c_def by (auto simp: upsert_default_agent_def draw_def Let_def)
    have c: "?key c = ?key k" "ag_id c = ag_id k" "ag_org c = ag_org k" by (simp_all add: c_def seed_fields_def)
    have "map ?key (map f (ac_agents s)) = map ?key (ac_agents s)"
      unfolding f_def same by (rule replace_same_key) (use k(3) c in auto)
    moreover have "map ag_id (map f (ac_agents s)) = map ag_id (ac_agents s)"
      unfolding f_def same by (rule replace_same_key) (use k(3) c in auto)
    moreover have "map ag_org (map f (ac_agents s)) = map ag_org (ac_agents s)"
      unfolding f_def same by (rule replace_same_key) (use k(3) c in auto)
    moreover have "set (map ag_org (ac_agents s)) \<subseteq> set (map og_id (ac_orgs s))" "distinct (map ag_id (ac_agents s))"
      using assms(2) by (simp_all add: accounts_ok_keys fst_agent_keys)
    ultimately have "accounts_ok (s\<lparr> ac_agents := map f (ac_agents s) \<rparr>)"
      using keys by (intro agents_replaced_ok [OF assms(2)]) metis+
    then show ?thesis by (simp add: s')
  qed
qed

lemma seed_user_ok:
  assumes "seed_user x s = Inr (u, s')" "accounts_ok s"
  shows "accounts_ok s' \<and> ac_sessions s' = ac_sessions s"
proof (cases "List.find (\<lambda>u. ur_email u = str_lower (sd_admin_email (kx_seed x))) (ac_users s)")
  case None
  then obtain v where "insert_user v (s\<lparr> ac_drawn := Suc (ac_drawn s) \<rparr>) = Inr s'" "ur_email v = str_lower (sd_admin_email (kx_seed x))"
    using assms(1) by (auto simp: seed_user_def draw_def bindE_eq_Inr Let_def)
  from insert_user_ok [OF this(1)] this(2) show ?thesis using assms(2) by simp
next
  case (Some v)
  then show ?thesis using assms by (simp add: seed_user_def Let_def)
qed

lemma upsert_owner_ok:
  assumes "upsert_owner g u s = Inr s'" "accounts_ok s"
  shows "accounts_ok s' \<and> ac_sessions s' = ac_sessions s"
proof (cases "list_ex (\<lambda>m. mb_org m = g \<and> mb_user m = u) (ac_members s)")
  case False
  then show ?thesis using assms(1) insert_member_ok [OF _ assms(2)] by (simp add: upsert_owner_def)
next
  case True
  define f :: "member_row \<Rightarrow> member_row" where "f = (\<lambda>m. if mb_org m = g \<and> mb_user m = u then m\<lparr> mb_role := ''owner'' \<rparr> else m)"
  have s': "s' = s\<lparr> ac_members := map f (ac_members s) \<rparr>" using True assms(1) by (simp add: upsert_owner_def f_def)
  have "(\<lambda>m. (mb_org m, mb_user m)) (f m) = (mb_org m, mb_user m)" for m by (simp add: f_def)
  then have "member_keys s' = member_keys s" by (simp add: s' member_keys_def o_def)
  then show ?thesis using assms(2) by (simp add: accounts_ok_keys) (simp add: s' users_ok_def agent_keys_def)
qed

lemma seed_ok:
  assumes "ensure_platform_seed x (s, d) = Inr (v, s', d')" "accounts_ok s"
  shows "accounts_ok s' \<and> ac_sessions s' = ac_sessions s"
proof -
  obtain g s1 a s2 u s3 where "upsert_org x s = Inr (g, s1)" "upsert_default_agent x (og_id g) s1 = Inr (a, s2)"
      "seed_user x s2 = Inr (u, s3)" "upsert_owner (og_id g) (ur_id u) s3 = Inr s'"
    using assms(1) by (auto simp: ensure_platform_seed_def bindE_eq_Inr split: if_splits)
  then show ?thesis
    using assms(2) upsert_org_ok upsert_default_agent_ok seed_user_ok upsert_owner_ok by metis
qed

subsection \<open>Runs of requests\<close>

datatype acc_op =
    OpRegister string string string string
  | OpLogin string string
  | OpLogout "string option"
  | OpCreate "string option" dict
  | OpUpdate "string option" string dict
  | OpSeed db

definition kept :: "accounts \<Rightarrow> ('a \<times> accounts) http \<Rightarrow> accounts" where
  "kept s r = (case r of Inl _ \<Rightarrow> s | Inr (_, s') \<Rightarrow> s')"

text \<open>The tables after a request: a request that fails leaves them as they are, except that a
registration stays when only its session could not be made.\<close>

fun acc_do :: "acc_ext \<Rightarrow> rat \<times> acc_op \<Rightarrow> accounts \<Rightarrow> accounts" where
  "acc_do x (now, OpRegister e p n g) s = snd (route_register x now e p n g s)"
| "acc_do x (now, OpLogin e p) s = kept s (route_login x now e p s)"
| "acc_do x (now, OpLogout c) s = kept s (route_logout x now c s)"
| "acc_do x (now, OpCreate c d) s = kept s (bindE (raised (agent_create_of d)) (\<lambda>a. route_create_agent x now c a s))"
| "acc_do x (now, OpUpdate c i d) s = kept s (bindE (raised (agent_patch_of d)) (\<lambda>p. route_update_agent x now c i p s))"
| "acc_do x (now, OpSeed d) s = (case ensure_platform_seed x (s, d) of Inl _ \<Rightarrow> s | Inr (_, s', _) \<Rightarrow> s')"

fun acc_run :: "acc_ext \<Rightarrow> (rat \<times> acc_op) list \<Rightarrow> accounts \<Rightarrow> accounts" where
  "acc_run x [] s = s"
| "acc_run x (op # ops) s = acc_run x ops (acc_do x op s)"

lemma raised_Inr [simp]: "raised r = Inr v \<longleftrightarrow> r = Inr v"
  by (simp add: raised_def split: sum.split)

lemma kept_cases: "kept s r = s \<or> (\<exists>v s'. r = Inr (v, s') \<and> kept s r = s')"
  by (simp add: kept_def split: sum.split)

lemma found_Inr [simp]: "found what v = Inr a \<longleftrightarrow> v = Some a"
  by (simp add: found_def split: option.split)

text \<open>A session made for a member keeps the tables consistent.\<close>

lemma session_cookie_ok:
  assumes "create_session_cookie x now r s = Inr (token, s')" "accounts_ok s" "member_of (ur_id (lg_user r)) (lg_org r) s"
  shows "accounts_ok s' \<and> token = kx_token x (ac_drawn s)
     \<and> ac_sessions s' = ac_sessions s @ [\<lparr> ss_id = kx_uuid x (ac_drawn s), ss_user = ur_id (lg_user r), ss_org = lg_org r,
          ss_hash = hash_session_token (kx_crypto x) token, ss_expires = now + of_int (sd_ttl_hours (kx_seed x) * 3600) \<rparr>]"
proof -
  have "raised (bindE (create_session x now (ur_id (lg_user r)) (lg_org r) (hash_session_token (kx_crypto x) (kx_token x (ac_drawn s)))
      (sd_ttl_hours (kx_seed x)) s) (\<lambda>(_, s1). Inr (kx_token x (ac_drawn s), s1))) = Inr (token, s')"
    using assms(1) unfolding create_session_cookie_def Let_def .
  then obtain v where v: "create_session x now (ur_id (lg_user r)) (lg_org r) (hash_session_token (kx_crypto x) (kx_token x (ac_drawn s)))
      (sd_ttl_hours (kx_seed x)) s = Inr (v, s')" and t: "token = kx_token x (ac_drawn s)"
    unfolding raised_Inr bindE_eq_Inr by (elim exE conjE) (simp split: prod.splits)
  show ?thesis unfolding t using create_session_ok [OF v assms(2,3)] by blast
qed

lemma route_login_ok:
  assumes "route_login x now e p s = Inr ((r, token), s')"
  shows "login_user x e p s = Inr (Some r) \<and> create_session_cookie x now r s = Inr (token, s') \<and> member_of (ur_id (lg_user r)) (lg_org r) s"
proof -
  have "login_user x e p s = Inr (Some r) \<and> create_session_cookie x now r s = Inr (token, s')"
    using assms by (auto simp: route_login_def bindE_eq_Inr split: option.splits)
  then show ?thesis using login_user_row login_rows_in by blast
qed

lemma register_member:
  assumes "register_workspace x e p n g s = Inr (r, s')" "accounts_ok s"
  shows "accounts_ok s' \<and> ac_sessions s' = ac_sessions s \<and> member_of (ur_id (lg_user r)) (lg_org r) s'"
proof -
  obtain g' :: org_row where g: "accounts_ok s'" "ac_sessions s' = ac_sessions s"
      "ac_members s' = ac_members s @ [\<lparr> mb_org = og_id g', mb_user = ur_id (lg_user r), mb_role = ''owner'' \<rparr>]"
      "r = \<lparr> lg_user = lg_user r, lg_org = og_id g', lg_org_name = og_name g', lg_role = ''owner'' \<rparr>"
    using register_ok [OF assms] by (elim exE conjE) (rule that, assumption+)
  then have "lg_org r = og_id g'" by (metis login_row.select_convs(2))
  then show ?thesis using g by (simp add: member_of_def)
qed

text \<open>The agent requests change nothing or do what the repository does.\<close>

lemma create_op_cases:
  "acc_do x (now, OpCreate c d) s = s
     \<or> (\<exists>g a b. agent_create_of d = Inr a \<and> create_agent x g a s = Inr (b, acc_do x (now, OpCreate c d) s))"
proof -
  let ?r = "bindE (raised (agent_create_of d)) (\<lambda>a. route_create_agent x now c a s)"
  have "?r = Inr (b, s') \<Longrightarrow> \<exists>g a. agent_create_of d = Inr a \<and> create_agent x g a s = Inr (b, s')" for b s'
    unfolding bindE_eq_Inr raised_Inr route_create_agent_def by blast
  then show ?thesis using kept_cases [of s ?r] by fastforce
qed

lemma update_op_cases:
  "acc_do x (now, OpUpdate c i d) s = s
     \<or> (\<exists>g p b. agent_patch_of d = Inr p \<and> update_agent x g i p s = Inr (b, acc_do x (now, OpUpdate c i d) s))"
proof -
  let ?r = "bindE (raised (agent_patch_of d)) (\<lambda>p. route_update_agent x now c i p s)"
  have "?r = Inr (b, s') \<Longrightarrow> \<exists>g p a. agent_patch_of d = Inr p \<and> update_agent x g i p s = Inr (a, s')" for b s'
    unfolding bindE_eq_Inr raised_Inr route_update_agent_def by (auto simp: bindE_eq_Inr split: prod.splits)
  then show ?thesis using kept_cases [of s ?r] by fastforce
qed

text \<open>What a request does to the tables, apart from a logout: they stay consistent and no session goes.\<close>

definition logs_out :: "acc_ext \<Rightarrow> string \<Rightarrow> acc_op \<Rightarrow> bool" where
  "logs_out x h op = (case op of OpLogout c \<Rightarrow> hash_session_token (kx_crypto x) (cookie_token c) = h | _ \<Rightarrow> False)"

lemma acc_do_ok:
  assumes "accounts_ok s"
  shows "accounts_ok (acc_do x op s)
     \<and> (\<forall>t \<in> set (ac_sessions s). \<not> logs_out x (ss_hash t) (snd op) \<longrightarrow> t \<in> set (ac_sessions (acc_do x op s)))"
proof -
  obtain now a where op: "op = (now, a)" by (cases op)
  show ?thesis
  proof (cases a)
    case (OpRegister e p n g)
    show ?thesis
    proof (cases "length p < 8 \<or> (\<exists>f. register_workspace x e p n g s = Inl f)")
      case True
      then show ?thesis using assms by (auto simp: op OpRegister route_register_def)
    next
      case False
      then obtain r s1 where r: "register_workspace x e p n g s = Inr (r, s1)" "\<not> length p < 8"
        by (cases "register_workspace x e p n g s") auto
      note m = register_member [OF r(1) assms]
      show ?thesis
      proof (cases "create_session_cookie x now r s1")
        case (Inl f)
        then show ?thesis using r m by (simp add: op OpRegister route_register_def)
      next
        case (Inr v)
        then obtain token s2 where s2: "create_session_cookie x now r s1 = Inr (token, s2)" by (cases v) auto
        from session_cookie_ok [OF s2] show ?thesis using r m s2 by (simp add: op OpRegister route_register_def)
      qed
    qed
  next
    case (OpLogin e p)
    show ?thesis
    proof (cases "route_login x now e p s")
      case (Inr v)
      then obtain r token s' where v: "route_login x now e p s = Inr ((r, token), s')" by (metis surj_pair)
      with route_login_ok [OF v] session_cookie_ok [of x now r s token s'] assms
      show ?thesis by (simp add: op OpLogin kept_def)
    qed (use assms in \<open>simp add: op OpLogin kept_def\<close>)
  next
    case (OpLogout c)
    have "kept s (route_logout x now c s) = s \<or> kept s (route_logout x now c s) = delete_session (hash_session_token (kx_crypto x) (cookie_token c)) s"
      by (cases "get_current_context x now c s") (simp_all add: route_logout_def kept_def)
    then show ?thesis using assms delete_session_ok by (auto simp: op OpLogout logs_out_def delete_session_def)
  next
    case (OpCreate c d)
    then show ?thesis using create_op_cases [of x now c d s] create_agent_ok [OF _ assms] assms by (auto simp: op)
  next
    case (OpUpdate c i d)
    then show ?thesis using update_op_cases [of x now c i d s] update_agent_ok [OF _ assms] assms by (auto simp: op)
  next
    case (OpSeed d)
    show ?thesis
      using assms seed_ok [of x s d] by (auto simp: op OpSeed split: sum.split)
  qed
qed

lemma acc_run_ok:
  "accounts_ok s \<Longrightarrow> accounts_ok (acc_run x ops s)
     \<and> (\<forall>t \<in> set (ac_sessions s). list_all (\<lambda>op. \<not> logs_out x (ss_hash t) (snd op)) ops \<longrightarrow> t \<in> set (ac_sessions (acc_run x ops s)))"
proof (induction ops arbitrary: s)
  case (Cons op ops)
  then show ?case using acc_do_ok [of s x op] by fastforce
qed simp

lemma accounts_empty_ok [simp]: "accounts_ok accounts_empty"
  by (simp add: accounts_ok_defs accounts_empty_def)

lemma acc_run_append: "acc_run x (as @ bs) s = acc_run x bs (acc_run x as s)"
  by (induction as arbitrary: s) auto

subsection \<open>What a session stands for\<close>

lemma session_context_cases:
  assumes "session_context now h s = Some c"
  obtains t m where "t \<in> set (ac_sessions s)" "ss_hash t = h" "now < ss_expires t" "ss_user t = au_user c" "ss_org t = au_org c"
    "m \<in> set (ac_members s)" "mb_user m = au_user c" "mb_org m = au_org c" "mb_role m = au_role c"
proof -
  let ?rows = "(concat (map (\<lambda>t. concat (map (\<lambda>u. concat (map (\<lambda>g. map (\<lambda>m.
                   \<lparr> au_session = ss_id t, au_user = ur_id u, au_email = ur_email u, au_name = ur_name u, au_org = og_id g,
                     au_org_name = og_name g, au_role = mb_role m \<rparr>)
                   (filter (\<lambda>m. mb_user m = ur_id u \<and> mb_org m = og_id g) (ac_members s)))
                   (filter (\<lambda>g. og_id g = ss_org t) (ac_orgs s))))
                   (filter (\<lambda>u. ur_id u = ss_user t) (ac_users s))))
                   (filter (\<lambda>t. ss_hash t = h \<and> now < ss_expires t) (ac_sessions s))))"
  have "\<exists>rest. ?rows = c # rest" using assms unfolding session_context_def Let_def by (auto split: list.splits)
  then have "c \<in> set ?rows" by (metis list.set_intros(1))
  then show thesis using that by fastforce
qed

lemma session_context_none:
  assumes "\<And>t. t \<in> set (ac_sessions s) \<Longrightarrow> ss_hash t = h \<Longrightarrow> ss_expires t \<le> now"
  shows "session_context now h s = None"
proof (rule ccontr)
  assume "session_context now h s \<noteq> None"
  then obtain c where "session_context now h s = Some c" by blast
  then show False by (rule session_context_cases) (use assms in force)
qed

text \<open>A live session is found, with its user and its workspace.\<close>

lemma session_context_live:
  assumes ok: "accounts_ok s" and t: "t \<in> set (ac_sessions s)" "now < ss_expires t"
  shows "\<exists>c. session_context now (ss_hash t) s = Some c \<and> au_session c = ss_id t \<and> au_user c = ss_user t \<and> au_org c = ss_org t"
proof -
  have keys: "distinct (map ss_hash (ac_sessions s))" "distinct (map og_id (ac_orgs s))" "distinct (map ur_id (ac_users s))"
      "distinct (member_keys s)" "member_of (ss_user t) (ss_org t) s"
    using ok t(1) by (auto simp: accounts_ok_keys users_ok_def member_of_key)
  obtain m where m: "m \<in> set (ac_members s)" "mb_user m = ss_user t" "mb_org m = ss_org t"
    using keys(5) by (auto simp: member_of_def)
  have "has_org (mb_org m) s" "has_user (mb_user m) s" using ok m(1) by (auto simp: accounts_ok_def members_ok_def)
  then obtain g u where g: "g \<in> set (ac_orgs s)" "og_id g = ss_org t" and u: "u \<in> set (ac_users s)" "ur_id u = ss_user t"
    using m by (auto simp: has_org_def has_user_def list_ex_iff)
  have "filter (\<lambda>v. now < ss_expires v) (filter (\<lambda>v. ss_hash v = ss_hash t) (ac_sessions s)) = [t]"
    by (simp only: filter_key [OF keys(1) t(1)] filter.simps t(2) if_True)
  then have f1: "filter (\<lambda>v. ss_hash v = ss_hash t \<and> now < ss_expires v) (ac_sessions s) = [t]"
    by (simp only: filter_filter)
  have f2: "filter (\<lambda>v. ur_id v = ss_user t) (ac_users s) = [u]" using filter_key [OF keys(3) u(1)] u(2) by simp
  have f3: "filter (\<lambda>v. og_id v = ss_org t) (ac_orgs s) = [g]" using filter_key [OF keys(2) g(1)] g(2) by simp
  have "distinct (map (\<lambda>m. (mb_org m, mb_user m)) (ac_members s))" using keys(4) by (simp add: member_keys_def)
  from filter_key [OF this m(1)] have f4: "filter (\<lambda>v. mb_user v = ss_user t \<and> mb_org v = ss_org t) (ac_members s) = [m]"
    using m by (simp add: conj_commute)
  show ?thesis unfolding session_context_def Let_def by (simp add: f1 f2 f3 f4 g(2) u(2))
qed

lemma filter_replaced:
  "(\<And>y. P y \<Longrightarrow> \<not> Q y) \<Longrightarrow> \<not> Q b \<Longrightarrow> filter Q (map (\<lambda>y. if P y then b else y) xs) = filter Q xs"
  by (induction xs) auto

subsection \<open>A small instance\<close>

definition seed_demo :: seed_settings where
  "seed_demo = \<lparr> sd_admin_email = ''a'', sd_admin_password = ''p'', sd_org_name = ''W'', sd_stt_provider = ''openai'', sd_stt_model = ''s'',
     sd_llm_provider = ''openai'', sd_llm_model = ''l'', sd_tts_provider = ''openai'', sd_tts_model = ''t'', sd_tts_voice = ''v'', sd_ttl_hours = 1 \<rparr>"

definition acc_demo :: acc_ext where
  "acc_demo = \<lparr> kx_crypto = \<lparr> cr_pbkdf2 = (\<lambda>p s i. Inr (s @ p)), cr_sha256 = (\<lambda>b. b), cr_utf8 = (\<lambda>s. replicate (length s) 1) \<rparr>,
     kx_uuid = (\<lambda>n. replicate (Suc n) (CHR ''i'')), kx_uuid_of = Some, kx_salt = (\<lambda>n. []), kx_token = (\<lambda>n. replicate (Suc n) (CHR ''t'')),
     kx_json = (\<lambda>v. ''j''), kx_seed = seed_demo \<rparr>"

abbreviation demo_user :: "string \<Rightarrow> user_row" where
  "demo_user h \<equiv> \<lparr> ur_id = ''iii'', ur_email = ''a'', ur_name = ''VoiceMesh Admin'', ur_hash = h \<rparr>"

definition demo_agent :: agent_row where
  "demo_agent = \<lparr> ag_id = ''ii'', ag_org = ''i'',
     ag_data = default_agent ''Local seeded agent used for compatibility and quick testing.''
       ''You are a concise VoiceMesh voice agent. Help the caller clearly, ask one question at a time, and keep responses easy to speak aloud.''
       seed_demo \<rparr>"

definition demo_accounts :: "string \<Rightarrow> accounts" where
  "demo_accounts h = \<lparr> ac_orgs = [\<lparr> og_id = ''i'', og_name = ''W'', og_slug = ''voicemesh-local'' \<rparr>], ac_users = [demo_user h],
     ac_members = [\<lparr> mb_org = ''i'', mb_user = ''iii'', mb_role = ''owner'' \<rparr>], ac_sessions = [], ac_agents = [demo_agent], ac_drawn = 3 \<rparr>"

definition demo_session :: session_row where
  "demo_session = \<lparr> ss_id = ''iiii'', ss_user = ''iii'', ss_org = ''i'', ss_hash = ''01010101'', ss_expires = 3600 \<rparr>"

abbreviation demo_login :: "string \<Rightarrow> login_row" where
  "demo_login h \<equiv> \<lparr> lg_user = demo_user h, lg_org = ''i'', lg_org_name = ''W'', lg_role = ''owner'' \<rparr>"

lemma demo_seeded:
  obtains h where "acc_run acc_demo [(0, OpSeed (db_empty []))] accounts_empty = demo_accounts h"
    and "verify_password (kx_crypto acc_demo) ''p'' h = Inr True"
proof -
  have a: "str_lower ''a'' = ''a''" by code_simp
  obtain h where h: "hash_password (kx_crypto acc_demo) [] ''p'' = Inr h" by (simp add: hash_password_def acc_demo_def)
  have seed: "kx_seed acc_demo = seed_demo" "kx_salt acc_demo n = []" "kx_uuid acc_demo n = replicate (Suc n) (CHR ''i'')" for n
    by (simp_all add: acc_demo_def)
  have s: "sd_admin_email seed_demo = ''a''" "sd_admin_password seed_demo = ''p''" "sd_org_name seed_demo = ''W''"
    by (simp_all add: seed_demo_def)
  have run: "acc_run acc_demo [(0, OpSeed (db_empty []))] accounts_empty = demo_accounts h"
    by (simp add: ensure_platform_seed_def upsert_org_def upsert_default_agent_def seed_user_def upsert_owner_def accounts_empty_def
        draw_def insert_org_def insert_agent_def insert_user_def insert_member_def has_org_def has_user_def Let_def seed s a h
        demo_accounts_def demo_agent_def numeral_2_eq_2 numeral_3_eq_3)
  have "verify_password (kx_crypto acc_demo) ''p'' h = Inr True"
    by (rule hash_parsed [OF h]) (simp add: verify_password_def)
  then show thesis using run that by blast
qed

lemma demo_logs_in:
  assumes "verify_password (kx_crypto acc_demo) ''p'' h = Inr True"
  shows "route_login acc_demo 0 ''a'' ''p'' (demo_accounts h)
    = Inr ((demo_login h, ''tttt''), (demo_accounts h)\<lparr> ac_sessions := [demo_session], ac_drawn := 4 \<rparr>)"
proof -
  have a: "str_lower ''a'' = ''a''" by code_simp
  have token: "hash_session_token (kx_crypto acc_demo) ''tttt'' = ''01010101''"
    by (simp add: hash_session_token_def acc_demo_def) code_simp
  have "login_user acc_demo ''a'' ''p'' (demo_accounts h) = Inr (Some (demo_login h))"
    using assms by (simp add: login_user_def login_rows_def demo_accounts_def Let_def a)
  moreover have "create_session_cookie acc_demo 0 (demo_login h) (demo_accounts h)
      = Inr (''tttt'', (demo_accounts h)\<lparr> ac_sessions := [demo_session], ac_drawn := 4 \<rparr>)"
    using token
    by (simp add: create_session_cookie_def create_session_def draw_def insert_session_def has_org_def has_user_def demo_accounts_def
        demo_session_def raised_def Let_def) (simp add: acc_demo_def seed_demo_def numeral_3_eq_3)
  ultimately show ?thesis by (simp add: route_login_def raised_def)
qed

lemma demo_logs_out:
  assumes "verify_password (kx_crypto acc_demo) ''p'' h = Inr True"
  shows "route_logout acc_demo 10 (Some ''tttt'') ((demo_accounts h)\<lparr> ac_sessions := [demo_session], ac_drawn := 4 \<rparr>)
    = Inr (''iii'', delete_session ''01010101'' ((demo_accounts h)\<lparr> ac_sessions := [demo_session], ac_drawn := 4 \<rparr>))"
proof -
  have token: "hash_session_token (kx_crypto acc_demo) ''tttt'' = ''01010101''"
    by (simp add: hash_session_token_def acc_demo_def) code_simp
  show ?thesis
    by (simp add: route_logout_def get_current_context_def cookie_token_def token session_context_def demo_accounts_def demo_session_def Let_def)
qed

lemma demo_registers: "\<exists>r s'. register_workspace acc_demo ''Bo'' ''password'' ''Bo'' ''Org'' accounts_empty = Inr (r, s')"
proof -
  obtain h where h: "hash_password (kx_crypto acc_demo) [] ''password'' = Inr h" by (simp add: hash_password_def acc_demo_def)
  have seed: "kx_salt acc_demo n = []" "kx_uuid acc_demo n = replicate (Suc n) (CHR ''i'')" for n by (simp_all add: acc_demo_def)
  show ?thesis
    by (simp add: register_workspace_def accounts_empty_def draw_def insert_org_def insert_agent_def insert_user_def insert_member_def
        has_org_def has_user_def Let_def seed h)
qed

definition demo_patch :: agent_patch where
  "demo_patch = \<lparr> pa_name = None, pa_description = Some ''d'', pa_status = None, pa_system_prompt = None, pa_context_prompt = None,
     pa_first_message = None, pa_stt_provider = None, pa_stt_model = None, pa_llm_provider = None, pa_llm_model = None,
     pa_tts_provider = None, pa_tts_model = None, pa_tts_voice = None, pa_tuning = None \<rparr>"

lemma demo_updates:
  "\<exists>b s'. route_update_agent acc_demo 10 (Some ''tttt'') ''ii'' demo_patch ((demo_accounts h)\<lparr> ac_sessions := [demo_session], ac_drawn := 4 \<rparr>) = Inr (b, s')"
proof -
  let ?s = "(demo_accounts h)\<lparr> ac_sessions := [demo_session], ac_drawn := 4 \<rparr>"
  have token: "hash_session_token (kx_crypto acc_demo) ''tttt'' = ''01010101''"
    by (simp add: hash_session_token_def acc_demo_def) code_simp
  obtain c where c: "get_current_context acc_demo 10 (Some ''tttt'') ?s = Inr c" "au_org c = ''i''"
    by (simp add: get_current_context_def cookie_token_def token session_context_def demo_accounts_def demo_session_def Let_def)
  have uuid: "kx_uuid_of acc_demo t = Some t" for t by (simp add: acc_demo_def)
  have "get_agent acc_demo ''i'' ''ii'' ?s = Inr (Some (agent_view acc_demo demo_agent))"
    by (simp add: get_agent_def uuid demo_accounts_def demo_agent_def)
  then have "\<exists>b s'. update_agent acc_demo ''i'' ''ii'' demo_patch ?s = Inr (Some b, s')"
    by (simp add: update_agent_def Let_def agent_view_def) (simp add: demo_accounts_def demo_agent_def same_agent_name_def)
  then show ?thesis using c by (auto simp: route_update_agent_def raised_def found_def)
qed

subsection \<open>Properties\<close>

text \<open>C11: Whatever requests are made, in any order and at any times, slugs, emails, token hashes and ids stay unique,
every email is stored in lower case, memberships, sessions and agents refer to rows that exist, and the holder of every
session is a member of its workspace.\<close>

theorem tables_stay_consistent: "accounts_ok (acc_run x ops accounts_empty)"
  using acc_run_ok [of accounts_empty x ops] by simp

text \<open>C8: A login opens a session of exactly the configured time: whatever requests follow, short of a logout with
the same token, its cookie stands for the user and the workspace of the login before the expiry, and for nobody
from then on.\<close>

theorem login_lasts_its_time:
  assumes "route_login x now e p (acc_run x before accounts_empty) = Inr ((r, token), s)"
    and "token \<noteq> []" and "list_all (\<lambda>op. \<not> logs_out x (hash_session_token (kx_crypto x) token) (snd op)) later"
  shows "if t < now + of_int (sd_ttl_hours (kx_seed x) * 3600)
         then \<exists>c. get_current_context x t (Some token) (acc_run x later s) = Inr c \<and> au_user c = ur_id (lg_user r) \<and> au_org c = lg_org r
         else get_current_context x t (Some token) (acc_run x later s) = Inl (Http 401 ''Session expired'')"
proof -
  let ?h = "hash_session_token (kx_crypto x) token" and ?s = "acc_run x later s"
  have ok0: "accounts_ok (acc_run x before accounts_empty)" using acc_run_ok by simp
  note l = route_login_ok [OF assms(1)]
  obtain k where k: "accounts_ok s" "k \<in> set (ac_sessions s)" "ss_user k = ur_id (lg_user r)" "ss_org k = lg_org r" "ss_hash k = ?h"
      "ss_expires k = now + of_int (sd_ttl_hours (kx_seed x) * 3600)"
    using session_cookie_ok [OF _ ok0, of x now r token s] l by force
  have ok: "accounts_ok ?s" and in': "k \<in> set (ac_sessions ?s)" using acc_run_ok [OF k(1)] k(2,5) assms(3) by auto
  have ctx: "get_current_context x t (Some token) ?s
      = (case session_context t ?h ?s of None \<Rightarrow> Inl (Http 401 ''Session expired'') | Some c \<Rightarrow> Inr c)"
    using assms(2) by (simp add: get_current_context_def cookie_token_def)
  show ?thesis
  proof (cases "t < now + of_int (sd_ttl_hours (kx_seed x) * 3600)")
    case True
    then show ?thesis using session_context_live [OF ok in', of t] k by (auto simp: ctx)
  next
    case False
    have "distinct (map ss_hash (ac_sessions ?s))" using ok by (simp add: accounts_ok_keys)
    from key_unique [OF this _ in'] have "session_context t ?h ?s = None"
      using False k(5,6) by (intro session_context_none) force
    then show ?thesis using False by (simp add: ctx)
  qed
qed

lemma login_lasts_its_time_witness:
  "\<exists>h. route_login acc_demo 0 ''a'' ''p'' (demo_accounts h) = Inr ((demo_login h, ''tttt''), (demo_accounts h)\<lparr> ac_sessions := [demo_session], ac_drawn := 4 \<rparr>)
     \<and> (\<exists>c. get_current_context acc_demo 10 (Some ''tttt'') ((demo_accounts h)\<lparr> ac_sessions := [demo_session], ac_drawn := 4 \<rparr>) = Inr c)
     \<and> get_current_context acc_demo 3600 (Some ''tttt'') ((demo_accounts h)\<lparr> ac_sessions := [demo_session], ac_drawn := 4 \<rparr>)
         = Inl (Http 401 ''Session expired'')"
proof -
  obtain h where run: "acc_run acc_demo [(0, OpSeed (db_empty []))] accounts_empty = demo_accounts h"
    and v: "verify_password (kx_crypto acc_demo) ''p'' h = Inr True" by (rule demo_seeded)
  note l = demo_logs_in [OF v]
  have login: "route_login acc_demo 0 ''a'' ''p'' (acc_run acc_demo [(0, OpSeed (db_empty []))] accounts_empty)
      = Inr ((demo_login h, ''tttt''), (demo_accounts h)\<lparr> ac_sessions := [demo_session], ac_drawn := 4 \<rparr>)"
    using l run by simp
  have ttl: "sd_ttl_hours (kx_seed acc_demo) = 1" by (simp add: acc_demo_def seed_demo_def)
  show ?thesis
    using l login_lasts_its_time [OF login, of "[]" 10] login_lasts_its_time [OF login, of "[]" 3600] by (auto simp: ttl)
qed

text \<open>A new user is found under any spelling of the email, and under no other user's.\<close>

lemma login_rows_registered:
  assumes "register_workspace x e p n g s = Inr (r, s')" "accounts_ok s" "str_lower e' = str_lower e"
  shows "login_rows e' s' = [r]" "str_lower (ur_email (lg_user r)) = str_lower e" "lg_user r \<in> set (ac_users s')"
    "hash_password (kx_crypto x) (kx_salt x (Suc (ac_drawn s))) p = Inr (ur_hash (lg_user r))"
proof -
  obtain g' :: org_row where new: "\<forall>u \<in> set (ac_users s). str_lower (ur_email u) \<noteq> str_lower e"
    and tabs: "ac_orgs s' = ac_orgs s @ [g']" "ac_users s' = ac_users s @ [lg_user r]"
      "ac_members s' = ac_members s @ [\<lparr> mb_org = og_id g', mb_user = ur_id (lg_user r), mb_role = ''owner'' \<rparr>]"
    and fresh: "og_id g' \<notin> og_id ` set (ac_orgs s)" "ur_id (lg_user r) \<notin> ur_id ` set (ac_users s)"
    and r: "r = \<lparr> lg_user = lg_user r, lg_org = og_id g', lg_org_name = og_name g', lg_role = ''owner'' \<rparr>"
    and u: "ur_email (lg_user r) = str_lower e" "hash_password (kx_crypto x) (kx_salt x (Suc (ac_drawn s))) p = Inr (ur_hash (lg_user r))"
    using register_ok [OF assms(1,2)] by (elim exE conjE) (rule that, assumption+, simp)
  have old: "filter (\<lambda>u. ur_id u = mb_user m \<and> str_lower (ur_email u) = str_lower e') (ac_users s') = []" if "m \<in> set (ac_members s)" for m
  proof -
    have "has_user (mb_user m) s" using assms(2) that by (auto simp: accounts_ok_def members_ok_def)
    then have "ur_id (lg_user r) \<noteq> mb_user m" using fresh(2) by (auto simp: has_user_key)
    then show ?thesis using new by (auto simp: tabs(2) assms(3) filter_empty_conv)
  qed
  have this_user: "filter (\<lambda>u. ur_id u = ur_id (lg_user r) \<and> str_lower (ur_email u) = str_lower e') (ac_users s') = [lg_user r]"
    using new by (auto simp: tabs(2) u(1) assms(3) filter_empty_conv)
  have this_org: "filter (\<lambda>k. og_id k = og_id g') (ac_orgs s') = [g']"
    by (simp add: tabs(1) filter_none [OF fresh(1)])
  have rec: "\<lparr> lg_user = lg_user r, lg_org = og_id g', lg_org_name = og_name g', lg_role = ''owner'' \<rparr> = r" using r by simp
  have role: "lg_role r = ''owner''" by (subst r) simp
  define rows :: "member_row \<Rightarrow> login_row list" where "rows = (\<lambda>m. concat (map (\<lambda>u. map (\<lambda>g. \<lparr> lg_user = u, lg_org = og_id g, lg_org_name = og_name g, lg_role = mb_role m \<rparr>)
      (filter (\<lambda>g. og_id g = mb_org m) (ac_orgs s')))
      (filter (\<lambda>u. ur_id u = mb_user m \<and> str_lower (ur_email u) = str_lower e') (ac_users s'))))"
  have "concat (map rows (ac_members s)) = []" by (simp add: rows_def old)
  moreover have "rows \<lparr> mb_org = og_id g', mb_user = ur_id (lg_user r), mb_role = ''owner'' \<rparr> = [r]"
    by (simp add: rows_def this_user this_org rec)
  ultimately have "concat (map rows (ac_members s')) = [r]" by (simp add: tabs(3))
  then show "login_rows e' s' = [r]" unfolding login_rows_def rows_def Let_def by (simp add: role)
  show "str_lower (ur_email (lg_user r)) = str_lower e" by (simp add: u(1))
  show "lg_user r \<in> set (ac_users s')" by (simp add: tabs(2))
  show "hash_password (kx_crypto x) (kx_salt x (Suc (ac_drawn s))) p = Inr (ur_hash (lg_user r))" by (rule u(2))
qed

text \<open>C12: Whatever happened before, a user who has registered a workspace logs in to it with the same password and the
email in any mixture of upper and lower case; another password logs in exactly when the hash function takes
it, under the stored salt, to the digest of the right one; and the email cannot be registered again.\<close>

theorem registered_user_logs_in:
  assumes "s = acc_run x before accounts_empty" and "register_workspace x e p n g s = Inr (r, s')" and "str_lower e' = str_lower e"
  shows "login_user x e' p s' = Inr (Some r)
     \<and> login_user x e' q s' = bindE (cr_pbkdf2 (kx_crypto x) (cr_utf8 (kx_crypto x) q) (kx_salt x (Suc (ac_drawn s))) 390000) (\<lambda>d.
         Inr (if cr_pbkdf2 (kx_crypto x) (cr_utf8 (kx_crypto x) p) (kx_salt x (Suc (ac_drawn s))) 390000 = Inr d then Some r else None))
     \<and> register_workspace x e' p' n' g2 s' = Inl (ValueError ''email_already_registered'')"
proof -
  have ok: "accounts_ok s" using acc_run_ok [of accounts_empty x before] assms(1) by simp
  note f = login_rows_registered [OF assms(2) ok assms(3)]
  obtain d where d: "cr_pbkdf2 (kx_crypto x) (cr_utf8 (kx_crypto x) p) (kx_salt x (Suc (ac_drawn s))) PASSWORD_ITERATIONS = Inr d"
    and h: "parse_password_hash (ur_hash (lg_user r)) = Some (PASSWORD_ITERATIONS, kx_salt x (Suc (ac_drawn s)), d)"
    by (rule hash_parsed [OF f(4)])
  have taken: "list_ex (\<lambda>u. str_lower (ur_email u) = str_lower e') (ac_users s')"
    using f(2,3) assms(3) by (auto simp: list_ex_iff)
  have "login_user x e' p s' = Inr (Some r)" by (simp add: login_user_def f(1) verify_password_def h d)
  moreover have "login_user x e' q s' = bindE (cr_pbkdf2 (kx_crypto x) (cr_utf8 (kx_crypto x) q) (kx_salt x (Suc (ac_drawn s))) 390000) (\<lambda>d.
      Inr (if cr_pbkdf2 (kx_crypto x) (cr_utf8 (kx_crypto x) p) (kx_salt x (Suc (ac_drawn s))) 390000 = Inr d then Some r else None))"
    using d by (cases "cr_pbkdf2 (kx_crypto x) (cr_utf8 (kx_crypto x) q) (kx_salt x (Suc (ac_drawn s))) PASSWORD_ITERATIONS")
      (auto simp: login_user_def f(1) verify_password_def h PASSWORD_ITERATIONS_def)
  moreover have "register_workspace x e' p' n' g2 s' = Inl (ValueError ''email_already_registered'')"
    unfolding register_workspace_def using taken by (simp only: if_True)
  ultimately show ?thesis by blast
qed

text \<open>A logout ends the session of its cookie, for all time as far as the table goes, and no other session.\<close>

theorem logout_ends_session:
  assumes "route_logout x now cookie s = Inr (user, s')"
  shows "get_current_context x t cookie s' = Inl (Http 401 ''Session expired'')
     \<and> (cookie_token c = [] \<or> hash_session_token (kx_crypto x) (cookie_token c) \<noteq> hash_session_token (kx_crypto x) (cookie_token cookie) \<longrightarrow>
          get_current_context x t c s' = get_current_context x t c s)
     \<and> ac_agents s' = ac_agents s \<and> ac_members s' = ac_members s"
proof -
  obtain k where k: "get_current_context x now cookie s = Inr k" and s': "s' = delete_session (hash_session_token (kx_crypto x) (cookie_token cookie)) s"
    using assms by (auto simp: route_logout_def bindE_eq_Inr)
  have "cookie_token cookie \<noteq> []" using k by (auto simp: get_current_context_def)
  moreover have "session_context t (hash_session_token (kx_crypto x) (cookie_token cookie)) s' = None"
    by (rule session_context_none) (auto simp: s' delete_session_def)
  moreover have "session_context t h s' = session_context t h s" if "h \<noteq> hash_session_token (kx_crypto x) (cookie_token cookie)" for h
  proof -
    have "filter (\<lambda>t'. ss_hash t' = h \<and> t < ss_expires t') (ac_sessions s') = filter (\<lambda>t'. ss_hash t' = h \<and> t < ss_expires t') (ac_sessions s)"
      using that by (auto simp: s' delete_session_def intro!: filter_cong)
    then show ?thesis by (simp add: session_context_def s' delete_session_def)
  qed
  ultimately show ?thesis by (auto simp: get_current_context_def s' delete_session_def)
qed

lemma logout_ends_session_witness:
  "\<exists>h. get_current_context acc_demo 20 (Some ''tttt'') (delete_session ''01010101'' ((demo_accounts h)\<lparr> ac_sessions := [demo_session], ac_drawn := 4 \<rparr>))
     = Inl (Http 401 ''Session expired'')"
proof -
  obtain h where v: "verify_password (kx_crypto acc_demo) ''p'' h = Inr True" by (rule demo_seeded)
  show ?thesis using logout_ends_session [OF demo_logs_out [OF v]] by blast
qed

lemma registered_user_logs_in_witness:
  "\<exists>r s'. register_workspace acc_demo ''Bo'' ''password'' ''Bo'' ''Org'' accounts_empty = Inr (r, s') \<and> login_user acc_demo ''bO'' ''password'' s' = Inr (Some r)"
proof -
  obtain r s' where run: "register_workspace acc_demo ''Bo'' ''password'' ''Bo'' ''Org'' accounts_empty = Inr (r, s')"
    using demo_registers by blast
  have "str_lower ''bO'' = str_lower ''Bo''" by code_simp
  then have "login_user acc_demo ''bO'' ''password'' s' = Inr (Some r)"
    using registered_user_logs_in [of accounts_empty acc_demo "[]", OF _ run] by (metis acc_run.simps(1))
  with run show ?thesis by blast
qed

text \<open>C6: A request with a session sees and changes only the workspace of the session: its holder is a member there, the
agents and calls it is shown belong to that workspace, and creating or updating an agent leaves the agents of every other
workspace and all users, members and sessions as they are.\<close>

theorem requests_stay_in_workspace:
  assumes "s = acc_run x before accounts_empty" and c: "get_current_context x now cookie s = Inr c"
    and canonical: "kx_uuid_of x (au_org c) = Some (au_org c)"
  shows "member_of (au_user c) (au_org c) s
     \<and> (route_get_agent x now cookie i s = Inr a \<longrightarrow> ag_org a = au_org c)
     \<and> (route_list_agents x now calls cookie s = Inr rows \<longrightarrow> (\<forall>(b, n) \<in> set rows. ag_org b = au_org c))
     \<and> (route_agent_calls x now calls cookie i s = Inr shown \<longrightarrow> set shown \<subseteq> set calls \<and> (\<forall>(k, r) \<in> set shown. cl_org r = PStr (au_org c)))
     \<and> (route_create_agent x now cookie d s = Inr (b, s') \<or> route_update_agent x now cookie i p s = Inr (b, s') \<longrightarrow>
          ag_org b = au_org c \<and> filter (\<lambda>k. ag_org k \<noteq> au_org c) (ac_agents s') = filter (\<lambda>k. ag_org k \<noteq> au_org c) (ac_agents s)
          \<and> ac_users s' = ac_users s \<and> ac_members s' = ac_members s \<and> ac_sessions s' = ac_sessions s \<and> ac_orgs s' = ac_orgs s)"
proof (intro conjI impI)
  have ok: "accounts_ok s" using acc_run_ok [of accounts_empty x before] assms(1) by simp
  obtain t where "t \<in> set (ac_sessions s)" "ss_user t = au_user c" "ss_org t = au_org c"
    using c by (auto simp: get_current_context_def split: if_splits option.splits elim!: session_context_cases)
  then show "member_of (au_user c) (au_org c) s" using ok by (auto simp: accounts_ok_def sessions_ok_def)
  show "ag_org a = au_org c" if "route_get_agent x now cookie i s = Inr a"
  proof -
    have "get_agent x (au_org c) i s = Inr (Some a)" using that c by (simp add: route_get_agent_def bindE_eq_Inr)
    then show ?thesis by (rule get_agent_row) (use canonical in \<open>simp add: agent_view_def\<close>)
  qed
  show "\<forall>(b, n) \<in> set rows. ag_org b = au_org c" if "route_list_agents x now calls cookie s = Inr rows"
    using that c by (auto simp: route_list_agents_def list_agents_def agent_view_def)
  have shown: "\<exists>j. shown = list_agent_calls calls (au_org c) j 50" if "route_agent_calls x now calls cookie i s = Inr shown"
    using that c by (auto simp: route_agent_calls_def bindE_eq_Inr)
  show "set shown \<subseteq> set calls" "\<forall>(k, r) \<in> set shown. cl_org r = PStr (au_org c)" if "route_agent_calls x now calls cookie i s = Inr shown"
    using shown [OF that] by (auto simp: list_agent_calls_def agent_calls_def dest!: in_set_takeD)
  assume changed: "route_create_agent x now cookie d s = Inr (b, s') \<or> route_update_agent x now cookie i p s = Inr (b, s')"
  have "create_agent x (au_org c) d s = Inr (b, s') \<or> update_agent x (au_org c) i p s = Inr (Some b, s')"
    using changed c by (auto simp: route_create_agent_def route_update_agent_def bindE_eq_Inr split: prod.splits)
  then have all: "ag_org b = au_org c \<and> filter (\<lambda>k. ag_org k \<noteq> au_org c) (ac_agents s') = filter (\<lambda>k. ag_org k \<noteq> au_org c) (ac_agents s)
      \<and> ac_users s' = ac_users s \<and> ac_members s' = ac_members s \<and> ac_sessions s' = ac_sessions s \<and> ac_orgs s' = ac_orgs s"
  proof
    assume "create_agent x (au_org c) d s = Inr (b, s')"
    from create_agent_ok [OF this ok] show ?thesis by (auto simp: agent_view_def)
  next
    assume u: "update_agent x (au_org c) i p s = Inr (Some b, s')"
    then show ?thesis
    proof (cases rule: update_agent_cases)
      case (2 a0 v)
      then have org: "ag_org a0 = au_org c" "ag_org v = au_org c" "ag_org b = au_org c" using canonical by (auto simp: agent_view_def)
      have "filter (\<lambda>k. ag_org k \<noteq> au_org c) (map (\<lambda>y. if ag_org y = ag_org a0 \<and> ag_id y = ag_id a0 then v else y) (ac_agents s))
          = filter (\<lambda>k. ag_org k \<noteq> au_org c) (ac_agents s)"
        by (rule filter_replaced) (simp_all add: org)
      then show ?thesis using update_agent_ok [OF u ok] 2(8) org(3) by simp
    qed simp
  qed
  then show "ag_org b = au_org c" "filter (\<lambda>k. ag_org k \<noteq> au_org c) (ac_agents s') = filter (\<lambda>k. ag_org k \<noteq> au_org c) (ac_agents s)"
    "ac_users s' = ac_users s" "ac_members s' = ac_members s" "ac_sessions s' = ac_sessions s" "ac_orgs s' = ac_orgs s"
    by simp_all
qed

lemma requests_stay_in_workspace_witness:
  "\<exists>h c. get_current_context acc_demo 10 (Some ''tttt'') ((demo_accounts h)\<lparr> ac_sessions := [demo_session], ac_drawn := 4 \<rparr>) = Inr c
     \<and> member_of (au_user c) (au_org c) ((demo_accounts h)\<lparr> ac_sessions := [demo_session], ac_drawn := 4 \<rparr>)"
proof -
  obtain h where run: "acc_run acc_demo [(0, OpSeed (db_empty []))] accounts_empty = demo_accounts h"
    and v: "verify_password (kx_crypto acc_demo) ''p'' h = Inr True" by (rule demo_seeded)
  let ?s = "(demo_accounts h)\<lparr> ac_sessions := [demo_session], ac_drawn := 4 \<rparr>"
  have s: "?s = acc_run acc_demo ([(0, OpSeed (db_empty []))] @ [(0, OpLogin ''a'' ''p'')]) accounts_empty"
    unfolding acc_run_append run using demo_logs_in [OF v] by (simp add: kept_def)
  obtain c where c: "get_current_context acc_demo 10 (Some ''tttt'') ?s = Inr c"
    using demo_logs_out [OF v] by (auto simp: route_logout_def bindE_eq_Inr)
  have "kx_uuid_of acc_demo (au_org c) = Some (au_org c)" by (simp add: acc_demo_def)
  then show ?thesis using requests_stay_in_workspace [OF s c] c by blast
qed

text \<open>An update that does not mention \<open>tuning\<close> still rewrites it: the column is read back as its JSON text, and
that text is stored as a JSON string, so an object is one no longer.\<close>

theorem update_rewrites_tuning:
  assumes "s = acc_run x before accounts_empty" and "route_update_agent x now cookie i p s = Inr (b, s')" and "pa_tuning p = None"
    and "\<And>v. kx_json x v \<noteq> []"
  shows "\<exists>a0 \<in> set (ac_agents s). \<exists>a1 \<in> set (ac_agents s'). ag_id a1 = ag_id a0 \<and> ag_id a0 = ag_id b
     \<and> ad_tuning (ag_data a1) = PStr (kx_json x (ad_tuning (ag_data a0)))"
proof -
  obtain g where "update_agent x g i p s = Inr (Some b, s')"
    using assms(2) by (auto simp: route_update_agent_def bindE_eq_Inr split: prod.splits)
  then show ?thesis
  proof (cases rule: update_agent_cases)
    case (2 a0 v)
    have "py_or (PStr t) (PDict []) = PStr t" if "t \<noteq> []" for t using that by (simp add: py_or_def)
    then have "ad_tuning (ag_data v) = PStr (kx_json x (ad_tuning (ag_data a0)))"
      using assms(3,4) by (simp add: 2(9) Let_def apply_patch_def agent_view_def)
    moreover have "v \<in> set (ac_agents s')" using 2(1,8) by force
    moreover have "ag_id a0 = ag_id b" using 2(5,6) by (simp add: agent_view_def)
    ultimately show ?thesis using 2(1,5) by blast
  qed simp
qed

lemma update_rewrites_tuning_witness:
  "\<exists>h b s'. route_update_agent acc_demo 10 (Some ''tttt'') ''ii'' demo_patch ((demo_accounts h)\<lparr> ac_sessions := [demo_session], ac_drawn := 4 \<rparr>) = Inr (b, s')
     \<and> (\<exists>a1 \<in> set (ac_agents s'). ad_tuning (ag_data a1) = PStr ''j'')"
proof -
  obtain h where run: "acc_run acc_demo [(0, OpSeed (db_empty []))] accounts_empty = demo_accounts h"
    and v: "verify_password (kx_crypto acc_demo) ''p'' h = Inr True" by (rule demo_seeded)
  let ?s = "(demo_accounts h)\<lparr> ac_sessions := [demo_session], ac_drawn := 4 \<rparr>"
  have s: "?s = acc_run acc_demo ([(0, OpSeed (db_empty []))] @ [(0, OpLogin ''a'' ''p'')]) accounts_empty"
    unfolding acc_run_append run using demo_logs_in [OF v] by (simp add: kept_def)
  obtain b s' where u: "route_update_agent acc_demo 10 (Some ''tttt'') ''ii'' demo_patch ?s = Inr (b, s')"
    using demo_updates by blast
  have "pa_tuning demo_patch = None" "\<And>v. kx_json acc_demo v = ''j''" by (simp_all add: demo_patch_def acc_demo_def)
  with update_rewrites_tuning [OF s u] u show ?thesis by auto
qed

end
