(* ===== verification/Agent_Types.thy ===== *)
theory Agent_Types
  imports Account_Flow
begin

text \<open>
  The types of agents: what the request models of \<open>apps/api/routes/agents.py\<close> promise of a body
  holds of every agent the tables ever store.
\<close>

subsection \<open>Typed agents\<close>

text \<open>What the request models promise of an agent.\<close>

definition agent_typed :: "agent_data \<Rightarrow> bool" where
  "agent_typed a \<longleftrightarrow> 1 \<le> length (ad_name a) \<and> length (ad_name a) \<le> 120 \<and> ad_status a \<in> {''active'', ''paused''}
     \<and> ad_system_prompt a \<noteq> [] \<and> ad_stt_provider a = ''openai'' \<and> ad_llm_provider a = ''openai'' \<and> ad_tts_provider a = ''openai''"

lemma promises_sized: "promises (\<lambda>t. lo \<le> length t \<and> (\<forall>n. hi = Some n \<longrightarrow> length t \<le> n)) (sized lo hi s)"
  by (auto simp: promises_def sized_def split: if_splits option.splits)

lemma promises_one_of: "promises (\<lambda>t. t \<in> set xs) (one_of xs s)"
  by (auto simp: promises_def one_of_def)

lemma promises_checked:
  assumes "\<And>u. promises P (f u)"
  shows "promises (pred_option P) (checked f r)"
proof (cases r)
  case (Inr v)
  then show ?thesis using assms by (cases v) (auto simp: promises_def checked_def bindE_eq_Inr)
qed (simp add: promises_def checked_def)

lemmas promises_rules = promises_then [OF promises_bind [OF promises_sized]] promises_then [OF promises_bind [OF promises_one_of]]
  promises_then [OF promises_checked [OF promises_sized]] promises_then [OF promises_checked [OF promises_one_of]] promises_bind

lemma agent_create_typed:
  assumes "agent_create_of d = Inr a"
  shows "agent_typed a"
proof -
  have "promises agent_typed (agent_create_of d)"
    unfolding agent_create_of_def by (rule promises_rules)+ (auto simp: promises_Inr agent_typed_def Suc_le_eq)
  from promisesD [OF this assms] show ?thesis .
qed

lemma agent_patch_typed:
  assumes "agent_patch_of d = Inr p" "agent_typed a"
  shows "agent_typed (apply_patch p a)"
proof -
  have "promises (\<lambda>p. agent_typed (apply_patch p a)) (agent_patch_of d)"
    unfolding agent_patch_of_def
    by (rule promises_rules)+
      (use assms(2) in \<open>simp add: promises_Inr agent_typed_def apply_patch_def patched_def, intro conjI; auto split: option.split\<close>)
  from promisesD [OF this assms(1)] show ?thesis .
qed

definition agents_typed :: "accounts \<Rightarrow> bool" where
  "agents_typed s \<longleftrightarrow> (\<forall>a \<in> set (ac_agents s). agent_typed (ag_data a))"

definition openai_seed :: "seed_settings \<Rightarrow> bool" where
  "openai_seed e \<longleftrightarrow> sd_stt_provider e = ''openai'' \<and> sd_llm_provider e = ''openai'' \<and> sd_tts_provider e = ''openai''"

lemma default_agent_typed: "openai_seed e \<Longrightarrow> prompt \<noteq> [] \<Longrightarrow> agent_typed (default_agent description prompt e)"
  by (simp add: agent_typed_def default_agent_def openai_seed_def)

lemma seed_fields_typed: "openai_seed e \<Longrightarrow> agent_typed a \<Longrightarrow> agent_typed (seed_fields e a)"
  by (simp add: agent_typed_def seed_fields_def openai_seed_def)

lemma tuning_typed [simp]: "agent_typed (a\<lparr> ad_tuning := v \<rparr>) = agent_typed a"
  by (simp add: agent_typed_def)

lemma inserts_keep_agents:
  "insert_org g s = Inr s' \<Longrightarrow> ac_agents s' = ac_agents s" "insert_user u s = Inr s' \<Longrightarrow> ac_agents s' = ac_agents s"
  "insert_member m s = Inr s' \<Longrightarrow> ac_agents s' = ac_agents s" "insert_session t s = Inr s' \<Longrightarrow> ac_agents s' = ac_agents s"
  "insert_agent a s = Inr s' \<Longrightarrow> ac_agents s' = ac_agents s @ [a]"
  by (auto simp: insert_org_def insert_user_def insert_member_def insert_session_def insert_agent_def split: if_splits)

lemma cookie_keeps_agents: "create_session_cookie x now r s = Inr (token, s') \<Longrightarrow> ac_agents s' = ac_agents s"
  unfolding create_session_cookie_def Let_def raised_Inr bindE_eq_Inr create_session_def draw_def
  by (auto simp: bindE_eq_Inr split: prod.splits dest!: inserts_keep_agents(4))

lemma register_agents:
  assumes "register_workspace x e p n g s = Inr (r, s')"
  shows "\<exists>i k description prompt. prompt \<noteq> [] \<and> ac_agents s' = ac_agents s @ [\<lparr> ag_id = i, ag_org = k, ag_data = default_agent description prompt (kx_seed x) \<rparr>]"
proof -
  obtain s1 s2 s3 s4 k u m a g' where
      "insert_org g' (s\<lparr> ac_drawn := Suc (ac_drawn s) \<rparr>) = Inr s1" "insert_user u (s1\<lparr> ac_drawn := Suc (ac_drawn s1) \<rparr>) = Inr s2"
      "insert_member m s2 = Inr s3" "insert_agent a (s3\<lparr> ac_drawn := Suc (ac_drawn s3) \<rparr>) = Inr s'"
      "a = \<lparr> ag_id = kx_uuid x (ac_drawn s3), ag_org = k, ag_data = default_agent ''Starter agent for testing live calls in this workspace.''
         ''You are a concise, helpful voice agent. Speak naturally and ask one question at a time.'' (kx_seed x) \<rparr>"
    using assms by (auto simp: register_workspace_def draw_def Let_def bindE_eq_Inr split: if_splits)
  then have "ac_agents s' = ac_agents s @ [a]" by (auto dest!: inserts_keep_agents)
  then show ?thesis using \<open>a = _\<close> by blast
qed

lemma seed_typed:
  assumes "ensure_platform_seed x (s, d) = Inr (v, s', d')" "agents_typed s" "openai_seed (kx_seed x)"
  shows "agents_typed s'"
proof -
  obtain g s1 a s2 u s3 where s: "upsert_org x s = Inr (g, s1)" "upsert_default_agent x (og_id g) s1 = Inr (a, s2)"
      "seed_user x s2 = Inr (u, s3)" "upsert_owner (og_id g) (ur_id u) s3 = Inr s'"
    using assms(1) by (auto simp: ensure_platform_seed_def bindE_eq_Inr split: if_splits)
  have 1: "ac_agents s1 = ac_agents s"
    using s(1) by (auto simp: upsert_org_def draw_def Let_def bindE_eq_Inr split: option.splits dest!: inserts_keep_agents(1))
  have 2: "agents_typed s2"
    using s(2) assms(2,3) 1
    by (auto simp: upsert_default_agent_def draw_def Let_def bindE_eq_Inr agents_typed_def find_Some_iff default_agent_typed seed_fields_typed
        split: option.splits dest!: inserts_keep_agents(5))
  have 3: "ac_agents s3 = ac_agents s2"
    using s(3) by (auto simp: seed_user_def draw_def Let_def bindE_eq_Inr split: option.splits dest!: inserts_keep_agents(2))
  have "ac_agents s' = ac_agents s3" using s(4) by (auto simp: upsert_owner_def split: if_splits dest!: inserts_keep_agents(3))
  then show ?thesis using 2 3 by (simp add: agents_typed_def)
qed

lemma acc_do_typed:
  assumes "agents_typed s" "openai_seed (kx_seed x)"
  shows "agents_typed (acc_do x op s)"
proof -
  obtain now a where op: "op = (now, a)" by (cases op)
  show ?thesis
  proof (cases a)
    case (OpRegister e p n g)
    show ?thesis
    proof (cases "length p < 8 \<or> (\<exists>f. register_workspace x e p n g s = Inl f)")
      case True
      then show ?thesis using assms by (auto simp: op OpRegister route_register_def)
    next
      case False
      then obtain r s1 where r: "register_workspace x e p n g s = Inr (r, s1)" "\<not> length p < 8"
        by (cases "register_workspace x e p n g s") auto
      have "agents_typed s1" using register_agents [OF r(1)] assms default_agent_typed by (auto simp: agents_typed_def)
      then show ?thesis
        using r cookie_keeps_agents by (auto simp: op OpRegister route_register_def agents_typed_def split: sum.split)
    qed
  next
    case (OpLogin e p)
    have "ac_agents (kept s (route_login x now e p s)) = ac_agents s"
    proof (cases "route_login x now e p s")
      case (Inr v)
      then obtain r token s' where "route_login x now e p s = Inr ((r, token), s')" by (metis surj_pair)
      with route_login_ok [OF this] cookie_keeps_agents show ?thesis by (auto simp: kept_def)
    qed (simp add: kept_def)
    then show ?thesis using assms(1) by (simp add: op OpLogin agents_typed_def)
  next
    case (OpLogout c)
    have "ac_agents (kept s (route_logout x now c s)) = ac_agents s"
      by (cases "get_current_context x now c s") (simp_all add: route_logout_def kept_def delete_session_def)
    then show ?thesis using assms(1) by (simp add: op OpLogout agents_typed_def)
  next
    case (OpCreate c d)
    consider "acc_do x op s = s" | g b v where "agent_create_of d = Inr b" "create_agent x g b s = Inr (v, acc_do x op s)"
      using create_op_cases [of x now c d s] by (auto simp: op OpCreate)
    then show ?thesis
    proof cases
      case 2
      have "\<exists>i. ac_agents (acc_do x op s) = ac_agents s @ [\<lparr> ag_id = i, ag_org = g, ag_data = b\<lparr> ad_tuning := py_or (ad_tuning b) (PDict []) \<rparr> \<rparr>]"
        using 2(2) by (auto simp: create_agent_def draw_def Let_def bindE_eq_Inr dest!: inserts_keep_agents(5))
      then show ?thesis using assms(1) agent_create_typed [OF 2(1)] by (auto simp: agents_typed_def)
    qed (use assms in simp)
  next
    case (OpUpdate c i d)
    consider "acc_do x op s = s" | g p v where "agent_patch_of d = Inr p" "update_agent x g i p s = Inr (v, acc_do x op s)"
      using update_op_cases [of x now c i d s] by (auto simp: op OpUpdate)
    then show ?thesis
    proof cases
      case 2
      from 2(2) show ?thesis
      proof (cases rule: update_agent_cases)
        case (2 a0 b)
        have "agent_typed (ag_data (agent_view x a0))" using 2(1) assms(1) by (simp add: agents_typed_def agent_view_def)
        from agent_patch_typed [OF \<open>agent_patch_of d = Inr p\<close> this] have "agent_typed (ag_data b)" by (simp add: 2(9) Let_def)
        then show ?thesis using assms(1) by (auto simp: agents_typed_def 2(8))
      qed (use assms in simp)
    qed (use assms in simp)
  next
    case (OpSeed d)
    show ?thesis using assms seed_typed [of x s d] by (auto simp: op OpSeed split: sum.split)
  qed
qed



end
