(* ===== verification/Providers.thy ===== *)
theory Providers
  imports Call
begin

text \<open>
  The provider adapters (\<open>apps/api/providers/openai_llm.py\<close>, \<open>openai_tts.py\<close>,
  \<open>provider_registry.py\<close>) and the failure injection they pass through
  (\<open>apps/api/failure_injection/injector.py\<close>). The client library is an argument: what a request answers,
  as the list of events or chunks of its stream and the exception that ends it, if any. A stream is
  read by a consumer that may stop early: \<open>demand\<close> is the number of items after which it closes the
  generator. Sleeps are the milliseconds slept.
\<close>

subsection \<open>Failure injection\<close>

definition injector_new :: "settings \<Rightarrow> failure_settings" where
  "injector_new s = st_failure s"

definition injector_reset :: failure_settings where
  "injector_reset =
     \<lparr> cx_injection_enabled = False, cx_tts_delay_ms = 0, cx_llm_delay_ms = 0, cx_stt_delay_ms = 0,
       cx_provider_failure = False, cx_postgres_failure = False, cx_stage_timeout = False \<rparr>"

text \<open>The fields a request sets; \<open>model_dump(exclude_none=True)\<close> leaves the others alone.\<close>

record failure_patch =
  fp_enabled :: "bool option"
  fp_stt :: "int option"
  fp_llm :: "int option"
  fp_tts :: "int option"
  fp_provider :: "bool option"
  fp_postgres :: "bool option"
  fp_timeout :: "bool option"

definition delay_ok :: "int option \<Rightarrow> bool" where
  "delay_ok d = (case d of None \<Rightarrow> True | Some n \<Rightarrow> 0 \<le> n \<and> n \<le> 120000)"

definition set_or :: "'a option \<Rightarrow> 'a \<Rightarrow> 'a" where
  "set_or p v = (case p of None \<Rightarrow> v | Some w \<Rightarrow> w)"

definition injector_update :: "failure_patch \<Rightarrow> failure_settings \<Rightarrow> failure_settings" where
  "injector_update p f =
     f\<lparr> cx_injection_enabled := set_or (fp_enabled p) (cx_injection_enabled f),
        cx_tts_delay_ms := set_or (fp_tts p) (cx_tts_delay_ms f), cx_llm_delay_ms := set_or (fp_llm p) (cx_llm_delay_ms f),
        cx_stt_delay_ms := set_or (fp_stt p) (cx_stt_delay_ms f), cx_provider_failure := set_or (fp_provider p) (cx_provider_failure f),
        cx_postgres_failure := set_or (fp_postgres p) (cx_postgres_failure f), cx_stage_timeout := set_or (fp_timeout p) (cx_stage_timeout f) \<rparr>"

definition set_failure_injection :: "failure_patch \<Rightarrow> failure_settings \<Rightarrow> failure_settings res" where
  "set_failure_injection p f =
     (if delay_ok (fp_stt p) \<and> delay_ok (fp_llm p) \<and> delay_ok (fp_tts p) then Inr (injector_update p f)
      else Inl (ValueError ''FailureInjectionRequest''))"

definition stage_delay_ms :: "string \<Rightarrow> failure_settings \<Rightarrow> int" where
  "stage_delay_ms stage f =
     (if stage = ''stt'' then cx_stt_delay_ms f else if stage = ''llm'' then cx_llm_delay_ms f
      else if stage = ''tts'' then cx_tts_delay_ms f else 0)"

definition injected_delay :: "string \<Rightarrow> failure_settings \<Rightarrow> int" where
  "injected_delay stage f = (if cx_injection_enabled f then stage_delay_ms stage f else 0)"

definition before_provider :: "string \<Rightarrow> failure_settings option \<Rightarrow> int \<times> unit res" where
  "before_provider stage fo =
     (case fo of
        None \<Rightarrow> (0, Inr ())
      | Some f \<Rightarrow>
          if cx_injection_enabled f \<and> cx_provider_failure f
          then (injected_delay stage f, Inl (RuntimeError (''Injected '' @ stage @ '' provider failure'')))
          else (injected_delay stage f + (if cx_injection_enabled f \<and> cx_stage_timeout f then 3600000 else 0), Inr ()))"

definition injected_postgres_failure :: "failure_settings \<Rightarrow> bool" where
  "injected_postgres_failure f \<longleftrightarrow> cx_injection_enabled f \<and> cx_postgres_failure f"

subsection \<open>The input of the language model\<close>

definition default_system_prompt :: string where
  "default_system_prompt = ''You are the voice assistant inside VoiceMesh. Answer clearly and conversationally in two or three short sentences. If interruption metadata is present, only treat the spoken prefix as heard by the user; do not assume unplayed generated text was heard.''"

text \<open>\<open>d.get(k)\<close> of a value that must be a dict\<close>

definition py_get :: "pyv \<Rightarrow> string \<Rightarrow> pyv res" where
  "py_get v k = (case v of PDict d \<Rightarrow> Inr (dict_get d k) | _ \<Rightarrow> Inl (AttributeError ''object has no attribute 'get' ''))"

definition hashable :: "pyv \<Rightarrow> bool" where
  "hashable v = (case v of PList _ \<Rightarrow> False | PDict _ \<Rightarrow> False | _ \<Rightarrow> True)"

text \<open>A message of the history, if it is one the model is shown.\<close>

definition history_message :: "(pyv \<Rightarrow> string) \<Rightarrow> pyv \<Rightarrow> (string \<times> string) list res" where
  "history_message rep item =
     bindE (py_get item ''role'') (\<lambda>role.
       if \<not> hashable role then Inl (TypeError ''unhashable type'')
       else if role \<noteq> PStr ''user'' \<and> role \<noteq> PStr ''assistant'' then Inr []
       else
         bindE (py_get item ''content'') (\<lambda>content.
         bindE (py_get item ''spoken_text'') (\<lambda>spoken.
           (let text = py_or (py_or content spoken) (PStr [])
            in Inr (if truthy text then [(py_str rep role, py_str rep text)] else [])))))"

fun history_messages :: "(pyv \<Rightarrow> string) \<Rightarrow> pyv list \<Rightarrow> (string \<times> string) list res" where
  "history_messages rep [] = Inr []"
| "history_messages rep (m # ms) =
     bindE (history_message rep m) (\<lambda>a. bindE (history_messages rep ms) (\<lambda>b. Inr (a @ b)))"

definition py_items :: "pyv \<Rightarrow> pyv list res" where
  "py_items v = (case v of PList xs \<Rightarrow> Inr xs | _ \<Rightarrow> Inl (TypeError ''object is not iterable''))"

definition system_note :: "string \<Rightarrow> string \<Rightarrow> (string \<times> string) list" where
  "system_note intro text = (if text = [] then [] else [(''system'', intro @ text)])"

definition interruption_note :: "(pyv \<Rightarrow> string) \<Rightarrow> pyv \<Rightarrow> (string \<times> string) list res" where
  "interruption_note rep b =
     (if \<not> truthy b then Inr []
      else
        bindE (py_get b ''semantic'') (\<lambda>k.
        bindE (py_get b ''instruction'') (\<lambda>i.
        bindE (py_get b ''interruption'') (\<lambda>m.
          Inr [(''system'', ''Interruption context: semantic='' @ py_str rep k @ ''; instruction='' @ py_str rep i
                 @ ''; metadata='' @ py_str rep m)]))))"

definition build_input :: "(pyv \<Rightarrow> string) \<Rightarrow> string \<Rightarrow> dict \<Rightarrow> (string \<times> string) list res" where
  "build_input rep transcript ctx =
     (let agent = py_or (dict_get ctx ''agent'') (PDict []) in
      bindE (py_get agent ''system_prompt'') (\<lambda>system.
      bindE (py_get agent ''context_prompt'') (\<lambda>context.
      bindE (py_get agent ''first_message'') (\<lambda>first.
      bindE (py_items (py_or (dict_get ctx ''messages'') (PList []))) (\<lambda>items.
      bindE (history_messages rep items) (\<lambda>history.
      bindE (interruption_note rep (dict_get ctx ''barge_in'')) (\<lambda>note_in.
        Inr ((''system'', py_str rep (py_or system (PStr default_system_prompt)))
             # system_note (''Agent context for this call:'' @ [CHR 0x0A]) (str_strip (py_str rep (py_or context (PStr []))))
             @ system_note ''The configured first message for this agent is: '' (str_strip (py_str rep (py_or first (PStr []))))
             @ history @ note_in @ [(''user'', transcript)]))))))))"

subsection \<open>The language model\<close>

record llm_provider =
  lp_model :: string
  lp_usage :: token_usage

definition no_tokens :: token_usage where
  "no_tokens = \<lparr> us_input = 0, us_cached = 0, us_output = 0 \<rparr>"

definition llm_new :: "string \<Rightarrow> llm_provider" where
  "llm_new model = \<lparr> lp_model = model, lp_usage = no_tokens \<rparr>"

datatype llm_event = TextDelta string | ResponseCompleted "token_usage option" | OtherEvent

text \<open>The body of the loop over the stream: the texts it yields, the usage it leaves and whether the consumer closed it.\<close>

fun llm_events :: "nat option \<Rightarrow> llm_event list \<Rightarrow> token_usage \<Rightarrow> string list \<times> token_usage \<times> bool" where
  "llm_events demand [] u = ([], u, False)"
| "llm_events demand (TextDelta t # es) u =
     (if demand = Some (Suc 0) then ([t], u, True)
      else (case llm_events (map_option (\<lambda>n. n - 1) demand) es u of (ts, u', stopped) \<Rightarrow> (t # ts, u', stopped)))"
| "llm_events demand (ResponseCompleted v # es) u = llm_events demand es (case v of None \<Rightarrow> u | Some w \<Rightarrow> w)"
| "llm_events demand (OtherEvent # es) u = llm_events demand es u"

definition stream_generate ::
  "failure_settings option \<Rightarrow> nat option \<Rightarrow> (llm_event list \<times> exn option) res \<Rightarrow> llm_provider
     \<Rightarrow> (string list \<times> exn option) \<times> llm_provider" where
  "stream_generate f demand answer p =
     (if demand = Some 0 then (([], None), p)
      else
        case before_provider ''llm'' f of
          (_, Inl e) \<Rightarrow> (([], Some e), p)
        | (_, Inr _) \<Rightarrow>
            (case answer of
               Inl e \<Rightarrow> (([], Some e), p)
             | Inr (events, failure) \<Rightarrow>
                 (case llm_events demand events (lp_usage p) of
                    (ts, u, stopped) \<Rightarrow> ((ts, if stopped then None else failure), p\<lparr> lp_usage := u \<rparr>))))"

definition llm_consume_usage :: "llm_provider \<Rightarrow> token_usage \<times> llm_provider" where
  "llm_consume_usage p = (lp_usage p, p\<lparr> lp_usage := no_tokens \<rparr>)"

subsection \<open>Speech\<close>

record tts_provider =
  tp_model :: string
  tp_voice :: string
  tp_usage :: speech_usage

definition no_speech :: speech_usage where
  "no_speech = \<lparr> su_input_text = [], su_bytes = 0, su_seconds = 0 \<rparr>"

definition tts_new :: "string \<Rightarrow> string \<Rightarrow> tts_provider" where
  "tts_new model voice = \<lparr> tp_model = model, tp_voice = voice, tp_usage = no_speech \<rparr>"

definition speech_of :: "string \<Rightarrow> bytes list \<Rightarrow> speech_usage" where
  "speech_of text chunks =
     (let n = int (length (concat chunks)) in \<lparr> su_input_text = text, su_bytes = n, su_seconds = of_int n / of_int (24000 * 2) \<rparr>)"

definition synthesize ::
  "failure_settings option \<Rightarrow> nat option \<Rightarrow> string \<Rightarrow> (bytes list \<times> exn option) res \<Rightarrow> tts_provider
     \<Rightarrow> (bytes list \<times> exn option) \<times> tts_provider" where
  "synthesize f demand text answer p =
     (if demand = Some 0 then (([], None), p)
      else
        case before_provider ''tts'' f of
          (_, Inl e) \<Rightarrow> (([], Some e), p)
        | (_, Inr _) \<Rightarrow>
            (case answer of
               Inl e \<Rightarrow> (([], Some e), p)
             | Inr (chunks, failure) \<Rightarrow>
                 (case demand of
                    Some n \<Rightarrow>
                      if n \<le> length chunks then ((take n chunks, None), p)
                      else if failure = None then ((chunks, None), p\<lparr> tp_usage := speech_of text chunks \<rparr>)
                      else ((chunks, failure), p)
                  | None \<Rightarrow>
                      if failure = None then ((chunks, None), p\<lparr> tp_usage := speech_of text chunks \<rparr>)
                      else ((chunks, failure), p))))"

definition tts_consume_usage :: "tts_provider \<Rightarrow> speech_usage \<times> tts_provider" where
  "tts_consume_usage p = (tp_usage p, p\<lparr> tp_usage := no_speech \<rparr>)"

subsection \<open>The registry\<close>

record model_settings =
  mo_stt_model :: string
  mo_stt_language :: "string option"
  mo_stt_delay :: string
  mo_llm_model :: string
  mo_tts_model :: string
  mo_tts_voice :: string

record stt_provider =
  tv_key :: string
  tv_model :: string
  tv_language :: "string option"
  tv_delay :: string

definition config_value :: "(pyv \<Rightarrow> string) \<Rightarrow> dict \<Rightarrow> string \<Rightarrow> string \<Rightarrow> string" where
  "config_value rep agent k fallback = (let v = dict_get agent k in if truthy v then py_str rep v else fallback)"

definition registry_api_key :: "settings \<Rightarrow> string res" where
  "registry_api_key s =
     bindE (validate_provider_credentials s) (\<lambda>_.
       case st_openai_api_key s of None \<Rightarrow> Inl AssertionFailed | Some k \<Rightarrow> Inr k)"

definition registry_stt :: "(pyv \<Rightarrow> string) \<Rightarrow> settings \<Rightarrow> model_settings \<Rightarrow> dict \<Rightarrow> stt_provider res" where
  "registry_stt rep s m agent =
     (let provider = config_value rep agent ''stt_provider'' (st_stt_provider s) in
      if provider = ''openai'' then
        bindE (registry_api_key s) (\<lambda>k. Inr
          \<lparr> tv_key = k, tv_model = config_value rep agent ''stt_model'' (mo_stt_model m), tv_language = mo_stt_language m, tv_delay = mo_stt_delay m \<rparr>)
      else Inl (ValueError (''Unknown STT provider: '' @ provider)))"

definition registry_llm :: "(pyv \<Rightarrow> string) \<Rightarrow> settings \<Rightarrow> model_settings \<Rightarrow> dict \<Rightarrow> llm_provider res" where
  "registry_llm rep s m agent =
     (let provider = config_value rep agent ''llm_provider'' (st_llm_provider s) in
      if provider = ''openai'' then
        bindE (registry_api_key s) (\<lambda>k. Inr (llm_new (config_value rep agent ''llm_model'' (mo_llm_model m))))
      else Inl (ValueError (''Unknown LLM provider: '' @ provider)))"

definition registry_tts :: "(pyv \<Rightarrow> string) \<Rightarrow> settings \<Rightarrow> model_settings \<Rightarrow> dict \<Rightarrow> tts_provider res" where
  "registry_tts rep s m agent =
     (let provider = config_value rep agent ''tts_provider'' (st_tts_provider s) in
      if provider = ''openai'' then
        bindE (registry_api_key s) (\<lambda>k. Inr (tts_new (config_value rep agent ''tts_model'' (mo_tts_model m))
          (config_value rep agent ''tts_voice'' (mo_tts_voice m))))
      else Inl (ValueError (''Unknown TTS provider: '' @ provider)))"

subsection \<open>Laws of the input\<close>

text \<open>The messages of a history the model is shown: those of the user and the assistant that say something.\<close>

definition said :: "(pyv \<Rightarrow> string) \<Rightarrow> dict \<Rightarrow> (string \<times> string) option" where
  "said rep d =
     (let text = py_or (py_or (dict_get d ''content'') (dict_get d ''spoken_text'')) (PStr [])
      in if dict_get d ''role'' \<in> {PStr ''user'', PStr ''assistant''} \<and> truthy text
         then Some (py_str rep (dict_get d ''role''), py_str rep text) else None)"

lemma history_message_said:
  "hashable (dict_get d ''role'') \<Longrightarrow> history_message rep (PDict d) = Inr (case said rep d of None \<Rightarrow> [] | Some m \<Rightarrow> [m])"
  by (auto simp: history_message_def py_get_def said_def Let_def)

lemma history_messages_said:
  "list_all (\<lambda>d. hashable (dict_get d ''role'')) ds \<Longrightarrow> history_messages rep (map PDict ds) = Inr (List.map_filter (said rep) ds)"
  by (induction ds) (auto simp: history_message_said map_filter_def split: option.split)

lemma history_role: "history_messages rep ms = Inr h \<Longrightarrow> (r, c) \<in> set h \<Longrightarrow> r \<in> {''user'', ''assistant''}"
  by (induction rep ms arbitrary: h rule: history_messages.induct)
     (auto simp: bindE_eq_Inr history_message_def Let_def split: if_splits)

lemma build_input_parts:
  assumes "build_input rep transcript ctx = Inr ms"
  obtains system intro history note_in where "ms = (''system'', system) # intro @ history @ note_in @ [(''user'', transcript)]"
    "set (map fst intro) \<subseteq> {''system''}" "set (map fst note_in) \<subseteq> {''system''}"
    "\<exists>items. history_messages rep items = Inr history \<and> py_or (dict_get ctx ''messages'') (PList []) = PList items"
proof -
  obtain system situation first items history note_in where
      "py_items (py_or (dict_get ctx ''messages'') (PList [])) = Inr items" "history_messages rep items = Inr history"
      "interruption_note rep (dict_get ctx ''barge_in'') = Inr note_in"
      "ms = (''system'', py_str rep (py_or system (PStr default_system_prompt)))
             # system_note (''Agent context for this call:'' @ [CHR 0x0A]) (str_strip (py_str rep (py_or situation (PStr []))))
             @ system_note ''The configured first message for this agent is: '' (str_strip (py_str rep (py_or first (PStr []))))
             @ history @ note_in @ [(''user'', transcript)]"
    using assms unfolding build_input_def Let_def bindE_eq_Inr sum.inject
    by (elim exE conjE) (rule that, assumption, assumption, assumption, erule sym)
  moreover have "set (map fst note_in) \<subseteq> {''system''}"
    using \<open>interruption_note rep _ = _\<close> by (auto simp: interruption_note_def bindE_eq_Inr split: if_splits)
  moreover have "set (map fst (system_note a b)) \<subseteq> {''system''}" for a b by (simp add: system_note_def)
  ultimately show thesis
    by (intro that [of _ "system_note _ _ @ system_note _ _" history note_in]) (auto simp: py_items_def split: pyv.splits)
qed

lemma filter_all_system: "set (map fst ms) \<subseteq> {''system''} \<Longrightarrow> filter (\<lambda>m. fst m \<noteq> ''system'') ms = []"
  by (auto simp: filter_empty_conv)

lemma filter_no_system: "(\<And>r c. (r, c) \<in> set h \<Longrightarrow> r \<in> {''user'', ''assistant''}) \<Longrightarrow> filter (\<lambda>m. fst m \<noteq> ''system'') h = h"
  by (rule filter_True) force

text \<open>The shape of the input\<close>

lemma llm_input_shape:
  assumes "build_input rep transcript ctx = Inr ms" and "dict_get ctx ''messages'' = PList (map PDict ds)"
    and "list_all (\<lambda>d. hashable (dict_get d ''role'')) ds"
  shows "fst (hd ms) = ''system'' \<and> last ms = (''user'', transcript) \<and> set (map fst ms) \<subseteq> {''system'', ''user'', ''assistant''}
     \<and> filter (\<lambda>m. fst m \<noteq> ''system'') ms = List.map_filter (said rep) ds @ [(''user'', transcript)]"
proof -
  obtain system intro history note_in where ms: "ms = (''system'', system) # intro @ history @ note_in @ [(''user'', transcript)]"
    and sys: "set (map fst intro) \<subseteq> {''system''}" "set (map fst note_in) \<subseteq> {''system''}"
    and items: "\<exists>items. history_messages rep items = Inr history \<and> py_or (dict_get ctx ''messages'') (PList []) = PList items"
    by (rule build_input_parts [OF assms(1)])
  have "py_or (dict_get ctx ''messages'') (PList []) = PList (map PDict ds)" by (simp add: assms(2) py_or_def)
  then have "history_messages rep (map PDict ds) = Inr history" using items by simp
  then have history: "history = List.map_filter (said rep) ds" using history_messages_said [OF assms(3), of rep] by simp
  have roles: "r \<in> {''user'', ''assistant''}" if "(r, c) \<in> set history" for r c using history_role items that by blast
  have "set (map fst history) \<subseteq> {''user'', ''assistant''}" by (auto dest: roles)
  then have "set (map fst ms) \<subseteq> {''system'', ''user'', ''assistant''}" using sys by (auto simp: ms)
  moreover have "filter (\<lambda>m. fst m \<noteq> ''system'') ms = history @ [(''user'', transcript)]"
    using filter_all_system [OF sys(1)] filter_all_system [OF sys(2)] filter_no_system [OF roles] by (simp add: ms)
  ultimately show ?thesis by (simp add: ms history)
qed

text \<open>C31: The input of the language model starts with a system message, ends with what the user just said, and has only
the three roles; the spoken messages in it are those of the history that say something, in their order.\<close>

theorem llm_input_well_formed:
  assumes "build_input rep transcript ctx = Inr ms" and "dict_get ctx ''messages'' = PList (map PDict ds)"
    and "list_all (\<lambda>d. hashable (dict_get d ''role'')) ds"
  shows "fst (hd ms) = ''system'' \<and> last ms = (''user'', transcript) \<and> set (map fst ms) \<subseteq> {''system'', ''user'', ''assistant''}
     \<and> filter (\<lambda>m. fst m \<noteq> ''system'') ms = List.map_filter (said rep) ds @ [(''user'', transcript)]"
  by (rule llm_input_shape [OF assms])

definition demo_history :: "dict list" where
  "demo_history = [[(''role'', PStr ''assistant''), (''spoken_text'', PStr ''Hi there.'')], [(''role'', PStr ''tool''), (''content'', PStr ''x'')]]"

lemma llm_input_well_formed_witness:
  "\<exists>ms. build_input (\<lambda>_. []) ''hello'' [(''messages'', PList (map PDict demo_history))] = Inr ms
     \<and> filter (\<lambda>m. fst m \<noteq> ''system'') ms = [(''assistant'', ''Hi there.''), (''user'', ''hello'')]"
proof -
  let ?ctx = "[(''messages'', PList (map PDict demo_history))]"
  have roles: "list_all (\<lambda>d. hashable (dict_get d ''role'')) demo_history" by (simp add: demo_history_def hashable_def dict_get_def)
  have "demo_history \<noteq> []" by (simp add: demo_history_def)
  then obtain ms where ms: "build_input (\<lambda>_. []) ''hello'' ?ctx = Inr ms"
    by (simp add: build_input_def dict_get_def py_or_def py_get_def py_items_def interruption_note_def history_messages_said [OF roles])
  have get: "dict_get ?ctx ''messages'' = PList (map PDict demo_history)" by (simp add: dict_get_def)
  have "List.map_filter (said (\<lambda>_. [])) demo_history = [(''assistant'', ''Hi there.'')]"
    by (simp add: demo_history_def said_def dict_get_def py_or_def map_filter_def)
  then show ?thesis using llm_input_well_formed [OF ms get roles] ms by auto
qed

text \<open>C38: A session shows the model every accepted turn twice: the turn is part of the conversation before the model is
asked, and the adapter adds the transcript after the conversation once more.\<close>

theorem user_turn_sent_twice:
  assumes "sm_conv s = before @ [user_message turn transcript sem]" and "transcript \<noteq> []"
    and "list_all (\<lambda>d. hashable (dict_get d ''role'')) before"
  shows "\<exists>ms shown. build_input rep transcript (llm_context k s) = Inr ms
     \<and> filter (\<lambda>m. fst m \<noteq> ''system'') ms = shown @ [(''user'', transcript), (''user'', transcript)]"
proof -
  define ds where "ds = drop (Suc (length before) - 10) before"
  have conv: "last_messages (sm_conv s) = ds @ [user_message turn transcript sem]"
    by (simp add: last_messages_def ds_def assms(1))
  have um: "dict_get (user_message turn transcript sem) ''role'' = PStr ''user''"
      "dict_get (user_message turn transcript sem) ''content'' = PStr transcript" by (simp_all add: user_message_def dict_get_def)
  have "list_all (\<lambda>d. hashable (dict_get d ''role'')) ds" using assms(3) by (auto simp: ds_def list_all_iff dest: in_set_dropD)
  then have roles: "list_all (\<lambda>d. hashable (dict_get d ''role'')) (ds @ [user_message turn transcript sem])"
    by (simp add: um hashable_def)
  have get: "dict_get (llm_context k s) ''messages'' = PList (map PDict (ds @ [user_message turn transcript sem]))"
    by (simp add: llm_context_def dict_get_def conv)
  have agent: "\<exists>d. dict_get (llm_context k s) ''agent'' = PDict d \<and> d \<noteq> []" by (simp add: llm_context_def dict_get_def)
  have barge: "\<exists>n. interruption_note rep (dict_get (llm_context k s) ''barge_in'') = Inr n"
    by (cases k) (simp_all add: llm_context_def dict_get_def interruption_note_def py_get_def)
  obtain d n where "dict_get (llm_context k s) ''agent'' = PDict d" "d \<noteq> []" "interruption_note rep (dict_get (llm_context k s) ''barge_in'') = Inr n"
    using agent barge by blast
  then have "\<exists>ms. build_input rep transcript (llm_context k s) = Inr ms"
    unfolding build_input_def Let_def get by (simp add: py_or_def py_get_def py_items_def history_messages_said [OF roles] del: map_append)
  then obtain ms where ms: "build_input rep transcript (llm_context k s) = Inr ms" by blast
  have said: "said rep (user_message turn transcript sem) = Some (''user'', transcript)"
    using assms(2) by (simp add: said_def um py_or_def)
  have "filter (\<lambda>m. fst m \<noteq> ''system'') ms = List.map_filter (said rep) ds @ [(''user'', transcript), (''user'', transcript)]"
    using llm_input_shape [OF ms get roles] by (simp add: map_filter_def said)
  then show ?thesis using ms by blast
qed

lemma user_turn_sent_twice_witness:
  "\<exists>s ms shown. build_input (\<lambda>_. []) ''hello'' (llm_context None s) = Inr ms
     \<and> filter (\<lambda>m. fst m \<noteq> ''system'') ms = shown @ [(''user'', ''hello''), (''user'', ''hello'')]"
proof -
  have "sm_conv (sess_demo\<lparr> sm_conv := [user_message ''t'' ''hello'' None] \<rparr>) = [] @ [user_message ''t'' ''hello'' None]" by simp
  from user_turn_sent_twice [OF this, of "\<lambda>_. []" None] show ?thesis by (auto simp del: One_nat_def)
qed

lemma llm_events_answer:
  "d \<noteq> Some 0 \<Longrightarrow> llm_events d (map TextDelta ts @ [ResponseCompleted (Some v)]) u
     = (if \<exists>n \<le> length ts. d = Some n then (take (the d) ts, u, True) else (ts, v, False))"
proof (induction ts arbitrary: d)
  case (Cons t ts)
  show ?case
  proof (cases "d = None \<or> d = Some (Suc 0)")
    case False
    then obtain n where d: "d = Some (Suc (Suc n))" using Cons.prems by (metis not0_implies_Suc option.exhaust)
    then show ?thesis using Cons.IH [of "Some (Suc n)"] by auto
  qed (use Cons.IH [of None] in auto)
qed auto

text \<open>What a provider charges is recorded only for streams read to their end: speech that fails or is cut short leaves
the usage as it was, and so does a model's answer whose reader stops before its completion is announced; what is
recorded is reported once.\<close>

theorem unfinished_streams_record_nothing:
  assumes "synthesize f demand text answer p = ((chunks, e), p')"
    and "stream_generate None wanted (Inr (map TextDelta ts @ [ResponseCompleted (Some v)], None)) q = ((texts, e'), q')"
  shows "(if e = None \<and> demand \<noteq> Some (length chunks) then answer = Inr (chunks, None) \<and> tp_usage p' = speech_of text chunks else p' = p)
     \<and> (if \<exists>n \<le> length ts. wanted = Some n then q' = q else texts = ts \<and> lp_usage q' = v)
     \<and> fst (tts_consume_usage (snd (tts_consume_usage p'))) = no_speech \<and> fst (llm_consume_usage (snd (llm_consume_usage q'))) = no_tokens"
proof -
  have "if e = None \<and> demand \<noteq> Some (length chunks) then answer = Inr (chunks, None) \<and> tp_usage p' = speech_of text chunks else p' = p"
    using assms(1)
    by (auto simp: synthesize_def split: if_splits sum.splits prod.splits option.splits)
  moreover have "if \<exists>n \<le> length ts. wanted = Some n then q' = q else texts = ts \<and> lp_usage q' = v"
    using assms(2) llm_events_answer [of wanted ts v "lp_usage q"]
    by (auto simp: stream_generate_def before_provider_def split: if_splits)
  ultimately show ?thesis by (simp add: tts_consume_usage_def llm_consume_usage_def)
qed

lemma unfinished_streams_record_nothing_witness:
  "tp_usage (snd (synthesize None (Some 1) ''hi'' (Inr ([[1, 2], [3, 4]], None)) (tts_new ''m'' ''v''))) = no_speech
     \<and> su_bytes (tp_usage (snd (synthesize None None ''hi'' (Inr ([[1, 2], [3, 4]], None)) (tts_new ''m'' ''v'')))) = 4"
proof -
  have g: "stream_generate None None (Inr (map TextDelta [] @ [ResponseCompleted (Some no_tokens)], None)) (llm_new ''m'') = (([], None), llm_new ''m'')"
    by (simp add: stream_generate_def before_provider_def llm_new_def)
  obtain c p where 1: "synthesize None (Some 1) ''hi'' (Inr ([[1, 2], [3, 4]], None)) (tts_new ''m'' ''v'') = (([[1, 2]], None), p)"
    by (simp add: synthesize_def before_provider_def)
  obtain p2 where 2: "synthesize None None ''hi'' (Inr ([[1, 2], [3, 4]], None)) (tts_new ''m'' ''v'') = (([[1, 2], [3, 4]], None), p2)"
    by (simp add: synthesize_def before_provider_def)
  have "p = tts_new ''m'' ''v''" using unfinished_streams_record_nothing [OF 1 g] by simp
  moreover have "tp_usage p2 = speech_of ''hi'' [[1, 2], [3, 4]]" using unfinished_streams_record_nothing [OF 2 g] by simp
  ultimately show ?thesis using 1 2 by (simp add: tts_new_def speech_of_def)
qed

text \<open>A provider is made only for the name the adapter knows, with the key and with the agent's model, if it names one.\<close>

lemma registry_never_falls_back:
  assumes "registry_stt rep s m agent = Inr p"
  shows "config_value rep agent ''stt_provider'' (st_stt_provider s) = ''openai'' \<and> st_openai_api_key s = Some (tv_key p)
     \<and> tv_model p = (if truthy (dict_get agent ''stt_model'') then py_str rep (dict_get agent ''stt_model'') else mo_stt_model m)"
  using assms
  by (auto simp: registry_stt_def registry_api_key_def config_value_def Let_def bindE_eq_Inr split: if_splits option.splits)

end
