(* ===== verification/Entry.thy ===== *)
theory Entry
  imports Agent_Types Providers Activities
begin

text \<open>
  The entry points of the API that start and read calls: the two WebSocket routes of
  \<open>apps/api/main.py\<close>, the routes \<open>calls.py\<close>, \<open>billing.py\<close> (one call) and \<open>demo.py\<close>, and the
  queries of \<open>apps/api/db/repository.py\<close> behind them. The order in which the rows of \<open>calls\<close> were
  created is an argument, as a list of call ids. A query with an empty workspace reads every workspace.
\<close>

subsection \<open>Reading calls\<close>

definition in_org :: "string option \<Rightarrow> call_row \<Rightarrow> bool" where
  "in_org org c \<longleftrightarrow> (case org of None \<Rightarrow> True | Some g \<Rightarrow> g = [] \<or> cl_org c = PStr g)"

text \<open>The left join with the agent's name\<close>

definition call_agent_name :: "accounts \<Rightarrow> call_row \<Rightarrow> string option" where
  "call_agent_name s c = map_option (\<lambda>a. ad_name (ag_data a)) (List.find (\<lambda>a. cl_agent c = PStr (ag_id a)) (ac_agents s))"

type_synonym call_view = "string \<times> call_row \<times> string option"

definition get_call :: "string \<Rightarrow> string option \<Rightarrow> accounts \<Rightarrow> db \<Rightarrow> call_view option" where
  "get_call call org s d =
     (case db_calls d call of
        None \<Rightarrow> None
      | Some c \<Rightarrow> if in_org org c then Some (call, c, call_agent_name s c) else None)"

definition list_calls :: "nat \<Rightarrow> string option \<Rightarrow> string list \<Rightarrow> accounts \<Rightarrow> db \<Rightarrow> call_view list" where
  "list_calls limit org order s d = take limit (List.map_filter (\<lambda>call. get_call call org s d) (rev order))"

definition call_in_org :: "string \<Rightarrow> string option \<Rightarrow> db \<Rightarrow> bool" where
  "call_in_org call org d \<longleftrightarrow>
     (case org of
        None \<Rightarrow> True
      | Some g \<Rightarrow> g = [] \<or> (case db_calls d call of None \<Rightarrow> False | Some c \<Rightarrow> cl_org c = PStr g))"

definition get_events :: "string \<Rightarrow> string option \<Rightarrow> db \<Rightarrow> pevent list" where
  "get_events call org d =
     (if call_in_org call org d
      then sort_key pe_timestamp (sort_key pe_seq (filter (\<lambda>e. pe_call_id e = call) (db_events d))) else [])"

definition get_metrics :: "string \<Rightarrow> string option \<Rightarrow> db \<Rightarrow> metric_row list" where
  "get_metrics call org d =
     (if call_in_org call org d then filter (\<lambda>m. mt_call m = call) (db_metrics d) else [])"

subsection \<open>Reading the bill of a call\<close>

record bill_view =
  vw_call :: string
  vw_seconds :: rat
  vw_provider_cost :: rat
  vw_platform_fee :: rat
  vw_total :: rat
  vw_currency :: string
  vw_status :: string
  vw_version :: string
  vw_warnings :: "string list option"

definition cents_usd :: "int \<Rightarrow> rat" where
  "cents_usd c = of_int c / 100"

text \<open>The final bill where there is one, the live one otherwise\<close>

definition bill_view_of :: "string \<Rightarrow> final_row option \<Rightarrow> billing_row option \<Rightarrow> bill_view option" where
  "bill_view_of call fo bo =
     (case (fo, bo) of
        (Some f, _) \<Rightarrow> Some
          \<lparr> vw_call = call, vw_seconds = of_int (fi_seconds f),
            vw_provider_cost = cents_usd (fi_stt f + fi_llm f + fi_tts f + fi_telephony f),
            vw_platform_fee = cents_usd (fi_platform f), vw_total = cents_usd (fi_total f), vw_currency = fi_currency f,
            vw_status = fi_status f, vw_version = fi_version f, vw_warnings = Some (fi_warnings f) \<rparr>
      | (None, Some b) \<Rightarrow> Some
          \<lparr> vw_call = call, vw_seconds = bl_duration b, vw_provider_cost = bl_provider_cost b, vw_platform_fee = bl_platform_fee b,
            vw_total = bl_total b, vw_currency = bl_currency b, vw_status = bl_status b, vw_version = bl_version b, vw_warnings = None \<rparr>
      | (None, None) \<Rightarrow> None)"

definition get_call_billing :: "string \<Rightarrow> string option \<Rightarrow> db \<Rightarrow> (bill_view \<times> usage_row list) option" where
  "get_call_billing call org d =
     (case bill_view_of call (db_final d call) (db_billing d call) of
        None \<Rightarrow> None
      | Some v \<Rightarrow> if call_in_org call org d then Some (v, sort_key us_created (filter (\<lambda>u. us_call u = call) (db_usage d))) else None)"

subsection \<open>Routes\<close>

definition route_list_calls :: "acc_ext \<Rightarrow> rat \<Rightarrow> string list \<Rightarrow> string option \<Rightarrow> accounts \<Rightarrow> db \<Rightarrow> call_view list http" where
  "route_list_calls x now order cookie s d =
     bindE (get_current_context x now cookie s) (\<lambda>c. Inr (list_calls 100 (Some (au_org c)) order s d))"

definition route_get_call :: "acc_ext \<Rightarrow> rat \<Rightarrow> string option \<Rightarrow> string \<Rightarrow> accounts \<Rightarrow> db \<Rightarrow> call_view http" where
  "route_get_call x now cookie call s d =
     bindE (get_current_context x now cookie s) (\<lambda>c. found ''Call'' (get_call call (Some (au_org c)) s d))"

definition route_get_agent_call :: "acc_ext \<Rightarrow> (pyv \<Rightarrow> string) \<Rightarrow> rat \<Rightarrow> string option \<Rightarrow> string \<Rightarrow> string \<Rightarrow> accounts \<Rightarrow> db \<Rightarrow> call_view http" where
  "route_get_agent_call x rep now cookie agent call s d =
     bindE (get_current_context x now cookie s) (\<lambda>c.
       case get_call call (Some (au_org c)) s d of
         Some (k, r, n) \<Rightarrow> if py_str rep (cl_agent r) = agent then Inr (k, r, n) else Inl (Http 404 ''Call not found'')
       | None \<Rightarrow> Inl (Http 404 ''Call not found''))"

definition route_get_call_events :: "acc_ext \<Rightarrow> rat \<Rightarrow> string option \<Rightarrow> string \<Rightarrow> accounts \<Rightarrow> db \<Rightarrow> pevent list http" where
  "route_get_call_events x now cookie call s d =
     bindE (get_current_context x now cookie s) (\<lambda>c. Inr (get_events call (Some (au_org c)) d))"

definition route_get_call_metrics :: "acc_ext \<Rightarrow> rat \<Rightarrow> string option \<Rightarrow> string \<Rightarrow> accounts \<Rightarrow> db \<Rightarrow> metric_row list http" where
  "route_get_call_metrics x now cookie call s d =
     bindE (get_current_context x now cookie s) (\<lambda>c. Inr (get_metrics call (Some (au_org c)) d))"

definition route_call_billing :: "acc_ext \<Rightarrow> rat \<Rightarrow> string option \<Rightarrow> string \<Rightarrow> accounts \<Rightarrow> db \<Rightarrow> (bill_view \<times> usage_row list) http" where
  "route_call_billing x now cookie call s d =
     bindE (get_current_context x now cookie s) (\<lambda>c. found ''Billing record'' (get_call_billing call (Some (au_org c)) d))"

text \<open>The demo routes, which ask for no session\<close>

definition replay_duplicate_events :: "string \<Rightarrow> db \<Rightarrow> pevent http" where
  "replay_duplicate_events call d =
     (case rev (get_events call None d) of
        [] \<Rightarrow> Inl (Http 404 ''No persisted events for call'')
      | e # _ \<Rightarrow> Inr e)"

definition reset_demo :: "failure_settings \<times> db \<Rightarrow> failure_settings \<times> db" where
  "reset_demo st = (case st of (f, d) \<Rightarrow> (injector_reset, db_empty (db_pricing d)))"

subsection \<open>Starting a call\<close>

record call_setup =
  cs_call :: string
  cs_org :: pyv
  cs_agent :: pyv
  cs_snapshot :: dict
  cs_stt :: stt_provider
  cs_llm :: llm_provider
  cs_tts :: tts_provider

text \<open>A socket is closed with a code before a call begins, fails, or carries a call.\<close>

datatype ws_outcome = WsClosed int | WsFailed exn | WsCall call_setup

definition setup_call :: "(pyv \<Rightarrow> string) \<Rightarrow> settings \<Rightarrow> model_settings \<Rightarrow> string \<Rightarrow> pyv \<Rightarrow> pyv \<Rightarrow> dict \<Rightarrow> ws_outcome" where
  "setup_call rep cfg models call org agent snap =
     (case bindE (registry_stt rep cfg models snap) (\<lambda>stt.
           bindE (registry_llm rep cfg models snap) (\<lambda>llm.
           bindE (registry_tts rep cfg models snap) (\<lambda>tts.
             Inr \<lparr> cs_call = call, cs_org = org, cs_agent = agent, cs_snapshot = snap, cs_stt = stt, cs_llm = llm, cs_tts = tts \<rparr>))) of
        Inl e \<Rightarrow> WsFailed e
      | Inr u \<Rightarrow> WsCall u)"

definition call_websocket :: "acc_ext \<Rightarrow> (pyv \<Rightarrow> string) \<Rightarrow> settings \<Rightarrow> model_settings \<Rightarrow> string \<Rightarrow> accounts \<Rightarrow> ws_outcome" where
  "call_websocket x rep cfg models call s =
     (let snap = (case get_default_agent x s of None \<Rightarrow> [] | Some a \<Rightarrow> agent_snapshot a)
      in setup_call rep cfg models call (dict_get snap ''organization_id'') (dict_get snap ''id'') snap)"

definition agent_call_websocket ::
  "acc_ext \<Rightarrow> (pyv \<Rightarrow> string) \<Rightarrow> settings \<Rightarrow> model_settings \<Rightarrow> rat \<Rightarrow> string option \<Rightarrow> string \<Rightarrow> string \<Rightarrow> accounts \<Rightarrow> ws_outcome" where
  "agent_call_websocket x rep cfg models now cookie agent call s =
     (case authenticate_websocket x now cookie s of
        None \<Rightarrow> WsClosed 1008
      | Some c \<Rightarrow>
          (case get_agent x (au_org c) agent s of
             Inl e \<Rightarrow> WsFailed e
           | Inr None \<Rightarrow> WsClosed 1008
           | Inr (Some a) \<Rightarrow> setup_call rep cfg models call (PStr (au_org c)) (PStr agent) (agent_snapshot a)))"

text \<open>The session the pipeline starts with\<close>

definition py_opt :: "pyv \<Rightarrow> string option" where
  "py_opt v = (case v of PStr t \<Rightarrow> Some t | _ \<Rightarrow> None)"

definition call_session :: "bool \<Rightarrow> rat \<Rightarrow> settings \<Rightarrow> call_setup \<Rightarrow> sess res" where
  "call_session installed now cfg u =
     sm_new installed now (cs_call u) cfg
       \<lparr> pn_stt = ''openai'', pn_stt_model = tv_model (cs_stt u), pn_llm = ''openai'', pn_llm_model = lp_model (cs_llm u),
         pn_tts = ''openai'', pn_tts_model = tp_model (cs_tts u) \<rparr>
       (py_opt (cs_org u)) (py_opt (cs_agent u)) (cs_snapshot u)"

subsection \<open>Laws\<close>

lemma get_call_Some: "get_call call org s d = Some (k, r, n) \<longleftrightarrow> k = call \<and> db_calls d call = Some r \<and> in_org org r \<and> n = call_agent_name s r"
  by (auto simp: get_call_def split: option.splits)

lemma in_map_filter: "y \<in> set (List.map_filter f xs) \<Longrightarrow> \<exists>x \<in> set xs. f x = Some y"
  by (induction xs) (auto simp: map_filter_simps split: option.splits)

lemma list_calls_in:
  assumes "(k, r, n) \<in> set (list_calls limit org order s d)"
  shows "k \<in> set order \<and> get_call k org s d = Some (k, r, n)"
proof -
  have "(k, r, n) \<in> set (List.map_filter (\<lambda>call. get_call call org s d) (rev order))"
    using assms unfolding list_calls_def by (rule in_set_takeD)
  from in_map_filter [OF this] obtain call where call: "call \<in> set order" "get_call call org s d = Some (k, r, n)" by auto
  have "call = k" using call(2) unfolding get_call_Some by simp
  then show ?thesis using call by simp
qed

lemma context_member:
  assumes "accounts_ok s" "session_context now h s = Some c"
  shows "member_of (au_user c) (au_org c) s"
proof -
  obtain t where "t \<in> set (ac_sessions s)" "ss_user t = au_user c" "ss_org t = au_org c"
    using assms(2) by (rule session_context_cases) simp
  then show ?thesis using assms(1) by (auto simp: accounts_ok_def sessions_ok_def)
qed

lemma sm_new_identity:
  "sm_new installed now call cfg names org agent snap = Inr v \<Longrightarrow>
     sm_call v = call \<and> sm_org v = or_default org ''local-demo-tenant'' \<and> sm_agent v = or_default agent ''local-demo-assistant'' \<and> sm_snapshot v = snap
     \<and> sm_names v = names"
  by (auto simp: sm_new_def bindE_eq_Inr)

lemma setup_call_models:
  assumes "setup_call rep cfg models call org agent snap = WsCall u"
  shows "cs_call u = call \<and> cs_org u = org \<and> cs_agent u = agent \<and> cs_snapshot u = snap \<and> st_openai_api_key cfg = Some (tv_key (cs_stt u))
     \<and> tv_model (cs_stt u) = config_value rep snap ''stt_model'' (mo_stt_model models)
     \<and> lp_model (cs_llm u) = config_value rep snap ''llm_model'' (mo_llm_model models)
     \<and> tp_model (cs_tts u) = config_value rep snap ''tts_model'' (mo_tts_model models)"
proof -
  obtain stt llm tts where "registry_stt rep cfg models snap = Inr stt" "registry_llm rep cfg models snap = Inr llm"
      "registry_tts rep cfg models snap = Inr tts"
      "u = \<lparr> cs_call = call, cs_org = org, cs_agent = agent, cs_snapshot = snap, cs_stt = stt, cs_llm = llm, cs_tts = tts \<rparr>"
    using assms by (auto simp: setup_call_def bindE_eq_Inr split: sum.splits)
  then show ?thesis
    by (auto simp: registry_stt_def registry_llm_def registry_tts_def registry_api_key_def llm_new_def tts_new_def Let_def bindE_eq_Inr
        split: if_splits option.splits)
qed

subsection \<open>Properties\<close>


lemma snapshot_get:
  "dict_get (agent_snapshot a) ''stt_provider'' = PStr (ad_stt_provider (ag_data a))"
  "dict_get (agent_snapshot a) ''llm_provider'' = PStr (ad_llm_provider (ag_data a))"
  "dict_get (agent_snapshot a) ''tts_provider'' = PStr (ad_tts_provider (ag_data a))"
  "dict_get (agent_snapshot a) ''llm_model'' = PStr (ad_llm_model (ag_data a))"
  "dict_get (agent_snapshot a) ''stt_model'' = PStr (ad_stt_model (ag_data a))"
  "dict_get (agent_snapshot a) ''tts_model'' = PStr (ad_tts_model (ag_data a))"
  "dict_get (agent_snapshot a) ''tts_voice'' = PStr (ad_tts_voice (ag_data a))"
  "dict_get (agent_snapshot a) ''status'' = PStr (if ad_status (ag_data a) = [] then ''active'' else ad_status (ag_data a))"
  by (simp_all add: agent_snapshot_def dict_get_def Let_def)

text \<open>C7: An agent's socket carries a call only for a member: the caller holds a live session, is a member of its workspace,
the agent is one of that workspace, and the call's session is set up with that workspace, that agent, and the models
the agent names.\<close>

theorem agent_call_is_authorized:
  assumes "s = acc_run x before accounts_empty" and "agent_call_websocket x rep cfg models now cookie agent call s = WsCall u"
    and "call_session installed started cfg u = Inr v"
  shows "\<exists>c a. get_current_context x now cookie s = Inr c \<and> member_of (au_user c) (au_org c) s
     \<and> a \<in> set (ac_agents s) \<and> kx_uuid_of x (au_org c) = Some (ag_org a) \<and> kx_uuid_of x agent = Some (ag_id a)
     \<and> sm_call v = call \<and> sm_org v = or_default (Some (au_org c)) ''local-demo-tenant'' \<and> sm_snapshot v = agent_snapshot (agent_view x a)
     \<and> pn_llm_model (sm_names v) = (if ad_llm_model (ag_data a) = [] then mo_llm_model models else ad_llm_model (ag_data a))"
proof -
  have ok: "accounts_ok s" using acc_run_ok [of accounts_empty x before] assms(1) by simp
  obtain c b where c: "authenticate_websocket x now cookie s = Some c" and b: "get_agent x (au_org c) agent s = Inr (Some b)"
    and u: "setup_call rep cfg models call (PStr (au_org c)) (PStr agent) (agent_snapshot b) = WsCall u"
    using assms(2) by (auto simp: agent_call_websocket_def split: option.splits sum.splits)
  obtain a where a: "a \<in> set (ac_agents s)" "b = agent_view x a" "kx_uuid_of x (au_org c) = Some (ag_org a)" "kx_uuid_of x agent = Some (ag_id a)"
    by (rule get_agent_row [OF b])
  have ctx: "get_current_context x now cookie s = Inr c" "session_context now (hash_session_token (kx_crypto x) (cookie_token cookie)) s = Some c"
    using c by (auto simp: authenticate_websocket_def get_current_context_def split: if_splits)
  note made = setup_call_models [OF u]
  have ident: "sm_call v = cs_call u \<and> sm_org v = or_default (py_opt (cs_org u)) ''local-demo-tenant'' \<and> sm_snapshot v = cs_snapshot u
      \<and> pn_llm_model (sm_names v) = lp_model (cs_llm u)"
    using sm_new_identity assms(3) unfolding call_session_def by fastforce
  have "config_value rep (agent_snapshot b) ''llm_model'' m = (if ad_llm_model (ag_data a) = [] then m else ad_llm_model (ag_data a))" for m
    by (simp add: config_value_def snapshot_get a(2) agent_view_def)
  then show ?thesis using ctx context_member [OF ok ctx(2)] a made ident by (auto simp: py_opt_def)
qed

text \<open>Pausing an agent does not keep it from taking calls: no entry point reads its status.\<close>

lemma paused_agent_takes_calls:
  assumes "authenticate_websocket x now cookie s = Some c" and "get_agent x (au_org c) agent s = Inr (Some a)"
    and "ad_status (ag_data a) = ''paused''" and "agent_typed (ag_data a)" and "st_openai_api_key cfg = Some key" "key \<noteq> []"
  shows "\<exists>u. agent_call_websocket x rep cfg models now cookie agent call s = WsCall u \<and> dict_get (cs_snapshot u) ''status'' = PStr ''paused''"
proof -
  have names: "config_value rep (agent_snapshot a) k fallback = ''openai''" if "k \<in> {''stt_provider'', ''llm_provider'', ''tts_provider''}" for k fallback
    using assms(4) that by (auto simp: config_value_def snapshot_get agent_typed_def)
  have "registry_api_key cfg = Inr key" using assms(5,6) by (simp add: registry_api_key_def validate_provider_credentials_def)
  then have "\<exists>u. setup_call rep cfg models call (PStr (au_org c)) (PStr agent) (agent_snapshot a) = WsCall u \<and> cs_snapshot u = agent_snapshot a"
    by (simp add: setup_call_def registry_stt_def registry_llm_def registry_tts_def names)
  moreover have "dict_get (agent_snapshot a) ''status'' = PStr ''paused''"
    using assms(3) by (simp add: snapshot_get)
  ultimately show ?thesis using assms(1,2) by (auto simp: agent_call_websocket_def)
qed

text \<open>The bill that is shown adds up: when the stored final bill, or without one the live bill, does, the provider's
cost and the platform's fee on the page sum to its total, and the final bill wins over the live one.\<close>

theorem shown_bill_adds_up:
  assumes "get_call_billing call org d = Some (v, usage)"
    and "\<And>f. db_final d call = Some f \<Longrightarrow> fi_total f = fi_platform f + fi_stt f + fi_llm f + fi_tts f + fi_telephony f"
    and "\<And>b. db_billing d call = Some b \<Longrightarrow> bl_total b = bl_provider_cost b + bl_platform_fee b"
  shows "vw_provider_cost v + vw_platform_fee v = vw_total v \<and> (\<forall>f. db_final d call = Some f \<longrightarrow> vw_total v = cents_usd (fi_total f))
     \<and> (\<forall>w \<in> set usage. us_call w = call)"
  using assms
  by (auto simp: get_call_billing_def bill_view_of_def cents_usd_def add_divide_distrib split: option.splits if_splits)

subsection \<open>Witnesses\<close>

definition demo_tables :: "string \<Rightarrow> accounts" where
  "demo_tables h = (demo_accounts h)\<lparr> ac_sessions := [demo_session], ac_drawn := 4 \<rparr>"

lemma demo_context: "\<exists>c. get_current_context acc_demo 10 (Some ''tttt'') (demo_tables h) = Inr c \<and> au_org c = ''i''"
proof -
  have token: "hash_session_token (kx_crypto acc_demo) ''tttt'' = ''01010101''"
    by (simp add: hash_session_token_def acc_demo_def) code_simp
  show ?thesis
    by (simp add: get_current_context_def cookie_token_def token session_context_def demo_tables_def demo_accounts_def demo_session_def Let_def)
qed

definition final_demo :: final_row where
  "final_demo = \<lparr> fi_tenant = ''o'', fi_assistant = ''a'', fi_started = None, fi_ended = None, fi_seconds = 60, fi_platform = 5, fi_stt = 1,
     fi_llm = 2, fi_tts = 3, fi_telephony = 0, fi_total = 11, fi_currency = ''USD'', fi_version = ''v'', fi_status = ''FINALIZED'',
     fi_warnings = [], fi_finalized_at = None \<rparr>"

lemma shown_bill_adds_up_witness:
  "\<exists>v. get_call_billing ''c1'' None ((db_empty [])\<lparr> db_final := [''c1'' \<mapsto> final_demo] \<rparr>) = Some (v, []) \<and> vw_provider_cost v + vw_platform_fee v = vw_total v"
proof -
  let ?d = "(db_empty [])\<lparr> db_final := [''c1'' \<mapsto> final_demo] \<rparr>"
  obtain v where v: "get_call_billing ''c1'' None ?d = Some (v, [])"
    by (simp add: get_call_billing_def bill_view_of_def call_in_org_def db_empty_def)
  show ?thesis using shown_bill_adds_up [OF v] v by (auto simp: db_empty_def final_demo_def)
qed


definition models_demo :: model_settings where
  "models_demo = \<lparr> mo_stt_model = ''s'', mo_stt_language = None, mo_stt_delay = ''low'', mo_llm_model = ''l'', mo_tts_model = ''t'', mo_tts_voice = ''v'' \<rparr>"

definition cfg_demo :: settings where
  "cfg_demo = default_settings\<lparr> st_openai_api_key := Some ''k'' \<rparr>"

lemma agent_call_is_authorized_witness:
  "\<exists>h u v. agent_call_websocket acc_demo (\<lambda>_. []) cfg_demo models_demo 10 (Some ''tttt'') ''ii'' ''c1'' (demo_tables h) = WsCall u
     \<and> call_session True 0 cfg_demo u = Inr v \<and> sm_org v = ''i''"
proof -
  obtain h where run: "acc_run acc_demo [(0, OpSeed (db_empty []))] accounts_empty = demo_accounts h"
    and pw: "verify_password (kx_crypto acc_demo) ''p'' h = Inr True" by (rule demo_seeded)
  have s: "demo_tables h = acc_run acc_demo ([(0, OpSeed (db_empty []))] @ [(0, OpLogin ''a'' ''p'')]) accounts_empty"
    unfolding acc_run_append run demo_tables_def using demo_logs_in [OF pw] by (simp add: kept_def)
  obtain c where c: "get_current_context acc_demo 10 (Some ''tttt'') (demo_tables h) = Inr c" "au_org c = ''i''" using demo_context by blast
  then have auth: "authenticate_websocket acc_demo 10 (Some ''tttt'') (demo_tables h) = Some c"
    by (auto simp: authenticate_websocket_def get_current_context_def split: if_splits option.splits)
  have agent: "get_agent acc_demo (au_org c) ''ii'' (demo_tables h) = Inr (Some (agent_view acc_demo demo_agent))"
    by (simp add: get_agent_def c(2) demo_tables_def demo_accounts_def demo_agent_def) (simp add: acc_demo_def)
  have "registry_api_key cfg_demo = Inr ''k''"
    by (simp add: registry_api_key_def validate_provider_credentials_def cfg_demo_def)
  then obtain u where u: "setup_call (\<lambda>_. []) cfg_demo models_demo ''c1'' (PStr (au_org c)) (PStr ''ii'') (agent_snapshot (agent_view acc_demo demo_agent)) = WsCall u"
    by (simp add: setup_call_def registry_stt_def registry_llm_def registry_tts_def config_value_def snapshot_get
        agent_view_def demo_agent_def default_agent_def seed_demo_def Let_def)
  then have ws: "agent_call_websocket acc_demo (\<lambda>_. []) cfg_demo models_demo 10 (Some ''tttt'') ''ii'' ''c1'' (demo_tables h) = WsCall u"
    by (simp add: agent_call_websocket_def auth agent)
  obtain vad where "create_vad_provider True cfg_demo = Inr vad"
    using sess_demo_new by (auto simp: sm_new_def bindE_eq_Inr cfg_demo_def create_vad_provider_def)
  then obtain v where v: "call_session True 0 cfg_demo u = Inr v" by (simp add: call_session_def sm_new_def)
  obtain c' where "get_current_context acc_demo 10 (Some ''tttt'') (demo_tables h) = Inr c'" "sm_org v = or_default (Some (au_org c')) ''local-demo-tenant''"
    using agent_call_is_authorized [OF s ws v] by blast
  then have "sm_org v = ''i''" using c by (simp add: or_default_def)
  then show ?thesis using ws v by blast
qed

end
