(* ===== verification/Stt.thy ===== *)
theory Stt
  imports Providers Audio
begin

text \<open>
  The streaming transcription session (\<open>apps/api/providers/openai_stt.py\<close>): audio is appended to the
  provider's buffer, a turn is committed, and a reader task resolves the future the commit waits on when the
  provider's answer comes in. The coroutines meet at their awaits, so a run is a list of steps: calls
  of the session, messages of the provider, the end of the connection, and the caller's time-out. What
  the connection answers to a message sent and what the callback of a partial transcript does are arguments.
\<close>

subsection \<open>State\<close>

datatype 'a fut = Unresolved | Resolved 'a | Failed exn | Abandoned

record stt =
  so_open :: bool
  so_reading :: bool
  so_ready :: "unit fut option"
  so_pending :: "stt_result fut option"
  so_waiting :: bool
  so_samples :: nat
  so_bytes :: nat
  so_appends :: nat
  so_seconds :: rat
  so_sent :: "dict list"
  so_tries :: nat

record stt_ext =
  sx_send :: "nat \<Rightarrow> exn option"
  sx_delta :: "string \<Rightarrow> exn option"
  sx_b64 :: "bytes \<Rightarrow> string"
  sx_rep :: "pyv \<Rightarrow> string"
  sx_injector :: "failure_settings option"

definition stt_rate :: int where
  "stt_rate = 24000"

definition stt_new :: stt where
  "stt_new = \<lparr> so_open = False, so_reading = False, so_ready = None, so_pending = None, so_waiting = False, so_samples = 0,
     so_bytes = 0, so_appends = 0, so_seconds = 0, so_sent = [], so_tries = 0 \<rparr>"

subsection \<open>Operations\<close>

definition so_send :: "stt_ext \<Rightarrow> dict \<Rightarrow> (stt, unit) act" where
  "so_send x m =
     ask (\<lambda>s. if \<not> so_open s then act_raise (RuntimeError ''OpenAI streaming STT session is not connected'')
              else act_bind (upd (\<lambda>s. s\<lparr> so_tries := Suc (so_tries s) \<rparr>)) (\<lambda>_.
                     case sx_send x (so_tries s) of
                       Some e \<Rightarrow> act_raise e
                     | None \<Rightarrow> upd (\<lambda>s. s\<lparr> so_sent := so_sent s @ [m] \<rparr>)))"

definition session_update :: "stt_provider \<Rightarrow> dict" where
  "session_update p =
     [(''type'', PStr ''session.update''),
      (''session'', PDict
        [(''type'', PStr ''transcription''),
         (''audio'', PDict [(''input'', PDict
           [(''format'', PDict [(''type'', PStr ''audio/pcm''), (''rate'', PInt stt_rate)]),
            (''transcription'', PDict ([(''model'', PStr (tv_model p)), (''delay'', PStr (tv_delay p))]
               @ (case tv_language p of None \<Rightarrow> [] | Some l \<Rightarrow> if l = [] then [] else [(''language'', PStr l)]))),
            (''turn_detection'', PNone)])])])]"

text \<open>\<open>start\<close>, up to the wait for the provider; the wait itself is \<open>so_started\<close>.\<close>

definition so_start :: "stt_ext \<Rightarrow> exn option \<Rightarrow> stt_provider \<Rightarrow> (stt, unit) act" where
  "so_start x connecting p =
     act_bind (upd (\<lambda>s. s\<lparr> so_ready := Some Unresolved \<rparr>)) (\<lambda>_.
       case connecting of
         Some e \<Rightarrow> act_raise e
       | None \<Rightarrow> act_bind (upd (\<lambda>s. s\<lparr> so_open := True, so_reading := True \<rparr>)) (\<lambda>_. so_send x (session_update p)))"

text \<open>What the wait of at most ten seconds sees: nothing yet, or how it ends.\<close>

definition so_started :: "bool \<Rightarrow> stt \<Rightarrow> unit res option" where
  "so_started timed_out s =
     (case so_ready s of
        Some (Resolved _) \<Rightarrow> Some (Inr ())
      | Some (Failed e) \<Rightarrow> Some (Inl e)
      | _ \<Rightarrow> if timed_out then Some (Inl TimeoutError) else None)"

definition so_append :: "stt_ext \<Rightarrow> bytes \<Rightarrow> int \<Rightarrow> (stt, unit) act" where
  "so_append x chunk rate =
     act_bind (act_lift (resample_pcm16_mono chunk rate stt_rate)) (\<lambda>b.
       if b = [] then act_ret ()
       else
         act_bind (upd (\<lambda>s. s\<lparr> so_samples := so_samples s + length b div 2, so_bytes := so_bytes s + length b, so_appends := Suc (so_appends s) \<rparr>))
           (\<lambda>_. so_send x [(''type'', PStr ''input_audio_buffer.append''), (''audio'', PStr (sx_b64 x b))]))"

text \<open>\<open>commit\<close>, up to its wait: \<open>Some\<close> result at once, or \<open>None\<close> when it waits for the provider.\<close>

definition so_commit :: "stt_ext \<Rightarrow> (stt, stt_result option) act" where
  "so_commit x =
     ask (\<lambda>s.
       if so_samples s = 0 then act_ret (Some \<lparr> sr_transcript = [], sr_item_id = [], sr_audio_seconds = 0 \<rparr>)
       else
         act_bind (act_lift (snd (before_provider ''stt'' (sx_injector x)))) (\<lambda>_.
         act_bind (upd (\<lambda>s. s\<lparr> so_pending := Some Unresolved, so_seconds := of_nat (so_samples s) / of_int stt_rate,
                               so_samples := 0, so_bytes := 0, so_appends := 0 \<rparr>)) (\<lambda>_.
         act_bind (so_send x [(''type'', PStr ''input_audio_buffer.commit'')]) (\<lambda>_.
         act_bind (upd (\<lambda>s. s\<lparr> so_waiting := True \<rparr>)) (\<lambda>_. act_ret None)))))"

definition resolve :: "'a fut \<Rightarrow> 'a fut option \<Rightarrow> 'a fut option" where
  "resolve r f = (if f = Some Unresolved then Some r else f)"

definition so_fail_pending :: "exn \<Rightarrow> stt \<Rightarrow> stt" where
  "so_fail_pending e s =
     s\<lparr> so_ready := resolve (Failed e) (so_ready s), so_pending := resolve (Failed e) (so_pending s) \<rparr>"

text \<open>The reader on one message; an exception fails what is pending and ends the reader.\<close>

definition so_event :: "stt_ext \<Rightarrow> dict \<Rightarrow> (stt, unit) act" where
  "so_event x ev =
     (let t = dict_get ev ''type'' in
      if t \<in> {PStr ''session.updated'', PStr ''transcription_session.updated''} then
        upd (\<lambda>s. s\<lparr> so_ready := resolve (Resolved ()) (so_ready s) \<rparr>)
      else if t = PStr ''conversation.item.input_audio_transcription.delta'' then
        (let d = py_str (sx_rep x) (py_or (dict_get ev ''delta'') (PStr [])) in
         if d = [] then act_ret () else (case sx_delta x d of Some e \<Rightarrow> act_raise e | None \<Rightarrow> act_ret ()))
      else if t = PStr ''conversation.item.input_audio_transcription.completed'' then
        upd (\<lambda>s. s\<lparr> so_pending := resolve (Resolved
               \<lparr> sr_transcript = py_str (sx_rep x) (py_or (dict_get ev ''transcript'') (PStr [])),
                 sr_item_id = py_str (sx_rep x) (py_or (dict_get ev ''item_id'') (PStr [])), sr_audio_seconds = so_seconds s \<rparr>) (so_pending s) \<rparr>)
      else if t = PStr ''error'' then
        act_bind (act_lift (py_get (py_or (dict_get ev ''error'') (PDict [])) ''message'')) (\<lambda>m.
          upd (so_fail_pending (RuntimeError (py_str (sx_rep x) (py_or m (PStr ''OpenAI streaming STT error''))))))
      else act_ret ())"

definition so_stop_reading :: "exn option \<Rightarrow> stt \<Rightarrow> stt" where
  "so_stop_reading e s = (case e of None \<Rightarrow> s | Some e \<Rightarrow> so_fail_pending e s)\<lparr> so_reading := False \<rparr>"

definition so_read :: "stt_ext \<Rightarrow> pyv \<Rightarrow> stt \<Rightarrow> stt" where
  "so_read x msg s =
     (if \<not> so_reading s then s
      else case msg of
             PDict ev \<Rightarrow>
               if hashable (dict_get ev ''type'') then
                 (case so_event x ev s of (Inl e, s1) \<Rightarrow> so_stop_reading (Some e) s1 | (Inr _, s1) \<Rightarrow> s1)
               else so_stop_reading (Some (TypeError ''unhashable type'')) s
           | _ \<Rightarrow> so_stop_reading (Some (AttributeError ''object has no attribute 'get' '')) s)"

text \<open>\<open>close\<close>: the reader is cancelled.\<close>

definition so_close :: "stt \<Rightarrow> stt" where
  "so_close s = s\<lparr> so_open := False, so_reading := False \<rparr>"

subsection \<open>Runs\<close>

datatype so_step =
    Append bytes int
  | Commit
  | Collect
  | TimeOut
  | Message pyv
  | ConnectionEnds "exn option"

text \<open>What a step gives back to the caller of \<open>commit\<close>: a result or an exception, when it ends.\<close>

fun so_do :: "stt_ext \<Rightarrow> so_step \<Rightarrow> stt \<Rightarrow> stt \<times> stt_result res list" where
  "so_do x (Append b r) s = (snd (so_append x b r s), [])"
| "so_do x Commit s =
     (if so_waiting s then (s, [])
      else case so_commit x s of
             (Inl e, t) \<Rightarrow> (t, [Inl e])
           | (Inr (Some r), t) \<Rightarrow> (t, [Inr r])
           | (Inr None, t) \<Rightarrow> (t, []))"
| "so_do x Collect s =
     (if \<not> so_waiting s then (s, [])
      else case so_pending s of
             Some (Resolved r) \<Rightarrow> (s\<lparr> so_waiting := False \<rparr>, [Inr r])
           | Some (Failed e) \<Rightarrow> (s\<lparr> so_waiting := False \<rparr>, [Inl e])
           | _ \<Rightarrow> (s, []))"
| "so_do x TimeOut s =
     (if \<not> so_waiting s \<or> so_pending s \<noteq> Some Unresolved then (s, [])
      else (s\<lparr> so_waiting := False, so_pending := Some Abandoned \<rparr>, [Inl TimeoutError]))"
| "so_do x (Message m) s = (so_read x m s, [])"
| "so_do x (ConnectionEnds e) s = ((if so_reading s then so_stop_reading e s else s), [])"

fun so_run :: "stt_ext \<Rightarrow> so_step list \<Rightarrow> stt \<Rightarrow> stt \<times> stt_result res list" where
  "so_run x [] s = (s, [])"
| "so_run x (p # ps) s = (case so_do x p s of (t, out) \<Rightarrow> case so_run x ps t of (u, outs) \<Rightarrow> (u, out @ outs))"

subsection \<open>How much audio is reported\<close>

definition audio_samples :: "so_step \<Rightarrow> nat" where
  "audio_samples p = (case p of Append b r \<Rightarrow> (case resample_pcm16_mono b r stt_rate of Inr c \<Rightarrow> length c div 2 | Inl _ \<Rightarrow> 0) | _ \<Rightarrow> 0)"

fun reported :: "stt_result res list \<Rightarrow> rat" where
  "reported [] = 0"
| "reported (Inl e # rs) = reported rs"
| "reported (Inr r # rs) = sr_audio_seconds r + reported rs"

lemma reported_append [simp]: "reported (as @ bs) = reported as + reported bs"
  by (induction as rule: reported.induct) auto

text \<open>Audio that is buffered, or committed and not yet answered.\<close>

fun owed :: "bool \<Rightarrow> stt_result fut option \<Rightarrow> rat \<Rightarrow> rat" where
  "owed True (Some Unresolved) q = q"
| "owed True (Some (Resolved r)) q = sr_audio_seconds r"
| "owed _ _ q = 0"

definition outstanding :: "stt \<Rightarrow> rat" where
  "outstanding s = owed (so_waiting s) (so_pending s) (so_seconds s)"

definition stt_inv :: "stt \<Rightarrow> bool" where
  "stt_inv s \<longleftrightarrow> 0 \<le> so_seconds s \<and> (\<forall>r. so_pending s = Some (Resolved r) \<longrightarrow> 0 \<le> sr_audio_seconds r)"

lemma outstanding_nonneg: "stt_inv s \<Longrightarrow> 0 \<le> outstanding s"
  by (cases "(so_waiting s, so_pending s, so_seconds s)" rule: owed.cases) (auto simp: stt_inv_def outstanding_def)

text \<open>Sending changes nothing but the log of the connection.\<close>

lemma so_send_frame:
  "so_samples (snd (so_send x m s)) = so_samples s \<and> so_waiting (snd (so_send x m s)) = so_waiting s \<and> so_pending (snd (so_send x m s)) = so_pending s
     \<and> so_seconds (snd (so_send x m s)) = so_seconds s"
  by (auto simp: so_send_def act_defs split: option.split)

lemma so_send_same: "stt_inv (snd (so_send x m s)) = stt_inv s" "outstanding (snd (so_send x m s)) = outstanding s"
  using so_send_frame [of x m s] by (simp_all add: stt_inv_def outstanding_def)

lemma append_accounts:
  assumes "stt_inv s"
  shows "stt_inv (snd (so_append x b r s)) \<and> outstanding (snd (so_append x b r s)) = outstanding s
     \<and> so_samples (snd (so_append x b r s)) = so_samples s + audio_samples (Append b r)"
  using assms
  by (auto simp: so_append_def act_bind_def act_lift_def act_ret_def upd_def audio_samples_def so_send_same so_send_frame
      stt_inv_def outstanding_def split: sum.split prod.split)

lemma fail_pending_accounts:
  "stt_inv s \<Longrightarrow> stt_inv (so_fail_pending e s) \<and> outstanding (so_fail_pending e s) \<le> outstanding s \<and> so_samples (so_fail_pending e s) = so_samples s"
  using outstanding_nonneg [of s]
  by (cases "(so_waiting s, so_pending s, so_seconds s)" rule: owed.cases) (auto simp: stt_inv_def outstanding_def so_fail_pending_def resolve_def)

lemma stop_accounts:
  assumes "stt_inv s"
  shows "stt_inv (so_stop_reading e s) \<and> outstanding (so_stop_reading e s) \<le> outstanding s \<and> so_samples (so_stop_reading e s) = so_samples s"
proof -
  have "stt_inv (s\<lparr> so_reading := b \<rparr>) = stt_inv s \<and> outstanding (s\<lparr> so_reading := b \<rparr>) = outstanding s" for b and s :: stt
    by (simp add: stt_inv_def outstanding_def)
  then show ?thesis using assms fail_pending_accounts [OF assms] by (cases e) (simp_all add: so_stop_reading_def)
qed

lemma event_accounts:
  assumes "stt_inv s"
  shows "stt_inv (snd (so_event x ev s)) \<and> outstanding (snd (so_event x ev s)) \<le> outstanding s \<and> so_samples (snd (so_event x ev s)) = so_samples s"
proof -
  have ready: "stt_inv (s\<lparr> so_ready := f \<rparr>) \<and> outstanding (s\<lparr> so_ready := f \<rparr>) = outstanding s" for f
    using assms by (simp add: stt_inv_def outstanding_def)
  have done': "stt_inv (s\<lparr> so_pending := resolve (Resolved r) (so_pending s) \<rparr>) \<and> outstanding (s\<lparr> so_pending := resolve (Resolved r) (so_pending s) \<rparr>) \<le> outstanding s"
    if "sr_audio_seconds r = so_seconds s" for r
    using assms that by (cases "so_waiting s") (auto simp: stt_inv_def outstanding_def resolve_def)
  show ?thesis
    using assms ready done' fail_pending_accounts [OF assms]
    by (auto simp: so_event_def Let_def act_bind_def act_lift_def act_ret_def act_raise_def upd_def split: option.split sum.split)
qed

lemma commit_accounts:
  assumes "stt_inv s" "\<not> so_waiting s"
  shows "stt_inv (fst (so_do x Commit s))
     \<and> outstanding (fst (so_do x Commit s)) + of_nat (so_samples (fst (so_do x Commit s))) / 24000 + reported (snd (so_do x Commit s))
       \<le> of_nat (so_samples s) / 24000"
proof (cases "so_samples s = 0 \<or> (\<exists>e. snd (before_provider ''stt'' (sx_injector x)) = Inl e)")
  case True
  then show ?thesis using assms by (auto simp: so_commit_def act_defs outstanding_def)
next
  case False
  let ?s = "s\<lparr> so_pending := Some Unresolved, so_seconds := of_nat (so_samples s) / of_int stt_rate, so_samples := 0, so_bytes := 0, so_appends := 0 \<rparr>"
  let ?m = "[(''type'', PStr ''input_audio_buffer.commit'')]"
  obtain r t where sent: "so_send x ?m ?s = (r, t)" by (cases "so_send x ?m ?s")
  have "so_samples t = 0 \<and> \<not> so_waiting t \<and> so_pending t = Some Unresolved \<and> so_seconds t = of_nat (so_samples s) / 24000"
    using so_send_frame [of x ?m ?s] assms(2) unfolding sent by (simp add: stt_rate_def)
  then have frame: "so_samples t = 0" "\<not> so_waiting t" "so_pending t = Some Unresolved" "so_seconds t = of_nat (so_samples s) / 24000"
    by blast+
  have ok: "snd (before_provider ''stt'' (sx_injector x)) = Inr ()" using False by (cases "snd (before_provider ''stt'' (sx_injector x))") auto
  have run: "so_commit x s = (case r of Inl e \<Rightarrow> (Inl e, t) | Inr _ \<Rightarrow> (Inr None, t\<lparr> so_waiting := True \<rparr>))"
    using False sent by (simp add: so_commit_def ask_def act_bind_def act_lift_def act_ret_def upd_def ok split: sum.split)
  show ?thesis using assms(2) frame by (cases r) (auto simp: run stt_inv_def outstanding_def)
qed

lemma read_accounts:
  assumes "stt_inv s"
  shows "stt_inv (so_read x m s) \<and> outstanding (so_read x m s) \<le> outstanding s \<and> so_samples (so_read x m s) = so_samples s"
proof (cases "so_reading s \<and> (\<exists>ev. m = PDict ev \<and> hashable (dict_get ev ''type''))")
  case True
  then obtain ev where m: "so_reading s" "m = PDict ev" "hashable (dict_get ev ''type'')" by blast
  obtain r v where ev: "so_event x ev s = (r, v)" by (cases "so_event x ev s")
  have v: "stt_inv v" "outstanding v \<le> outstanding s" "so_samples v = so_samples s"
    using event_accounts [OF assms, of x ev] by (simp_all add: ev)
  show ?thesis
  proof (cases r)
    case (Inl e)
    then show ?thesis using v stop_accounts [OF v(1), of "Some e"] by (simp add: so_read_def m ev)
  qed (use v in \<open>simp add: so_read_def m ev\<close>)
next
  case False
  then have "so_read x m s = s \<or> (\<exists>e. so_read x m s = so_stop_reading (Some e) s)"
    by (cases m) (auto simp: so_read_def)
  then show ?thesis using assms stop_accounts [OF assms] by auto
qed

lemma collect_accounts:
  assumes "stt_inv s" "so_do x Collect s = (t, out) \<or> so_do x TimeOut s = (t, out)"
  shows "stt_inv t \<and> outstanding t + reported out \<le> outstanding s \<and> so_samples t = so_samples s"
  using assms
  by (cases "(so_waiting s, so_pending s, so_seconds s)" rule: owed.cases)
    (auto simp: stt_inv_def outstanding_def cong: option.case_cong split: if_splits)

lemma step_accounts:
  assumes "stt_inv s" and "so_do x p s = (t, out)"
  shows "stt_inv t \<and> outstanding t + of_nat (so_samples t) / 24000 + reported out
     \<le> outstanding s + of_nat (so_samples s + audio_samples p) / 24000"
proof (cases p)
  case (Append b r)
  then show ?thesis using assms append_accounts [OF assms(1), of x b r] by auto
next
  case Commit
  show ?thesis
  proof (cases "so_waiting s")
    case False
    then show ?thesis using assms commit_accounts [OF assms(1) False, of x] by (simp add: Commit outstanding_def audio_samples_def)
  qed (use assms in \<open>simp add: Commit audio_samples_def\<close>)
next
  case (Message m)
  note read_accounts [OF assms(1), of x m]
  then show ?thesis using assms(2) by (auto simp: Message audio_samples_def)
next
  case (ConnectionEnds e)
  then show ?thesis using assms stop_accounts [OF assms(1)] by (auto simp: audio_samples_def)
next
  case Collect
  then show ?thesis using assms collect_accounts [OF assms(1), of x t out] by (simp add: audio_samples_def)
next
  case TimeOut
  then show ?thesis using assms collect_accounts [OF assms(1), of x t out] by (simp add: audio_samples_def)
qed

lemma run_accounts:
  assumes "stt_inv s" and "so_run x ps s = (t, outs)"
  shows "reported outs + of_nat (so_samples t) / 24000 \<le> outstanding s + of_nat (so_samples s + sum_list (map audio_samples ps)) / 24000"
  using assms
proof (induction ps arbitrary: s outs)
  case (Cons p ps)
  obtain u o1 where u: "so_do x p s = (u, o1)" by (cases "so_do x p s")
  obtain o2 where o2: "so_run x ps u = (t, o2)" "outs = o1 @ o2" using Cons.prems(2) u by (auto split: prod.splits)
  note st = step_accounts [OF Cons.prems(1) u]
  then have "reported o2 + of_nat (so_samples t) / 24000 \<le> outstanding u + of_nat (so_samples u + sum_list (map audio_samples ps)) / 24000"
    using Cons.IH o2(1) by blast
  then show ?case using st o2(2) by (simp add: add_divide_distrib)
qed (auto simp: outstanding_nonneg)

text \<open>C16: Audio is reported for billing at most once: whatever the order of calls, answers, time-outs and failures, the
seconds of all results together are no more than the audio appended, less what is still in the buffer.\<close>

theorem stt_bills_audio_once:
  assumes "so_run x steps stt_new = (s, outs)"
  shows "reported outs + of_nat (so_samples s) / 24000 \<le> of_nat (sum_list (map audio_samples steps)) / 24000"
  using run_accounts [OF _ assms] by (simp add: stt_inv_def stt_new_def outstanding_def)

subsection \<open>Turns in order\<close>

text \<open>A connection that takes every message and a callback that never fails.\<close>

definition stt_works :: "stt_ext \<Rightarrow> bool" where
  "stt_works x \<longleftrightarrow> (\<forall>n. sx_send x n = None) \<and> (\<forall>d. sx_delta x d = None) \<and> snd (before_provider ''stt'' (sx_injector x)) = Inr ()"

definition stt_idle :: "stt \<Rightarrow> bool" where
  "stt_idle s \<longleftrightarrow> so_open s \<and> so_reading s \<and> \<not> so_waiting s \<and> so_samples s = 0"

definition completed :: "string \<Rightarrow> string \<Rightarrow> so_step" where
  "completed item text = Message (PDict
     [(''type'', PStr ''conversation.item.input_audio_transcription.completed''), (''item_id'', PStr item), (''transcript'', PStr text)])"

definition partial :: "string \<Rightarrow> so_step" where
  "partial text = Message (PDict [(''type'', PStr ''conversation.item.input_audio_transcription.delta''), (''delta'', PStr text)])"

record stt_turn =
  tu_audio :: "(bytes \<times> int) list"
  tu_partials :: "string list"
  tu_item :: string
  tu_text :: string

definition turn_samples :: "stt_turn \<Rightarrow> nat" where
  "turn_samples u = sum_list (map (\<lambda>(b, r). audio_samples (Append b r)) (tu_audio u))"

definition turn_steps :: "stt_turn \<Rightarrow> so_step list" where
  "turn_steps u = map (\<lambda>(b, r). Append b r) (tu_audio u) @ [Commit] @ map partial (tu_partials u) @ [completed (tu_item u) (tu_text u), Collect]"

definition turn_result :: "stt_turn \<Rightarrow> stt_result" where
  "turn_result u = \<lparr> sr_transcript = tu_text u, sr_item_id = tu_item u, sr_audio_seconds = of_nat (turn_samples u) / 24000 \<rparr>"

lemma so_run_append: "so_run x (ps @ qs) s = (case so_run x ps s of (t, a) \<Rightarrow> case so_run x qs t of (u, b) \<Rightarrow> (u, a @ b))"
  by (induction ps arbitrary: s) (auto split: prod.splits)

lemma so_send_works: "stt_works x \<Longrightarrow> so_open s \<Longrightarrow> so_send x m s = (Inr (), s\<lparr> so_tries := Suc (so_tries s), so_sent := so_sent s @ [m] \<rparr>)"
  by (simp add: so_send_def act_defs stt_works_def)

text \<open>The part of a state that a turn's messages are about.\<close>

definition so_view :: "stt \<Rightarrow> bool \<times> bool \<times> bool \<times> nat \<times> stt_result fut option \<times> rat" where
  "so_view s = (so_open s, so_reading s, so_waiting s, so_samples s, so_pending s, so_seconds s)"

lemma appends_run:
  assumes "stt_works x" "so_open s"
  shows "\<exists>t. so_run x (map (\<lambda>(b, r). Append b r) as) s = (t, [])
     \<and> so_view t = (True, so_reading s, so_waiting s, so_samples s + sum_list (map (\<lambda>(b, r). audio_samples (Append b r)) as), so_pending s, so_seconds s)"
  using assms(2)
proof (induction as arbitrary: s)
  case (Cons a as)
  obtain b r where a: "a = (b, r)" by (cases a)
  have "so_view (snd (so_append x b r s)) = (True, so_reading s, so_waiting s, so_samples s + audio_samples (Append b r), so_pending s, so_seconds s)"
    using so_send_works [OF assms(1)] Cons.prems
    by (auto simp: so_append_def act_bind_def act_lift_def act_ret_def upd_def audio_samples_def so_view_def split: sum.split)
  then show ?case using Cons.IH [of "snd (so_append x b r s)"] by (auto simp: a so_view_def add.assoc)
qed (auto simp: so_view_def)

lemma partials_run: "stt_works x \<Longrightarrow> so_reading s \<Longrightarrow> so_run x (map partial ds) s = (s, [])"
proof (induction ds)
  case (Cons d ds)
  have "so_read x (PDict [(''type'', PStr ''conversation.item.input_audio_transcription.delta''), (''delta'', PStr d)]) s = s"
    using Cons.prems by (simp add: so_read_def so_event_def dict_get_def hashable_def py_or_def Let_def act_defs stt_works_def)
  then show ?case using Cons by (simp add: partial_def)
qed simp

lemma commit_run:
  assumes "stt_works x" "so_open s" "\<not> so_waiting s" "0 < so_samples s"
  shows "\<exists>t. so_do x Commit s = (t, []) \<and> so_view t = (True, so_reading s, True, 0, Some Unresolved, of_nat (so_samples s) / 24000)"
proof -
  have ok: "snd (before_provider ''stt'' (sx_injector x)) = Inr ()" using assms(1) by (simp add: stt_works_def)
  show ?thesis
    using assms(2-) so_send_works [OF assms(1)]
    by (auto simp: so_commit_def ask_def act_bind_def act_lift_def act_ret_def upd_def ok so_view_def stt_rate_def)
qed

lemma answer_run:
  assumes "so_reading s" "so_waiting s" "so_pending s = Some Unresolved"
  shows "\<exists>t. so_run x [completed item words, Collect] s = (t, [Inr \<lparr> sr_transcript = words, sr_item_id = item, sr_audio_seconds = so_seconds s \<rparr>])
     \<and> so_open t = so_open s \<and> so_reading t \<and> \<not> so_waiting t \<and> so_samples t = so_samples s"
proof -
  let ?r = "\<lparr> sr_transcript = words, sr_item_id = item, sr_audio_seconds = so_seconds s \<rparr>"
  have "py_or (PStr w) (PStr []) = PStr w" for w by (simp add: py_or_def)
  then have "so_read x (PDict [(''type'', PStr ''conversation.item.input_audio_transcription.completed''), (''item_id'', PStr item), (''transcript'', PStr words)]) s
      = s\<lparr> so_pending := Some (Resolved ?r) \<rparr>"
    using assms by (simp add: so_read_def so_event_def dict_get_def hashable_def Let_def act_defs resolve_def)
  then show ?thesis using assms by (simp add: completed_def)
qed

lemma turn_run:
  assumes "stt_works x" "stt_idle s" "0 < turn_samples u"
  shows "\<exists>t. so_run x (turn_steps u) s = (t, [Inr (turn_result u)]) \<and> stt_idle t"
proof -
  obtain t1 where 1: "so_run x (map (\<lambda>(b, r). Append b r) (tu_audio u)) s = (t1, [])"
      "so_open t1" "so_reading t1" "\<not> so_waiting t1" "so_samples t1 = turn_samples u"
    using appends_run [OF assms(1), of s "tu_audio u"] assms(2) by (auto simp: stt_idle_def so_view_def turn_samples_def)
  obtain t2 where 2: "so_do x Commit t1 = (t2, [])" "so_open t2" "so_reading t2" "so_waiting t2" "so_samples t2 = 0"
      "so_pending t2 = Some Unresolved" "so_seconds t2 = of_nat (turn_samples u) / 24000"
    using commit_run [OF assms(1) 1(2,4)] 1(3,5) assms(3) by (auto simp: so_view_def)
  obtain t3 where 3: "so_run x [completed (tu_item u) (tu_text u), Collect] t2 = (t3, [Inr (turn_result u)])"
      "so_open t3" "so_reading t3" "\<not> so_waiting t3" "so_samples t3 = 0"
    using answer_run [OF 2(3,4,6), of x "tu_item u" "tu_text u"] 2(2,5,7) by (auto simp: turn_result_def)
  have commit: "so_run x [Commit] t1 = (t2, [])" by (simp only: so_run.simps 2(1) prod.case append_Nil)
  have "so_run x (turn_steps u) s = (t3, [Inr (turn_result u)])"
    unfolding turn_steps_def so_run_append
    by (simp only: 1(1) prod.case commit partials_run [OF assms(1) 2(3)] 3(1) append_Nil append_Nil2)
  then show ?thesis using 3 by (auto simp: stt_idle_def)
qed


text \<open>An answer that comes after its turn has timed out is taken for the answer of the next turn: the new turn
returns the old turn's text, with the seconds of the new turn's audio, since answers are not matched by their item.\<close>

theorem late_answer_goes_to_next_turn:
  assumes "stt_works x" and "so_open s" "so_reading s" "so_waiting s" "so_pending s = Some Unresolved" "so_samples s = 0"
    and "0 < audio_samples (Append b r)"
  shows "snd (so_run x [TimeOut, Append b r, Commit, completed item heard, Collect] s)
     = [Inl TimeoutError, Inr \<lparr> sr_transcript = heard, sr_item_id = item, sr_audio_seconds = of_nat (audio_samples (Append b r)) / 24000 \<rparr>]"
proof -
  let ?s = "s\<lparr> so_waiting := False, so_pending := Some Abandoned \<rparr>"
  have 0: "so_do x TimeOut s = (?s, [Inl TimeoutError])" using assms(4,5) by simp
  obtain t1 where 1: "so_run x (map (\<lambda>(b, r). Append b r) [(b, r)]) ?s = (t1, [])"
      "so_open t1" "so_reading t1" "\<not> so_waiting t1" "so_samples t1 = audio_samples (Append b r)"
    using appends_run [OF assms(1), of ?s "[(b, r)]"] assms(2,3,6) by (auto simp: so_view_def simp del: so_run.simps)
  obtain t2 where 2: "so_do x Commit t1 = (t2, [])" "so_open t2" "so_reading t2" "so_waiting t2" "so_samples t2 = 0"
      "so_pending t2 = Some Unresolved" "so_seconds t2 = of_nat (audio_samples (Append b r)) / 24000"
    using commit_run [OF assms(1) 1(2,4)] 1(3,5) assms(7) by (auto simp: so_view_def)
  have commit: "so_run x [Commit] t1 = (t2, [])" by (simp only: so_run.simps 2(1) prod.case append_Nil)
  obtain t3 where 3: "so_run x [completed item heard, Collect] t2
      = (t3, [Inr \<lparr> sr_transcript = heard, sr_item_id = item, sr_audio_seconds = so_seconds t2 \<rparr>])"
    using answer_run [OF 2(3,4,6), of x item heard] by blast
  have steps: "[TimeOut, Append b r, Commit, completed item heard, Collect]
      = [TimeOut] @ map (\<lambda>(b, r). Append b r) [(b, r)] @ [Commit] @ [completed item heard, Collect]" by simp
  have timed: "so_run x [TimeOut] s = (?s, [Inl TimeoutError])" by (simp only: so_run.simps 0 prod.case append_Nil2)
  show ?thesis unfolding steps so_run_append by (simp only: timed prod.case 1(1) commit 3 snd_conv append.simps 2(7))
qed

subsection \<open>A small instance\<close>

definition stt_ext_demo :: stt_ext where
  "stt_ext_demo = \<lparr> sx_send = (\<lambda>_. None), sx_delta = (\<lambda>_. None), sx_b64 = (\<lambda>_. ''AAAA''), sx_rep = (\<lambda>_. []), sx_injector = None \<rparr>"

definition stt_open_demo :: stt where
  "stt_open_demo = stt_new\<lparr> so_open := True, so_reading := True \<rparr>"

definition turn_demo :: "string \<Rightarrow> stt_turn" where
  "turn_demo text = \<lparr> tu_audio = [([0, 0, 0, 0], 24000)], tu_partials = [''a''], tu_item = ''i'', tu_text = text \<rparr>"

lemma stt_demo_works: "stt_works stt_ext_demo"
  by (simp add: stt_works_def stt_ext_demo_def before_provider_def)

lemma demo_samples: "audio_samples (Append [0, 0, 0, 0] 24000) = 2"
  by (simp add: audio_samples_def resample_pcm16_mono_def stt_rate_def)

lemma stt_bills_audio_once_witness:
  "reported (snd (so_run stt_ext_demo [Append [0, 0, 0, 0] 24000, Commit, TimeOut] stt_new)) \<le> 2 / 24000"
proof -
  obtain s outs where r: "so_run stt_ext_demo [Append [0, 0, 0, 0] 24000, Commit, TimeOut] stt_new = (s, outs)"
    by (cases "so_run stt_ext_demo [Append [0, 0, 0, 0] 24000, Commit, TimeOut] stt_new")
  have "sum_list (map audio_samples [Append [0, 0, 0, 0] 24000, Commit, TimeOut]) = 2"
    using demo_samples by (simp add: audio_samples_def)
  then have "reported outs + of_nat (so_samples s) / 24000 \<le> 2 / 24000" using stt_bills_audio_once [OF r] by simp
  moreover have "(0 :: rat) \<le> of_nat (so_samples s) / 24000" by simp
  ultimately have "reported outs \<le> 2 / 24000" by linarith
  then show ?thesis by (simp only: r snd_conv)
qed


lemma late_answer_goes_to_next_turn_witness:
  "\<exists>r. snd (so_run stt_ext_demo [TimeOut, Append [0, 0, 0, 0] 24000, Commit, completed ''i1'' ''old'', Collect]
      (stt_open_demo\<lparr> so_waiting := True, so_pending := Some Unresolved \<rparr>)) = [Inl TimeoutError, Inr r] \<and> sr_transcript r = ''old''"
  using late_answer_goes_to_next_turn [OF stt_demo_works, of "stt_open_demo\<lparr> so_waiting := True, so_pending := Some Unresolved \<rparr>"
      "[0, 0, 0, 0]" 24000 "''i1''" "''old''"] demo_samples
  by (simp add: stt_open_demo_def stt_new_def)

end
