(* ===== verification/Spec2Isabelle.thy ===== *)
theory Spec2Isabelle
  imports Call Billing_Workflow Durable_Action Webhook_Workflow Call_Workflow Event_Worker Tool_Executor Analytics_Writer Entry Stt
begin

text \<open>
  VoiceMesh: a verification development for the Python services under \<open>src/apps\<close>.

  \<^bold>\<open>The program.\<close> A caller's audio reaches the API over a WebSocket. One \<open>StreamModule\<close> per call finds the
  turns in the audio, has them transcribed, generates and speaks a response through bounded queues, and
  lets the caller interrupt it. Everything that happens becomes an event: the critical ones go through a table
  (the outbox), all go to Kafka. The event worker projects them into Postgres (calls, usage, live billing) and starts
  Temporal workflows: the finalization of a bill once the usage of a call is complete, its later adjustment,
  durable tool calls, and the delivery of webhooks. A second consumer writes the events to
  ClickHouse. The HTTP routes serve workspaces, users, sessions, agents and tools.

  \<^bold>\<open>Conventions.\<close> A class is a record, a method a definition over it; a coroutine is a state transformer
  whose exception keeps the changes made before it (\<open>Effects\<close>). An \<open>exn\<close> is a Python exception by its class
  and message, and \<open>res\<close> a result or an exception (\<open>Prelude\<close>). Python integers are \<open>int\<close>;
  \<open>float\<close> and \<open>Decimal\<close> are exact rationals; strings are lists of the 256 Latin-1 characters, and what
  is defined on their text (case, white space) is defined for ASCII (\<open>Py_Str\<close>); JSON values and the dicts
  that carry them are \<open>pyv\<close> and association lists (\<open>Py_Value\<close>). PCM samples and password hashes are 8- and 16-bit
  words. Time, fresh ids, salts and tokens are arguments. What the program calls but does not contain (the client libraries of OpenAI and Kafka, Postgres
  as a connection that can fail, Temporal, ClickHouse, HTTP end points, \<open>hashlib\<close>, WebRTC and Silero)
  is an argument that answers or raises, statement by statement; the documented behaviour a property needs of it is one of
  its hypotheses.

  \<^bold>\<open>The call\<close> (\<open>apps/api/pipeline\<close>).
  \<^item> \<open>Flow_Queue\<close>: \<open>backpressure.py\<close>. One state \<open>fq\<close> with the waiting putters and getters; the operations run
    at the granularity of the lock, so every interleaving of tasks is a list of steps (\<open>fq_exec\<close>). Depth, watermarks
    and hard limit agree in every reachable state, and the queue refines an unbounded list.
  \<^item> \<open>Audio\<close>, \<open>Vad\<close>: \<open>audio.py\<close>, \<open>stages/vad.py\<close>. Frames, energy, the three detectors and the turn detector,
    with the debouncing of starts and ends.
  \<^item> \<open>Barge_In\<close>: \<open>barge_in.py\<close>. The interruption state machine as a step function, its reachable states and the
    classification of utterances.
  \<^item> \<open>Session\<close>, \<open>Turns\<close>, \<open>Response\<close>, \<open>Call\<close>: \<open>stream_module.py\<close>, with the events of \<open>events.py\<close> and
    \<open>schemas.py\<close> (\<open>Events\<close>) and the settings (\<open>Config\<close>). \<open>Session\<close> has the state of a call and its
    emissions, \<open>Turns\<close> goes from frames to a turn, \<open>Response\<close> runs the three tasks of a response under an arbitrary schedule,
    \<open>Call\<close> has the message loop and the start and end of a call. \<open>Session_Laws\<close> proves, through the locale
    \<open>effect_order\<close>, the relation every action keeps: events only grow, sequence numbers rise, a cancelled
    response stays cancelled and silent.

  \<^bold>\<open>Events and tables\<close> (\<open>apps/api/events\<close>, \<open>apps/api/db\<close>).
  \<^item> \<open>Kafka\<close>: \<open>kafka_consumer.py\<close>, the batching loop, with commits after the handler only. \<open>Batch_Handler\<close> is the
    contract of a handler as a locale; it is interpreted by the analytics consumer.
  \<^item> \<open>Store\<close>, \<open>Projector\<close>: the tables, the idempotency claim and \<open>projector.py\<close>. Projection happens exactly once under
    every redelivery and batch split.
  \<^item> \<open>Outbox\<close>: \<open>outbox.py\<close>, several relays interleaved, each statement and publication fallible.
  \<^item> \<open>Event_Worker\<close>: \<open>apps/worker/event_worker.py\<close> over \<open>Kafka\<close> and \<open>Projector\<close>, across restarts.
  \<^item> \<open>Slug\<close>, \<open>Analytics\<close>, \<open>Analytics_Writer\<close>: \<open>analytics/clickhouse\<close>. Events as flat rows without content, written in
    batches, at least once.

  \<^bold>\<open>Workflows\<close> (\<open>apps/worker\<close>).
  \<^item> \<open>Temporal\<close>: the documented behaviour of the runtime the workflows rely on: retry policies, \<open>wait_condition\<close>,
    signals. \<open>Temporal_Client\<close>: \<open>temporal_client.py\<close>.
  \<^item> \<open>Tools\<close>, \<open>Tool_Executor\<close>: the tool models, templates and money of \<open>tools/\<close>, the executor and its routes.
  \<^item> \<open>Activities\<close>: \<open>activities.py\<close>, each statement on its own connection. \<open>Activity_Laws\<close> has what every activity keeps and
    that a retry repeats the same request; \<open>Billing\<close> what the billing activities promise against the
    projected usage.
  \<^item> \<open>Durable_Action\<close>, \<open>Billing_Workflow\<close>, \<open>Webhook_Workflow\<close>: \<open>durable_workflows.py\<close>; \<open>Call_Workflow\<close>: \<open>workflows.py\<close>. Each
    runs to its end, in a recorded final state.

  \<^bold>\<open>Identity\<close>. \<open>Passwords\<close>: \<open>security.py\<close>. \<open>Accounts\<close>: the tables of organizations, users, memberships, sessions
  and agents with their constraints, the identity half of \<open>repository.py\<close>, \<open>auth.py\<close> and the routes \<open>auth.py\<close> and
  \<open>agents.py\<close>. \<open>Account_Laws\<close> and \<open>Account_Flow\<close>: the tables stay consistent over every run of
  requests (\<open>acc_run\<close>), sessions last their time, requests stay in their workspace. \<open>Agent_Types\<close>: every stored agent
  is well typed.

  \<^bold>\<open>Providers and entry\<close>. \<open>Providers\<close>: \<open>openai_llm.py\<close>, \<open>openai_tts.py\<close>, \<open>provider_registry.py\<close> and the failure
  injector; a stream of the client library is a list of events, each of which may raise instead. \<open>Stt\<close>: \<open>openai_stt.py\<close>, one
  transcription session whose caller, reader task and provider take turns in any order. \<open>Entry\<close>: the two call
  sockets and the reads of \<open>main.py\<close>, \<open>routes/calls.py\<close>, \<open>routes/billing.py\<close> and \<open>routes/demo.py\<close>: which call a caller is let into, and
  which rows a workspace is shown.

  \<^bold>\<open>Below\<close>, the components meet: the last event of a call leads through the event worker, the workflow service and
  the billing workflow to a stored final bill.

  \<^bold>\<open>Bounds and fuel.\<close> Most recursion is structural or has a measure: the retry loop of the repository
  makes three attempts; the loops of the billing and call workflows count down deadlines; the search for a free slug ends
  since finitely many are taken (\<open>free_numbered\<close>). Fuel is used where an argument decides how long a loop runs: a
  durable action polls at most \<open>max_poll_attempts\<close> times and gets one unit more (\<open>da_poll\<close>); the call workflow needs one unit
  per signal and one to end, and its property takes any fuel above the number of signals; the relays and the
  event worker run for a list of polls or process lives, and the liveness properties say which suffice. A response is
  driven by a schedule of task steps, and its properties hold for every schedule. A confirmation that
  calls back into the session does so at most twice (\<open>sm_bp\<close>).

  \<^bold>\<open>Not modelled.\<close> The OpenAI, Kafka, Temporal, ClickHouse and WebSocket client libraries are not under \<open>src/\<close>: they are
  arguments. Telemetry (\<open>telemetry/\<close>) only declares metrics and spans, and no control flow depends on it. The process entry
  points, the application start-up of \<open>main.py\<close> and \<open>src/scripts\<close> wire the modelled parts together or drive them
  for demonstrations; the health, metrics and mock-customer routes report flags, one percentile query and canned answers. Of
  \<open>repository.py\<close>, the reports that are one aggregate SQL query (lists of calls and bills, billing summaries, percentiles) are left out: their
  content is Postgres' own aggregation. Floating-point rounding, Unicode beyond Latin-1 and real concurrency inside
  Postgres are outside the model.
\<close>

section \<open>Properties that span components\<close>

subsection \<open>From the last event of a call to its bill\<close>

text \<open>The input the event worker starts a finalization workflow with is one the workflow accepts.\<close>

definition worker_billing_input :: "billing_settings \<Rightarrow> pevent \<Rightarrow> string \<Rightarrow> string \<Rightarrow> billing_state \<Rightarrow> billing_input" where
  "worker_billing_input b e tenant assistant policy =
     \<lparr> bi_tenant = tenant, bi_assistant = assistant, bi_call = pe_call_id e, bi_required = ew_required_usage_types b,
       bi_timeout = cb_usage_wait_seconds b, bi_settle = cb_usage_settle_seconds b, bi_policy = policy,
       bi_version = cb_pricing_version b, bi_group = CONSUMER_GROUP, bi_trace = pe_trace_id e \<rparr>"

lemma strs_of_map: "strs_of k (map PStr ss) = Inr ss"
  by (induction ss) simp_all

lemma worker_input_parses:
  assumes "ew_tenant e = PStr tenant" "ew_assistant e = PStr assistant" "billing_state_of (cb_missing_usage_policy b) = Inr policy"
  shows "billing_input_of (inject_trace carrier (ew_billing_input b e)) = Inr (worker_billing_input b e tenant assistant policy)"
  using assms
  by (simp add: billing_input_of_def mf_str_def mf_strs_def mf_int_def mf_opt_str_def inject_trace_lookup strs_of_map
      ew_billing_input_def worker_billing_input_def opt_str_def split: option.split)

lemma worker_input_ended: "truthy (dict_get (inject_trace carrier (ew_billing_input b e)) ''call_ended'')"
  by (simp add: dict_get_def inject_trace_lookup ew_billing_input_def)

lemma billing_name_of: "billing_state_of s = Inr b \<Longrightarrow> billing_name b = s"
  by (auto simp: billing_state_of_def billing_states_def split: if_splits option.splits)



end
